(* ===== verification/Prelude.thy ===== *)
theory Prelude
  imports Main "HOL-Library.Word" "HOL-Library.AList"
begin

text \<open>
  The prelude of the development: Go errors and their texts, the parts of the Go package
  \<open>strings\<close> the program uses, decimal formatting (\<open>%d\<close>), and the base record \<open>env\<close>
  every component's state extends. The collections \<open>env_simps\<close> and \<open>str_simps\<close> hold the facts
  the component proofs rewrite with.
\<close>

named_theorems env_simps \<open>facts about drawing a fault and about framed environment fields\<close>
named_theorems str_simps \<open>facts about the string functions\<close>

section \<open>Errors\<close>

text \<open>
  A Go \<open>error\<close> is \<open>fmt.Errorf("text")\<close> or the wrapping \<open>fmt.Errorf("text: %w", err)\<close>. Several
  callers inspect the text (\<open>strings.Contains(err.Error(), "expired")\<close>), so the text is kept.
  Russian messages, which no caller inspects, are kept as an English gloss.
\<close>

datatype go_err = Msg string | Wrap string go_err

fun err_text :: "go_err \<Rightarrow> string" where
  "err_text (Msg s) = s"
| "err_text (Wrap p e) = p @ '': '' @ err_text e"

definition is_ok :: "go_err + 'a \<Rightarrow> bool" where
  "is_ok r = (case r of Inl _ \<Rightarrow> False | Inr _ \<Rightarrow> True)"

lemma is_ok_simps [simp]: "is_ok (Inr x)" "\<not> is_ok (Inl e)"
  by (simp_all add: is_ok_def)

section \<open>Strings\<close>

text \<open>Go strings are byte sequences; a \<open>char\<close> of HOL is a byte.\<close>

fun HasPrefix :: "string \<Rightarrow> string \<Rightarrow> bool" where
  "HasPrefix s [] = True"
| "HasPrefix [] (p # ps) = False"
| "HasPrefix (c # s) (p # ps) = (c = p \<and> HasPrefix s ps)"

definition HasSuffix :: "string \<Rightarrow> string \<Rightarrow> bool" where
  "HasSuffix s p = HasPrefix (rev s) (rev p)"

definition TrimPrefix :: "string \<Rightarrow> string \<Rightarrow> string" where
  "TrimPrefix s p = (if HasPrefix s p then drop (length p) s else s)"

fun Contains :: "string \<Rightarrow> string \<Rightarrow> bool" where
  "Contains [] p = (p = [])"
| "Contains (c # s) p = (HasPrefix (c # s) p \<or> Contains s p)"

definition ContainsAny :: "string \<Rightarrow> string \<Rightarrow> bool" where
  "ContainsAny s cs = list_ex (\<lambda>c. List.member cs c) s"

text \<open>\<open>strings.Split\<close> with a one-byte separator: always at least one part.\<close>

fun split_on :: "char \<Rightarrow> string \<Rightarrow> string list" where
  "split_on d [] = [[]]"
| "split_on d (c # s) =
     (if c = d then [] # split_on d s
      else (case split_on d s of [] \<Rightarrow> [[c]] | p # ps \<Rightarrow> (c # p) # ps))"

lemma HasPrefix_iff: "HasPrefix s p \<longleftrightarrow> (\<exists>t. s = p @ t)"
  by (induction s p rule: HasPrefix.induct) auto

lemma HasPrefix_append [simp, str_simps]: "HasPrefix (p @ t) p"
  by (auto simp: HasPrefix_iff)

lemma HasPrefix_refl [simp, str_simps]: "HasPrefix p p"
  by (auto simp: HasPrefix_iff)

lemma HasPrefix_append_same [str_simps]: "HasPrefix (p @ s) (p @ t) = HasPrefix s t"
  by (induction p) auto

lemma HasPrefix_drop: "HasPrefix s p \<Longrightarrow> s = p @ drop (length p) s"
  by (auto simp: HasPrefix_iff)

lemma TrimPrefix_append [simp, str_simps]: "TrimPrefix (p @ t) p = t"
  by (simp add: TrimPrefix_def)

lemma split_on_nonempty [simp]: "split_on d s \<noteq> []"
  by (induction s) (auto split: list.splits)

lemma split_on_no_sep: "p \<in> set (split_on d s) \<Longrightarrow> d \<notin> set p"
  by (induction s arbitrary: p) (auto split: list.splits if_splits)

text \<open>\<open>strings.TrimSpace\<close>: the UTF-8 encodings of the code points of Unicode's White_Space.\<close>

definition space_encodings :: "string list" where
  "space_encodings =
     map (\<lambda>n. [char_of n]) [9, 10, 11, 12, 13, 32 :: nat]
     @ map (map char_of) [[194, 133], [194, 160], [225, 154, 128 :: nat]]
     @ map (\<lambda>n. map char_of [226, 128, n]) ([128 ..< 139] @ [168, 169, 175 :: nat])
     @ map (map char_of) [[226, 129, 159], [227, 128, 128 :: nat]]"

definition drop_space :: "string list \<Rightarrow> string \<Rightarrow> string option" where
  "drop_space encs s = map_option (\<lambda>e. drop (length e) s) (find (HasPrefix s) encs)"

fun trim_left_fuel :: "nat \<Rightarrow> string list \<Rightarrow> string \<Rightarrow> string" where
  "trim_left_fuel 0 encs s = s"
| "trim_left_fuel (Suc n) encs s =
     (case drop_space encs s of None \<Rightarrow> s | Some t \<Rightarrow> trim_left_fuel n encs t)"

definition TrimSpace :: "string \<Rightarrow> string" where
  "TrimSpace s =
     (let l = trim_left_fuel (length s) space_encodings s
      in rev (trim_left_fuel (length l) (map rev space_encodings) (rev l)))"

lemma trim_left_fuel_Nil_encs [simp]: "trim_left_fuel n encs [] = []"
  if "[] \<notin> set encs"
proof -
  have "find (HasPrefix []) encs = None"
  proof (rule ccontr)
    assume "find (HasPrefix []) encs \<noteq> None"
    then obtain e where "e \<in> set encs" "HasPrefix [] e"
      by (auto simp: find_Some_iff find_None_iff)
    with that show False by (cases e) auto
  qed
  then show ?thesis by (cases n) (auto simp: drop_space_def)
qed

lemma trim_left_stop:
  "list_all (\<lambda>e. e \<noteq> [] \<and> hd e \<noteq> c) encs \<Longrightarrow> trim_left_fuel n encs (c # s) = c # s"
proof (induction n)
  case (Suc n)
  have "find (HasPrefix (c # s)) encs = None"
    using Suc.prems by (auto simp: find_None_iff list_all_iff neq_Nil_conv)
  then show ?case by (simp add: drop_space_def)
qed simp

lemma split_on_id: "d \<notin> set s \<Longrightarrow> split_on d s = [s]"
  by (induction s) auto

lemma split_on_sep: "d \<notin> set p \<Longrightarrow> split_on d (p @ d # s) = p # split_on d s"
  by (induction p) auto

section \<open>Decimal numbers\<close>

fun show_nat :: "nat \<Rightarrow> string" where
  "show_nat n =
     (if n < 10 then [char_of (48 + n)] else show_nat (n div 10) @ [char_of (48 + n mod 10)])"

declare show_nat.simps [simp del]

definition is_digit :: "char \<Rightarrow> bool" where
  "is_digit c = (48 \<le> (of_char c :: nat) \<and> (of_char c :: nat) \<le> 57)"

fun read_nat :: "string \<Rightarrow> nat" where
  "read_nat s = foldl (\<lambda>acc c. 10 * acc + (of_char c - 48)) 0 s"

lemma digit_char: "(n :: nat) < 10 \<Longrightarrow> is_digit (char_of (48 + n))"
  by (simp add: is_digit_def of_char_of)

lemma show_nat_digits: "c \<in> set (show_nat n) \<Longrightarrow> is_digit c"
proof (induction n rule: show_nat.induct)
  case (1 n)
  then show ?case
    by (subst (asm) show_nat.simps) (auto simp: digit_char split: if_splits)
qed

lemma show_nat_nonempty [simp]: "show_nat n \<noteq> []"
  by (subst show_nat.simps) simp

lemma read_show_nat: "read_nat (show_nat n) = n"
proof (induction n rule: show_nat.induct)
  case (1 n)
  show ?case
  proof (cases "n < 10")
    case True
    then show ?thesis by (subst show_nat.simps) (simp add: of_char_of)
  next
    case False
    with 1 have "read_nat (show_nat (n div 10)) = n div 10" by simp
    with False show ?thesis by (subst show_nat.simps) (simp add: of_char_of)
  qed
qed

lemma show_nat_inj: "show_nat m = show_nat n \<longleftrightarrow> m = n"
  by (metis read_show_nat)

text \<open>
  A separator that is no digit ends a formatted number: two keys built from numbers agree on a
  prefix only when the numbers agree. This is what keeps users' keys apart.
\<close>

lemma digits_then_sep_inj:
  assumes "a @ d # s = b @ d # t" and "d \<notin> set a" and "d \<notin> set b"
  shows "a = b \<and> s = t"
  using assms
proof (induction a arbitrary: b)
  case Nil
  then show ?case by (cases b) auto
next
  case (Cons x a)
  then show ?case by (cases b) auto
qed

lemma show_nat_sep_inj:
  assumes "show_nat m @ d # s = show_nat n @ d # t" and "\<not> is_digit d"
  shows "m = n \<and> s = t"
  using digits_then_sep_inj [OF assms(1)] assms(2) show_nat_digits show_nat_inj by blast

text \<open>A text that starts with a letter and ends in a digit has nothing to trim.\<close>

definition plain_start :: "char \<Rightarrow> bool" where
  "plain_start c = list_all (\<lambda>e. e \<noteq> [] \<and> hd e \<noteq> c) space_encodings"

lemma no_digit_spaces: "list_all (\<lambda>e. e \<noteq> [] \<and> \<not> is_digit (hd e)) (map rev space_encodings)"
  by code_simp

lemma TrimSpace_plain:
  assumes "plain_start c" and "is_digit d"
  shows "TrimSpace (c # s @ [d]) = c # s @ [d]"
proof -
  have "list_all (\<lambda>e. e \<noteq> [] \<and> hd e \<noteq> d) (map rev space_encodings)"
    using no_digit_spaces assms(2) by (auto simp: list_all_iff)
  then have "trim_left_fuel n (map rev space_encodings) (d # t) = d # t" for n t
    by (rule trim_left_stop)
  moreover have "trim_left_fuel n space_encodings (c # t) = c # t" for n t
    using assms(1) unfolding plain_start_def by (rule trim_left_stop)
  moreover have "rev (c # s @ [d]) = d # rev s @ [c]" by simp
  moreover have "rev (d # rev s @ [c]) = c # s @ [d]" by simp
  ultimately show ?thesis by (simp only: TrimSpace_def Let_def)
qed

section \<open>The environment\<close>

text \<open>
  Every component's state extends \<open>env\<close>: the clock in nanoseconds (\<open>time.Now()\<close>) and the
  pending failures of external calls. A call to Redis, MySQL or an object store first takes the
  next boolean of \<open>faults\<close>: \<open>True\<close> makes this call return an error and change nothing, \<open>False\<close>
  or an exhausted list lets it run. A theorem that says nothing of \<open>faults\<close> holds for every
  pattern of failures.
\<close>

record env =
  now :: int
  faults :: "bool list"

definition failing :: "'a env_scheme \<Rightarrow> bool" where
  "failing w = (case faults w of [] \<Rightarrow> False | b # _ \<Rightarrow> b)"

definition drawn :: "'a env_scheme \<Rightarrow> 'a env_scheme" where
  "drawn w = w\<lparr>faults := tl (faults w)\<rparr>"

definition calm :: "'a env_scheme \<Rightarrow> bool" where
  "calm w = list_all Not (faults w)"

lemma calm_not_failing [env_simps]: "calm w \<Longrightarrow> \<not> failing w"
  by (cases "faults w") (auto simp: calm_def failing_def)

lemma calm_drawn [env_simps]: "calm w \<Longrightarrow> calm (drawn w)"
  by (cases "faults w") (auto simp: calm_def drawn_def)

lemma drawn_fields [simp, env_simps]:
  "now (drawn w) = now w" "env.more (drawn w) = env.more w"
  by (simp_all add: drawn_def)

text \<open>Go's \<open>int64\<close> arithmetic wraps around.\<close>

definition wrap64 :: "int \<Rightarrow> int" where
  "wrap64 x = (x + 2 ^ 63) mod 2 ^ 64 - 2 ^ 63"

lemma wrap64_id: "- (2 ^ 63) \<le> x \<Longrightarrow> x < 2 ^ 63 \<Longrightarrow> wrap64 x = x"
  by (simp add: wrap64_def)

definition second :: int where "second = 1000000000"
definition minute :: int where "minute = 60 * second"
definition hour :: int where "hour = 60 * minute"

type_synonym uid = "32 word"
type_synonym u64 = "64 word"

end
