(* ===== verification/Cache.thy ===== *)
theory Cache
  imports Prelude
begin

text \<open>
  Redis as the program sees it (\<open>internal/infrastructure/redis/client.go\<close>) and the records kept in
  it (\<open>internal/infrastructure/storage/cache.go\<close>, \<open>reservation.go\<close>). The store is an association
  list from keys to a value and an expiry instant; a value is live strictly before its expiry. JSON
  documents are kept decoded: \<open>cval\<close> has one constructor per document type, so decoding a value of
  another kind fails as \<open>json.Unmarshal\<close> does. The interface the clients rely on is the locale
  \<open>timed_cache\<close>; it is interpreted on this store.
\<close>

section \<open>Values kept in Redis\<close>

record upload_reservation =
  rv_ID :: string
  rv_IdempotencyKey :: string
  rv_UserID :: uid
  rv_ObjectKey :: string
  rv_Size :: int
  rv_Status :: string
  rv_ExpiresAt :: int

datatype backend_type = NoType | BackendInternal | BackendExternal | OtherType string

record backend_config =
  bc_UserID :: uid
  bc_Type :: backend_type
  bc_Endpoint :: string
  bc_Bucket :: string
  bc_Region :: string
  bc_AccessKey :: string
  bc_SecretKey :: string
  bc_STS :: bool

record config_cache_entry =
  ce_Type :: backend_type
  ce_Endpoint :: string
  ce_Bucket :: string
  ce_Region :: string
  ce_STS :: bool

record session_meta =
  sm_UserID :: uid
  sm_Prefix :: string
  sm_Bucket :: string
  sm_ExpiresAt :: int

datatype cval =
    CReservation upload_reservation
  | CConfig config_cache_entry
  | CConn bool
  | CMeta session_meta
  | CBytes string

record cache_st = env +
  redis :: "(string \<times> (cval \<times> int option)) list"

section \<open>The Redis client\<close>

definition live :: "int \<Rightarrow> int option \<Rightarrow> bool" where
  "live t e = (case e of None \<Rightarrow> True | Some d \<Rightarrow> t < d)"

definition rlookup :: "'a cache_st_scheme \<Rightarrow> string \<Rightarrow> cval option" where
  "rlookup w k =
     (case map_of (redis w) k of
        None \<Rightarrow> None
      | Some (v, e) \<Rightarrow> if live (now w) e then Some v else None)"

text \<open>go-redis sends an expiry only for a positive duration; \<open>KeepTTL\<close> is \<open>-1\<close>.\<close>

definition expiry_of :: "'a cache_st_scheme \<Rightarrow> string \<Rightarrow> int \<Rightarrow> int option" where
  "expiry_of w k ttl =
     (if 0 < ttl then Some (now w + ttl)
      else if ttl = - 1
        then (case map_of (redis w) k of
                None \<Rightarrow> None
              | Some (_, e) \<Rightarrow> if live (now w) e then e else None)
      else None)"

definition rstore :: "string \<Rightarrow> cval \<Rightarrow> int \<Rightarrow> 'a cache_st_scheme \<Rightarrow> 'a cache_st_scheme" where
  "rstore k v ttl w = w\<lparr>redis := AList.update k (v, expiry_of w k ttl) (redis w)\<rparr>"

definition rremove :: "string \<Rightarrow> 'a cache_st_scheme \<Rightarrow> 'a cache_st_scheme" where
  "rremove k w = w\<lparr>redis := AList.delete k (redis w)\<rparr>"

definition advance :: "int \<Rightarrow> 'a env_scheme \<Rightarrow> 'a env_scheme" where
  "advance d w = w\<lparr>now := now w + d\<rparr>"

definition redis_down :: go_err where
  "redis_down = Msg ''redis: connection error''"

definition Ping :: "'a cache_st_scheme \<Rightarrow> (go_err + unit) \<times> 'a cache_st_scheme" where
  "Ping w = (if failing w then (Inl redis_down, drawn w) else (Inr (), drawn w))"

definition Set :: "string \<Rightarrow> cval \<Rightarrow> int \<Rightarrow> 'a cache_st_scheme
    \<Rightarrow> (go_err + unit) \<times> 'a cache_st_scheme" where
  "Set k v ttl w =
     (if failing w then (Inl redis_down, drawn w) else (Inr (), rstore k v ttl (drawn w)))"

definition Get :: "string \<Rightarrow> 'a cache_st_scheme \<Rightarrow> (go_err + cval) \<times> 'a cache_st_scheme" where
  "Get k w =
     (if failing w then (Inl redis_down, drawn w)
      else (case rlookup w k of
              None \<Rightarrow> (Inl (Msg ''redis: nil''), drawn w)
            | Some v \<Rightarrow> (Inr v, drawn w)))"

definition Del :: "string \<Rightarrow> 'a cache_st_scheme \<Rightarrow> (go_err + unit) \<times> 'a cache_st_scheme" where
  "Del k w =
     (if failing w then (Inl redis_down, drawn w) else (Inr (), rremove k (drawn w)))"

text \<open>\<open>Keys\<close> is only called with a pattern \<open>p*\<close> whose \<open>p\<close> has no wildcard.\<close>

definition live_keys :: "'a cache_st_scheme \<Rightarrow> string \<Rightarrow> string list" where
  "live_keys w p =
     map fst (filter (\<lambda>(k, (_, e)). HasPrefix k p \<and> live (now w) e) (redis w))"

definition Keys :: "string \<Rightarrow> 'a cache_st_scheme \<Rightarrow> (go_err + string list) \<times> 'a cache_st_scheme" where
  "Keys p w =
     (if failing w then (Inl redis_down, drawn w) else (Inr (live_keys w p), drawn w))"

definition SetNX :: "string \<Rightarrow> cval \<Rightarrow> int \<Rightarrow> 'a cache_st_scheme
    \<Rightarrow> (go_err + bool) \<times> 'a cache_st_scheme" where
  "SetNX k v ttl w =
     (if failing w then (Inl redis_down, drawn w)
      else if rlookup w k = None then (Inr True, rstore k v ttl (drawn w))
      else (Inr False, drawn w))"

definition Expire :: "string \<Rightarrow> int \<Rightarrow> 'a cache_st_scheme
    \<Rightarrow> (go_err + bool) \<times> 'a cache_st_scheme" where
  "Expire k ttl w =
     (if failing w then (Inl (Wrap ''redis expire'' redis_down), drawn w)
      else (case rlookup w k of
              None \<Rightarrow> (Inl (Msg (''key '' @ k @ '' not found in redis'')), drawn w)
            | Some v \<Rightarrow>
                (Inr True,
                 if 0 < ttl then rstore k v ttl (drawn w) else rremove k (drawn w))))"

text \<open>Locks: a key held by a token, taken with \<open>SET NX\<close>, released or renewed by its owner only.\<close>

definition bad_lock_args :: "string \<Rightarrow> string \<Rightarrow> int \<Rightarrow> bool" where
  "bad_lock_args k token ttl = (k = [] \<or> token = [] \<or> ttl \<le> 0)"

definition TryLock :: "string \<Rightarrow> string \<Rightarrow> int \<Rightarrow> 'a cache_st_scheme
    \<Rightarrow> (go_err + bool) \<times> 'a cache_st_scheme" where
  "TryLock k token ttl w =
     (if bad_lock_args k token ttl then (Inl (Msg ''invalid redis lock arguments''), w)
      else SetNX k (CBytes token) ttl w)"

definition Unlock :: "string \<Rightarrow> string \<Rightarrow> 'a cache_st_scheme
    \<Rightarrow> (go_err + unit) \<times> 'a cache_st_scheme" where
  "Unlock k token w =
     (if k = [] \<or> token = [] then (Inl (Msg ''invalid redis lock arguments''), w)
      else if failing w then (Inl redis_down, drawn w)
      else if rlookup w k = Some (CBytes token) then (Inr (), rremove k (drawn w))
      else (Inr (), drawn w))"

definition RenewLock :: "string \<Rightarrow> string \<Rightarrow> int \<Rightarrow> 'a cache_st_scheme
    \<Rightarrow> (go_err + unit) \<times> 'a cache_st_scheme" where
  "RenewLock k token ttl w =
     (if bad_lock_args k token ttl then (Inl (Msg ''invalid redis lock arguments''), w)
      else if failing w then (Inl redis_down, drawn w)
      else if rlookup w k = Some (CBytes token)
        then (Inr (), rstore k (CBytes token) ttl (drawn w))
      else (Inl (Msg ''redis lock ownership lost''), drawn w))"

section \<open>The interface: a cache with expiry\<close>

locale timed_cache =
  fixes lookup :: "'s \<Rightarrow> string \<Rightarrow> 'v option"
    and store :: "string \<Rightarrow> 'v \<Rightarrow> int \<Rightarrow> 's \<Rightarrow> 's"
    and remove :: "string \<Rightarrow> 's \<Rightarrow> 's"
    and wait :: "int \<Rightarrow> 's \<Rightarrow> 's"
  assumes lookup_store:
      "lookup (store k v ttl s) j = (if j = k then Some v else lookup s j)"
    and lookup_remove: "lookup (remove k s) j = (if j = k then None else lookup s j)"
    and lookup_wait_live: "0 < ttl \<Longrightarrow> 0 \<le> d \<Longrightarrow> d < ttl \<Longrightarrow> lookup (wait d (store k v ttl s)) k = Some v"
    and lookup_wait_dead: "0 < ttl \<Longrightarrow> ttl \<le> d \<Longrightarrow> lookup (wait d (store k v ttl s)) k = None"
    and lookup_wait_only: "0 \<le> d \<Longrightarrow> lookup (wait d s) j = Some v \<Longrightarrow> lookup s j = Some v"
    and lookup_wait_other: "j \<noteq> k \<Longrightarrow> lookup (wait d (store k v ttl s)) j = lookup (wait d s) j"
begin

lemma store_then_lookup: "lookup (store k v ttl s) k = Some v"
  by (simp add: lookup_store)

lemma remove_then_lookup: "lookup (remove k s) k = None"
  by (simp add: lookup_remove)

lemma store_twice: "lookup (store k v ttl (store k u ttl' s)) j = lookup (store k v ttl s) j"
  by (simp add: lookup_store)

lemma store_commutes:
  "k \<noteq> k' \<Longrightarrow> lookup (store k v t (store k' v' t' s)) j = lookup (store k' v' t' (store k v t s)) j"
  by (simp add: lookup_store)

lemma remove_store: "lookup (remove k (store k v ttl s)) j = lookup (remove k s) j"
  by (simp add: lookup_remove lookup_store)

lemma nothing_appears: "0 \<le> d \<Longrightarrow> lookup s j = None \<Longrightarrow> lookup (wait d s) j = None"
  using lookup_wait_only by (metis not_None_eq)

lemma lifetime:
  "0 < ttl \<Longrightarrow> 0 \<le> d \<Longrightarrow> lookup (wait d (store k v ttl s)) k = (if d < ttl then Some v else None)"
  using lookup_wait_live lookup_wait_dead by (cases "d < ttl") auto

end

lemma live_later: "0 \<le> d \<Longrightarrow> live (t + d) e \<Longrightarrow> live t e"
  by (auto simp: live_def split: option.splits)

lemma expiry_live: "live (now w) (expiry_of w k ttl)"
  by (auto simp: expiry_of_def live_def split: option.splits)

interpretation rc: timed_cache rlookup rstore rremove advance
proof
  show "rlookup (rstore k v ttl s) j = (if j = k then Some v else rlookup s j)"
    for k v ttl and s :: "'a cache_st_scheme" and j
    by (auto simp: rlookup_def rstore_def update_conv' expiry_live split: option.splits)
  show "rlookup (rremove k s) j = (if j = k then None else rlookup s j)"
    for k and s :: "'a cache_st_scheme" and j
    by (auto simp: rlookup_def rremove_def delete_conv' split: option.splits)
  show "0 < ttl \<Longrightarrow> 0 \<le> d \<Longrightarrow> d < ttl \<Longrightarrow> rlookup (advance d (rstore k v ttl s)) k = Some v"
    for ttl d k v and s :: "'a cache_st_scheme"
    by (simp add: rlookup_def rstore_def update_conv' advance_def live_def expiry_of_def)
  show "0 < ttl \<Longrightarrow> ttl \<le> d \<Longrightarrow> rlookup (advance d (rstore k v ttl s)) k = None"
    for ttl d k v and s :: "'a cache_st_scheme"
    by (simp add: rlookup_def rstore_def update_conv' advance_def live_def expiry_of_def)
  show "0 \<le> d \<Longrightarrow> rlookup (advance d s) j = Some v \<Longrightarrow> rlookup s j = Some v"
    for d and s :: "'a cache_st_scheme" and j v
    by (auto simp: rlookup_def advance_def live_later split: option.splits if_splits)
  show "j \<noteq> k \<Longrightarrow> rlookup (advance d (rstore k v ttl s)) j = rlookup (advance d s) j"
    for j k d v ttl and s :: "'a cache_st_scheme"
    by (simp add: rlookup_def rstore_def update_conv' advance_def split: option.splits)
qed

lemma rlookup_advance_drawn [simp, env_simps]: "rlookup (advance d (drawn w)) k = rlookup (advance d w) k"
  by (simp add: rlookup_def drawn_def advance_def split: option.splits)

lemma rlookup_drawn [simp, env_simps]: "rlookup (drawn w) k = rlookup w k"
  by (auto simp: rlookup_def drawn_def split: option.splits)

lemma redis_fields [simp, env_simps]:
  "now (rstore k v ttl w) = now w" "faults (rstore k v ttl w) = faults w"
  "now (rremove k w) = now w" "faults (rremove k w) = faults w"
  "cache_st.more (rstore k v ttl w) = cache_st.more w"
  "cache_st.more (rremove k w) = cache_st.more w"
  "cache_st.more (drawn w) = cache_st.more w"
  "redis (drawn w) = redis w"
  by (simp_all add: rstore_def rremove_def drawn_def)

lemma calm_redis [simp, env_simps]:
  "calm (rstore k v ttl w) = calm w" "calm (rremove k w) = calm w"
  by (simp_all add: calm_def)

lemmas redis_ops = Ping_def Set_def Get_def Del_def Keys_def SetNX_def Expire_def

end
