(* ===== verification/CacheRecords.thy ===== *)
theory CacheRecords
  imports Cache
begin

text \<open>
  The documents of \<open>internal/infrastructure/storage/cache.go\<close> and \<open>reservation.go\<close>: their keys,
  their decoding, and the save, load and delete functions over the Redis client. The Boolean first
  argument says whether the cache interface value is non-nil.
\<close>

section \<open>Decoding\<close>

definition zero_time :: int where
  "zero_time = - 62135596800 * second"

definition zero_reservation :: upload_reservation where
  "zero_reservation = \<lparr>rv_ID = [], rv_IdempotencyKey = [], rv_UserID = 0, rv_ObjectKey = [],
     rv_Size = 0, rv_Status = [], rv_ExpiresAt = zero_time\<rparr>"

definition zero_config_entry :: config_cache_entry where
  "zero_config_entry = \<lparr>ce_Type = NoType, ce_Endpoint = [], ce_Bucket = [], ce_Region = [],
     ce_STS = False\<rparr>"

definition zero_meta :: session_meta where
  "zero_meta = \<lparr>sm_UserID = 0, sm_Prefix = [], sm_Bucket = [], sm_ExpiresAt = zero_time\<rparr>"

definition json_err :: go_err where
  "json_err = Msg ''json: cannot unmarshal''"

text \<open>
  \<open>json.Unmarshal\<close> ignores unknown fields and leaves missing ones zero, so an object of another
  kind decodes to the fields the two kinds share; raw bytes are no JSON object.
\<close>

fun decode_reservation :: "cval \<Rightarrow> go_err + upload_reservation" where
  "decode_reservation (CReservation r) = Inr r"
| "decode_reservation (CMeta m) =
     Inr (zero_reservation\<lparr>rv_UserID := sm_UserID m, rv_ExpiresAt := sm_ExpiresAt m\<rparr>)"
| "decode_reservation (CConfig c) = Inr zero_reservation"
| "decode_reservation (CConn b) = Inr zero_reservation"
| "decode_reservation (CBytes s) = Inl json_err"

fun decode_config :: "cval \<Rightarrow> go_err + config_cache_entry" where
  "decode_config (CConfig c) = Inr c"
| "decode_config (CMeta m) = Inr (zero_config_entry\<lparr>ce_Bucket := sm_Bucket m\<rparr>)"
| "decode_config (CReservation r) = Inr zero_config_entry"
| "decode_config (CConn b) = Inr zero_config_entry"
| "decode_config (CBytes s) = Inl json_err"

fun decode_conn :: "cval \<Rightarrow> go_err + bool" where
  "decode_conn (CConn b) = Inr b"
| "decode_conn v = Inl json_err"

fun decode_meta :: "cval \<Rightarrow> go_err + session_meta" where
  "decode_meta (CMeta m) = Inr m"
| "decode_meta (CReservation r) =
     Inr (zero_meta\<lparr>sm_UserID := rv_UserID r, sm_ExpiresAt := rv_ExpiresAt r\<rparr>)"
| "decode_meta (CConfig c) = Inr (zero_meta\<lparr>sm_Bucket := ce_Bucket c\<rparr>)"
| "decode_meta (CConn b) = Inr zero_meta"
| "decode_meta (CBytes s) = Inl json_err"

section \<open>Keys\<close>

definition show_uid :: "uid \<Rightarrow> string" where
  "show_uid u = show_nat (unat u)"

definition reservation_key :: "string \<Rightarrow> string" where
  "reservation_key rid = ''reservation:'' @ rid"

definition IdempotencyKey :: "uid \<Rightarrow> string \<Rightarrow> string" where
  "IdempotencyKey u k = ''reservation-idempotency:'' @ show_uid u @ '':'' @ k"

definition quota_reserved_key :: "uid \<Rightarrow> string" where
  "quota_reserved_key u = ''quota:'' @ show_uid u @ '':reserved''"

definition config_cache_key :: "uid \<Rightarrow> string" where
  "config_cache_key u = ''storage:config:'' @ show_uid u"

definition conn_check_key :: "string \<Rightarrow> string" where
  "conn_check_key ep = ''storage:conncheck:'' @ ep"

definition session_meta_key :: "string \<Rightarrow> string" where
  "session_meta_key sid = ''storage:session:'' @ sid"

lemma show_uid_inj [simp]: "show_uid u = show_uid v \<longleftrightarrow> u = v"
  by (simp add: show_uid_def show_nat_inj word_unat_eq_iff)

lemma colon_no_digit [simp]: "\<not> is_digit CHR '':''" "\<not> is_digit CHR ''/''"
  by (simp_all add: is_digit_def)

lemma IdempotencyKey_inj [simp]:
  "IdempotencyKey u k = IdempotencyKey v l \<longleftrightarrow> u = v \<and> k = l"
proof
  assume "IdempotencyKey u k = IdempotencyKey v l"
  then have "show_nat (unat u) @ CHR '':'' # k = show_nat (unat v) @ CHR '':'' # l"
    by (simp add: IdempotencyKey_def show_uid_def)
  from show_nat_sep_inj [OF this] show "u = v \<and> k = l"
    by (simp add: word_unat_eq_iff)
qed simp

lemma key_kinds [simp]:
  "reservation_key a = reservation_key b \<longleftrightarrow> a = b"
  "reservation_key a \<noteq> IdempotencyKey u k" "IdempotencyKey u k \<noteq> reservation_key a"
  "reservation_key a \<noteq> quota_reserved_key u" "quota_reserved_key u \<noteq> reservation_key a"
  "IdempotencyKey u k \<noteq> quota_reserved_key v" "quota_reserved_key v \<noteq> IdempotencyKey u k"
  by (simp_all add: reservation_key_def IdempotencyKey_def quota_reserved_key_def)

lemma reservation_prefix [simp]:
  "HasPrefix (reservation_key a) ''reservation:''"
  "\<not> HasPrefix (IdempotencyKey u k) ''reservation:''"
  "\<not> HasPrefix (quota_reserved_key u) ''reservation:''"
  by (simp_all add: reservation_key_def IdempotencyKey_def quota_reserved_key_def)

section \<open>Upload reservations\<close>

definition SaveUploadReservation :: "bool \<Rightarrow> upload_reservation \<Rightarrow> int \<Rightarrow> 'a cache_st_scheme
    \<Rightarrow> (go_err + unit) \<times> 'a cache_st_scheme" where
  "SaveUploadReservation has_cache r ttl w =
     (if \<not> has_cache \<or> rv_ID r = [] \<or> rv_UserID r = 0 \<or> rv_Size r \<le> 0 \<or> ttl \<le> 0
      then (Inl (Msg ''invalid upload reservation''), w)
      else
        let r = r\<lparr>rv_ExpiresAt := now w + ttl\<rparr>;
            r = (if rv_Status r = [] then r\<lparr>rv_Status := ''reserved''\<rparr> else r)
        in Set (reservation_key (rv_ID r)) (CReservation r) ttl w)"

definition LoadUploadReservation :: "bool \<Rightarrow> string \<Rightarrow> 'a cache_st_scheme
    \<Rightarrow> (go_err + upload_reservation) \<times> 'a cache_st_scheme" where
  "LoadUploadReservation has_cache rid w =
     (if \<not> has_cache \<or> rid = [] then (Inl (Msg ''invalid reservation''), w)
      else (case Get (reservation_key rid) w of
              (Inl e, w) \<Rightarrow> (Inl e, w)
            | (Inr b, w) \<Rightarrow> (decode_reservation b, w)))"

definition DeleteUploadReservation :: "bool \<Rightarrow> string \<Rightarrow> 'a cache_st_scheme
    \<Rightarrow> (go_err + unit) \<times> 'a cache_st_scheme" where
  "DeleteUploadReservation has_cache rid w =
     (if \<not> has_cache \<or> rid = [] then (Inl (Msg ''invalid reservation''), w)
      else Del (reservation_key rid) w)"

section \<open>Configuration, connection checks, sessions, the fast-check flag\<close>

definition CachedBackendConfig :: "bool \<Rightarrow> uid \<Rightarrow> backend_config \<Rightarrow> 'a cache_st_scheme
    \<Rightarrow> (go_err + unit) \<times> 'a cache_st_scheme" where
  "CachedBackendConfig has_cache u cfg w =
     (if \<not> has_cache then (Inl (Msg ''cache is nil''), w)
      else Set (config_cache_key u)
             (CConfig \<lparr>ce_Type = bc_Type cfg, ce_Endpoint = bc_Endpoint cfg,
                ce_Bucket = bc_Bucket cfg, ce_Region = bc_Region cfg, ce_STS = bc_STS cfg\<rparr>)
             (5 * minute) w)"

definition LoadCachedConfig :: "bool \<Rightarrow> uid \<Rightarrow> 'a cache_st_scheme
    \<Rightarrow> (config_cache_entry \<times> bool) \<times> 'a cache_st_scheme" where
  "LoadCachedConfig has_cache u w =
     (if \<not> has_cache then ((zero_config_entry, False), w)
      else (case Get (config_cache_key u) w of
              (Inl e, w) \<Rightarrow> ((zero_config_entry, False), w)
            | (Inr b, w) \<Rightarrow>
                (case decode_config b of
                   Inl e \<Rightarrow> ((zero_config_entry, False), w)
                 | Inr entry \<Rightarrow> ((entry, True), w))))"

definition CacheConnectionCheck :: "bool \<Rightarrow> string \<Rightarrow> bool \<Rightarrow> 'a cache_st_scheme
    \<Rightarrow> (go_err + unit) \<times> 'a cache_st_scheme" where
  "CacheConnectionCheck has_cache ep ok w =
     (if \<not> has_cache \<or> ep = [] then (Inl (Msg ''invalid connection-check cache arguments''), w)
      else Set (conn_check_key ep) (CConn ok) (10 * minute) w)"

definition LoadConnectionCheck :: "bool \<Rightarrow> string \<Rightarrow> 'a cache_st_scheme
    \<Rightarrow> (bool \<times> bool) \<times> 'a cache_st_scheme" where
  "LoadConnectionCheck has_cache ep w =
     (if \<not> has_cache \<or> ep = [] then ((False, False), w)
      else (case Get (conn_check_key ep) w of
              (Inl e, w) \<Rightarrow> ((False, False), w)
            | (Inr b, w) \<Rightarrow>
                (case decode_conn b of Inl e \<Rightarrow> ((False, False), w) | Inr ok \<Rightarrow> ((ok, True), w))))"

definition SaveSessionMeta :: "bool \<Rightarrow> string \<Rightarrow> session_meta \<Rightarrow> int \<Rightarrow> 'a cache_st_scheme
    \<Rightarrow> (go_err + unit) \<times> 'a cache_st_scheme" where
  "SaveSessionMeta has_cache sid m ttl w =
     (if \<not> has_cache \<or> sid = [] then (Inl (Msg ''invalid session meta arguments''), w)
      else Set (session_meta_key sid) (CMeta m) ttl w)"

definition LoadSessionMeta :: "bool \<Rightarrow> string \<Rightarrow> 'a cache_st_scheme
    \<Rightarrow> (go_err + session_meta) \<times> 'a cache_st_scheme" where
  "LoadSessionMeta has_cache sid w =
     (if \<not> has_cache \<or> sid = [] then (Inl (Msg ''invalid session meta arguments''), w)
      else (case Get (session_meta_key sid) w of
              (Inl e, w) \<Rightarrow> (Inl e, w)
            | (Inr b, w) \<Rightarrow> (decode_meta b, w)))"

text \<open>\<open>time.Duration(size/1024)*time.Second + time.Minute\<close>, in wrapping 64-bit arithmetic.\<close>

definition quota_flag_ttl :: "int \<Rightarrow> int" where
  "quota_flag_ttl sz =
     wrap64 (wrap64 ((if sz < 0 then - ((- sz) div 1024) else sz div 1024) * second) + minute)"

definition SetQuotaReserved :: "bool \<Rightarrow> uid \<Rightarrow> int \<Rightarrow> 'a cache_st_scheme
    \<Rightarrow> (go_err + unit) \<times> 'a cache_st_scheme" where
  "SetQuotaReserved has_cache u sz w =
     (if \<not> has_cache then (Inl (Msg ''cache is nil''), w)
      else Set (quota_reserved_key u) (CBytes ''1'') (quota_flag_ttl sz) w)"

definition DelQuotaReserved :: "bool \<Rightarrow> uid \<Rightarrow> 'a cache_st_scheme
    \<Rightarrow> (go_err + unit) \<times> 'a cache_st_scheme" where
  "DelQuotaReserved has_cache u w =
     (if \<not> has_cache then (Inl (Msg ''cache is nil''), w) else Del (quota_reserved_key u) w)"

section \<open>Facts about saving and loading\<close>

lemma Set_calm: "calm w \<Longrightarrow> Set k v ttl w = (Inr (), rstore k v ttl (drawn w))"
  by (simp add: Set_def calm_not_failing)

lemma Get_calm:
  "calm w \<Longrightarrow> Get k w =
     (case rlookup w k of None \<Rightarrow> Inl (Msg ''redis: nil'') | Some v \<Rightarrow> Inr v, drawn w)"
  by (simp add: Get_def calm_not_failing split: option.splits)

lemma Del_calm: "calm w \<Longrightarrow> Del k w = (Inr (), rremove k (drawn w))"
  by (simp add: Del_def calm_not_failing)

definition stored_form :: "upload_reservation \<Rightarrow> int \<Rightarrow> upload_reservation" where
  "stored_form r t =
     r\<lparr>rv_ExpiresAt := t, rv_Status := (if rv_Status r = [] then ''reserved'' else rv_Status r)\<rparr>"

lemma Save_calm:
  assumes "calm w" and "rv_ID r \<noteq> []" and "rv_UserID r \<noteq> 0" and "0 < rv_Size r" and "0 < ttl"
  shows "SaveUploadReservation True r ttl w =
     (Inr (), rstore (reservation_key (rv_ID r)) (CReservation (stored_form r (now w + ttl))) ttl
        (drawn w))"
  using assms by (auto simp: SaveUploadReservation_def Set_calm stored_form_def Let_def)

lemma calm_advance [simp, env_simps]: "calm (advance d w) = calm w"
  by (simp add: calm_def advance_def)

lemma Load_calm:
  assumes "calm w" and "rid \<noteq> []"
  shows "LoadUploadReservation True rid w =
     (case rlookup w (reservation_key rid) of
        None \<Rightarrow> Inl (Msg ''redis: nil'')
      | Some v \<Rightarrow> decode_reservation v, drawn w)"
  using assms by (simp add: LoadUploadReservation_def Get_calm split: option.splits)

text \<open>
  A saved reservation loads back for exactly its lifetime. The expiry written into the document and
  the expiry Redis keeps for its key are the same instant.
\<close>

lemma save_wait_load:
  assumes "calm w" and "rv_ID r \<noteq> []" and "rv_UserID r \<noteq> 0" and "0 < rv_Size r" and "0 < ttl"
    and "0 \<le> d"
  shows "fst (LoadUploadReservation True (rv_ID r)
           (advance d (snd (SaveUploadReservation True r ttl w)))) =
         (if d < ttl then Inr (stored_form r (now w + ttl)) else Inl (Msg ''redis: nil''))"
  using assms by (simp add: Save_calm Load_calm calm_drawn rc.lifetime)

end
