(* ===== verification/Quota.thy ===== *)
theory Quota
  imports CacheRecords
begin

text \<open>
  The storage quota table \<open>user_storage_quota\<close> and the operations of
  \<open>internal/repository/mysql/storage.go\<close> on it. Columns are \<open>BIGINT UNSIGNED\<close>: a statement whose
  result leaves the range, or breaks the table's CHECK that \<open>used + reserved\<close> does not overflow,
  is an SQL error and changes nothing. The contract the services rely on is the locale
  \<open>quota_ledger\<close> over natural numbers; the SQL operations are an interpretation of it.
\<close>

record quota_row =
  q_quota :: u64
  q_used :: u64
  q_reserved :: u64

record quota_st = cache_st +
  quota_tbl :: "(uid \<times> quota_row) list"

definition sql_down :: go_err where
  "sql_down = Msg ''sql: connection error''"

definition out_of_range :: go_err where
  "out_of_range = Msg ''BIGINT UNSIGNED value is out of range''"

definition in_range :: "int \<Rightarrow> int \<Rightarrow> bool" where
  "in_range used reserved = (0 \<le> used \<and> 0 \<le> reserved \<and> used + reserved < 2 ^ 64)"

definition put_row :: "uid \<Rightarrow> quota_row \<Rightarrow> 'a quota_st_scheme \<Rightarrow> 'a quota_st_scheme" where
  "put_row u r w = w\<lparr>quota_tbl := AList.update u r (quota_tbl w)\<rparr>"

definition row_of :: "'a quota_st_scheme \<Rightarrow> uid \<Rightarrow> quota_row option" where
  "row_of w u = map_of (quota_tbl w) u"

section \<open>The operations\<close>

definition EnsureStorageQuota :: "uid \<Rightarrow> 'a quota_st_scheme
    \<Rightarrow> (go_err + unit) \<times> 'a quota_st_scheme" where
  "EnsureStorageQuota u w =
     (if u = 0 then (Inl (Msg ''invalid user ID''), w)
      else if failing w then (Inl sql_down, drawn w)
      else (Inr (),
        (case row_of w u of
           None \<Rightarrow> put_row u \<lparr>q_quota = 0, q_used = 0, q_reserved = 0\<rparr> (drawn w)
         | Some r \<Rightarrow> drawn w)))"

text \<open>
  The guard of \<open>ReserveStorage\<close>, on 64-bit words as the code writes it; \<open>uint64(size)\<close> of a
  positive \<open>int64\<close> is its value.
\<close>

definition exceeds :: "quota_row \<Rightarrow> int \<Rightarrow> bool" where
  "exceeds r sz =
     (0 < q_quota r \<and>
      (q_quota r < q_used r \<or> q_quota r - q_used r < q_reserved r
       \<or> unat (q_quota r - q_used r - q_reserved r) < nat sz))"

definition ReserveStorage :: "uid \<Rightarrow> int \<Rightarrow> 'a quota_st_scheme
    \<Rightarrow> (go_err + unit) \<times> 'a quota_st_scheme" where
  "ReserveStorage u sz w =
     (if u = 0 \<or> sz \<le> 0 then (Inl (Msg ''invalid storage reservation''), w)
      else if failing w then (Inl sql_down, drawn w) \<comment> \<open>BeginTx\<close>
      else let w = drawn w in
      if failing w then (Inl sql_down, drawn w) \<comment> \<open>SELECT ... FOR UPDATE\<close>
      else let w = drawn w in
      case row_of w u of
        None \<Rightarrow> (Inl (Msg ''storage quota not initialized''), w)
      | Some r \<Rightarrow>
          if exceeds r sz then (Inl (Msg ''storage quota exceeded''), w)
          else if failing w then (Inl sql_down, drawn w) \<comment> \<open>UPDATE\<close>
          else let w = drawn w in
          if \<not> in_range (uint (q_used r)) (uint (q_reserved r) + sz) then (Inl out_of_range, w)
          else if failing w then (Inl sql_down, drawn w) \<comment> \<open>Commit\<close>
          else (Inr (), put_row u (r\<lparr>q_reserved := q_reserved r + word_of_int sz\<rparr>) (drawn w)))"

definition CommitStorage :: "uid \<Rightarrow> int \<Rightarrow> 'a quota_st_scheme
    \<Rightarrow> (go_err + unit) \<times> 'a quota_st_scheme" where
  "CommitStorage u sz w =
     (if u = 0 \<or> sz \<le> 0 then (Inl (Msg ''invalid storage commit''), w)
      else if failing w then (Inl sql_down, drawn w)
      else let w = drawn w in
      case row_of w u of
        None \<Rightarrow> (Inl (Msg ''storage reservation not found''), w)
      | Some r \<Rightarrow>
          if uint (q_reserved r) < sz then (Inl (Msg ''storage reservation not found''), w)
          else if \<not> in_range (uint (q_used r) + sz) (uint (q_reserved r) - sz)
            then (Inl out_of_range, w)
          else (Inr (), put_row u (r\<lparr>q_reserved := q_reserved r - word_of_int sz,
                                     q_used := q_used r + word_of_int sz\<rparr>) w))"

definition ReleaseStorage :: "uid \<Rightarrow> int \<Rightarrow> 'a quota_st_scheme
    \<Rightarrow> (go_err + unit) \<times> 'a quota_st_scheme" where
  "ReleaseStorage u sz w =
     (if u = 0 \<or> sz \<le> 0 then (Inl (Msg ''invalid storage release''), w)
      else if failing w then (Inl sql_down, drawn w)
      else let w = drawn w in
      case row_of w u of
        None \<Rightarrow> (Inl (Msg ''storage reservation not found''), w)
      | Some r \<Rightarrow>
          if uint (q_reserved r) < sz then (Inl (Msg ''storage reservation not found''), w)
          else (Inr (), put_row u (r\<lparr>q_reserved := q_reserved r - word_of_int sz\<rparr>) w))"

definition ResetStorageQuota :: "uid \<Rightarrow> 'a quota_st_scheme
    \<Rightarrow> (go_err + unit) \<times> 'a quota_st_scheme" where
  "ResetStorageQuota u w =
     (if u = 0 then (Inl (Msg ''invalid storage quota reset''), w)
      else if failing w then (Inl sql_down, drawn w)
      else (Inr (),
        (case row_of w u of
           None \<Rightarrow> drawn w
         | Some r \<Rightarrow> put_row u (r\<lparr>q_used := 0, q_reserved := 0\<rparr>) (drawn w))))"

definition StorageQuota :: "uid \<Rightarrow> 'a quota_st_scheme
    \<Rightarrow> (go_err + (u64 \<times> u64 \<times> u64)) \<times> 'a quota_st_scheme" where
  "StorageQuota u w =
     (if u = 0 then (Inl (Msg ''invalid user ID''), w)
      else if failing w then (Inl sql_down, drawn w)
      else (case row_of w u of
              None \<Rightarrow> (Inl (Msg ''sql: no rows in result set''), drawn w)
            | Some r \<Rightarrow> (Inr (q_quota r, q_used r, q_reserved r), drawn w)))"

definition ListReservedUsers :: "'a quota_st_scheme \<Rightarrow> (go_err + uid list) \<times> 'a quota_st_scheme" where
  "ListReservedUsers w =
     (if failing w then (Inl sql_down, drawn w)
      else (Inr (map fst (filter (\<lambda>(u, r). 0 < q_reserved r) (quota_tbl w))), drawn w))"

definition ReleaseAllReservedStorage :: "uid \<Rightarrow> 'a quota_st_scheme
    \<Rightarrow> (go_err + unit) \<times> 'a quota_st_scheme" where
  "ReleaseAllReservedStorage u w =
     (if u = 0 then (Inl (Msg ''invalid user ID''), w)
      else if failing w then (Inl sql_down, drawn w)
      else (Inr (),
        (case row_of w u of
           None \<Rightarrow> drawn w
         | Some r \<Rightarrow> put_row u (r\<lparr>q_reserved := 0\<rparr>) (drawn w))))"

section \<open>The contract\<close>

text \<open>A ledger entry: quota (0 is no limit), bytes used, bytes reserved.\<close>

type_synonym entry = "nat \<times> nat \<times> nat"

definition fits :: "entry \<Rightarrow> bool" where
  "fits e = (case e of (q, us, rs) \<Rightarrow> q = 0 \<or> us + rs \<le> q)"

datatype ledger_op = OReserve uid int | OCommit uid int | ORelease uid int

locale quota_ledger =
  fixes view :: "'s \<Rightarrow> uid \<Rightarrow> entry option"
    and reserve commit release :: "uid \<Rightarrow> int \<Rightarrow> 's \<Rightarrow> (go_err + unit) \<times> 's"
  assumes reserve_ok: "reserve u n s = (Inr x, s') \<Longrightarrow>
      \<exists>q us rs. view s u = Some (q, us, rs) \<and> 0 < n \<and> fits (q, us, rs + nat n)
        \<and> view s' = (view s)(u \<mapsto> (q, us, rs + nat n))"
    and reserve_err: "reserve u n s = (Inl e, s') \<Longrightarrow> view s' = view s"
    and commit_ok: "commit u n s = (Inr x, s') \<Longrightarrow>
      \<exists>q us rs. view s u = Some (q, us, rs) \<and> 0 < n \<and> nat n \<le> rs
        \<and> view s' = (view s)(u \<mapsto> (q, us + nat n, rs - nat n))"
    and commit_err: "commit u n s = (Inl e, s') \<Longrightarrow> view s' = view s"
    and release_ok: "release u n s = (Inr x, s') \<Longrightarrow>
      \<exists>q us rs. view s u = Some (q, us, rs) \<and> 0 < n \<and> nat n \<le> rs
        \<and> view s' = (view s)(u \<mapsto> (q, us, rs - nat n))"
    and release_err: "release u n s = (Inl e, s') \<Longrightarrow> view s' = view s"
begin

definition all_fit :: "'s \<Rightarrow> bool" where
  "all_fit s = (\<forall>u e. view s u = Some e \<longrightarrow> fits e)"

fun step :: "ledger_op \<Rightarrow> 's \<Rightarrow> 's" where
  "step (OReserve u n) s = snd (reserve u n s)"
| "step (OCommit u n) s = snd (commit u n s)"
| "step (ORelease u n) s = snd (release u n s)"

lemma reserve_view:
  "view (snd (reserve u n s)) = view s
   \<or> (\<exists>q us rs. view s u = Some (q, us, rs) \<and> 0 < n \<and> fits (q, us, rs + nat n)
        \<and> view (snd (reserve u n s)) = (view s)(u \<mapsto> (q, us, rs + nat n)))"
proof (cases "reserve u n s")
  case (Pair r s')
  show ?thesis
  proof (cases r)
    case (Inl e)
    with Pair reserve_err [of u n s e s'] show ?thesis by simp
  next
    case (Inr x)
    with Pair have "reserve u n s = (Inr x, s')" by simp
    from reserve_ok [OF this] Pair show ?thesis by simp
  qed
qed

lemma reserve_cases:
  obtains (err) "view (snd (reserve u n s)) = view s"
  | (ok) q us rs where "view s u = Some (q, us, rs)" "0 < n" "fits (q, us, rs + nat n)"
      "view (snd (reserve u n s)) = (view s)(u \<mapsto> (q, us, rs + nat n))"
  using reserve_view [of u n s] by (elim disjE exE conjE)

lemma commit_view:
  "view (snd (commit u n s)) = view s
   \<or> (\<exists>q us rs. view s u = Some (q, us, rs) \<and> 0 < n \<and> nat n \<le> rs
        \<and> view (snd (commit u n s)) = (view s)(u \<mapsto> (q, us + nat n, rs - nat n)))"
proof (cases "commit u n s")
  case (Pair r s')
  show ?thesis
  proof (cases r)
    case (Inl e)
    with Pair commit_err [of u n s e s'] show ?thesis by simp
  next
    case (Inr x)
    with Pair have "commit u n s = (Inr x, s')" by simp
    from commit_ok [OF this] Pair show ?thesis by simp
  qed
qed

lemma commit_cases:
  obtains (err) "view (snd (commit u n s)) = view s"
  | (ok) q us rs where "view s u = Some (q, us, rs)" "0 < n" "nat n \<le> rs"
      "view (snd (commit u n s)) = (view s)(u \<mapsto> (q, us + nat n, rs - nat n))"
  using commit_view [of u n s] by (elim disjE exE conjE)

lemma release_view:
  "view (snd (release u n s)) = view s
   \<or> (\<exists>q us rs. view s u = Some (q, us, rs) \<and> 0 < n \<and> nat n \<le> rs
        \<and> view (snd (release u n s)) = (view s)(u \<mapsto> (q, us, rs - nat n)))"
proof (cases "release u n s")
  case (Pair r s')
  show ?thesis
  proof (cases r)
    case (Inl e)
    with Pair release_err [of u n s e s'] show ?thesis by simp
  next
    case (Inr x)
    with Pair have "release u n s = (Inr x, s')" by simp
    from release_ok [OF this] Pair show ?thesis by simp
  qed
qed

lemma release_cases:
  obtains (err) "view (snd (release u n s)) = view s"
  | (ok) q us rs where "view s u = Some (q, us, rs)" "0 < n" "nat n \<le> rs"
      "view (snd (release u n s)) = (view s)(u \<mapsto> (q, us, rs - nat n))"
  using release_view [of u n s] by (elim disjE exE conjE)

lemma all_fit_upd: "all_fit s \<Longrightarrow> view s' = (view s)(u \<mapsto> e) \<Longrightarrow> fits e \<Longrightarrow> all_fit s'"
  by (auto simp: all_fit_def split: if_splits)

lemma all_fit_same: "all_fit s \<Longrightarrow> view s' = view s \<Longrightarrow> all_fit s'"
  by (simp add: all_fit_def)

lemma step_all_fit:
  assumes "all_fit s"
  shows "all_fit (step x s)"
proof (cases x)
  case (OReserve u n)
  then show ?thesis
    using assms by (cases rule: reserve_cases [of u n s]) (auto intro: all_fit_upd all_fit_same)
next
  case (OCommit u n)
  show ?thesis
  proof (cases rule: commit_cases [of u n s])
    case err
    with OCommit assms show ?thesis by (auto intro: all_fit_same)
  next
    case (ok q us rs)
    with assms have "fits (q, us, rs)" by (auto simp: all_fit_def)
    with ok have "fits (q, us + nat n, rs - nat n)" by (auto simp: fits_def)
    with OCommit ok assms show ?thesis by (auto intro: all_fit_upd)
  qed
next
  case (ORelease u n)
  show ?thesis
  proof (cases rule: release_cases [of u n s])
    case err
    with ORelease assms show ?thesis by (auto intro: all_fit_same)
  next
    case (ok q us rs)
    with assms have "fits (q, us, rs)" by (auto simp: all_fit_def)
    with ok have "fits (q, us, rs - nat n)" by (auto simp: fits_def)
    with ORelease ok assms show ?thesis by (auto intro: all_fit_upd)
  qed
qed

lemma run_all_fit: "all_fit s \<Longrightarrow> all_fit (fold step xs s)"
  by (induction xs arbitrary: s) (auto intro: step_all_fit)

lemma reserve_other: "v \<noteq> u \<Longrightarrow> view (snd (reserve u n s)) v = view s v"
  by (cases rule: reserve_cases [of u n s]) simp_all

lemma commit_other: "v \<noteq> u \<Longrightarrow> view (snd (commit u n s)) v = view s v"
  by (cases rule: commit_cases [of u n s]) simp_all

lemma release_other: "v \<noteq> u \<Longrightarrow> view (snd (release u n s)) v = view s v"
  by (cases rule: release_cases [of u n s]) simp_all

lemmas other_users = reserve_other commit_other release_other

lemma reserve_release_restores:
  assumes "reserve u n s = (Inr x, s1)" and "release u n s1 = (Inr y, s2)"
  shows "view s2 = view s"
proof -
  from reserve_ok [OF assms(1)] release_ok [OF assms(2)] show ?thesis
    by (auto simp: fun_eq_iff)
qed

lemma reserve_commit_moves:
  assumes "reserve u n s = (Inr x, s1)" and "commit u n s1 = (Inr y, s2)"
    and "view s u = Some (q, us, rs)"
  shows "view s2 u = Some (q, us + nat n, rs)"
  using reserve_ok [OF assms(1)] commit_ok [OF assms(2)] assms(3) by auto

end

section \<open>The SQL operations meet the contract\<close>

definition entry_of :: "quota_row \<Rightarrow> entry" where
  "entry_of r = (unat (q_quota r), unat (q_used r), unat (q_reserved r))"

definition quota_view :: "'a quota_st_scheme \<Rightarrow> uid \<Rightarrow> entry option" where
  "quota_view w u = map_option entry_of (row_of w u)"

lemma row_of_simps [simp, env_simps]:
  "row_of (put_row u r w) v = (if v = u then Some r else row_of w v)"
  "row_of (drawn w) v = row_of w v"
  by (simp_all add: row_of_def put_row_def drawn_def update_conv')

lemma quota_view_simps [simp, env_simps]:
  "quota_view (put_row u r w) = (quota_view w)(u \<mapsto> entry_of r)"
  "quota_view (drawn w) = quota_view w"
  by (simp_all add: quota_view_def fun_eq_iff)

lemma put_row_fields [simp, env_simps]:
  "now (put_row u r w) = now w" "faults (put_row u r w) = faults w"
  "redis (put_row u r w) = redis w" "quota_st.more (put_row u r w) = quota_st.more w"
  by (simp_all add: put_row_def)

lemma calm_put_row [simp, env_simps]: "calm (put_row u r w) = calm w"
  by (simp add: calm_def)

lemma size_word: assumes "0 \<le> sz" and "sz < 2 ^ 64"
  shows "unat (word_of_int sz :: u64) = nat sz"
proof -
  have "uint (word_of_int sz :: u64) = sz"
    by (rule word_of_int_inverse [OF refl]) (use assms in simp_all)
  then show ?thesis by (simp only: unat_eq_nat_uint)
qed
lemma uint_u64_unat: "uint (x :: u64) = int (unat x)"
  by simp
lemma unat_add_size:
  assumes "0 < sz" and "uint x + sz < 2 ^ 64"
  shows "unat (x + word_of_int sz :: u64) = unat x + nat sz"
proof -
  have sz: "sz < 2 ^ 64" using assms(2) uint_ge_0 [of x] by linarith
  then have w: "unat (word_of_int sz :: u64) = nat sz"
    using assms(1) by (intro size_word) simp_all
  have "unat x + nat sz < 2 ^ 64"
  proof -
    have "int (unat x + nat sz) < int (2 ^ 64)"
      using assms by (simp only: of_nat_add uint_u64_unat) simp
    then show ?thesis by (simp only: of_nat_less_iff)
  qed
  then have "unat x + unat (word_of_int sz :: u64) < 2 ^ LENGTH(64)"
    by (simp only: w) simp
  then have "unat (x + word_of_int sz) = unat x + unat (word_of_int sz :: u64)"
    by (simp only: unat_add_lem)
  then show ?thesis by (simp only: w)
qed

lemma unat_sub_size:
  assumes "0 < sz" and "sz \<le> uint x"
  shows "unat (x - word_of_int sz :: u64) = unat x - nat sz"
proof -
  have "sz < 2 ^ 64" using assms(2) uint_lt2p [of x] by simp
  then have w: "unat (word_of_int sz :: u64) = nat sz"
    using assms(1) by (intro size_word) simp_all
  have "nat sz \<le> unat x" using assms by (simp only: unat_eq_nat_uint nat_mono)
  then have "word_of_int sz \<le> x" by (simp only: word_le_nat_alt w)
  then have "unat (x - word_of_int sz) = unat x - unat (word_of_int sz :: u64)"
    by (rule unat_sub)
  then show ?thesis by (simp only: w)
qed

lemma exceeds_iff:
  "\<not> exceeds row sz \<longleftrightarrow> fits (unat (q_quota row), unat (q_used row), unat (q_reserved row) + nat sz)"
proof -
  define q u r where defs: "q = q_quota row" "u = q_used row" "r = q_reserved row"
  have e: "exceeds row sz = (0 < q \<and> (q < u \<or> q - u < r \<or> unat (q - u - r) < nat sz))"
    by (simp add: exceeds_def defs)
  have "\<not> exceeds row sz \<longleftrightarrow> unat q = 0 \<or> unat u + (unat r + nat sz) \<le> unat q"
  proof (cases "q = 0")
  case True
  then show ?thesis by (simp add: e)
next
  case False
  then have q: "0 < q" "unat q \<noteq> 0" by (simp_all add: word_gt_0 unat_eq_0)
  show ?thesis
  proof (cases "u \<le> q")
    case False
    then have "unat q < unat u" by (simp add: word_less_nat_alt not_le)
    with False q show ?thesis by (simp add: e not_le)
  next
    case uq: True
    have d1: "unat (q - u) = unat q - unat u" using uq by (rule unat_sub)
    show ?thesis
    proof (cases "r \<le> q - u")
      case False
      then have "unat q - unat u < unat r" by (simp only: not_le word_less_nat_alt d1)
      with False q show ?thesis by (simp add: e not_le)
    next
      case True
      have d2: "unat (q - u - r) = unat q - unat u - unat r"
        using unat_sub [OF True] d1 by simp
      have "unat u \<le> unat q" "unat r \<le> unat q - unat u"
        using uq True by (simp_all only: word_le_nat_alt d1)
      with uq True q d2 show ?thesis by (auto simp: e not_less)
    qed
  qed
qed
  then show ?thesis by (simp add: fits_def defs)
qed

lemma quota_view_row: "row_of w u = Some r \<Longrightarrow> quota_view w u = Some (entry_of r)"
  by (simp add: quota_view_def)

lemma nat_le_unat: "sz \<le> uint (x :: u64) \<Longrightarrow> nat sz \<le> unat x"
  by (simp only: unat_eq_nat_uint nat_mono)

lemma in_range_bounds:
  assumes "in_range (uint a) (uint b + sz)"
  shows "uint b + sz < 2 ^ 64"
  using assms uint_ge_0 [of a] by (simp only: in_range_def) linarith

lemma in_range_bounds': "in_range (uint a + sz) (uint b - sz) \<Longrightarrow> uint a + sz < 2 ^ 64"
  by (simp only: in_range_def) linarith

lemma ReserveStorage_ok:
  assumes "ReserveStorage u n s = (Inr x, s')"
  shows "\<exists>r. row_of s u = Some r \<and> 0 < n \<and> \<not> exceeds r n
    \<and> in_range (uint (q_used r)) (uint (q_reserved r) + n)
    \<and> quota_view s' = (quota_view s)(u \<mapsto> entry_of (r\<lparr>q_reserved := q_reserved r + word_of_int n\<rparr>))"
  using assms by (auto simp: ReserveStorage_def Let_def split: if_splits option.splits)

lemma CommitStorage_ok:
  assumes "CommitStorage u n s = (Inr x, s')"
  shows "\<exists>r. row_of s u = Some r \<and> 0 < n \<and> n \<le> uint (q_reserved r)
    \<and> in_range (uint (q_used r) + n) (uint (q_reserved r) - n)
    \<and> quota_view s' = (quota_view s)(u \<mapsto> entry_of (r\<lparr>q_reserved := q_reserved r - word_of_int n,
          q_used := q_used r + word_of_int n\<rparr>))"
  using assms by (auto simp: CommitStorage_def Let_def split: if_splits option.splits)

lemma ReleaseStorage_ok:
  assumes "ReleaseStorage u n s = (Inr x, s')"
  shows "\<exists>r. row_of s u = Some r \<and> 0 < n \<and> n \<le> uint (q_reserved r)
    \<and> quota_view s' = (quota_view s)(u \<mapsto> entry_of (r\<lparr>q_reserved := q_reserved r - word_of_int n\<rparr>))"
  using assms by (auto simp: ReleaseStorage_def Let_def split: if_splits option.splits)

lemma quota_op_err:
  "ReserveStorage u n s = (Inl e, s') \<Longrightarrow> quota_view s' = quota_view s"
  "CommitStorage u n s = (Inl e, s') \<Longrightarrow> quota_view s' = quota_view s"
  "ReleaseStorage u n s = (Inl e, s') \<Longrightarrow> quota_view s' = quota_view s"
  by (auto simp: ReserveStorage_def CommitStorage_def ReleaseStorage_def Let_def
      split: if_splits option.splits)

interpretation ql: quota_ledger quota_view ReserveStorage CommitStorage ReleaseStorage
proof
  fix u n x e and s s' :: "'a quota_st_scheme"
  show "quota_view s' = quota_view s" if "ReserveStorage u n s = (Inl e, s')"
    using that by (rule quota_op_err)
  show "quota_view s' = quota_view s" if "CommitStorage u n s = (Inl e, s')"
    using that by (rule quota_op_err)
  show "quota_view s' = quota_view s" if "ReleaseStorage u n s = (Inl e, s')"
    using that by (rule quota_op_err)
  show "\<exists>q us rs. quota_view s u = Some (q, us, rs) \<and> 0 < n \<and> fits (q, us, rs + nat n)
          \<and> quota_view s' = (quota_view s)(u \<mapsto> (q, us, rs + nat n))"
    if op: "ReserveStorage u n s = (Inr x, s')"
  proof -
    from ReserveStorage_ok [OF op] obtain r where r: "row_of s u = Some r" "0 < n" "\<not> exceeds r n"
      "in_range (uint (q_used r)) (uint (q_reserved r) + n)"
      "quota_view s' = (quota_view s)(u \<mapsto> entry_of (r\<lparr>q_reserved := q_reserved r + word_of_int n\<rparr>))"
      by blast
    from unat_add_size [OF r(2) in_range_bounds [OF r(4)]] r exceeds_iff [of r n]
    show ?thesis by (simp add: quota_view_row entry_of_def)
  qed
  show "\<exists>q us rs. quota_view s u = Some (q, us, rs) \<and> 0 < n \<and> nat n \<le> rs
          \<and> quota_view s' = (quota_view s)(u \<mapsto> (q, us + nat n, rs - nat n))"
    if op: "CommitStorage u n s = (Inr x, s')"
  proof -
    from CommitStorage_ok [OF op] obtain r where r: "row_of s u = Some r" "0 < n"
      "n \<le> uint (q_reserved r)" "in_range (uint (q_used r) + n) (uint (q_reserved r) - n)"
      "quota_view s' = (quota_view s)(u \<mapsto> entry_of (r\<lparr>q_reserved := q_reserved r - word_of_int n,
          q_used := q_used r + word_of_int n\<rparr>))"
      by blast
    from unat_add_size [OF r(2) in_range_bounds' [OF r(4)]] unat_sub_size [OF r(2,3)] r
      nat_le_unat [OF r(3)]
    show ?thesis by (simp add: quota_view_row entry_of_def)
  qed
  show "\<exists>q us rs. quota_view s u = Some (q, us, rs) \<and> 0 < n \<and> nat n \<le> rs
          \<and> quota_view s' = (quota_view s)(u \<mapsto> (q, us, rs - nat n))"
    if op: "ReleaseStorage u n s = (Inr x, s')"
  proof -
    from ReleaseStorage_ok [OF op] obtain r where r: "row_of s u = Some r" "0 < n"
      "n \<le> uint (q_reserved r)"
      "quota_view s' = (quota_view s)(u \<mapsto> entry_of (r\<lparr>q_reserved := q_reserved r - word_of_int n\<rparr>))"
      by blast
    from unat_sub_size [OF r(2,3)] r nat_le_unat [OF r(3)]
    show ?thesis by (simp add: quota_view_row entry_of_def)
  qed
qed

end
