(* ===== verification/Objects.thy ===== *)
theory Objects
  imports Quota "HOL-Library.List_Lexorder" "HOL-Library.Char_ord"
begin

text \<open>
  Object keys and object stores: the key checks of \<open>infrastructure/storage/minio_client.go\<close>,
  \<open>usecase/storage/files.go\<close> and \<open>delivery/http/storage.go\<close>, and \<open>MinIOStorage\<close> over a bucket.
  A bucket is an association list from keys to objects; \<open>stores\<close> holds one bucket for each store
  the program can reach. Entity tags and presigned URLs come from the S3 service: the functions
  \<open>etag_fn\<close> and \<open>url_fn\<close> of the state are arbitrary. The contract is the locale \<open>object_store\<close>.
\<close>

section \<open>Keys and names\<close>

definition userPrefix :: "uid \<Rightarrow> string" where
  "userPrefix u = ''users/'' @ show_uid u @ ''/''"

definition key_breakers :: string where
  "key_breakers = [CHR 0x5C, CHR 0x00, CHR 0x0D, CHR 0x0A]"

definition bad_segment :: "string \<Rightarrow> bool" where
  "bad_segment p = (p = ''.'' \<or> p = ''..'')"

definition is_control :: "char \<Rightarrow> bool" where
  "is_control c = ((of_char c :: nat) < 32 \<or> (of_char c :: nat) = 127)"

definition validateKey :: "string \<Rightarrow> go_err + unit" where
  "validateKey key =
     (if TrimSpace key = [] \<or> HasPrefix key ''/'' \<or> ContainsAny key key_breakers
      then Inl (Msg ''object key must not be empty'')
      else if list_ex bad_segment (split_on CHR ''/'' key)
        then Inl (Msg ''object key contains an unsafe path segment'')
      else if list_ex is_control key then Inl (Msg ''object key contains control characters'')
      else Inr ())"

definition validateUserKey :: "uid \<Rightarrow> string \<Rightarrow> go_err + unit" where
  "validateUserKey u key =
     (if u = 0 \<or> \<not> HasPrefix key (userPrefix u) \<or> ContainsAny key key_breakers
      then Inl (Msg ''object does not belong to user'')
      else if list_ex (\<lambda>p. p = [] \<or> bad_segment p)
                (split_on CHR ''/'' (drop (length (userPrefix u)) key))
        then Inl (Msg ''invalid object key'')
      else Inr ())"

definition validStorageKey :: "uid \<Rightarrow> string \<Rightarrow> bool" where
  "validStorageKey u key =
     (if \<not> HasPrefix key (userPrefix u) \<or> ContainsAny key key_breakers then False
      else \<not> list_ex (\<lambda>p. p = [] \<or> bad_segment p) (split_on CHR ''/'' (TrimPrefix key (userPrefix u))))"

text \<open>\<open>filepath.Base\<close> on a Unix path.\<close>

definition filepath_Base :: "string \<Rightarrow> string" where
  "filepath_Base p =
     (if p = [] then ''.''
      else let q = rev (dropWhile (\<lambda>c. c = CHR ''/'') (rev p))
           in if q = [] then ''/'' else last (split_on CHR ''/'' q))"

definition name_breakers :: string where
  "name_breakers = [CHR 0x5C, CHR ''/'', CHR 0x00, CHR 0x0D, CHR 0x0A]"

definition validateName :: "string \<Rightarrow> go_err + unit" where
  "validateName name =
     (if TrimSpace name = [] \<or> bad_segment name \<or> name \<noteq> filepath_Base name
         \<or> ContainsAny name name_breakers
      then Inl (Msg ''invalid file name'')
      else if 255 < length name then Inl (Msg ''file name is too long'')
      else if list_ex is_control name then Inl (Msg ''invalid file name'')
      else Inr ())"

definition trim_slash :: "string \<Rightarrow> string" where
  "trim_slash s = (if HasSuffix s ''/'' then butlast s else s)"

lemma ContainsAny_iff: "ContainsAny s cs \<longleftrightarrow> (\<exists>c \<in> set s. c \<in> set cs)"
  by (simp add: ContainsAny_def list_ex_iff)

lemma userPrefix_prefix_inj:
  assumes "HasPrefix key (userPrefix u)" and "HasPrefix key (userPrefix v)"
  shows "u = v"
proof -
  from assms(1) obtain s where s: "key = userPrefix u @ s" by (auto simp: HasPrefix_iff)
  from assms(2) obtain t where t: "key = userPrefix v @ t" by (auto simp: HasPrefix_iff)
  from s t have "show_nat (unat u) @ CHR ''/'' # s = show_nat (unat v) @ CHR ''/'' # t"
    by (simp add: userPrefix_def show_uid_def)
  from show_nat_sep_inj [OF this] show ?thesis by (simp add: word_unat_eq_iff)
qed

lemma userPrefix_inj [simp]: "userPrefix u = userPrefix v \<longleftrightarrow> u = v"
  using userPrefix_prefix_inj [of "userPrefix u" u v] by auto

lemma trim_slash_app [simp]: "trim_slash (s @ ''/'') = s"
  by (simp add: trim_slash_def HasSuffix_def)

lemma validateKey_userPrefix: "is_ok (validateKey (trim_slash (userPrefix u)))"
proof -
  define n where "n = show_uid u"
  have dig: "\<forall>c \<in> set n. is_digit c" "n \<noteq> []"
    using show_nat_digits by (auto simp: n_def show_uid_def)
  have key: "trim_slash (userPrefix u) = ''users/'' @ n"
    using trim_slash_app [of "''users/'' @ n"] by (simp add: userPrefix_def n_def)
  obtain m d where md: "n = m @ [d]" "is_digit d"
    using dig by (cases n rule: rev_cases) auto
  have "plain_start CHR ''u''" by code_simp
  from TrimSpace_plain [OF this md(2), of "''sers/'' @ m"]
  have "TrimSpace (''users/'' @ n) = ''users/'' @ n" by (simp add: md)
  moreover have nd: "\<not> is_digit CHR ''/''" "\<not> is_digit CHR 0x5C" "\<not> is_digit CHR 0x00"
    "\<not> is_digit CHR 0x0D" "\<not> is_digit CHR 0x0A" "\<not> is_digit CHR ''.''"
    by (simp_all add: is_digit_def)
  have "\<not> ContainsAny (''users/'' @ n) key_breakers"
    using dig nd by (auto simp: ContainsAny_def list_ex_iff key_breakers_def)
  moreover have "split_on CHR ''/'' (''users/'' @ n) = [''users'', n]"
    using split_on_sep [of "CHR ''/''" "''users''" n] split_on_id [of "CHR ''/''" n] dig(1) nd(1)
    by fastforce
  moreover have "\<not> bad_segment n" using dig nd by (auto simp: bad_segment_def)
  moreover have "is_digit c \<Longrightarrow> \<not> is_control c" for c
    by (simp add: is_digit_def is_control_def)
  then have "\<not> list_ex is_control (''users/'' @ n)"
    using dig by (auto simp: list_ex_iff) (simp_all add: is_control_def)
  ultimately show ?thesis by (simp add: key validateKey_def bad_segment_def)
qed

lemma validateUserKey_ok_iff:
  "is_ok (validateUserKey u key) \<longleftrightarrow> u \<noteq> 0 \<and> validStorageKey u key"
  by (auto simp: validateUserKey_def validStorageKey_def TrimPrefix_def split: if_splits)

lemma validStorageKeyD:
  assumes "validStorageKey u key"
  shows "HasPrefix key (userPrefix u)" and "\<not> ContainsAny key key_breakers"
    and "p \<in> set (split_on CHR ''/'' (TrimPrefix key (userPrefix u))) \<Longrightarrow> p \<noteq> [] \<and> \<not> bad_segment p"
  using assms by (auto simp: validStorageKey_def list_ex_iff split: if_splits)

section \<open>Stores\<close>

datatype store_id = Internal | External string string string string
  \<comment> \<open>endpoint, access key, secret key, bucket\<close>

record sobject =
  so_Data :: string
  so_ETag :: string
  so_Modified :: int

record object_info =
  oi_Key :: string
  oi_Size :: int
  oi_Modified :: int
  oi_ETag :: string

record obj_st = quota_st +
  stores :: "store_id \<Rightarrow> (string \<times> sobject) list"
  etag_fn :: "store_id \<Rightarrow> string \<Rightarrow> string"
  url_fn :: "store_id \<Rightarrow> string \<Rightarrow> int \<Rightarrow> string"

definition s3_down :: go_err where
  "s3_down = Msg ''s3: request failed''"

definition put_bucket :: "store_id \<Rightarrow> (string \<times> sobject) list \<Rightarrow> 'a obj_st_scheme \<Rightarrow> 'a obj_st_scheme" where
  "put_bucket sid b w = w\<lparr>stores := (stores w)(sid := b)\<rparr>"

definition info_of :: "string \<Rightarrow> sobject \<Rightarrow> object_info" where
  "info_of k ob = \<lparr>oi_Key = k, oi_Size = int (length (so_Data ob)), oi_Modified = so_Modified ob,
     oi_ETag = so_ETag ob\<rparr>"

definition StatObject :: "store_id \<Rightarrow> string \<Rightarrow> 'a obj_st_scheme
    \<Rightarrow> (go_err + object_info) \<times> 'a obj_st_scheme" where
  "StatObject sid k w =
     (case validateKey k of
        Inl e \<Rightarrow> (Inl e, w)
      | Inr _ \<Rightarrow>
          if failing w then (Inl (Wrap ''minio StatObject'' s3_down), drawn w)
          else let w = drawn w in
          case map_of (stores w sid) k of
            None \<Rightarrow> (Inl (Wrap ''minio StatObject'' (Msg ''The specified key does not exist.'')), w)
          | Some ob \<Rightarrow> (Inr (info_of k ob), w))"

text \<open>
  A put with a known size stores exactly that many bytes of the reader and fails when the reader
  ends early; size \<open>-1\<close> stores the whole reader. The code then reads the object's info back.
\<close>

definition PutObject :: "store_id \<Rightarrow> string \<Rightarrow> string \<Rightarrow> int \<Rightarrow> 'a obj_st_scheme
    \<Rightarrow> (go_err + object_info) \<times> 'a obj_st_scheme" where
  "PutObject sid k payload sz w =
     (case validateKey k of
        Inl e \<Rightarrow> (Inl e, w)
      | Inr _ \<Rightarrow>
          if sz < - 1 then (Inl (Msg ''put object: invalid size''), w)
          else if failing w then (Inl (Wrap ''put object'' s3_down), drawn w)
          else let w = drawn w in
          if int (length payload) < sz then (Inl (Wrap ''put object'' (Msg ''unexpected EOF'')), w)
          else
            let content = (if sz = - 1 then payload else take (nat sz) payload);
                ob = \<lparr>so_Data = content, so_ETag = etag_fn w sid content, so_Modified = now w\<rparr>;
                w = put_bucket sid (AList.update k ob (stores w sid)) w
            in (case StatObject sid k w of
                  (Inl e, w) \<Rightarrow> (Inl (Wrap ''stat object after put'' e), w)
                | (Inr i, w) \<Rightarrow> (Inr i, w)))"

definition GetObject :: "store_id \<Rightarrow> string \<Rightarrow> 'a obj_st_scheme
    \<Rightarrow> (go_err + (string \<times> object_info)) \<times> 'a obj_st_scheme" where
  "GetObject sid k w =
     (case validateKey k of
        Inl e \<Rightarrow> (Inl e, w)
      | Inr _ \<Rightarrow>
          if failing w then (Inl (Wrap ''minio GetObject'' s3_down), drawn w)
          else (case StatObject sid k (drawn w) of
                  (Inl e, w) \<Rightarrow> (Inl (Wrap ''stat object after get'' e), w)
                | (Inr i, w) \<Rightarrow>
                    (case map_of (stores w sid) k of
                       None \<Rightarrow> (Inr ([], i), w)
                     | Some ob \<Rightarrow> (Inr (so_Data ob, i), w))))"

definition DeleteObject :: "store_id \<Rightarrow> string \<Rightarrow> 'a obj_st_scheme
    \<Rightarrow> (go_err + unit) \<times> 'a obj_st_scheme" where
  "DeleteObject sid k w =
     (case validateKey k of
        Inl e \<Rightarrow> (Inl e, w)
      | Inr _ \<Rightarrow>
          if failing w then (Inl (Wrap ''delete object'' s3_down), drawn w)
          else let w = drawn w in (Inr (), put_bucket sid (AList.delete k (stores w sid)) w))"

definition listing :: "'a obj_st_scheme \<Rightarrow> store_id \<Rightarrow> string \<Rightarrow> object_info list" where
  "listing w sid p =
     map (\<lambda>(k, ob). info_of k ob) (filter (\<lambda>(k, ob). HasPrefix k p) (stores w sid))"

definition ListObjects :: "store_id \<Rightarrow> string \<Rightarrow> int \<Rightarrow> 'a obj_st_scheme
    \<Rightarrow> (go_err + object_info list) \<times> 'a obj_st_scheme" where
  "ListObjects sid p limit w =
     (case (if p \<noteq> [] then validateKey (trim_slash p) else Inr ()) of
        Inl e \<Rightarrow> (Inl (Wrap ''invalid list prefix'' e), w)
      | Inr _ \<Rightarrow>
          if failing w then (Inl (Wrap ''list objects with prefix'' s3_down), drawn w)
          else let w = drawn w; objs = listing w sid p
               in (Inr (if 0 < limit then take (nat limit) objs else objs), w))"

definition PresignedGetURL :: "store_id \<Rightarrow> string \<Rightarrow> int \<Rightarrow> 'a obj_st_scheme
    \<Rightarrow> (go_err + string) \<times> 'a obj_st_scheme" where
  "PresignedGetURL sid k expiry w =
     (case validateKey k of
        Inl e \<Rightarrow> (Inl e, w)
      | Inr _ \<Rightarrow>
          if expiry \<le> 0 then (Inl (Msg ''presign object: expiry must be positive''), w)
          else if failing w then (Inl (Wrap ''minio PresignedGetObject'' s3_down), drawn w)
          else (Inr (url_fn w sid k expiry), drawn w))"

definition PresignedPutURL :: "store_id \<Rightarrow> string \<Rightarrow> int \<Rightarrow> 'a obj_st_scheme
    \<Rightarrow> (go_err + string) \<times> 'a obj_st_scheme" where
  "PresignedPutURL sid k expiry w =
     (case validateKey k of
        Inl e \<Rightarrow> (Inl e, w)
      | Inr _ \<Rightarrow>
          if expiry \<le> 0 \<or> hour < expiry
            then (Inl (Msg ''presign upload expiry must be between 0 and 1 hour''), w)
          else if failing w then (Inl (Wrap ''minio PresignedPutObject'' s3_down), drawn w)
          else (Inr (url_fn w sid k expiry), drawn w))"

section \<open>The contract of a store\<close>

definition contents :: "'a obj_st_scheme \<Rightarrow> store_id \<Rightarrow> string \<Rightarrow> string option" where
  "contents w sid k = map_option so_Data (map_of (stores w sid) k)"

locale object_store =
  fixes data :: "'s \<Rightarrow> string \<Rightarrow> string option"
    and put :: "string \<Rightarrow> string \<Rightarrow> 's \<Rightarrow> (go_err + 'i) \<times> 's"
    and del :: "string \<Rightarrow> 's \<Rightarrow> (go_err + unit) \<times> 's"
  assumes put_ok: "put k d s = (Inr i, s') \<Longrightarrow> data s' = (data s)(k \<mapsto> d)"
    and put_err: "put k d s = (Inl e, s') \<Longrightarrow> data s' = data s \<or> data s' = (data s)(k \<mapsto> d)"
    and del_ok: "del k s = (Inr u, s') \<Longrightarrow> data s' = (data s)(k := None)"
    and del_err: "del k s = (Inl e, s') \<Longrightarrow> data s' = data s"
begin

lemma put_keeps_others: "j \<noteq> k \<Longrightarrow> data (snd (put k d s)) j = data s j"
proof (cases "put k d s")
  case (Pair r s')
  assume "j \<noteq> k"
  then show ?thesis
    using Pair put_ok [of k d s _ s'] put_err [of k d s _ s'] by (cases r) auto
qed

lemma del_only: "data (snd (del k s)) j = (if j = k \<and> is_ok (fst (del k s)) then None else data s j)"
proof (cases "del k s")
  case (Pair r s')
  then show ?thesis
    using del_ok [of k s _ s'] del_err [of k s _ s'] by (cases r) auto
qed

lemma del_data_le: "data (snd (del k s)) j = Some d \<Longrightarrow> data s j = Some d"
  by (simp add: del_only split: if_splits)

lemma del_other: "j \<noteq> k \<Longrightarrow> data (snd (del k s)) j = data s j"
  by (simp add: del_only)

end

lemma stores_simps [simp, env_simps]:
  "stores (drawn w) = stores w" "etag_fn (drawn w) = etag_fn w" "url_fn (drawn w) = url_fn w"
  "stores (put_bucket sid b w) = (stores w)(sid := b)"
  "quota_tbl (put_bucket sid b w) = quota_tbl w" "redis (put_bucket sid b w) = redis w"
  "now (put_bucket sid b w) = now w" "faults (put_bucket sid b w) = faults w"
  "etag_fn (put_bucket sid b w) = etag_fn w" "url_fn (put_bucket sid b w) = url_fn w"
  "quota_tbl (drawn w) = quota_tbl w"
  by (simp_all add: drawn_def put_bucket_def)

lemma calm_put_bucket [simp, env_simps]: "calm (put_bucket sid b w) = calm w"
  by (simp add: calm_def)

lemma StatObject_frame [simp]: "stores (snd (StatObject sid k w)) = stores w"
  by (simp add: StatObject_def Let_def split: sum.splits option.splits)

lemma StatObject_stores: "StatObject sid k w = (r, w') \<Longrightarrow> stores w' = stores w"
  using StatObject_frame [of sid k w] by simp

lemma contents_drawn [simp]: "contents (drawn w) sid = contents w sid"
  by (simp add: contents_def fun_eq_iff)

lemma PutObject_shape:
  assumes "PutObject sid k d (int (length d)) w = (r, w')"
  shows "stores w' = stores w \<and> \<not> is_ok r
    \<or> stores w' = (stores w)(sid := AList.update k
        \<lparr>so_Data = d, so_ETag = etag_fn w sid d, so_Modified = now w\<rparr> (stores w sid))"
  using assms
  by (auto simp: PutObject_def Let_def split: sum.splits if_splits prod.splits
      dest!: StatObject_stores)

lemma DeleteObject_shape:
  assumes "DeleteObject sid k w = (r, w')"
  shows "stores w' = (if is_ok r then (stores w)(sid := AList.delete k (stores w sid)) else stores w)"
proof (cases "validateKey k")
  case (Inl e)
  with assms have "r = Inl e \<and> w' = w" by (simp add: DeleteObject_def)
  then show ?thesis by simp
next
  case (Inr u)
  then have "DeleteObject sid k w =
      (if failing w then (Inl (Wrap ''delete object'' s3_down), drawn w)
       else (Inr (), put_bucket sid (AList.delete k (stores (drawn w) sid)) (drawn w)))"
    by (simp add: DeleteObject_def Let_def)
  with assms have "(r, w') = \<dots>" by simp
  then show ?thesis by (auto split: if_splits)
qed

interpretation os: object_store "\<lambda>w. contents w sid" "\<lambda>k d. PutObject sid k d (int (length d))" "DeleteObject sid"
  for sid
proof
  fix k d i e u and s s' :: "'a obj_st_scheme"
  show "contents s' sid = (contents s sid)(k \<mapsto> d)" if "PutObject sid k d (int (length d)) s = (Inr i, s')"
    using PutObject_shape [OF that] by (auto simp: contents_def fun_eq_iff update_conv')
  show "contents s' sid = contents s sid \<or> contents s' sid = (contents s sid)(k \<mapsto> d)"
    if "PutObject sid k d (int (length d)) s = (Inl e, s')"
    using PutObject_shape [OF that] by (auto simp: contents_def fun_eq_iff update_conv')
  show "contents s' sid = (contents s sid)(k := None)" if "DeleteObject sid k s = (Inr u, s')"
    using DeleteObject_shape [OF that] by (auto simp: contents_def fun_eq_iff delete_conv')
  show "contents s' sid = contents s sid" if "DeleteObject sid k s = (Inl e, s')"
    using DeleteObject_shape [OF that] by (auto simp: contents_def fun_eq_iff)
qed

end
