(* ===== verification/Reservation.thy ===== *)
theory Reservation
  imports Objects
begin

text \<open>
  The reservation service \<open>internal/usecase/storage/reservation.go\<close>: an upload first reserves quota
  in MySQL and a document in Redis with a lifetime, then commits or releases it; a periodic tick
  sweeps, collects orphaned objects and reconciles. The two results of \<open>newID()\<close> are arguments.
  A nil service pointer is \<open>None\<close>. Prometheus counters are not modelled.
\<close>

record rsvc =
  s_cache :: bool
  s_quota :: bool
  s_backend :: "store_id option"
  s_setnx :: bool        \<comment> \<open>the cache implements \<open>ReservationCacheSetNX\<close>\<close>
  s_releaseall :: bool   \<comment> \<open>the quota store implements \<open>ReleaseAllReservedStorage\<close>\<close>

record resv_st = obj_st +
  healthy :: bool

section \<open>Health\<close>

definition setHealthy :: "rsvc option \<Rightarrow> bool \<Rightarrow> 'a resv_st_scheme \<Rightarrow> 'a resv_st_scheme" where
  "setHealthy s v w = (case s of None \<Rightarrow> w | Some c \<Rightarrow> w\<lparr>healthy := v\<rparr>)"

definition has_cache :: "rsvc option \<Rightarrow> bool" where
  "has_cache s = (case s of None \<Rightarrow> False | Some c \<Rightarrow> s_cache c)"

definition configured :: "rsvc option \<Rightarrow> bool" where
  "configured s = (case s of None \<Rightarrow> False | Some c \<Rightarrow> s_cache c \<and> s_quota c)"

definition checkHealth :: "rsvc option \<Rightarrow> 'a resv_st_scheme \<Rightarrow> 'a resv_st_scheme" where
  "checkHealth s w =
     (if \<not> has_cache s then setHealthy s False w
      else (case Ping w of
              (Inl e, w) \<Rightarrow> setHealthy s False w
            | (Inr _, w) \<Rightarrow> setHealthy s True w))"

definition Healthy :: "rsvc option \<Rightarrow> 'a resv_st_scheme \<Rightarrow> bool" where
  "Healthy s w = (if \<not> has_cache s then False else healthy w)"

definition HealthCheck :: "rsvc option \<Rightarrow> 'a resv_st_scheme \<Rightarrow> bool \<times> 'a resv_st_scheme" where
  "HealthCheck s w = (let w = checkHealth s w in (Healthy s w, w))"

section \<open>Reserving\<close>

definition not_configured :: go_err where
  "not_configured = Msg ''reservation service is not configured''"

definition em_dash :: string where
  "em_dash = map char_of [226, 128, 148 :: nat]"

definition degraded :: go_err where
  "degraded = Msg (''storage is degraded '' @ em_dash @ '' reservation unavailable'')"

text \<open>
  The value at an idempotency key is a reservation id. A JSON document found there instead is the
  id of no reservation.
\<close>

definition load_claimed :: "uid \<Rightarrow> string \<Rightarrow> 'a resv_st_scheme
    \<Rightarrow> upload_reservation option \<times> 'a resv_st_scheme" where
  "load_claimed u req w =
     (case Get (IdempotencyKey u req) w of
        (Inl e, w) \<Rightarrow> (None, w)
      | (Inr v, w) \<Rightarrow>
          (case v of
             CBytes rid \<Rightarrow>
               (case LoadUploadReservation True rid w of
                  (Inl e, w) \<Rightarrow> (None, w)
                | (Inr r, w) \<Rightarrow> (Some r, w))
           | _ \<Rightarrow> (None, w)))"

definition find_reusable :: "uid \<Rightarrow> string \<Rightarrow> 'a resv_st_scheme
    \<Rightarrow> upload_reservation option \<times> 'a resv_st_scheme" where
  "find_reusable u req w =
     (case load_claimed u req w of
        (None, w) \<Rightarrow> (None, w)
      | (Some r, w) \<Rightarrow>
          if rv_Status r = ''reserved'' \<and> now w < rv_ExpiresAt r then (Some r, w) else (None, w))"

definition claim :: "rsvc \<Rightarrow> uid \<Rightarrow> string \<Rightarrow> string \<Rightarrow> int \<Rightarrow> 'a resv_st_scheme
    \<Rightarrow> (go_err + bool) \<times> 'a resv_st_scheme" where
  "claim c u req rid ttl w =
     (if s_setnx c then SetNX (IdempotencyKey u req) (CBytes rid) ttl w
      else (case Set (IdempotencyKey u req) (CBytes rid) ttl w of
              (Inl e, w) \<Rightarrow> (Inl e, w)
            | (Inr _, w) \<Rightarrow> (Inr True, w)))"

definition undo_reserve :: "uid \<Rightarrow> int \<Rightarrow> string \<Rightarrow> 'a resv_st_scheme \<Rightarrow> 'a resv_st_scheme" where
  "undo_reserve u sz rid w =
     snd (DeleteUploadReservation True rid (snd (ReleaseStorage u sz w)))"

definition new_reservation :: "uid \<Rightarrow> string \<Rightarrow> int \<Rightarrow> string \<Rightarrow> string \<Rightarrow> upload_reservation" where
  "new_reservation u obj sz rid ikey =
     \<lparr>rv_ID = rid, rv_IdempotencyKey = ikey, rv_UserID = u, rv_ObjectKey = obj, rv_Size = sz,
      rv_Status = ''reserved'', rv_ExpiresAt = zero_time\<rparr>"

text \<open>The part after the search for a reusable reservation.\<close>

definition reserve_new :: "rsvc \<Rightarrow> uid \<Rightarrow> string \<Rightarrow> int \<Rightarrow> string \<Rightarrow> int \<Rightarrow> string \<Rightarrow> string
    \<Rightarrow> 'a resv_st_scheme \<Rightarrow> (go_err + string \<times> string) \<times> 'a resv_st_scheme" where
  "reserve_new c u obj sz req ttl rid fresh w =
     (case ReserveStorage u sz w of
        (Inl e, w) \<Rightarrow> (Inl e, w)
      | (Inr _, w) \<Rightarrow>
          let w = snd (SetQuotaReserved True u sz w);
              ikey = (if req = [] then fresh else req)
          in (case SaveUploadReservation True (new_reservation u obj sz rid ikey) ttl w of
                (Inl e, w) \<Rightarrow> (Inl e, snd (ReleaseStorage u sz w))
              | (Inr _, w) \<Rightarrow>
                  if req = [] then (Inr (rid, ikey), w)
                  else (case claim c u req rid ttl w of
                          (Inl e, w) \<Rightarrow> (Inl e, undo_reserve u sz rid w)
                        | (Inr claimed, w) \<Rightarrow>
                            if claimed then (Inr (rid, ikey), w)
                            else (case load_claimed u req (undo_reserve u sz rid w) of
                                    (Some r, w) \<Rightarrow> (Inr (rv_ID r, rv_IdempotencyKey r), w)
                                  | (None, w) \<Rightarrow>
                                      (Inl (Msg ''idempotency reservation is being created''), w)))))"

definition ReserveWithIdempotency :: "rsvc option \<Rightarrow> uid \<Rightarrow> string \<Rightarrow> int \<Rightarrow> string \<Rightarrow> int
    \<Rightarrow> string \<Rightarrow> string \<Rightarrow> 'a resv_st_scheme
    \<Rightarrow> (go_err + string \<times> string) \<times> 'a resv_st_scheme" where
  "ReserveWithIdempotency s u obj sz req ttl rid fresh w =
     (if \<not> configured s then (Inl not_configured, w)
      else if sz \<le> 0 \<or> u = 0 \<or> ttl \<le> 0 then (Inl (Msg ''invalid reservation parameters''), w)
      else if \<not> Healthy s w then (Inl degraded, w)
      else (case (if req = [] then (None, w) else find_reusable u req w) of
              (Some r, w) \<Rightarrow> (Inr (rv_ID r, rv_IdempotencyKey r), w)
            | (None, w) \<Rightarrow> reserve_new (the s) u obj sz req ttl rid fresh w))"

definition Reserve :: "rsvc option \<Rightarrow> uid \<Rightarrow> string \<Rightarrow> int \<Rightarrow> int
    \<Rightarrow> string \<Rightarrow> string \<Rightarrow> 'a resv_st_scheme
    \<Rightarrow> (go_err + string \<times> string) \<times> 'a resv_st_scheme" where
  "Reserve s u obj sz ttl rid fresh w = ReserveWithIdempotency s u obj sz [] ttl rid fresh w"

section \<open>Committing and releasing\<close>

definition drop_reservation :: "uid \<Rightarrow> string \<Rightarrow> 'a resv_st_scheme \<Rightarrow> 'a resv_st_scheme" where
  "drop_reservation u rid w =
     snd (DeleteUploadReservation True rid (snd (DelQuotaReserved True u w)))"

definition Commit :: "rsvc option \<Rightarrow> string \<Rightarrow> 'a resv_st_scheme
    \<Rightarrow> (go_err + unit) \<times> 'a resv_st_scheme" where
  "Commit s rid w =
     (if \<not> configured s \<or> rid = [] then (Inl (Msg ''invalid commit''), w)
      else (case LoadUploadReservation True rid w of
              (Inl e, w) \<Rightarrow> (Inl (Msg ''reservation not found or expired''), w)
            | (Inr r, w) \<Rightarrow>
                if rv_Status r \<noteq> ''reserved''
                  then (Inl (Msg ''reservation already committed or released''), w)
                else if rv_ExpiresAt r < now w
                  then (Inl (Msg ''reservation expired''), undo_reserve (rv_UserID r) (rv_Size r) rid w)
                else (case CommitStorage (rv_UserID r) (rv_Size r) w of
                        (Inl e, w) \<Rightarrow> (Inl e, w)
                      | (Inr _, w) \<Rightarrow> (Inr (), drop_reservation (rv_UserID r) rid w))))"

definition Release :: "rsvc option \<Rightarrow> string \<Rightarrow> 'a resv_st_scheme
    \<Rightarrow> (go_err + unit) \<times> 'a resv_st_scheme" where
  "Release s rid w =
     (if \<not> configured s \<or> rid = [] then (Inl (Msg ''invalid release''), w)
      else (case LoadUploadReservation True rid w of
              (Inl e, w) \<Rightarrow> (Inr (), w)
            | (Inr r, w) \<Rightarrow>
                if rv_Status r \<noteq> ''reserved'' then (Inr (), w)
                else (case ReleaseStorage (rv_UserID r) (rv_Size r) w of
                        (Inl e, w) \<Rightarrow> (Inl e, w)
                      | (Inr _, w) \<Rightarrow> (Inr (), drop_reservation (rv_UserID r) rid w))))"

definition RecoverReservation :: "rsvc option \<Rightarrow> uid \<Rightarrow> int \<Rightarrow> 'a resv_st_scheme
    \<Rightarrow> (go_err + unit) \<times> 'a resv_st_scheme" where
  "RecoverReservation s u sz w =
     (case s of
        None \<Rightarrow> (Inl not_configured, w)
      | Some c \<Rightarrow> if \<not> s_quota c then (Inl not_configured, w) else ReleaseStorage u sz w)"

section \<open>The periodic tick\<close>

text \<open>One key of the sweep: \<open>True\<close> when its reservation was swept.\<close>

definition sweep_key :: "string \<Rightarrow> 'a resv_st_scheme \<Rightarrow> bool \<times> 'a resv_st_scheme" where
  "sweep_key key w =
     (case Get key w of
        (Inl e, w) \<Rightarrow> (False, w)
      | (Inr raw, w) \<Rightarrow>
          (case decode_reservation raw of
             Inl e \<Rightarrow> (False, w)
           | Inr r \<Rightarrow>
               if rv_Status r \<noteq> ''reserved'' \<or> now w < rv_ExpiresAt r then (False, w)
               else (case ReleaseStorage (rv_UserID r) (rv_Size r) w of
                       (Inl e, w) \<Rightarrow> (False, w)
                     | (Inr _, w) \<Rightarrow> (True, snd (Del key w)))))"

fun sweep_keys :: "string list \<Rightarrow> nat \<Rightarrow> 'a resv_st_scheme \<Rightarrow> nat \<times> 'a resv_st_scheme" where
  "sweep_keys [] n w = (n, w)"
| "sweep_keys (key # keys) n w =
     (case sweep_key key w of (b, w) \<Rightarrow> sweep_keys keys (if b then Suc n else n) w)"

definition SweepExpired :: "rsvc option \<Rightarrow> 'a resv_st_scheme \<Rightarrow> (go_err + nat) \<times> 'a resv_st_scheme" where
  "SweepExpired s w =
     (if \<not> configured s then (Inl not_configured, w)
      else (case Keys ''reservation:'' w of
              (Inl e, w) \<Rightarrow> (Inl (Wrap ''sweep: list keys'' e), w)
            | (Inr keys, w) \<Rightarrow> (case sweep_keys keys 0 w of (n, w) \<Rightarrow> (Inr n, w))))"

definition objToReservationKey :: "string \<Rightarrow> string" where
  "objToReservationKey key = ''reservation:'' @ key"

fun orphans :: "bool \<Rightarrow> object_info list \<Rightarrow> 'a resv_st_scheme \<Rightarrow> string list \<times> 'a resv_st_scheme" where
  "orphans hc [] w = ([], w)"
| "orphans hc (ob # obs) w =
     (case LoadUploadReservation hc (objToReservationKey (oi_Key ob)) w of
        (r, w) \<Rightarrow>
          (case orphans hc obs w of
             (ks, w) \<Rightarrow> (if is_ok r then ks else oi_Key ob # ks, w)))"

definition CollectOrphaned :: "rsvc option \<Rightarrow> store_id option \<Rightarrow> string \<Rightarrow> 'a resv_st_scheme
    \<Rightarrow> (go_err + string list) \<times> 'a resv_st_scheme" where
  "CollectOrphaned s backend p w =
     (case (s, backend) of
        (Some c, Some sid) \<Rightarrow>
          (case ListObjects sid p 0 w of
             (Inl e, w) \<Rightarrow> (Inl (Wrap ''list orphaned candidates'' e), w)
           | (Inr obs, w) \<Rightarrow> (case orphans (s_cache c) obs w of (ks, w) \<Rightarrow> (Inr ks, w)))
      | _ \<Rightarrow> (Inl (Msg ''invalid collect-orphaned call''), w))"

text \<open>The reservations that can be read among the given keys, in their order.\<close>

fun readable :: "string list \<Rightarrow> 'a resv_st_scheme \<Rightarrow> upload_reservation list \<times> 'a resv_st_scheme" where
  "readable [] w = ([], w)"
| "readable (k # ks) w =
     (case Get k w of
        (Inl e, w) \<Rightarrow> readable ks w
      | (Inr raw, w) \<Rightarrow>
          (case readable ks w of
             (rs, w) \<Rightarrow> (case decode_reservation raw of Inl e \<Rightarrow> (rs, w) | Inr r \<Rightarrow> (r # rs, w))))"

fun reconcile_users :: "rsvc \<Rightarrow> uid list \<Rightarrow> uid list \<Rightarrow> nat \<Rightarrow> 'a resv_st_scheme
    \<Rightarrow> nat \<times> 'a resv_st_scheme" where
  "reconcile_users c active [] n w = (n, w)"
| "reconcile_users c active (u # us) n w =
     (if List.member active u then reconcile_users c active us n w
      else (case (if s_releaseall c then ReleaseAllReservedStorage u w else ReleaseStorage u 1 w) of
              (Inl e, w) \<Rightarrow> reconcile_users c active us n w
            | (Inr _, w) \<Rightarrow> reconcile_users c active us (Suc n) w))"

definition ReconcileFromMySQL :: "rsvc option \<Rightarrow> 'a resv_st_scheme
    \<Rightarrow> (go_err + nat) \<times> 'a resv_st_scheme" where
  "ReconcileFromMySQL s w =
     (if \<not> configured s then (Inl not_configured, w)
      else (case ListReservedUsers w of
              (Inl e, w) \<Rightarrow> (Inl (Wrap ''list reserved users'' e), w)
            | (Inr users, w) \<Rightarrow>
                (case Keys ''reservation:'' w of
                   (Inl e, w) \<Rightarrow> (Inl (Wrap ''list reservation keys'' e), w)
                 | (Inr keys, w) \<Rightarrow>
                     (case readable keys w of
                        (rs, w) \<Rightarrow>
                          let active = map rv_UserID (filter (\<lambda>r. rv_Status r = ''reserved'') rs)
                          in (case reconcile_users (the s) active users 0 w of
                                (n, w) \<Rightarrow> (Inr n, w))))))"

fun delete_keys :: "store_id \<Rightarrow> string list \<Rightarrow> 'a resv_st_scheme \<Rightarrow> 'a resv_st_scheme" where
  "delete_keys sid [] w = w"
| "delete_keys sid (k # ks) w = delete_keys sid ks (snd (DeleteObject sid k w))"

fun collect_users :: "rsvc option \<Rightarrow> store_id \<Rightarrow> uid list \<Rightarrow> 'a resv_st_scheme \<Rightarrow> 'a resv_st_scheme" where
  "collect_users s sid [] w = w"
| "collect_users s sid (u # us) w =
     (case CollectOrphaned s (Some sid) (userPrefix u) w of
        (Inl e, w) \<Rightarrow> collect_users s sid us w
      | (Inr ks, w) \<Rightarrow> collect_users s sid us (delete_keys sid ks w))"

definition sweep_objects :: "rsvc option \<Rightarrow> 'a resv_st_scheme \<Rightarrow> 'a resv_st_scheme" where
  "sweep_objects s w =
     (case (case s of None \<Rightarrow> None | Some c \<Rightarrow> s_backend c) of
        None \<Rightarrow> w
      | Some sid \<Rightarrow>
          (case Keys ''reservation:'' w of
             (Inl e, w) \<Rightarrow> w
           | (Inr keys, w) \<Rightarrow>
               (case readable keys w of
                  (rs, w) \<Rightarrow> collect_users s sid (rev (remdups (rev (map rv_UserID rs)))) w)))"

definition sweepTick :: "rsvc option \<Rightarrow> 'a resv_st_scheme \<Rightarrow> 'a resv_st_scheme" where
  "sweepTick s w = snd (ReconcileFromMySQL s (sweep_objects s (snd (SweepExpired s w))))"

definition Tick :: "rsvc option \<Rightarrow> 'a resv_st_scheme \<Rightarrow> 'a resv_st_scheme" where
  "Tick s w = sweepTick s (snd (HealthCheck s w))"

end
