(* ===== verification/ReservationInv.thy ===== *)
theory ReservationInv
  imports Reservation
begin

text \<open>
  The ledger invariant of the reservation service: the bytes promised by live reservations in Redis
  never exceed the bytes reserved in MySQL. It holds along every run without failing calls, and it
  is what makes a live reservation committable. Quota limits hold along every run.
\<close>

section \<open>Sums over association lists\<close>

lemma sum_alist_update:
  "sum_list (map f (AList.update k v al)) \<le> sum_list (map f al) + (f (k, v) :: nat)"
  by (induction al) auto

lemma sum_alist_delete: "sum_list (map f (AList.delete k al)) \<le> (sum_list (map f al) :: nat)"
  by (induction al) (auto simp: AList.delete_eq)

lemma sum_alist_delete_found:
  "map_of al k = Some v \<Longrightarrow>
     sum_list (map f (AList.delete k al)) + (f (k, v) :: nat) \<le> sum_list (map f al)"
proof (induction al)
  case (Cons a al)
  then show ?case
    using sum_alist_delete [of f k al] by (cases a) (auto simp: AList.delete_eq split: if_splits)
qed simp

lemma sum_list_le: "(\<And>x. x \<in> set xs \<Longrightarrow> f x \<le> g x) \<Longrightarrow> sum_list (map f xs) \<le> (sum_list (map g xs) :: nat)"
  by (induction xs) (auto intro!: add_mono)

lemma sum_list_zero: "(\<And>x. x \<in> set xs \<Longrightarrow> f x = (0 :: nat)) \<Longrightarrow> sum_list (map f xs) = 0"
  by (induction xs) auto

section \<open>Bytes promised and bytes reserved\<close>

definition vweight :: "uid \<Rightarrow> cval \<Rightarrow> nat" where
  "vweight u v =
     (case decode_reservation v of
        Inl e \<Rightarrow> 0
      | Inr r \<Rightarrow> if rv_Status r = ''reserved'' \<and> rv_UserID r = u then nat (rv_Size r) else 0)"

definition weight :: "uid \<Rightarrow> int \<Rightarrow> string \<times> (cval \<times> int option) \<Rightarrow> nat" where
  "weight u t x =
     (case x of (k, v, e) \<Rightarrow>
        if HasPrefix k ''reservation:'' \<and> live t e then vweight u v else 0)"

definition pledged :: "'a cache_st_scheme \<Rightarrow> uid \<Rightarrow> nat" where
  "pledged w u = sum_list (map (weight u (now w)) (redis w))"

definition held :: "'a quota_st_scheme \<Rightarrow> uid \<Rightarrow> nat" where
  "held w u = (case quota_view w u of None \<Rightarrow> 0 | Some (q, us, rs) \<Rightarrow> rs)"

definition backed :: "'a quota_st_scheme \<Rightarrow> bool" where
  "backed w = (distinct (map fst (redis w)) \<and> (\<forall>u. pledged w u \<le> held w u))"

lemma pledged_drawn [simp, env_simps]: "pledged (drawn w) u = pledged w u"
  by (simp add: pledged_def)

lemma held_drawn [simp, env_simps]: "held (drawn w) u = held w u"
  by (simp add: held_def)

lemma redis_after:
  "redis (rstore k v ttl w) = AList.update k (v, expiry_of w k ttl) (redis w)"
  "redis (rremove k w) = AList.delete k (redis w)"
  by (simp_all add: rstore_def rremove_def)

lemma distinct_redis [simp]:
  "distinct (map fst (redis w)) \<Longrightarrow> distinct (map fst (redis (rstore k v ttl w)))"
  "distinct (map fst (redis w)) \<Longrightarrow> distinct (map fst (redis (rremove k w)))"
  "redis (advance d w) = redis w"
  by (simp_all add: redis_after distinct_update distinct_delete advance_def)

lemma pledged_store:
  "pledged (rstore k v ttl w) u
     \<le> pledged w u + (if HasPrefix k ''reservation:'' then vweight u v else 0)"
proof -
  have "pledged (rstore k v ttl w) u
      \<le> pledged w u + weight u (now w) (k, (v, expiry_of w k ttl))"
    unfolding pledged_def redis_fields redis_after by (rule sum_alist_update)
  also have "\<dots> \<le> pledged w u + (if HasPrefix k ''reservation:'' then vweight u v else 0)"
    by (simp add: weight_def)
  finally show ?thesis .
qed

lemma pledged_remove: "pledged (rremove k w) u \<le> pledged w u"
  unfolding pledged_def redis_fields redis_after by (rule sum_alist_delete)

lemma pledged_remove_found:
  assumes "rlookup w k = Some v" and "HasPrefix k ''reservation:''"
  shows "pledged (rremove k w) u + vweight u v \<le> pledged w u"
proof -
  from assms(1) obtain e where e: "map_of (redis w) k = Some (v, e)" "live (now w) e"
    by (auto simp: rlookup_def split: option.splits if_splits)
  have "weight u (now w) (k, v, e) = vweight u v" using e assms(2) by (simp add: weight_def)
  with sum_alist_delete_found [OF e(1), of "weight u (now w)"] show ?thesis
    by (simp add: pledged_def rremove_def)
qed

lemma pledged_advance: "0 \<le> d \<Longrightarrow> pledged (advance d w) u \<le> pledged w u"
  unfolding pledged_def advance_def
  by (auto intro!: sum_list_le simp: weight_def dest: live_later)

lemma pledged_live:
  assumes "rlookup w k = Some v" and "HasPrefix k ''reservation:''"
  shows "vweight u v \<le> pledged w u"
  using pledged_remove_found [OF assms, of u] by simp

lemma held_upd: "quota_view w' = (quota_view w)(u \<mapsto> (q, us, rs)) \<Longrightarrow>
    held w' v = (if v = u then rs else held w v)"
  by (simp add: held_def)

lemma held_same: "quota_view w' = quota_view w \<Longrightarrow> held w' = held w"
  by (simp add: held_def fun_eq_iff)

lemma rlookup_same: "redis w' = redis w \<Longrightarrow> now w' = now w \<Longrightarrow> rlookup w' k = rlookup w k"
  by (simp add: rlookup_def split: option.splits)

lemma pledged_same: "redis w' = redis w \<Longrightarrow> now w' = now w \<Longrightarrow> pledged w' = pledged w"
  by (simp add: pledged_def fun_eq_iff)

section \<open>Operations that only read\<close>

definition reads :: "'a env_scheme \<Rightarrow> 'a env_scheme \<Rightarrow> bool" where
  "reads w w' = (\<exists>n. w' = (drawn ^^ n) w)"

lemma reads_refl [simp, intro]: "reads w w"
  unfolding reads_def by (rule exI [of _ 0]) simp

lemma reads_drawn [intro]: "reads w w' \<Longrightarrow> reads w (drawn w')"
  unfolding reads_def by (metis funpow.simps(2) comp_apply)

lemma reads_trans: "reads w w' \<Longrightarrow> reads w' w'' \<Longrightarrow> reads w w''"
  unfolding reads_def by (metis funpow_add comp_apply)

lemma reads_pow:
  assumes "reads w w'" and "\<And>x. f (drawn x) = f x"
  shows "f w' = f w"
proof -
  from assms(1) obtain n where "w' = (drawn ^^ n) w" by (auto simp: reads_def)
  moreover have "f ((drawn ^^ n) w) = f w" by (induction n) (simp_all add: assms(2))
  ultimately show ?thesis by simp
qed

lemma reads_same:
  "reads w w' \<Longrightarrow> now w' = now w"
  "reads v v' \<Longrightarrow> redis v' = redis v"
  "reads x x' \<Longrightarrow> quota_tbl x' = quota_tbl x"
  "reads y y' \<Longrightarrow> stores y' = stores y"
  "reads z z' \<Longrightarrow> healthy z' = healthy z"
  by (erule reads_pow; simp add: drawn_def)+

lemma reads_calm: "reads w w' \<Longrightarrow> calm w \<Longrightarrow> calm w'"
proof -
  assume "reads w w'" "calm w"
  then obtain n where "w' = (drawn ^^ n) w" by (auto simp: reads_def)
  moreover have "calm ((drawn ^^ n) w)"
    by (induction n) (use \<open>calm w\<close> in \<open>simp_all add: calm_drawn\<close>)
  ultimately show ?thesis by simp
qed

lemma reads_pledged: "reads w w' \<Longrightarrow> pledged w' u = pledged w u"
  by (simp add: pledged_def reads_same)

lemma reads_held: "reads w w' \<Longrightarrow> held w' u = held w u"
  by (simp add: held_def quota_view_def row_of_def reads_same)

lemma reads_backed: "reads w w' \<Longrightarrow> backed w' = backed w"
  by (simp add: backed_def reads_pledged reads_held reads_same)

lemma Get_reads: "reads w (snd (Get k w))"
  by (auto simp: Get_def split: option.splits)

lemma Keys_reads: "reads w (snd (Keys p w))"
  by (auto simp: Keys_def)

lemma Ping_reads: "reads w (snd (Ping w))"
  by (auto simp: Ping_def)

lemma Load_reads: "reads w (snd (LoadUploadReservation hc rid w))"
  using Get_reads [of w "reservation_key rid"]
  by (auto simp: LoadUploadReservation_def split: prod.splits sum.splits)

lemma ListObjects_reads: "reads w (snd (ListObjects sid p n w))"
  by (auto simp: ListObjects_def Let_def split: sum.splits)

lemma ListReservedUsers_reads: "reads w (snd (ListReservedUsers w))"
  by (auto simp: ListReservedUsers_def)

text \<open>The same in the form in which a result has been bound.\<close>

lemma reads_bound:
  "Get k w = (r, w') \<Longrightarrow> reads w w'"
  "Keys p w = (ks, w') \<Longrightarrow> reads w w'"
  "LoadUploadReservation hc rid w = (l, w') \<Longrightarrow> reads w w'"
  "ListObjects sid p n v = (ob, v') \<Longrightarrow> reads v v'"
  "ListReservedUsers x = (us, x') \<Longrightarrow> reads x x'"
  using Get_reads [of w k] Keys_reads [of w p] Load_reads [of w hc rid]
    ListObjects_reads [of v sid p n] ListReservedUsers_reads [of x] by simp_all

lemma load_claimed_reads: "reads w (snd (load_claimed u req w))"
  by (auto simp: load_claimed_def split: prod.splits sum.splits cval.splits
      intro: reads_trans dest!: reads_bound)

lemma find_reusable_reads: "reads w (snd (find_reusable u req w))"
  using load_claimed_reads [of w u req]
  by (auto simp: find_reusable_def split: prod.splits option.splits)

lemma readable_reads: "reads w (snd (readable ks w))"
proof (induction ks arbitrary: w)
  case (Cons k ks)
  show ?case
  proof (cases "Get k w")
    case (Pair r w1)
    then have "reads w w1" by (rule reads_bound)
    from reads_trans [OF this Cons.IH] Pair show ?thesis
      by (auto split: sum.splits prod.splits)
  qed
qed simp

lemma orphans_reads: "reads w (snd (orphans hc obs w))"
proof (induction obs arbitrary: w)
  case (Cons ob obs)
  show ?case
  proof (cases "LoadUploadReservation hc (objToReservationKey (oi_Key ob)) w")
    case (Pair r w1)
    then have "reads w w1" by (rule reads_bound)
    from reads_trans [OF this Cons.IH] Pair show ?thesis
      by (auto split: sum.splits prod.splits)
  qed
qed simp

lemma CollectOrphaned_reads: "reads w (snd (CollectOrphaned s b p w))"
proof -
  have "reads w (snd (orphans hc obs w'))" if "ListObjects sid p n w = (r, w')" for sid n r w' hc obs
    using reads_trans [OF reads_bound(4) [OF that] orphans_reads] .
  then show ?thesis
    by (auto simp: CollectOrphaned_def split: option.splits prod.splits sum.splits
        dest: reads_bound) (metis snd_conv)+
qed

section \<open>Frames\<close>

lemma quota_op_frames:
  "redis (snd (ReserveStorage u n w)) = redis w" "now (snd (ReserveStorage u n w)) = now w"
  "calm w \<Longrightarrow> calm (snd (ReserveStorage u n w))"
  "redis (snd (CommitStorage u n w)) = redis w" "now (snd (CommitStorage u n w)) = now w"
  "calm w \<Longrightarrow> calm (snd (CommitStorage u n w))"
  "redis (snd (ReleaseStorage u n w)) = redis w" "now (snd (ReleaseStorage u n w)) = now w"
  "calm w \<Longrightarrow> calm (snd (ReleaseStorage u n w))"
  "redis (snd (ReleaseAllReservedStorage u w)) = redis w"
  "now (snd (ReleaseAllReservedStorage u w)) = now w"
  "calm w \<Longrightarrow> calm (snd (ReleaseAllReservedStorage u w))"
  by (auto simp: ReserveStorage_def CommitStorage_def ReleaseStorage_def
      ReleaseAllReservedStorage_def Let_def calm_drawn split: option.splits)

lemma DeleteObject_frames:
  "redis (snd (DeleteObject sid k w)) = redis w" "now (snd (DeleteObject sid k w)) = now w"
  "quota_tbl (snd (DeleteObject sid k w)) = quota_tbl w"
  "calm w \<Longrightarrow> calm (snd (DeleteObject sid k w))"
  by (auto simp: DeleteObject_def Let_def calm_drawn split: sum.splits)

section \<open>The invariant is kept\<close>

definition sound :: "'a quota_st_scheme \<Rightarrow> bool" where
  "sound w = (calm w \<and> backed w)"

lemma redis_op_held [simp]:
  "held (rstore k v ttl w) u = held w u" "held (rremove k w) u = held w u"
  "held (advance d w) u = held w u"
  by (simp_all add: held_def quota_view_def row_of_def rstore_def rremove_def advance_def)

lemma sound_reads: "sound w \<Longrightarrow> reads w w' \<Longrightarrow> sound w'"
  by (simp add: sound_def reads_backed reads_calm)

lemma sound_drawn: "sound w \<Longrightarrow> sound (drawn w)"
  by (simp add: sound_def calm_drawn backed_def)

lemma sound_advance: "0 \<le> d \<Longrightarrow> sound w \<Longrightarrow> sound (advance d w)"
  using pledged_advance [of d w] by (auto simp: sound_def backed_def intro: order_trans)

lemma sound_remove: "sound w \<Longrightarrow> sound (rremove k w)"
  using pledged_remove [of k w] by (auto simp: sound_def backed_def intro: order_trans)

lemma sound_store:
  assumes "sound w" and "\<not> HasPrefix k ''reservation:'' \<or> (\<forall>u. vweight u v = 0)"
  shows "sound (rstore k v ttl w)"
  unfolding sound_def backed_def
proof (intro conjI allI)
  show "calm (rstore k v ttl w)" "distinct (map fst (redis (rstore k v ttl w)))"
    using assms by (simp_all add: sound_def backed_def)
  fix u
  have "pledged (rstore k v ttl w) u \<le> pledged w u"
    using pledged_store [of k v ttl w u] assms(2) by (auto split: if_splits)
  also have "\<dots> \<le> held w u" using assms(1) by (simp add: sound_def backed_def)
  finally show "pledged (rstore k v ttl w) u \<le> held (rstore k v ttl w) u" by simp
qed

lemma held_reserve:
  "ReserveStorage u n w = (Inr x, w') \<Longrightarrow> held w' v = held w v + (if v = u then nat n else 0)"
  using ql.reserve_ok [of u n w x w'] by (auto simp: held_def)

lemma held_reserve_err: "ReserveStorage u n w = (Inl e, w') \<Longrightarrow> held w' = held w"
  using ql.reserve_err by (blast intro: held_same)

lemma held_commit: "held w v \<le> held (snd (CommitStorage u n w)) v + (if v = u then nat n else 0)"
  by (cases rule: ql.commit_cases [of u n w]) (simp_all add: held_def)

lemma held_release: "held w v \<le> held (snd (ReleaseStorage u n w)) v + (if v = u then nat n else 0)"
  by (cases rule: ql.release_cases [of u n w]) (simp_all add: held_def)

text \<open>
  Taking a reservation's bytes out of the ledger and deleting its document, in this order, keeps
  the invariant, whatever the ledger operation answered.
\<close>

lemma settle:
  assumes "sound w" and k: "rlookup w k = Some v" "HasPrefix k ''reservation:''"
    and r: "decode_reservation v = Inr r" "rv_Status r = ''reserved''"
    and w1: "redis w1 = redis w" "now w1 = now w" "calm w1"
    and ledger: "\<And>x. held w x \<le> held w1 x + (if x = rv_UserID r then nat (rv_Size r) else 0)"
  shows "sound (rremove k w1)"
  unfolding sound_def backed_def
proof (intro conjI allI)
  show "calm (rremove k w1)" "distinct (map fst (redis (rremove k w1)))"
    using w1 assms(1) by (simp_all add: sound_def backed_def)
  fix x
  have same: "rlookup w1 k = Some v" "pledged w1 x = pledged w x"
    using k(1) rlookup_same [OF w1(1,2), of k] pledged_same [OF w1(1,2)] by simp_all
  have "vweight x v = (if x = rv_UserID r then nat (rv_Size r) else 0)"
    using r by (simp add: vweight_def)
  moreover have "pledged (rremove k w1) x + vweight x v \<le> pledged w x"
    using pledged_remove_found [OF same(1) k(2), of x] same(2) by simp
  moreover have "pledged w x \<le> held w x" using assms(1) by (simp add: sound_def backed_def)
  ultimately show "pledged (rremove k w1) x \<le> held (rremove k w1) x"
    using ledger [of x] by simp
qed

lemma Delete_calm:
  "calm w \<Longrightarrow> snd (DeleteUploadReservation True rid w)
     = (if rid = [] then w else rremove (reservation_key rid) (drawn w))"
  by (simp add: DeleteUploadReservation_def Del_calm)

lemma sound_drop: "sound w \<Longrightarrow> sound (drop_reservation u rid w)"
  by (simp add: drop_reservation_def DelQuotaReserved_def Del_calm Delete_calm sound_remove
      sound_drawn sound_def [THEN iffD1, THEN conjunct1] calm_drawn)

lemma rstore_drawn_lookup: "rlookup (rstore k v ttl w) k = Some v"
  by (simp add: rc.lookup_store)

lemma drop_calm:
  assumes "calm w" and "rid \<noteq> []"
  shows "drop_reservation u rid w
     = rremove (reservation_key rid) (drawn (rremove (quota_reserved_key u) (drawn w)))"
  using assms by (simp add: drop_reservation_def DelQuotaReserved_def Del_calm Delete_calm calm_drawn)

lemma drawn_rremove: "drawn (rremove k w) = rremove k (drawn w)"
  by (simp add: drawn_def rremove_def)

lemma rremove_commute: "rremove k (rremove j w) = rremove j (rremove k w)"
  by (simp add: rremove_def AList.delete_twist [of k j])

text \<open>A ledger operation on a loaded reservation, followed by dropping it.\<close>

lemma settle_drop:
  assumes "sound w" and "rlookup w (reservation_key rid) = Some v" and "rid \<noteq> []"
    and "decode_reservation v = Inr r" and "rv_Status r = ''reserved''"
    and "redis w1 = redis w" and "now w1 = now w" and "calm w1"
    and "\<And>x. held w x \<le> held w1 x + (if x = rv_UserID r then nat (rv_Size r) else 0)"
  shows "sound (drop_reservation u rid w1)"
proof -
  have "sound (rremove (reservation_key rid) w1)"
    by (rule settle [OF assms(1,2) reservation_prefix(1) assms(4-9)])
  then have "sound (rremove (quota_reserved_key u) (drawn (drawn (rremove (reservation_key rid) w1))))"
    by (rule sound_remove [OF sound_drawn [OF sound_drawn]])
  moreover have "drop_reservation u rid w1
      = rremove (quota_reserved_key u) (drawn (drawn (rremove (reservation_key rid) w1)))"
    by (simp add: drop_calm assms(3,8) drawn_rremove rremove_commute)
  ultimately show ?thesis by simp
qed

lemma settle_undo:
  assumes "sound w" and "rlookup w (reservation_key rid) = Some v" and "rid \<noteq> []"
    and "decode_reservation v = Inr r" and "rv_Status r = ''reserved''"
  shows "sound (undo_reserve (rv_UserID r) (rv_Size r) rid w)"
proof -
  let ?w1 = "snd (ReleaseStorage (rv_UserID r) (rv_Size r) w)"
  have "calm w" using assms(1) by (simp add: sound_def)
  then have c: "calm ?w1" by (rule quota_op_frames)
  have "sound (rremove (reservation_key rid) ?w1)"
    by (rule settle [OF assms(1,2) reservation_prefix(1) assms(4,5) _ _ c held_release])
      (simp_all add: quota_op_frames)
  then have "sound (rremove (reservation_key rid) (drawn ?w1))"
    using sound_drawn drawn_rremove by metis
  then show ?thesis by (simp add: undo_reserve_def Delete_calm c assms(3))
qed

lemma sound_calm: "sound w \<Longrightarrow> calm w"
  by (simp add: sound_def)

lemma sound_same:
  "sound w \<Longrightarrow> redis w' = redis w \<Longrightarrow> now w' = now w \<Longrightarrow> calm w' \<Longrightarrow> held w' = held w \<Longrightarrow> sound w'"
  using pledged_same [of w' w] by (simp add: sound_def backed_def)

lemma Load_found:
  assumes "calm w" and "LoadUploadReservation True rid w = (Inr r, w')"
  shows "w' = drawn w \<and> rid \<noteq> [] \<and>
    (\<exists>v. rlookup w' (reservation_key rid) = Some v \<and> decode_reservation v = Inr r)"
proof -
  have "rid \<noteq> []" using assms(2) by (auto simp: LoadUploadReservation_def split: if_splits)
  with assms show ?thesis by (auto simp: Load_calm split: option.splits)
qed

lemma Commit_sound:
  assumes "sound w"
  shows "sound (snd (Commit s rid w))"
proof (cases "configured s \<and> rid \<noteq> []")
  case True
  obtain l w1 where l: "LoadUploadReservation True rid w = (l, w1)" by (cases "LoadUploadReservation True rid w")
  then have s1: "sound w1" using assms sound_reads reads_bound by blast
  show ?thesis
  proof (cases l)
    case (Inl e)
    with True l s1 show ?thesis by (simp add: Commit_def)
  next
    case (Inr r)
    with Load_found [OF sound_calm [OF assms]] l obtain v where
      v: "rlookup w1 (reservation_key rid) = Some v" "decode_reservation v = Inr r" by blast
    obtain c w2 where c: "CommitStorage (rv_UserID r) (rv_Size r) w1 = (c, w2)"
      by (cases "CommitStorage (rv_UserID r) (rv_Size r) w1")
    have w2: "redis w2 = redis w1" "now w2 = now w1" "calm w2"
      using quota_op_frames(4-6) [where u = "rv_UserID r" and n = "rv_Size r" and w = w1] c sound_calm [OF s1] by simp_all
    have "sound w2" if "c = Inl e" for e
      by (rule sound_same [OF s1 w2 held_same]) (use c that ql.commit_err in blast)
    moreover have "sound (drop_reservation (rv_UserID r) rid w2)" if "rv_Status r = ''reserved''"
      by (rule settle_drop [OF s1 v(1) _ v(2) that w2])
        (use True held_commit [of w1 _ "rv_UserID r" "rv_Size r"] c in simp_all)
    ultimately show ?thesis
      using True l Inr s1 c settle_undo [OF s1 v(1) _ v(2)] by (auto simp: Commit_def split: sum.splits)
  qed
qed (use assms in \<open>auto simp: Commit_def\<close>)

lemma Release_sound:
  assumes "sound w"
  shows "sound (snd (Release s rid w))"
proof (cases "configured s \<and> rid \<noteq> []")
  case True
  obtain l w1 where l: "LoadUploadReservation True rid w = (l, w1)" by (cases "LoadUploadReservation True rid w")
  then have s1: "sound w1" using assms sound_reads reads_bound by blast
  show ?thesis
  proof (cases l)
    case (Inl e)
    with True l s1 show ?thesis by (simp add: Release_def)
  next
    case (Inr r)
    with Load_found [OF sound_calm [OF assms]] l obtain v where
      v: "rlookup w1 (reservation_key rid) = Some v" "decode_reservation v = Inr r" by blast
    obtain c w2 where c: "ReleaseStorage (rv_UserID r) (rv_Size r) w1 = (c, w2)"
      by (cases "ReleaseStorage (rv_UserID r) (rv_Size r) w1")
    have w2: "redis w2 = redis w1" "now w2 = now w1" "calm w2"
      using quota_op_frames(7-9) [where u = "rv_UserID r" and n = "rv_Size r" and w = w1] c sound_calm [OF s1] by simp_all
    have "sound w2" if "c = Inl e" for e
      by (rule sound_same [OF s1 w2 held_same]) (use c that ql.release_err in blast)
    moreover have "sound (drop_reservation (rv_UserID r) rid w2)" if "rv_Status r = ''reserved''"
      by (rule settle_drop [OF s1 v(1) _ v(2) that w2])
        (use True held_release [of w1 _ "rv_UserID r" "rv_Size r"] c in simp_all)
    ultimately show ?thesis
      using True l Inr s1 c by (auto simp: Release_def split: sum.splits)
  qed
qed (use assms in \<open>auto simp: Release_def\<close>)

text \<open>The ledger holds \<open>n\<close> bytes of user \<open>u\<close> more than the reservations promise.\<close>

definition slack :: "'a quota_st_scheme \<Rightarrow> uid \<Rightarrow> nat \<Rightarrow> bool" where
  "slack w u n = (calm w \<and> distinct (map fst (redis w)) \<and> (\<forall>v. pledged w v + (if v = u then n else 0) \<le> held w v))"

lemma slack_reserve:
  assumes "sound w" and "ReserveStorage u n w = (Inr x, w')"
  shows "slack w' u (nat n)"
proof -
  have "redis w' = redis w" "now w' = now w" "calm w'"
    using quota_op_frames(1-3) [where u = u and n = n and w = w] assms(2) sound_calm [OF assms(1)]
    by simp_all
  then show ?thesis
    using assms(1) held_reserve [OF assms(2)] pledged_same [of w' w]
    by (simp add: slack_def sound_def backed_def)
qed

lemma slack_drawn: "slack w u n \<Longrightarrow> slack (drawn w) u n"
  by (simp add: slack_def calm_drawn)

lemma slack_store:
  assumes "slack w u n" and "\<not> HasPrefix k ''reservation:''"
  shows "slack (rstore k v ttl w) u n"
  unfolding slack_def
proof (intro conjI allI)
  show "calm (rstore k v ttl w)" "distinct (map fst (redis (rstore k v ttl w)))"
    using assms by (simp_all add: slack_def)
  fix x
  have "pledged (rstore k v ttl w) x \<le> pledged w x"
    using pledged_store [of k v ttl w x] assms(2) by simp
  moreover have "pledged w x + (if x = u then n else 0) \<le> held w x"
    using assms(1) by (simp add: slack_def)
  ultimately show "pledged (rstore k v ttl w) x + (if x = u then n else 0) \<le> held (rstore k v ttl w) x"
    by simp
qed

lemma slack_flag: "slack w u n \<Longrightarrow> slack (snd (SetQuotaReserved True v sz w)) u n"
  by (simp add: SetQuotaReserved_def Set_calm slack_store slack_drawn slack_def [THEN iffD1, THEN conjunct1])

lemma slack_save:
  assumes "slack w u n" and "\<And>x. vweight x v = (if x = u then n else 0)"
  shows "sound (rstore k v ttl w)"
  unfolding sound_def backed_def
proof (intro conjI allI)
  show "calm (rstore k v ttl w)" "distinct (map fst (redis (rstore k v ttl w)))"
    using assms by (simp_all add: slack_def)
  fix x
  have "pledged (rstore k v ttl w) x \<le> pledged w x + vweight x v"
    using pledged_store [of k v ttl w x] by (auto split: if_splits)
  also have "\<dots> \<le> held w x" using assms by (simp add: slack_def)
  finally show "pledged (rstore k v ttl w) x \<le> held (rstore k v ttl w) x" by simp
qed

lemma slack_release:
  assumes "slack w u (nat n)"
  shows "sound (snd (ReleaseStorage u n w))"
  unfolding sound_def backed_def
proof (intro conjI allI)
  show "calm (snd (ReleaseStorage u n w))" "distinct (map fst (redis (snd (ReleaseStorage u n w))))"
    using assms by (simp_all add: slack_def quota_op_frames)
  fix x
  have "pledged (snd (ReleaseStorage u n w)) x = pledged w x"
    by (simp add: pledged_def quota_op_frames)
  moreover have "pledged w x + (if x = u then nat n else 0) \<le> held w x"
    using assms by (simp add: slack_def)
  ultimately show "pledged (snd (ReleaseStorage u n w)) x \<le> held (snd (ReleaseStorage u n w)) x"
    using held_release [of w x u n] by simp
qed

lemma Save_cases:
  assumes "calm w"
  shows "(\<exists>e. SaveUploadReservation True r ttl w = (Inl e, w))
    \<or> SaveUploadReservation True r ttl w =
       (Inr (), rstore (reservation_key (rv_ID r)) (CReservation (stored_form r (now w + ttl))) ttl
          (drawn w)) \<and> rv_ID r \<noteq> []"
proof (cases "rv_ID r = [] \<or> rv_UserID r = 0 \<or> rv_Size r \<le> 0 \<or> ttl \<le> 0")
  case True
  then show ?thesis by (auto simp: SaveUploadReservation_def)
next
  case False
  then show ?thesis using Save_calm [OF assms, of r ttl] by simp
qed

lemma claim_calm:
  assumes "calm w"
  shows "snd (claim c u req rid ttl w) = drawn w
    \<or> snd (claim c u req rid ttl w) = rstore (IdempotencyKey u req) (CBytes rid) ttl (drawn w)"
  using assms by (auto simp: claim_def SetNX_def Set_calm calm_not_failing)

lemma claim_sound:
  assumes "sound w"
  shows "sound (snd (claim c u req rid ttl w))"
    and "rlookup (snd (claim c u req rid ttl w)) (reservation_key k) = rlookup w (reservation_key k)"
  using claim_calm [OF sound_calm [OF assms], of c u req rid ttl] sound_drawn [OF assms]
  by (auto simp: sound_store rc.lookup_store)

lemma reserve_new_sound:
  assumes "sound w"
  shows "sound (snd (reserve_new c u obj sz req ttl rid fresh w))"
proof -
  obtain a w1 where a: "ReserveStorage u sz w = (a, w1)" by (cases "ReserveStorage u sz w")
  show ?thesis
  proof (cases a)
    case (Inl e)
    have w1: "redis w1 = redis w" "now w1 = now w" "calm w1"
      using quota_op_frames(1-3) [where u = u and n = sz and w = w] a sound_calm [OF assms] by simp_all
    have "sound w1"
      by (rule sound_same [OF assms w1 held_same]) (use a Inl ql.reserve_err in blast)
    with a Inl show ?thesis by (simp add: reserve_new_def)
  next
    case (Inr x)
    define w2 where "w2 = snd (SetQuotaReserved True u sz w1)"
    define ik where "ik = (if req = [] then fresh else req)"
    define r where "r = new_reservation u obj sz rid ik"
    have s2: "slack w2 u (nat sz)"
      unfolding w2_def by (rule slack_flag [OF slack_reserve [OF assms]]) (use a Inr in simp)
    then have c2: "calm w2" by (simp add: slack_def)
    have r: "rv_ID r = rid" "rv_UserID r = u" "rv_Size r = sz" "rv_Status r = ''reserved''"
      by (simp_all add: r_def new_reservation_def)
    have new: "reserve_new c u obj sz req ttl rid fresh w =
        (case SaveUploadReservation True r ttl w2 of
           (Inl e, w) \<Rightarrow> (Inl e, snd (ReleaseStorage u sz w))
         | (Inr _, w) \<Rightarrow>
             if req = [] then (Inr (rid, ik), w)
             else (case claim c u req rid ttl w of
                     (Inl e, w) \<Rightarrow> (Inl e, undo_reserve u sz rid w)
                   | (Inr claimed, w) \<Rightarrow>
                       if claimed then (Inr (rid, ik), w)
                       else (case load_claimed u req (undo_reserve u sz rid w) of
                               (Some r, w) \<Rightarrow> (Inr (rv_ID r, rv_IdempotencyKey r), w)
                             | (None, w) \<Rightarrow>
                                 (Inl (Msg ''idempotency reservation is being created''), w))))"
      by (simp only: reserve_new_def a Inr w2_def r_def ik_def Let_def prod.case sum.case)
    from Save_cases [OF c2, of r ttl] show ?thesis
    proof (elim disjE exE conjE)
      fix e assume "SaveUploadReservation True r ttl w2 = (Inl e, w2)"
      then show ?thesis using slack_release [OF s2] by (simp add: new)
    next
      define v where "v = CReservation (stored_form r (now w2 + ttl))"
      define w3 where "w3 = rstore (reservation_key rid) v ttl (drawn w2)"
      assume "SaveUploadReservation True r ttl w2 = (Inr (), rstore (reservation_key (rv_ID r))
          (CReservation (stored_form r (now w2 + ttl))) ttl (drawn w2))" and rid: "rv_ID r \<noteq> []"
      then have save: "SaveUploadReservation True r ttl w2 = (Inr (), w3)"
        by (simp add: w3_def v_def r)
      have dv: "decode_reservation v = Inr (stored_form r (now w2 + ttl))" by (simp add: v_def)
      have sf: "rv_Status (stored_form r t) = ''reserved''" "rv_UserID (stored_form r t) = u"
        "rv_Size (stored_form r t) = sz" for t
        by (simp_all add: stored_form_def r)
      have s3: "sound w3" unfolding w3_def
        by (rule slack_save [OF slack_drawn [OF s2]]) (simp add: vweight_def dv sf)
      define w4 where "w4 = snd (claim c u req rid ttl w3)"
      have s4: "sound w4" and l4: "rlookup w4 (reservation_key rid) = Some v"
        using claim_sound [OF s3, of c u req rid ttl] by (simp_all add: w4_def w3_def rc.lookup_store)
      have s5: "sound (undo_reserve u sz rid w4)"
        using settle_undo [OF s4 l4 _ dv sf(1)] rid r sf by simp
      show ?thesis
        using s3 s4 s5 sound_reads [OF s5 load_claimed_reads [of _ u req]]
        by (cases "load_claimed u req (undo_reserve u sz rid w4)")
          (auto simp: new save w4_def split: prod.splits sum.splits option.splits)
    qed
  qed
qed

lemma ReserveWithIdempotency_sound:
  assumes "sound w"
  shows "sound (snd (ReserveWithIdempotency s u obj sz req ttl rid fresh w))"
proof -
  obtain f w1 where f: "find_reusable u req w = (f, w1)" by (cases "find_reusable u req w")
  with find_reusable_reads [of w u req] assms have "sound w1" by (metis sound_reads snd_conv)
  with assms f show ?thesis
    by (auto simp: ReserveWithIdempotency_def reserve_new_sound split: option.splits)
qed

section \<open>The tick keeps the invariant\<close>

lemma Keys_prefix: "Keys p w = (Inr ks, w') \<Longrightarrow> \<forall>k \<in> set ks. HasPrefix k p"
  by (auto simp: Keys_def live_keys_def split: if_splits)

lemma sweep_key_sound:
  assumes "sound w" and "HasPrefix key ''reservation:''"
  shows "sound (snd (sweep_key key w))"
proof -
  obtain g w1 where g: "Get key w = (g, w1)" by (cases "Get key w")
  then have s1: "sound w1" using assms(1) sound_reads reads_bound by blast
  show ?thesis
  proof (cases g)
    case (Inl e)
    with g s1 show ?thesis by (simp add: sweep_key_def)
  next
    case (Inr raw)
    with g sound_calm [OF assms(1)] have raw: "rlookup w1 key = Some raw"
      by (auto simp: Get_calm split: option.splits)
    have "sound (snd (sweep_key key w))" if r: "decode_reservation raw = Inr r" for r
    proof -
      obtain c w2 where c: "ReleaseStorage (rv_UserID r) (rv_Size r) w1 = (c, w2)"
        by (cases "ReleaseStorage (rv_UserID r) (rv_Size r) w1")
      have w2: "redis w2 = redis w1" "now w2 = now w1" "calm w2"
        using quota_op_frames(7-9) [where u = "rv_UserID r" and n = "rv_Size r" and w = w1] c
          sound_calm [OF s1] by simp_all
      have "sound w2" if "c = Inl e" for e
        by (rule sound_same [OF s1 w2 held_same]) (use c that ql.release_err in blast)
      moreover have "sound (snd (Del key w2))" if "rv_Status r = ''reserved''"
      proof -
        have "sound (rremove key (drawn w2))"
          by (rule settle [OF s1 raw assms(2) r that])
            (use w2 held_release [of w1 _ "rv_UserID r" "rv_Size r"] c in \<open>simp_all add: calm_drawn\<close>)
        then show ?thesis using w2 by (simp add: Del_calm)
      qed
      ultimately show ?thesis
        using g Inr s1 c r by (auto simp: sweep_key_def split: sum.splits)
    qed
    then show ?thesis using g Inr s1 by (cases "decode_reservation raw") (simp_all add: sweep_key_def)
  qed
qed

lemma sweep_keys_sound:
  "sound w \<Longrightarrow> \<forall>k \<in> set ks. HasPrefix k ''reservation:'' \<Longrightarrow> sound (snd (sweep_keys ks n w))"
proof (induction ks arbitrary: n w)
  case (Cons k ks)
  then have "sound (snd (sweep_key k w))" by (simp add: sweep_key_sound)
  with Cons show ?case by (auto split: prod.splits)
qed simp

lemma SweepExpired_sound:
  assumes "sound w"
  shows "sound (snd (SweepExpired s w))"
proof -
  obtain ks w1 where k: "Keys ''reservation:'' w = (ks, w1)" by (cases "Keys ''reservation:'' w")
  then have "sound w1" using assms sound_reads reads_bound by blast
  then show ?thesis
    using assms k Keys_prefix [of "''reservation:''" w _ w1] sweep_keys_sound [of w1]
    by (auto simp: SweepExpired_def split: sum.splits prod.splits) (metis snd_conv)
qed

text \<open>Every live document is among the readable ones, so an inactive user has no promise.\<close>

lemma readable_calm:
  assumes "calm w"
  shows "\<exists>n. readable ks w =
    (List.map_filter (\<lambda>k. case rlookup w k of None \<Rightarrow> None
        | Some v \<Rightarrow> (case decode_reservation v of Inl e \<Rightarrow> None | Inr r \<Rightarrow> Some r)) ks, (drawn ^^ n) w)"
  using assms
proof (induction ks arbitrary: w)
  case Nil
  show ?case by (rule exI [of _ 0]) (simp add: List.map_filter_def)
next
  case (Cons k ks)
  obtain n where n: "readable ks (drawn w) =
    (List.map_filter (\<lambda>k. case rlookup (drawn w) k of None \<Rightarrow> None
        | Some v \<Rightarrow> (case decode_reservation v of Inl e \<Rightarrow> None | Inr r \<Rightarrow> Some r)) ks,
     (drawn ^^ n) (drawn w))"
    using Cons.IH [OF calm_drawn [OF Cons.prems]] by blast
  show ?case
    by (rule exI [of _ "Suc n"])
      (use n Cons.prems in \<open>simp add: Get_calm List.map_filter_simps funpow_swap1
         split: option.splits sum.splits\<close>)
qed

lemma inactive_pledged:
  assumes "calm w" and "distinct (map fst (redis w))"
    and "x \<notin> set (map rv_UserID (filter (\<lambda>r. rv_Status r = ''reserved'')
           (fst (readable (live_keys w ''reservation:'') w))))"
  shows "pledged w x = 0"
  unfolding pledged_def
proof (rule sum_list_zero)
  fix y assume y: "y \<in> set (redis w)"
  obtain k v e where [simp]: "y = (k, v, e)" by (cases y)
  show "weight x (now w) y = 0"
  proof (cases "HasPrefix k ''reservation:'' \<and> live (now w) e")
    case True
    with y have k: "k \<in> set (live_keys w ''reservation:'')"
      by (force simp: live_keys_def)
    have "rlookup w k = Some v"
      using True y assms(2) by (simp add: rlookup_def map_of_is_SomeI)
    then have "r \<in> set (fst (readable (live_keys w ''reservation:'') w))" if "decode_reservation v = Inr r" for r
      using readable_calm [OF assms(1), of "live_keys w ''reservation:''"] k that
      by (auto simp: List.map_filter_def image_iff) (rule exI [of _ k], simp)
    with assms(3) show ?thesis
      by (auto simp: weight_def vweight_def split: sum.splits)
  qed (auto simp: weight_def)
qed

lemma releaseall_held:
  "held (snd (ReleaseAllReservedStorage u w)) v = held w v \<or>
   v = u \<and> held (snd (ReleaseAllReservedStorage u w)) v = 0"
  by (auto simp: ReleaseAllReservedStorage_def held_def quota_view_def entry_of_def
      split: option.splits)

lemma reconcile_users_sound:
  assumes "sound w" and "\<forall>x. x \<notin> set active \<longrightarrow> pledged w x = 0"
  shows "sound (snd (reconcile_users c active us n w))"
  using assms
proof (induction us arbitrary: n w)
  case (Cons u us)
  show ?case
  proof (cases "u \<in> set active")
    case True
    with Cons show ?thesis by simp
  next
    case False
    let ?op = "if s_releaseall c then ReleaseAllReservedStorage u w else ReleaseStorage u 1 w"
    obtain r w1 where r: "?op = (r, w1)" by (cases ?op)
    have w1: "redis w1 = redis w" "now w1 = now w" "calm w1"
      using r quota_op_frames(7-9) [where u = u and n = 1 and w = w]
        quota_op_frames(10-12) [where u = u and w = w] sound_calm [OF Cons.prems(1)]
      by (auto split: if_splits)
    have p: "pledged w1 x = pledged w x" for x using pledged_same [OF w1(1,2)] by simp
    have "pledged w1 x \<le> held w1 x" for x
    proof (cases "x = u")
      case True
      with False Cons.prems(2) p show ?thesis by simp
    next
      case False
      then have "held w1 x = held w x"
        using r releaseall_held [of u w x] ql.release_other [of x u 1 w]
        by (auto simp: held_def split: if_splits)
      with Cons.prems(1) p show ?thesis by (simp add: sound_def backed_def)
    qed
    then have "sound w1" using w1 Cons.prems(1) by (simp add: sound_def backed_def)
    then have "sound (snd (reconcile_users c active us m w1))" for m
      by (rule Cons.IH) (simp add: p Cons.prems(2))
    then show ?thesis using False r by (auto split: sum.splits)
  qed
qed simp

lemma ReconcileFromMySQL_sound:
  assumes "sound w"
  shows "sound (snd (ReconcileFromMySQL s w))"
proof (cases "configured s")
  case True
  have c: "calm w" using assms by (rule sound_calm)
  let ?w = "drawn (drawn w)"
  have s2: "sound ?w" using assms by (simp add: sound_drawn)
  have l: "ListReservedUsers w = (Inr (map fst (filter (\<lambda>(u, r). 0 < q_reserved r) (quota_tbl w))), drawn w)"
    using c by (simp add: ListReservedUsers_def calm_not_failing)
  have k: "Keys ''reservation:'' (drawn w) = (Inr (live_keys ?w ''reservation:''), ?w)"
    using c by (simp add: Keys_def calm_not_failing calm_drawn live_keys_def)
  obtain rs w3 where rs: "readable (live_keys ?w ''reservation:'') ?w = (rs, w3)"
    by (cases "readable (live_keys ?w ''reservation:'') ?w")
  have r3: "reads ?w w3" using readable_reads [of ?w "live_keys ?w ''reservation:''"] rs by simp
  have s3: "sound w3" using s2 r3 by (rule sound_reads)
  have "pledged w3 x = 0" if "x \<notin> set (map rv_UserID (filter (\<lambda>r. rv_Status r = ''reserved'') rs))" for x
    using inactive_pledged [of ?w x] that rs s2 reads_pledged [OF r3] by (simp add: sound_def backed_def)
  then have "sound (snd (reconcile_users (the s)
      (map rv_UserID (filter (\<lambda>r. rv_Status r = ''reserved'') rs)) us n w3))" for us n
    by (intro reconcile_users_sound [OF s3]) blast
  then show ?thesis
    using True l k rs by (simp add: ReconcileFromMySQL_def Let_def split: prod.splits) (metis snd_conv)
qed (use assms in \<open>simp add: ReconcileFromMySQL_def\<close>)

lemma DeleteObject_sound: "sound w \<Longrightarrow> sound (snd (DeleteObject sid k w))"
  by (rule sound_same [of w])
    (simp_all add: DeleteObject_frames sound_calm held_def quota_view_def row_of_def fun_eq_iff)

lemma delete_keys_sound: "sound w \<Longrightarrow> sound (delete_keys sid ks w)"
  by (induction ks arbitrary: w) (simp_all add: DeleteObject_sound)

lemma collect_users_sound: "sound w \<Longrightarrow> sound (collect_users s sid us w)"
proof (induction us arbitrary: w)
  case (Cons u us)
  obtain r w1 where r: "CollectOrphaned s (Some sid) (userPrefix u) w = (r, w1)"
    by (cases "CollectOrphaned s (Some sid) (userPrefix u) w")
  with CollectOrphaned_reads [of w s "Some sid" "userPrefix u"] Cons.prems have "sound w1"
    by (auto intro: sound_reads)
  with r Cons.IH show ?case by (auto simp: delete_keys_sound split: sum.splits)
qed simp

lemma sweep_objects_sound:
  assumes "sound w"
  shows "sound (sweep_objects s w)"
proof -
  obtain k w1 where k: "Keys ''reservation:'' w = (k, w1)" by (cases "Keys ''reservation:'' w")
  then have s1: "sound w1" using assms sound_reads reads_bound by blast
  have "sound (snd (readable ks w1))" for ks by (rule sound_reads [OF s1 readable_reads])
  then show ?thesis
    using assms k s1
    by (auto simp: sweep_objects_def split: option.splits sum.splits prod.splits intro!: collect_users_sound)
      (metis snd_conv)
qed

lemma sound_healthy [simp]: "sound (w\<lparr>healthy := b\<rparr>) = sound w"
  by (simp add: sound_def backed_def calm_def pledged_def held_def quota_view_def row_of_def)

lemma Tick_sound:
  assumes "sound w"
  shows "sound (Tick s w)"
proof -
  have "sound (snd (Ping w))" by (rule sound_reads [OF assms Ping_reads])
  then have "sound (checkHealth s w)"
    using assms by (auto simp: checkHealth_def setHealthy_def split: option.splits prod.splits sum.splits)
  then show ?thesis
    by (simp add: Tick_def HealthCheck_def sweepTick_def Let_def SweepExpired_sound sweep_objects_sound
        ReconcileFromMySQL_sound)
qed

end
