(* ===== verification/ReservationSteps.thy ===== *)
theory ReservationSteps
  imports ReservationInv
begin

text \<open>
  The runs of the reservation service: \<open>service_step\<close> is one call of the service, a tick or the
  passing of time. The recovery call takes any size from its caller; a step of it hands back no more than the
  ledger holds beyond the promises, as the program does, whose only recovery is of size 0. \<open>any_step\<close> drops this
  condition and adds outages, which may make any later external calls fail. The quota limit and the form of the stored documents are invariants of both, the
  ledger invariant is one of the first.
\<close>

inductive service_step :: "rsvc option \<Rightarrow> 'a resv_st_scheme \<Rightarrow> 'a resv_st_scheme \<Rightarrow> bool"
  for s where
  step_reserve: "service_step s w (snd (ReserveWithIdempotency s u obj sz req ttl rid fresh w))"
| step_commit: "service_step s w (snd (Commit s rid w))"
| step_release: "service_step s w (snd (Release s rid w))"
| step_recover: "pledged w u + nat sz \<le> held w u \<Longrightarrow> service_step s w (snd (RecoverReservation s u sz w))"
| step_tick: "service_step s w (Tick s w)"
| step_wait: "0 \<le> d \<Longrightarrow> service_step s w (advance d w)"

inductive any_step :: "rsvc option \<Rightarrow> 'a resv_st_scheme \<Rightarrow> 'a resv_st_scheme \<Rightarrow> bool"
  for s where
  any_service: "service_step s w w' \<Longrightarrow> any_step s w w'"
| any_recover: "any_step s w (snd (RecoverReservation s u sz w))"
| any_outage: "any_step s w (w\<lparr>faults := fs\<rparr>)"

inductive_cases service_stepE: "service_step s w w'"
inductive_cases any_stepE: "any_step s w w'"

lemma RecoverReservation_sound:
  assumes "sound w" and "pledged w u + nat sz \<le> held w u"
  shows "sound (snd (RecoverReservation s u sz w))"
proof -
  let ?w = "snd (ReleaseStorage u sz w)"
  have f: "redis ?w = redis w" "now ?w = now w" "calm ?w"
    by (simp_all add: quota_op_frames sound_calm [OF assms(1)])
  have p: "pledged w v \<le> held w v" for v using assms(1) by (simp add: sound_def backed_def)
  have "pledged ?w v \<le> held ?w v" for v
    using held_release [of w v u sz] pledged_same [OF f(1,2)] assms(2) p [of v] by (cases "v = u") simp_all
  then have "sound ?w" using f assms(1) by (simp add: sound_def backed_def)
  then show ?thesis using assms(1) by (simp add: RecoverReservation_def split: option.split)
qed

lemma service_step_sound: "service_step s w w' \<Longrightarrow> sound w \<Longrightarrow> sound w'"
  by (erule service_stepE)
    (simp_all add: ReserveWithIdempotency_sound Commit_sound Release_sound RecoverReservation_sound Tick_sound sound_advance)

section \<open>Every run is made of primitive effects\<close>

inductive effect :: "'a resv_st_scheme \<Rightarrow> 'a resv_st_scheme \<Rightarrow> bool" where
  e_read: "effect w (drawn w)"
| e_remove: "effect w (rremove k w)"
| e_store: "\<not> HasPrefix k ''reservation:'' \<Longrightarrow> effect w (rstore k v ttl w)"
| e_save: "0 < ttl \<Longrightarrow>
    effect w (rstore (reservation_key rid) (CReservation (stored_form r (now w + ttl))) ttl w)"
| e_reserve: "effect w (snd (ReserveStorage u n w))"
| e_commit: "effect w (snd (CommitStorage u n w))"
| e_release: "effect w (snd (ReleaseStorage u n w))"
| e_releaseall: "effect w (snd (ReleaseAllReservedStorage u w))"
| e_delete: "effect w (snd (DeleteObject sid k w))"
| e_health: "effect w (w\<lparr>healthy := b\<rparr>)"
| e_wait: "0 \<le> d \<Longrightarrow> effect w (advance d w)"
| e_outage: "effect w (w\<lparr>faults := fs\<rparr>)"

abbreviation effects :: "'a resv_st_scheme \<Rightarrow> 'a resv_st_scheme \<Rightarrow> bool" where
  "effects \<equiv> effect\<^sup>*\<^sup>*"

lemma eff [intro]: "effect w w' \<Longrightarrow> effects w w'"
  by (rule r_into_rtranclp)

lemma eff_then: "effects w w' \<Longrightarrow> effect w' w'' \<Longrightarrow> effects w w''"
  by (rule rtranclp.rtrancl_into_rtrancl)

lemma eff_trans: "effects w w' \<Longrightarrow> effects w' w'' \<Longrightarrow> effects w w''"
  by (rule rtranclp_trans)

lemma reads_effects: "reads w w' \<Longrightarrow> effects w w'"
proof -
  assume "reads w w'"
  then obtain n where "w' = (drawn ^^ n) w" by (auto simp: reads_def)
  moreover have "effects w ((drawn ^^ n) w)"
    by (induction n) (auto intro: eff_then e_read)
  ultimately show ?thesis by simp
qed

lemma Set_effects:
  "\<not> HasPrefix k ''reservation:'' \<Longrightarrow> effects w (snd (Set k v ttl w))"
  by (auto simp: Set_def intro: e_read eff_then [OF eff] e_store)

lemma Del_effects: "effects w (snd (Del k w))"
  by (auto simp: Del_def intro: e_read eff_then [OF eff] e_remove)

lemma Delete_effects: "effects w (snd (DeleteUploadReservation hc rid w))"
  by (simp add: DeleteUploadReservation_def Del_effects)

lemma Save_effects: "effects w (snd (SaveUploadReservation hc r ttl w))"
proof (cases "\<not> hc \<or> rv_ID r = [] \<or> rv_UserID r = 0 \<or> rv_Size r \<le> 0 \<or> ttl \<le> 0 \<or> failing w")
  case True
  then show ?thesis by (auto simp: SaveUploadReservation_def Set_def Let_def intro: e_read)
next
  case False
  then have "snd (SaveUploadReservation hc r ttl w) = rstore (reservation_key (rv_ID r))
      (CReservation (stored_form r (now (drawn w) + ttl))) ttl (drawn w)"
    by (auto simp: SaveUploadReservation_def Set_def Let_def stored_form_def)
  moreover have "effect (drawn w) \<dots>" using False by (intro e_save) simp
  ultimately show ?thesis using eff [OF e_read] eff_then by metis
qed

lemma claim_effects: "effects w (snd (claim c u req rid ttl w))"
  using e_read [of w] e_store [of "IdempotencyKey u req" "drawn w" "CBytes rid" ttl]
  by (auto simp: claim_def SetNX_def Set_def intro: eff_then [OF eff])

lemma flag_effects: "effects w (snd (SetQuotaReserved hc u sz w))" "effects w (snd (DelQuotaReserved hc u w))"
  by (simp_all add: SetQuotaReserved_def DelQuotaReserved_def Set_effects Del_effects)

lemma undo_effects: "effects w (undo_reserve u sz rid w)"
  unfolding undo_reserve_def by (rule eff_trans [OF eff [OF e_release] Delete_effects])

lemma drop_effects: "effects w (drop_reservation u rid w)"
  unfolding drop_reservation_def by (rule eff_trans [OF flag_effects(2) Delete_effects])

text \<open>The same with results bound, extending a run.\<close>

lemma effects_bound:
  "ReserveStorage u n w = (a, w') \<Longrightarrow> effects x w \<Longrightarrow> effects x w'"
  "CommitStorage u n w = (a, w') \<Longrightarrow> effects x w \<Longrightarrow> effects x w'"
  "ReleaseStorage u n w = (a, w') \<Longrightarrow> effects x w \<Longrightarrow> effects x w'"
  "ReleaseAllReservedStorage u w = (a, w') \<Longrightarrow> effects x w \<Longrightarrow> effects x w'"
  "SaveUploadReservation hc r ttl w = (a, w') \<Longrightarrow> effects x w \<Longrightarrow> effects x w'"
  "claim c u req rid ttl w = (b, w') \<Longrightarrow> effects x w \<Longrightarrow> effects x w'"
  "load_claimed u req w = (l, w') \<Longrightarrow> effects x w \<Longrightarrow> effects x w'"
  "find_reusable u req w = (l, w') \<Longrightarrow> effects x w \<Longrightarrow> effects x w'"
  "LoadUploadReservation hc rid w = (f, w') \<Longrightarrow> effects x w \<Longrightarrow> effects x w'"
  "Get k w = (g, w') \<Longrightarrow> effects x w \<Longrightarrow> effects x w'"
  "Keys p w = (ks, w') \<Longrightarrow> effects x w \<Longrightarrow> effects x w'"
  "Ping w = (pg, w') \<Longrightarrow> effects x w \<Longrightarrow> effects x w'"
  "readable ks' w = (rs, w') \<Longrightarrow> effects x w \<Longrightarrow> effects x w'"
  "ListReservedUsers w = (us, w') \<Longrightarrow> effects x w \<Longrightarrow> effects x w'"
  "CollectOrphaned s bk p w = (cs, w') \<Longrightarrow> effects x w \<Longrightarrow> effects x w'"
  using e_reserve [of w u n] e_commit [of w u n] e_release [of w u n] e_releaseall [of w u]
    eff_trans [OF _ Save_effects [of w hc r ttl], of x] eff_trans [OF _ claim_effects [of w c u req rid ttl], of x]
    eff_trans [OF _ reads_effects [OF load_claimed_reads [of w u req]], of x]
    eff_trans [OF _ reads_effects [OF find_reusable_reads [of w u req]], of x]
    eff_trans [OF _ reads_effects [OF Load_reads [of w hc rid]], of x]
    eff_trans [OF _ reads_effects [OF Get_reads [of w k]], of x]
    eff_trans [OF _ reads_effects [OF Keys_reads [of w p]], of x]
    eff_trans [OF _ reads_effects [OF Ping_reads [of w]], of x]
    eff_trans [OF _ reads_effects [OF readable_reads [of w ks']], of x]
    eff_trans [OF _ reads_effects [OF ListReservedUsers_reads [of w]], of x]
    eff_trans [OF _ reads_effects [OF CollectOrphaned_reads [of w s bk p]], of x]
  by (auto intro: eff_then)

lemma reserve_new_effects: "effects w (snd (reserve_new c u obj sz req ttl rid fresh w))"
proof -
  have tail: "effects x (snd (ReleaseStorage u sz w'))"
    "effects x (snd (SetQuotaReserved True u sz w'))" "effects x (undo_reserve u sz rid w')"
    if "effects x w'" for x w' :: "'a resv_st_scheme"
    using that e_release flag_effects(1) undo_effects by (blast intro: eff_then eff_trans)+
  show ?thesis
    by (auto simp: reserve_new_def Let_def tail split: prod.splits sum.splits option.splits
        intro!: tail dest!: effects_bound(1) [OF _ rtranclp.rtrancl_refl]
          effects_bound(5) [OF _ tail(2)])
      (meson effects_bound(6,7) tail(3))+
qed

lemma ReserveWithIdempotency_effects:
  "effects w (snd (ReserveWithIdempotency s u obj sz req ttl rid fresh w))"
  by (auto simp: ReserveWithIdempotency_def reserve_new_effects split: prod.splits option.splits
      dest!: effects_bound(8) [OF _ rtranclp.rtrancl_refl] intro: eff_trans [OF _ reserve_new_effects])

lemma Commit_effects: "effects w (snd (Commit s rid w))"
  by (auto simp: Commit_def split: prod.splits sum.splits
      intro: eff_trans [OF _ undo_effects] eff_trans [OF _ drop_effects]
      dest!: effects_bound(9) [OF _ rtranclp.rtrancl_refl] dest: effects_bound(2))

lemma Release_effects: "effects w (snd (Release s rid w))"
  by (auto simp: Release_def split: prod.splits sum.splits
      intro: eff_trans [OF _ drop_effects]
      dest!: effects_bound(9) [OF _ rtranclp.rtrancl_refl] dest: effects_bound(3))

lemma sweep_key_effects: "effects w (snd (sweep_key key w))"
  by (auto simp: sweep_key_def split: prod.splits sum.splits
      intro: eff_trans [OF _ Del_effects]
      dest!: effects_bound(10) [OF _ rtranclp.rtrancl_refl] dest: effects_bound(3))

lemma sweep_keys_effects: "effects w (snd (sweep_keys ks n w))"
proof (induction ks arbitrary: n w)
  case (Cons k ks)
  show ?case
    using eff_trans [OF sweep_key_effects [of w k] Cons.IH] by (auto split: prod.splits)
qed simp

lemma SweepExpired_effects: "effects w (snd (SweepExpired s w))"
  by (auto simp: SweepExpired_def split: prod.splits sum.splits
      dest!: effects_bound(11) [OF _ rtranclp.rtrancl_refl])
    (metis eff_trans sweep_keys_effects snd_conv)

lemma reconcile_users_effects: "effects w (snd (reconcile_users c active us n w))"
proof (induction us arbitrary: n w)
  case (Cons u us)
  let ?op = "if s_releaseall c then ReleaseAllReservedStorage u w else ReleaseStorage u 1 w"
  obtain r w1 where r: "?op = (r, w1)" by (cases ?op)
  then have "effects w w1"
    using e_releaseall [of w u] e_release [of w u 1] by (auto split: if_splits)
  from eff_trans [OF this Cons.IH] Cons.IH r show ?case by (auto split: sum.splits)
qed simp

lemma ReconcileFromMySQL_effects: "effects w (snd (ReconcileFromMySQL s w))"
proof -
  obtain us w1 where us: "ListReservedUsers w = (us, w1)" by (cases "ListReservedUsers w")
  obtain ks w2 where ks: "Keys ''reservation:'' w1 = (ks, w2)" by (cases "Keys ''reservation:'' w1")
  have "effects w w1" using us by (rule effects_bound(14)) simp
  moreover from ks this have "effects w w2" by (rule effects_bound(11))
  moreover have "effects w (snd (reconcile_users c active vs n (snd (readable ks w2))))" for c active vs n ks
    by (rule eff_trans [OF eff_trans [OF \<open>effects w w2\<close> reads_effects [OF readable_reads]]
          reconcile_users_effects])
  ultimately show ?thesis
    using us ks by (auto simp: ReconcileFromMySQL_def Let_def split: prod.splits sum.splits)
      (metis snd_conv)
qed

lemma delete_keys_effects: "effects w (delete_keys sid ks w)"
proof (induction ks arbitrary: w)
  case (Cons k ks)
  show ?case using eff_trans [OF eff [OF e_delete] Cons.IH] by simp
qed simp

lemma collect_users_effects: "effects w (collect_users s sid us w)"
proof (induction us arbitrary: w)
  case (Cons u us)
  obtain r w1 where r: "CollectOrphaned s (Some sid) (userPrefix u) w = (r, w1)"
    by (cases "CollectOrphaned s (Some sid) (userPrefix u) w")
  then have "effects w w1" by (rule effects_bound(15)) simp
  from eff_trans [OF this Cons.IH] eff_trans [OF eff_trans [OF this delete_keys_effects] Cons.IH] r
  show ?case by (auto split: sum.splits)
qed simp

lemma sweep_objects_effects: "effects w (sweep_objects s w)"
  by (auto simp: sweep_objects_def split: option.splits prod.splits sum.splits
      dest!: effects_bound(11) [OF _ rtranclp.rtrancl_refl])
    (meson effects_bound(13) eff_trans collect_users_effects)

lemma Tick_effects: "effects w (Tick s w)"
proof -
  have "effects w (checkHealth s w)"
    by (auto simp: checkHealth_def setHealthy_def split: option.splits prod.splits sum.splits
        intro: e_health eff_then dest!: effects_bound(12) [OF _ rtranclp.rtrancl_refl])
  then show ?thesis
    unfolding Tick_def HealthCheck_def sweepTick_def Let_def snd_conv
    by (rule eff_trans [OF eff_trans [OF eff_trans [OF _ SweepExpired_effects] sweep_objects_effects]
          ReconcileFromMySQL_effects])
qed

theorem any_step_effects: "any_step s w w' \<Longrightarrow> effects w w'"
  by (auto elim!: any_stepE service_stepE simp: ReserveWithIdempotency_effects Commit_effects
      Release_effects Tick_effects RecoverReservation_def split: option.splits
      intro: e_wait e_outage eff [OF e_release])

lemma run_effects: "(any_step s)\<^sup>*\<^sup>* w w' \<Longrightarrow> effects w w'"
  by (induction rule: rtranclp_induct) (auto intro: eff_trans any_step_effects)

lemma effects_invariant:
  assumes "effects w w'" and "P w" and "\<And>x y. effect x y \<Longrightarrow> P x \<Longrightarrow> P y"
  shows "P w'"
  using assms(1,2) by (induction rule: rtranclp_induct) (auto intro: assms(3))

section \<open>A concrete service\<close>

definition demo_cfg :: rsvc where
  "demo_cfg = \<lparr>s_cache = True, s_quota = True, s_backend = Some Internal, s_setnx = True,
     s_releaseall = True\<rparr>"

definition demo :: resv_st where
  "demo = \<lparr>now = 1000, faults = [], redis = [],
     quota_tbl = [(7, \<lparr>q_quota = 100, q_used = 10, q_reserved = 0\<rparr>)],
     stores = (\<lambda>_. [(''users/7/a'', \<lparr>so_Data = ''abc'', so_ETag = [], so_Modified = 0\<rparr>)]),
     etag_fn = (\<lambda>_ d. d), url_fn = (\<lambda>_ k _. k), healthy = True\<rparr>"

definition demo_reserved :: resv_st where
  "demo_reserved = snd (Reserve (Some demo_cfg) 7 ''users/7/b'' 5 1000 ''r1'' ''k1'' demo)"

lemma demo_simps [simp]:
  "faults demo = []" "redis demo = []" "now demo = 1000" "calm demo" "healthy demo"
  "row_of demo u = (if u = 7 then Some \<lparr>q_quota = 100, q_used = 10, q_reserved = 0\<rparr> else None)"
  by (simp_all add: demo_def calm_def row_of_def)

lemma demo_quota [simp]: "quota_view demo u = (if u = 7 then Some (100, 10, 0) else None)"
  by (simp add: quota_view_def entry_of_def)

lemma demo_sound [simp]: "sound demo"
  by (simp add: sound_def backed_def pledged_def)

lemma demo_Reserve:
  "Reserve (Some demo_cfg) 7 ''users/7/b'' 5 1000 ''r1'' ''k1'' demo = (Inr (''r1'', ''k1''), demo_reserved)"
proof -
  have "fst (Reserve (Some demo_cfg) 7 ''users/7/b'' 5 1000 ''r1'' ''k1'' demo) = Inr (''r1'', ''k1'')"
    by code_simp
  then show ?thesis by (simp add: demo_reserved_def prod_eq_iff)
qed

lemma demo_reserved_step: "service_step (Some demo_cfg) demo demo_reserved"
  unfolding demo_reserved_def Reserve_def by (rule step_reserve)

lemma demo_reserved_sound [simp]: "sound demo_reserved"
  by (rule service_step_sound [OF demo_reserved_step demo_sound])

lemma demo_reserved_calm [simp]: "calm demo_reserved"
  by (rule sound_calm [OF demo_reserved_sound])

lemma demo_reserved_run: "(any_step (Some demo_cfg))\<^sup>*\<^sup>* demo demo_reserved"
  by (rule r_into_rtranclp, rule any_service, rule demo_reserved_step)

lemma demo_service_run: "(service_step (Some demo_cfg))\<^sup>*\<^sup>* demo demo_reserved"
  by (rule r_into_rtranclp, rule demo_reserved_step)

definition demo_doc :: upload_reservation where
  "demo_doc = \<lparr>rv_ID = ''r1'', rv_IdempotencyKey = ''k1'', rv_UserID = 7,
     rv_ObjectKey = ''users/7/b'', rv_Size = 5, rv_Status = ''reserved'', rv_ExpiresAt = 2000\<rparr>"

lemma demo_reserved_facts:
  "now demo_reserved = 1000" "rlookup demo_reserved (reservation_key ''r1'') = Some (CReservation demo_doc)"
  "row_of demo_reserved 7 = Some \<lparr>q_quota = 100, q_used = 10, q_reserved = 5\<rparr>"
  "fst (LoadUploadReservation True ''r1'' demo_reserved) = Inr demo_doc"
  by code_simp+

lemma demo_doc_fields [simp]:
  "rv_Status demo_doc = ''reserved''" "rv_UserID demo_doc = 7" "rv_Size demo_doc = 5"
  "rv_ExpiresAt demo_doc = 2000" "configured (Some demo_cfg)"
  by (simp_all add: demo_doc_def configured_def demo_cfg_def)

end
