(* ===== verification/ReservationProps.thy ===== *)
theory ReservationProps
  imports ReservationSteps
begin

text \<open>
  The properties of the reservation service: limits and ledger invariant along every run, what
  reserving, committing and retrying achieve, and what the periodic tick really does.
\<close>

section \<open>Invariants of every run\<close>

definition within_quota :: "'a quota_st_scheme \<Rightarrow> bool" where
  "within_quota w =
     (\<forall>u q us rs. quota_view w u = Some (q, us, rs) \<longrightarrow> q = 0 \<or> us + rs \<le> q)"

lemma within_quota_all_fit: "within_quota w = ql.all_fit w"
  by (auto simp: within_quota_def ql.all_fit_def fits_def)

lemma within_effect: "effect w w' \<Longrightarrow> within_quota w \<Longrightarrow> within_quota w'"
proof (induction rule: effect.induct)
  case (e_releaseall w u)
  have "fits (entry_of (r\<lparr>q_reserved := 0\<rparr>))" if "row_of w u = Some r" for r
    using e_releaseall quota_view_row [OF that] by (force simp: within_quota_def fits_def entry_of_def)
  with e_releaseall show ?case
    by (auto simp: ReleaseAllReservedStorage_def within_quota_def fits_def entry_of_def split: option.splits)
next
  case (e_reserve w u n)
  then show ?case using ql.step_all_fit [of w "OReserve u n"] by (simp add: within_quota_all_fit)
next
  case (e_commit w u n)
  then show ?case using ql.step_all_fit [of w "OCommit u n"] by (simp add: within_quota_all_fit)
next
  case (e_release w u n)
  then show ?case using ql.step_all_fit [of w "ORelease u n"] by (simp add: within_quota_all_fit)
qed (simp_all add: within_quota_def quota_view_def row_of_def rstore_def rremove_def drawn_def
    advance_def DeleteObject_frames)

text \<open>C1: along every run of the service, failures and recoveries included, no user's used and
  reserved bytes together exceed a non-zero quota.\<close>

theorem quota_limit_always:
  assumes "(any_step s)\<^sup>*\<^sup>* w w'" and "within_quota w"
  shows "within_quota w'"
  using run_effects [OF assms(1)] assms(2) by (rule effects_invariant) (rule within_effect)

lemma demo_within [simp]: "within_quota demo"
  by (auto simp: within_quota_def split: if_splits)

theorem quota_limit_always_witness: "within_quota demo_reserved"
  by (rule quota_limit_always [OF demo_reserved_run demo_within])

text \<open>C5: started in a state where it holds, along every run of calls of the reservation service, ticks and waiting
  in which no external call fails, the bytes promised by the live reservations in Redis are covered by the bytes
  reserved in MySQL, for every user. A recovery in such a run hands back no more than the ledger holds beyond the
  promises.\<close>

theorem promises_backed:
  assumes "(service_step s)\<^sup>*\<^sup>* w w'" and "sound w"
  shows "pledged w' u \<le> held w' u"
proof -
  have "sound w'" using assms by (induction rule: rtranclp_induct) (auto intro: service_step_sound)
  then show ?thesis by (simp add: sound_def backed_def)
qed

theorem promises_backed_witness: "pledged demo_reserved 7 \<le> held demo_reserved 7"
  by (rule promises_backed [OF demo_service_run demo_sound])

section \<open>Committing\<close>

lemma quota_view_redis [simp]:
  "quota_view (rstore k v ttl w) = quota_view w" "quota_view (rremove k w) = quota_view w"
  "quota_view (advance d w) = quota_view w"
  by (simp_all add: quota_view_def row_of_def rstore_def rremove_def advance_def fun_eq_iff)

lemma CommitStorage_calm:
  assumes "calm w" and "u \<noteq> 0" and "0 < n" and "row_of w u = Some row"
    and "n \<le> uint (q_reserved row)" and "in_range (uint (q_used row)) (uint (q_reserved row))"
  shows "fst (CommitStorage u n w) = Inr ()"
  using assms by (auto simp: CommitStorage_def calm_not_failing Let_def in_range_def)

lemma Commit_live:
  assumes "calm w" and "configured s"
    and r: "fst (LoadUploadReservation True rid w) = Inr r" "rv_Status r = ''reserved''"
      "rv_UserID r \<noteq> 0" "0 < rv_Size r" "now w \<le> rv_ExpiresAt r"
    and row: "row_of w (rv_UserID r) = Some row" "in_range (uint (q_used row)) (uint (q_reserved row))"
      "rv_Size r \<le> uint (q_reserved row)"
  shows "fst (Commit s rid w) = Inr () \<and>
    quota_view (snd (Commit s rid w)) = (quota_view w)(rv_UserID r \<mapsto>
      (unat (q_quota row), unat (q_used row) + nat (rv_Size r), unat (q_reserved row) - nat (rv_Size r))) \<and>
    \<not> is_ok (fst (LoadUploadReservation True rid (snd (Commit s rid w))))"
proof -
  let ?u = "rv_UserID r" and ?n = "rv_Size r"
  note c = assms(1)
  have rid: "rid \<noteq> []" using r(1) by (auto simp: LoadUploadReservation_def split: if_splits)
  from r(1) obtain v where v: "rlookup w (reservation_key rid) = Some v" "decode_reservation v = Inr r"
    by (auto simp: Load_calm c rid split: option.splits)
  have l: "LoadUploadReservation True rid w = (Inr r, drawn w)"
    using v by (simp add: Load_calm c rid)
  obtain x w2 where ok: "CommitStorage ?u ?n (drawn w) = (Inr x, w2)"
    using CommitStorage_calm [of "drawn w" ?u ?n row] row r c calm_drawn by (cases "CommitStorage ?u ?n (drawn w)") auto
  have com: "Commit s rid w = (Inr (), drop_reservation ?u rid w2)"
    using assms(2) rid l r(2,5) ok by (simp add: Commit_def not_less)
  have c2: "calm w2" using quota_op_frames(6) [of "drawn w" ?u ?n] ok calm_drawn [OF c] by simp
  have "quota_view (snd (Commit s rid w)) = (quota_view w)(?u \<mapsto>
      (unat (q_quota row), unat (q_used row) + nat ?n, unat (q_reserved row) - nat ?n))"
    using ql.commit_ok [OF ok] row(1)
    by (auto simp: com drop_calm c2 rid quota_view_row entry_of_def)
  moreover have "\<not> is_ok (fst (LoadUploadReservation True rid (snd (Commit s rid w))))"
    by (simp add: com drop_calm c2 rid Load_calm calm_drawn rc.lookup_remove)
  ultimately show ?thesis by (simp add: com)
qed

lemma sound_covers:
  assumes "sound w" and "fst (LoadUploadReservation True rid w) = Inr r" and "rv_Status r = ''reserved''"
    and "row_of w (rv_UserID r) = Some row"
  shows "rv_Size r \<le> uint (q_reserved row)"
proof -
  have rid: "rid \<noteq> []" using assms(2) by (auto simp: LoadUploadReservation_def split: if_splits)
  from assms(2) obtain v where v: "rlookup w (reservation_key rid) = Some v" "decode_reservation v = Inr r"
    by (auto simp: Load_calm sound_calm [OF assms(1)] rid split: option.splits)
  have "vweight (rv_UserID r) v \<le> pledged w (rv_UserID r)" by (rule pledged_live [OF v(1) reservation_prefix(1)])
  moreover have "pledged w (rv_UserID r) \<le> held w (rv_UserID r)" using assms(1) by (simp add: sound_def backed_def)
  ultimately have "nat (rv_Size r) \<le> unat (q_reserved row)"
    using v(2) assms(3,4) by (simp add: vweight_def held_def quota_view_row entry_of_def)
  then show ?thesis by (simp only: uint_u64_unat nat_le_iff)
qed

text \<open>C12: in a sound state every live, unexpired reservation can be committed: the ledger always
  has the bytes. The bytes move from reserved to used, and the reservation is gone.\<close>

theorem live_reservation_commits:
  assumes "sound w" and "configured s"
    and r: "fst (LoadUploadReservation True rid w) = Inr r" "rv_Status r = ''reserved''"
      "rv_UserID r \<noteq> 0" "0 < rv_Size r" "now w \<le> rv_ExpiresAt r"
    and row: "row_of w (rv_UserID r) = Some row" "in_range (uint (q_used row)) (uint (q_reserved row))"
  shows "fst (Commit s rid w) = Inr () \<and>
    quota_view (snd (Commit s rid w)) = (quota_view w)(rv_UserID r \<mapsto>
      (unat (q_quota row), unat (q_used row) + nat (rv_Size r), unat (q_reserved row) - nat (rv_Size r))) \<and>
    \<not> is_ok (fst (LoadUploadReservation True rid (snd (Commit s rid w))))"
  by (rule Commit_live [OF sound_calm [OF assms(1)] assms(2) r row sound_covers [OF assms(1) r(1,2) row(1)]])

theorem live_reservation_commits_witness: "fst (Commit (Some demo_cfg) ''r1'' demo_reserved) = Inr ()"
  using live_reservation_commits [OF demo_reserved_sound demo_doc_fields(5) demo_reserved_facts(4)]
    demo_reserved_facts(1,3) by (simp add: in_range_def)

section \<open>Reserving\<close>

text \<open>The state after the document of a new reservation has been saved.\<close>

definition saved_state :: "uid \<Rightarrow> int \<Rightarrow> upload_reservation \<Rightarrow> int \<Rightarrow> 'a resv_st_scheme \<Rightarrow> 'a resv_st_scheme" where
  "saved_state u sz r ttl w =
     rstore (reservation_key (rv_ID r)) (CReservation (stored_form r (now w + ttl))) ttl
       (drawn (rstore (quota_reserved_key u) (CBytes ''1'') (quota_flag_ttl sz) (drawn w)))"

lemma ReserveStorage_frames:
  assumes "ReserveStorage u n w = (a, w')"
  shows "redis w' = redis w" and "now w' = now w" and "calm w \<Longrightarrow> calm w'"
  using quota_op_frames(1-3) [where u = u and n = n and w = w] assms by simp_all

lemma ReserveStorage_args: "ReserveStorage u n w = (Inr x, w') \<Longrightarrow> u \<noteq> 0 \<and> 0 < n"
  by (simp add: ReserveStorage_def split: if_splits)

lemma reserve_new_saved:
  assumes "calm w" and "ReserveStorage u sz w = (Inr x, w1)" and "rid \<noteq> []" and "0 < ttl"
  shows "reserve_new c u obj sz req ttl rid fresh w =
    (let ik = (if req = [] then fresh else req);
         w3 = saved_state u sz (new_reservation u obj sz rid ik) ttl w1
     in if req = [] then (Inr (rid, ik), w3)
        else (case claim c u req rid ttl w3 of
                (Inl e, w) \<Rightarrow> (Inl e, undo_reserve u sz rid w)
              | (Inr claimed, w) \<Rightarrow>
                  if claimed then (Inr (rid, ik), w)
                  else (case load_claimed u req (undo_reserve u sz rid w) of
                          (Some r, w) \<Rightarrow> (Inr (rv_ID r, rv_IdempotencyKey r), w)
                        | (None, w) \<Rightarrow>
                            (Inl (Msg ''idempotency reservation is being created''), w))))"
proof -
  have c1: "calm w1" using ReserveStorage_frames(3) [OF assms(2,1)] .
  have fields: "rv_ID (new_reservation u obj sz rid k) = rid" "rv_UserID (new_reservation u obj sz rid k) = u"
    "rv_Size (new_reservation u obj sz rid k) = sz" for k
    by (simp_all add: new_reservation_def)
  have "SaveUploadReservation True (new_reservation u obj sz rid k) ttl (snd (SetQuotaReserved True u sz w1))
      = (Inr (), saved_state u sz (new_reservation u obj sz rid k) ttl w1)" for k
    using c1 assms ReserveStorage_args [OF assms(2)]
    by (subst Save_calm) (simp_all add: SetQuotaReserved_def Set_calm calm_drawn saved_state_def fields)
  then show ?thesis
    by (simp add: reserve_new_def assms(2) Let_def)
qed

text \<open>C18: a plain reservation that succeeds reserves exactly its bytes, within the quota, and can
  be loaded with its size, owner and key for exactly its lifetime.\<close>

theorem reserve_effect:
  assumes "calm w" and "rid \<noteq> []"
    and ok: "Reserve s u obj sz ttl rid fresh w = (Inr (a, b), w')"
  shows "a = rid \<and> b = fresh \<and>
    (\<exists>q us rs. quota_view w u = Some (q, us, rs) \<and> (q = 0 \<or> us + (rs + nat sz) \<le> q) \<and>
       quota_view w' = (quota_view w)(u \<mapsto> (q, us, rs + nat sz))) \<and>
    (\<forall>d\<ge>0. fst (LoadUploadReservation True rid (advance d w')) =
       (if d < ttl then Inr ((new_reservation u obj sz rid fresh)\<lparr>rv_ExpiresAt := now w + ttl\<rparr>)
        else Inl (Msg ''redis: nil'')))"
proof -
  have new: "reserve_new (the s) u obj sz [] ttl rid fresh w = (Inr (a, b), w')" and ttl: "0 < ttl"
    using ok by (auto simp: Reserve_def ReserveWithIdempotency_def split: if_splits)
  obtain x w1 where r: "ReserveStorage u sz w = (Inr x, w1)"
    using new by (cases "ReserveStorage u sz w") (auto simp: reserve_new_def split: sum.splits)
  have plain: "reserve_new (the s) u obj sz [] ttl rid fresh w
      = (Inr (rid, fresh), saved_state u sz (new_reservation u obj sz rid fresh) ttl w1)"
    by (simp add: reserve_new_saved [OF assms(1) r assms(2) ttl] Let_def)
  from trans [OF new [symmetric] plain]
  have eq: "a = rid" "b = fresh" "w' = saved_state u sz (new_reservation u obj sz rid fresh) ttl w1"
    by simp_all
  have c1: "calm w1" "now w1 = now w" using ReserveStorage_frames [OF r] assms(1) by simp_all
  have "quota_view w' = quota_view w1" by (simp add: eq saved_state_def)
  moreover have "fst (LoadUploadReservation True rid (advance d w')) =
       (if d < ttl then Inr ((new_reservation u obj sz rid fresh)\<lparr>rv_ExpiresAt := now w + ttl\<rparr>)
        else Inl (Msg ''redis: nil''))" if "0 \<le> d" for d
    using that assms(2) ttl c1
    by (simp add: eq saved_state_def Load_calm calm_drawn rc.lifetime new_reservation_def stored_form_def)
  ultimately show ?thesis using ql.reserve_ok [OF r] eq by (auto simp: fits_def)
qed

theorem reserve_effect_witness: "quota_view demo_reserved 7 = Some (100, 10, 5)"
  using reserve_effect [OF demo_simps(4) _ demo_Reserve] by auto




lemma saved_state_facts:
  "calm w \<Longrightarrow> calm (saved_state u sz r ttl w)" "quota_view (saved_state u sz r ttl w) = quota_view w"
  "now (saved_state u sz r ttl w) = now w"
  by (simp_all add: saved_state_def calm_drawn)



text \<open>At most one of the external calls to come fails; once it has failed, the rest is calm.\<close>

definition one_fault :: "'a env_scheme \<Rightarrow> bool" where
  "one_fault w = (length (filter id (faults w)) \<le> 1)"

lemma one_fault_drawn [simp]: "one_fault w \<Longrightarrow> one_fault (drawn w)"
  by (cases "faults w") (auto simp: one_fault_def drawn_def split: if_splits)


lemma one_fault_same: "faults v = faults w \<Longrightarrow> one_fault v = one_fault w"
  by (simp add: one_fault_def)


lemma one_fault_stores [simp]: "one_fault (rstore k v ttl w) = one_fault w" "one_fault (put_row u r w) = one_fault w"
  by (simp_all add: one_fault_def rstore_def put_row_def)








lemma saved_lookup:
  assumes "0 < ttl" and "0 \<le> d" and "d < ttl"
  shows "rlookup (advance d (saved_state u sz r ttl w)) (reservation_key (rv_ID r))
    = Some (CReservation (stored_form r (now w + ttl)))"
  using assms by (simp add: saved_state_def rc.lifetime)

text \<open>C19: a retry with the same idempotency key during the lifetime of the reservation returns the
  identifiers of the first call and reserves nothing more.\<close>

theorem idempotent_retry:
  assumes "calm w" and "rid \<noteq> []" and "req \<noteq> []"
    and "rlookup w (IdempotencyKey u req) = None"
    and first: "ReserveWithIdempotency s u obj sz req ttl rid fresh w = (Inr (a, b), w')"
    and "0 \<le> d" and "d < ttl" and "0 < sz'" and "0 < ttl'" and "healthy (advance d w')"
  shows "fst (ReserveWithIdempotency s u obj' sz' req ttl' rid' fresh' (advance d w')) = Inr (a, b) \<and>
    quota_view (snd (ReserveWithIdempotency s u obj' sz' req ttl' rid' fresh' (advance d w'))) = quota_view w'"
proof -
  have cfg: "configured s" "has_cache s" "u \<noteq> 0" "0 < ttl"
    using first by (auto simp: ReserveWithIdempotency_def Healthy_def split: if_splits)
  have "load_claimed u req w = (None, drawn w)"
    using assms(1,4) by (simp add: load_claimed_def Get_calm)
  then have new: "reserve_new (the s) u obj sz req ttl rid fresh (drawn w) = (Inr (a, b), w')"
    using first assms(3) by (auto simp: ReserveWithIdempotency_def find_reusable_def split: if_splits)
  obtain x w1 where r: "ReserveStorage u sz (drawn w) = (Inr x, w1)"
    using new by (cases "ReserveStorage u sz (drawn w)") (auto simp: reserve_new_def split: sum.splits)
  have w1: "redis w1 = redis w" "now w1 = now w" "calm w1"
    using ReserveStorage_frames [OF r] assms(1) by (simp_all add: calm_drawn)
  define res where "res = new_reservation u obj sz rid req"
  have res: "rv_ID res = rid" "rv_IdempotencyKey res = req" "rv_Status res = ''reserved''"
    by (simp_all add: res_def new_reservation_def)
  define w3 where "w3 = saved_state u sz res ttl w1"
  have absent: "rlookup w3 (IdempotencyKey u req) = None"
    using assms(4) rlookup_same [OF w1(1,2)] by (simp add: w3_def saved_state_def rc.lookup_store)
  have c3: "calm w3" using w1(3) by (simp add: w3_def saved_state_facts)
  have "claim (the s) u req rid ttl w3
      = (Inr True, rstore (IdempotencyKey u req) (CBytes rid) ttl (drawn w3))"
    using absent c3 by (simp add: claim_def SetNX_def Set_calm calm_not_failing)
  then have "reserve_new (the s) u obj sz req ttl rid fresh (drawn w)
      = (Inr (rid, req), rstore (IdempotencyKey u req) (CBytes rid) ttl (drawn w3))"
    using assms(3) by (simp add: reserve_new_saved [OF calm_drawn [OF assms(1)] r assms(2) cfg(4)]
        Let_def w3_def res_def)
  from trans [OF new [symmetric] this]
  have eq: "a = rid" "b = req" "w' = rstore (IdempotencyKey u req) (CBytes rid) ttl (drawn w3)" by simp_all
  define W where "W = advance d w'"
  have claimed: "rlookup W (IdempotencyKey u req) = Some (CBytes rid)"
    using assms(6,7) cfg(4) by (simp add: W_def eq rc.lifetime)
  have doc: "rlookup W (reservation_key rid) = Some (CReservation (stored_form res (now w + ttl)))"
    using saved_lookup [OF cfg(4) assms(6,7), of u sz res w1] w1(2)
    by (simp add: W_def eq rc.lookup_wait_other w3_def res)
  have c: "calm W" using c3 by (simp add: W_def eq calm_drawn)
  have n: "now W < now w + ttl"
    using assms(7) w1(2) by (simp add: W_def eq w3_def saved_state_facts advance_def)
  have "find_reusable u req W = (Some (stored_form res (now w + ttl)), drawn (drawn W))"
    using n by (simp add: find_reusable_def load_claimed_def Get_calm c claimed doc Load_calm
        calm_drawn assms(2) stored_form_def res)
  then have "ReserveWithIdempotency s u obj' sz' req ttl' rid' fresh' W
      = (Inr (rid, req), drawn (drawn W))"
    using cfg assms(3,8,9,10) by (simp add: ReserveWithIdempotency_def Healthy_def stored_form_def res W_def [symmetric])
  then show ?thesis by (simp add: W_def eq)
qed

definition demo_once :: "(go_err + string \<times> string) \<times> resv_st" where
  "demo_once = ReserveWithIdempotency (Some demo_cfg) 7 ''o'' 5 ''q'' 9 ''r'' ''f'' demo"

theorem idempotent_retry_witness:
  "fst (ReserveWithIdempotency (Some demo_cfg) 7 ''p'' 6 ''q'' 4 ''r2'' ''f2'' (advance 3 (snd demo_once)))
     = Inr (''r'', ''q'')"
proof -
  have "fst demo_once = Inr (''r'', ''q'')" "healthy (advance 3 (snd demo_once))"
    by code_simp+
  moreover have "rlookup demo (IdempotencyKey 7 ''q'') = None" by (simp add: rlookup_def)
  ultimately show ?thesis
    using idempotent_retry [of demo "''r''" "''q''" 7 "Some demo_cfg" "''o''" 5 9 "''f''" "''r''" "''q''"
        "snd demo_once" 3 6 4 "''p''" "''r2''" "''f2''"]
    by (simp add: demo_once_def prod_eq_iff)
qed

end
