(* ===== verification/ReservationTick.thy ===== *)
theory ReservationTick
  imports ReservationProps
begin

text \<open>
  What the periodic tick of the reservation service does to live data. Documents carry the instant
  at which Redis drops them, so the sweep never meets an expired one; the collector looks up a
  document key that no reservation has, so it takes every object of a user with a reservation.
\<close>

section \<open>The sweep\<close>

definition aligned :: "'a cache_st_scheme \<Rightarrow> bool" where
  "aligned w = list_all (\<lambda>(k, v, e). HasPrefix k ''reservation:'' \<longrightarrow>
     (case v of CReservation r \<Rightarrow> e = Some (rv_ExpiresAt r) | _ \<Rightarrow> False)) (redis w)"

lemma list_all_update:
  "list_all P al \<Longrightarrow> P (k, v) \<Longrightarrow> list_all P (AList.update k v al)"
  by (induction al) auto

lemma list_all_delete: "list_all P al \<Longrightarrow> list_all P (AList.delete k al)"
  by (induction al) auto

lemma aligned_same: "aligned w \<Longrightarrow> redis w' = redis w \<Longrightarrow> aligned w'"
  by (simp add: aligned_def)

lemma aligned_effect: "effect w w' \<Longrightarrow> aligned w \<Longrightarrow> aligned w'"
proof (induction rule: effect.induct)
  case (e_remove w k)
  then show ?case unfolding aligned_def redis_after by (rule list_all_delete)
next
  case (e_store k w v ttl)
  then show ?case unfolding aligned_def redis_after by (intro list_all_update) simp_all
next
  case (e_save ttl w rid r)
  then show ?case unfolding aligned_def redis_after
    by (intro list_all_update) (simp_all add: expiry_of_def stored_form_def)
qed (erule aligned_same, simp add: quota_op_frames DeleteObject_frames)+

lemma aligned_lookup:
  assumes "aligned w" and "rlookup w k = Some v" and "HasPrefix k ''reservation:''"
    and "decode_reservation v = Inr r"
  shows "now w < rv_ExpiresAt r"
proof -
  from assms(2) obtain e where e: "map_of (redis w) k = Some (v, e)" "live (now w) e"
    by (auto simp: rlookup_def split: option.splits if_splits)
  from assms(1,3) map_of_SomeD [OF e(1)]
  have "case v of CReservation r \<Rightarrow> e = Some (rv_ExpiresAt r) | _ \<Rightarrow> False"
    by (auto simp: aligned_def list_all_iff)
  with e(2) assms(4) show ?thesis by (auto simp: live_def split: cval.splits)
qed

lemma sweep_key_idle:
  assumes "aligned w" and "HasPrefix k ''reservation:''"
  shows "sweep_key k w = (False, drawn w)"
  using assms aligned_lookup [OF assms(1) _ assms(2)]
  by (auto simp: sweep_key_def Get_def split: option.splits sum.splits)

lemma sweep_keys_idle:
  "aligned w \<Longrightarrow> \<forall>k \<in> set ks. HasPrefix k ''reservation:'' \<Longrightarrow>
     sweep_keys ks n w = (n, (drawn ^^ length ks) w)"
proof (induction ks arbitrary: w)
  case (Cons k ks)
  have "aligned (drawn w)" using Cons.prems(1) by (simp add: aligned_def)
  with Cons show ?case by (simp add: sweep_key_idle funpow_swap1)
qed simp

lemma sweep_idle:
  assumes "aligned w"
  shows "reads w (snd (SweepExpired s w))" and "fst (SweepExpired s w) = Inr n \<Longrightarrow> n = 0"
proof -
  obtain ks w1 where k: "Keys ''reservation:'' w = (ks, w1)" by (cases "Keys ''reservation:'' w")
  have w1: "reads w w1" using k by (rule reads_bound)
  then have a: "aligned w1" using assms by (simp add: aligned_def reads_same)
  have "reads w ((drawn ^^ m) w1)" for m
    by (rule reads_trans [OF w1]) (auto simp: reads_def)
  moreover have "ks = Inr ks' \<Longrightarrow> sweep_keys ks' 0 w1 = (0, (drawn ^^ length ks') w1)" for ks'
    using Keys_prefix k by (blast intro: sweep_keys_idle [OF a])
  ultimately show "reads w (snd (SweepExpired s w))" "fst (SweepExpired s w) = Inr n \<Longrightarrow> n = 0"
    using k w1 by (auto simp: SweepExpired_def split: sum.splits if_splits)
qed

text \<open>Started with an empty Redis, no run of the service, failures included, ever reaches a
  state in which the sweep of expired reservations releases anything: it reports no reservation and
  changes neither Redis nor the ledger. Redis has always dropped the document before.\<close>

theorem sweep_never_releases:
  assumes "(any_step s)\<^sup>*\<^sup>* w w'" and "redis w = []"
  shows "fst (SweepExpired s w') \<in> {Inl not_configured, Inl (Wrap ''sweep: list keys'' redis_down), Inr 0}
    \<and> redis (snd (SweepExpired s w')) = redis w' \<and> quota_tbl (snd (SweepExpired s w')) = quota_tbl w'"
proof -
  have "aligned w" using assms(2) by (simp add: aligned_def)
  with run_effects [OF assms(1)] have a: "aligned w'" by (rule effects_invariant) (rule aligned_effect)
  have "fst (SweepExpired s w') = Inl not_configured \<or>
      fst (SweepExpired s w') = Inl (Wrap ''sweep: list keys'' redis_down) \<or>
      (\<exists>n. fst (SweepExpired s w') = Inr n)"
    by (auto simp: SweepExpired_def Keys_def split: prod.splits)
  with sweep_idle [OF a, of s] reads_same(2,3) [OF sweep_idle(1) [OF a]] show ?thesis by auto
qed

theorem sweep_never_releases_witness:
  "quota_tbl (snd (SweepExpired (Some demo_cfg) demo_reserved)) = quota_tbl demo_reserved"
  using sweep_never_releases [OF demo_reserved_run demo_simps(2)] by simp

section \<open>The collector\<close>

lemma orphans_all:
  "calm w \<Longrightarrow> \<forall>ob \<in> set obs. rlookup w (reservation_key (objToReservationKey (oi_Key ob))) = None \<Longrightarrow>
     orphans hc obs w = (map oi_Key obs, if hc then (drawn ^^ length obs) w else w)"
proof (induction obs arbitrary: w)
  case (Cons ob obs)
  have ne: "objToReservationKey (oi_Key ob) \<noteq> []" by (simp add: objToReservationKey_def)
  show ?case
  proof (cases hc)
    case True
    have "orphans hc obs (drawn w) = (map oi_Key obs, (drawn ^^ length obs) (drawn w))"
      using Cons.IH [of "drawn w"] Cons.prems True by (simp add: calm_drawn)
    with Cons.prems True ne show ?thesis by (simp add: Load_calm funpow_swap1)
  next
    case False
    have "orphans hc obs w = (map oi_Key obs, w)"
      using Cons.IH [of w] Cons.prems False by simp
    with False show ?thesis by (simp add: LoadUploadReservation_def)
  qed
qed simp

definition no_doubled :: "'a cache_st_scheme \<Rightarrow> bool" where
  "no_doubled w = list_all (\<lambda>(k, _). \<not> HasPrefix k ''reservation:reservation:'') (redis w)"

lemma no_doubled_lookup:
  assumes "no_doubled w"
  shows "rlookup w (reservation_key (objToReservationKey k)) = None"
proof (rule ccontr)
  assume "rlookup w (reservation_key (objToReservationKey k)) \<noteq> None"
  then obtain x where "(reservation_key (objToReservationKey k), x) \<in> set (redis w)"
    by (auto simp: rlookup_def split: option.splits dest: map_of_SomeD)
  with assms have "\<not> HasPrefix (reservation_key (objToReservationKey k)) ''reservation:reservation:''"
    by (auto simp: no_doubled_def list_all_iff)
  then show False by (simp add: reservation_key_def objToReservationKey_def)
qed

text \<open>The collector takes every object it lists for an orphan, whatever reservations are live,
  because it asks for the document "reservation:reservation:(object key)" while reservations are
  stored under "reservation:(id)".\<close>

theorem collect_takes_everything:
  assumes "calm w" and "no_doubled w" and "p = [] \<or> is_ok (validateKey (trim_slash p))"
  shows "fst (CollectOrphaned (Some c) (Some sid) p w) = Inr (map oi_Key (listing w sid p))"
proof -
  have "\<forall>ob \<in> set (listing w sid p). rlookup (drawn w) (reservation_key (objToReservationKey (oi_Key ob))) = None"
    using no_doubled_lookup [OF assms(2)] by simp
  from orphans_all [OF calm_drawn [OF assms(1)] this, of "s_cache c"] assms(1,3)
  show ?thesis
    by (auto simp: CollectOrphaned_def ListObjects_def Let_def calm_not_failing listing_def is_ok_def
        split: sum.splits)
qed

lemma demo_no_doubled [simp]: "no_doubled demo_reserved"
  by code_simp

theorem collect_takes_everything_witness:
  "fst (CollectOrphaned (Some demo_cfg) (Some Internal) (userPrefix 7) demo_reserved) = Inr [''users/7/a'']"
proof -
  have "map oi_Key (listing demo_reserved Internal (userPrefix 7)) = [''users/7/a'']" by code_simp
  then show ?thesis
    using collect_takes_everything [OF demo_reserved_calm demo_no_doubled
        disjI2 [OF validateKey_userPrefix], of demo_cfg Internal 7] by simp
qed

lemma DeleteObject_calm:
  assumes "calm w"
  shows "contents (snd (DeleteObject sid k w)) sid j
    = (if j = k \<and> is_ok (validateKey k) then None else contents w sid j)"
  using assms by (auto simp: DeleteObject_def Let_def calm_not_failing contents_def delete_conv'
      split: sum.splits)

lemma delete_keys_calm:
  "calm w \<Longrightarrow> contents (delete_keys sid ks w) sid j
     = (if j \<in> set ks \<and> is_ok (validateKey j) then None else contents w sid j)"
  by (induction ks arbitrary: w) (auto simp: DeleteObject_calm DeleteObject_frames)

lemma delete_keys_frames:
  "redis (delete_keys sid ks w) = redis w" "now (delete_keys sid ks w) = now w"
  "calm w \<Longrightarrow> calm (delete_keys sid ks w)"
  by (induction ks arbitrary: w) (simp_all add: DeleteObject_frames)

lemma contents_reads: "reads w w' \<Longrightarrow> contents w' = contents w"
  by (simp add: contents_def reads_same fun_eq_iff)

lemma listing_keys: "k \<in> oi_Key ` set (listing w sid p) \<longleftrightarrow> contents w sid k \<noteq> None \<and> HasPrefix k p"
  by (auto simp: listing_def info_of_def contents_def image_iff map_of_eq_None_iff) force+

text \<open>One user of the collector's loop, and the loop: objects only disappear.\<close>

lemma collect_one:
  assumes "calm w" and "no_doubled w"
  shows "\<exists>ks w1. CollectOrphaned (Some c) (Some sid) (userPrefix u) w = (Inr ks, w1) \<and> reads w w1 \<and>
    (\<forall>k. HasPrefix k (userPrefix u) \<longrightarrow> is_ok (validateKey k) \<longrightarrow>
       contents (delete_keys sid ks w1) sid k = None)"
proof -
  obtain r w1 where r: "CollectOrphaned (Some c) (Some sid) (userPrefix u) w = (r, w1)"
    by (cases "CollectOrphaned (Some c) (Some sid) (userPrefix u) w")
  have w1: "reads w w1" using CollectOrphaned_reads [of w "Some c" "Some sid" "userPrefix u"] r by simp
  have ks: "r = Inr (map oi_Key (listing w sid (userPrefix u)))"
    using collect_takes_everything [OF assms disjI2 [OF validateKey_userPrefix], of c sid u] r by simp
  have "contents (delete_keys sid (map oi_Key (listing w sid (userPrefix u))) w1) sid k = None"
    if "HasPrefix k (userPrefix u)" "is_ok (validateKey k)" for k
    using that reads_calm [OF w1 assms(1)] contents_reads [OF w1] listing_keys [of k w sid "userPrefix u"]
    by (auto simp: delete_keys_calm)
  with r ks w1 show ?thesis by blast
qed

lemma collect_users_empties:
  assumes "calm w" and "no_doubled w" and "HasPrefix k (userPrefix u)" and "is_ok (validateKey k)"
    and "u \<in> set us \<or> contents w sid k = None"
  shows "contents (collect_users (Some c) sid us w) sid k = None"
  using assms
proof (induction us arbitrary: w)
  case (Cons v us)
  obtain ks w1 where c: "CollectOrphaned (Some c) (Some sid) (userPrefix v) w = (Inr ks, w1)" "reads w w1"
    "\<forall>k. HasPrefix k (userPrefix v) \<longrightarrow> is_ok (validateKey k) \<longrightarrow>
       contents (delete_keys sid ks w1) sid k = None"
    using collect_one [OF Cons.prems(1,2)] by blast
  have c1: "calm w1" using c(2) Cons.prems(1) by (rule reads_calm)
  let ?w = "delete_keys sid ks w1"
  have "calm ?w" "no_doubled ?w"
    using c1 Cons.prems(2) reads_same(2) [OF c(2)] by (simp_all add: delete_keys_frames no_doubled_def)
  moreover have "u \<in> set us \<or> contents ?w sid k = None"
    using c(3) Cons.prems(3-5) delete_keys_calm [OF c1, of sid ks k] contents_reads [OF c(2)] by auto
  ultimately show ?case using Cons.IH [of ?w] Cons.prems(3,4) c(1) by simp
qed simp

text \<open>The collection within a tick.\<close>

lemma sweep_objects_empties:
  assumes "calm w" and "no_doubled w" and "s_backend c = Some sid"
    and "rlookup w rk = Some v" and "HasPrefix rk ''reservation:''" and "decode_reservation v = Inr r"
    and "HasPrefix k (userPrefix (rv_UserID r))" and "is_ok (validateKey k)"
  shows "contents (sweep_objects (Some c) w) sid k = None"
proof -
  let ?w = "drawn w" and ?ks = "live_keys (drawn w) ''reservation:''"
  have keys: "Keys ''reservation:'' w = (Inr ?ks, ?w)"
    using assms(1) by (simp add: Keys_def calm_not_failing live_keys_def)
  obtain e where e: "map_of (redis w) rk = Some (v, e)" "live (now w) e"
    using assms(4) by (auto simp: rlookup_def split: option.splits if_splits)
  have mem: "rk \<in> set ?ks"
    using map_of_SomeD [OF e(1)] e(2) assms(5) by (force simp: live_keys_def)
  obtain rs w2 where rs: "readable ?ks ?w = (rs, w2)" by (cases "readable ?ks ?w")
  have w2: "reads ?w w2" using readable_reads [of ?w ?ks] rs by simp
  have r: "r \<in> set rs"
    using readable_calm [OF calm_drawn [OF assms(1)], of ?ks] rs mem assms(4,6)
    by (force simp: List.map_filter_def image_iff)
  have "contents (collect_users (Some c) sid (rev (remdups (rev (map rv_UserID rs)))) w2) sid k = None"
    by (rule collect_users_empties [OF _ _ assms(7,8)])
      (use r reads_calm [OF w2] reads_same(2) [OF w2] assms(1,2) in
        \<open>auto simp: calm_drawn no_doubled_def\<close>)
  then show ?thesis by (simp add: sweep_objects_def assms(3) keys rs)
qed

text \<open>Nothing in a run brings an object back.\<close>

lemma quota_ops_stores:
  fixes w :: "'a resv_st_scheme"
  shows "stores (snd (ReserveStorage u n w)) = stores w" "stores (snd (CommitStorage u n w)) = stores w"
    "stores (snd (ReleaseStorage u n w)) = stores w" "stores (snd (ReleaseAllReservedStorage u w)) = stores w"
  by (auto simp: ReserveStorage_def CommitStorage_def ReleaseStorage_def ReleaseAllReservedStorage_def Let_def put_row_def
      drawn_def split: option.split)

lemma effect_no_object: "effect w w' \<Longrightarrow> contents w sid k = None \<Longrightarrow> contents w' sid k = None"
proof (induction rule: effect.induct)
  case (e_delete w sd j)
  then show ?case by (auto simp: DeleteObject_def Let_def contents_def delete_conv' split: sum.splits)
qed (simp_all add: contents_def quota_ops_stores rstore_def rremove_def advance_def drawn_def)

lemma effects_no_object: "effects w w' \<Longrightarrow> contents w sid k = None \<Longrightarrow> contents w' sid k = None"
  by (rule effects_invariant [of w w' "\<lambda>w. contents w sid k = None"]) (use effect_no_object in blast)+

text \<open>The health check of a tick draws one call and sets a flag.\<close>

lemma calm_healthy: "calm (w\<lparr>healthy := b\<rparr>) = calm w"
  by (simp add: calm_def)

lemma HealthCheck_keeps:
  "redis (snd (HealthCheck s w)) = redis w" "now (snd (HealthCheck s w)) = now w"
  "calm w \<Longrightarrow> calm (snd (HealthCheck s w))"
  by (simp_all add: HealthCheck_def checkHealth_def setHealthy_def Ping_def Let_def calm_drawn calm_healthy split: option.split)

text \<open>C24: while a user has any live reservation, one whole tick of the service deletes every object below the user's
  prefix, committed files and the upload in flight alike. This holds in every state that a run from an empty Redis
  reaches, as long as no call of the tick fails; no reservation has an ID that itself starts like a document's key,
  which the random IDs never do.\<close>

theorem tick_deletes_all_objects:
  assumes "(any_step s)\<^sup>*\<^sup>* w0 w" and "redis w0 = []"
    and "calm w" and "no_doubled w" and "configured (Some c)" and "s_backend c = Some sid"
    and "rlookup w rk = Some v" and "HasPrefix rk ''reservation:''" and "decode_reservation v = Inr r"
    and "HasPrefix k (userPrefix (rv_UserID r))" and "is_ok (validateKey k)"
  shows "contents (Tick (Some c) w) sid k = None"
proof -
  have "aligned w0" using assms(2) by (simp add: aligned_def)
  with run_effects [OF assms(1)] have al: "aligned w" by (rule effects_invariant) (rule aligned_effect)
  define w1 where "w1 = snd (HealthCheck (Some c) w)"
  have w1: "redis w1 = redis w" "now w1 = now w" "calm w1"
    using assms(3) by (simp_all add: w1_def HealthCheck_keeps)
  define w2 where "w2 = snd (SweepExpired (Some c) w1)"
  have rd: "reads w1 w2" unfolding w2_def by (rule sweep_idle(1)) (rule aligned_same [OF al w1(1)])
  have w2: "redis w2 = redis w" "now w2 = now w" "calm w2"
    using reads_same [OF rd] reads_calm [OF rd w1(3)] w1 by simp_all
  have "contents (sweep_objects (Some c) w2) sid k = None"
    by (rule sweep_objects_empties [OF w2(3) _ assms(6) _ assms(8-11)])
      (use assms(4,7) rlookup_same [OF w2(1,2)] w2(1) in \<open>simp_all add: no_doubled_def\<close>)
  then have "contents (snd (ReconcileFromMySQL (Some c) (sweep_objects (Some c) w2))) sid k = None"
    by (rule effects_no_object [OF ReconcileFromMySQL_effects])
  then show ?thesis by (simp add: Tick_def sweepTick_def w1_def w2_def)
qed

theorem tick_deletes_all_objects_witness:
  "contents demo_reserved Internal ''users/7/a'' = Some ''abc'' \<and>
   contents (Tick (Some demo_cfg) demo_reserved) Internal ''users/7/a'' = None"
proof
  show "contents demo_reserved Internal ''users/7/a'' = Some ''abc''" by code_simp
  have "HasPrefix ''users/7/a'' (userPrefix 7)" "is_ok (validateKey ''users/7/a'')" by code_simp+
  then show "contents (Tick (Some demo_cfg) demo_reserved) Internal ''users/7/a'' = None"
    using tick_deletes_all_objects [OF demo_reserved_run demo_simps(2), of demo_cfg Internal "reservation_key ''r1''"
        "CReservation demo_doc" demo_doc "''users/7/a''"] demo_reserved_facts(2)
    by (simp add: demo_cfg_def configured_def)
qed

section \<open>A lost delete\<close>

lemma faults_Cons: "faults w = b # bs \<Longrightarrow> failing w = b \<and> faults (drawn w) = bs"
  by (simp add: failing_def drawn_def)

lemma CommitStorage_lucky:
  assumes "\<not> failing w" and "row_of w u = Some row" and "u \<noteq> 0" and "0 < n"
    and "n \<le> uint (q_reserved row)" and "in_range (uint (q_used row)) (uint (q_reserved row))"
  shows "CommitStorage u n w = (Inr (), put_row u (row\<lparr>q_reserved := q_reserved row - word_of_int n,
            q_used := q_used row + word_of_int n\<rparr>) (drawn w))"
  using assms by (auto simp: CommitStorage_def Let_def in_range_def)

lemma commit_lost_delete:
  assumes "configured s" and "rid \<noteq> []" and "faults w = [False, False, False, True]"
    and v: "rlookup w (reservation_key rid) = Some v" "decode_reservation v = Inr r"
    and r: "rv_Status r = ''reserved''" "rv_UserID r \<noteq> 0" "0 < rv_Size r" "now w \<le> rv_ExpiresAt r"
    and row: "row_of w (rv_UserID r) = Some row" "rv_Size r \<le> uint (q_reserved row)"
      "in_range (uint (q_used row)) (uint (q_reserved row))"
  shows "\<exists>w'. Commit s rid w = (Inr (), w') \<and> calm w' \<and> now w' = now w
    \<and> rlookup w' (reservation_key rid) = Some v
    \<and> row_of w' (rv_UserID r) = Some (row\<lparr>q_reserved := q_reserved row - word_of_int (rv_Size r),
            q_used := q_used row + word_of_int (rv_Size r)\<rparr>)"
proof -
  define row' where "row' = row\<lparr>q_reserved := q_reserved row - word_of_int (rv_Size r),
            q_used := q_used row + word_of_int (rv_Size r)\<rparr>"
  note f0 = faults_Cons [OF assms(3)]
  have f1: "\<not> failing (drawn w)" "faults (drawn (drawn w)) = [False, True]"
    using faults_Cons [of "drawn w" False "[False, True]"] f0 by simp_all
  define w2 where "w2 = put_row (rv_UserID r) row' (drawn (drawn w))"
  have "LoadUploadReservation True rid w = (Inr r, drawn w)"
    using f0 v assms(2) by (simp add: LoadUploadReservation_def Get_def)
  moreover have "CommitStorage (rv_UserID r) (rv_Size r) (drawn w) = (Inr (), w2)"
    unfolding w2_def row'_def
    by (rule CommitStorage_lucky) (use f1 row r in simp_all)
  ultimately have com: "Commit s rid w = (Inr (), drop_reservation (rv_UserID r) rid w2)"
    using assms(1,2) r by (simp add: Commit_def)
  have f2: "faults w2 = [False, True]" by (simp add: w2_def f1)
  note f3 = faults_Cons [OF f2]
  define w3 where "w3 = rremove (quota_reserved_key (rv_UserID r)) (drawn w2)"
  have f4: "faults w3 = [True]" using f3 by (simp add: w3_def)
  note f5 = faults_Cons [OF f4]
  have "snd (DelQuotaReserved True (rv_UserID r) w2) = w3"
    using f3 by (simp add: DelQuotaReserved_def Del_def w3_def)
  moreover have "snd (DeleteUploadReservation True rid w3) = drawn w3"
    using f5 assms(2) by (simp add: DeleteUploadReservation_def Del_def)
  ultimately have d: "drop_reservation (rv_UserID r) rid w2 = drawn w3"
    by (simp add: drop_reservation_def)
  have rw: "row_of (rremove k x) u = row_of x u" for k u and x :: "'a resv_st_scheme"
    by (simp add: row_of_def rremove_def)
  have lk: "rlookup (put_row u y x) k = rlookup x k" for u y k and x :: "'a resv_st_scheme"
    by (rule rlookup_same) simp_all
  have "rlookup (drawn w3) (reservation_key rid) = Some v"
    by (simp add: w3_def rc.lookup_remove w2_def lk v)
  moreover have "row_of (drawn w3) (rv_UserID r) = Some row'" by (simp add: w3_def rw w2_def)
  moreover have "now (drawn w3) = now w" by (simp add: w3_def w2_def)
  ultimately show ?thesis using com f5 unfolding row'_def d by (auto simp: calm_def)
qed

text \<open>A commit never writes a committed status: when the deletion of the document fails after
  the bytes have been moved, a second commit of the same reservation succeeds and charges the user
  again, at the expense of the user's other reservations.\<close>

theorem commit_charges_twice:
  assumes "configured s" and "rid \<noteq> []" and "faults w = [False, False, False, True]"
    and v: "rlookup w (reservation_key rid) = Some v" "decode_reservation v = Inr r"
    and r: "rv_Status r = ''reserved''" "rv_UserID r \<noteq> 0" "0 < rv_Size r" "now w \<le> rv_ExpiresAt r"
    and row: "row_of w (rv_UserID r) = Some row" "2 * rv_Size r \<le> uint (q_reserved row)"
      "in_range (uint (q_used row)) (uint (q_reserved row))"
  shows "fst (Commit s rid w) = Inr () \<and>
    fst (Commit s rid (snd (Commit s rid w))) = Inr () \<and>
    quota_view (snd (Commit s rid (snd (Commit s rid w)))) (rv_UserID r) =
      Some (unat (q_quota row), unat (q_used row) + 2 * nat (rv_Size r),
            unat (q_reserved row) - 2 * nat (rv_Size r))"
proof -
  let ?u = "rv_UserID r" and ?n = "rv_Size r"
  define row' where "row' = row\<lparr>q_reserved := q_reserved row - word_of_int ?n,
            q_used := q_used row + word_of_int ?n\<rparr>"
  have n: "?n \<le> uint (q_reserved row)" "0 < ?n" using row(2) r(3) by linarith+
  obtain w1 where w1: "Commit s rid w = (Inr (), w1)" "calm w1" "now w1 = now w"
    "rlookup w1 (reservation_key rid) = Some v" "row_of w1 ?u = Some row'"
    using commit_lost_delete [OF assms(1-3) v r row(1) n(1) row(3)] unfolding row'_def by blast
  have sum: "uint (q_used row) + uint (q_reserved row) < 2 ^ 64" using row(3) by (simp add: in_range_def)
  have used: "unat (q_used row') = unat (q_used row) + nat ?n"
    using unat_add_size [of ?n "q_used row"] n sum by (simp add: row'_def)
  have resv: "unat (q_reserved row') = unat (q_reserved row) - nat ?n"
    using unat_sub_size [of ?n "q_reserved row"] n by (simp add: row'_def)
  have le: "nat ?n \<le> unat (q_reserved row)" using n by (intro nat_le_unat)
  have ures: "uint (q_reserved row') = uint (q_reserved row) - ?n"
    unfolding uint_u64_unat resv using le n(2) by (simp add: of_nat_diff)
  have uused: "uint (q_used row') = uint (q_used row) + ?n"
    unfolding uint_u64_unat used using n(2) by simp
  have rng: "in_range (uint (q_used row')) (uint (q_reserved row'))"
    using row(3) n r(3) unfolding ures uused by (simp add: in_range_def)
  have l: "LoadUploadReservation True rid w1 = (Inr r, drawn w1)"
    using w1 v(2) assms(2) by (simp add: Load_calm)
  define row2 where "row2 = row'\<lparr>q_reserved := q_reserved row' - word_of_int ?n,
            q_used := q_used row' + word_of_int ?n\<rparr>"
  have "CommitStorage ?u ?n (drawn w1) = (Inr (), put_row ?u row2 (drawn (drawn w1)))"
    unfolding row2_def
    by (rule CommitStorage_lucky)
      (use w1 r row(2) rng ures in \<open>simp_all add: calm_not_failing calm_drawn\<close>)
  then have c2: "Commit s rid w1 = (Inr (), drop_reservation ?u rid (put_row ?u row2 (drawn (drawn w1))))"
    using l assms(1,2) r w1(3) by (simp add: Commit_def)
  have "uint (q_used row') + ?n < 2 ^ 64" using row(2) sum by (simp add: uused)
  then have "unat (q_used row2) = unat (q_used row') + nat ?n"
    using unat_add_size [of ?n "q_used row'"] n rng by (simp add: row2_def in_range_def uused ures)
  moreover have "unat (q_reserved row2) = unat (q_reserved row') - nat ?n"
    using unat_sub_size [of ?n "q_reserved row'"] row(2) n by (simp add: row2_def ures)
  moreover have "q_quota row2 = q_quota row" by (simp add: row2_def row'_def)
  ultimately have "entry_of row2 = (unat (q_quota row), unat (q_used row) + 2 * nat ?n,
      unat (q_reserved row) - 2 * nat ?n)"
    by (simp add: entry_of_def used resv mult_2)
  then show ?thesis
    using c2 w1(1,2) assms(2) by (simp add: drop_calm calm_drawn)
qed

definition demo_twice :: resv_st where
  "demo_twice = (snd (Reserve (Some demo_cfg) 7 ''users/7/c'' 6 1000 ''r2'' ''k2'' demo_reserved))
     \<lparr>faults := [False, False, False, True]\<rparr>"

theorem commit_charges_twice_witness:
  "quota_view (snd (Commit (Some demo_cfg) ''r1'' (snd (Commit (Some demo_cfg) ''r1'' demo_twice)))) 7
     = Some (100, 20, 1)"
proof -
  have "rlookup demo_twice (reservation_key ''r1'') = Some (CReservation demo_doc)"
    "row_of demo_twice 7 = Some \<lparr>q_quota = 100, q_used = 10, q_reserved = 11\<rparr>" "now demo_twice = 1000"
    "faults demo_twice = [False, False, False, True]"
    by code_simp+
  then show ?thesis
    using commit_charges_twice [of "Some demo_cfg" "''r1''" demo_twice "CReservation demo_doc" demo_doc]
    by (simp add: in_range_def)
qed

end
