(* ===== verification/Endpoint.thy ===== *)
theory Endpoint
  imports Prelude
begin

text \<open>
  The check of an external S3 endpoint, \<open>internal/infrastructure/storage/endpoint_validation.go\<close>,
  with the parts of Go's \<open>net/url\<close> and \<open>net\<close> it uses. An address is its list of bytes, 4 or 16.
  The DNS resolver is a service outside the program: the argument \<open>dns\<close>, \<open>None\<close> for an error.
\<close>

type_synonym ip = "8 word list"
type_synonym resolver = "string \<Rightarrow> ip list option"

section \<open>Small string functions\<close>

fun cut_at :: "char \<Rightarrow> string \<Rightarrow> string \<times> string option" where
  "cut_at d [] = ([], None)"
| "cut_at d (c # s) = (if c = d then ([], Some s) else (case cut_at d s of (p, r) \<Rightarrow> (c # p, r)))"

definition last_cut :: "char \<Rightarrow> string \<Rightarrow> (string \<times> string) option" where
  "last_cut d s = (case cut_at d (rev s) of (p, None) \<Rightarrow> None | (p, Some r) \<Rightarrow> Some (rev r, rev p))"

definition is_alpha :: "char \<Rightarrow> bool" where
  "is_alpha c = (let n = (of_char c :: nat) in 65 \<le> n \<and> n \<le> 90 \<or> 97 \<le> n \<and> n \<le> 122)"

definition lower :: "char \<Rightarrow> char" where
  "lower c = (let n = (of_char c :: nat) in if 65 \<le> n \<and> n \<le> 90 then char_of (n + 32) else c)"

text \<open>
  \<open>strings.EqualFold\<close> against an ASCII text: besides the letter cases, the long s (\<open>C5 BF\<close>) folds
  to \<open>s\<close> and the Kelvin sign (\<open>E2 84 AA\<close>) to \<open>k\<close>.
\<close>

fun fold_case :: "string \<Rightarrow> string" where
  "fold_case (a # b # c # s) =
     (if a = CHR 0xC5 \<and> b = CHR 0xBF then CHR ''s'' # fold_case (c # s)
      else if a = CHR 0xE2 \<and> b = CHR 0x84 \<and> c = CHR 0xAA then CHR ''k'' # fold_case s
      else lower a # fold_case (b # c # s))"
| "fold_case [a, b] = (if a = CHR 0xC5 \<and> b = CHR 0xBF then [CHR ''s''] else [lower a, lower b])"
| "fold_case [a] = [lower a]"
| "fold_case [] = []"

definition EqualFold :: "string \<Rightarrow> string \<Rightarrow> bool" where
  "EqualFold s t = (fold_case s = fold_case t)"

definition hex_val :: "char \<Rightarrow> nat option" where
  "hex_val c = (let n = (of_char c :: nat) in
     if 48 \<le> n \<and> n \<le> 57 then Some (n - 48)
     else if 97 \<le> n \<and> n \<le> 102 then Some (n - 87)
     else if 65 \<le> n \<and> n \<le> 70 then Some (n - 55) else None)"

section \<open>\<open>net.ParseIP\<close>\<close>

definition v4_field :: "string \<Rightarrow> 8 word option" where
  "v4_field s =
     (if s = [] \<or> \<not> list_all is_digit s \<or> (1 < length s \<and> hd s = CHR ''0'') \<or> 3 < length s
         \<or> 255 < read_nat s
      then None else Some (of_nat (read_nat s)))"

definition parse_v4 :: "string \<Rightarrow> ip option" where
  "parse_v4 s =
     (let fs = map v4_field (split_on CHR ''.'' s)
      in if length fs = 4 \<and> list_all (\<lambda>x. x \<noteq> None) fs then Some (map the fs) else None)"

fun take_hex :: "string \<Rightarrow> nat list \<times> string" where
  "take_hex [] = ([], [])"
| "take_hex (c # s) =
     (case hex_val c of None \<Rightarrow> ([], c # s) | Some v \<Rightarrow> (case take_hex s of (vs, r) \<Rightarrow> (v # vs, r)))"

text \<open>
  The loop over the groups of an IPv6 address: the bytes so far, the position of the \<open>::\<close> and the
  rest of the text. At most eight groups are read.
\<close>

definition v6_finish :: "ip \<Rightarrow> nat option \<Rightarrow> ip option" where
  "v6_finish bs ell =
     (if length bs < 16
        then (case ell of None \<Rightarrow> None
              | Some e \<Rightarrow> Some (take e bs @ replicate (16 - length bs) 0 @ drop e bs))
      else if ell \<noteq> None then None else Some bs)"

fun v6_groups :: "nat \<Rightarrow> ip \<Rightarrow> nat option \<Rightarrow> string \<Rightarrow> ip option" where
  "v6_groups 0 bs ell s = (if s = [] then v6_finish bs ell else None)"
| "v6_groups (Suc n) bs ell s =
     (case take_hex s of (vs, r) \<Rightarrow>
        if vs = [] \<or> 4 < length vs then None
        else if r \<noteq> [] \<and> hd r = CHR ''.''
          then (if (ell = None \<and> length bs \<noteq> 12) \<or> 16 < length bs + 4 then None
                else (case parse_v4 s of None \<Rightarrow> None | Some q \<Rightarrow> v6_finish (bs @ q) ell))
        else
          let acc = foldl (\<lambda>a v. 16 * a + v) 0 vs;
              bs = bs @ [of_nat (acc div 256), of_nat (acc mod 256)]
          in (case r of
                [] \<Rightarrow> v6_finish bs ell
              | c # r \<Rightarrow>
                  if c \<noteq> CHR '':'' \<or> r = [] then None
                  else if hd r = CHR '':''
                    then (if ell \<noteq> None then None
                          else if tl r = [] then v6_finish bs (Some (length bs))
                          else v6_groups n bs (Some (length bs)) (tl r))
                  else v6_groups n bs ell r))"

definition parse_v6 :: "string \<Rightarrow> ip option" where
  "parse_v6 s =
     (if List.member s CHR ''%'' then None
      else if HasPrefix s ''::''
        then (if length s = 2 then Some (replicate 16 0) else v6_groups 8 [] (Some 0) (drop 2 s))
      else v6_groups 8 [] None s)"

definition ParseIP :: "string \<Rightarrow> ip option" where
  "ParseIP s =
     (case find (\<lambda>c. c = CHR ''.'' \<or> c = CHR '':'' \<or> c = CHR ''%'') s of
        Some c \<Rightarrow> if c = CHR ''.'' then parse_v4 s else if c = CHR '':'' then parse_v6 s else None
      | None \<Rightarrow> None)"

section \<open>Address classes\<close>

definition v4_mapped :: ip where
  "v4_mapped = replicate 10 0 @ [255, 255]"

definition To4 :: "ip \<Rightarrow> ip option" where
  "To4 a = (if length a = 4 then Some a
            else if length a = 16 \<and> take 12 a = v4_mapped then Some (drop 12 a) else None)"

definition IsLoopback :: "ip \<Rightarrow> bool" where
  "IsLoopback a = (case To4 a of Some q \<Rightarrow> q ! 0 = 127 | None \<Rightarrow> a = replicate 15 0 @ [1])"

definition IsPrivate :: "ip \<Rightarrow> bool" where
  "IsPrivate a =
     (case To4 a of
        Some q \<Rightarrow> q ! 0 = 10 \<or> (q ! 0 = 172 \<and> (and (q ! 1) 0xF0) = 16) \<or> (q ! 0 = 192 \<and> q ! 1 = 168)
      | None \<Rightarrow> length a = 16 \<and> (and (a ! 0) 0xFE) = 0xFC)"

definition IsLinkLocalUnicast :: "ip \<Rightarrow> bool" where
  "IsLinkLocalUnicast a =
     (case To4 a of
        Some q \<Rightarrow> q ! 0 = 169 \<and> q ! 1 = 254
      | None \<Rightarrow> length a = 16 \<and> a ! 0 = 0xFE \<and> (and (a ! 1) 0xC0) = 0x80)"

definition IsLinkLocalMulticast :: "ip \<Rightarrow> bool" where
  "IsLinkLocalMulticast a =
     (case To4 a of
        Some q \<Rightarrow> q ! 0 = 224 \<and> q ! 1 = 0 \<and> q ! 2 = 0
      | None \<Rightarrow> length a = 16 \<and> a ! 0 = 0xFF \<and> (and (a ! 1) 0x0F) = 0x02)"

definition IsUnspecified :: "ip \<Rightarrow> bool" where
  "IsUnspecified a = (case To4 a of Some q \<Rightarrow> q = replicate 4 0 | None \<Rightarrow> a = replicate 16 0)"

definition IsMulticast :: "ip \<Rightarrow> bool" where
  "IsMulticast a =
     (case To4 a of Some q \<Rightarrow> (and (q ! 0) 0xF0) = 0xE0 | None \<Rightarrow> length a = 16 \<and> a ! 0 = 0xFF)"

definition metadata_ip :: ip where
  "metadata_ip = [169, 254, 169, 254]"

definition forbiddenIP :: "ip \<Rightarrow> bool" where
  "forbiddenIP a =
     (IsLoopback a \<or> IsPrivate a \<or> IsLinkLocalUnicast a \<or> IsLinkLocalMulticast a
      \<or> IsUnspecified a \<or> IsMulticast a \<or> IsLinkLocalUnicast a \<or> To4 a = Some metadata_ip)"

section \<open>\<open>url.Parse\<close>\<close>

record url =
  u_Scheme :: string
  u_User :: bool
  u_Host :: string
  u_Path :: string
  u_RawQuery :: string
  u_Fragment :: string

fun scheme_end :: "nat \<Rightarrow> string \<Rightarrow> nat option option" where
  \<comment> \<open>\<open>Some (Some i)\<close>: the scheme ends at \<open>i\<close>; \<open>Some None\<close>: no scheme; \<open>None\<close>: an error\<close>
  "scheme_end i [] = Some None"
| "scheme_end i (c # s) =
     (if is_alpha c then scheme_end (Suc i) s
      else if is_digit c \<or> List.member ''+-.'' c
        then (if i = 0 then Some None else scheme_end (Suc i) s)
      else if c = CHR '':'' then (if i = 0 then None else Some (Some i))
      else Some None)"

text \<open>Percent escapes of a path, a fragment or a zone; a host may only escape bytes beyond ASCII.\<close>

fun unescape :: "bool \<Rightarrow> string \<Rightarrow> string option" where
  "unescape host [] = Some []"
| "unescape host (c # s) =
     (if c = CHR ''%''
      then (case s of
              a # b # r \<Rightarrow>
                (case (hex_val a, hex_val b) of
                   (Some x, Some y) \<Rightarrow>
                     if host \<and> x < 8 \<and> \<not> (x = 2 \<and> y = 5) then None
                     else map_option (Cons (char_of (16 * x + y))) (unescape host r)
                 | _ \<Rightarrow> None)
            | _ \<Rightarrow> None)
      else map_option (Cons c) (unescape host s))"

definition host_char :: "char \<Rightarrow> bool" where
  "host_char c = (128 \<le> (of_char c :: nat) \<or> is_alpha c \<or> is_digit c
     \<or> List.member (''-_.~!$&()*+,;=:[]<>%'' @ [CHR 0x27, CHR 0x22]) c)"

definition validOptionalPort :: "string \<Rightarrow> bool" where
  "validOptionalPort p =
     (case p of [] \<Rightarrow> True | c # ds \<Rightarrow> c = CHR '':'' \<and> list_all is_digit ds)"

definition parseHost :: "string \<Rightarrow> string option" where
  "parseHost h =
     (if \<not> list_all host_char h then None
      else if HasPrefix h ''[''
        then (case last_cut CHR '']'' h of
                None \<Rightarrow> None
              | Some (inner, port) \<Rightarrow>
                  if validOptionalPort port \<and> parse_v6 (takeWhile (\<lambda>c. c \<noteq> CHR ''%'') (tl inner)) \<noteq> None
                  then unescape True h else None)
      else (case last_cut CHR '':'' h of
              None \<Rightarrow> unescape True h
            | Some (_, port) \<Rightarrow>
                if list_all is_digit port then unescape True h else None))"

definition Hostname :: "string \<Rightarrow> string" where
  "Hostname h =
     (if HasPrefix h ''['' then (case last_cut CHR '']'' h of None \<Rightarrow> h | Some (inner, _) \<Rightarrow> tl inner)
      else (case last_cut CHR '':'' h of
              None \<Rightarrow> h
            | Some (n, port) \<Rightarrow> if list_all is_digit port then n else h))"

definition url_Parse :: "string \<Rightarrow> url option" where
  "url_Parse raw =
     (case cut_at CHR ''#'' raw of (u, frag) \<Rightarrow>
        if list_ex (\<lambda>c. (of_char c :: nat) < 32 \<or> (of_char c :: nat) = 127) u then None
        else (case scheme_end 0 u of
          None \<Rightarrow> None
        | Some e \<Rightarrow>
            let scheme = (case e of None \<Rightarrow> [] | Some i \<Rightarrow> map lower (take i u));
                rest = (case e of None \<Rightarrow> u | Some i \<Rightarrow> drop (Suc i) u)
            in (case cut_at CHR ''?'' rest of (rest, query) \<Rightarrow>
              let q = (case query of None \<Rightarrow> [] | Some q \<Rightarrow> q);
                  f = (case frag of None \<Rightarrow> Some [] | Some f \<Rightarrow> unescape False f)
              in if \<not> HasPrefix rest ''/''
                 then (if scheme = [] \<and> list_ex (\<lambda>c. c = CHR '':'') (fst (cut_at CHR ''/'' rest)) then None
                       else (case (if scheme = [] then unescape False rest else Some [], f) of
                               (Some p, Some f) \<Rightarrow>
                                 Some \<lparr>u_Scheme = scheme, u_User = False, u_Host = [], u_Path = p,
                                   u_RawQuery = q, u_Fragment = f\<rparr>
                             | _ \<Rightarrow> None))
                 else if HasPrefix rest ''//'' \<and> (scheme \<noteq> [] \<or> \<not> HasPrefix rest ''///'')
                   then (case cut_at CHR ''/'' (drop 2 rest) of (auth, tail) \<Rightarrow>
                           let path = (case tail of None \<Rightarrow> [] | Some t \<Rightarrow> CHR ''/'' # t);
                               (user, h) = (case last_cut CHR ''@'' auth of
                                              None \<Rightarrow> (False, auth) | Some (_, h) \<Rightarrow> (True, h))
                           in (case (parseHost h, unescape False path, f) of
                                 (Some h, Some p, Some f) \<Rightarrow>
                                   Some \<lparr>u_Scheme = scheme, u_User = user, u_Host = h, u_Path = p,
                                     u_RawQuery = q, u_Fragment = f\<rparr>
                               | _ \<Rightarrow> None))
                 else (case (unescape False rest, f) of
                         (Some p, Some f) \<Rightarrow>
                           Some \<lparr>u_Scheme = scheme, u_User = False, u_Host = [], u_Path = p,
                             u_RawQuery = q, u_Fragment = f\<rparr>
                       | _ \<Rightarrow> None))))"

section \<open>The checks\<close>

definition ValidateExternalEndpoint :: "resolver \<Rightarrow> string \<Rightarrow> bool \<Rightarrow> go_err + unit" where
  "ValidateExternalEndpoint dns raw production =
     (case url_Parse (TrimSpace raw) of
        None \<Rightarrow> Inl (Msg ''invalid S3 endpoint'')
      | Some u \<Rightarrow>
          if u_Scheme u = [] \<or> u_Host u = [] \<or> u_User u then Inl (Msg ''invalid S3 endpoint'')
          else if production \<and> \<not> EqualFold (u_Scheme u) ''https''
            then Inl (Msg ''S3 endpoint must use https'')
          else if \<not> EqualFold (u_Scheme u) ''https'' \<and> \<not> EqualFold (u_Scheme u) ''http''
            then Inl (Msg ''unsupported S3 endpoint scheme'')
          else if (u_Path u \<noteq> [] \<and> u_Path u \<noteq> ''/'') \<or> u_RawQuery u \<noteq> [] \<or> u_Fragment u \<noteq> []
            then Inl (Msg ''S3 endpoint must not contain path or query'')
          else
            let host = Hostname (u_Host u)
            in if host = [] \<or> EqualFold host ''localhost'' \<or> EqualFold host ''metadata.google.internal''
                 then Inl (Msg ''S3 endpoint host is not allowed'')
               else (case ParseIP host of
                 Some a \<Rightarrow>
                   if forbiddenIP a then Inl (Msg ''S3 endpoint resolves to a private address'')
                   else Inr ()
               | None \<Rightarrow>
                   if Contains host ''..'' \<or> Contains host ''/''
                     then Inl (Msg ''invalid S3 endpoint hostname'')
                   else (case dns host of
                     None \<Rightarrow> Inl (Msg ''cannot resolve S3 endpoint hostname'')
                   | Some as \<Rightarrow>
                       if as = [] then Inl (Msg ''cannot resolve S3 endpoint hostname'')
                       else if list_ex forbiddenIP as
                         then Inl (Msg ''S3 endpoint resolves to a private address'')
                       else Inr ())))"

definition ValidateBucketName :: "string \<Rightarrow> go_err + unit" where
  "ValidateBucketName b =
     (if length b < 3 \<or> 63 < length b \<or> HasPrefix b ''.'' \<or> HasSuffix b ''.'' \<or> Contains b ''..''
        then Inl (Msg ''invalid S3 bucket name'')
      else if list_all (\<lambda>c. (is_alpha c \<and> lower c = c) \<or> is_digit c \<or> c = CHR ''-'' \<or> c = CHR ''.'') b
        then Inr ()
      else Inl (Msg ''invalid S3 bucket name''))"

text \<open>The part of \<open>newMinIOClient\<close> before the client library: the endpoint it accepts.\<close>

definition client_endpoint :: "string \<Rightarrow> go_err + string" where
  "client_endpoint raw =
     (let ep = TrimSpace raw
      in if ep = [] then Inl (Msg ''minio endpoint is required'')
         else if Contains ep ''://'' \<or> ContainsAny ep ''/?#'' then Inl (Msg ''invalid minio endpoint'')
         else Inr ep)"

section \<open>Facts\<close>

lemma Contains_iff: "Contains s p \<longleftrightarrow> (\<exists>a b. s = a @ p @ b)"
proof (induction s)
  case (Cons c s)
  have "(\<exists>a b. c # s = a @ p @ b) \<longleftrightarrow> (\<exists>b. c # s = p @ b) \<or> (\<exists>a b. s = a @ p @ b)"
    by (metis append_Cons append_Nil list.sel(3) neq_Nil_conv)
  with Cons show ?case by (simp add: HasPrefix_iff)
qed auto

lemma cut_at_eq: "cut_at d s = (p, r) \<Longrightarrow> s = p @ (case r of None \<Rightarrow> [] | Some t \<Rightarrow> d # t)"
  by (induction s arbitrary: p r) (auto split: if_splits prod.splits)

lemma scheme_end_colon:
  "scheme_end i s = Some (Some j) \<Longrightarrow> i \<le> j \<and> j - i < length s \<and> s ! (j - i) = CHR '':''"
proof (induction i s rule: scheme_end.induct)
  case (2 i c s)
  have *: ?case if "scheme_end (Suc i) s = Some (Some j)"
      "Suc i \<le> j \<and> j - Suc i < length s \<and> s ! (j - Suc i) = CHR '':''"
    using that(2) by (auto simp: Suc_diff_Suc nth_Cons' split: if_splits)
  from 2 show ?case by (auto split: if_splits dest: *)
qed simp

lemma url_host_separator:
  assumes "url_Parse raw = Some u" and "u_Host u \<noteq> []" and "u_Scheme u \<noteq> []"
  shows "Contains raw ''://''"
proof -
  obtain v frag where v: "cut_at CHR ''#'' raw = (v, frag)" by (cases "cut_at CHR ''#'' raw")
  obtain e where e: "scheme_end 0 v = Some e" using assms(1) v
    by (cases "scheme_end 0 v") (auto simp: url_Parse_def split: if_splits)
  obtain i where i: "e = Some i"
  proof (cases e)
    case None
    with assms(1,3) v e have False
      by (auto simp: url_Parse_def Let_def split: if_splits prod.splits option.splits)
    then show ?thesis ..
  qed
  from scheme_end_colon [OF e [unfolded i]] have col: "i < length v" "v ! i = CHR '':''" by auto
  obtain rest q where rest: "cut_at CHR ''?'' (drop (Suc i) v) = (rest, q)"
    by (cases "cut_at CHR ''?'' (drop (Suc i) v)")
  have "HasPrefix rest ''//''"
    using assms(1,2) v e i rest
    by (auto simp: url_Parse_def Let_def split: if_splits prod.splits option.splits)
  then obtain t where t: "rest = ''//'' @ t" by (auto simp: HasPrefix_iff)
  have "v = take i v @ CHR '':'' # drop (Suc i) v" using col id_take_nth_drop by metis
  also have "drop (Suc i) v = ''//'' @ t @ (case q of None \<Rightarrow> [] | Some t \<Rightarrow> CHR ''?'' # t)"
    using cut_at_eq [OF rest] t by simp
  finally have "v = take i v @ ''://'' @ t @ (case q of None \<Rightarrow> [] | Some t \<Rightarrow> CHR ''?'' # t)" by simp
  moreover have "raw = v @ (case frag of None \<Rightarrow> [] | Some t \<Rightarrow> CHR ''#'' # t)"
    by (rule cut_at_eq [OF v])
  ultimately show ?thesis unfolding Contains_iff by (metis append.assoc)
qed

lemma valid_endpoint_url:
  assumes "ValidateExternalEndpoint dns raw production = Inr ()"
  shows "\<exists>u. url_Parse (TrimSpace raw) = Some u \<and> u_Scheme u \<noteq> [] \<and> u_Host u \<noteq> [] \<and> \<not> u_User u
    \<and> (production \<longrightarrow> EqualFold (u_Scheme u) ''https'')"
  using assms by (auto simp: ValidateExternalEndpoint_def split: option.splits if_splits)

lemma valid_endpoint_no_client:
  assumes "ValidateExternalEndpoint dns raw production = Inr ()"
  shows "client_endpoint raw \<in> {Inl (Msg ''minio endpoint is required''), Inl (Msg ''invalid minio endpoint'')}"
proof -
  from valid_endpoint_url [OF assms] obtain u where
    "url_Parse (TrimSpace raw) = Some u" "u_Host u \<noteq> []" "u_Scheme u \<noteq> []" by blast
  from url_host_separator [OF this] show ?thesis by (simp add: client_endpoint_def Let_def)
qed

text \<open>
  The address classes: an IPv4 address and its IPv6-mapped form are judged alike, and every address
  of the private, loopback, link-local and metadata ranges is refused.
\<close>

lemma To4_mapped: "length q = 4 \<Longrightarrow> To4 (v4_mapped @ q) = Some q"
  by (simp add: To4_def v4_mapped_def)

lemma forbidden_mapped: "length q = 4 \<Longrightarrow> forbiddenIP (v4_mapped @ q) = forbiddenIP q"
  by (simp add: forbiddenIP_def IsLoopback_def IsPrivate_def IsLinkLocalUnicast_def
      IsLinkLocalMulticast_def IsUnspecified_def IsMulticast_def To4_mapped) (simp add: To4_def)

lemma length_4: "length q = 4 \<longleftrightarrow> (\<exists>a b c d. q = [a, b, c, d])"
  by (auto simp: numeral_eq_Suc length_Suc_conv)

definition v4_internal :: "ip \<Rightarrow> bool" where
  "v4_internal q = (case q of
     [a, b, c, d] \<Rightarrow> a = 127 \<or> a = 10 \<or> (a = 192 \<and> b = 168) \<or> (a = 172 \<and> 16 \<le> b \<and> b < 32)
       \<or> (a = 169 \<and> b = 254) \<or> (224 \<le> a \<and> a < 240) \<or> q = [0, 0, 0, 0]
   | _ \<Rightarrow> False)"

lemma byte_cases: "list_all (\<lambda>n. P (of_nat n :: 8 word)) [0..<256] \<Longrightarrow> P b"
proof -
  assume "list_all (\<lambda>n. P (of_nat n :: 8 word)) [0..<256]"
  moreover have "unat b < 256" using unsigned_less [of b, where ?'a = nat] by simp
  ultimately have "P (of_nat (unat b))" by (auto simp: list_all_iff simp del: of_nat_unat)
  then show ?thesis by simp
qed

lemma private_16_31: "(and b 0xF0 = (16 :: 8 word)) = (16 \<le> b \<and> b < 32)"
  by (rule byte_cases [where P = "\<lambda>b. (and b 0xF0 = (16 :: 8 word)) = (16 \<le> b \<and> b < 32)"]) code_simp

lemma multicast_224_239: "(and b 0xF0 = (0xE0 :: 8 word)) = (224 \<le> b \<and> b < 240)"
  by (rule byte_cases [where P = "\<lambda>b. (and b 0xF0 = (0xE0 :: 8 word)) = (224 \<le> b \<and> b < 240)"]) code_simp

lemma forbidden_v4: "length q = 4 \<Longrightarrow> forbiddenIP q = v4_internal q"
proof -
  assume "length q = 4"
  then obtain a b c d where q: "q = [a, b, c, d]" by (auto simp: length_4)
  have r: "replicate 4 (0 :: 8 word) = [0, 0, 0, 0]" by (simp add: numeral_eq_Suc)
  show ?thesis
    by (auto simp: q r forbiddenIP_def v4_internal_def IsLoopback_def IsPrivate_def IsLinkLocalUnicast_def
        IsLinkLocalMulticast_def IsUnspecified_def IsMulticast_def To4_def private_16_31
        multicast_224_239 metadata_ip_def)
qed

text \<open>The addresses a client of the endpoint connects to.\<close>

definition addresses :: "resolver \<Rightarrow> string \<Rightarrow> ip list" where
  "addresses dns host =
     (case ParseIP host of
        Some a \<Rightarrow> [a]
      | None \<Rightarrow> (case dns host of None \<Rightarrow> [] | Some as \<Rightarrow> as))"

lemma valid_endpoint_addresses:
  assumes "ValidateExternalEndpoint dns raw production = Inr ()" and "url_Parse (TrimSpace raw) = Some u"
    and "a \<in> set (addresses dns (Hostname (u_Host u)))"
  shows "\<not> forbiddenIP a"
  using assms by (auto simp: ValidateExternalEndpoint_def addresses_def Let_def list_ex_iff
      split: option.splits if_splits)

text \<open>
  The internal ranges written as ranges, apart from the code's bit masks: for IPv6 the unspecified address and the
  loopback address, \<open>fc00::/7\<close>, \<open>fe80::/10\<close> and \<open>ff00::/8\<close>. An IPv4 address counts in its plain and its mapped form.
\<close>

definition v6_internal :: "ip \<Rightarrow> bool" where
  "v6_internal a =
     (a = replicate 16 0 \<or> a = replicate 15 0 @ [1]
      \<or> (length a = 16 \<and> (a ! 0 = 0xFC \<or> a ! 0 = 0xFD \<or> (a ! 0 = 0xFE \<and> 0x80 \<le> a ! 1 \<and> a ! 1 < 0xC0) \<or> a ! 0 = 0xFF)))"

definition internal_address :: "ip \<Rightarrow> bool" where
  "internal_address a =
     (if length a = 4 then v4_internal a
      else if length a = 16 \<and> take 12 a = v4_mapped then v4_internal (drop 12 a)
      else v6_internal a)"

lemma unique_local_fc: "(and b 0xFE = (0xFC :: 8 word)) = (b = 0xFC \<or> b = 0xFD)"
  by (rule byte_cases [where P = "\<lambda>b. (and b 0xFE = (0xFC :: 8 word)) = (b = 0xFC \<or> b = 0xFD)"]) code_simp

lemma link_local_80: "(and b 0xC0 = (0x80 :: 8 word)) = (0x80 \<le> b \<and> b < 0xC0)"
  by (rule byte_cases [where P = "\<lambda>b. (and b 0xC0 = (0x80 :: 8 word)) = (0x80 \<le> b \<and> b < 0xC0)"]) code_simp

lemma forbidden_v6:
  assumes "To4 a = None" "length a \<noteq> 4"
  shows "forbiddenIP a = v6_internal a"
  using assms by (auto simp: forbiddenIP_def v6_internal_def IsLoopback_def IsPrivate_def IsLinkLocalUnicast_def
      IsLinkLocalMulticast_def IsUnspecified_def IsMulticast_def unique_local_fc link_local_80)

lemma forbidden_internal: "forbiddenIP a = internal_address a"
proof (cases "length a = 4")
  case True
  then show ?thesis by (simp add: internal_address_def forbidden_v4)
next
  case False
  show ?thesis
  proof (cases "length a = 16 \<and> take 12 a = v4_mapped")
    case True
    then have len: "length a = 16" and "a = v4_mapped @ drop 12 a" by simp (metis True append_take_drop_id)
    moreover from len have "length (drop 12 a) = 4" by (simp only: length_drop)
    ultimately have "a = v4_mapped @ drop 12 a" "length (drop 12 a) = 4" by simp_all
    then show ?thesis using forbidden_mapped forbidden_v4 True False by (metis internal_address_def)
  next
    case no: False
    then have "To4 a = None" using False by (auto simp: To4_def)
    then show ?thesis using forbidden_v6 False no by (auto simp: internal_address_def)
  qed
qed

text \<open>C25: an endpoint that passes the check never leads to an internal address: no address it is written as or resolves
  to is a loopback, private, link-local, multicast or unspecified address, of IPv4 in plain or IPv6-mapped form or of
  IPv6; the metadata address is one of the link-local ones.\<close>

theorem internal_addresses_refused:
  assumes "ValidateExternalEndpoint dns raw production = Inr ()" and "url_Parse (TrimSpace raw) = Some u"
    and "a \<in> set (addresses dns (Hostname (u_Host u)))"
  shows "\<not> internal_address a"
  using valid_endpoint_addresses [OF assms] by (simp add: forbidden_internal)

lemma internal_examples:
  "list_all internal_address [[127, 0, 0, 1], [10, 9, 8, 7], [172, 31, 0, 1], [192, 168, 1, 1], metadata_ip, v4_mapped @ [10, 0, 0, 1],
     replicate 15 0 @ [1], replicate 16 0, 0xFD # replicate 15 7, 0xFE # 0x9A # replicate 14 1, 0xFF # 2 # replicate 14 0]"
  "\<not> internal_address [172, 32, 0, 1]" "\<not> internal_address (0x20 # 1 # replicate 14 0)"
  by code_simp+

definition demo_dns :: resolver where
  "demo_dns host = (if host = ''s3.example.com'' then Some [[93, 184, 216, 34]] else None)"

theorem internal_addresses_refused_witness:
  "ValidateExternalEndpoint demo_dns ''https://s3.example.com/'' True = Inr () \<and>
   addresses demo_dns ''s3.example.com'' = [[93, 184, 216, 34]] \<and> \<not> internal_address [93, 184, 216, 34]"
proof -
  have ok: "ValidateExternalEndpoint demo_dns ''https://s3.example.com/'' True = Inr ()" by code_simp
  have "url_Parse (TrimSpace ''https://s3.example.com/'') = Some \<lparr>u_Scheme = ''https'', u_User = False,
      u_Host = ''s3.example.com'', u_Path = ''/'', u_RawQuery = [], u_Fragment = []\<rparr>" by code_simp
  moreover have h: "Hostname ''s3.example.com'' = ''s3.example.com''" by code_simp
  moreover have as: "addresses demo_dns ''s3.example.com'' = [[93, 184, 216, 34]]" by code_simp
  ultimately show ?thesis
    using internal_addresses_refused [OF ok, of _ "[93, 184, 216, 34]"] ok by simp
qed

end
