(* ===== verification/Config.thy ===== *)
theory Config
  imports ReservationSteps Endpoint
begin

text \<open>
  Storage configurations and the resolution of a user's backend: \<open>StorageConfig\<close> and
  \<open>SaveStorageConfig\<close> of \<open>repository/mysql/storage.go\<close>, the factory of
  \<open>infrastructure/storage/factory.go\<close>, and the pair resolver and cutover that
  \<open>app/storage.go\<close> gives the migration service. The field encryption of \<open>air-common\<close> is
  outside the repository: the record \<open>field_crypto\<close> is an argument, \<open>good_fields\<close> its documented
  behaviour. A NULL column and an empty string are the same value to the program.
\<close>

type_synonym mkey = string

record field_crypto =
  fc_is :: "string \<Rightarrow> bool"
  fc_enc :: "mkey \<Rightarrow> string \<Rightarrow> go_err + string"
  fc_dec :: "mkey \<Rightarrow> string \<Rightarrow> go_err + string"

definition good_fields :: "field_crypto \<Rightarrow> bool" where
  "good_fields fc = (\<forall>k v c. fc_enc fc k v = Inr c \<longrightarrow> fc_is fc c \<and> c \<noteq> [] \<and> fc_dec fc k c = Inr v)"

record cfg_st = resv_st +
  config_tbl :: "(uid \<times> backend_config) list"
  locked_notified :: "uid list"

section \<open>The configuration table\<close>

definition encryptStorageCredential :: "field_crypto \<Rightarrow> mkey \<Rightarrow> string \<Rightarrow> go_err + string" where
  "encryptStorageCredential fc k v = (if v = [] \<or> fc_is fc v then Inr v else fc_enc fc k v)"

definition decryptStorageCredential :: "field_crypto \<Rightarrow> mkey \<Rightarrow> string \<Rightarrow> go_err + string" where
  "decryptStorageCredential fc k v = (if v = [] \<or> \<not> fc_is fc v then Inr v else fc_dec fc k v)"

definition default_config :: "uid \<Rightarrow> backend_config" where
  "default_config u = \<lparr>bc_UserID = u, bc_Type = BackendInternal, bc_Endpoint = [], bc_Bucket = [],
     bc_Region = [], bc_AccessKey = [], bc_SecretKey = [], bc_STS = False\<rparr>"

text \<open>The resolver of master keys: \<open>None\<close> when none is installed.\<close>

type_synonym resolver_fn = "(uid \<Rightarrow> mkey option) option"

definition StorageConfig :: "field_crypto \<Rightarrow> resolver_fn \<Rightarrow> uid \<Rightarrow> 'a cfg_st_scheme
    \<Rightarrow> (go_err + backend_config) \<times> 'a cfg_st_scheme" where
  "StorageConfig fc mkr u w =
     (if u = 0 then (Inl (Msg ''invalid user ID''), w)
      else if failing w then (Inl sql_down, drawn w)
      else let w = drawn w in
      case map_of (config_tbl w) u of
        None \<Rightarrow> (Inr (default_config u), w)
      | Some cfg \<Rightarrow>
          if bc_Type cfg \<noteq> BackendExternal then (Inr cfg, w)
          else (case mkr of
            None \<Rightarrow> (Inl (Msg ''master key resolver is not configured''), w)
          | Some f \<Rightarrow>
              (case f u of
                 None \<Rightarrow> (Inl (Msg ''storage credentials are locked''), w)
               | Some mk \<Rightarrow>
                   (case decryptStorageCredential fc mk (bc_AccessKey cfg) of
                      Inl e \<Rightarrow> (Inl (Wrap ''decrypt access key'' e), w)
                    | Inr a \<Rightarrow>
                        (case decryptStorageCredential fc mk (bc_SecretKey cfg) of
                           Inl e \<Rightarrow> (Inl (Wrap ''decrypt secret key'' e), w)
                         | Inr s \<Rightarrow> (Inr (cfg\<lparr>bc_AccessKey := a, bc_SecretKey := s\<rparr>), w))))))"

definition encrypt_config :: "field_crypto \<Rightarrow> resolver_fn \<Rightarrow> backend_config \<Rightarrow> go_err + backend_config" where
  "encrypt_config fc mkr cfg =
     (case mkr of
        None \<Rightarrow> Inr cfg
      | Some f \<Rightarrow>
          (case f (bc_UserID cfg) of
             None \<Rightarrow> Inr cfg
           | Some mk \<Rightarrow>
               (case encryptStorageCredential fc mk (bc_AccessKey cfg) of
                  Inl e \<Rightarrow> Inl (Wrap ''encrypt access key'' e)
                | Inr a \<Rightarrow>
                    (case encryptStorageCredential fc mk (bc_SecretKey cfg) of
                       Inl e \<Rightarrow> Inl (Wrap ''encrypt secret key'' e)
                     | Inr s \<Rightarrow> Inr (cfg\<lparr>bc_AccessKey := a, bc_SecretKey := s\<rparr>)))))"

text \<open>The column is an enumeration of the two types; another text is an SQL error.\<close>

definition SaveStorageConfig :: "field_crypto \<Rightarrow> resolver_fn \<Rightarrow> backend_config \<Rightarrow> 'a cfg_st_scheme
    \<Rightarrow> (go_err + unit) \<times> 'a cfg_st_scheme" where
  "SaveStorageConfig fc mkr cfg w =
     (if bc_UserID cfg = 0 \<or> bc_Type cfg = NoType then (Inl (Msg ''invalid storage config''), w)
      else
        let cfg = (if bc_Type cfg = BackendInternal then cfg\<lparr>bc_Region := []\<rparr> else cfg)
        in (case (if bc_Type cfg = BackendExternal then encrypt_config fc mkr cfg else Inr cfg) of
              Inl e \<Rightarrow> (Inl e, w)
            | Inr cfg \<Rightarrow>
                if failing w then (Inl sql_down, drawn w)
                else if bc_Type cfg \<noteq> BackendInternal \<and> bc_Type cfg \<noteq> BackendExternal
                  then (Inl (Msg ''Data truncated for column storage_type''), drawn w)
                else (Inr (), (drawn w)\<lparr>config_tbl := AList.update (bc_UserID cfg) cfg (config_tbl w)\<rparr>)))"

section \<open>The factory\<close>

record factory =
  f_internal :: "store_id option"
  f_configs :: bool
  f_master :: bool
  f_cache :: bool
  f_onlocked :: bool

text \<open>What the factory uses of its surroundings: encryption, keys, DNS and the S3 library's check.\<close>

record ext =
  x_fc :: field_crypto
  x_mkr :: resolver_fn
  x_dns :: resolver
  x_minio :: "string \<Rightarrow> bool"

definition NewExternalS3Storage :: "ext \<Rightarrow> string \<Rightarrow> string \<Rightarrow> string \<Rightarrow> string \<Rightarrow> go_err + store_id" where
  "NewExternalS3Storage x ep ak sk b =
     (case client_endpoint ep of
        Inl e \<Rightarrow> Inl e
      | Inr ep \<Rightarrow> if x_minio x ep then Inr (External ep ak sk b)
                 else Inl (Wrap ''minio New'' (Msg ''invalid endpoint'')))"

definition externalClient :: "ext \<Rightarrow> factory \<Rightarrow> uid \<Rightarrow> backend_config \<Rightarrow> 'a cfg_st_scheme
    \<Rightarrow> (go_err + store_id) \<times> 'a cfg_st_scheme" where
  "externalClient x f u cfg w =
     (case ValidateExternalEndpoint (x_dns x) (bc_Endpoint cfg) True of
        Inl e \<Rightarrow> (Inl (Wrap ''external storage endpoint rejected'' e), w)
      | Inr _ \<Rightarrow>
          if \<not> f_master f
            then (Inl (Msg ''storage credentials are locked''),
                  if f_onlocked f then w\<lparr>locked_notified := u # locked_notified w\<rparr> else w)
          else (NewExternalS3Storage x (bc_Endpoint cfg) (bc_AccessKey cfg) (bc_SecretKey cfg)
                  (bc_Bucket cfg), w))"

definition config_of_entry :: "uid \<Rightarrow> config_cache_entry \<Rightarrow> backend_config" where
  "config_of_entry u e = \<lparr>bc_UserID = u, bc_Type = ce_Type e, bc_Endpoint = ce_Endpoint e,
     bc_Bucket = ce_Bucket e, bc_Region = ce_Region e, bc_AccessKey = [], bc_SecretKey = [],
     bc_STS = ce_STS e\<rparr>"

definition loadCachedConfig :: "ext \<Rightarrow> factory \<Rightarrow> uid \<Rightarrow> 'a cfg_st_scheme
    \<Rightarrow> (go_err + backend_config) \<times> 'a cfg_st_scheme" where
  "loadCachedConfig x f u w =
     (case LoadCachedConfig (f_cache f) u w of
        ((entry, found), w) \<Rightarrow>
          if found then (Inr (config_of_entry u entry), w)
          else (case StorageConfig (x_fc x) (x_mkr x) u w of
                  (Inl e, w) \<Rightarrow> (Inl e, w)
                | (Inr cfg, w) \<Rightarrow>
                    if f_cache f
                      then (case CachedBackendConfig True u cfg w of
                              (Inl e, w) \<Rightarrow> (Inl (Wrap ''cache storage config'' e), w)
                            | (Inr _, w) \<Rightarrow> (Inr cfg, w))
                      else (Inr cfg, w)))"

definition Resolve :: "ext \<Rightarrow> factory option \<Rightarrow> uid \<Rightarrow> 'a cfg_st_scheme
    \<Rightarrow> (go_err + store_id) \<times> 'a cfg_st_scheme" where
  "Resolve x fo u w =
     (case fo of
        None \<Rightarrow> (Inl (Msg ''storage factory is nil''), w)
      | Some f \<Rightarrow>
          (case f_internal f of
             None \<Rightarrow> (Inl (Msg ''no internal storage configured''), w)
           | Some sid \<Rightarrow>
               if \<not> f_configs f then (Inr sid, w)
               else (case loadCachedConfig x f u w of
                       (Inl e, w) \<Rightarrow> (Inl e, w)
                     | (Inr cfg, w) \<Rightarrow>
                         if bc_Type cfg = BackendExternal then externalClient x f u cfg w
                         else (Inr sid, w))))"

definition ResolveByType :: "ext \<Rightarrow> factory option \<Rightarrow> uid \<Rightarrow> backend_type \<Rightarrow> 'a cfg_st_scheme
    \<Rightarrow> (go_err + store_id) \<times> 'a cfg_st_scheme" where
  "ResolveByType x fo u typ w =
     (case (case fo of None \<Rightarrow> None | Some f \<Rightarrow> map_option (Pair f) (f_internal f)) of
        None \<Rightarrow> (Inl (Msg ''storage factory is nil''), w)
      | Some (f, sid) \<Rightarrow>
          if typ = BackendInternal then (Inr sid, w)
          else if \<not> f_configs f then (Inl (Msg ''storage config provider is nil''), w)
          else (case loadCachedConfig x f u w of
                  (Inl e, w) \<Rightarrow> (Inl e, w)
                | (Inr cfg, w) \<Rightarrow>
                    if bc_Type cfg \<noteq> BackendExternal \<and> (bc_AccessKey cfg = [] \<or> bc_SecretKey cfg = [])
                      then (Inl (Msg ''external storage is not configured''), w)
                    else externalClient x f u cfg w))"

section \<open>Migration pairs and the cutover\<close>

definition other_type :: "backend_type \<Rightarrow> backend_type" where
  "other_type t = (if t = BackendInternal then BackendExternal else BackendInternal)"

definition resolve_pair :: "ext \<Rightarrow> factory option \<Rightarrow> uid \<Rightarrow> 'a cfg_st_scheme
    \<Rightarrow> (go_err + store_id \<times> store_id) \<times> 'a cfg_st_scheme" where
  "resolve_pair x fo u w =
     (case StorageConfig (x_fc x) (x_mkr x) u w of
        (Inl e, w) \<Rightarrow> (Inl (Wrap ''failed to load config'' e), w)
      | (Inr cfg, w) \<Rightarrow>
          (case Resolve x fo u w of
             (Inl e, w) \<Rightarrow> (Inl (Wrap ''resolve source'' e), w)
           | (Inr src, w) \<Rightarrow>
               (case ResolveByType x fo u (other_type (bc_Type cfg)) w of
                  (Inl e, w) \<Rightarrow> (Inl (Wrap ''resolve target'' e), w)
                | (Inr tgt, w) \<Rightarrow> (Inr (src, tgt), w))))"

definition cutover_config :: "ext \<Rightarrow> uid \<Rightarrow> 'a cfg_st_scheme \<Rightarrow> (go_err + unit) \<times> 'a cfg_st_scheme" where
  "cutover_config x u w =
     (case StorageConfig (x_fc x) (x_mkr x) u w of
        (Inl e, w) \<Rightarrow> (Inl e, w)
      | (Inr cfg, w) \<Rightarrow>
          SaveStorageConfig (x_fc x) (x_mkr x)
            (cfg\<lparr>bc_UserID := u, bc_Type := other_type (bc_Type cfg), bc_STS := False\<rparr>) w)"

section \<open>Facts\<close>

lemma cfg_frames [simp, env_simps]:
  "config_tbl (drawn w) = config_tbl w" "config_tbl (rstore k v ttl w) = config_tbl w"
  "stores (drawn w) = stores w"
  "calm (w\<lparr>config_tbl := t\<rparr>) = calm w" "now (w\<lparr>config_tbl := t\<rparr>) = now w"
  "redis (w\<lparr>config_tbl := t\<rparr>) = redis w"
  by (simp_all add: drawn_def rstore_def calm_def)

lemma externalClient_fails: "\<not> is_ok (fst (externalClient x f u cfg w))"
proof (cases "ValidateExternalEndpoint (x_dns x) (bc_Endpoint cfg) True")
  case (Inr r)
  with valid_endpoint_no_client [of "x_dns x" "bc_Endpoint cfg" True]
  show ?thesis by (auto simp: externalClient_def NewExternalS3Storage_def)
qed (simp add: externalClient_def)

lemma externalClient_not_ok [simp]: "externalClient x f u cfg w = (Inr sid, w') \<longleftrightarrow> False"
  using externalClient_fails [of x f u cfg w] by auto

lemma Resolve_internal:
  assumes "Resolve x fo u w = (Inr sid, w')"
  shows "\<exists>f. fo = Some f \<and> f_internal f = Some sid"
  using assms by (auto simp: Resolve_def split: option.splits if_splits sum.splits prod.splits)

lemma ResolveByType_internal:
  assumes "ResolveByType x fo u typ w = (Inr sid, w')"
  shows "\<exists>f. fo = Some f \<and> f_internal f = Some sid \<and> typ = BackendInternal"
  using assms by (auto simp: ResolveByType_def split: option.splits if_splits sum.splits prod.splits)

text \<open>C26: no call of the factory ever yields an external store: the endpoint check demands a scheme,
  the client constructor refuses one. Every backend it hands out is the internal one.\<close>

theorem only_internal_backends:
  assumes "Resolve x fo u w = (Inr sid, w') \<or> ResolveByType x fo u typ w = (Inr sid, w')"
  shows "\<exists>f. fo = Some f \<and> f_internal f = Some sid"
  using assms Resolve_internal ResolveByType_internal by blast

text \<open>Whenever the resolver of migration pairs succeeds, source and target are the same store.\<close>

theorem migration_pair_is_one_store:
  assumes "resolve_pair x fo u w = (Inr (src, tgt), w')"
  shows "src = tgt"
  using assms
  by (auto simp: resolve_pair_def split: sum.splits prod.splits dest!: Resolve_internal ResolveByType_internal)

section \<open>The cached configuration\<close>

lemma config_key_other [simp]: "config_cache_key u = config_cache_key v \<longleftrightarrow> u = v"
  by (simp add: config_cache_key_def)

lemma StorageConfig_frames:
  assumes "StorageConfig fc mkr u w = (r, w')"
  shows "w' = w \<or> w' = drawn w"
  using assms by (auto simp: StorageConfig_def Let_def split: if_splits option.splits sum.splits)

lemma LoadCachedConfig_calm:
  "calm w \<Longrightarrow> LoadCachedConfig True u w =
     (case rlookup w (config_cache_key u) of
        None \<Rightarrow> (zero_config_entry, False)
      | Some v \<Rightarrow> (case decode_config v of Inl e \<Rightarrow> (zero_config_entry, False) | Inr e \<Rightarrow> (e, True)), drawn w)"
  by (auto simp: LoadCachedConfig_def Get_calm split: option.splits sum.splits)

text \<open>The pair under a cached configuration that still says internal.\<close>

definition stale_internal :: "uid \<Rightarrow> 'a cache_st_scheme \<Rightarrow> bool" where
  "stale_internal u w = (case rlookup w (config_cache_key u) of
     Some v \<Rightarrow> (case decode_config v of Inr e \<Rightarrow> ce_Type e = BackendInternal | Inl _ \<Rightarrow> False) | None \<Rightarrow> False)"

lemma stale_loadCachedConfig:
  assumes "calm w" and "stale_internal u w" and "f_cache f"
  shows "\<exists>cfg. loadCachedConfig x f u w = (Inr cfg, drawn w) \<and> bc_Type cfg = BackendInternal"
  using assms by (auto simp: loadCachedConfig_def stale_internal_def LoadCachedConfig_calm
      config_of_entry_def split: option.splits sum.splits)

text \<open>A user who has just saved an external configuration while the cache still holds the internal
  one gets the internal store as both source and target of a migration.\<close>

theorem stale_cache_pairs_store_with_itself:
  assumes "calm w" and "stale_internal u w" and "f_cache f" and "f_configs f" and "f_internal f = Some sid"
    and "fst (StorageConfig (x_fc x) (x_mkr x) u w) = Inr cfg" and "bc_Type cfg = BackendExternal"
  shows "fst (resolve_pair x (Some f) u w) = Inr (sid, sid)"
proof -
  obtain w1 where w1: "StorageConfig (x_fc x) (x_mkr x) u w = (Inr cfg, w1)"
    using assms(6) by (cases "StorageConfig (x_fc x) (x_mkr x) u w") auto
  have "calm w1" "stale_internal u w1"
    using StorageConfig_frames [OF w1] assms(1,2) calm_drawn by (auto simp: stale_internal_def)
  from stale_loadCachedConfig [OF this assms(3), of x] obtain c where
    c: "loadCachedConfig x f u w1 = (Inr c, drawn w1)" "bc_Type c = BackendInternal" by blast
  show ?thesis
    by (simp add: resolve_pair_def w1 Resolve_def ResolveByType_def assms(4,5,7) c other_type_def)
qed

lemma loadCachedConfig_stores:
  assumes "calm w" and "f_cache f" and "\<not> snd (fst (LoadCachedConfig True u w))"
    and "loadCachedConfig x f u w = (Inr cfg, w')"
    and "0 \<le> d" and "d < 5 * minute"
  shows "calm w' \<and> rlookup (advance d w') (config_cache_key u) = Some (CConfig \<lparr>ce_Type = bc_Type cfg,
      ce_Endpoint = bc_Endpoint cfg, ce_Bucket = bc_Bucket cfg, ce_Region = bc_Region cfg,
      ce_STS = bc_STS cfg\<rparr>)"
proof -
  obtain e b w1 where l: "LoadCachedConfig True u w = ((e, b), w1)" by (metis prod.exhaust)
  have w1: "w1 = drawn w" "\<not> b" using assms(1,3) l by (auto simp: LoadCachedConfig_calm split: option.splits sum.splits)
  obtain r w2 where s: "StorageConfig (x_fc x) (x_mkr x) u w1 = (r, w2)"
    by (cases "StorageConfig (x_fc x) (x_mkr x) u w1")
  have w2: "calm w2" "now w2 = now w" "redis w2 = redis w"
    using StorageConfig_frames [OF s] w1 assms(1) calm_drawn by auto
  have cs: "CachedBackendConfig True u c w2 = (Inr (), rstore (config_cache_key u)
      (CConfig \<lparr>ce_Type = bc_Type c, ce_Endpoint = bc_Endpoint c, ce_Bucket = bc_Bucket c,
        ce_Region = bc_Region c, ce_STS = bc_STS c\<rparr>) (5 * minute) (drawn w2))" for c
    using w2(1) by (simp add: CachedBackendConfig_def Set_calm)
  have w': "w' = rstore (config_cache_key u)
      (CConfig \<lparr>ce_Type = bc_Type cfg, ce_Endpoint = bc_Endpoint cfg, ce_Bucket = bc_Bucket cfg,
        ce_Region = bc_Region cfg, ce_STS = bc_STS cfg\<rparr>) (5 * minute) (drawn w2)"
    using assms(2,4) l w1(2) s cs by (auto simp: loadCachedConfig_def split: sum.splits)
  have "0 < 5 * minute" by (simp add: minute_def second_def)
  with assms(5,6) show ?thesis using w2 by (simp add: w' calm_drawn rc.lifetime)
qed

text \<open>The cache keeps a configuration without its credentials: for five minutes after a load, the
  same load returns the same type, endpoint, bucket and region with empty keys.\<close>

theorem cached_config_has_no_credentials:
  assumes "calm w" and "f_cache f" and "\<not> snd (fst (LoadCachedConfig True u w))"
    and "loadCachedConfig x f u w = (Inr cfg, w')" and "0 \<le> d" and "d < 5 * minute"
  shows "fst (loadCachedConfig x f u (advance d w')) =
    Inr (cfg\<lparr>bc_UserID := u, bc_AccessKey := [], bc_SecretKey := []\<rparr>)"
proof -
  note st = loadCachedConfig_stores [OF assms]
  have "calm (advance d w')" using st by simp
  with st assms(2) show ?thesis
    by (cases cfg) (simp add: loadCachedConfig_def LoadCachedConfig_calm config_of_entry_def del: calm_advance)
qed

section \<open>Credentials at rest\<close>

text \<open>An external configuration saved while the master key is available is stored with both
  credentials encrypted and reads back unchanged.\<close>

theorem config_roundtrip:
  assumes "good_fields fc" and "f (bc_UserID cfg) = Some mk" and "bc_Type cfg = BackendExternal"
    and "bc_AccessKey cfg \<noteq> []" and "bc_SecretKey cfg \<noteq> []"
    and "\<not> fc_is fc (bc_AccessKey cfg)" and "\<not> fc_is fc (bc_SecretKey cfg)"
    and save: "SaveStorageConfig fc (Some f) cfg w = (Inr (), w')" and "\<not> failing w'"
  shows "fst (StorageConfig fc (Some f) (bc_UserID cfg) w') = Inr cfg \<and>
    (\<exists>row. map_of (config_tbl w') (bc_UserID cfg) = Some row \<and>
       fc_is fc (bc_AccessKey row) \<and> fc_is fc (bc_SecretKey row))"
proof -
  have u: "bc_UserID cfg \<noteq> 0" using save by (auto simp: SaveStorageConfig_def split: if_splits)
  obtain c where c: "encrypt_config fc (Some f) cfg = Inr c"
    "w' = (drawn w)\<lparr>config_tbl := AList.update (bc_UserID c) c (config_tbl w)\<rparr>"
    using save assms(3) by (auto simp: SaveStorageConfig_def Let_def split: sum.splits if_splits)
  from c(1) obtain a s where as: "fc_enc fc mk (bc_AccessKey cfg) = Inr a"
    "fc_enc fc mk (bc_SecretKey cfg) = Inr s" "c = cfg\<lparr>bc_AccessKey := a, bc_SecretKey := s\<rparr>"
    using assms(2,4-7) by (auto simp: encrypt_config_def encryptStorageCredential_def split: sum.splits)
  have g: "fc_is fc a" "a \<noteq> []" "fc_dec fc mk a = Inr (bc_AccessKey cfg)"
    "fc_is fc s" "s \<noteq> []" "fc_dec fc mk s = Inr (bc_SecretKey cfg)"
    using assms(1) as(1,2) by (auto simp: good_fields_def)
  have row: "map_of (config_tbl w') (bc_UserID cfg) = Some c"
    by (simp add: c(2) as(3) update_conv')
  have "map_of (config_tbl (drawn w')) (bc_UserID cfg) = Some c" using row by simp
  then have "fst (StorageConfig fc (Some f) (bc_UserID cfg) w') = Inr cfg"
    using u assms(2,3,9) g by (simp add: StorageConfig_def Let_def as(3) decryptStorageCredential_def)
  with row g as(3) show ?thesis by auto
qed

text \<open>A cutover away from an external backend writes the decrypted credentials of that backend
  back to the table in plain text, because only external configurations are encrypted.\<close>

theorem cutover_stores_plain_credentials:
  assumes "calm w" and "u \<noteq> 0" and "x_mkr x = Some f" and "f u = Some mk"
    and row: "map_of (config_tbl w) u = Some row" "bc_Type row = BackendExternal"
    and a: "bc_AccessKey row \<noteq> []" "fc_is (x_fc x) (bc_AccessKey row)" "fc_dec (x_fc x) mk (bc_AccessKey row) = Inr a"
    and s: "bc_SecretKey row \<noteq> []" "fc_is (x_fc x) (bc_SecretKey row)" "fc_dec (x_fc x) mk (bc_SecretKey row) = Inr s"
  shows "map_of (config_tbl (snd (cutover_config x u w))) u =
    Some (row\<lparr>bc_UserID := u, bc_Type := BackendInternal, bc_Region := [], bc_AccessKey := a,
      bc_SecretKey := s, bc_STS := False\<rparr>)"
proof -
  have "StorageConfig (x_fc x) (x_mkr x) u w = (Inr (row\<lparr>bc_AccessKey := a, bc_SecretKey := s\<rparr>), drawn w)"
    using assms by (simp add: StorageConfig_def Let_def calm_not_failing decryptStorageCredential_def)
  then show ?thesis
    using assms(1,2) row(2)
    by (simp add: cutover_config_def SaveStorageConfig_def other_type_def Let_def calm_not_failing
        calm_drawn update_conv')
qed

section \<open>A concrete user of an external store\<close>

definition demo_fc :: field_crypto where
  "demo_fc = \<lparr>fc_is = (\<lambda>v. HasPrefix v ''enc:''), fc_enc = (\<lambda>k v. Inr (''enc:'' @ v)),
     fc_dec = (\<lambda>k c. Inr (drop 4 c))\<rparr>"

lemma demo_fc_good: "good_fields demo_fc"
  by (auto simp: good_fields_def demo_fc_def)

definition demo_ext :: ext where
  "demo_ext = \<lparr>x_fc = demo_fc, x_mkr = Some (\<lambda>u. Some ''key''), x_dns = demo_dns, x_minio = (\<lambda>_. True)\<rparr>"

definition demo_factory :: factory where
  "demo_factory = \<lparr>f_internal = Some Internal, f_configs = True, f_master = True, f_cache = True,
     f_onlocked = True\<rparr>"

definition demo_external :: backend_config where
  "demo_external = \<lparr>bc_UserID = 7, bc_Type = BackendExternal, bc_Endpoint = ''https://s3.example.com'',
     bc_Bucket = ''files'', bc_Region = ''eu'', bc_AccessKey = ''ak'', bc_SecretKey = ''sk'', bc_STS = True\<rparr>"

definition demo_cfg_st :: cfg_st where
  "demo_cfg_st = \<lparr>now = 1000, faults = [], redis = [],
     quota_tbl = [(7, \<lparr>q_quota = 100, q_used = 10, q_reserved = 0\<rparr>)],
     stores = (\<lambda>_. [(''users/7/a'', \<lparr>so_Data = ''abc'', so_ETag = [], so_Modified = 0\<rparr>)]),
     etag_fn = (\<lambda>_ d. d), url_fn = (\<lambda>_ k _. k), healthy = True, config_tbl = [], locked_notified = []\<rparr>"

text \<open>The user's backend is resolved and cached, then an external configuration is saved.\<close>

definition demo_stale :: cfg_st where
  "demo_stale = snd (SaveStorageConfig demo_fc (Some (\<lambda>u. Some ''key'')) demo_external
     (snd (Resolve demo_ext (Some demo_factory) 7 demo_cfg_st)))"

lemma demo_stale_facts:
  "calm demo_stale" "stale_internal 7 demo_stale"
  "fst (StorageConfig (x_fc demo_ext) (x_mkr demo_ext) 7 demo_stale) = Inr demo_external"
  "map_of (config_tbl demo_stale) 7 = Some (demo_external\<lparr>bc_AccessKey := ''enc:ak'', bc_SecretKey := ''enc:sk''\<rparr>)"
  by code_simp+

lemma demo_factory_fields [simp]:
  "f_cache demo_factory" "f_configs demo_factory" "f_internal demo_factory = Some Internal"
  "bc_Type demo_external = BackendExternal"
  by (simp_all add: demo_factory_def demo_external_def)

theorem only_internal_backends_witness:
  "\<exists>f. Some demo_factory = Some f \<and> f_internal f = Some Internal"
proof -
  have "fst (Resolve demo_ext (Some demo_factory) 7 demo_cfg_st) = Inr Internal" by code_simp
  then obtain w' where "Resolve demo_ext (Some demo_factory) 7 demo_cfg_st = (Inr Internal, w')"
    by (cases "Resolve demo_ext (Some demo_factory) 7 demo_cfg_st") auto
  from only_internal_backends [OF disjI1 [OF this]] show ?thesis .
qed

theorem migration_pair_is_one_store_witness:
  "\<exists>src tgt. fst (resolve_pair demo_ext (Some demo_factory) 7 demo_stale) = Inr (src, tgt) \<and> src = tgt"
proof -
  have "fst (resolve_pair demo_ext (Some demo_factory) 7 demo_stale) = Inr (Internal, Internal)" by code_simp
  then obtain w' where p: "resolve_pair demo_ext (Some demo_factory) 7 demo_stale = (Inr (Internal, Internal), w')"
    by (cases "resolve_pair demo_ext (Some demo_factory) 7 demo_stale") auto
  from migration_pair_is_one_store [OF p] p show ?thesis by simp
qed

theorem stale_cache_pairs_store_with_itself_witness:
  "fst (resolve_pair demo_ext (Some demo_factory) 7 demo_stale) = Inr (Internal, Internal)"
  by (rule stale_cache_pairs_store_with_itself [OF demo_stale_facts(1,2) _ _ _ demo_stale_facts(3)]) simp_all

definition demo_loaded :: "(go_err + backend_config) \<times> cfg_st" where
  "demo_loaded = loadCachedConfig demo_ext demo_factory 7
     (snd (SaveStorageConfig demo_fc (Some (\<lambda>u. Some ''key'')) demo_external demo_cfg_st))"

theorem cached_config_has_no_credentials_witness:
  "fst demo_loaded = Inr demo_external \<and>
   fst (loadCachedConfig demo_ext demo_factory 7 (advance minute (snd demo_loaded))) =
     Inr (demo_external\<lparr>bc_UserID := 7, bc_AccessKey := [], bc_SecretKey := []\<rparr>)"
proof
  let ?w = "snd (SaveStorageConfig demo_fc (Some (\<lambda>u. Some ''key'')) demo_external demo_cfg_st)"
  show l: "fst demo_loaded = Inr demo_external" by code_simp
  then have p: "loadCachedConfig demo_ext demo_factory 7 ?w = (Inr demo_external, snd demo_loaded)"
    by (simp add: demo_loaded_def prod_eq_iff)
  have "calm ?w" "\<not> snd (fst (LoadCachedConfig True 7 ?w))" by code_simp+
  from cached_config_has_no_credentials [OF this(1) demo_factory_fields(1) this(2) p, of minute]
  show "fst (loadCachedConfig demo_ext demo_factory 7 (advance minute (snd demo_loaded))) =
     Inr (demo_external\<lparr>bc_UserID := 7, bc_AccessKey := [], bc_SecretKey := []\<rparr>)"
    by (simp add: minute_def second_def)
qed

theorem config_roundtrip_witness:
  "fst (StorageConfig demo_fc (Some (\<lambda>u. Some ''key'')) 7 demo_stale) = Inr demo_external"
proof -
  let ?w = "snd (Resolve demo_ext (Some demo_factory) 7 demo_cfg_st)"
  have "fst (SaveStorageConfig demo_fc (Some (\<lambda>u. Some ''key'')) demo_external ?w) = Inr ()" by code_simp
  then have s: "SaveStorageConfig demo_fc (Some (\<lambda>u. Some ''key'')) demo_external ?w = (Inr (), demo_stale)"
    by (simp add: demo_stale_def prod_eq_iff)
  from config_roundtrip [OF demo_fc_good _ _ _ _ _ _ s]
  show ?thesis
    using demo_stale_facts(1) by (simp add: demo_external_def demo_fc_def calm_not_failing)
qed

theorem cutover_stores_plain_credentials_witness:
  "map_option bc_AccessKey (map_of (config_tbl (snd (cutover_config demo_ext 7 demo_stale))) 7) = Some ''ak''"
  using cutover_stores_plain_credentials [of demo_stale 7 demo_ext "\<lambda>u. Some ''key''" "''key''" _ "''ak''" "''sk''"]
    demo_stale_facts(1,4) by (simp add: demo_ext_def demo_fc_def)

end
