(* ===== verification/Files.thy ===== *)
theory Files
  imports Config
begin

text \<open>
  The file service \<open>internal/usecase/storage/files.go\<close> that tools and MCP clients use. A result of
  \<open>uuid.NewString()\<close> is an argument. A check of \<open>ctx.Err()\<close> draws from the pending failures like a
  call does. \<open>None\<close> is a nil service or a service without resolver.
\<close>

record stored_file =
  fi_Key :: string
  fi_FileName :: string
  fi_Size :: int
  fi_ContentType :: string
  fi_ModifiedAt :: int
  fi_URL :: string

type_synonym service = "factory option option"

definition ctx_canceled :: go_err where
  "ctx_canceled = Msg ''context canceled''"

definition presigned_ttl :: int where
  "presigned_ttl = 24 * hour"

definition resolve :: "ext \<Rightarrow> service \<Rightarrow> uid \<Rightarrow> 'a cfg_st_scheme \<Rightarrow> (go_err + store_id) \<times> 'a cfg_st_scheme" where
  "resolve x s u w =
     (if u = 0 then (Inl (Msg ''invalid user ID''), w)
      else (case s of None \<Rightarrow> (Inl (Msg ''storage is not configured''), w) | Some fo \<Rightarrow> Resolve x fo u w))"

definition object_name :: "uid \<Rightarrow> string \<Rightarrow> string \<Rightarrow> string" where
  "object_name u uuid name = userPrefix u @ uuid @ ''-'' @ filepath_Base name"

definition put_file :: "ext \<Rightarrow> service \<Rightarrow> uid \<Rightarrow> string \<Rightarrow> string \<Rightarrow> int \<Rightarrow> string \<Rightarrow> string
    \<Rightarrow> 'a cfg_st_scheme \<Rightarrow> (go_err + stored_file) \<times> 'a cfg_st_scheme" where
  "put_file x s u name payload sz ctype uuid w =
     (case validateName name of
        Inl e \<Rightarrow> (Inl e, w)
      | Inr _ \<Rightarrow>
          (case resolve x s u w of
             (Inl e, w) \<Rightarrow> (Inl e, w)
           | (Inr sid, w) \<Rightarrow>
               let key = object_name u uuid name in
               (case PutObject sid key payload sz w of
                  (Inl e, w) \<Rightarrow> (Inl e, w)
                | (Inr ob, w) \<Rightarrow>
                    (case validateUserKey u (oi_Key ob) of
                       Inl e \<Rightarrow> (Inl (Wrap ''storage returned invalid object key'' e), w)
                     | Inr _ \<Rightarrow>
                         (case PresignedGetURL sid key presigned_ttl w of
                            (Inl e, w) \<Rightarrow> (Inl e, w)
                          | (Inr url, w) \<Rightarrow>
                              (Inr \<lparr>fi_Key = oi_Key ob, fi_FileName = name, fi_Size = oi_Size ob,
                                 fi_ContentType = ctype, fi_ModifiedAt = oi_Modified ob, fi_URL = url\<rparr>, w))))))"

definition CreateTextFile :: "ext \<Rightarrow> service \<Rightarrow> uid \<Rightarrow> string \<Rightarrow> string \<Rightarrow> int \<Rightarrow> string
    \<Rightarrow> 'a cfg_st_scheme \<Rightarrow> (go_err + stored_file) \<times> 'a cfg_st_scheme" where
  "CreateTextFile x s u name payload sz uuid w =
     put_file x s u name payload sz ''text/plain; charset=utf-8'' uuid w"

definition SaveFile :: "ext \<Rightarrow> service \<Rightarrow> uid \<Rightarrow> string \<Rightarrow> string \<Rightarrow> int \<Rightarrow> string \<Rightarrow> string
    \<Rightarrow> 'a cfg_st_scheme \<Rightarrow> (go_err + stored_file) \<times> 'a cfg_st_scheme" where
  "SaveFile x s u name payload sz ctype uuid w =
     put_file x s u name payload sz (if ctype = [] then ''application/octet-stream'' else ctype) uuid w"

definition SaveImage :: "ext \<Rightarrow> service \<Rightarrow> uid \<Rightarrow> string \<Rightarrow> string \<Rightarrow> int \<Rightarrow> string \<Rightarrow> string
    \<Rightarrow> 'a cfg_st_scheme \<Rightarrow> (go_err + stored_file) \<times> 'a cfg_st_scheme" where
  "SaveImage x s u name payload sz ctype uuid w = SaveFile x s u name payload sz ctype uuid w"

text \<open>The displayed name drops the 36 characters of the UUID and the hyphen after it.\<close>

definition display_name :: "string \<Rightarrow> string" where
  "display_name key =
     (let name = filepath_Base key
      in if 37 < length name \<and> name ! 36 = CHR ''-'' then drop 37 name else name)"

fun list_entries :: "store_id \<Rightarrow> uid \<Rightarrow> object_info list \<Rightarrow> 'a cfg_st_scheme
    \<Rightarrow> (go_err + stored_file list) \<times> 'a cfg_st_scheme" where
  "list_entries sid u [] w = (Inr [], w)"
| "list_entries sid u (ob # obs) w =
     (case validateUserKey u (oi_Key ob) of
        Inl e \<Rightarrow> (Inl (Wrap ''storage returned invalid object key'' e), w)
      | Inr _ \<Rightarrow>
          (case PresignedGetURL sid (oi_Key ob) presigned_ttl w of
             (Inl e, w) \<Rightarrow> (Inl e, w)
           | (Inr url, w) \<Rightarrow>
               (case list_entries sid u obs w of
                  (Inl e, w) \<Rightarrow> (Inl e, w)
                | (Inr fs, w) \<Rightarrow>
                    (Inr (\<lparr>fi_Key = oi_Key ob, fi_FileName = display_name (oi_Key ob),
                       fi_Size = oi_Size ob, fi_ContentType = [], fi_ModifiedAt = oi_Modified ob,
                       fi_URL = url\<rparr> # fs), w))))"

definition ListFiles :: "ext \<Rightarrow> service \<Rightarrow> uid \<Rightarrow> 'a cfg_st_scheme
    \<Rightarrow> (go_err + stored_file list) \<times> 'a cfg_st_scheme" where
  "ListFiles x s u w =
     (case resolve x s u w of
        (Inl e, w) \<Rightarrow> (Inl e, w)
      | (Inr sid, w) \<Rightarrow>
          (case ListObjects sid (userPrefix u) 0 w of
             (Inl e, w) \<Rightarrow> (Inl e, w)
           | (Inr obs, w) \<Rightarrow> list_entries sid u obs w))"

definition DeleteFile :: "ext \<Rightarrow> service \<Rightarrow> uid \<Rightarrow> string \<Rightarrow> 'a cfg_st_scheme
    \<Rightarrow> (go_err + unit) \<times> 'a cfg_st_scheme" where
  "DeleteFile x s u key w =
     (case validateUserKey u key of
        Inl e \<Rightarrow> (Inl e, w)
      | Inr _ \<Rightarrow>
          if failing w then (Inl ctx_canceled, drawn w)
          else if TrimSpace key = userPrefix u
            then (Inl (Msg ''object does not belong to user''), drawn w)
          else (case resolve x s u (drawn w) of
                  (Inl e, w) \<Rightarrow> (Inl e, w)
                | (Inr sid, w) \<Rightarrow> DeleteObject sid key w))"

fun delete_entries :: "store_id \<Rightarrow> uid \<Rightarrow> object_info list \<Rightarrow> 'a cfg_st_scheme
    \<Rightarrow> (go_err + unit) \<times> 'a cfg_st_scheme" where
  "delete_entries sid u [] w = (Inr (), w)"
| "delete_entries sid u (ob # obs) w =
     (if failing w then (Inl ctx_canceled, drawn w)
      else (case validateUserKey u (oi_Key ob) of
              Inl e \<Rightarrow> (Inl (Wrap ''storage returned invalid object key'' e), drawn w)
            | Inr _ \<Rightarrow>
                (case DeleteObject sid (oi_Key ob) (drawn w) of
                   (Inl e, w) \<Rightarrow> (Inl e, w)
                 | (Inr _, w) \<Rightarrow> delete_entries sid u obs w)))"

definition DeleteAll :: "ext \<Rightarrow> service \<Rightarrow> uid \<Rightarrow> 'a cfg_st_scheme
    \<Rightarrow> (go_err + unit) \<times> 'a cfg_st_scheme" where
  "DeleteAll x s u w =
     (case resolve x s u w of
        (Inl e, w) \<Rightarrow> (Inl e, w)
      | (Inr sid, w) \<Rightarrow>
          (case ListObjects sid (userPrefix u) 0 w of
             (Inl e, w) \<Rightarrow> (Inl e, w)
           | (Inr obs, w) \<Rightarrow> delete_entries sid u obs w))"

section \<open>Objects of other users\<close>

definition foreign_same :: "uid \<Rightarrow> 'a obj_st_scheme \<Rightarrow> 'a obj_st_scheme \<Rightarrow> bool" where
  "foreign_same u w w' =
     (\<forall>sid k. \<not> HasPrefix k (userPrefix u) \<longrightarrow> contents w' sid k = contents w sid k)"

lemma foreign_refl [simp, intro]: "foreign_same u w w"
  by (simp add: foreign_same_def)

lemma foreign_trans: "foreign_same u w w' \<Longrightarrow> foreign_same u w' w'' \<Longrightarrow> foreign_same u w w''"
  by (simp add: foreign_same_def)

lemma foreign_stores: "stores w' = stores w \<Longrightarrow> foreign_same u w w'"
  by (simp add: foreign_same_def contents_def)

lemma StorageConfig_stores: "StorageConfig fc mkr u w = (r, w') \<Longrightarrow> stores w' = stores w"
  using StorageConfig_frames [of fc mkr u w r w'] by auto

lemma redis_op_stores [simp]: "stores (rstore k v ttl w) = stores w" "stores (rremove k w) = stores w"
  by (simp_all add: rstore_def rremove_def)

lemma cache_stores:
  "LoadCachedConfig hc u w = (r, w') \<Longrightarrow> stores w' = stores w"
  "CachedBackendConfig hc u cfg w = (b, w') \<Longrightarrow> stores w' = stores w"
  by (auto simp: LoadCachedConfig_def CachedBackendConfig_def Get_def Set_def Let_def
      split: if_splits option.splits sum.splits prod.splits)

lemma externalClient_stores: "externalClient x f u cfg w = (r, w') \<Longrightarrow> stores w' = stores w"
  by (auto simp: externalClient_def split: sum.splits if_splits)

lemma loadCachedConfig_frame: "loadCachedConfig x f u w = (r, w') \<Longrightarrow> stores w' = stores w"
  by (auto simp: loadCachedConfig_def dest!: cache_stores StorageConfig_stores
      split: if_splits sum.splits prod.splits)

lemma Resolve_stores: "Resolve x fo u w = (r, w') \<Longrightarrow> stores w' = stores w"
  by (auto simp: Resolve_def dest!: loadCachedConfig_frame externalClient_stores
      split: option.splits if_splits sum.splits prod.splits)

lemma resolve_stores: "resolve x s u w = (r, w') \<Longrightarrow> stores w' = stores w"
  by (auto simp: resolve_def dest!: Resolve_stores split: if_splits option.splits)

lemma PutObject_other:
  assumes "PutObject sid k d sz w = (r, w')" and "j \<noteq> k \<or> sid' \<noteq> sid"
  shows "contents w' sid' j = contents w sid' j"
  using assms
  by (auto simp: PutObject_def Let_def contents_def update_conv' split: sum.splits if_splits prod.splits
      dest!: StatObject_stores)

lemma DeleteObject_other:
  assumes "DeleteObject sid k w = (r, w')" and "j \<noteq> k \<or> sid' \<noteq> sid"
  shows "contents w' sid' j = contents w sid' j"
  using DeleteObject_shape [OF assms(1)] assms(2) by (auto simp: contents_def delete_conv' split: if_splits)

lemma PresignedGetURL_stores: "PresignedGetURL sid k t w = (r, w') \<Longrightarrow> stores w' = stores w"
  by (auto simp: PresignedGetURL_def split: sum.splits if_splits)

lemma ListObjects_stores: "ListObjects sid p n w = (r, w') \<Longrightarrow> stores w' = stores w"
  by (auto simp: ListObjects_def Let_def split: sum.splits if_splits)

lemma validateUserKey_prefix: "validateUserKey u k = Inr x \<Longrightarrow> HasPrefix k (userPrefix u)"
  by (auto simp: validateUserKey_def split: if_splits)

lemma object_name_prefix: "HasPrefix (object_name u uuid name) (userPrefix u)"
  by (simp add: object_name_def)

lemma PutObject_foreign:
  assumes "PutObject sid k d sz w = (p, w')" and "HasPrefix k (userPrefix u)"
  shows "foreign_same u w w'"
  unfolding foreign_same_def
proof (intro allI impI)
  fix sid' j assume "\<not> HasPrefix j (userPrefix u)"
  with assms(2) have "j \<noteq> k \<or> sid' \<noteq> sid" by auto
  then show "contents w' sid' j = contents w sid' j" by (rule PutObject_other [OF assms(1)])
qed

lemma DeleteObject_foreign:
  assumes "DeleteObject sid k w = (p, w')" and "HasPrefix k (userPrefix u)"
  shows "foreign_same u w w'"
  unfolding foreign_same_def
proof (intro allI impI)
  fix sid' j assume "\<not> HasPrefix j (userPrefix u)"
  with assms(2) have "j \<noteq> k \<or> sid' \<noteq> sid" by auto
  then show "contents w' sid' j = contents w sid' j" by (rule DeleteObject_other [OF assms(1)])
qed

lemma put_file_foreign: "foreign_same u w (snd (put_file x s u name d sz ct uuid w))"
proof -
  obtain r w1 where r: "resolve x s u w = (r, w1)" by (cases "resolve x s u w")
  have f1: "foreign_same u w w1" by (rule foreign_stores [OF resolve_stores [OF r]])
  show ?thesis
  proof (cases "validateName name")
    case ok: (Inr n)
    show ?thesis
    proof (cases r)
      case (Inl e)
      with ok r f1 show ?thesis by (simp add: put_file_def)
    next
      case (Inr sid)
      let ?k = "object_name u uuid name"
      obtain p w2 where p: "PutObject sid ?k d sz w1 = (p, w2)" by (cases "PutObject sid ?k d sz w1")
      have f2: "foreign_same u w w2"
        by (rule foreign_trans [OF f1 PutObject_foreign [OF p object_name_prefix]])
      obtain g w3 where g: "PresignedGetURL sid ?k presigned_ttl w2 = (g, w3)"
        by (cases "PresignedGetURL sid ?k presigned_ttl w2")
      have f3: "foreign_same u w w3"
        by (rule foreign_trans [OF f2 foreign_stores [OF PresignedGetURL_stores [OF g]]])
      from ok r Inr p g f2 f3 show ?thesis
        by (simp add: put_file_def Let_def split: sum.splits)
    qed
  qed (simp add: put_file_def)
qed

lemma list_entries_stores: "stores (snd (list_entries sid u obs w)) = stores w"
proof (induction obs arbitrary: w)
  case (Cons ob obs)
  obtain g w1 where g: "PresignedGetURL sid (oi_Key ob) presigned_ttl w = (g, w1)"
    by (cases "PresignedGetURL sid (oi_Key ob) presigned_ttl w")
  obtain l w2 where l: "list_entries sid u obs w1 = (l, w2)" by (cases "list_entries sid u obs w1")
  have "stores w2 = stores w1" using Cons.IH [of w1] l by simp
  with g l PresignedGetURL_stores [OF g] show ?case by (auto split: sum.splits)
qed simp

lemma delete_entries_foreign: "foreign_same u w (snd (delete_entries sid u obs w))"
proof (induction obs arbitrary: w)
  case (Cons ob obs)
  show ?case
  proof (cases "failing w \<or> \<not> is_ok (validateUserKey u (oi_Key ob))")
    case True
    then show ?thesis by (auto split: sum.splits intro: foreign_stores)
  next
    case False
    then obtain y where y: "validateUserKey u (oi_Key ob) = Inr y" by (cases "validateUserKey u (oi_Key ob)") auto
    obtain r w1 where r: "DeleteObject sid (oi_Key ob) (drawn w) = (r, w1)"
      by (cases "DeleteObject sid (oi_Key ob) (drawn w)")
    have "foreign_same u w (drawn w)" by (rule foreign_stores) simp
    from foreign_trans [OF this DeleteObject_foreign [OF r validateUserKey_prefix [OF y]]]
    have f: "foreign_same u w w1" .
    from False y r f foreign_trans [OF f Cons.IH] show ?thesis by (auto split: sum.splits)
  qed
qed simp

section \<open>Runs of the file service\<close>

inductive file_step :: "ext \<Rightarrow> service \<Rightarrow> uid \<Rightarrow> 'a cfg_st_scheme \<Rightarrow> 'a cfg_st_scheme \<Rightarrow> bool"
  for x s u where
  fs_save: "file_step x s u w (snd (SaveFile x s u name payload sz ctype uuid w))"
| fs_text: "file_step x s u w (snd (CreateTextFile x s u name payload sz uuid w))"
| fs_image: "file_step x s u w (snd (SaveImage x s u name payload sz ctype uuid w))"
| fs_list: "file_step x s u w (snd (ListFiles x s u w))"
| fs_delete: "file_step x s u w (snd (DeleteFile x s u key w))"
| fs_delete_all: "file_step x s u w (snd (DeleteAll x s u w))"
| fs_wait: "0 \<le> d \<Longrightarrow> file_step x s u w (advance d w)"
| fs_outage: "file_step x s u w (w\<lparr>faults := fs\<rparr>)"

lemma list_frame:
  assumes "resolve x s u w = (r, w1)"
  shows "stores (snd (ListObjects sid p n w1)) = stores w"
  using resolve_stores [OF assms] ListObjects_stores [of sid p n w1]
  by (cases "ListObjects sid p n w1") simp

lemma ListFiles_foreign: "foreign_same u w (snd (ListFiles x s u w))"
proof -
  obtain r w1 where r: "resolve x s u w = (r, w1)" by (cases "resolve x s u w")
  have "stores (snd (ListFiles x s u w)) = stores w"
  proof (cases r)
    case (Inl e)
    with r resolve_stores [OF r] show ?thesis by (simp add: ListFiles_def)
  next
    case (Inr sid)
    obtain l w2 where l: "ListObjects sid (userPrefix u) 0 w1 = (l, w2)"
      by (cases "ListObjects sid (userPrefix u) 0 w1")
    have "stores w2 = stores w" using list_frame [OF r, of sid "userPrefix u" 0] l by simp
    with r Inr l list_entries_stores [of sid u _ w2] show ?thesis
      by (simp add: ListFiles_def split: sum.splits)
  qed
  then show ?thesis by (rule foreign_stores)
qed

lemma DeleteAll_foreign: "foreign_same u w (snd (DeleteAll x s u w))"
proof -
  obtain r w1 where r: "resolve x s u w = (r, w1)" by (cases "resolve x s u w")
  show ?thesis
  proof (cases r)
    case (Inl e)
    with r resolve_stores [OF r] show ?thesis by (simp add: DeleteAll_def foreign_stores)
  next
    case (Inr sid)
    obtain l w2 where l: "ListObjects sid (userPrefix u) 0 w1 = (l, w2)"
      by (cases "ListObjects sid (userPrefix u) 0 w1")
    have "stores w2 = stores w" using list_frame [OF r, of sid "userPrefix u" 0] l by simp
    then have f: "foreign_same u w w2" by (rule foreign_stores)
    from r Inr l f foreign_trans [OF f delete_entries_foreign] show ?thesis
      by (simp add: DeleteAll_def split: sum.splits)
  qed
qed

lemma DeleteFile_foreign: "foreign_same u w (snd (DeleteFile x s u key w))"
proof (cases "validateUserKey u key")
  case (Inr y)
  obtain r w1 where r: "resolve x s u (drawn w) = (r, w1)" by (cases "resolve x s u (drawn w)")
  have d: "foreign_same u w (drawn w)" by (rule foreign_stores) simp
  have f: "foreign_same u w w1"
    by (rule foreign_stores) (use resolve_stores [OF r] in simp)
  have "foreign_same u w (snd (DeleteObject sid key w1))" for sid
    using foreign_trans [OF f DeleteObject_foreign [OF _ validateUserKey_prefix [OF Inr]]]
    by (cases "DeleteObject sid key w1") simp
  with Inr r f d show ?thesis by (simp add: DeleteFile_def split: sum.splits)
qed (simp add: DeleteFile_def)

lemma file_step_foreign: "file_step x s u w w' \<Longrightarrow> foreign_same u w w'"
  by (erule file_step.cases)
    (simp_all add: SaveImage_def SaveFile_def CreateTextFile_def put_file_foreign ListFiles_foreign
      DeleteFile_foreign DeleteAll_foreign foreign_stores advance_def)

text \<open>C6: whatever one user does with the file service, with any names and keys and any failing calls,
  every object below another user's prefix keeps its content in every store.\<close>

theorem users_are_isolated:
  assumes "(file_step x s u)\<^sup>*\<^sup>* w w'" and "v \<noteq> u" and "HasPrefix k (userPrefix v)"
  shows "contents w' sid k = contents w sid k"
proof -
  have "foreign_same u w w'"
    using assms(1) by (induction rule: rtranclp_induct) (auto intro: foreign_trans file_step_foreign)
  moreover have "\<not> HasPrefix k (userPrefix u)" using userPrefix_prefix_inj assms(2,3) by blast
  ultimately show ?thesis unfolding foreign_same_def by blast
qed

section \<open>Saving and listing\<close>

lemma last_split_on: "d \<notin> set s \<Longrightarrow> last (split_on d (p @ d # s)) = s"
proof (induction p)
  case Nil
  then show ?case by (simp add: split_on_id)
next
  case (Cons c p)
  have "split_on d (p @ d # s) \<noteq> []" by simp
  moreover have "length (split_on d (p @ d # s)) \<ge> 2"
    by (induction p) (auto split: list.splits simp: Suc_le_eq neq_Nil_conv)
  ultimately show ?case using Cons by (auto split: list.splits)
qed

lemma Base_of_key:
  assumes "CHR ''/'' \<notin> set s" and "s \<noteq> []"
  shows "filepath_Base (p @ CHR ''/'' # s) = s"
proof -
  obtain t c where s: "s = t @ [c]" using assms(2) by (cases s rule: rev_cases) auto
  have "c \<noteq> CHR ''/''" using assms(1) s by auto
  then have "rev (dropWhile (\<lambda>c. c = CHR ''/'') (rev (p @ CHR ''/'' # s))) = p @ CHR ''/'' # s"
    by (simp add: s)
  then show ?thesis
    using last_split_on [OF assms(1), of p] by (simp add: filepath_Base_def Let_def)
qed

lemma validName_facts:
  assumes "validateName name = Inr y"
  shows "name \<noteq> []" and "CHR ''/'' \<notin> set name" and "filepath_Base name = name"
proof -
  have v: "TrimSpace name \<noteq> []" "name = filepath_Base name" "\<not> ContainsAny name name_breakers"
    using assms by (simp_all add: validateName_def split: if_splits)
  have "TrimSpace [] = []" by (simp add: TrimSpace_def)
  with v(1) show "name \<noteq> []" by blast
  show "filepath_Base name = name" using v(2) by (rule sym)
  show "CHR ''/'' \<notin> set name" using v(3) by (auto simp: ContainsAny_iff name_breakers_def)
qed

lemma display_of_saved:
  assumes "validateName name = Inr y" and "length uuid = 36" and "CHR ''/'' \<notin> set uuid"
  shows "display_name (object_name u uuid name) = name"
proof -
  note n = validName_facts [OF assms(1)]
  have "object_name u uuid name = (''users/'' @ show_uid u) @ CHR ''/'' # (uuid @ ''-'' @ name)"
    by (simp add: object_name_def userPrefix_def n(3))
  then have "filepath_Base (object_name u uuid name) = uuid @ ''-'' @ name"
    using Base_of_key [of "uuid @ ''-'' @ name" "''users/'' @ show_uid u"] n assms(3) by simp
  then show ?thesis
    using assms(2) n(1) by (simp add: display_name_def Let_def nth_append)
qed

lemma list_entries_covers:
  "list_entries sid u obs w = (Inr fs, w') \<Longrightarrow> ob \<in> set obs \<Longrightarrow>
     \<exists>g \<in> set fs. fi_Key g = oi_Key ob \<and> fi_FileName g = display_name (oi_Key ob) \<and> fi_Size g = oi_Size ob"
proof (induction obs arbitrary: w fs w')
  case (Cons a obs)
  obtain g w1 where g: "PresignedGetURL sid (oi_Key a) presigned_ttl w = (g, w1)"
    by (cases "PresignedGetURL sid (oi_Key a) presigned_ttl w")
  obtain l w2 where l: "list_entries sid u obs w1 = (l, w2)" by (cases "list_entries sid u obs w1")
  obtain url fs1 where ok: "g = Inr url" "l = Inr fs1" "fs = \<lparr>fi_Key = oi_Key a,
      fi_FileName = display_name (oi_Key a), fi_Size = oi_Size a, fi_ContentType = [],
      fi_ModifiedAt = oi_Modified a, fi_URL = url\<rparr> # fs1"
    using Cons.prems(1) g l by (auto split: sum.splits)
  show ?case
  proof (cases "ob = a")
    case False
    with Cons.prems(2) Cons.IH [OF l [unfolded ok(2)]] ok(3) show ?thesis by auto
  qed (simp add: ok(3))
qed simp

lemma resolve_sid:
  assumes "resolve x s u w = (Inr sid, w')"
  shows "\<exists>f. s = Some (Some f) \<and> f_internal f = Some sid"
  using assms Resolve_internal by (fastforce simp: resolve_def split: if_splits option.splits)

text \<open>A file saved under a valid name is found again by the next listing, under the name it was
  saved with and with the size of its content.\<close>

theorem saved_file_is_listed:
  assumes "SaveFile x s u name payload (int (length payload)) ct uuid w = (Inr f, w1)"
    and "length uuid = 36" and "CHR ''/'' \<notin> set uuid"
    and "ListFiles x s u w1 = (Inr fs, w2)"
  shows "\<exists>g \<in> set fs. fi_Key g = fi_Key f \<and> fi_FileName g = name \<and> fi_Size g = int (length payload)"
proof -
  let ?k = "object_name u uuid name"
  obtain y where name: "validateName name = Inr y"
    using assms(1) by (auto simp: SaveFile_def put_file_def split: sum.splits)
  obtain sid wa where r: "resolve x s u w = (Inr sid, wa)"
    using assms(1) name by (cases "resolve x s u w") (auto simp: SaveFile_def put_file_def split: sum.splits)
  obtain i wb where p: "PutObject sid ?k payload (int (length payload)) wa = (Inr i, wb)"
    using assms(1) name r by (cases "PutObject sid ?k payload (int (length payload)) wa")
      (auto simp: SaveFile_def put_file_def Let_def split: sum.splits)
  have f: "fi_Key f = oi_Key i" "stores w1 = stores wb"
    using assms(1) name r p by (auto simp: SaveFile_def put_file_def Let_def split: sum.splits prod.splits
        dest: PresignedGetURL_stores)
  define ob where "ob = \<lparr>so_Data = payload, so_ETag = etag_fn wa sid payload, so_Modified = now wa\<rparr>"
  have st: "stores wb = (stores wa)(sid := AList.update ?k ob (stores wa sid))"
    using PutObject_shape [OF p] by (simp add: ob_def)
  have i: "oi_Key i = ?k"
    using p by (auto simp: PutObject_def StatObject_def Let_def info_of_def split: sum.splits if_splits option.splits prod.splits)
  obtain wc where r2: "resolve x s u w1 = (Inr sid, wc)"
    using assms(4) resolve_sid [OF r] resolve_sid [of x s u w1]
    by (cases "resolve x s u w1") (fastforce simp: ListFiles_def split: sum.splits)
  have stc: "stores wc = stores wb" using resolve_stores [OF r2] f(2) by simp
  obtain obs wd where l: "ListObjects sid (userPrefix u) 0 wc = (Inr obs, wd)"
    using assms(4) r2 by (cases "ListObjects sid (userPrefix u) 0 wc") (auto simp: ListFiles_def split: sum.splits)
  have "info_of ?k ob \<in> set obs"
  proof -
    have "map_of (stores wb sid) ?k = Some ob" by (simp add: st update_conv')
    then have "(?k, ob) \<in> set (stores wc sid)" using stc by (simp add: map_of_SomeD)
    then show ?thesis
      using l object_name_prefix [of u uuid name]
      by (force simp: ListObjects_def listing_def Let_def split: sum.splits if_splits)
  qed
  moreover have "list_entries sid u obs wd = (Inr fs, w2)" using assms(4) r2 l by (simp add: ListFiles_def)
  ultimately obtain g where "g \<in> set fs" "fi_Key g = ?k" "fi_FileName g = display_name ?k"
      "fi_Size g = int (length payload)"
    using list_entries_covers [of sid u obs wd fs w2 "info_of ?k ob"] by (auto simp: info_of_def ob_def)
  then show ?thesis using f(1) i display_of_saved [OF name assms(2,3)] by auto
qed

section \<open>Witnesses\<close>

definition demo_service :: service where
  "demo_service = Some (Some demo_factory)"

theorem users_are_isolated_witness:
  "contents (snd (DeleteAll demo_ext demo_service 9 demo_cfg_st)) Internal ''users/7/a''
     = contents demo_cfg_st Internal ''users/7/a''"
proof -
  have run: "(file_step demo_ext demo_service 9)\<^sup>*\<^sup>* demo_cfg_st (snd (DeleteAll demo_ext demo_service 9 demo_cfg_st))"
    by (rule r_into_rtranclp, rule fs_delete_all)
  have pre: "HasPrefix ''users/7/a'' (userPrefix 7)" by code_simp
  then show ?thesis by (intro users_are_isolated [OF run _ pre]) simp
qed

definition demo_plain :: service where
  "demo_plain = Some (Some (demo_factory\<lparr>f_configs := False\<rparr>))"

definition demo_uuid :: string where
  "demo_uuid = ''0a1b2c3d-0000-4000-8000-00000000000f''"

definition demo_saved :: "(go_err + stored_file) \<times> cfg_st" where
  "demo_saved = SaveFile demo_ext demo_plain 9 ''n.txt'' ''hello'' (int (length ''hello'')) [] demo_uuid demo_cfg_st"

definition demo_key :: string where
  "demo_key = object_name 9 demo_uuid ''n.txt''"

lemma demo_key_text: "demo_key = ''users/9/0a1b2c3d-0000-4000-8000-00000000000f-n.txt''"
  and prefix_text: "userPrefix 9 = ''users/9/''"
  by code_simp+

lemma demo_key_ok:
  "validateName ''n.txt'' = Inr ()" "validateKey demo_key = Inr ()" "validateUserKey 9 demo_key = Inr ()"
  "validateKey (trim_slash (userPrefix 9)) = Inr ()"
  "HasPrefix demo_key (userPrefix 9)" "\<not> HasPrefix ''users/7/a'' (userPrefix 9)" "demo_key \<noteq> ''users/7/a''"
  unfolding demo_key_text prefix_text validateUserKey_def by code_simp+

lemma demo_resolve: "resolve demo_ext demo_plain 9 w = (Inr Internal, w)"
  by (simp add: resolve_def Resolve_def demo_plain_def demo_factory_def)

lemma demo_cfg_st_simps [simp]:
  "\<not> failing demo_cfg_st" "\<not> failing (drawn demo_cfg_st)" "calm demo_cfg_st"
  "stores demo_cfg_st Internal = [(''users/7/a'', \<lparr>so_Data = ''abc'', so_ETag = [], so_Modified = 0\<rparr>)]"
  by (simp_all add: demo_cfg_st_def failing_def drawn_def calm_def)

definition demo_put :: cfg_st where
  "demo_put = put_bucket Internal (AList.update demo_key
     \<lparr>so_Data = ''hello'', so_ETag = etag_fn demo_cfg_st Internal ''hello'', so_Modified = now demo_cfg_st\<rparr>
     (stores demo_cfg_st Internal)) (drawn demo_cfg_st)"

lemma demo_put_facts: "calm demo_put" "stores demo_put Internal = [(''users/7/a'',
     \<lparr>so_Data = ''abc'', so_ETag = [], so_Modified = 0\<rparr>), (demo_key,
     \<lparr>so_Data = ''hello'', so_ETag = etag_fn demo_cfg_st Internal ''hello'', so_Modified = now demo_cfg_st\<rparr>)]"
  using demo_key_ok(7) by (auto simp: demo_put_def calm_drawn)

lemma demo_saved_ok: "\<exists>f w. demo_saved = (Inr f, w) \<and> calm w \<and> stores w = stores demo_put"
proof -
  have p: "PutObject Internal demo_key ''hello'' (int (length ''hello'')) demo_cfg_st
      = (case StatObject Internal demo_key demo_put of
           (Inl e, w) \<Rightarrow> (Inl (Wrap ''stat object after put'' e), w) | (Inr i, w) \<Rightarrow> (Inr i, w))"
    by (simp add: PutObject_def demo_key_ok Let_def demo_put_def)
  have st: "StatObject Internal demo_key demo_put = (Inr (info_of demo_key \<lparr>so_Data = ''hello'',
      so_ETag = etag_fn demo_cfg_st Internal ''hello'', so_Modified = now demo_cfg_st\<rparr>), drawn demo_put)"
    using demo_key_ok(7) by (simp add: StatObject_def demo_key_ok calm_not_failing demo_put_facts Let_def)
  have c: "calm (drawn demo_put)" using demo_put_facts(1) by (rule calm_drawn)
  show ?thesis
    using p st c by (simp add: demo_saved_def SaveFile_def put_file_def demo_key_ok demo_resolve Let_def
        demo_key_def [symmetric] info_of_def PresignedGetURL_def calm_not_failing presigned_ttl_def
        hour_def minute_def second_def calm_drawn)
qed

theorem saved_file_is_listed_witness:
  "\<exists>f fs. fst demo_saved = Inr f \<and> fst (ListFiles demo_ext demo_plain 9 (snd demo_saved)) = Inr fs \<and>
     (\<exists>g \<in> set fs. fi_Key g = fi_Key f \<and> fi_FileName g = ''n.txt'' \<and> fi_Size g = 5)"
proof -
  obtain f w where s: "demo_saved = (Inr f, w)" "calm w" "stores w = stores demo_put"
    using demo_saved_ok by blast
  have "is_ok (fst (ListFiles demo_ext demo_plain 9 w))"
    using s(2) demo_key_ok by (simp add: ListFiles_def demo_resolve ListObjects_def demo_key_ok Let_def calm_not_failing
        listing_def s(3) demo_put_facts info_of_def PresignedGetURL_def calm_drawn presigned_ttl_def
        hour_def minute_def second_def userPrefix_def)
  then obtain fs w2 where l: "ListFiles demo_ext demo_plain 9 w = (Inr fs, w2)"
    by (cases "ListFiles demo_ext demo_plain 9 w"; cases "fst (ListFiles demo_ext demo_plain 9 w)") auto
  have "length demo_uuid = 36" "CHR ''/'' \<notin> set demo_uuid" by (simp_all add: demo_uuid_def)
  from saved_file_is_listed [OF s(1) [unfolded demo_saved_def] this l]
  have g: "\<exists>g \<in> set fs. fi_Key g = fi_Key f \<and> fi_FileName g = ''n.txt'' \<and> fi_Size g = 5" by simp
  show ?thesis by (intro exI [of _ f] exI [of _ fs] conjI g) (simp_all add: s(1) l)
qed

end
