(* ===== verification/Migration.thy ===== *)
theory Migration
  imports Files
begin

text \<open>
  Moving a user's objects between stores: the job table of \<open>repository/mysql/storage.go\<close> and the
  service \<open>usecase/storage/migration.go\<close>. A run copies and verifies every object, switches the
  active backend, and only then deletes the source. A check of \<open>ctx.Err()\<close> and the reading of a body
  draw from the pending failures. The goroutine that renews the lock is not modelled: a run of the
  model takes no time except for the pauses between retries.
\<close>

section \<open>The job table\<close>

datatype migration_state = MigrationPending | MigrationRunning | MigrationFailed
  | MigrationCompleted | MigrationCancelled

record migration_record =
  mr_ID :: nat
  mr_UserID :: uid
  mr_State :: migration_state
  mr_Copied :: nat
  mr_Verified :: nat
  mr_Total :: nat
  mr_Deleted :: nat
  mr_LastError :: string
  mr_VerifiedKeys :: "string list"
  mr_UpdatedAt :: int

record manifest =
  mf_copied :: nat
  mf_verified :: nat
  mf_deleted :: nat
  mf_total :: nat
  mf_keys :: "string list"

text \<open>A new job's manifest is the empty JSON object: no progress is recorded.\<close>

record mig_row =
  m_UserID :: uid
  m_Source :: backend_type
  m_Target :: backend_type
  m_State :: migration_state
  m_Manifest :: "manifest option"
  m_LastError :: string
  m_UpdatedAt :: int

record mig_st = cfg_st +
  mig_tbl :: "(nat \<times> mig_row) list"
  mig_next :: nat
  mig_running :: "nat list"

definition is_backend :: "backend_type \<Rightarrow> bool" where
  "is_backend t = (t = BackendInternal \<or> t = BackendExternal)"

definition active_state :: "migration_state \<Rightarrow> bool" where
  "active_state st = (st = MigrationPending \<or> st = MigrationRunning)"

definition waiting_state :: "migration_state \<Rightarrow> bool" where
  "waiting_state st = (st = MigrationPending \<or> st = MigrationFailed)"

definition CreateMigration :: "uid \<Rightarrow> backend_type \<Rightarrow> backend_type \<Rightarrow> 'a mig_st_scheme
    \<Rightarrow> (go_err + migration_record) \<times> 'a mig_st_scheme" where
  "CreateMigration u src tgt w =
     (if u = 0 then (Inl (Msg ''invalid user ID''), w)
      else if src = tgt \<or> \<not> is_backend src \<or> \<not> is_backend tgt
        then (Inl (Msg ''invalid migration backend types''), w)
      else if failing w then (Inl sql_down, drawn w)
      else let w = drawn w in
      if list_ex (\<lambda>(_, r). m_UserID r = u \<and> active_state (m_State r)) (mig_tbl w)
        then (Inl (Msg ''migration already active for user''), w)
      else if failing w then (Inl sql_down, drawn w)
      else let w = drawn w; i = mig_next w;
               row = \<lparr>m_UserID = u, m_Source = src, m_Target = tgt, m_State = MigrationPending,
                      m_Manifest = None, m_LastError = [], m_UpdatedAt = now w\<rparr>
           in (Inr \<lparr>mr_ID = i, mr_UserID = u, mr_State = MigrationPending, mr_Copied = 0,
                 mr_Verified = 0, mr_Total = 0, mr_Deleted = 0, mr_LastError = [],
                 mr_VerifiedKeys = [], mr_UpdatedAt = now w\<rparr>,
               w\<lparr>mig_tbl := AList.update i row (mig_tbl w), mig_next := Suc i\<rparr>))"

definition updated_row :: "migration_record \<Rightarrow> int \<Rightarrow> mig_row \<Rightarrow> mig_row" where
  "updated_row r t row =
     (let row' = row\<lparr>m_State := mr_State r, m_LastError := mr_LastError r,
        m_Manifest := Some \<lparr>mf_copied = mr_Copied r, mf_verified = mr_Verified r,
          mf_deleted = mr_Deleted r, mf_total = mr_Total r, mf_keys = mr_VerifiedKeys r\<rparr>\<rparr>
      in if row' = row then row else row'\<lparr>m_UpdatedAt := t\<rparr>)"

definition UpdateMigration :: "migration_record \<Rightarrow> 'a mig_st_scheme
    \<Rightarrow> (go_err + unit) \<times> 'a mig_st_scheme" where
  "UpdateMigration r w =
     (if mr_ID r = 0 then (Inl (Msg ''invalid migration ID''), w)
      else if failing w then (Inl sql_down, drawn w)
      else (Inr (),
        (case map_of (mig_tbl w) (mr_ID r) of
           None \<Rightarrow> drawn w
         | Some row \<Rightarrow>
             (drawn w)\<lparr>mig_tbl := AList.update (mr_ID r) (updated_row r (now w) row) (mig_tbl w)\<rparr>)))"

text \<open>
  The progress columns are scanned into plain integers: for a job whose manifest is still empty they
  are NULL, and scanning NULL into an \<open>int\<close> is an error.
\<close>

definition GetMigration :: "nat \<Rightarrow> 'a mig_st_scheme
    \<Rightarrow> (go_err + migration_record) \<times> 'a mig_st_scheme" where
  "GetMigration i w =
     (if failing w then (Inl sql_down, drawn w)
      else (case map_of (mig_tbl w) i of
        None \<Rightarrow> (Inl (Msg ''sql: no rows in result set''), drawn w)
      | Some row \<Rightarrow>
          (case m_Manifest row of
             None \<Rightarrow> (Inl (Msg ''sql: Scan error: converting NULL to int is unsupported''), drawn w)
           | Some mf \<Rightarrow>
               (Inr \<lparr>mr_ID = i, mr_UserID = m_UserID row, mr_State = m_State row,
                  mr_Copied = mf_copied mf, mr_Verified = mf_verified mf, mr_Total = mf_total mf,
                  mr_Deleted = mf_deleted mf, mr_LastError = m_LastError row,
                  mr_VerifiedKeys = mf_keys mf, mr_UpdatedAt = m_UpdatedAt row\<rparr>, drawn w))))"

definition CancelMigration :: "nat \<Rightarrow> 'a mig_st_scheme \<Rightarrow> (go_err + unit) \<times> 'a mig_st_scheme" where
  "CancelMigration i w =
     (if failing w then (Inl sql_down, drawn w)
      else (case map_of (mig_tbl w) i of
        None \<Rightarrow> (Inl (Msg ''migration is running, completed, or not found''), drawn w)
      | Some row \<Rightarrow>
          if waiting_state (m_State row)
            then (Inr (), (drawn w)\<lparr>mig_tbl := AList.update i
                    (row\<lparr>m_State := MigrationCancelled, m_UpdatedAt := now w\<rparr>) (mig_tbl w)\<rparr>)
            else (Inl (Msg ''migration is running, completed, or not found''), drawn w)))"

definition ListPendingMigrations :: "int \<Rightarrow> 'a mig_st_scheme
    \<Rightarrow> (go_err + migration_record list) \<times> 'a mig_st_scheme" where
  "ListPendingMigrations limit w =
     (let n = (if limit \<le> 0 \<or> 100 < limit then 10 else nat limit)
      in if failing w then (Inl sql_down, drawn w)
         else (Inr (take n (map (\<lambda>(i, row). \<lparr>mr_ID = i, mr_UserID = m_UserID row,
                  mr_State = m_State row, mr_Copied = 0, mr_Verified = 0, mr_Total = 0,
                  mr_Deleted = 0, mr_LastError = [], mr_VerifiedKeys = [],
                  mr_UpdatedAt = m_UpdatedAt row\<rparr>)
                (sort_key (\<lambda>(_, row). m_UpdatedAt row)
                  (filter (\<lambda>(_, row). waiting_state (m_State row)) (mig_tbl w))))), drawn w))"

section \<open>The service\<close>

record 'w migration_service =
  ms_store :: bool
  ms_locker :: bool
  ms_cutover :: "(uid \<Rightarrow> 'w \<Rightarrow> (go_err + unit) \<times> 'w) option"
  ms_pair :: "(uid \<Rightarrow> 'w \<Rightarrow> (go_err + store_id \<times> store_id) \<times> 'w) option"

definition maxMigrationObjectSize :: int where
  "maxMigrationObjectSize = 512 * 2 ^ 20"

definition ms100 :: int where
  "ms100 = 100000000"

text \<open>Three attempts with growing pauses; a done context ends the loop.\<close>

fun retry_from :: "nat \<Rightarrow> int \<Rightarrow> go_err \<Rightarrow> ('a env_scheme \<Rightarrow> (go_err + 'b) \<times> 'a env_scheme)
    \<Rightarrow> 'a env_scheme \<Rightarrow> (go_err + 'b) \<times> 'a env_scheme" where
  "retry_from 0 attempt prev op w = (Inl prev, w)"
| "retry_from (Suc n) attempt prev op w =
     (case op w of
        (Inr b, w) \<Rightarrow> (Inr b, w)
      | (Inl e, w) \<Rightarrow>
          if failing w then (Inl ctx_canceled, drawn w)
          else let w = drawn w in
          if failing w then (Inl ctx_canceled, drawn w)
          else retry_from n (attempt + 1) e op (advance ((attempt + 1) * ms100) (drawn w)))"

definition retryMigration :: "('a env_scheme \<Rightarrow> (go_err + 'b) \<times> 'a env_scheme)
    \<Rightarrow> 'a env_scheme \<Rightarrow> (go_err + 'b) \<times> 'a env_scheme" where
  "retryMigration op w = retry_from 3 0 (Msg []) op w"

definition size_limit_err :: "string \<Rightarrow> go_err" where
  "size_limit_err k = Msg (''object '' @ k @ '' exceeds migration size limit'')"

definition verify_err :: "string \<Rightarrow> go_err" where
  "verify_err k = Msg (''target verification failed for '' @ k)"

definition mismatch :: "object_info \<Rightarrow> object_info \<Rightarrow> bool" where
  "mismatch check info = (oi_Size check \<noteq> oi_Size info
     \<or> (oi_ETag info \<noteq> [] \<and> oi_ETag check \<noteq> [] \<and> oi_ETag info \<noteq> oi_ETag check))"

text \<open>One object of \<open>Run\<close>: read, size check, copy with retries, stat with retries, verify.\<close>

definition copy_object :: "store_id \<Rightarrow> store_id \<Rightarrow> string \<Rightarrow> 'a mig_st_scheme
    \<Rightarrow> (go_err + unit) \<times> 'a mig_st_scheme" where
  "copy_object src tgt k w =
     (case GetObject src k w of
        (Inl e, w) \<Rightarrow> (Inl e, w)
      | (Inr (body, info), w) \<Rightarrow>
          if failing w then (Inl (Msg ''read: unexpected EOF''), drawn w)
          else
            let w = drawn w; payload = take (nat (maxMigrationObjectSize + 1)) body
            in if maxMigrationObjectSize < int (length payload) \<or> maxMigrationObjectSize < oi_Size info
               then (Inl (size_limit_err k), w)
               else (case retryMigration (PutObject tgt k payload (oi_Size info)) w of
                 (Inl e, w) \<Rightarrow> (Inl e, w)
               | (Inr _, w) \<Rightarrow>
                   (case (case StatObject tgt k w of
                            (Inr check, w) \<Rightarrow> (Inr check, w)
                          | (Inl e, w) \<Rightarrow> retryMigration (StatObject tgt k) w) of
                      (Inl e, w) \<Rightarrow> (Inl e, w)
                    | (Inr check, w) \<Rightarrow>
                        if mismatch check info then (Inl (verify_err k), w) else (Inr (), w))))"

definition store_update :: "bool \<Rightarrow> migration_record \<Rightarrow> 'a mig_st_scheme
    \<Rightarrow> (go_err + unit) \<times> 'a mig_st_scheme" where
  "store_update st r w = (if st then UpdateMigration r w else (Inr (), w))"

definition skip_object :: "migration_record \<Rightarrow> nat \<Rightarrow> nat \<Rightarrow> string \<Rightarrow> bool" where
  "skip_object rec resume i k =
     (List.member (mr_VerifiedKeys rec) k \<or> (mr_VerifiedKeys rec = [] \<and> i < resume))"

definition copied_record :: "migration_record \<Rightarrow> nat \<Rightarrow> string \<Rightarrow> int \<Rightarrow> migration_record" where
  "copied_record rec i k t = rec\<lparr>mr_Copied := Suc i, mr_Verified := Suc i,
     mr_VerifiedKeys := mr_VerifiedKeys rec @ [k], mr_UpdatedAt := t\<rparr>"

fun copy_objects :: "bool \<Rightarrow> store_id \<Rightarrow> store_id \<Rightarrow> nat \<Rightarrow> nat \<Rightarrow> migration_record \<Rightarrow> object_info list
    \<Rightarrow> 'a mig_st_scheme \<Rightarrow> (go_err + migration_record) \<times> 'a mig_st_scheme" where
  "copy_objects st src tgt resume i rec [] w = (Inr rec, w)"
| "copy_objects st src tgt resume i rec (ob # obs) w =
     (if skip_object rec resume i (oi_Key ob) then copy_objects st src tgt resume (Suc i) rec obs w
      else if failing w then (Inl ctx_canceled, drawn w)
      else (case copy_object src tgt (oi_Key ob) (drawn w) of
              (Inl e, w) \<Rightarrow> (Inl e, w)
            | (Inr _, w) \<Rightarrow>
                (case store_update st (copied_record rec i (oi_Key ob) (now w)) w of
                   (Inl e, w') \<Rightarrow> (Inl e, w')
                 | (Inr _, w') \<Rightarrow>
                     copy_objects st src tgt resume (Suc i)
                       (copied_record rec i (oi_Key ob) (now w)) obs w')))"

fun delete_source :: "bool \<Rightarrow> store_id \<Rightarrow> nat \<Rightarrow> migration_record \<Rightarrow> object_info list
    \<Rightarrow> 'a mig_st_scheme \<Rightarrow> (go_err + migration_record) \<times> 'a mig_st_scheme" where
  "delete_source st src i rec [] w = (Inr rec, w)"
| "delete_source st src i rec (ob # obs) w =
     (if failing w then (Inl ctx_canceled, drawn w)
      else (case retryMigration (DeleteObject src (oi_Key ob)) (drawn w) of
              (Inl e, w) \<Rightarrow> (Inl e, w)
            | (Inr _, w) \<Rightarrow>
                (case store_update st (rec\<lparr>mr_Deleted := Suc i, mr_UpdatedAt := now w\<rparr>) w of
                   (Inl e, w') \<Rightarrow> (Inl e, w')
                 | (Inr _, w') \<Rightarrow>
                     delete_source st src (Suc i) (rec\<lparr>mr_Deleted := Suc i, mr_UpdatedAt := now w\<rparr>)
                       obs w')))"

text \<open>The record a failure writes: only the identifier, the state and the text.\<close>

definition fail_record :: "nat \<Rightarrow> go_err \<Rightarrow> int \<Rightarrow> migration_record" where
  "fail_record i e t = \<lparr>mr_ID = i, mr_UserID = 0, mr_State = MigrationFailed, mr_Copied = 0,
     mr_Verified = 0, mr_Total = 0, mr_Deleted = 0, mr_LastError = err_text e,
     mr_VerifiedKeys = [], mr_UpdatedAt = t\<rparr>"

definition mig_fail :: "bool \<Rightarrow> nat \<Rightarrow> go_err \<Rightarrow> 'a mig_st_scheme \<Rightarrow> (go_err + unit) \<times> 'a mig_st_scheme" where
  "mig_fail st i e w =
     (Inl e, if st then snd (UpdateMigration (fail_record i e (now w)) w) else w)"

definition mig_lock_key :: "uid \<Rightarrow> string" where
  "mig_lock_key u = ''storage:migration:user:'' @ show_uid u"

text \<open>Progress of an earlier run: how far to resume and the keys it verified.\<close>

definition resume_state :: "bool \<Rightarrow> nat \<Rightarrow> nat \<Rightarrow> 'a mig_st_scheme \<Rightarrow> (nat \<times> string list) \<times> 'a mig_st_scheme" where
  "resume_state st i cnt w =
     (if \<not> st then ((0, []), w)
      else (case GetMigration i w of
              (Inl e, w) \<Rightarrow> ((0, []), w)
            | (Inr r, w) \<Rightarrow>
                ((if cnt < mr_Verified r then 0 else mr_Verified r, mr_VerifiedKeys r), w)))"

definition start_record :: "nat \<Rightarrow> uid \<Rightarrow> nat \<Rightarrow> string list \<Rightarrow> int \<Rightarrow> migration_record" where
  "start_record i u cnt keys t = \<lparr>mr_ID = i, mr_UserID = u, mr_State = MigrationRunning,
     mr_Copied = 0, mr_Verified = 0, mr_Total = cnt, mr_Deleted = 0, mr_LastError = [],
     mr_VerifiedKeys = keys, mr_UpdatedAt = t\<rparr>"

text \<open>The part of \<open>Run\<close> between taking and releasing the lock.\<close>

definition run_locked :: "'a mig_st_scheme migration_service \<Rightarrow> nat \<Rightarrow> uid \<Rightarrow> store_id \<Rightarrow> store_id
    \<Rightarrow> 'a mig_st_scheme \<Rightarrow> (go_err + unit) \<times> 'a mig_st_scheme" where
  "run_locked s i u src tgt w =
     (let st = ms_store s;
          (cancelled, w) = (if st then (case GetMigration i w of
                                          (Inr r, w) \<Rightarrow> (mr_State r = MigrationCancelled, w)
                                        | (Inl e, w) \<Rightarrow> (False, w))
                            else (False, w))
      in if cancelled then (Inl (Msg ''migration cancelled''), w)
         else (case ListObjects src (userPrefix u) 0 w of
           (Inl e, w) \<Rightarrow> mig_fail st i e w
         | (Inr obs, w) \<Rightarrow>
             let obs = sort_key oi_Key obs; t = now w;
                 ((resume, keys), w) = resume_state st i (length obs) w;
                 rec = start_record i u (length obs) keys t;
                 w = snd (store_update st rec w)
             in (case copy_objects st src tgt resume 0 rec obs w of
                   (Inl e, w) \<Rightarrow> mig_fail st i e w
                 | (Inr rec, w) \<Rightarrow>
                     (case (case ms_cutover s of None \<Rightarrow> (Inr (), w) | Some co \<Rightarrow> co u w) of
                        (Inl e, w) \<Rightarrow> mig_fail st i (Wrap ''backend cutover failed'' e) w
                      | (Inr _, w) \<Rightarrow>
                          (case delete_source st src 0 rec obs w of
                             (Inl e, w) \<Rightarrow> mig_fail st i e w
                           | (Inr rec, w) \<Rightarrow>
                               store_update st (rec\<lparr>mr_State := MigrationCompleted, mr_UpdatedAt := now w\<rparr>) w)))))"

definition leave_run :: "nat \<Rightarrow> 'a mig_st_scheme \<Rightarrow> 'a mig_st_scheme" where
  "leave_run i w = w\<lparr>mig_running := removeAll i (mig_running w)\<rparr>"

definition Run :: "'a mig_st_scheme migration_service option \<Rightarrow> nat \<Rightarrow> uid \<Rightarrow> store_id option
    \<Rightarrow> store_id option \<Rightarrow> string \<Rightarrow> 'a mig_st_scheme \<Rightarrow> (go_err + unit) \<times> 'a mig_st_scheme" where
  "Run so i u source target token w =
     (case (so, source, target) of
        (Some s, Some src, Some tgt) \<Rightarrow>
          if u = 0 then (Inl (Msg ''invalid migration''), w)
          else if List.member (mig_running w) i then (Inl (Msg ''migration already running''), w)
          else
            let w = w\<lparr>mig_running := i # mig_running w\<rparr>;
                (r, w) =
                  (if \<not> ms_locker s then run_locked s i u src tgt w
                   else (case TryLock (mig_lock_key u) token (30 * minute) w of
                           (Inl e, w) \<Rightarrow> mig_fail (ms_store s) i e w
                         | (Inr acquired, w) \<Rightarrow>
                             if \<not> acquired
                               then mig_fail (ms_store s) i (Msg ''another migration is running for user'') w
                             else (case run_locked s i u src tgt w of
                                     (r, w) \<Rightarrow> (r, snd (Unlock (mig_lock_key u) token w)))))
            in (r, leave_run i w)
      | _ \<Rightarrow> (Inl (Msg ''invalid migration''), w))"

definition StartWithTypes :: "'a mig_st_scheme migration_service option \<Rightarrow> uid \<Rightarrow> store_id option
    \<Rightarrow> store_id option \<Rightarrow> backend_type \<Rightarrow> backend_type \<Rightarrow> string \<Rightarrow> 'a mig_st_scheme
    \<Rightarrow> (go_err + migration_record) \<times> 'a mig_st_scheme" where
  "StartWithTypes so u source target st tt token w =
     (case so of
        None \<Rightarrow> (Inl (Msg ''migration store is not configured''), w)
      | Some s \<Rightarrow>
          if \<not> ms_store s then (Inl (Msg ''migration store is not configured''), w)
          else (case CreateMigration u st tt w of
                  (Inl e, w) \<Rightarrow> (Inl e, w)
                | (Inr rec, w) \<Rightarrow>
                    (case Run so (mr_ID rec) u source target token w of
                       (Inl e, w) \<Rightarrow> (Inl e, w)
                     | (Inr _, w) \<Rightarrow> GetMigration (mr_ID rec) w)))"

definition Start :: "'a mig_st_scheme migration_service option \<Rightarrow> uid \<Rightarrow> store_id option
    \<Rightarrow> store_id option \<Rightarrow> string \<Rightarrow> 'a mig_st_scheme
    \<Rightarrow> (go_err + migration_record) \<times> 'a mig_st_scheme" where
  "Start so u source target token w =
     StartWithTypes so u source target BackendInternal BackendExternal token w"

text \<open>The jobs of one pass; the first error is reported, the rest still run.\<close>

fun process_jobs :: "'a mig_st_scheme migration_service \<Rightarrow> (uid \<Rightarrow> 'a mig_st_scheme
    \<Rightarrow> (go_err + store_id \<times> store_id) \<times> 'a mig_st_scheme) \<Rightarrow> (nat \<Rightarrow> string) \<Rightarrow> migration_record list
    \<Rightarrow> go_err option \<Rightarrow> 'a mig_st_scheme \<Rightarrow> (go_err + unit) \<times> 'a mig_st_scheme" where
  "process_jobs s pair tok [] err w = ((case err of None \<Rightarrow> Inr () | Some e \<Rightarrow> Inl e), w)"
| "process_jobs s pair tok (j # js) err w =
     (case pair (mr_UserID j) w of
        (Inl e, w) \<Rightarrow> process_jobs s pair tok js (case err of None \<Rightarrow> Some e | Some x \<Rightarrow> Some x) w
      | (Inr (src, tgt), w) \<Rightarrow>
          (case Run (Some s) (mr_ID j) (mr_UserID j) (Some src) (Some tgt) (tok (mr_ID j)) w of
             (Inl e, w) \<Rightarrow> process_jobs s pair tok js (case err of None \<Rightarrow> Some e | Some x \<Rightarrow> Some x) w
           | (Inr _, w) \<Rightarrow> process_jobs s pair tok js err w))"

definition ProcessPending :: "'a mig_st_scheme migration_service option \<Rightarrow> (nat \<Rightarrow> string)
    \<Rightarrow> 'a mig_st_scheme \<Rightarrow> (go_err + unit) \<times> 'a mig_st_scheme" where
  "ProcessPending so tok w =
     (case so of
        Some s \<Rightarrow>
          (case (ms_store s, ms_pair s) of
             (True, Some pair) \<Rightarrow>
               (case ListPendingMigrations 10 w of
                  (Inl e, w) \<Rightarrow> (Inl e, w)
                | (Inr jobs, w) \<Rightarrow> process_jobs s pair tok jobs None w)
           | _ \<Rightarrow> (Inl (Msg ''migration processor is not configured''), w))
      | None \<Rightarrow> (Inl (Msg ''migration processor is not configured''), w))"

text \<open>\<open>CopyAndVerify\<close>: the data phase alone, without retries, locks or a job record.\<close>

fun copy_verify :: "store_id \<Rightarrow> store_id \<Rightarrow> migration_record \<Rightarrow> object_info list
    \<Rightarrow> 'a mig_st_scheme \<Rightarrow> (migration_record \<times> go_err option) \<times> 'a mig_st_scheme" where
  "copy_verify src tgt rec [] w =
     ((rec\<lparr>mr_State := MigrationCompleted, mr_UpdatedAt := now w\<rparr>, None), w)"
| "copy_verify src tgt rec (ob # obs) w =
     (let failed = (\<lambda>e. rec\<lparr>mr_State := MigrationFailed, mr_LastError := err_text e\<rparr>) in
      case GetObject src (oi_Key ob) w of
        (Inl e, w) \<Rightarrow> ((failed e, Some e), w)
      | (Inr (body, info), w) \<Rightarrow>
          if failing w
            then ((failed (Msg ''read: unexpected EOF''), Some (Msg ''read: unexpected EOF'')), drawn w)
          else
            let w = drawn w; payload = take (nat (maxMigrationObjectSize + 1)) body
            in if maxMigrationObjectSize < int (length payload)
               then ((failed (Msg ''object exceeds migration size limit''),
                      Some (Msg ''object exceeds migration size limit'')), w)
               else (case PutObject tgt (oi_Key ob) payload (oi_Size info) w of
                 (Inl e, w) \<Rightarrow> ((failed e, Some e), w)
               | (Inr _, w) \<Rightarrow>
                   (case StatObject tgt (oi_Key ob) w of
                      (Inl e, w) \<Rightarrow> ((failed e, Some e), w)
                    | (Inr check, w) \<Rightarrow>
                        if mismatch check info
                          then ((failed (verify_err (oi_Key ob)), Some (verify_err (oi_Key ob))), w)
                        else copy_verify src tgt (rec\<lparr>mr_Copied := Suc (mr_Copied rec),
                               mr_Verified := Suc (mr_Verified rec),
                               mr_VerifiedKeys := mr_VerifiedKeys rec @ [oi_Key ob]\<rparr>) obs w)))"

definition CopyAndVerify :: "nat \<Rightarrow> uid \<Rightarrow> store_id option \<Rightarrow> store_id option \<Rightarrow> 'a mig_st_scheme
    \<Rightarrow> (migration_record option \<times> go_err option) \<times> 'a mig_st_scheme" where
  "CopyAndVerify i u source target w =
     (case (source, target) of
        (Some src, Some tgt) \<Rightarrow>
          if u = 0 then ((None, Some (Msg ''invalid migration'')), w)
          else (case ListObjects src (userPrefix u) 0 w of
                  (Inl e, w) \<Rightarrow> ((None, Some e), w)
                | (Inr obs, w) \<Rightarrow>
                    (case copy_verify src tgt (start_record i u (length obs) [] (now w))
                            (sort_key oi_Key obs) w of
                       ((rec, e), w) \<Rightarrow> ((Some rec, e), w)))
      | _ \<Rightarrow> ((None, Some (Msg ''invalid migration'')), w))"

definition Cancel :: "'a mig_st_scheme migration_service option \<Rightarrow> nat \<Rightarrow> 'a mig_st_scheme
    \<Rightarrow> (go_err + unit) \<times> 'a mig_st_scheme" where
  "Cancel so i w =
     (case so of
        Some s \<Rightarrow>
          if \<not> ms_store s then (Inl (Msg ''migration store is not configured''), w)
          else if List.member (mig_running w) i
            then (Inl (Msg ''cannot cancel active migration without cancellation context''), w)
          else CancelMigration i w
      | None \<Rightarrow> (Inl (Msg ''migration store is not configured''), w))"

end
