(* ===== verification/Sessions.thy ===== *)
theory Sessions
  imports Migration
begin

text \<open>
  Temporary credentials: \<open>infrastructure/storage/session.go\<close> and the capability probe of
  \<open>sts_probe.go\<close>. The STS client of the S3 library is a parameter: \<open>sts_new\<close> is its constructor's
  check, \<open>sts_get\<close> the credentials it obtains. Random bytes of a session name are an argument.
\<close>

record sts_opts =
  so_Endpoint :: string
  so_AccessKey :: string
  so_SecretKey :: string
  so_Policy :: string
  so_Duration :: int
  so_RoleARN :: string
  so_SessionName :: string
  so_Location :: string

record sts_creds =
  cr_AccessKey :: string
  cr_SecretKey :: string
  cr_Token :: string

record sts =
  sts_new :: "sts_opts \<Rightarrow> go_err + unit"
  sts_get :: "sts_opts \<Rightarrow> go_err + sts_creds"

record session_service =
  se_internal :: string
  se_public :: string
  se_root_access :: string
  se_root_secret :: string
  se_bucket :: string
  se_location :: string
  se_cache :: bool

record storage_session =
  ss_Endpoint :: string
  ss_AccessKey :: string
  ss_SecretKey :: string
  ss_Token :: string
  ss_Bucket :: string
  ss_Prefix :: string
  ss_ExpiresAt :: int

definition quoted :: "string \<Rightarrow> string" where
  "quoted s = CHR 0x22 # s @ [CHR 0x22]"

text \<open>The policy text: listing under the prefix and reading, writing, deleting below it.\<close>

definition list_condition :: "string \<Rightarrow> string" where
  "list_condition prefix = ''{'' @ quoted ''StringLike'' @ '':{'' @ quoted ''s3:prefix'' @ '':[''
     @ quoted (prefix @ ''*'') @ '']}}''"

definition session_policy :: "string \<Rightarrow> string \<Rightarrow> string" where
  "session_policy bucket prefix =
     ''{'' @ quoted ''Version'' @ '':'' @ quoted ''2012-10-17'' @ '','' @ quoted ''Statement'' @ '':[''
     @ ''{'' @ quoted ''Effect'' @ '':'' @ quoted ''Allow'' @ '','' @ quoted ''Action'' @ '':[''
     @ quoted ''s3:ListBucket'' @ ''],'' @ quoted ''Resource'' @ '':['' @ quoted (''arn:aws:s3:::'' @ bucket)
     @ ''],'' @ quoted ''Condition'' @ '':'' @ list_condition prefix @ ''},''
     @ ''{'' @ quoted ''Effect'' @ '':'' @ quoted ''Allow'' @ '','' @ quoted ''Action'' @ '':[''
     @ quoted ''s3:GetObject'' @ '','' @ quoted ''s3:PutObject'' @ '','' @ quoted ''s3:DeleteObject''
     @ ''],'' @ quoted ''Resource'' @ '':['' @ quoted (''arn:aws:s3:::'' @ bucket @ ''/'' @ prefix @ ''*'')
     @ '']}]}''"

definition session_ttl :: "int \<Rightarrow> int" where
  "session_ttl ttl = (if ttl \<le> 0 \<or> 24 * hour < ttl then hour else ttl)"

definition session_seconds :: "int \<Rightarrow> int" where
  "session_seconds ttl = (let s = session_ttl ttl div second in if s < 900 then 900 else s)"

definition CreateSession :: "sts \<Rightarrow> session_service option \<Rightarrow> uid \<Rightarrow> int \<Rightarrow> string
    \<Rightarrow> 'a cache_st_scheme \<Rightarrow> (go_err + storage_session) \<times> 'a cache_st_scheme" where
  "CreateSession x so u ttl rnd w =
     (case so of
        None \<Rightarrow> (Inl (Msg ''STS is not configured''), w)
      | Some s \<Rightarrow>
          if se_root_access s = [] \<or> se_root_secret s = [] then (Inl (Msg ''STS is not configured''), w)
          else if u = 0 then (Inl (Msg ''invalid user ID''), w)
          else
            let prefix = userPrefix u;
                name = ''session-'' @ rnd;
                opts = \<lparr>so_Endpoint = se_internal s, so_AccessKey = se_root_access s,
                  so_SecretKey = se_root_secret s, so_Policy = session_policy (se_bucket s) prefix,
                  so_Duration = session_seconds ttl, so_RoleARN = ''assumeRole'',
                  so_SessionName = name, so_Location = se_location s\<rparr>
            in (case sts_new x opts of
                  Inl e \<Rightarrow> (Inl (Wrap ''STS assume role'' e), w)
                | Inr _ \<Rightarrow>
                    if failing w then (Inl (Wrap ''STS get credentials'' (Msg ''request failed'')), drawn w)
                    else let w = drawn w in
                    (case sts_get x opts of
                       Inl e \<Rightarrow> (Inl (Wrap ''STS get credentials'' e), w)
                     | Inr c \<Rightarrow>
                         let expires = now w + session_ttl ttl;
                             w = (if se_cache s
                                  then snd (SaveSessionMeta True name \<lparr>sm_UserID = u, sm_Prefix = prefix,
                                         sm_Bucket = se_bucket s, sm_ExpiresAt = expires\<rparr> (session_ttl ttl) w)
                                  else w)
                         in (Inr \<lparr>ss_Endpoint = se_public s, ss_AccessKey = cr_AccessKey c,
                               ss_SecretKey = cr_SecretKey c, ss_Token = cr_Token c,
                               ss_Bucket = se_bucket s, ss_Prefix = prefix, ss_ExpiresAt = expires\<rparr>, w))))"

definition CreateExternalSession :: "sts \<Rightarrow> string \<Rightarrow> string \<Rightarrow> string \<Rightarrow> string \<Rightarrow> string \<Rightarrow> uid \<Rightarrow> int
    \<Rightarrow> string \<Rightarrow> 'a cache_st_scheme \<Rightarrow> (go_err + storage_session) \<times> 'a cache_st_scheme" where
  "CreateExternalSession x ep ak sk bucket region u ttl rnd w =
     CreateSession x (Some \<lparr>se_internal = ep, se_public = ep, se_root_access = ak, se_root_secret = sk,
       se_bucket = bucket, se_location = region, se_cache = False\<rparr>) u ttl rnd w"

definition probe_policy :: "string \<Rightarrow> string" where
  "probe_policy bucket =
     ''{'' @ quoted ''Version'' @ '':'' @ quoted ''2012-10-17'' @ '','' @ quoted ''Statement'' @ '':[{''
     @ quoted ''Effect'' @ '':'' @ quoted ''Allow'' @ '','' @ quoted ''Action'' @ '':['' @ quoted ''s3:ListBucket''
     @ ''],'' @ quoted ''Resource'' @ '':['' @ quoted (''arn:aws:s3:::'' @ bucket) @ '']}]}''"

definition ProbeSTSCapability :: "sts \<Rightarrow> string \<Rightarrow> string \<Rightarrow> string \<Rightarrow> string \<Rightarrow> string
    \<Rightarrow> 'a env_scheme \<Rightarrow> (go_err option \<times> bool) \<times> 'a env_scheme" where
  "ProbeSTSCapability x ep ak sk bucket region w =
     (if ep = [] \<or> ak = [] \<or> sk = [] \<or> bucket = []
      then ((Some (Msg ''incomplete S3 STS probe configuration''), False), w)
      else
        let opts = \<lparr>so_Endpoint = ep, so_AccessKey = ak, so_SecretKey = sk, so_Policy = probe_policy bucket,
              so_Duration = 900, so_RoleARN = ''assumeRole'', so_SessionName = ''airorc-sts-probe'',
              so_Location = region\<rparr>
        in (case sts_new x opts of
              Inl e \<Rightarrow> ((Some e, False), w)
            | Inr _ \<Rightarrow>
                if failing w then ((Some (Msg ''request failed''), False), drawn w)
                else (case sts_get x opts of
                        Inl e \<Rightarrow> ((Some e, False), drawn w)
                      | Inr _ \<Rightarrow> ((None, True), drawn w))))"

section \<open>Lifetime and scope\<close>

lemma session_ttl_bounds: "0 < session_ttl ttl \<and> session_ttl ttl \<le> 24 * hour"
  by (simp add: session_ttl_def hour_def minute_def second_def)

lemma session_seconds_bounds: "900 \<le> session_seconds ttl \<and> session_seconds ttl \<le> 24 * 3600"
proof -
  have "session_ttl ttl div second \<le> (24 * hour) div second"
    using session_ttl_bounds by (intro zdiv_mono1) (simp_all add: second_def)
  then show ?thesis by (simp add: session_seconds_def Let_def hour_def minute_def second_def)
qed

end
