(* ===== verification/Http.thy ===== *)
theory Http
  imports Prelude
begin

text \<open>
  The HTTP layer's data: JSON bodies, responses, and what a gin context holds for a handler (the
  values middleware has set, query and path parameters). A handler maps a request and the state to a
  response and the new state. The decimal parsers of \<open>strconv\<close> and \<open>fmt\<close> the handlers use are here.
\<close>

section \<open>Responses\<close>

datatype json = JNull | JBool bool | JInt int | JStr string | JTime int
  | JList "json list" | JObj "(string \<times> json) list"

record response =
  rs_status :: nat
  rs_body :: json

type_synonym 'w handled = "response \<times> 'w"

definition reply :: "nat \<Rightarrow> (string \<times> json) list \<Rightarrow> 'w \<Rightarrow> 'w handled" where
  "reply code fs w = (\<lparr>rs_status = code, rs_body = JObj fs\<rparr>, w)"

definition reply_status :: "nat \<Rightarrow> 'w \<Rightarrow> 'w handled" where
  "reply_status code w = (\<lparr>rs_status = code, rs_body = JNull\<rparr>, w)"

definition reply_error :: "nat \<Rightarrow> string \<Rightarrow> 'w \<Rightarrow> 'w handled" where
  "reply_error code msg w = reply code [(''error'', JStr msg)] w"

definition status :: "'w handled \<Rightarrow> nat" where
  "status h = rs_status (fst h)"

definition field :: "string \<Rightarrow> 'w handled \<Rightarrow> json option" where
  "field name h = (case rs_body (fst h) of JObj fs \<Rightarrow> map_of fs name | _ \<Rightarrow> None)"

lemma reply_simps [simp]:
  "status (reply c fs w) = c" "snd (reply c fs w) = w" "field n (reply c fs w) = map_of fs n"
  "status (reply_status c w) = c" "snd (reply_status c w) = w" "field n (reply_status c w) = None"
  "status (reply_error c m w) = c" "snd (reply_error c m w) = w"
  by (simp_all add: status_def field_def reply_def reply_status_def reply_error_def)

section \<open>Requests\<close>

text \<open>A value in the gin context: an untyped Go value, of which the code asks for three types.\<close>

datatype ctx_val = CtxU32 "32 word" | CtxU64 "64 word" | CtxStr string | CtxOther

record gin =
  g_keys :: "(string \<times> ctx_val) list"
  g_query :: "(string \<times> string) list"
  g_param :: "(string \<times> string) list"

definition Query :: "gin \<Rightarrow> string \<Rightarrow> string" where
  "Query c k = (case map_of (g_query c) k of None \<Rightarrow> [] | Some v \<Rightarrow> v)"

definition Param :: "gin \<Rightarrow> string \<Rightarrow> string" where
  "Param c k = (case map_of (g_param c) k of None \<Rightarrow> [] | Some v \<Rightarrow> v)"

text \<open>\<open>getUserID\<close>: the identity a middleware has put into the context; \<open>None\<close> after writing 401.\<close>

definition getUserID :: "gin \<Rightarrow> uid option" where
  "getUserID c =
     (case (case map_of (g_keys c) ''userId'' of Some v \<Rightarrow> Some v | None \<Rightarrow> map_of (g_keys c) ''user_id'') of
        Some (CtxU32 u) \<Rightarrow> if u = 0 then None else Some u
      | _ \<Rightarrow> None)"

text \<open>\<open>getRespId\<close> likewise.\<close>

definition getRespId :: "gin \<Rightarrow> u64 option" where
  "getRespId c =
     (case map_of (g_keys c) ''respId'' of
        Some (CtxU64 r) \<Rightarrow> if r = 0 then None else Some r
      | _ \<Rightarrow> None)"

definition unauthorized :: "'w \<Rightarrow> 'w handled" where
  "unauthorized w = reply_error 401 ''unauthorized'' w"

lemma getUserID_nonzero: "getUserID c = Some u \<Longrightarrow> u \<noteq> 0"
  by (auto simp: getUserID_def split: option.splits ctx_val.splits if_splits)

lemma unauthorized_simps [simp]: "status (unauthorized w) = 401" "snd (unauthorized w) = w"
  by (simp_all add: unauthorized_def)

section \<open>Numbers\<close>

definition digits :: "string \<Rightarrow> nat option" where
  "digits s = (if s \<noteq> [] \<and> list_all is_digit s then Some (read_nat s) else None)"

text \<open>\<open>strconv.ParseUint(s, 10, 64)\<close> and \<open>strconv.Atoi\<close> on a 64-bit platform.\<close>

definition ParseUint :: "string \<Rightarrow> nat option" where
  "ParseUint s = (case digits s of Some n \<Rightarrow> if n < 2 ^ 64 then Some n else None | None \<Rightarrow> None)"

definition int64_of :: "bool \<Rightarrow> nat option \<Rightarrow> int option" where
  "int64_of neg d =
     (case d of
        None \<Rightarrow> None
      | Some n \<Rightarrow> if neg then (if n \<le> 2 ^ 63 then Some (- int n) else None)
                  else (if n < 2 ^ 63 then Some (int n) else None))"

fun Atoi :: "string \<Rightarrow> int option" where
  "Atoi [] = None"
| "Atoi (c # s) = (if c = CHR ''-'' then int64_of True (digits s)
                   else if c = CHR ''+'' then int64_of False (digits s)
                   else int64_of False (digits (c # s)))"

text \<open>
  \<open>fmt.Sscanf(s, "%d", &n)\<close>: leading blanks other than a newline are skipped, the longest run of
  digits is read, and whatever follows is ignored.
\<close>

definition blanks :: "string list" where
  "blanks = filter (\<lambda>e. e \<noteq> [char_of (10 :: nat)]) space_encodings"

definition Sscanf_d :: "string \<Rightarrow> int option" where
  "Sscanf_d s =
     (let t = trim_left_fuel (length s) blanks s;
          neg = HasPrefix t ''-'';
          body = (if neg \<or> HasPrefix t ''+'' then drop 1 t else t)
      in int64_of neg (digits (takeWhile is_digit body)))"

lemma ParseUint_bound: "ParseUint s = Some n \<Longrightarrow> n < 2 ^ 64"
  by (auto simp: ParseUint_def split: option.splits if_splits)

end
