(* ===== verification/StorageWeb.thy ===== *)
theory StorageWeb
  imports Sessions Http
begin

text \<open>
  The storage endpoints of \<open>delivery/http/storage.go\<close>, and \<open>DeleteUserS3Directory\<close> of
  \<open>delivery/http/userdata.go\<close>. A request's body is \<open>None\<close> when binding fails. Of the surroundings, the
  STS client, the HTTP HEAD probe and name-based UUIDs are parameters; random identifiers are arguments.
  Every store the factory yields is a MinIO client, which can sign uploads. Logging and counters are not
  modelled.
\<close>

record 'w web_storage =
  ws_ext :: ext
  ws_factory :: "factory option"
  ws_sessions :: "session_service option"
  ws_reservations :: "rsvc option"
  ws_migrations :: "'w migration_service option"
  ws_exam :: bool
  ws_sts :: sts
  ws_head :: "string \<Rightarrow> nat option"
  ws_uuid5 :: "string \<Rightarrow> string"

definition cfg_of :: "('w, 'x) web_storage_scheme \<Rightarrow> uid \<Rightarrow> 'a cfg_st_scheme \<Rightarrow> (go_err + backend_config) \<times> 'a cfg_st_scheme" where
  "cfg_of s u w = StorageConfig (x_fc (ws_ext s)) (x_mkr (ws_ext s)) u w"

definition type_json :: "backend_type \<Rightarrow> json" where
  "type_json t = JStr (case t of NoType \<Rightarrow> [] | BackendInternal \<Rightarrow> ''internal_minio''
     | BackendExternal \<Rightarrow> ''external_s3'' | OtherType s \<Rightarrow> s)"

section \<open>Configuration\<close>

definition GetStorageConfig :: "('w, 'x) web_storage_scheme \<Rightarrow> gin \<Rightarrow> 'a cfg_st_scheme \<Rightarrow> 'a cfg_st_scheme handled" where
  "GetStorageConfig s c w =
     (case getUserID c of None \<Rightarrow> unauthorized w
      | Some u \<Rightarrow>
          (case cfg_of s u w of
             (Inl e, w) \<Rightarrow> reply_error 500 ''failed to load storage config'' w
           | (Inr cfg, w) \<Rightarrow> reply 200 [(''storage_type'', type_json (bc_Type cfg)),
               (''endpoint'', JStr (bc_Endpoint cfg)), (''bucket'', JStr (bc_Bucket cfg)),
               (''region'', JStr (bc_Region cfg))] w))"

definition session_fields :: "backend_config \<Rightarrow> storage_session \<Rightarrow> (string \<times> json) list \<Rightarrow> int \<Rightarrow> (string \<times> json) list" where
  "session_fields cfg ss extra t =
     [(''mode'', JStr ''sts''), (''storage_type'', type_json (bc_Type cfg)),
      (''endpoint'', JStr (ss_Endpoint ss)), (''bucket'', JStr (ss_Bucket ss)), (''prefix'', JStr (ss_Prefix ss))]
     @ extra @
     [(''access_key'', JStr (ss_AccessKey ss)), (''secret_key'', JStr (ss_SecretKey ss)),
      (''session_token'', JStr (ss_Token ss)), (''expires_in'', JInt ((ss_ExpiresAt ss - t) div second))]"

definition presigned_session :: "uid \<Rightarrow> backend_config \<Rightarrow> 'w \<Rightarrow> 'w handled" where
  "presigned_session u cfg w =
     reply 200 [(''mode'', JStr ''presigned''), (''storage_type'', type_json (bc_Type cfg)),
       (''bucket'', JStr (bc_Bucket cfg)), (''prefix'', JStr (userPrefix u)), (''expires_in'', JInt 900)] w"

definition CreateStorageSession :: "('w, 'x) web_storage_scheme \<Rightarrow> gin \<Rightarrow> string \<Rightarrow> 'a cfg_st_scheme \<Rightarrow> 'a cfg_st_scheme handled" where
  "CreateStorageSession s c rnd w =
     (case getUserID c of None \<Rightarrow> unauthorized w
      | Some u \<Rightarrow>
          (case cfg_of s u w of
             (Inl e, w) \<Rightarrow> reply_error 500 ''failed to load storage config'' w
           | (Inr cfg, w) \<Rightarrow>
               if bc_Type cfg = BackendInternal \<and> ws_sessions s \<noteq> None
               then (case CreateSession (ws_sts s) (ws_sessions s) u hour rnd w of
                       (Inl e, w) \<Rightarrow> reply_error 503 ''failed to create storage session'' w
                     | (Inr ss, w) \<Rightarrow> reply 200 (session_fields cfg ss [] (now w)) w)
               else if bc_Type cfg = BackendExternal \<and> ws_exam s \<and> bc_STS cfg
               then (case CreateExternalSession (ws_sts s) (bc_Endpoint cfg) (bc_AccessKey cfg)
                            (bc_SecretKey cfg) (bc_Bucket cfg) (bc_Region cfg) u hour rnd w of
                       (Inl e, w) \<Rightarrow> presigned_session u cfg w
                     | (Inr ss, w) \<Rightarrow>
                         reply 200 (session_fields cfg ss [(''region'', JStr (bc_Region cfg))] (now w)) w)
               else presigned_session u cfg w))"

record external_req =
  er_Endpoint :: string
  er_Bucket :: string
  er_Region :: string
  er_AccessKey :: string
  er_SecretKey :: string

definition bad_external_req :: "external_req option \<Rightarrow> bool" where
  "bad_external_req b = (case b of None \<Rightarrow> True
     | Some r \<Rightarrow> TrimSpace (er_Endpoint r) = [] \<or> TrimSpace (er_Bucket r) = []
         \<or> er_AccessKey r = [] \<or> er_SecretKey r = [])"

definition PutExternalStorageConfig :: "('w, 'x) web_storage_scheme \<Rightarrow> gin \<Rightarrow> external_req option
    \<Rightarrow> 'a cfg_st_scheme \<Rightarrow> 'a cfg_st_scheme handled" where
  "PutExternalStorageConfig s c body w =
     (case getUserID c of None \<Rightarrow> unauthorized w
      | Some u \<Rightarrow>
          if bad_external_req body
            then reply_error 400 ''endpoint, bucket, access_key and secret_key are required'' w
          else let r = the body in
          (case ValidateExternalEndpoint (x_dns (ws_ext s)) (er_Endpoint r) True of
             Inl e \<Rightarrow> reply_error 400 (err_text e) w
           | Inr _ \<Rightarrow>
               (case ValidateBucketName (er_Bucket r) of
                  Inl e \<Rightarrow> reply_error 400 (err_text e) w
                | Inr _ \<Rightarrow>
                    (case ProbeSTSCapability (ws_sts s) (er_Endpoint r) (er_AccessKey r) (er_SecretKey r)
                            (er_Bucket r) (er_Region r) w of
                       ((_, supported), w) \<Rightarrow>
                         (case SaveStorageConfig (x_fc (ws_ext s)) (x_mkr (ws_ext s))
                                 \<lparr>bc_UserID = u, bc_Type = BackendExternal, bc_Endpoint = er_Endpoint r,
                                  bc_Bucket = er_Bucket r, bc_Region = er_Region r,
                                  bc_AccessKey = er_AccessKey r, bc_SecretKey = er_SecretKey r,
                                  bc_STS = supported\<rparr> w of
                            (Inl e, w) \<Rightarrow> reply_error 500 ''failed to save storage config'' w
                          | (Inr _, w) \<Rightarrow> reply 200 [(''storage_type'', type_json BackendExternal),
                              (''sts_supported'', JBool supported)] w)))))"

definition probe_cache :: "rsvc option \<Rightarrow> bool" where
  "probe_cache r = (case r of None \<Rightarrow> False | Some c \<Rightarrow> s_cache c)"

definition remember_check :: "('w, 'x) web_storage_scheme \<Rightarrow> string \<Rightarrow> bool \<Rightarrow> 'a cache_st_scheme \<Rightarrow> 'a cache_st_scheme" where
  "remember_check s ep ok w =
     (if probe_cache (ws_reservations s) then snd (CacheConnectionCheck True ep ok w) else w)"

definition probe_endpoint :: "('w, 'x) web_storage_scheme \<Rightarrow> string \<Rightarrow> 'a cache_st_scheme \<Rightarrow> 'a cache_st_scheme handled" where
  "probe_endpoint s ep w =
     (case (if failing w then None else ws_head s ep) of
        None \<Rightarrow> reply 502 [(''ok'', JBool False), (''error'', JStr ''endpoint is unreachable'')]
                 (remember_check s ep False (drawn w))
      | Some code \<Rightarrow>
          if 500 \<le> code
            then reply 502 [(''ok'', JBool False), (''status'', JInt (int code))]
                   (remember_check s ep False (drawn w))
          else reply 200 [(''ok'', JBool True), (''status'', JInt (int code))]
                 (remember_check s ep True (drawn w)))"

definition TestExternalStorageConfig :: "('w, 'x) web_storage_scheme \<Rightarrow> string option
    \<Rightarrow> 'a cache_st_scheme \<Rightarrow> 'a cache_st_scheme handled" where
  "TestExternalStorageConfig s body w =
     (case body of
        None \<Rightarrow> reply_error 400 ''endpoint is required'' w
      | Some ep \<Rightarrow>
          if ep = [] then reply_error 400 ''endpoint is required'' w
          else (case ValidateExternalEndpoint (x_dns (ws_ext s)) ep True of
             Inl e \<Rightarrow> reply_error 400 (err_text e) w
           | Inr _ \<Rightarrow>
               (case (if probe_cache (ws_reservations s) then LoadConnectionCheck True ep w else ((False, False), w)) of
                  ((ok, cached), w) \<Rightarrow>
                    if cached
                    then (if ok then reply 200 [(''ok'', JBool True), (''cached'', JBool True)] w
                          else reply 502 [(''ok'', JBool False), (''error'', JStr ''endpoint is unreachable''),
                                 (''cached'', JBool True)] w)
                    else probe_endpoint s ep w)))"

definition internal_config :: "uid \<Rightarrow> backend_config" where
  "internal_config u = \<lparr>bc_UserID = u, bc_Type = BackendInternal, bc_Endpoint = [], bc_Bucket = [],
     bc_Region = [], bc_AccessKey = [], bc_SecretKey = [], bc_STS = False\<rparr>"

definition SwitchToInternalStorage :: "('w, 'x) web_storage_scheme \<Rightarrow> gin \<Rightarrow> 'a cfg_st_scheme \<Rightarrow> 'a cfg_st_scheme handled" where
  "SwitchToInternalStorage s c w =
     (case getUserID c of None \<Rightarrow> unauthorized w
      | Some u \<Rightarrow>
          (case SaveStorageConfig (x_fc (ws_ext s)) (x_mkr (ws_ext s)) (internal_config u) w of
             (Inl e, w) \<Rightarrow> reply_error 500 ''failed to switch storage'' w
           | (Inr _, w) \<Rightarrow> reply_status 204 w))"

section \<open>Quota\<close>

definition availableQuota :: "u64 \<Rightarrow> u64 \<Rightarrow> u64 \<Rightarrow> u64" where
  "availableQuota quota used reserved =
     (if quota = 0 \<or> quota \<le> used \<or> quota - used \<le> reserved then 0 else quota - used - reserved)"

definition GetStorageQuota :: "gin \<Rightarrow> 'a quota_st_scheme \<Rightarrow> 'a quota_st_scheme handled" where
  "GetStorageQuota c w =
     (case getUserID c of None \<Rightarrow> unauthorized w
      | Some u \<Rightarrow>
          (case StorageQuota u w of
             (Inl e, w) \<Rightarrow> reply_error 404 ''storage quota is not initialized'' w
           | (Inr (quota, used, reserved), w) \<Rightarrow>
               reply 200 [(''quota_bytes'', JInt (uint quota)), (''used_bytes'', JInt (uint used)),
                 (''reserved_bytes'', JInt (uint reserved)),
                 (''available_bytes'', JInt (uint (availableQuota quota used reserved)))] w))"

section \<open>Uploads\<close>

definition reserveStorage :: "rsvc option \<Rightarrow> uid \<Rightarrow> string \<Rightarrow> int \<Rightarrow> string \<Rightarrow> string \<Rightarrow> string
    \<Rightarrow> 'a resv_st_scheme \<Rightarrow> (go_err + string \<times> string) \<times> 'a resv_st_scheme" where
  "reserveStorage svc u key sz requested rid fresh w =
     (case svc of
        None \<Rightarrow> (Inl (Msg ''reservation service is unavailable''), w)
      | Some _ \<Rightarrow> ReserveWithIdempotency svc u key sz requested (15 * minute) rid fresh w)"

definition releaseReservation :: "rsvc option \<Rightarrow> string \<Rightarrow> 'a resv_st_scheme \<Rightarrow> 'a resv_st_scheme" where
  "releaseReservation svc rid w =
     (case svc of None \<Rightarrow> w | Some _ \<Rightarrow> snd (Release svc rid w))"

record upload_req =
  ur_FileName :: string
  ur_Size :: int
  ur_IdempotencyKey :: string

definition bad_file_name :: "upload_req option \<Rightarrow> bool" where
  "bad_file_name b = (case b of None \<Rightarrow> True
     | Some r \<Rightarrow> TrimSpace (ur_FileName r) = [] \<or> ur_FileName r \<noteq> filepath_Base (ur_FileName r)
         \<or> ContainsAny (ur_FileName r) name_breakers)"

definition upload_object_id :: "('w, 'x) web_storage_scheme \<Rightarrow> uid \<Rightarrow> upload_req \<Rightarrow> string \<Rightarrow> string" where
  "upload_object_id s u r fresh =
     (if ur_IdempotencyKey r \<noteq> []
      then ws_uuid5 s (show_uid u @ '':'' @ ur_IdempotencyKey r @ '':'' @ ur_FileName r)
      else fresh)"

definition upload_key :: "('w, 'x) web_storage_scheme \<Rightarrow> uid \<Rightarrow> upload_req \<Rightarrow> string \<Rightarrow> string" where
  "upload_key s u r fresh =
     userPrefix u @ upload_object_id s u r fresh @ ''-'' @ filepath_Base (ur_FileName r)"

text \<open>The part after the checks of the request: resolve, reserve, sign.\<close>

definition presigned_upload :: "('w, 'x) web_storage_scheme \<Rightarrow> uid \<Rightarrow> upload_req \<Rightarrow> string \<Rightarrow> string \<Rightarrow> string
    \<Rightarrow> 'a cfg_st_scheme \<Rightarrow> 'a cfg_st_scheme handled" where
  "presigned_upload s u r oid rid ikey w =
     (case Resolve (ws_ext s) (ws_factory s) u w of
        (Inl e, w) \<Rightarrow> reply_error 423 (err_text e) w
      | (Inr backend, w) \<Rightarrow>
          let key = upload_key s u r oid in
          (case reserveStorage (ws_reservations s) u key (ur_Size r) (ur_IdempotencyKey r) rid ikey w of
             (Inl e, w) \<Rightarrow>
               if Contains (err_text e) ''degraded'' then reply_error 503 (''storage is degraded '' @ em_dash @ '' try again later'') w
               else reply_error 413 ''storage quota exceeded'' w
           | (Inr (resid, rkey), w) \<Rightarrow>
               (case PresignedPutURL backend key (15 * minute) w of
                  (Inl e, w) \<Rightarrow>
                    reply_error 502 ''failed to create upload URL''
                      (releaseReservation (ws_reservations s) resid w)
                | (Inr url, w) \<Rightarrow>
                    reply 200 [(''key'', JStr key), (''url'', JStr url), (''expires_in'', JInt 900),
                      (''reservation_id'', JStr resid), (''idempotency_key'', JStr rkey),
                      (''reserved_size'', JInt (ur_Size r))] w)))"

definition CreatePresignedUpload :: "('w, 'x) web_storage_scheme \<Rightarrow> gin \<Rightarrow> upload_req option \<Rightarrow> string \<Rightarrow> string \<Rightarrow> string
    \<Rightarrow> 'a cfg_st_scheme \<Rightarrow> 'a cfg_st_scheme handled" where
  "CreatePresignedUpload s c body oid rid ikey w =
     (case getUserID c of None \<Rightarrow> unauthorized w
      | Some u \<Rightarrow>
          if bad_file_name body then reply_error 400 ''invalid file_name'' w
          else let r = the body in
          if 255 < length (ur_FileName r) then reply_error 400 ''file_name is too long'' w
          else if ur_Size r \<le> 0 then reply_error 400 ''size must be positive'' w
          else if ws_factory s = None then reply_error 503 ''storage is not configured'' w
          else if ws_reservations s \<noteq> None \<and> \<not> Healthy (ws_reservations s) w
            then reply_error 503 (''storage is degraded '' @ em_dash @ '' reservation unavailable'') w
          else presigned_upload s u r oid rid ikey w)"

record commit_req =
  cm_Key :: string
  cm_ReservationID :: string

definition bad_commit_key :: "uid \<Rightarrow> commit_req option \<Rightarrow> bool" where
  "bad_commit_key u b = (case b of None \<Rightarrow> True
     | Some r \<Rightarrow> \<not> HasPrefix (cm_Key r) (userPrefix u) \<or> ContainsAny (cm_Key r) key_breakers)"

definition commit_quota :: "rsvc option \<Rightarrow> uid \<Rightarrow> string \<Rightarrow> object_info \<Rightarrow> 'a resv_st_scheme
    \<Rightarrow> (go_err + unit) \<times> 'a resv_st_scheme" where
  "commit_quota svc u rid info w =
     (if rid \<noteq> [] \<and> svc \<noteq> None then Commit svc rid w else CommitStorage u (oi_Size info) w)"

definition info_fields :: "object_info \<Rightarrow> (string \<times> json) list" where
  "info_fields i = [(''key'', JStr (oi_Key i)), (''size'', JInt (oi_Size i)), (''etag'', JStr (oi_ETag i)),
     (''modified_at'', JTime (oi_Modified i))]"

definition CommitStorageUpload :: "('w, 'x) web_storage_scheme \<Rightarrow> gin \<Rightarrow> commit_req option
    \<Rightarrow> 'a cfg_st_scheme \<Rightarrow> 'a cfg_st_scheme handled" where
  "CommitStorageUpload s c body w =
     (case getUserID c of None \<Rightarrow> unauthorized w
      | Some u \<Rightarrow>
          if bad_commit_key u body then reply_error 400 ''invalid key'' w
          else let r = the body in
          if ws_factory s = None then reply_error 503 ''storage is not configured'' w
          else (case Resolve (ws_ext s) (ws_factory s) u w of
             (Inl e, w) \<Rightarrow> reply_error 423 (err_text e) w
           | (Inr backend, w) \<Rightarrow>
               (case StatObject backend (cm_Key r) w of
                  (Inl e, w) \<Rightarrow> reply_error 404 ''uploaded object not found'' w
                | (Inr info, w) \<Rightarrow>
                    (case commit_quota (ws_reservations s) u (cm_ReservationID r) info w of
                       (Inl e, w) \<Rightarrow> reply_error 409 ''upload reservation is invalid'' w
                     | (Inr _, w) \<Rightarrow> reply 200 (info_fields info) w))))"

section \<open>Objects\<close>

fun listed_objects :: "store_id \<Rightarrow> object_info list \<Rightarrow> 'a obj_st_scheme \<Rightarrow> json list \<times> 'a obj_st_scheme" where
  "listed_objects sid [] w = ([], w)"
| "listed_objects sid (i # is) w =
     (case PresignedGetURL sid (oi_Key i) (15 * minute) w of
        (r, w) \<Rightarrow>
          (case listed_objects sid is w of
             (js, w) \<Rightarrow>
               (JObj (info_fields i @ [(''url'', JStr (case r of Inl _ \<Rightarrow> [] | Inr url \<Rightarrow> url))]) # js, w)))"

text \<open>The limit: absent is 0, otherwise a number from 1 to 1000.\<close>

definition list_limit :: "gin \<Rightarrow> int option" where
  "list_limit c =
     (if Query c ''limit'' = [] then Some 0
      else (case Sscanf_d (Query c ''limit'') of
              None \<Rightarrow> None
            | Some n \<Rightarrow> if n < 1 \<or> 1000 < n then None else Some n))"

definition ListStorageObjects :: "('w, 'x) web_storage_scheme \<Rightarrow> gin \<Rightarrow> 'a cfg_st_scheme \<Rightarrow> 'a cfg_st_scheme handled" where
  "ListStorageObjects s c w =
     (case getUserID c of None \<Rightarrow> unauthorized w
      | Some u \<Rightarrow>
          if ws_factory s = None then reply_error 503 ''storage is not configured'' w
          else (case list_limit c of
             None \<Rightarrow> reply_error 400 ''limit must be between 1 and 1000'' w
           | Some limit \<Rightarrow>
               (case Resolve (ws_ext s) (ws_factory s) u w of
                  (Inl e, w) \<Rightarrow> reply_error 423 (err_text e) w
                | (Inr backend, w) \<Rightarrow>
                    (case ListObjects backend (userPrefix u) limit w of
                       (Inl e, w) \<Rightarrow> reply_error 502 ''failed to list objects'' w
                     | (Inr objs, w) \<Rightarrow>
                         (case listed_objects backend objs w of
                            (js, w) \<Rightarrow> reply 200 [(''objects'', JList js)] w)))))"

definition DeleteStorageObject :: "('w, 'x) web_storage_scheme \<Rightarrow> gin \<Rightarrow> 'a cfg_st_scheme \<Rightarrow> 'a cfg_st_scheme handled" where
  "DeleteStorageObject s c w =
     (case getUserID c of None \<Rightarrow> unauthorized w
      | Some u \<Rightarrow>
          if \<not> validStorageKey u (Query c ''key'') then reply_error 400 ''invalid key'' w
          else if ws_factory s = None then reply_error 503 ''storage is not configured'' w
          else (case Resolve (ws_ext s) (ws_factory s) u w of
             (Inl e, w) \<Rightarrow> reply_error 423 (err_text e) w
           | (Inr backend, w) \<Rightarrow>
               (case DeleteObject backend (Query c ''key'') w of
                  (Inl e, w) \<Rightarrow> reply_error 404 ''object not found'' w
                | (Inr _, w) \<Rightarrow> reply_status 204 w)))"

fun delete_listed :: "store_id \<Rightarrow> uid \<Rightarrow> object_info list \<Rightarrow> nat \<Rightarrow> 'a obj_st_scheme
    \<Rightarrow> (bool \<times> nat) \<times> 'a obj_st_scheme" where
  "delete_listed sid u [] n w = ((True, n), w)"
| "delete_listed sid u (i # is) n w =
     (if \<not> validStorageKey u (oi_Key i) then delete_listed sid u is n w
      else (case DeleteObject sid (oi_Key i) w of
              (Inl e, w) \<Rightarrow> ((False, n), w)
            | (Inr _, w) \<Rightarrow> delete_listed sid u is (Suc n) w))"

definition DeleteAllStorageObjects :: "('w, 'x) web_storage_scheme \<Rightarrow> gin \<Rightarrow> 'a cfg_st_scheme \<Rightarrow> 'a cfg_st_scheme handled" where
  "DeleteAllStorageObjects s c w =
     (case getUserID c of None \<Rightarrow> unauthorized w
      | Some u \<Rightarrow>
          if ws_factory s = None then reply_error 503 ''storage is not configured'' w
          else (case Resolve (ws_ext s) (ws_factory s) u w of
             (Inl e, w) \<Rightarrow> reply_error 423 (err_text e) w
           | (Inr backend, w) \<Rightarrow>
               (case ListObjects backend (userPrefix u) 0 w of
                  (Inl e, w) \<Rightarrow> reply_error 502 ''failed to list objects'' w
                | (Inr objs, w) \<Rightarrow>
                    (case delete_listed backend u objs 0 w of
                       ((fin, n), w) \<Rightarrow>
                         if fin then reply 200 [(''deleted'', JInt (int n))] w
                         else reply 502 [(''error'', JStr ''failed to delete all objects''),
                                (''deleted'', JInt (int n))] w))))"

definition StorageHealth :: "('w, 'x) web_storage_scheme \<Rightarrow> gin \<Rightarrow> 'a cfg_st_scheme \<Rightarrow> 'a cfg_st_scheme handled" where
  "StorageHealth s c w =
     (case getUserID c of None \<Rightarrow> unauthorized w
      | Some u \<Rightarrow>
          if ws_factory s = None
            then reply 503 [(''ok'', JBool False), (''error'', JStr ''storage is not configured'')] w
          else (case Resolve (ws_ext s) (ws_factory s) u w of
             (Inl e, w) \<Rightarrow> reply 423 [(''ok'', JBool False), (''error'', JStr (err_text e))] w
           | (Inr backend, w) \<Rightarrow>
               (case ListObjects backend (userPrefix u) 1 w of
                  (Inl e, w) \<Rightarrow> reply 502 [(''ok'', JBool False), (''error'', JStr ''storage backend unavailable'')] w
                | (Inr _, w) \<Rightarrow> reply 200 [(''ok'', JBool True)] w)))"

definition download_ttl :: "gin \<Rightarrow> int option" where
  "download_ttl c =
     (if Query c ''ttl'' = [] then Some (15 * minute)
      else (case Atoi (Query c ''ttl'') of
              None \<Rightarrow> None
            | Some n \<Rightarrow> if n < 60 \<or> 3600 < n then None else Some (n * second)))"

definition PresignStorageDownload :: "('w, 'x) web_storage_scheme \<Rightarrow> gin \<Rightarrow> 'a cfg_st_scheme \<Rightarrow> 'a cfg_st_scheme handled" where
  "PresignStorageDownload s c w =
     (case getUserID c of None \<Rightarrow> unauthorized w
      | Some u \<Rightarrow>
          if \<not> validStorageKey u (Query c ''key'') then reply_error 400 ''invalid key'' w
          else if ws_factory s = None then reply_error 503 ''storage is not configured'' w
          else (case Resolve (ws_ext s) (ws_factory s) u w of
             (Inl e, w) \<Rightarrow> reply_error 423 (err_text e) w
           | (Inr backend, w) \<Rightarrow>
               (case download_ttl c of
                  None \<Rightarrow> reply_error 400 ''invalid ttl'' w
                | Some ttl \<Rightarrow>
                    (case PresignedGetURL backend (Query c ''key'') ttl w of
                       (Inl e, w) \<Rightarrow> reply_error 404 ''object not found'' w
                     | (Inr url, w) \<Rightarrow> reply 200 [(''key'', JStr (Query c ''key'')), (''url'', JStr url),
                         (''expires_in'', JInt (ttl div second))] w))))"

section \<open>Migrations\<close>

definition resolveMigrationPair :: "ext \<Rightarrow> factory option \<Rightarrow> uid \<Rightarrow> backend_type \<Rightarrow> 'a cfg_st_scheme
    \<Rightarrow> (go_err + store_id \<times> store_id) \<times> 'a cfg_st_scheme" where
  "resolveMigrationPair x fo u tt w =
     (if fo = None then (Inl (Msg ''storage factory is nil''), w)
      else (case StorageConfig (x_fc x) (x_mkr x) u w of
        (Inl e, w) \<Rightarrow> (Inl (Wrap ''failed to load storage config'' e), w)
      | (Inr cfg, w) \<Rightarrow>
          if bc_Type cfg = tt then (Inl (Msg ''already using target storage type''), w)
          else (case Resolve x fo u w of
             (Inl e, w) \<Rightarrow> (Inl (Wrap ''failed to resolve source'' e), w)
           | (Inr src, w) \<Rightarrow>
               (case ResolveByType x fo u tt w of
                  (Inl e, w) \<Rightarrow> (Inl (Wrap ''failed to resolve target'' e), w)
                | (Inr tgt, w) \<Rightarrow> (Inr (src, tgt), w)))))"

definition state_json :: "migration_state \<Rightarrow> json" where
  "state_json st = JStr (case st of MigrationPending \<Rightarrow> ''pending'' | MigrationRunning \<Rightarrow> ''running''
     | MigrationFailed \<Rightarrow> ''failed'' | MigrationCompleted \<Rightarrow> ''completed'' | MigrationCancelled \<Rightarrow> ''cancelled'')"

definition StartStorageMigration :: "('a mig_st_scheme, 'x) web_storage_scheme \<Rightarrow> gin \<Rightarrow> string
    \<Rightarrow> 'a mig_st_scheme \<Rightarrow> 'a mig_st_scheme handled" where
  "StartStorageMigration s c token w =
     (case getUserID c of None \<Rightarrow> unauthorized w
      | Some u \<Rightarrow>
          if ws_migrations s = None \<or> ws_factory s = None
            then reply_error 503 ''migration is not configured'' w
          else (case cfg_of s u w of
             (Inl e, w) \<Rightarrow> reply_error 500 ''failed to load storage config'' w
           | (Inr cfg, w) \<Rightarrow>
               let tt = other_type (bc_Type cfg) in
               (case resolveMigrationPair (ws_ext s) (ws_factory s) u tt w of
                  (Inl e, w) \<Rightarrow> reply_error 400 (err_text e) w
                | (Inr (src, tgt), w) \<Rightarrow>
                    (case StartWithTypes (ws_migrations s) u (Some src) (Some tgt) (bc_Type cfg) tt token w of
                       (Inl e, w) \<Rightarrow> reply_error 500 (''migration failed: '' @ err_text e) w
                     | (Inr rec, w) \<Rightarrow>
                         reply 200 [(''id'', JInt (int (mr_ID rec))), (''state'', state_json (mr_State rec)),
                           (''source_type'', type_json (bc_Type cfg)), (''target_type'', type_json tt)] w))))"

definition record_json :: "migration_record \<Rightarrow> (string \<times> json) list" where
  "record_json r = [(''ID'', JInt (int (mr_ID r))), (''UserID'', JInt (uint (mr_UserID r))),
     (''State'', state_json (mr_State r)), (''Copied'', JInt (int (mr_Copied r))),
     (''Verified'', JInt (int (mr_Verified r))), (''Total'', JInt (int (mr_Total r))),
     (''Deleted'', JInt (int (mr_Deleted r))), (''LastError'', JStr (mr_LastError r)),
     (''VerifiedKeys'', JList (map JStr (mr_VerifiedKeys r))), (''UpdatedAt'', JTime (mr_UpdatedAt r))]"

text \<open>A job the caller owns, looked up by the path parameter.\<close>

definition own_migration :: "gin \<Rightarrow> uid \<Rightarrow> 'a mig_st_scheme
    \<Rightarrow> (nat \<times> string + migration_record) \<times> 'a mig_st_scheme" where
  "own_migration c u w =
     (case ParseUint (Param c ''id'') of
        None \<Rightarrow> (Inl (400, ''invalid migration id''), w)
      | Some i \<Rightarrow>
          (case GetMigration i w of
             (Inl e, w) \<Rightarrow> (Inl (404, ''migration not found''), w)
           | (Inr r, w) \<Rightarrow> if mr_UserID r \<noteq> u then (Inl (404, ''migration not found''), w) else (Inr r, w)))"

definition GetStorageMigration :: "gin \<Rightarrow> 'a mig_st_scheme \<Rightarrow> 'a mig_st_scheme handled" where
  "GetStorageMigration c w =
     (case getUserID c of None \<Rightarrow> unauthorized w
      | Some u \<Rightarrow>
          (case own_migration c u w of
             (Inl (code, msg), w) \<Rightarrow> reply_error code msg w
           | (Inr r, w) \<Rightarrow> reply 200 (record_json r) w))"

definition CancelStorageMigration :: "gin \<Rightarrow> 'a mig_st_scheme \<Rightarrow> 'a mig_st_scheme handled" where
  "CancelStorageMigration c w =
     (case getUserID c of None \<Rightarrow> unauthorized w
      | Some u \<Rightarrow>
          (case own_migration c u w of
             (Inl (code, msg), w) \<Rightarrow> reply_error code msg w
           | (Inr r, w) \<Rightarrow>
               (case CancelMigration (mr_ID r) w of
                  (Inl e, w) \<Rightarrow> reply_error 409 (err_text e) w
                | (Inr _, w) \<Rightarrow> reply_status 204 w)))"

section \<open>Removing a user's files\<close>

fun delete_directory :: "store_id \<Rightarrow> object_info list \<Rightarrow> go_err option \<Rightarrow> 'a obj_st_scheme
    \<Rightarrow> (go_err + go_err option) \<times> 'a obj_st_scheme" where
  "delete_directory sid [] err w = (Inr err, w)"
| "delete_directory sid (i # is) err w =
     (if failing w then (Inl ctx_canceled, drawn w)
      else (case DeleteObject sid (oi_Key i) (drawn w) of
              (Inl e, w) \<Rightarrow> delete_directory sid is (Some e) w
            | (Inr _, w) \<Rightarrow> delete_directory sid is err w))"

definition DeleteUserS3Directory :: "('w, 'x) web_storage_scheme \<Rightarrow> uid \<Rightarrow> 'a cfg_st_scheme
    \<Rightarrow> go_err option \<times> 'a cfg_st_scheme" where
  "DeleteUserS3Directory s u w =
     (if ws_factory s = None then (None, w)
      else (case Resolve (ws_ext s) (ws_factory s) u w of
        (Inl e, w) \<Rightarrow> (Some (Wrap ''cannot reach the storage'' e), w)
      | (Inr backend, w) \<Rightarrow>
          (case ListObjects backend (userPrefix u) 0 w of
             (Inl e, w) \<Rightarrow> (Some (Wrap ''cannot list the files'' e), w)
           | (Inr objs, w) \<Rightarrow>
               (case delete_directory backend objs None w of
                  (Inl e, w) \<Rightarrow> (Some e, w)
                | (Inr err, w) \<Rightarrow>
                    let w = (if ws_reservations s = None then w
                             else snd (RecoverReservation (ws_reservations s) u 0 w));
                        w = snd (EnsureStorageQuota u w)
                    in (err, snd (ResetStorageQuota u w))))))"

end
