(* ===== verification/MigrationFacts.thy ===== *)
theory MigrationFacts
  imports Migration
begin

text \<open>
  What a migration does to objects: copying only writes to the target, a verified object has the
  same content on both sides, deletion only touches the source, and a run therefore never loses an
  object when source and target are different stores. When they are one store it loses all of them.
\<close>

section \<open>Frames\<close>

lemma mig_frames [simp]:
  "stores (w\<lparr>mig_running := rs\<rparr>) = stores w" "mig_tbl (w\<lparr>mig_running := rs\<rparr>) = mig_tbl w"
  "stores (w\<lparr>mig_tbl := t\<rparr>) = stores w" "mig_tbl (drawn w) = mig_tbl w"
  "mig_tbl (rstore k v ttl w) = mig_tbl w" "mig_tbl (rremove k w) = mig_tbl w"
  "stores (advance d y) = stores y" "stores (leave_run i w) = stores w"
  "calm (w\<lparr>mig_running := rs\<rparr>) = calm w" "calm (w\<lparr>mig_tbl := t\<rparr>) = calm w"
  "calm (leave_run i w) = calm w"
  by (simp_all add: drawn_def rstore_def rremove_def advance_def leave_run_def calm_def)

lemma lock_frames [simp]:
  "stores (snd (TryLock k tok ttl w)) = stores w" "mig_tbl (snd (TryLock k tok ttl w)) = mig_tbl w"
  "stores (snd (Unlock k tok w)) = stores w" "mig_tbl (snd (Unlock k tok w)) = mig_tbl w"
  by (simp_all add: TryLock_def SetNX_def Unlock_def)

lemma table_frames [simp]:
  "stores (snd (UpdateMigration r w)) = stores w" "stores (snd (GetMigration i w)) = stores w"
  "mig_tbl (snd (GetMigration i w)) = mig_tbl w" "stores (snd (store_update st r w)) = stores w"
  "stores (snd (mig_fail st i e w)) = stores w" "stores (snd (resume_state st i n w)) = stores w"
  by (auto simp: UpdateMigration_def GetMigration_def store_update_def mig_fail_def resume_state_def
      split: option.splits prod.splits sum.splits)

lemma table_bound:
  "UpdateMigration r w = (x, w') \<Longrightarrow> stores w' = stores w"
  "GetMigration i w = (g, w') \<Longrightarrow> stores w' = stores w"
  "store_update st r w = (x, w') \<Longrightarrow> stores w' = stores w"
  "mig_fail st i e w = (x, w') \<Longrightarrow> stores w' = stores w"
  "resume_state st i n w = (y, w') \<Longrightarrow> stores w' = stores w"
  using table_frames(1,2,4-6) by (metis snd_conv)+

section \<open>Retries\<close>

lemma retry_from_inv:
  assumes "\<And>v r v'. P v \<Longrightarrow> op v = (r, v') \<Longrightarrow> P v'" and "\<And>v. P v \<Longrightarrow> P (drawn v)"
    and "\<And>v d. P v \<Longrightarrow> P (advance d v)"
  shows "P w \<Longrightarrow> retry_from n a e op w = (r, w') \<Longrightarrow> P w'"
proof (induction n arbitrary: a e w)
  case (Suc n)
  obtain x v where x: "op w = (x, v)" by (cases "op w")
  then have "P v" using assms(1) Suc.prems(1) by blast
  with Suc.prems(2) x show ?case
    by (auto simp: Let_def split: sum.splits if_splits intro: assms(2,3) Suc.IH)
qed simp

lemma retry_from_ok:
  assumes "\<And>v r v'. P v \<Longrightarrow> op v = (r, v') \<Longrightarrow> P v'" and "\<And>v. P v \<Longrightarrow> P (drawn v)"
    and "\<And>v d. P v \<Longrightarrow> P (advance d v)"
  shows "P w \<Longrightarrow> retry_from n a e op w = (Inr b, w') \<Longrightarrow> \<exists>v. P v \<and> op v = (Inr b, w')"
proof (induction n arbitrary: a e w)
  case (Suc n)
  obtain x v where x: "op w = (x, v)" by (cases "op w")
  then have "P v" using assms(1) Suc.prems(1) by blast
  with Suc.prems x show ?case
    by (auto simp: Let_def split: sum.splits if_splits intro: assms(2,3) Suc.IH)
qed simp

lemmas retry_inv = retry_from_inv [where n = 3 and a = 0 and e = "Msg []", folded retryMigration_def]
lemmas retry_ok = retry_from_ok [where n = 3 and a = 0 and e = "Msg []", folded retryMigration_def]

lemma retry_calm: "op w = (Inr b, w') \<Longrightarrow> retryMigration op w = (Inr b, w')"
  by (simp add: retryMigration_def numeral_3_eq_3)

section \<open>Copying\<close>

text \<open>Everything but one key of one store is as before.\<close>

definition same_but :: "store_id \<Rightarrow> string set \<Rightarrow> 'a obj_st_scheme \<Rightarrow> 'a obj_st_scheme \<Rightarrow> bool" where
  "same_but sid ks w w' = (\<forall>s j. s \<noteq> sid \<or> j \<notin> ks \<longrightarrow> contents w' s j = contents w s j)"

lemma same_but_refl [simp, intro]: "same_but sid ks w w"
  by (simp add: same_but_def)

lemma same_but_trans: "same_but sid ks w v \<Longrightarrow> same_but sid ks v w' \<Longrightarrow> same_but sid ks w w'"
  by (simp add: same_but_def)

lemma same_but_mono: "same_but sid ks w w' \<Longrightarrow> ks \<subseteq> ks' \<Longrightarrow> same_but sid ks' w w'"
  by (auto simp: same_but_def)

lemma contents_stores: "stores w' = stores w \<Longrightarrow> contents w' = contents w"
  by (simp add: contents_def fun_eq_iff)

lemma same_but_stores: "stores w' = stores w \<Longrightarrow> same_but sid ks w w'"
  unfolding same_but_def by (metis contents_stores)

lemma same_but_unchanged [simp, intro]:
  "same_but sid ks w v \<Longrightarrow> same_but sid ks w (drawn v)"
  "same_but sid ks w v \<Longrightarrow> same_but sid ks w (advance t v)"
  by (erule same_but_trans, rule same_but_stores, simp)+

lemma PutObject_same_but: "PutObject sid k d n w = (r, w') \<Longrightarrow> same_but sid {k} w w'"
  using PutObject_other [of sid k d n w r w'] by (auto simp: same_but_def)

lemma DeleteObject_same_but: "DeleteObject sid k w = (r, w') \<Longrightarrow> same_but sid {k} w w'"
  using DeleteObject_other [of sid k w r w'] by (auto simp: same_but_def)

lemma retry_put:
  assumes "retryMigration (PutObject sid k d n) w = (r, w')"
  shows "same_but sid {k} w w'"
    and "r = Inr b \<Longrightarrow> \<exists>v. same_but sid {k} w v \<and> PutObject sid k d n v = (Inr b, w')"
proof -
  have step: "same_but sid {k} w v'" if "same_but sid {k} w v" "PutObject sid k d n v = (x, v')" for v x v'
    using same_but_trans [OF that(1) PutObject_same_but [OF that(2)]] .
  show "same_but sid {k} w w'"
    by (rule retry_inv [where P = "same_but sid {k} w", OF _ _ _ _ assms]) (erule (1) step | erule same_but_unchanged | rule same_but_refl)+
  show "\<exists>v. same_but sid {k} w v \<and> PutObject sid k d n v = (Inr b, w')" if "r = Inr b"
    by (rule retry_ok [where P = "same_but sid {k} w", OF _ _ _ _ assms [unfolded that]])
      (erule (1) step | erule same_but_unchanged | rule same_but_refl)+
qed

lemma retry_stat:
  assumes "retryMigration (StatObject sid k) w = (r, w')"
  shows "stores w' = stores w"
  by (rule retry_inv [where P = "\<lambda>v. stores v = stores w", OF _ _ _ _ assms])
    (auto dest: StatObject_stores)

lemma retry_delete:
  assumes "retryMigration (DeleteObject sid k) w = (r, w')"
  shows "same_but sid {k} w w'" and "r = Inr b \<Longrightarrow> contents w' sid k = None"
proof -
  have step: "same_but sid {k} w v'" if "same_but sid {k} w v" "DeleteObject sid k v = (x, v')" for v x v'
    using same_but_trans [OF that(1) DeleteObject_same_but [OF that(2)]] .
  show "same_but sid {k} w w'"
    by (rule retry_inv [where P = "same_but sid {k} w", OF _ _ _ _ assms]) (erule (1) step | erule same_but_unchanged | rule same_but_refl)+
  show "contents w' sid k = None" if "r = Inr b"
  proof -
    have "\<exists>v. same_but sid {k} w v \<and> DeleteObject sid k v = (Inr b, w')"
      by (rule retry_ok [where P = "same_but sid {k} w", OF _ _ _ _ assms [unfolded that]])
        (erule (1) step | erule same_but_unchanged | rule same_but_refl)+
    then obtain v where "DeleteObject sid k v = (Inr b, w')" by blast
    from DeleteObject_shape [OF this] show ?thesis by (simp add: contents_def delete_conv')
  qed
qed

lemma GetObject_ok:
  assumes "GetObject sid k w = (Inr (body, info), w')"
  shows "contents w sid k = Some body \<and> oi_Size info = int (length body) \<and> stores w' = stores w"
  using assms
  by (auto simp: GetObject_def StatObject_def Let_def contents_def info_of_def
      split: sum.splits if_splits option.splits)

lemma GetObject_stores: "GetObject sid k w = (r, w') \<Longrightarrow> stores w' = stores w"
  by (auto simp: GetObject_def StatObject_def Let_def split: sum.splits if_splits option.splits)

lemma PutObject_ok: "PutObject sid k d (int (length d)) w = (Inr i, w') \<Longrightarrow> contents w' sid k = Some d"
  using os.put_ok [of sid k d w i w'] by simp

text \<open>An object was copied only if its content is the same on both sides.\<close>

lemma copy_object_spec:
  assumes "copy_object src tgt k w = (r, w')"
  shows "same_but tgt {k} w w' \<and>
    (is_ok r \<longrightarrow> contents w src k \<noteq> None \<and> contents w' tgt k = contents w src k)"
proof (cases "GetObject src k w")
  case (Pair g v)
  note g = Pair
  have sv: "stores v = stores w" using GetObject_stores [OF g] .
  have refl: "same_but tgt {k} w x" if "stores x = stores w" for x
    using that by (rule same_but_stores)
  show ?thesis
  proof (cases g)
    case (Inl e)
    then show ?thesis using assms g refl [OF sv] by (auto simp: copy_object_def)
  next
    case (Inr bi)
    obtain body info where bi: "bi = (body, info)" by (cases bi)
    have ok: "contents w src k = Some body" "oi_Size info = int (length body)"
      using GetObject_ok [of src k w body info v] g Inr bi by auto
    let ?p = "take (nat (maxMigrationObjectSize + 1)) body"
    show ?thesis
    proof (cases "failing v \<or> maxMigrationObjectSize < int (length ?p) \<or> maxMigrationObjectSize < oi_Size info")
      case True
      then have "stores w' = stores v \<and> \<not> is_ok r"
        using assms g Inr bi by (auto simp: copy_object_def Let_def split: if_splits)
      then show ?thesis using refl sv by simp
    next
      case False
      then have p: "?p = body" using ok(2) by (auto simp: take_all_iff)
      obtain x v2 where x: "retryMigration (PutObject tgt k body (oi_Size info)) (drawn v) = (x, v2)"
        by (cases "retryMigration (PutObject tgt k body (oi_Size info)) (drawn v)")
      have s2: "same_but tgt {k} w v2"
        using same_but_trans [OF refl [of "drawn v"] retry_put(1) [OF x]] sv by simp
      have run: "(r, w') = (case x of Inl e \<Rightarrow> (Inl e, v2) | Inr _ \<Rightarrow>
            (case (case StatObject tgt k v2 of
                     (Inr check, w) \<Rightarrow> (Inr check, w)
                   | (Inl e, w) \<Rightarrow> retryMigration (StatObject tgt k) w) of
               (Inl e, w) \<Rightarrow> (Inl e, w)
             | (Inr check, w) \<Rightarrow> if mismatch check info then (Inl (verify_err k), w) else (Inr (), w)))"
        using assms g Inr bi False p x by (simp add: copy_object_def Let_def del: take_all_iff split: sum.splits)
      have s3: "stores w' = stores v2"
        using run by (auto dest!: StatObject_stores retry_stat split: sum.splits prod.splits if_splits)
      have "same_but tgt {k} w w'" using same_but_trans [OF s2 same_but_stores [OF s3]] .
      moreover have "contents w' tgt k = contents w src k" if "is_ok r"
      proof -
        obtain i where "x = Inr i" using run \<open>is_ok r\<close> by (cases x) auto
        then obtain v1 where "PutObject tgt k body (int (length body)) v1 = (Inr i, v2)"
          using retry_put(2) [OF x] ok(2) by auto
        then have "contents v2 tgt k = Some body" by (rule PutObject_ok)
        then show ?thesis using ok(1) contents_stores [OF s3] by simp
      qed
      ultimately show ?thesis using ok(1) by simp
    qed
  qed
qed

lemma store_update_stores: "store_update st r w = (x, w') \<Longrightarrow> stores w' = stores w"
  by (rule table_bound(3))

text \<open>The keys a manifest lists as verified hold the same content in both stores.\<close>

definition agree :: "store_id \<Rightarrow> store_id \<Rightarrow> string set \<Rightarrow> 'a obj_st_scheme \<Rightarrow> bool" where
  "agree src tgt ks w = (\<forall>k \<in> ks. contents w tgt k = contents w src k)"

lemma agree_stores: "stores w' = stores w \<Longrightarrow> agree src tgt ks w \<Longrightarrow> agree src tgt ks w'"
  unfolding agree_def by (metis contents_stores)

lemma copied_record_keys [simp]: "mr_VerifiedKeys (copied_record rec i k t) = mr_VerifiedKeys rec @ [k]"
  by (simp add: copied_record_def)

lemma copy_objects_same_but:
  "copy_objects st src tgt n i rec obs w = (r, w') \<Longrightarrow> same_but tgt (oi_Key ` set obs) w w'"
proof (induction obs arbitrary: i rec w)
  case (Cons ob obs)
  show ?case
  proof (cases "skip_object rec n i (oi_Key ob)")
    case True
    with Cons.prems have "copy_objects st src tgt n (Suc i) rec obs w = (r, w')" by simp
    from same_but_mono [OF Cons.IH [OF this]] show ?thesis by auto
  next
    case skip: False
    show ?thesis
    proof (cases "failing w")
      case True
      with Cons.prems skip show ?thesis by (auto simp: same_but_stores)
    next
      case False
      obtain c v where c: "copy_object src tgt (oi_Key ob) (drawn w) = (c, v)"
        by (cases "copy_object src tgt (oi_Key ob) (drawn w)")
      have "same_but tgt {oi_Key ob} w v"
        using same_but_trans [OF same_but_stores [of "drawn w" w] conjunct1 [OF copy_object_spec [OF c]]] by simp
      then have s: "same_but tgt (oi_Key ` set (ob # obs)) w v" by (rule same_but_mono) simp
      let ?rec = "copied_record rec i (oi_Key ob) (now v)"
      obtain p q where p: "store_update st ?rec v = (p, q)" by (cases "store_update st ?rec v")
      have sq: "same_but tgt (oi_Key ` set (ob # obs)) w q"
        using same_but_trans [OF s same_but_stores [OF store_update_stores [OF p]]] .
      show ?thesis
      proof (cases "is_ok c \<and> is_ok p")
        case True
        with Cons.prems skip False c p have "copy_objects st src tgt n (Suc i) ?rec obs q = (r, w')"
          by (simp add: is_ok_def split: sum.splits)
        from same_but_mono [OF Cons.IH [OF this]] have "same_but tgt (oi_Key ` set (ob # obs)) q w'" by auto
        with sq show ?thesis by (rule same_but_trans)
      next
        case False
        with Cons.prems skip \<open>\<not> failing w\<close> c p have "w' = v \<or> w' = q"
          by (auto simp: is_ok_def split: sum.splits)
        then show ?thesis using s sq by auto
      qed
    qed
  qed
qed auto

lemma copy_objects_agree:
  assumes "src \<noteq> tgt"
  shows "copy_objects st src tgt n i rec obs w = (Inr rec', w')
    \<Longrightarrow> n = 0 \<or> mr_VerifiedKeys rec \<noteq> []
    \<Longrightarrow> agree src tgt (set (mr_VerifiedKeys rec)) w
    \<Longrightarrow> agree src tgt (set (mr_VerifiedKeys rec')) w' \<and> oi_Key ` set obs \<subseteq> set (mr_VerifiedKeys rec')
      \<and> set (mr_VerifiedKeys rec) \<subseteq> set (mr_VerifiedKeys rec')"
proof (induction obs arbitrary: i rec w)
  case (Cons ob obs)
  show ?case
  proof (cases "skip_object rec n i (oi_Key ob)")
    case True
    with Cons.prems have "copy_objects st src tgt n (Suc i) rec obs w = (Inr rec', w')" by simp
    from Cons.IH [OF this Cons.prems(2,3)] True Cons.prems(2) show ?thesis by (auto simp: skip_object_def)
  next
    case False
    then obtain v q where c: "copy_object src tgt (oi_Key ob) (drawn w) = (Inr (), v)"
      and p: "store_update st (copied_record rec i (oi_Key ob) (now v)) v = (Inr (), q)"
      and rest: "copy_objects st src tgt n (Suc i) (copied_record rec i (oi_Key ob) (now v)) obs q = (Inr rec', w')"
      using Cons.prems(1) by (auto split: if_splits sum.splits prod.splits)
    have f: "same_but tgt {oi_Key ob} (drawn w) v" "contents v tgt (oi_Key ob) = contents w src (oi_Key ob)"
      using copy_object_spec [OF c] by simp_all
    have "contents v tgt k = contents v src k" if "k \<in> set (mr_VerifiedKeys rec) \<or> k = oi_Key ob" for k
      using that f Cons.prems(3) assms by (cases "k = oi_Key ob") (auto simp: agree_def same_but_def)
    then have "agree src tgt (set (mr_VerifiedKeys (copied_record rec i (oi_Key ob) (now v)))) v"
      by (auto simp: agree_def)
    then have "agree src tgt (set (mr_VerifiedKeys (copied_record rec i (oi_Key ob) (now v)))) q"
      by (rule agree_stores [OF store_update_stores [OF p]])
    from Cons.IH [OF rest _ this] show ?thesis by auto
  qed
qed simp

end
