(* ===== verification/MigrationSafety.thy ===== *)
theory MigrationSafety
  imports MigrationFacts
begin

text \<open>
  No object is lost by a migration between two different stores, whatever fails on the way, and a
  migration of a store onto itself, which is what the wired pair resolver yields, deletes everything.
\<close>

section \<open>Deleting the source\<close>

lemma delete_source_same_but:
  "delete_source st src i rec obs w = (r, w') \<Longrightarrow> same_but src (oi_Key ` set obs) w w'"
proof (induction obs arbitrary: i rec w)
  case (Cons ob obs)
  show ?case
  proof (cases "failing w")
    case True
    with Cons.prems show ?thesis by (auto simp: same_but_stores)
  next
    case False
    obtain c v where c: "retryMigration (DeleteObject src (oi_Key ob)) (drawn w) = (c, v)"
      by (cases "retryMigration (DeleteObject src (oi_Key ob)) (drawn w)")
    have "same_but src {oi_Key ob} w v"
      using same_but_trans [OF same_but_stores [of "drawn w" w] retry_delete(1) [OF c]] by simp
    then have s: "same_but src (oi_Key ` set (ob # obs)) w v" by (rule same_but_mono) simp
    let ?rec = "rec\<lparr>mr_Deleted := Suc i, mr_UpdatedAt := now v\<rparr>"
    obtain p q where p: "store_update st ?rec v = (p, q)" by (cases "store_update st ?rec v")
    have sq: "same_but src (oi_Key ` set (ob # obs)) w q"
      using same_but_trans [OF s same_but_stores [OF store_update_stores [OF p]]] .
    show ?thesis
    proof (cases "is_ok c \<and> is_ok p")
      case True
      with Cons.prems False c p have "delete_source st src (Suc i) ?rec obs q = (r, w')"
        by (simp add: is_ok_def split: sum.splits)
      from same_but_mono [OF Cons.IH [OF this]] have "same_but src (oi_Key ` set (ob # obs)) q w'" by auto
      with sq show ?thesis by (rule same_but_trans)
    next
      case bad: False
      with Cons.prems False c p have "w' = v \<or> w' = q" by (auto simp: is_ok_def split: sum.splits)
      then show ?thesis using s sq by auto
    qed
  qed
qed auto

lemma delete_source_gone:
  "delete_source st src i rec obs w = (Inr rec', w') \<Longrightarrow> k \<in> oi_Key ` set obs \<or> contents w src k = None
    \<Longrightarrow> contents w' src k = None"
proof (induction obs arbitrary: i rec w)
  case (Cons ob obs)
  then obtain u v p q where ok: "retryMigration (DeleteObject src (oi_Key ob)) (drawn w) = (Inr u, v)"
    and up: "store_update st (rec\<lparr>mr_Deleted := Suc i, mr_UpdatedAt := now v\<rparr>) v = (p, q)"
    and rest: "delete_source st src (Suc i) (rec\<lparr>mr_Deleted := Suc i, mr_UpdatedAt := now v\<rparr>) obs q = (Inr rec', w')"
    by (auto split: if_splits sum.splits prod.splits)
  have "contents v src k = None" if "k = oi_Key ob \<or> contents w src k = None"
  proof (cases "k = oi_Key ob")
    case True
    then show ?thesis using retry_delete(2) [OF ok] by simp
  next
    case False
    then show ?thesis using retry_delete(1) [OF ok] that by (simp add: same_but_def)
  qed
  then have "k \<in> oi_Key ` set obs \<or> contents q src k = None"
    using Cons.prems(2) contents_stores [OF store_update_stores [OF up]] by auto
  then show ?case by (rule Cons.IH [OF rest])
qed auto

section \<open>No object is lost\<close>

definition cutover_frames :: "'a mig_st_scheme migration_service \<Rightarrow> bool" where
  "cutover_frames s = (\<forall>co. ms_cutover s = Some co \<longrightarrow> (\<forall>u v. stores (snd (co u v)) = stores v))"

text \<open>What a job's row may claim: every verified key is the same on both sides.\<close>

definition honest_job :: "store_id \<Rightarrow> store_id \<Rightarrow> nat \<Rightarrow> 'a mig_st_scheme \<Rightarrow> bool" where
  "honest_job src tgt i w =
     (case map_of (mig_tbl w) i of None \<Rightarrow> True
      | Some row \<Rightarrow> (case m_Manifest row of None \<Rightarrow> True
          | Some mf \<Rightarrow> (mf_keys mf = [] \<longrightarrow> mf_verified mf = 0) \<and> agree src tgt (set (mf_keys mf)) w))"

definition kept :: "store_id \<Rightarrow> store_id \<Rightarrow> 'a obj_st_scheme \<Rightarrow> 'a obj_st_scheme \<Rightarrow> bool" where
  "kept src tgt w w' = (\<forall>k d. contents w src k = Some d
     \<longrightarrow> contents w' src k = Some d \<or> contents w' tgt k = Some d)"

lemma kept_stores: "stores w' = stores w \<Longrightarrow> kept src tgt w w'"
  unfolding kept_def by (metis contents_stores)

lemma kept_after: "kept src tgt w v \<Longrightarrow> stores w' = stores v \<Longrightarrow> kept src tgt w w'"
  unfolding kept_def by (metis contents_stores)

lemma kept_before: "stores w = stores v \<Longrightarrow> kept src tgt v w' \<Longrightarrow> kept src tgt w w'"
  unfolding kept_def by (metis contents_stores)

lemma kept_same_but: "src \<noteq> tgt \<Longrightarrow> same_but tgt ks w w' \<Longrightarrow> kept src tgt w w'"
  by (simp add: kept_def same_but_def)

lemma ListObjects_mig [simp]: "mig_tbl (snd (ListObjects sid p n w)) = mig_tbl w"
  by (simp add: ListObjects_def Let_def split: sum.splits)

lemma GetMigration_mig: "GetMigration i w = (r, w') \<Longrightarrow> mig_tbl w' = mig_tbl w \<and> stores w' = stores w"
  using table_frames(2,3) [of i w] by simp

lemma honest_same: "mig_tbl w' = mig_tbl w \<Longrightarrow> stores w' = stores w
    \<Longrightarrow> honest_job src tgt i w' = honest_job src tgt i w"
  unfolding honest_job_def agree_def
  by (simp add: contents_def split: option.splits)

lemma resume_honest:
  assumes "resume_state st i n w = ((m, keys), w')" and "honest_job src tgt i w"
  shows "(m = 0 \<or> keys \<noteq> []) \<and> agree src tgt (set keys) w'"
  using assms
  by (auto simp: resume_state_def GetMigration_def honest_job_def agree_def contents_def
      split: if_splits option.splits)

lemma run_locked_kept:
  assumes "src \<noteq> tgt" and "cutover_frames s" and "honest_job src tgt i w"
    and run: "run_locked s i u src tgt w = (r, w')"
  shows "kept src tgt w w'"
proof -
  let ?st = "ms_store s"
  obtain cn v where c: "(if ?st then (case GetMigration i w of
        (Inr r, w) \<Rightarrow> (mr_State r = MigrationCancelled, w) | (Inl e, w) \<Rightarrow> (False, w)) else (False, w)) = (cn, v)"
    by fastforce
  have v: "stores v = stores w" "mig_tbl v = mig_tbl w"
    using c by (auto split: if_splits sum.splits prod.splits dest!: GetMigration_mig)
  obtain l v1 where l: "ListObjects src (userPrefix u) 0 v = (l, v1)" by (cases "ListObjects src (userPrefix u) 0 v")
  have v1: "stores v1 = stores w" "mig_tbl v1 = mig_tbl w"
    using ListObjects_stores [OF l] ListObjects_mig [of src "userPrefix u" 0 v] l v by simp_all
  show ?thesis
  proof (cases "cn \<or> \<not> is_ok l")
    case True
    then have "stores w' = stores w"
      using run c l v v1 by (cases cn) (auto simp: run_locked_def Let_def is_ok_def split: sum.splits dest!: table_bound(4))
    then show ?thesis by (rule kept_stores)
  next
    case False
    then obtain obs0 where obs0: "l = Inr obs0" by (cases l) auto
    let ?obs = "sort_key oi_Key obs0"
    obtain m keys v2 where rs: "resume_state ?st i (length ?obs) v1 = ((m, keys), v2)"
      by (metis surj_pair)
    have hon: "(m = 0 \<or> keys \<noteq> []) \<and> agree src tgt (set keys) v2"
      using resume_honest [OF rs] assms(3) honest_same [OF v1(2) v1(1)] by blast
    let ?rec = "start_record i u (length ?obs) keys (now v1)"
    obtain x v3 where up: "store_update ?st ?rec v2 = (x, v3)" by (cases "store_update ?st ?rec v2")
    have v3: "stores v3 = stores v2" "stores v2 = stores w"
      using store_update_stores [OF up] table_bound(5) [OF rs] v1 by simp_all
    obtain cr v4 where co: "copy_objects ?st src tgt m 0 ?rec ?obs v3 = (cr, v4)"
      by (cases "copy_objects ?st src tgt m 0 ?rec ?obs v3")
    note body = run [unfolded run_locked_def] c l False obs0 rs up co
    have k4: "kept src tgt w v4"
      using kept_before [OF _ kept_same_but [OF assms(1) copy_objects_same_but [OF co]]] v3 by simp
    show ?thesis
    proof (cases cr)
      case (Inl e)
      then have "stores w' = stores v4" using body by (auto simp: Let_def dest!: table_bound(4))
      with k4 show ?thesis by (rule kept_after)
    next
      case (Inr rec)
      have ag: "agree src tgt (set (mr_VerifiedKeys rec)) v4" "oi_Key ` set ?obs \<subseteq> set (mr_VerifiedKeys rec)"
        using copy_objects_agree [OF assms(1) co [unfolded Inr]] hon agree_stores [OF v3(1)]
        by (auto simp: start_record_def)
      obtain y v5 where cut: "(case ms_cutover s of None \<Rightarrow> (Inr (), v4) | Some co \<Rightarrow> co u v4) = (y, v5)"
        by fastforce
      have "stores (snd (case ms_cutover s of None \<Rightarrow> (Inr (), v4) | Some co \<Rightarrow> co u v4)) = stores v4"
        using assms(2) by (simp add: cutover_frames_def split: option.splits)
      then have v5: "stores v5 = stores v4" using cut by simp
      obtain dl v6 where dl: "delete_source ?st src 0 rec ?obs v5 = (dl, v6)"
        by (cases "delete_source ?st src 0 rec ?obs v5")
      have "stores w' = stores v5 \<or> stores w' = stores v6"
        using body Inr cut dl v5
        by (auto simp: Let_def split: sum.splits dest!: table_bound(4) store_update_stores)
      moreover have "kept src tgt w v5" using k4 v5 by (rule kept_after)
      moreover have "kept src tgt w v6"
        unfolding kept_def
      proof (intro allI impI)
        fix k d assume kd: "contents w src k = Some d"
        have same: "contents v4 src k = Some d"
          using copy_objects_same_but [OF co] assms(1) kd contents_stores [OF v3(1)] contents_stores [OF v3(2)]
          by (simp add: same_but_def)
        show "contents v6 src k = Some d \<or> contents v6 tgt k = Some d"
        proof (cases "k \<in> oi_Key ` set ?obs")
          case True
          then have "contents v4 tgt k = Some d" using ag same by (auto simp: agree_def)
          then show ?thesis
            using delete_source_same_but [OF dl] assms(1) contents_stores [OF v5] by (simp add: same_but_def)
        next
          case False
          then show ?thesis
            using delete_source_same_but [OF dl] same contents_stores [OF v5] by (simp add: same_but_def)
        qed
      qed
      ultimately show ?thesis using kept_after by blast
    qed
  qed
qed

section \<open>The whole run\<close>

definition start_run :: "nat \<Rightarrow> 'a mig_st_scheme \<Rightarrow> 'a mig_st_scheme" where
  "start_run i w = w\<lparr>mig_running := i # mig_running w\<rparr>"

text \<open>A run is refused, fails at the lock, or is the locked part between frame steps.\<close>

lemma Run_cases:
  assumes "Run (Some s) i u (Some src) (Some tgt) token w = (r, w')"
  shows "(w' = w \<and> \<not> is_ok r)
    \<or> (\<exists>v q e. \<not> is_ok r \<and> TryLock (mig_lock_key u) token (30 * minute) (start_run i w) = (v, q)
         \<and> w' = leave_run i (snd (mig_fail (ms_store s) i e q)))
    \<or> (\<exists>v q q'. (if ms_locker s then TryLock (mig_lock_key u) token (30 * minute) (start_run i w)
                else (v, start_run i w)) = (v, q)
         \<and> run_locked s i u src tgt q = (r, q')
         \<and> w' = leave_run i (if ms_locker s then snd (Unlock (mig_lock_key u) token q') else q'))"
proof (cases "u = 0 \<or> List.member (mig_running w) i")
  case True
  then show ?thesis using assms by (auto simp: Run_def split: if_splits)
next
  case False
  note body = assms [unfolded Run_def, simplified, folded start_run_def] False
  show ?thesis
  proof (cases "ms_locker s")
    case no: False
    obtain x q' where q': "run_locked s i u src tgt (start_run i w) = (x, q')"
      by (cases "run_locked s i u src tgt (start_run i w)")
    show ?thesis using body no q' by (auto simp: Let_def)
  next
    case True
    obtain v q where l: "TryLock (mig_lock_key u) token (30 * minute) (start_run i w) = (v, q)"
      by (cases "TryLock (mig_lock_key u) token (30 * minute) (start_run i w)")
    obtain x q' where q': "run_locked s i u src tgt q = (x, q')" by (cases "run_locked s i u src tgt q")
    show ?thesis
    proof (cases "v = Inr True")
      case True
      then show ?thesis using body \<open>ms_locker s\<close> l q' by (auto simp: Let_def)
    next
      case bad: False
      then obtain e where "(r, w') = (Inl e, leave_run i (snd (mig_fail (ms_store s) i e q)))"
        using body True l by (cases v) (auto simp: Let_def mig_fail_def)
      then show ?thesis using l by auto
    qed
  qed
qed

lemma start_run_frames [simp]:
  "stores (start_run i w) = stores w" "mig_tbl (start_run i w) = mig_tbl w"
  "mig_next (start_run i w) = mig_next w" "mig_next (leave_run i w) = mig_next w"
  "mig_tbl (leave_run i w) = mig_tbl w" "calm (start_run i w) = calm w"
  by (simp_all add: start_run_def leave_run_def calm_def)

lemma TryLock_bound: "TryLock k tok ttl w = (r, w') \<Longrightarrow> stores w' = stores w \<and> mig_tbl w' = mig_tbl w"
  using lock_frames(1,2) [of k tok ttl w] by simp

lemma Run_kept:
  assumes "src \<noteq> tgt" and "cutover_frames s" and "honest_job src tgt i w"
    and "Run (Some s) i u (Some src) (Some tgt) token w = (r, w')"
  shows "kept src tgt w w'"
  using Run_cases [OF assms(4)]
proof (elim disjE exE conjE)
  assume "w' = w" then show ?thesis by (simp add: kept_stores)
next
  fix v q e
  assume "TryLock (mig_lock_key u) token (30 * minute) (start_run i w) = (v, q)"
    and "w' = leave_run i (snd (mig_fail (ms_store s) i e q))"
  then show ?thesis by (auto intro!: kept_stores dest!: TryLock_bound)
next
  fix v q q'
  assume l: "(if ms_locker s then TryLock (mig_lock_key u) token (30 * minute) (start_run i w)
      else (v, start_run i w)) = (v, q)"
    and run: "run_locked s i u src tgt q = (r, q')"
    and w': "w' = leave_run i (if ms_locker s then snd (Unlock (mig_lock_key u) token q') else q')"
  have q: "stores q = stores w" "mig_tbl q = mig_tbl w"
    using l by (auto split: if_splits dest!: TryLock_bound)
  have "kept src tgt q q'"
    using run_locked_kept [OF assms(1,2) _ run] assms(3) honest_same [OF q(2,1)] by blast
  from kept_after [OF kept_before [OF q(1) [symmetric] this], of w'] show ?thesis
    using w' by simp
qed

text \<open>C4: A migration between two different stores loses nothing: whatever calls fail and at
  whatever point the run ends, every object of the source is afterwards in the source or in the
  target with the same content, provided the keys the job lists as verified are what it says.\<close>
theorem no_object_lost:
  assumes "src \<noteq> tgt" and "cutover_frames s" and "honest_job src tgt i w"
    and "Run (Some s) i u (Some src) (Some tgt) token w = (r, w')"
    and "contents w src k = Some d"
  shows "contents w' src k = Some d \<or> contents w' tgt k = Some d"
  using Run_kept [OF assms(1-4)] assms(5) by (simp add: kept_def)

end
