(* ===== verification/MigrationJobs.thy ===== *)
theory MigrationJobs
  imports MigrationSafety
begin

text \<open>
  The job table as a state machine. A step is an operation of the service or anything that leaves the
  table alone. Two facts hold in every reachable state: a waiting job records no progress, so a failed
  job starts from nothing, and a job left in the state running stays there and blocks its user.
\<close>

section \<open>Steps\<close>

inductive mig_step :: "'a mig_st_scheme migration_service \<Rightarrow> 'a mig_st_scheme \<Rightarrow> 'a mig_st_scheme \<Rightarrow> bool"
  for s where
  step_start: "mig_step s w (snd (StartWithTypes (Some s) u src tgt st tt token w))"
| step_process: "mig_step s w (snd (ProcessPending (Some s) tok w))"
| step_cancel: "mig_step s w (snd (Cancel (Some s) i w))"
| step_other: "mig_tbl w' = mig_tbl w \<Longrightarrow> mig_next w' = mig_next w \<Longrightarrow> mig_step s w w'"

definition fresh_row :: "mig_row \<Rightarrow> bool" where
  "fresh_row row = (case m_Manifest row of None \<Rightarrow> True | Some mf \<Rightarrow> mf_keys mf = [] \<and> mf_verified mf = 0)"

definition jobs_inv :: "'a mig_st_scheme \<Rightarrow> bool" where
  "jobs_inv w = (distinct (map fst (mig_tbl w)) \<and>
     (\<forall>(i, row) \<in> set (mig_tbl w). i < mig_next w \<and> (waiting_state (m_State row) \<longrightarrow> fresh_row row)))"

text \<open>What a run of one job may do to the table.\<close>

definition only_job :: "nat \<Rightarrow> 'a mig_st_scheme \<Rightarrow> 'a mig_st_scheme \<Rightarrow> bool" where
  "only_job i w w' = (mig_next w' = mig_next w \<and> (jobs_inv w \<longrightarrow> jobs_inv w') \<and>
     (\<forall>j. j \<noteq> i \<longrightarrow> map_of (mig_tbl w') j = map_of (mig_tbl w) j))"

lemma only_job_refl [simp, intro]: "only_job i w w"
  by (simp add: only_job_def)

lemma only_job_trans: "only_job i w v \<Longrightarrow> only_job i v w' \<Longrightarrow> only_job i w w'"
  by (simp add: only_job_def)

lemma only_job_same: "mig_tbl w' = mig_tbl w \<Longrightarrow> mig_next w' = mig_next w \<Longrightarrow> only_job i w w'"
  by (simp add: only_job_def jobs_inv_def)

definition same_jobs :: "'a mig_st_scheme \<Rightarrow> 'a mig_st_scheme \<Rightarrow> bool" where
  "same_jobs w w' = (mig_tbl w' = mig_tbl w \<and> mig_next w' = mig_next w)"

lemma same_jobs_only: "same_jobs w w' \<Longrightarrow> only_job i w w'"
  by (simp add: same_jobs_def only_job_same)

lemma same_jobs_refl [simp, intro]: "same_jobs w w"
  by (simp add: same_jobs_def)

lemma same_jobs_trans: "same_jobs w v \<Longrightarrow> same_jobs v w' \<Longrightarrow> same_jobs w w'"
  by (simp add: same_jobs_def)

section \<open>Operations that leave the table alone\<close>

lemma jobs_env [simp]:
  "same_jobs w (drawn v) = same_jobs w v" "same_jobs w (advance d v) = same_jobs w v"
  "same_jobs w (put_bucket sid b v) = same_jobs w v" "same_jobs w (start_run i v) = same_jobs w v"
  "same_jobs w (leave_run i v) = same_jobs w v" "same_jobs w (rstore k x t v) = same_jobs w v"
  "same_jobs w (rremove k v) = same_jobs w v"
  by (simp_all add: same_jobs_def drawn_def advance_def put_bucket_def start_run_def leave_run_def
      rstore_def rremove_def)

lemma StatObject_jobs: "StatObject sid k v = (r, v') \<Longrightarrow> same_jobs w v' = same_jobs w v"
  by (auto simp: StatObject_def Let_def split: sum.splits if_splits option.splits)

lemma PutObject_jobs: "PutObject sid k d n v = (r, v') \<Longrightarrow> same_jobs w v' = same_jobs w v"
  by (auto simp: PutObject_def Let_def split: sum.splits if_splits prod.splits dest!: StatObject_jobs [of _ _ _ _ _ w])

lemma GetObject_jobs: "GetObject sid k v = (r, v') \<Longrightarrow> same_jobs w v' = same_jobs w v"
  by (auto simp: GetObject_def split: sum.splits if_splits prod.splits option.splits
      dest!: StatObject_jobs [of _ _ _ _ _ w])

lemma DeleteObject_jobs: "DeleteObject sid k v = (r, v') \<Longrightarrow> same_jobs w v' = same_jobs w v"
  by (auto simp: DeleteObject_def Let_def split: sum.splits if_splits)

lemma ListObjects_jobs: "ListObjects sid p n v = (r, v') \<Longrightarrow> same_jobs w v' = same_jobs w v"
  by (auto simp: ListObjects_def Let_def split: sum.splits if_splits)

lemma lock_jobs:
  "TryLock k tok ttl v = (a, v') \<Longrightarrow> same_jobs w v' = same_jobs w v"
  "same_jobs w (snd (Unlock k tok v)) = same_jobs w v"
  by (auto simp: TryLock_def SetNX_def Unlock_def split: if_splits option.splits)

lemma GetMigration_jobs: "GetMigration i v = (r, v') \<Longrightarrow> same_jobs w v' = same_jobs w v"
  by (auto simp: GetMigration_def split: if_splits option.splits)

lemma resume_jobs: "resume_state st i n v = (r, v') \<Longrightarrow> same_jobs w v' = same_jobs w v"
  by (auto simp: resume_state_def split: if_splits sum.splits prod.splits dest!: GetMigration_jobs [of _ _ _ _ w])

lemma retry_jobs:
  assumes "retryMigration op v = (r, v')" and "\<And>x y q. op x = (y, q) \<Longrightarrow> same_jobs w q = same_jobs w x"
    and "same_jobs w v"
  shows "same_jobs w v'"
  by (rule retry_inv [where P = "same_jobs w", OF _ _ _ assms(3,1)]) (simp_all add: assms(2))

lemma copy_object_jobs:
  assumes "copy_object src tgt k w = (r, w')"
  shows "same_jobs w w'"
proof -
  have put: "same_jobs w v'" if "retryMigration (PutObject tgt k p n) v = (a, v')" "same_jobs w v" for p n v a v'
    using retry_jobs [OF that(1) PutObject_jobs that(2)] .
  have stat: "same_jobs w v'" if "retryMigration (StatObject tgt k) v = (a, v')" "same_jobs w v" for v a v'
    using retry_jobs [OF that(1) StatObject_jobs that(2)] .
  show ?thesis
    using assms
    by (auto simp: copy_object_def Let_def split: sum.splits prod.splits if_splits
        dest!: GetObject_jobs [where w = w] StatObject_jobs [where w = w] intro: put stat dest: put stat)
qed

section \<open>Writing a job's row\<close>

lemma set_alist_update: "(j, x) \<in> set (AList.update k v xs) \<Longrightarrow> (j, x) = (k, v) \<or> (j, x) \<in> set xs"
  by (induction xs) (auto split: if_splits)

lemma updated_row_fields [simp]:
  "m_State (updated_row r t row) = mr_State r"
  "m_UserID (updated_row r t row) = m_UserID row"
  "m_Manifest (updated_row r t row) = Some \<lparr>mf_copied = mr_Copied r, mf_verified = mr_Verified r,
     mf_deleted = mr_Deleted r, mf_total = mr_Total r, mf_keys = mr_VerifiedKeys r\<rparr>"
  by (cases row; simp add: updated_row_def Let_def)+

lemma jobs_inv_update:
  assumes "jobs_inv w" and "i < mig_next w" and "waiting_state (m_State row) \<longrightarrow> fresh_row row"
    and "mig_tbl w' = AList.update i row (mig_tbl w)" and "mig_next w \<le> mig_next w'"
  shows "jobs_inv w'"
  unfolding jobs_inv_def
proof (intro conjI ballI)
  show "distinct (map fst (mig_tbl w'))" using assms(1,4) by (simp add: jobs_inv_def distinct_update)
  fix p assume p: "p \<in> set (mig_tbl w')"
  obtain j x where jx: "p = (j, x)" by (cases p)
  show "case p of (i, row) \<Rightarrow> i < mig_next w' \<and> (waiting_state (m_State row) \<longrightarrow> fresh_row row)"
    using set_alist_update [of j x i row "mig_tbl w"] p assms unfolding jx jobs_inv_def by fastforce
qed

lemma UpdateMigration_only:
  assumes "mr_ID r = i" and "waiting_state (mr_State r) \<longrightarrow> mr_VerifiedKeys r = [] \<and> mr_Verified r = 0"
  shows "only_job i w (snd (UpdateMigration r w))"
proof (cases "\<not> failing w \<and> mr_ID r \<noteq> 0 \<and> map_of (mig_tbl w) i \<noteq> None")
  case True
  then obtain row where row: "map_of (mig_tbl w) i = Some row" by auto
  let ?w = "snd (UpdateMigration r w)"
  have w': "mig_tbl ?w = AList.update i (updated_row r (now w) row) (mig_tbl w)" "mig_next ?w = mig_next w"
    using True row assms(1) by (auto simp: UpdateMigration_def drawn_def)
  have "jobs_inv ?w" if "jobs_inv w"
    by (rule jobs_inv_update [OF that _ _ w'(1)])
      (use that map_of_SomeD [OF row] assms(2) w'(2) in \<open>auto simp: jobs_inv_def fresh_row_def\<close>)
  then show ?thesis using w' by (simp add: only_job_def update_conv')
next
  case False
  then show ?thesis
    by (intro only_job_same) (use assms(1) in \<open>auto simp: UpdateMigration_def drawn_def\<close>)
qed

lemma store_update_only:
  assumes "store_update st r w = (x, w')" and "mr_ID r = i"
    and "waiting_state (mr_State r) \<longrightarrow> mr_VerifiedKeys r = [] \<and> mr_Verified r = 0"
  shows "only_job i w w'"
  using assms(1) UpdateMigration_only [OF assms(2,3), of w] by (auto simp: store_update_def split: if_splits)

lemma mig_fail_only: "only_job i w (snd (mig_fail st i e w))"
  using UpdateMigration_only [of "fail_record i e (now w)" i w]
  by (simp add: mig_fail_def fail_record_def)

lemma not_waiting [simp]: "\<not> waiting_state MigrationRunning" "\<not> waiting_state MigrationCompleted"
  by (simp_all add: waiting_state_def)

text \<open>A record of a running job.\<close>

definition running_rec :: "nat \<Rightarrow> migration_record \<Rightarrow> bool" where
  "running_rec i r = (mr_ID r = i \<and> mr_State r = MigrationRunning)"

lemma running_recs [simp]:
  "running_rec i (copied_record rec n k t) = running_rec i rec"
  "running_rec i (rec\<lparr>mr_Deleted := n, mr_UpdatedAt := t\<rparr>) = running_rec i rec"
  "running_rec i (start_record i u n keys t)"
  by (simp_all add: running_rec_def copied_record_def start_record_def)

lemma running_update: "store_update st r w = (x, w') \<Longrightarrow> running_rec i r \<Longrightarrow> only_job i w w'"
  by (auto simp: running_rec_def intro: store_update_only)

lemma copy_objects_only:
  "copy_objects st src tgt n m rec obs w = (r, w') \<Longrightarrow> running_rec i rec
    \<Longrightarrow> only_job i w w' \<and> (\<forall>rec'. r = Inr rec' \<longrightarrow> running_rec i rec')"
proof (induction obs arbitrary: m rec w)
  case (Cons ob obs)
  show ?case
  proof (cases "skip_object rec n m (oi_Key ob)")
    case True
    with Cons.prems(1) have "copy_objects st src tgt n (Suc m) rec obs w = (r, w')" by simp
    from Cons.IH [OF this Cons.prems(2)] show ?thesis .
  next
    case skip: False
    obtain c v where c: "copy_object src tgt (oi_Key ob) (drawn w) = (c, v)"
      by (cases "copy_object src tgt (oi_Key ob) (drawn w)")
    let ?rec = "copied_record rec m (oi_Key ob) (now v)"
    obtain p q where p: "store_update st ?rec v = (p, q)" by (cases "store_update st ?rec v")
    have v: "only_job i w v"
      using only_job_trans [OF same_jobs_only same_jobs_only [OF copy_object_jobs [OF c]], of w] by simp
    have q: "only_job i w q"
      by (rule only_job_trans [OF v running_update [OF p]]) (simp add: Cons.prems(2))
    show ?thesis
    proof (cases "\<not> failing w \<and> is_ok c \<and> is_ok p")
      case True
      then have "copy_objects st src tgt n (Suc m) ?rec obs q = (r, w')"
        using Cons.prems(1) skip c p by (auto simp: is_ok_def split: sum.splits)
      from Cons.IH [OF this] Cons.prems(2) show ?thesis using only_job_trans [OF q] by simp
    next
      case False
      then have "\<not> is_ok r \<and> (w' = drawn w \<or> w' = v \<or> w' = q)"
        using Cons.prems(1) skip c p by (auto simp: is_ok_def split: sum.splits if_splits)
      then show ?thesis using v q same_jobs_only [of w "drawn w" i] by auto
    qed
  qed
qed auto

lemma delete_source_only:
  "delete_source st src m rec obs w = (r, w') \<Longrightarrow> running_rec i rec
    \<Longrightarrow> only_job i w w' \<and> (\<forall>rec'. r = Inr rec' \<longrightarrow> running_rec i rec')"
proof (induction obs arbitrary: m rec w)
  case (Cons ob obs)
  obtain c v where c: "retryMigration (DeleteObject src (oi_Key ob)) (drawn w) = (c, v)"
    by (cases "retryMigration (DeleteObject src (oi_Key ob)) (drawn w)")
  let ?rec = "rec\<lparr>mr_Deleted := Suc m, mr_UpdatedAt := now v\<rparr>"
  obtain p q where p: "store_update st ?rec v = (p, q)" by (cases "store_update st ?rec v")
  have v: "only_job i w v"
    by (rule same_jobs_only, rule retry_jobs [OF c DeleteObject_jobs]) simp_all
  have q: "only_job i w q"
    by (rule only_job_trans [OF v running_update [OF p]]) (simp add: Cons.prems(2))
  show ?case
  proof (cases "\<not> failing w \<and> is_ok c \<and> is_ok p")
    case True
    then have "delete_source st src (Suc m) ?rec obs q = (r, w')"
      using Cons.prems(1) c p by (auto simp: is_ok_def split: sum.splits)
    from Cons.IH [OF this] Cons.prems(2) show ?thesis using only_job_trans [OF q] by simp
  next
    case False
    then have "\<not> is_ok r \<and> (w' = drawn w \<or> w' = v \<or> w' = q)"
      using Cons.prems(1) c p by (auto simp: is_ok_def split: sum.splits if_splits)
    then show ?thesis using v q same_jobs_only [of w "drawn w" i] by auto
  qed
qed auto

lemma run_locked_only:
  assumes co: "\<And>co u v. ms_cutover s = Some co \<Longrightarrow> same_jobs v (snd (co u v))"
    and run: "run_locked s i u src tgt w = (r, w')"
  shows "only_job i w w'"
proof -
  let ?st = "ms_store s"
  obtain cn v where c: "(if ?st then (case GetMigration i w of
        (Inr r, w) \<Rightarrow> (mr_State r = MigrationCancelled, w) | (Inl e, w) \<Rightarrow> (False, w)) else (False, w)) = (cn, v)"
    by fastforce
  have v: "same_jobs w v"
    using c by (auto split: if_splits sum.splits prod.splits dest!: GetMigration_jobs [of _ _ _ _ w])
  obtain l v1 where l: "ListObjects src (userPrefix u) 0 v = (l, v1)" by (cases "ListObjects src (userPrefix u) 0 v")
  have v1: "only_job i w v1" using ListObjects_jobs [OF l, of w] v by (simp add: same_jobs_only)
  have fail: "only_job i w (snd (mig_fail ?st i e x))" if "only_job i w x" for e x
    using only_job_trans [OF that mig_fail_only] .
  have failed: "only_job i w x'" if "mig_fail ?st i e x = (a, x')" "only_job i w x" for e x a x'
    using fail [OF that(2), of e] that(1) by simp
  show ?thesis
  proof (cases "cn \<or> \<not> is_ok l")
    case True
    then have "w' = v \<or> (\<exists>e. w' = snd (mig_fail ?st i e v1))"
      using run c l by (cases cn; cases l) (auto simp: run_locked_def Let_def, metis snd_conv)
    then show ?thesis using fail [OF v1] same_jobs_only [OF v] by auto
  next
    case False
    then obtain obs0 where obs0: "l = Inr obs0" by (cases l) auto
    let ?obs = "sort_key oi_Key obs0"
    obtain m keys v2 where rs: "resume_state ?st i (length ?obs) v1 = ((m, keys), v2)"
      by (metis surj_pair)
    let ?rec = "start_record i u (length ?obs) keys (now v1)"
    obtain x v3 where up: "store_update ?st ?rec v2 = (x, v3)" by (cases "store_update ?st ?rec v2")
    have v3: "only_job i w v3"
      using only_job_trans [OF v1 only_job_trans [OF same_jobs_only running_update [OF up]]]
        resume_jobs [OF rs, of v1] by simp
    obtain cr v4 where cp: "copy_objects ?st src tgt m 0 ?rec ?obs v3 = (cr, v4)"
      by (cases "copy_objects ?st src tgt m 0 ?rec ?obs v3")
    have v4: "only_job i w v4" "\<And>rec. cr = Inr rec \<Longrightarrow> running_rec i rec"
      using copy_objects_only [OF cp, of i] only_job_trans [OF v3] by simp_all
    note body = run [unfolded run_locked_def] c l False obs0 rs up cp
    show ?thesis
    proof (cases cr)
      case (Inl e)
      then have "w' = snd (mig_fail ?st i e v4)" using body by (simp add: Let_def)
      then show ?thesis using fail [OF v4(1)] by simp
    next
      case (Inr rec)
      obtain y v5 where cut: "(case ms_cutover s of None \<Rightarrow> (Inr (), v4) | Some co \<Rightarrow> co u v4) = (y, v5)"
        by fastforce
      have "same_jobs v4 (snd (case ms_cutover s of None \<Rightarrow> (Inr (), v4) | Some co \<Rightarrow> co u v4))"
        using co by (simp split: option.splits)
      then have v5: "only_job i w v5" using cut only_job_trans [OF v4(1) same_jobs_only] by simp
      obtain dl v6 where dl: "delete_source ?st src 0 rec ?obs v5 = (dl, v6)"
        by (cases "delete_source ?st src 0 rec ?obs v5")
      have v6: "only_job i w v6" "\<And>rec'. dl = Inr rec' \<Longrightarrow> running_rec i rec'"
        using delete_source_only [OF dl v4(2) [OF Inr]] only_job_trans [OF v5] by simp_all
      have fin: "only_job i w q" if "dl = Inr rec'"
        "store_update ?st (rec'\<lparr>mr_State := MigrationCompleted, mr_UpdatedAt := now v6\<rparr>) v6 = (z, q)" for rec' z q
        using only_job_trans [OF v6(1) store_update_only [OF that(2)]] v6(2) [OF that(1)]
        by (simp add: running_rec_def)
      show ?thesis
        using body Inr cut dl
        by (auto simp: Let_def split: sum.splits intro: failed v5 v6(1) fin)
    qed
  qed
qed

definition jobs_framed :: "'a mig_st_scheme migration_service \<Rightarrow> bool" where
  "jobs_framed s = ((\<forall>co. ms_cutover s = Some co \<longrightarrow> (\<forall>u v. same_jobs v (snd (co u v))))
     \<and> (\<forall>pair. ms_pair s = Some pair \<longrightarrow> (\<forall>u v. same_jobs v (snd (pair u v)))))"

lemma Run_only:
  assumes "jobs_framed s" and "Run (Some s) i u (Some src) (Some tgt) token w = (r, w')"
  shows "only_job i w w'"
  using Run_cases [OF assms(2)]
proof (elim disjE exE conjE)
  assume "w' = w" then show ?thesis by simp
next
  fix v q e
  assume l: "TryLock (mig_lock_key u) token (30 * minute) (start_run i w) = (v, q)"
    and w': "w' = leave_run i (snd (mig_fail (ms_store s) i e q))"
  have "only_job i w q" using lock_jobs(1) [OF l, of w] by (simp add: same_jobs_only)
  from only_job_trans [OF this mig_fail_only] have "only_job i w (snd (mig_fail (ms_store s) i e q))" .
  with w' show ?thesis
    using only_job_trans same_jobs_only jobs_env(5) same_jobs_refl by metis
next
  fix v q q'
  assume l: "(if ms_locker s then TryLock (mig_lock_key u) token (30 * minute) (start_run i w)
      else (v, start_run i w)) = (v, q)"
    and run: "run_locked s i u src tgt q = (r, q')"
    and w': "w' = leave_run i (if ms_locker s then snd (Unlock (mig_lock_key u) token q') else q')"
  have "same_jobs w q" using l lock_jobs(1) [of _ _ _ "start_run i w" v q w] by (auto split: if_splits)
  moreover have "only_job i q q'"
    by (rule run_locked_only [OF _ run]) (use assms(1) in \<open>auto simp: jobs_framed_def\<close>)
  moreover have "same_jobs q' w'" using w' lock_jobs(2) [of q' _ token q'] by simp
  ultimately show ?thesis using only_job_trans same_jobs_only by metis
qed

section \<open>Running jobs stay where they are\<close>

text \<open>A step keeps the invariant and every row in the state running.\<close>

definition jobs_move :: "'a mig_st_scheme \<Rightarrow> 'a mig_st_scheme \<Rightarrow> bool" where
  "jobs_move w w' = (jobs_inv w \<longrightarrow> jobs_inv w' \<and>
     (\<forall>i row. map_of (mig_tbl w) i = Some row \<and> m_State row = MigrationRunning
        \<longrightarrow> map_of (mig_tbl w') i = Some row))"

lemma jobs_move_trans: "jobs_move w v \<Longrightarrow> jobs_move v w' \<Longrightarrow> jobs_move w w'"
  by (simp add: jobs_move_def)

lemma jobs_move_same: "same_jobs w w' \<Longrightarrow> jobs_move w w'"
  by (simp add: jobs_move_def same_jobs_def jobs_inv_def)

lemma jobs_inv_map_of: "jobs_inv w \<Longrightarrow> map_of (mig_tbl w) i = Some row \<Longrightarrow>
    i < mig_next w \<and> (waiting_state (m_State row) \<longrightarrow> fresh_row row)"
  by (auto simp: jobs_inv_def dest!: map_of_SomeD)

definition not_running :: "nat \<Rightarrow> 'a mig_st_scheme \<Rightarrow> bool" where
  "not_running i w = (\<forall>row. map_of (mig_tbl w) i = Some row \<longrightarrow> m_State row \<noteq> MigrationRunning)"

lemma only_job_move: "only_job i w w' \<Longrightarrow> not_running i w \<Longrightarrow> jobs_move w w'"
  unfolding jobs_move_def only_job_def not_running_def by metis

definition new_row :: "uid \<Rightarrow> backend_type \<Rightarrow> backend_type \<Rightarrow> int \<Rightarrow> mig_row" where
  "new_row u st tt t = \<lparr>m_UserID = u, m_Source = st, m_Target = tt, m_State = MigrationPending,
     m_Manifest = None, m_LastError = [], m_UpdatedAt = t\<rparr>"

lemma CreateMigration_ok:
  assumes "CreateMigration u st tt w = (Inr rec, w')"
  shows "mr_ID rec = mig_next w \<and> w' = (drawn (drawn w))\<lparr>mig_tbl := AList.update (mig_next w)
    (new_row u st tt (now w)) (mig_tbl w), mig_next := Suc (mig_next w)\<rparr>"
proof -
  have m: "mig_next (drawn v) = mig_next v" "mig_tbl (drawn v) = mig_tbl v" "now (drawn v) = now v" for v :: "'a mig_st_scheme"
    by (simp_all add: drawn_def)
  show ?thesis
    using assms by (auto simp: CreateMigration_def Let_def new_row_def m split: if_splits)
qed

lemma new_row_fields [simp]:
  "m_State (new_row u st tt t) = MigrationPending" "fresh_row (new_row u st tt t)" "m_UserID (new_row u st tt t) = u"
  by (simp_all add: new_row_def fresh_row_def)

lemma CreateMigration_move:
  assumes "CreateMigration u st tt w = (Inr rec, w')"
  shows "jobs_move w w' \<and> not_running (mr_ID rec) w'"
proof -
  let ?v = "drawn (drawn w)" and ?row = "new_row u st tt (now w)"
  have v: "same_jobs w ?v" by simp
  have w': "mig_tbl w' = AList.update (mig_next w) ?row (mig_tbl w)" "mig_next w' = Suc (mig_next w)"
      "mr_ID rec = mig_next w"
    using CreateMigration_ok [OF assms] by simp_all
  have "jobs_inv w'" if "jobs_inv w"
  proof -
    have "jobs_inv (w\<lparr>mig_next := Suc (mig_next w)\<rparr>)" using that by (fastforce simp: jobs_inv_def)
    then show ?thesis by (rule jobs_inv_update [of _ "mig_next w" ?row]) (simp_all add: w')
  qed
  moreover have "map_of (mig_tbl w') i = Some r" if "jobs_inv w" "map_of (mig_tbl w) i = Some r" for i r
    using jobs_inv_map_of [OF that] that(2) by (auto simp: update_conv' w')
  ultimately show ?thesis by (simp add: jobs_move_def not_running_def w' update_conv')
qed

lemma start_move:
  assumes "jobs_framed s"
  shows "jobs_move w (snd (StartWithTypes (Some s) u src tgt st tt tok w))"
proof (cases "ms_store s")
  case True
  obtain c v where c: "CreateMigration u st tt w = (c, v)" by (cases "CreateMigration u st tt w")
  show ?thesis
  proof (cases c)
    case (Inl e)
    then have "same_jobs w v" using c by (auto simp: CreateMigration_def Let_def split: if_splits)
    then show ?thesis using c Inl True by (simp add: StartWithTypes_def jobs_move_same)
  next
    case (Inr rec)
    note create = CreateMigration_move [OF c [unfolded Inr]]
    obtain r q where run: "Run (Some s) (mr_ID rec) u src tgt tok v = (r, q)"
      by (cases "Run (Some s) (mr_ID rec) u src tgt tok v")
    have "jobs_move v q"
    proof (cases "src = None \<or> tgt = None")
      case True
      then have "q = v" using run by (cases src; cases tgt) (auto simp: Run_def)
      then show ?thesis by (simp add: jobs_move_same)
    next
      case False
      then obtain a b where "src = Some a" "tgt = Some b" by auto
      with run have "only_job (mr_ID rec) v q" using Run_only [OF assms] by blast
      then show ?thesis using only_job_move create by blast
    qed
    then have wq: "jobs_move w q" using create jobs_move_trans by blast
    show ?thesis
    proof (cases r)
      case (Inl e)
      then show ?thesis using c Inr run True wq by (simp add: StartWithTypes_def)
    next
      case ok: (Inr x)
      obtain g q' where g: "GetMigration (mr_ID rec) q = (g, q')" by (cases "GetMigration (mr_ID rec) q")
      have "jobs_move q q'" using GetMigration_jobs [OF g, of q] by (simp add: jobs_move_same)
      then show ?thesis using c Inr run True ok g jobs_move_trans [OF wq] by (simp add: StartWithTypes_def)
    qed
  qed
qed (simp add: StartWithTypes_def jobs_move_same)

lemma process_jobs_move:
  assumes "jobs_framed s" and "ms_pair s = Some pair"
  shows "process_jobs s pair tok js err w = (r, w') \<Longrightarrow> distinct (map mr_ID js)
    \<Longrightarrow> (\<forall>j \<in> set js. not_running (mr_ID j) w) \<Longrightarrow> jobs_move w w'"
proof (induction js arbitrary: err w)
  case (Cons j js)
  obtain p v where p: "pair (mr_UserID j) w = (p, v)" by (cases "pair (mr_UserID j) w")
  have v: "same_jobs w v" using assms p unfolding jobs_framed_def by (metis snd_conv)
  have nv: "\<forall>j \<in> set (j # js). not_running (mr_ID j) v"
    using Cons.prems(3) v by (simp add: not_running_def same_jobs_def)
  show ?case
  proof (cases p)
    case (Inl e)
    then obtain err' where "process_jobs s pair tok js err' v = (r, w')" using Cons.prems(1) p by auto
    from Cons.IH [OF this] nv Cons.prems(2) have "jobs_move v w'" by simp
    then show ?thesis using jobs_move_trans [OF jobs_move_same [OF v]] by blast
  next
    case (Inr st)
    obtain src tgt where st: "st = (src, tgt)" by (cases st)
    obtain x q where run: "Run (Some s) (mr_ID j) (mr_UserID j) (Some src) (Some tgt) (tok (mr_ID j)) v = (x, q)"
      by (cases "Run (Some s) (mr_ID j) (mr_UserID j) (Some src) (Some tgt) (tok (mr_ID j)) v")
    note only = Run_only [OF assms(1) run]
    obtain err' where rest: "process_jobs s pair tok js err' q = (r, w')"
      using Cons.prems(1) p Inr st run by (auto split: sum.splits)
    have "\<forall>j' \<in> set js. not_running (mr_ID j') q"
    proof
      fix j' assume "j' \<in> set js"
      moreover from this Cons.prems(2) have "mr_ID j' \<noteq> mr_ID j" by (metis distinct.simps(2) list.simps(9) image_eqI list.set_map)
      ultimately show "not_running (mr_ID j') q" using nv only by (simp add: not_running_def only_job_def)
    qed
    from Cons.IH [OF rest _ this] Cons.prems(2) have "jobs_move q w'" by simp
    moreover have "jobs_move w q"
      using jobs_move_trans [OF jobs_move_same [OF v] only_job_move [OF only]] nv by simp
    ultimately show ?thesis by (rule jobs_move_trans [rotated])
  qed
qed (simp add: jobs_move_same)

lemma pending_waiting:
  assumes "ListPendingMigrations n w = (Inr js, v)" and "jobs_inv w"
  shows "distinct (map mr_ID js) \<and> (\<forall>j \<in> set js. not_running (mr_ID j) v) \<and> same_jobs w v"
proof -
  let ?rows = "sort_key (\<lambda>(_, row). m_UpdatedAt row) (filter (\<lambda>(_, row). waiting_state (m_State row)) (mig_tbl w))"
  let ?f = "\<lambda>(i, row). \<lparr>mr_ID = i, mr_UserID = m_UserID row, mr_State = m_State row, mr_Copied = 0,
     mr_Verified = 0, mr_Total = 0, mr_Deleted = 0, mr_LastError = [], mr_VerifiedKeys = [],
     mr_UpdatedAt = m_UpdatedAt row\<rparr>"
  have js: "v = drawn w" "\<exists>k. js = take k (map ?f ?rows)"
    using assms(1) by (auto simp: ListPendingMigrations_def Let_def split: if_splits)
  then obtain k where k: "js = take k (map ?f ?rows)" by blast
  have ids: "map mr_ID js = take k (map fst ?rows)"
    by (simp add: k take_map case_prod_unfold comp_def)
  have "distinct (map fst ?rows)"
    using assms(2) distinct_map_filter [of fst "mig_tbl w"] by (simp add: jobs_inv_def distinct_map inj_on_def)
  then have "distinct (map mr_ID js)" by (simp add: ids)
  moreover have "not_running (mr_ID j) v" if "j \<in> set js" for j
  proof -
    have "j \<in> ?f ` set ?rows" using that set_take_subset k by fastforce
    then obtain i row where "(i, row) \<in> set (mig_tbl w)" "waiting_state (m_State row)" "mr_ID j = i" by auto
    moreover from this have "map_of (mig_tbl w) i = Some row"
      using assms(2) by (simp add: jobs_inv_def)
    ultimately show ?thesis using js(1) by (auto simp: not_running_def waiting_state_def)
  qed
  ultimately show ?thesis using js(1) by simp
qed

lemma mig_step_move:
  assumes "mig_step s w w'" and "jobs_framed s" and "jobs_inv w"
  shows "jobs_move w w'"
  using assms(1)
proof (cases rule: mig_step.cases)
  case step_start
  then show ?thesis using start_move [OF assms(2)] by simp
next
  case (step_process tok)
  obtain l v where l: "ListPendingMigrations 10 w = (l, v)" by (cases "ListPendingMigrations 10 w")
  have wv: "same_jobs w v"
    using l by (auto simp: ListPendingMigrations_def Let_def split: if_splits)
  show ?thesis
  proof (cases "ms_store s \<and> ms_pair s \<noteq> None \<and> is_ok l")
    case True
    then obtain pair js where pj: "ms_pair s = Some pair" "l = Inr js" by (cases l) auto
    obtain r q where q: "process_jobs s pair tok js None v = (r, q)"
      by (cases "process_jobs s pair tok js None v")
    have "w' = q" using step_process True pj l q by (simp add: ProcessPending_def)
    moreover have "jobs_move v q"
      using process_jobs_move [OF assms(2) pj(1) q] pending_waiting [OF l [unfolded pj(2)] assms(3)] by blast
    ultimately show ?thesis using jobs_move_trans [OF jobs_move_same [OF wv]] by simp
  next
    case False
    then have "w' = w \<or> w' = v"
      using step_process l by (auto simp: ProcessPending_def is_ok_def split: bool.splits option.splits sum.splits)
    then show ?thesis using wv by (auto intro: jobs_move_same)
  qed
next
  case (step_cancel i)
  have "jobs_move w (snd (CancelMigration i w))"
  proof (cases "\<not> failing w \<and> (\<exists>row. map_of (mig_tbl w) i = Some row \<and> waiting_state (m_State row))")
    case True
    then obtain row where row: "map_of (mig_tbl w) i = Some row" "waiting_state (m_State row)" "\<not> failing w" by blast
    let ?w = "snd (CancelMigration i w)" and ?row = "row\<lparr>m_State := MigrationCancelled, m_UpdatedAt := now w\<rparr>"
    have w': "mig_tbl ?w = AList.update i ?row (mig_tbl w)" "mig_next ?w = mig_next w"
      using row by (simp_all add: CancelMigration_def drawn_def)
    have "jobs_inv ?w"
      by (rule jobs_inv_update [OF assms(3) _ _ w'(1)])
        (use jobs_inv_map_of [OF assms(3) row(1)] w'(2) in \<open>simp_all add: waiting_state_def\<close>)
    then show ?thesis using row w' by (auto simp: jobs_move_def update_conv' waiting_state_def)
  next
    case False
    then show ?thesis
      by (intro jobs_move_same) (auto simp: CancelMigration_def split: option.splits)
  qed
  then show ?thesis using step_cancel by (auto simp: Cancel_def intro: jobs_move_same)
next
  case step_other
  then show ?thesis by (simp add: jobs_move_same same_jobs_def)
qed

lemma mig_run_move:
  assumes "(mig_step s)\<^sup>*\<^sup>* w w'" and "jobs_framed s" and "jobs_inv w"
  shows "jobs_move w w' \<and> jobs_inv w'"
  using assms(1)
proof (induction rule: rtranclp_induct)
  case base
  show ?case using assms(3) by (simp add: jobs_move_same)
next
  case (step v w')
  then have "jobs_move v w'" using mig_step_move assms(2) by blast
  then show ?case using step.IH jobs_move_trans by (metis jobs_move_def)
qed

text \<open>No job that waits to be run, failed ones included, has any progress recorded: a failure
  overwrites the manifest with an empty one, so a retried job copies every object again.\<close>
theorem waiting_jobs_start_over:
  assumes "(mig_step s)\<^sup>*\<^sup>* w w'" and "jobs_framed s" and "mig_tbl w = []"
    and "map_of (mig_tbl w') i = Some row" and "waiting_state (m_State row)"
  shows "fresh_row row \<and> i < mig_next w'"
proof -
  have "jobs_inv w" using assms(3) by (simp add: jobs_inv_def)
  from mig_run_move [OF assms(1,2) this] show ?thesis
    using jobs_inv_map_of assms(4,5) by blast
qed

text \<open>A job left in the state running, because the process stopped or because writing the failure
  failed, is never touched again: no sequence of operations changes its row, it cannot be
  cancelled, and every further migration of its user is refused.\<close>
theorem interrupted_job_blocks_user:
  assumes "(mig_step s)\<^sup>*\<^sup>* w w'" and "jobs_framed s" and "jobs_inv w"
    and "map_of (mig_tbl w) i = Some row" and "m_State row = MigrationRunning"
  shows "map_of (mig_tbl w') i = Some row \<and> \<not> is_ok (fst (Cancel (Some s) i w'))
    \<and> \<not> is_ok (fst (CreateMigration (m_UserID row) st tt w'))"
proof -
  have row: "map_of (mig_tbl w') i = Some row"
    using mig_run_move [OF assms(1-3)] assms(3,4,5) by (simp add: jobs_move_def)
  then have "(i, row) \<in> set (mig_tbl w')" by (rule map_of_SomeD)
  then have "list_ex (\<lambda>(_, r). m_UserID r = m_UserID row \<and> active_state (m_State r)) (mig_tbl w')"
    using assms(5) by (auto simp: list_ex_iff active_state_def)
  then show ?thesis
    using row assms(5)
    by (auto simp: Cancel_def CancelMigration_def CreateMigration_def Let_def waiting_state_def drawn_def)
qed

end
