(* ===== verification/MigrationRuns.thy ===== *)
theory MigrationRuns
  imports MigrationJobs
begin

text \<open>
  Runs that succeed: what a successful run has done, whatever failed and was retried on the way, and that
  a run without failing calls does succeed.
\<close>

section \<open>A successful run\<close>

lemma listing_complete:
  assumes "ListObjects sid p 0 w = (Inr obs, w')" and "HasPrefix k p" and "contents w sid k \<noteq> None"
  shows "k \<in> oi_Key ` set obs"
proof -
  have obs: "obs = listing w sid p"
    using assms(1) by (auto simp: ListObjects_def Let_def listing_def split: sum.splits if_splits)
  obtain ob where "map_of (stores w sid) k = Some ob" using assms(3) by (auto simp: contents_def)
  then have "(k, ob) \<in> set (stores w sid)" by (rule map_of_SomeD)
  then have "info_of k ob \<in> set obs" using assms(2) by (force simp: obs listing_def)
  then show ?thesis by (force simp: info_of_def)
qed

lemma run_locked_success:
  assumes "cutover_frames s" and "honest_job src tgt i w"
    and run: "run_locked s i u src tgt w = (Inr (), w')" and "HasPrefix k (userPrefix u)"
  shows "contents w' src k = None \<and>
    (src \<noteq> tgt \<longrightarrow> contents w src k \<noteq> None \<longrightarrow> contents w' tgt k = contents w src k)"
proof -
  let ?st = "ms_store s"
  obtain cn v where c: "(if ?st then (case GetMigration i w of
        (Inr r, w) \<Rightarrow> (mr_State r = MigrationCancelled, w) | (Inl e, w) \<Rightarrow> (False, w)) else (False, w)) = (cn, v)"
    by fastforce
  have v: "stores v = stores w" "mig_tbl v = mig_tbl w"
    using c by (auto split: if_splits sum.splits prod.splits dest!: GetMigration_mig)
  obtain l v1 where l: "ListObjects src (userPrefix u) 0 v = (l, v1)" by (cases "ListObjects src (userPrefix u) 0 v")
  have v1: "stores v1 = stores w" "mig_tbl v1 = mig_tbl w"
    using ListObjects_stores [OF l] ListObjects_mig [of src "userPrefix u" 0 v] l v by simp_all
  have "\<not> cn" "is_ok l"
    using run c l by (auto simp: run_locked_def Let_def mig_fail_def split: if_splits sum.splits)
  then obtain obs0 where obs0: "l = Inr obs0" by (cases l) auto
  let ?obs = "sort_key oi_Key obs0"
  obtain m keys v2 where rs: "resume_state ?st i (length ?obs) v1 = ((m, keys), v2)"
    by (metis surj_pair)
  let ?rec = "start_record i u (length ?obs) keys (now v1)"
  obtain x v3 where up: "store_update ?st ?rec v2 = (x, v3)" by (cases "store_update ?st ?rec v2")
  have v3: "stores v3 = stores w"
    using store_update_stores [OF up] table_bound(5) [OF rs] v1 by simp
  obtain cr v4 where co: "copy_objects ?st src tgt m 0 ?rec ?obs v3 = (cr, v4)"
    by (cases "copy_objects ?st src tgt m 0 ?rec ?obs v3")
  note body = run [unfolded run_locked_def] c l \<open>\<not> cn\<close> obs0 rs up co
  obtain rec where rec: "cr = Inr rec" using body by (cases cr) (auto simp: Let_def mig_fail_def)
  obtain y v5 where cut: "(case ms_cutover s of None \<Rightarrow> (Inr (), v4) | Some co \<Rightarrow> co u v4) = (y, v5)"
    by fastforce
  have "stores (snd (case ms_cutover s of None \<Rightarrow> (Inr (), v4) | Some co \<Rightarrow> co u v4)) = stores v4"
    using assms(1) by (simp add: cutover_frames_def split: option.splits)
  then have v5: "stores v5 = stores v4" using cut by simp
  obtain dl v6 where dl: "delete_source ?st src 0 rec ?obs v5 = (dl, v6)"
    by (cases "delete_source ?st src 0 rec ?obs v5")
  obtain rec' where rec': "dl = Inr rec'" and w': "stores w' = stores v6"
    using body rec cut dl
    by (cases y; cases dl) (auto simp: Let_def mig_fail_def dest: store_update_stores)
  have listed: "k \<in> oi_Key ` set ?obs" if "contents w src k \<noteq> None"
    using listing_complete [OF l [unfolded obs0] assms(4)] that by (simp add: contents_def v(1))
  have copied: "same_but tgt (oi_Key ` set ?obs) w v4"
    using copy_objects_same_but [OF co] same_but_trans [OF same_but_stores [OF v3]] by blast
  have "contents v5 src k = None" if "k \<notin> oi_Key ` set ?obs"
    using copied that listed contents_stores [OF v5] by (auto simp: same_but_def)
  then have gone: "contents w' src k = None"
    using delete_source_gone [OF dl [unfolded rec'], of k] contents_stores [OF w']
    by (cases "k \<in> oi_Key ` set ?obs") simp_all
  have "contents w' tgt k = contents w src k" if "src \<noteq> tgt" "contents w src k \<noteq> None"
  proof -
    have "(m = 0 \<or> keys \<noteq> []) \<and> agree src tgt (set keys) v2"
      using resume_honest [OF rs] assms(2) honest_same [OF v1(2) v1(1)] by blast
    then have "agree src tgt (set (mr_VerifiedKeys rec)) v4" "oi_Key ` set ?obs \<subseteq> set (mr_VerifiedKeys rec)"
      using copy_objects_agree [OF that(1) co [unfolded rec]] agree_stores [OF store_update_stores [OF up]]
      by (auto simp: start_record_def)
    then have "contents v4 tgt k = contents v4 src k" using listed [OF that(2)] by (auto simp: agree_def)
    also have "\<dots> = contents w src k" using copied that(1) by (simp add: same_but_def)
    finally show ?thesis
      using delete_source_same_but [OF dl] that(1) contents_stores [OF v5] contents_stores [OF w']
      by (simp add: same_but_def)
  qed
  with gone show ?thesis by simp
qed

lemma Run_success:
  assumes "cutover_frames s" and "honest_job src tgt i w"
    and "Run (Some s) i u (Some src) (Some tgt) token w = (Inr (), w')" and "HasPrefix k (userPrefix u)"
  shows "contents w' src k = None \<and>
    (src \<noteq> tgt \<longrightarrow> contents w src k \<noteq> None \<longrightarrow> contents w' tgt k = contents w src k)"
proof -
  from Run_cases [OF assms(3)] obtain v q q' where
    l: "(if ms_locker s then TryLock (mig_lock_key u) token (30 * minute) (start_run i w)
      else (v, start_run i w)) = (v, q)"
    and run: "run_locked s i u src tgt q = (Inr (), q')"
    and w': "w' = leave_run i (if ms_locker s then snd (Unlock (mig_lock_key u) token q') else q')"
    by auto
  have q: "stores q = stores w" "mig_tbl q = mig_tbl w"
    using l by (auto split: if_splits dest!: TryLock_bound)
  have "stores w' = stores q'" using w' by simp
  with run_locked_success [OF assms(1) _ run assms(4)] assms(2) honest_same [OF q(2,1)] q(1)
  show ?thesis by (simp add: contents_def)
qed

text \<open>C17: When a run between two different stores reports success, the user's objects have moved:
  every object the source held is in the target with its content, and the source holds none.\<close>
theorem successful_run_moves_objects:
  assumes "src \<noteq> tgt" and "cutover_frames s" and "honest_job src tgt i w"
    and "Run (Some s) i u (Some src) (Some tgt) token w = (Inr (), w')" and "HasPrefix k (userPrefix u)"
  shows "contents w' src k = None \<and>
    (contents w src k \<noteq> None \<longrightarrow> contents w' tgt k = contents w src k)"
  using Run_success [OF assms(2-5)] assms(1) by blast

section \<open>A run without failing calls\<close>

text \<open>What a calm run keeps: no failures pending, the store's entity tags and the configurations.\<close>

definition calm_like :: "'a mig_st_scheme \<Rightarrow> 'a mig_st_scheme \<Rightarrow> bool" where
  "calm_like w v = (calm v \<and> etag_fn v = etag_fn w \<and> config_tbl v = config_tbl w)"

lemma calm_like_trans: "calm_like w v \<Longrightarrow> calm_like v x \<Longrightarrow> calm_like w x"
  by (simp add: calm_like_def)

lemma calm_like_env [simp]:
  "calm w \<Longrightarrow> calm_like w w"
  "calm_like w (put_bucket sid b v) = calm_like w v"
  "calm_like w (start_run i v) = calm_like w v" "calm_like w (leave_run i v) = calm_like w v"
  "calm_like w (v\<lparr>mig_tbl := t\<rparr>) = calm_like w v"
  by (simp_all add: calm_like_def put_bucket_def start_run_def leave_run_def calm_def)

lemma calm_like_drawn [simp]: "calm_like w v \<Longrightarrow> calm_like w (drawn v)"
proof -
  have "config_tbl (drawn v) = config_tbl v" by (simp add: drawn_def)
  then show "calm_like w v \<Longrightarrow> calm_like w (drawn v)" by (simp add: calm_like_def calm_drawn)
qed

lemma calm_likeD: "calm_like w v \<Longrightarrow> calm v"
  by (simp add: calm_like_def)

lemma store_calm:
  assumes "calm w" and "validateKey k = Inr ()" and "map_of (stores w sid) k = Some ob"
  shows "StatObject sid k w = (Inr (info_of k ob), drawn w)"
    and "GetObject sid k w = (Inr (so_Data ob, info_of k ob), drawn (drawn w))"
    and "DeleteObject sid k w = (Inr (), put_bucket sid (AList.delete k (stores w sid)) (drawn w))"
proof -
  show stat: "StatObject sid k w = (Inr (info_of k ob), drawn w)"
    using assms by (simp add: StatObject_def calm_not_failing Let_def)
  have "\<not> failing (drawn w)" using assms(1) by (simp add: calm_drawn calm_not_failing)
  then show "GetObject sid k w = (Inr (so_Data ob, info_of k ob), drawn (drawn w))"
    using assms by (simp add: GetObject_def StatObject_def calm_not_failing Let_def)
  show "DeleteObject sid k w = (Inr (), put_bucket sid (AList.delete k (stores w sid)) (drawn w))"
    using assms by (simp add: DeleteObject_def calm_not_failing Let_def)
qed

lemma PutObject_calm:
  assumes "calm w" and "validateKey k = Inr ()"
  shows "PutObject sid k d (int (length d)) w =
    (let ob = \<lparr>so_Data = d, so_ETag = etag_fn w sid d, so_Modified = now w\<rparr> in
     (Inr (info_of k ob), drawn (put_bucket sid (AList.update k ob (stores w sid)) (drawn w))))"
proof -
  let ?ob = "\<lparr>so_Data = d, so_ETag = etag_fn w sid d, so_Modified = now w\<rparr>"
  let ?v = "put_bucket sid (AList.update k ?ob (stores w sid)) (drawn w)"
  have "StatObject sid k ?v = (Inr (info_of k ?ob), drawn ?v)"
    by (rule store_calm(1)) (use assms in \<open>simp_all add: calm_drawn update_conv'\<close>)
  then show ?thesis
    using assms by (simp add: PutObject_def calm_not_failing Let_def)
qed

text \<open>An object a calm run can copy: in size, under a key the client accepts, with agreeing tags.\<close>

definition copyable :: "store_id \<Rightarrow> store_id \<Rightarrow> 'a obj_st_scheme \<Rightarrow> string \<Rightarrow> bool" where
  "copyable src tgt w k = (validateKey k = Inr () \<and> (case map_of (stores w src) k of None \<Rightarrow> False
     | Some ob \<Rightarrow> int (length (so_Data ob)) \<le> maxMigrationObjectSize \<and>
         (so_ETag ob = [] \<or> etag_fn w tgt (so_Data ob) = [] \<or> so_ETag ob = etag_fn w tgt (so_Data ob))))"

lemma copyable_same: "stores v = stores w \<Longrightarrow> etag_fn v = etag_fn w \<Longrightarrow> copyable src tgt v k = copyable src tgt w k"
  by (simp add: copyable_def split: option.splits)

lemma copy_object_calm:
  assumes "calm w" and "copyable src tgt w k"
  shows "\<exists>v ob. copy_object src tgt k w = (Inr (), v) \<and> calm_like w v \<and> same_jobs w v \<and>
    so_ETag ob = etag_fn w tgt (so_Data ob) \<and> int (length (so_Data ob)) \<le> maxMigrationObjectSize \<and>
    stores v = (stores w)(tgt := AList.update k ob (stores w tgt))"
proof -
  obtain ob where ob: "validateKey k = Inr ()" "map_of (stores w src) k = Some ob"
      "int (length (so_Data ob)) \<le> maxMigrationObjectSize"
      "so_ETag ob = [] \<or> etag_fn w tgt (so_Data ob) = [] \<or> so_ETag ob = etag_fn w tgt (so_Data ob)"
    using assms(2) by (auto simp: copyable_def split: option.splits)
  let ?d = "so_Data ob"
  let ?new = "\<lparr>so_Data = ?d, so_ETag = etag_fn w tgt ?d, so_Modified = now w\<rparr>"
  let ?w3 = "drawn (drawn (drawn w))"
  let ?w5 = "drawn (put_bucket tgt (AList.update k ?new (stores w tgt)) (drawn ?w3))"
  have c3: "calm ?w3" using assms(1) by (simp add: calm_drawn)
  have p: "take (nat (maxMigrationObjectSize + 1)) ?d = ?d"
    using ob(3) by (auto simp: take_all_iff)
  have put: "PutObject tgt k ?d (int (length ?d)) ?w3 = (Inr (info_of k ?new), ?w5)"
    using PutObject_calm [OF c3 ob(1), of tgt ?d] by (simp add: Let_def)
  have rput: "retryMigration (PutObject tgt k ?d (int (length ?d))) ?w3 = (Inr (info_of k ?new), ?w5)"
    using put by (rule retry_calm)
  have c5: "calm ?w5" using c3 by (simp add: calm_drawn)
  have stat: "StatObject tgt k ?w5 = (Inr (info_of k ?new), drawn ?w5)"
    by (rule store_calm(1) [OF c5 ob(1)]) (simp add: update_conv')
  have size_ok: "oi_Size (info_of k ob) = int (length ?d)" by (simp add: info_of_def)
  have nomis: "\<not> mismatch (info_of k ?new) (info_of k ob)"
    using ob(4) by (auto simp: mismatch_def info_of_def)
  have nf: "\<not> failing (drawn (drawn w))" using assms(1) by (simp add: calm_drawn calm_not_failing)
  have "copy_object src tgt k w = (Inr (), drawn ?w5)"
    using nf ob(3) nomis rput stat
    by (simp add: copy_object_def store_calm(2) [OF assms(1) ob(1,2)] Let_def p size_ok)
  moreover have "calm_like w (drawn ?w5)" using assms(1) by simp
  moreover have "same_jobs w (drawn ?w5)" by simp
  ultimately show ?thesis using ob(3)
    by (intro exI [of _ "drawn ?w5"] exI [of _ ?new]) simp
qed

lemma UpdateMigration_calm:
  assumes "calm w" and "mr_ID r \<noteq> 0"
  shows "\<exists>v. UpdateMigration r w = (Inr (), v) \<and> calm_like w v \<and> stores v = stores w"
  using assms by (auto simp: UpdateMigration_def calm_not_failing split: option.splits)

lemma store_update_calm:
  assumes "calm w" and "mr_ID r \<noteq> 0"
  shows "\<exists>v. store_update st r w = (Inr (), v) \<and> calm_like w v \<and> stores v = stores w"
  using UpdateMigration_calm [OF assms] assms(1) by (cases st) (auto simp: store_update_def)

lemma copy_objects_calm:
  "calm w \<Longrightarrow> mr_ID rec \<noteq> 0 \<Longrightarrow> (\<forall>k \<in> oi_Key ` set obs. copyable src tgt w k)
    \<Longrightarrow> \<exists>rec' v. copy_objects st src tgt n i rec obs w = (Inr rec', v) \<and> calm_like w v \<and> mr_ID rec' \<noteq> 0"
proof (induction obs arbitrary: i rec w)
  case (Cons ob obs)
  show ?case
  proof (cases "skip_object rec n i (oi_Key ob)")
    case True
    then show ?thesis using Cons.IH [of w rec "Suc i"] Cons.prems by simp
  next
    case False
    let ?k = "oi_Key ob"
    have "copyable src tgt (drawn w) ?k" "calm (drawn w)"
      using Cons.prems(1,3) copyable_same [of "drawn w" w src tgt ?k] by (simp_all add: calm_drawn)
    then obtain v new where v: "copy_object src tgt ?k (drawn w) = (Inr (), v)" "calm_like (drawn w) v"
        "so_ETag new = etag_fn w tgt (so_Data new)" "int (length (so_Data new)) \<le> maxMigrationObjectSize"
        "stores v = (stores w)(tgt := AList.update ?k new (stores w tgt))"
      using copy_object_calm [of "drawn w" src tgt ?k] by auto
    have wv: "calm_like w v" using calm_like_trans [OF _ v(2), of w] Cons.prems(1) by simp
    let ?rec = "copied_record rec i ?k (now v)"
    have id: "mr_ID ?rec \<noteq> 0" using Cons.prems(2) by (simp add: copied_record_def)
    obtain q where q: "store_update st ?rec v = (Inr (), q)" "calm_like v q" "stores q = stores v"
      using store_update_calm [OF calm_likeD [OF wv] id] by blast
    have wq: "calm_like w q" by (rule calm_like_trans [OF wv q(2)])
    have "copyable src tgt q k" if "k \<in> oi_Key ` set obs" for k
    proof -
      have "copyable src tgt w k" using Cons.prems(3) that by auto
      moreover have "etag_fn q = etag_fn w" using wq by (simp add: calm_like_def)
      ultimately show ?thesis using v(3,4)
        by (auto simp: copyable_def q(3) v(5) update_conv' split: option.splits)
    qed
    then obtain rec' x where "copy_objects st src tgt n (Suc i) ?rec obs q = (Inr rec', x)"
        "calm_like q x" "mr_ID rec' \<noteq> 0"
      using Cons.IH [OF calm_likeD [OF wq] id] by blast
    moreover from this have "calm_like w x" using calm_like_trans [OF wq] by blast
    ultimately show ?thesis using False v(1) q(1) Cons.prems(1) by (simp add: calm_not_failing)
  qed
qed simp

lemma DeleteObject_calm_keys:
  assumes "calm w" and "validateKey k = Inr ()"
  shows "\<exists>v. retryMigration (DeleteObject sid k) w = (Inr (), v) \<and> calm_like w v"
proof -
  have "DeleteObject sid k w = (Inr (), put_bucket sid (AList.delete k (stores w sid)) (drawn w))"
    using assms by (simp add: DeleteObject_def calm_not_failing Let_def)
  then have "retryMigration (DeleteObject sid k) w = (Inr (), put_bucket sid (AList.delete k (stores w sid)) (drawn w))"
    by (rule retry_calm)
  then show ?thesis using assms(1) by simp
qed

lemma delete_source_calm:
  "calm w \<Longrightarrow> mr_ID rec \<noteq> 0 \<Longrightarrow> (\<forall>k \<in> oi_Key ` set obs. validateKey k = Inr ())
    \<Longrightarrow> \<exists>rec' v. delete_source st src i rec obs w = (Inr rec', v) \<and> calm_like w v \<and> mr_ID rec' \<noteq> 0"
proof (induction obs arbitrary: i rec w)
  case (Cons ob obs)
  obtain v where v: "retryMigration (DeleteObject src (oi_Key ob)) (drawn w) = (Inr (), v)" "calm_like (drawn w) v"
    using DeleteObject_calm_keys [of "drawn w" "oi_Key ob" src] Cons.prems(1,3) by (auto simp: calm_drawn)
  have wv: "calm_like w v" using calm_like_trans [OF _ v(2), of w] Cons.prems(1) by simp
  let ?rec = "rec\<lparr>mr_Deleted := Suc i, mr_UpdatedAt := now v\<rparr>"
  have id: "mr_ID ?rec \<noteq> 0" using Cons.prems(2) by simp
  obtain q where q: "store_update st ?rec v = (Inr (), q)" "calm_like v q"
    using store_update_calm [OF calm_likeD [OF wv] id] by blast
  have wq: "calm_like w q" by (rule calm_like_trans [OF wv q(2)])
  obtain rec' x where "delete_source st src (Suc i) ?rec obs q = (Inr rec', x)" "calm_like q x" "mr_ID rec' \<noteq> 0"
    using Cons.IH [OF calm_likeD [OF wq] id, of "Suc i"] Cons.prems(3) by auto
  moreover from this have "calm_like w x" using calm_like_trans [OF wq] by blast
  ultimately show ?case using v(1) q(1) Cons.prems(1) by (simp add: calm_not_failing)
qed simp

text \<open>A cutover that works whenever the configurations are as they were at the start.\<close>

definition cutover_works :: "'a mig_st_scheme migration_service \<Rightarrow> uid \<Rightarrow> 'a mig_st_scheme \<Rightarrow> bool" where
  "cutover_works s u w = (\<forall>co v. ms_cutover s = Some co \<and> calm_like w v
     \<longrightarrow> fst (co u v) = Inr () \<and> calm (snd (co u v)))"

definition all_copyable :: "uid \<Rightarrow> store_id \<Rightarrow> store_id \<Rightarrow> 'a obj_st_scheme \<Rightarrow> bool" where
  "all_copyable u src tgt w = (\<forall>(k, ob) \<in> set (stores w src). HasPrefix k (userPrefix u) \<longrightarrow> copyable src tgt w k)"

lemma run_locked_calm:
  assumes "calm w" and "i \<noteq> 0" and "cutover_works s u w" and "all_copyable u src tgt w"
    and open_job: "\<And>row. map_of (mig_tbl w) i = Some row \<Longrightarrow> m_State row \<noteq> MigrationCancelled"
  shows "\<exists>w'. run_locked s i u src tgt w = (Inr (), w')"
proof -
  let ?st = "ms_store s"
  obtain cn v where c: "(if ?st then (case GetMigration i w of
        (Inr r, w) \<Rightarrow> (mr_State r = MigrationCancelled, w) | (Inl e, w) \<Rightarrow> (False, w)) else (False, w)) = (cn, v)"
    by fastforce
  have v: "\<not> cn" "v = w \<or> v = drawn w"
    using c open_job by (auto simp: GetMigration_def split: if_splits option.splits)
  then have wv: "calm_like w v" "stores v = stores w" using assms(1) by auto
  let ?obs0 = "listing v src (userPrefix u)"
  have l: "ListObjects src (userPrefix u) 0 v = (Inr ?obs0, drawn v)"
    using validateKey_userPrefix [of u] calm_likeD [OF wv(1)]
    by (cases "validateKey (trim_slash (userPrefix u))")
      (simp_all add: ListObjects_def Let_def listing_def userPrefix_def calm_not_failing)
  let ?obs = "sort_key oi_Key ?obs0"
  obtain m keys v2 where rs: "resume_state ?st i (length ?obs) (drawn v) = ((m, keys), v2)"
    by (metis surj_pair)
  have wv2: "calm_like w v2" "stores v2 = stores w"
    using rs wv by (auto simp: resume_state_def GetMigration_def split: if_splits option.splits)
  let ?rec = "start_record i u (length ?obs) keys (now (drawn v))"
  have id: "mr_ID ?rec \<noteq> 0" using assms(2) by (simp add: start_record_def)
  obtain v3 where up: "store_update ?st ?rec v2 = (Inr (), v3)" "calm_like v2 v3" "stores v3 = stores v2"
    using store_update_calm [OF calm_likeD [OF wv2(1)] id] by blast
  have wv3: "calm_like w v3" by (rule calm_like_trans [OF wv2(1) up(2)])
  have keys_ok: "\<forall>k \<in> oi_Key ` set ?obs. copyable src tgt v3 k"
  proof
    fix k assume "k \<in> oi_Key ` set ?obs"
    then obtain ob where "(k, ob) \<in> set (stores w src)" "HasPrefix k (userPrefix u)"
      using wv(2) by (auto simp: listing_def info_of_def)
    then have "copyable src tgt w k" using assms(4) by (auto simp: all_copyable_def)
    then show "copyable src tgt v3 k"
      using copyable_same [of v3 w] up(3) wv2(2) wv3 by (simp add: calm_like_def)
  qed
  obtain rec v4 where cp: "copy_objects ?st src tgt m 0 ?rec ?obs v3 = (Inr rec, v4)" "calm_like v3 v4" "mr_ID rec \<noteq> 0"
    using copy_objects_calm [OF calm_likeD [OF wv3] id keys_ok] by blast
  have wv4: "calm_like w v4" by (rule calm_like_trans [OF wv3 cp(2)])
  obtain v5 where cut: "(case ms_cutover s of None \<Rightarrow> (Inr (), v4) | Some co \<Rightarrow> co u v4) = (Inr (), v5)" "calm v5"
  proof (cases "ms_cutover s")
    case None
    then show ?thesis using that wv4 by (simp add: calm_like_def)
  next
    case (Some co)
    then have "fst (co u v4) = Inr () \<and> calm (snd (co u v4))"
      using assms(3) wv4 by (auto simp: cutover_works_def)
    then show ?thesis using that [of "snd (co u v4)"] Some by (simp add: prod_eq_iff)
  qed
  have vk: "\<forall>k \<in> oi_Key ` set ?obs. validateKey k = Inr ()" using keys_ok by (auto simp: copyable_def)
  obtain rec' v6 where dl: "delete_source ?st src 0 rec ?obs v5 = (Inr rec', v6)" "calm_like v5 v6" "mr_ID rec' \<noteq> 0"
    using delete_source_calm [OF cut(2) cp(3) vk] by blast
  have id': "mr_ID (rec'\<lparr>mr_State := MigrationCompleted, mr_UpdatedAt := now v6\<rparr>) \<noteq> 0" using dl(3) by simp
  obtain w' where "store_update ?st (rec'\<lparr>mr_State := MigrationCompleted, mr_UpdatedAt := now v6\<rparr>) v6 = (Inr (), w')"
    using store_update_calm [OF calm_likeD [OF dl(2)] id'] by blast
  then show ?thesis
    using c v(1) l rs up(1) cp(1) cut(1) dl(1) by (simp add: run_locked_def Let_def)
qed

lemma TryLock_free:
  assumes "calm w" and "rlookup w k = None" and "\<not> bad_lock_args k tok ttl"
  shows "\<exists>v. TryLock k tok ttl w = (Inr True, v) \<and> calm_like w v \<and> stores v = stores w \<and> mig_tbl v = mig_tbl w"
proof -
  have "calm_like w (rstore k (CBytes tok) ttl (drawn w))"
    using assms(1) calm_like_drawn [of w w] by (simp add: calm_like_def rstore_def calm_def)
  moreover have "TryLock k tok ttl w = (Inr True, rstore k (CBytes tok) ttl (drawn w))"
    using assms by (simp add: TryLock_def SetNX_def calm_not_failing Let_def)
  ultimately show ?thesis by simp
qed

lemma lock_key_ok: "token \<noteq> [] \<Longrightarrow> \<not> bad_lock_args (mig_lock_key u) token (30 * minute)"
  by (simp add: bad_lock_args_def mig_lock_key_def minute_def second_def)

lemma rlookup_start_run [simp]: "rlookup (start_run i w) k = rlookup w k"
  by (simp add: rlookup_def start_run_def split: option.splits)

text \<open>What a run needs to be let through.\<close>

definition may_run :: "'a mig_st_scheme migration_service \<Rightarrow> nat \<Rightarrow> uid \<Rightarrow> string \<Rightarrow> 'a mig_st_scheme \<Rightarrow> bool" where
  "may_run s i u token w = (i \<noteq> 0 \<and> u \<noteq> 0 \<and> \<not> List.member (mig_running w) i
     \<and> (ms_locker s \<longrightarrow> rlookup w (mig_lock_key u) = None \<and> token \<noteq> [])
     \<and> (case map_of (mig_tbl w) i of None \<Rightarrow> True | Some row \<Rightarrow> m_State row \<noteq> MigrationCancelled))"

lemma Run_calm:
  assumes "calm w" and "may_run s i u token w" and "cutover_works s u w" and "all_copyable u src tgt w"
  shows "\<exists>w'. Run (Some s) i u (Some src) (Some tgt) token w = (Inr (), w')"
proof -
  obtain q where q: "(if ms_locker s then TryLock (mig_lock_key u) token (30 * minute) (start_run i w)
      else (Inr True, start_run i w)) = (Inr True, q)" "calm_like w q" "stores q = stores w" "mig_tbl q = mig_tbl w"
  proof (cases "ms_locker s")
    case True
    have free: "rlookup (start_run i w) (mig_lock_key u) = None" "token \<noteq> []"
      using assms(2) True by (simp_all add: may_run_def)
    then obtain v where "TryLock (mig_lock_key u) token (30 * minute) (start_run i w) = (Inr True, v)"
        "calm_like (start_run i w) v" "stores v = stores w" "mig_tbl v = mig_tbl w"
      using TryLock_free [OF _ free(1) lock_key_ok [OF free(2)]] assms(1) by auto
    moreover from this(2) have "calm_like w v" by (simp add: calm_like_def start_run_def)
    ultimately show ?thesis using that True by simp
  next
    case False
    then show ?thesis using that [of "start_run i w"] assms(1) by simp
  qed
  have works: "cutover_works s u q"
    using assms(3) q(2) calm_like_trans by (fastforce simp: cutover_works_def)
  have cp: "all_copyable u src tgt q"
    using assms(4) copyable_same [of q w src tgt] q(2,3) by (simp add: all_copyable_def calm_like_def)
  have "m_State row \<noteq> MigrationCancelled" if "map_of (mig_tbl q) i = Some row" for row
    using assms(2) that q(4) by (simp add: may_run_def)
  then obtain w' where "run_locked s i u src tgt q = (Inr (), w')"
    using run_locked_calm [OF calm_likeD [OF q(2)] _ works cp] assms(2) by (auto simp: may_run_def)
  then show ?thesis using assms(2) q(1)
    by (cases "ms_locker s") (simp_all add: Run_def Let_def may_run_def flip: start_run_def)
qed

text \<open>Without failing calls a run ends in success: when the job is open, the lock free, the cutover
  working and every object of the user within the size limit with an agreeing entity tag.\<close>
theorem calm_run_succeeds:
  assumes "calm w" and "may_run s i u token w" and "cutover_works s u w" and "all_copyable u src tgt w"
  shows "fst (Run (Some s) i u (Some src) (Some tgt) token w) = Inr ()"
  using Run_calm [OF assms] by fastforce

section \<open>The migration the program wires up\<close>

lemma resolve_pair_same: "resolve_pair x fo u w = (Inr (src, tgt), w') \<Longrightarrow> src = tgt"
  by (auto simp: resolve_pair_def split: sum.splits prod.splits dest!: Resolve_internal ResolveByType_internal)

text \<open>C27: With the pair resolver the program installs, a migration that reports success has deleted the
  user's files: source and target are the same store, so the objects are copied onto themselves
  and then removed.\<close>
theorem wired_migration_deletes_files:
  assumes "resolve_pair x fo u v = (Inr (src, tgt), w)" and "cutover_frames s" and "honest_job src tgt i w"
    and "Run (Some s) i u (Some src) (Some tgt) token w = (Inr (), w')" and "HasPrefix k (userPrefix u)"
  shows "contents w' src k = None \<and> contents w' tgt k = None"
  using Run_success [OF assms(2-5)] resolve_pair_same [OF assms(1)] by simp

section \<open>Retries take bounded time\<close>

lemma retry_from_time:
  assumes "\<And>v. now (snd (op v)) = now v" and "0 \<le> a"
  shows "now w \<le> now (snd (retry_from n a e op w)) \<and>
    now (snd (retry_from n a e op w)) \<le> now w + ms100 * (int n * a + int n * (int n + 1) div 2)"
  using assms(2)
proof (induction n arbitrary: a e w)
  case (Suc n)
  obtain r v where op: "op w = (r, v)" by (cases "op w")
  have v: "now v = now w" using assms(1) [of w] op by simp
  have pos: "0 \<le> int n * (int n + 1) div 2" "0 \<le> int n * (a + 1)" "0 \<le> ms100" "0 \<le> int n * (int n + 1)"
    using Suc.prems by (simp_all add: ms100_def)
  have sum: "int (Suc n) * a + int (Suc n) * (int (Suc n) + 1) div 2
      = (a + 1) + (int n * (a + 1) + int n * (int n + 1) div 2)"
  proof -
    have "int (Suc n) * (int (Suc n) + 1) = int n * (int n + 1) + (int n + 1) * 2"
      by (simp add: algebra_simps)
    then have "int (Suc n) * (int (Suc n) + 1) div 2 = int n * (int n + 1) div 2 + (int n + 1)" by simp
    then show ?thesis by (simp add: algebra_simps)
  qed
  have stop: "0 \<le> ms100 * (int (Suc n) * a + int (Suc n) * (int (Suc n) + 1) div 2)"
    using pos Suc.prems unfolding sum by (intro mult_nonneg_nonneg add_nonneg_nonneg) simp_all
  let ?x = "advance ((a + 1) * ms100) (drawn (drawn v))"
  have x: "now ?x = now w + ms100 * (a + 1)" by (simp add: advance_def v)
  have late: "now w \<le> now (snd (retry_from n (a + 1) e' op ?x)) \<and>
      now (snd (retry_from n (a + 1) e' op ?x))
        \<le> now w + ms100 * (int (Suc n) * a + int (Suc n) * (int (Suc n) + 1) div 2)" for e'
  proof -
    have "now ?x \<le> now (snd (retry_from n (a + 1) e' op ?x))"
      "now (snd (retry_from n (a + 1) e' op ?x)) \<le> now ?x + ms100 * (int n * (a + 1) + int n * (int n + 1) div 2)"
      using Suc.IH [where a = "a + 1" and w = ?x and e = e'] Suc.prems by simp_all
    moreover have "0 \<le> ms100 * (a + 1)" using pos Suc.prems by simp
    ultimately show ?thesis unfolding sum x by (simp only: distrib_left [of ms100 "a + 1"]) linarith
  qed
  show ?case
    using op v stop late by (auto simp: Let_def split: sum.splits simp del: of_nat_Suc)
qed simp

text \<open>A call is retried within bounded time: three attempts with pauses of 100, 200 and 300
  milliseconds, whatever the call returns.\<close>
theorem retries_are_bounded:
  assumes "\<And>v. now (snd (op v)) = now v"
  shows "now w \<le> now (snd (retryMigration op w)) \<and>
    now (snd (retryMigration op w)) \<le> now w + 600 * (second div 1000)"
proof -
  have "now w \<le> now (snd (retry_from 3 0 (Msg []) op w)) \<and>
      now (snd (retry_from 3 0 (Msg []) op w)) \<le> now w + ms100 * (int 3 * 0 + int 3 * (int 3 + 1) div 2)"
    by (rule retry_from_time [OF assms]) simp_all
  then show ?thesis by (simp add: retryMigration_def ms100_def second_def)
qed

end
