(* ===== verification/StorageWebProps.thy ===== *)
theory StorageWebProps
  imports StorageWeb ReservationProps MigrationRuns
begin

text \<open>
  What the storage endpoints guarantee: no request touches another user's objects, the quota shown is the
  quota enforced, sessions are scoped and bounded. And what they do not: a commit charges what the
  reservation says, whoever made it and whatever was uploaded, and deleting files frees no quota.
\<close>

section \<open>The quota shown\<close>

text \<open>C28: For a limited user the bytes reported as available are exactly the largest reservation the
  ledger accepts; for an unlimited user, with quota zero, it reports zero although every reservation
  is accepted.\<close>
theorem available_is_what_can_be_reserved:
  "(q_quota r \<noteq> 0 \<longrightarrow> (\<not> exceeds r sz \<longleftrightarrow>
      (unat (q_used r) + unat (q_reserved r) \<le> unat (q_quota r)
       \<and> nat sz \<le> unat (availableQuota (q_quota r) (q_used r) (q_reserved r)))))
   \<and> (q_quota r = 0 \<longrightarrow> availableQuota (q_quota r) (q_used r) (q_reserved r) = 0 \<and> \<not> exceeds r sz)"
proof (cases "q_quota r = 0")
  case True
  then show ?thesis by (simp add: availableQuota_def exceeds_def)
next
  case False
  let ?q = "q_quota r" and ?u = "q_used r" and ?r = "q_reserved r"
  have q: "unat ?q \<noteq> 0" using False by (simp add: unat_eq_0)
  have ex: "\<not> exceeds r sz \<longleftrightarrow> unat ?u + (unat ?r + nat sz) \<le> unat ?q"
    using q by (simp add: exceeds_iff fits_def)
  have av: "unat (availableQuota ?q ?u ?r) = unat ?q - unat ?u - unat ?r"
  proof (cases "?q \<le> ?u \<or> ?q - ?u \<le> ?r")
    case True
    have "unat ?q \<le> unat ?u \<or> unat (?q - ?u) \<le> unat ?r" using True by (simp add: word_le_nat_alt)
    moreover have "\<not> ?q \<le> ?u \<Longrightarrow> unat (?q - ?u) = unat ?q - unat ?u" by (intro unat_sub) simp
    ultimately have "unat ?q - unat ?u - unat ?r = 0"
      by (cases "?q \<le> ?u") (simp_all add: word_le_nat_alt)
    then show ?thesis using True False by (auto simp: availableQuota_def)
  next
    case n: False
    then have le: "?u \<le> ?q" "?r \<le> ?q - ?u" by (simp_all add: not_le less_imp_le)
    have "unat (?q - ?u) = unat ?q - unat ?u" by (rule unat_sub [OF le(1)])
    moreover have "unat (?q - ?u - ?r) = unat (?q - ?u) - unat ?r" by (rule unat_sub [OF le(2)])
    ultimately show ?thesis using n False by (simp add: availableQuota_def)
  qed
  show ?thesis using False unfolding ex av by (simp; linarith)
qed

section \<open>Migrations touch one user\<close>

lemma listing_keys_prefix:
  assumes "ListObjects sid p n w = (Inr obs, w')" and "k \<in> oi_Key ` set obs"
  shows "HasPrefix k p"
proof -
  have "set obs \<subseteq> set (listing w sid p)"
    using assms(1) set_take_subset
    by (fastforce simp: ListObjects_def Let_def listing_def split: sum.splits if_splits)
  then show ?thesis using assms(2) by (auto simp: listing_def info_of_def)
qed

lemma same_but_foreign:
  assumes "same_but sid ks w w'" and "\<And>k. k \<in> ks \<Longrightarrow> HasPrefix k (userPrefix u)"
  shows "foreign_same u w w'"
  using assms by (auto simp: same_but_def foreign_same_def)

text \<open>The three ways the objects can look after the locked part of a run.\<close>

lemma run_locked_stores:
  fixes w :: "'a mig_st_scheme"
  assumes "cutover_frames s" and run: "run_locked s i u src tgt w = (r, w')"
  shows "stores w' = stores w \<or> (\<exists>obs m rec (v :: 'a mig_st_scheme) v' cr. (\<forall>k \<in> oi_Key ` set obs. HasPrefix k (userPrefix u))
    \<and> stores v = stores w \<and> copy_objects (ms_store s) src tgt m 0 rec obs v = (cr, v')
    \<and> (stores w' = stores v' \<or> (\<exists>rec' (x :: 'a mig_st_scheme) d x'. stores x = stores v'
         \<and> delete_source (ms_store s) src 0 rec' obs x = (d, x') \<and> stores w' = stores x')))"
proof -
  let ?st = "ms_store s"
  obtain cn v where c: "(if ?st then (case GetMigration i w of
        (Inr r, w) \<Rightarrow> (mr_State r = MigrationCancelled, w) | (Inl e, w) \<Rightarrow> (False, w)) else (False, w)) = (cn, v)"
    by fastforce
  have v: "stores v = stores w"
    using c by (auto split: if_splits sum.splits prod.splits dest!: GetMigration_mig)
  obtain l v1 where l: "ListObjects src (userPrefix u) 0 v = (l, v1)" by (cases "ListObjects src (userPrefix u) 0 v")
  have v1: "stores v1 = stores w" using ListObjects_stores [OF l] v by simp
  show ?thesis
  proof (cases "cn \<or> \<not> is_ok l")
    case True
    then have "stores w' = stores w"
      using run c l v v1 by (cases cn) (auto simp: run_locked_def Let_def is_ok_def split: sum.splits dest!: table_bound(4))
    then show ?thesis by simp
  next
    case False
    then obtain obs0 where obs0: "l = Inr obs0" by (cases l) auto
    let ?obs = "sort_key oi_Key obs0"
    obtain m keys v2 where rs: "resume_state ?st i (length ?obs) v1 = ((m, keys), v2)" by (metis surj_pair)
    let ?rec = "start_record i u (length ?obs) keys (now v1)"
    obtain x v3 where up: "store_update ?st ?rec v2 = (x, v3)" by (cases "store_update ?st ?rec v2")
    have v3: "stores v3 = stores w" using store_update_stores [OF up] table_bound(5) [OF rs] v1 by simp
    obtain cr v4 where co: "copy_objects ?st src tgt m 0 ?rec ?obs v3 = (cr, v4)"
      by (cases "copy_objects ?st src tgt m 0 ?rec ?obs v3")
    have keys_ok: "\<forall>k \<in> oi_Key ` set ?obs. HasPrefix k (userPrefix u)"
      using listing_keys_prefix [OF l [unfolded obs0]] by simp
    note body = run [unfolded run_locked_def] c l False obs0 rs up co
    have "stores w' = stores v4 \<or> (\<exists>rec' (x :: 'a mig_st_scheme) d x'. stores x = stores v4
         \<and> delete_source ?st src 0 rec' ?obs x = (d, x') \<and> stores w' = stores x')"
    proof (cases cr)
      case (Inl e)
      then show ?thesis using body by (auto simp: Let_def dest!: table_bound(4))
    next
      case (Inr rec)
      obtain y v5 where cut: "(case ms_cutover s of None \<Rightarrow> (Inr (), v4) | Some co \<Rightarrow> co u v4) = (y, v5)"
        by fastforce
      have "stores (snd (case ms_cutover s of None \<Rightarrow> (Inr (), v4) | Some co \<Rightarrow> co u v4)) = stores v4"
        using assms(1) by (simp add: cutover_frames_def split: option.splits)
      then have v5: "stores v5 = stores v4" using cut by simp
      obtain dl v6 where dl: "delete_source ?st src 0 rec ?obs v5 = (dl, v6)"
        by (cases "delete_source ?st src 0 rec ?obs v5")
      have "stores w' = stores v5 \<or> stores w' = stores v6"
        using body Inr cut dl v5
        by (auto simp: Let_def split: sum.splits dest!: table_bound(4) store_update_stores)
      then show ?thesis using v5 dl by metis
    qed
    then show ?thesis using keys_ok v3 co by blast
  qed
qed

lemma run_locked_foreign:
  fixes w :: "'a mig_st_scheme"
  assumes "cutover_frames s" and "run_locked s i u src tgt w = (r, w')"
  shows "foreign_same u w w'"
  using run_locked_stores [OF assms]
proof (elim disjE exE conjE)
  assume "stores w' = stores w"
  then show ?thesis by (rule foreign_stores)
next
  fix obs m rec cr and v v' :: "'a mig_st_scheme"
  assume p: "\<forall>k \<in> oi_Key ` set obs. HasPrefix k (userPrefix u)" and v: "stores v = stores w"
    and co: "copy_objects (ms_store s) src tgt m 0 rec obs v = (cr, v')" and w': "stores w' = stores v'"
  have "foreign_same u v v'" by (rule same_but_foreign [OF copy_objects_same_but [OF co]]) (use p in blast)
  from foreign_trans [OF foreign_trans [OF foreign_stores [OF v] this] foreign_stores [OF w']] show ?thesis .
next
  fix obs m rec cr rec' d and v v' x x' :: "'a mig_st_scheme"
  assume p: "\<forall>k \<in> oi_Key ` set obs. HasPrefix k (userPrefix u)" and v: "stores v = stores w"
    and co: "copy_objects (ms_store s) src tgt m 0 rec obs v = (cr, v')" and x: "stores x = stores v'"
    and dl: "delete_source (ms_store s) src 0 rec' obs x = (d, x')" and w': "stores w' = stores x'"
  have "foreign_same u v v'" by (rule same_but_foreign [OF copy_objects_same_but [OF co]]) (use p in blast)
  moreover have "foreign_same u x x'" by (rule same_but_foreign [OF delete_source_same_but [OF dl]]) (use p in blast)
  ultimately show ?thesis
    using foreign_trans foreign_stores [OF v] foreign_stores [OF x] foreign_stores [OF w'] by metis
qed

lemma Run_foreign:
  assumes "cutover_frames s" and "Run (Some s) i u (Some src) (Some tgt) token w = (r, w')"
  shows "foreign_same u w w'"
  using Run_cases [OF assms(2)]
proof (elim disjE exE conjE)
  assume "w' = w" then show ?thesis by simp
next
  fix v q e
  assume "TryLock (mig_lock_key u) token (30 * minute) (start_run i w) = (v, q)"
    and "w' = leave_run i (snd (mig_fail (ms_store s) i e q))"
  then show ?thesis by (auto intro!: foreign_stores dest!: TryLock_bound)
next
  fix v q q'
  assume l: "(if ms_locker s then TryLock (mig_lock_key u) token (30 * minute) (start_run i w)
      else (v, start_run i w)) = (v, q)"
    and run: "run_locked s i u src tgt q = (r, q')"
    and w': "w' = leave_run i (if ms_locker s then snd (Unlock (mig_lock_key u) token q') else q')"
  have q: "stores q = stores w" using l by (auto split: if_splits dest!: TryLock_bound)
  have "stores w' = stores q'" using w' by simp
  with run_locked_foreign [OF assms(1) run] q show ?thesis
    using foreign_trans foreign_stores by metis
qed

section \<open>Requests touch one user\<close>

text \<open>One request of a user to the storage endpoints.\<close>

inductive web_step :: "('a mig_st_scheme, 'x) web_storage_scheme \<Rightarrow> gin \<Rightarrow> 'a mig_st_scheme \<Rightarrow> 'a mig_st_scheme \<Rightarrow> bool"
  for s c where
  get_config: "web_step s c w (snd (GetStorageConfig s c w))"
| session: "web_step s c w (snd (CreateStorageSession s c rnd w))"
| put_external: "web_step s c w (snd (PutExternalStorageConfig s c ext_body w))"
| test_external: "web_step s c w (snd (TestExternalStorageConfig s ep w))"
| switch_internal: "web_step s c w (snd (SwitchToInternalStorage s c w))"
| get_quota: "web_step s c w (snd (GetStorageQuota c w))"
| upload: "web_step s c w (snd (CreatePresignedUpload s c up_body oid rid ikey w))"
| commit: "web_step s c w (snd (CommitStorageUpload s c cm_body w))"
| list_objects: "web_step s c w (snd (ListStorageObjects s c w))"
| delete_object: "web_step s c w (snd (DeleteStorageObject s c w))"
| delete_objects: "web_step s c w (snd (DeleteAllStorageObjects s c w))"
| health: "web_step s c w (snd (StorageHealth s c w))"
| download: "web_step s c w (snd (PresignStorageDownload s c w))"
| start_migration: "web_step s c w (snd (StartStorageMigration s c token w))"
| get_migration: "web_step s c w (snd (GetStorageMigration c w))"
| cancel_migration: "web_step s c w (snd (CancelStorageMigration c w))"

named_theorems store_frames \<open>operations that leave every object store alone\<close>

lemma redis_stores [store_frames]:
  "Get k w = (a, w') \<Longrightarrow> stores w' = stores w" "Set k v t w = (b, w') \<Longrightarrow> stores w' = stores w"
  "Del k w = (b, w') \<Longrightarrow> stores w' = stores w" "SetNX k v t w = (d, w') \<Longrightarrow> stores w' = stores w"
  by (auto simp: Get_def Set_def Del_def SetNX_def Let_def split: if_splits option.splits)

lemma record_stores [store_frames]:
  "SaveUploadReservation hc r t w = (b, w') \<Longrightarrow> stores w' = stores w"
  "LoadUploadReservation hc rid w = (l, w') \<Longrightarrow> stores w' = stores w"
  "DeleteUploadReservation hc rid w = (b, w') \<Longrightarrow> stores w' = stores w"
  "SetQuotaReserved hc u sz w = (b, w') \<Longrightarrow> stores w' = stores w"
  "DelQuotaReserved hc u w = (b, w') \<Longrightarrow> stores w' = stores w"
  "SaveSessionMeta hc k m t w = (b, w') \<Longrightarrow> stores w' = stores w"
  "CacheConnectionCheck hc e ok w = (b, w') \<Longrightarrow> stores w' = stores w"
  "LoadConnectionCheck hc e w = (cc, w') \<Longrightarrow> stores w' = stores w"
  by (auto simp: SaveUploadReservation_def LoadUploadReservation_def DeleteUploadReservation_def
      SetQuotaReserved_def DelQuotaReserved_def SaveSessionMeta_def CacheConnectionCheck_def LoadConnectionCheck_def
      Let_def split: if_splits sum.splits prod.splits dest!: redis_stores)

lemma put_row_stores [simp]: "stores (put_row u r w) = stores w"
  by (simp add: put_row_def)

lemma quota_stores [store_frames]:
  "ReserveStorage u n w = (b, w') \<Longrightarrow> stores w' = stores w"
  "CommitStorage u n w = (b, w') \<Longrightarrow> stores w' = stores w"
  "ReleaseStorage u n w = (b, w') \<Longrightarrow> stores w' = stores w"
  "EnsureStorageQuota u w = (b, w') \<Longrightarrow> stores w' = stores w"
  "ResetStorageQuota u w = (b, w') \<Longrightarrow> stores w' = stores w"
  "StorageQuota u w = (q, w') \<Longrightarrow> stores w' = stores w"
  by (auto simp: ReserveStorage_def CommitStorage_def ReleaseStorage_def EnsureStorageQuota_def ResetStorageQuota_def
      StorageQuota_def Let_def split: if_splits option.splits)

lemma snd_stores [simp]:
  "stores (snd (SetQuotaReserved hc u sz w)) = stores w" "stores (snd (ReleaseStorage u n w)) = stores w"
  "stores (snd (EnsureStorageQuota u w)) = stores w" "stores (snd (ResetStorageQuota u w)) = stores w"
  "stores (snd (CacheConnectionCheck hc e ok w)) = stores w" "stores (snd (SaveSessionMeta hc k m t w)) = stores w"
  by (metis prod.collapse record_stores(4,6,7) quota_stores(3,4,5))+

lemma undo_stores [simp]: "stores (undo_reserve u sz rid w) = stores w" "stores (drop_reservation u rid w) = stores w"
  unfolding undo_reserve_def drop_reservation_def
  by (metis prod.collapse quota_stores(3) record_stores(3,5))+

lemma claim_stores [store_frames]: "claim c u req rid ttl w = (b, w') \<Longrightarrow> stores w' = stores w"
  by (auto simp: claim_def split: if_splits sum.splits prod.splits dest!: redis_stores)

lemma load_claimed_stores [store_frames]: "load_claimed u req w = (r, w') \<Longrightarrow> stores w' = stores w"
  by (auto simp: load_claimed_def split: sum.splits prod.splits cval.splits dest!: redis_stores record_stores)

lemma find_reusable_stores [store_frames]: "find_reusable u req w = (r, w') \<Longrightarrow> stores w' = stores w"
  by (auto simp: find_reusable_def split: option.splits prod.splits if_splits dest!: load_claimed_stores)

lemma reserve_new_stores [store_frames]: "reserve_new c u obj sz req ttl rid fresh w = (r, w') \<Longrightarrow> stores w' = stores w"
  by (auto simp: reserve_new_def Let_def split: sum.splits prod.splits if_splits option.splits
      dest!: quota_stores record_stores claim_stores load_claimed_stores)

lemma reservation_stores [store_frames]:
  "ReserveWithIdempotency rs u obj sz req ttl rid fresh w = (a, w') \<Longrightarrow> stores w' = stores w"
  "Commit rs rid w = (b, w') \<Longrightarrow> stores w' = stores w" "Release rs rid w = (b, w') \<Longrightarrow> stores w' = stores w"
  "RecoverReservation rs u sz w = (b, w') \<Longrightarrow> stores w' = stores w"
  by (auto simp: ReserveWithIdempotency_def Commit_def Release_def RecoverReservation_def
      split: if_splits sum.splits prod.splits option.splits
      dest!: quota_stores record_stores find_reusable_stores reserve_new_stores)

lemma PresignedPutURL_stores [store_frames]: "PresignedPutURL sid k t w = (r, w') \<Longrightarrow> stores w' = stores w"
  by (auto simp: PresignedPutURL_def split: sum.splits if_splits)

lemma session_stores [store_frames]:
  "CreateSession x so u ttl rnd w = (r, w') \<Longrightarrow> stores w' = stores w"
  "CreateExternalSession x ep ak sk bk rg u ttl rnd w = (r, w') \<Longrightarrow> stores w' = stores w"
  "ProbeSTSCapability x ep ak sk bk rg w = (p, w') \<Longrightarrow> stores w' = stores w"
  by (auto simp: CreateExternalSession_def CreateSession_def ProbeSTSCapability_def Let_def
      split: if_splits sum.splits option.splits)

lemma SaveStorageConfig_stores [store_frames]: "SaveStorageConfig fc mkr cfg w = (r, w') \<Longrightarrow> stores w' = stores w"
  by (auto simp: SaveStorageConfig_def Let_def split: if_splits sum.splits)

lemma ResolveByType_stores [store_frames]: "ResolveByType x fo u t w = (r, w') \<Longrightarrow> stores w' = stores w"
  by (auto simp: ResolveByType_def dest!: loadCachedConfig_frame externalClient_stores
      split: option.splits if_splits sum.splits prod.splits)

lemmas [store_frames] = StorageConfig_stores Resolve_stores ListObjects_stores PresignedGetURL_stores
  StatObject_stores table_bound(1,2)

lemma listed_objects_stores [store_frames]: "listed_objects sid is w = (js, w') \<Longrightarrow> stores w' = stores w"
  by (induction sid "is" w arbitrary: js w' rule: listed_objects.induct)
    (fastforce split: prod.splits dest!: PresignedGetURL_stores)+

lemma cfg_of_stores [store_frames]: "cfg_of s u w = (r, w') \<Longrightarrow> stores w' = stores w"
  by (auto simp: cfg_of_def dest: StorageConfig_stores)

lemma pair_stores [store_frames]: "resolveMigrationPair x fo u tt w = (r, w') \<Longrightarrow> stores w' = stores w"
  by (auto simp: resolveMigrationPair_def split: if_splits sum.splits prod.splits dest!: store_frames)

lemma own_migration_stores [store_frames]: "own_migration c u w = (r, w') \<Longrightarrow> stores w' = stores w"
  by (auto simp: own_migration_def split: option.splits if_splits sum.splits prod.splits dest!: table_bound(2))

lemma reply_stores [simp]: "snd (reply_error code m w) = w" "snd (presigned_session u cfg w) = w"
  by (simp_all add: presigned_session_def)

text \<open>The requests that only read the stores.\<close>

lemma remember_check_stores [simp]: "stores (remember_check s ep ok w) = stores w"
  by (simp add: remember_check_def)

lemma releaseReservation_stores [simp]: "stores (releaseReservation svc rid w) = stores w"
proof (cases svc)
  case (Some c)
  have "stores (snd (Release svc rid w)) = stores w"
    using reservation_stores(3) [of svc rid w] by (metis prod.collapse)
  then show ?thesis by (simp add: releaseReservation_def Some)
qed (simp add: releaseReservation_def)

lemma read_only_requests:
  "stores (snd (GetStorageConfig s c w)) = stores w"
  "stores (snd (CreateStorageSession s c rnd w)) = stores w"
  "stores (snd (PutExternalStorageConfig s c ext_body w)) = stores w"
  "stores (snd (TestExternalStorageConfig s ep x)) = stores x"
  "stores (snd (SwitchToInternalStorage s c w)) = stores w"
  "stores (snd (GetStorageQuota c y)) = stores y"
  "stores (snd (CommitStorageUpload s c cm_body w)) = stores w"
  "stores (snd (ListStorageObjects s c w)) = stores w"
  "stores (snd (StorageHealth s c w)) = stores w"
  "stores (snd (PresignStorageDownload s c w)) = stores w"
  by (auto simp: GetStorageConfig_def CreateStorageSession_def PutExternalStorageConfig_def
      TestExternalStorageConfig_def probe_endpoint_def SwitchToInternalStorage_def GetStorageQuota_def
      CommitStorageUpload_def commit_quota_def ListStorageObjects_def StorageHealth_def
      PresignStorageDownload_def Let_def
      split: option.splits if_splits sum.splits prod.splits dest!: store_frames)

lemma upload_stores: "stores (snd (CreatePresignedUpload s c body oid rid ikey w)) = stores w"
  by (auto simp: CreatePresignedUpload_def presigned_upload_def reserveStorage_def Let_def
      split: option.splits if_splits sum.splits prod.splits dest!: store_frames)

lemma migration_reads:
  "stores (snd (GetStorageMigration c w)) = stores w"
  by (auto simp: GetStorageMigration_def split: option.splits sum.splits prod.splits dest!: store_frames)

lemma CancelMigration_stores [store_frames]: "CancelMigration i w = (r, w') \<Longrightarrow> stores w' = stores w"
  by (auto simp: CancelMigration_def split: if_splits option.splits)

lemma cancel_stores: "stores (snd (CancelStorageMigration c w)) = stores w"
  by (auto simp: CancelStorageMigration_def split: option.splits sum.splits prod.splits dest!: store_frames)

lemma validStorageKey_prefix: "validStorageKey u k \<Longrightarrow> HasPrefix k (userPrefix u)"
  by (simp add: validStorageKey_def split: if_splits)

lemma delete_listed_foreign: "foreign_same u w (snd (delete_listed sid u is n w))"
proof (induction sid u "is" n w rule: delete_listed.induct)
  case (2 sid u i rest n w)
  show ?case
  proof (cases "validStorageKey u (oi_Key i)")
    case True
    obtain r v where d: "DeleteObject sid (oi_Key i) w = (r, v)" by (cases "DeleteObject sid (oi_Key i) w")
    have f: "foreign_same u w v" by (rule DeleteObject_foreign [OF d validStorageKey_prefix [OF True]])
    show ?thesis
    proof (cases r)
      case (Inr x)
      with 2(2) True d have "foreign_same u v (snd (delete_listed sid u rest (Suc n) v))" by simp
      with f True d Inr show ?thesis using foreign_trans by simp
    qed (use f True d in simp)
  qed (use 2(1) in simp)
qed simp

lemma delete_object_foreign:
  assumes "getUserID c = Some u"
  shows "foreign_same u w (snd (DeleteStorageObject s c w))"
proof (cases "validStorageKey u (Query c ''key'')")
  case True
  obtain r v where r: "Resolve (ws_ext s) (ws_factory s) u w = (r, v)"
    by (cases "Resolve (ws_ext s) (ws_factory s) u w")
  have f: "foreign_same u w v" by (rule foreign_stores [OF Resolve_stores [OF r]])
  have "foreign_same u w (snd (DeleteObject sid (Query c ''key'') v))" for sid
    using foreign_trans [OF f DeleteObject_foreign [OF _ validStorageKey_prefix [OF True]]]
    by (cases "DeleteObject sid (Query c ''key'') v") simp
  then show ?thesis using r f assms
    by (auto simp: DeleteStorageObject_def split: sum.splits prod.splits) (metis snd_conv)+
qed (simp add: DeleteStorageObject_def assms)

lemma delete_all_foreign:
  assumes "getUserID c = Some u"
  shows "foreign_same u w (snd (DeleteAllStorageObjects s c w))"
proof -
  obtain r v where r: "Resolve (ws_ext s) (ws_factory s) u w = (r, v)"
    by (cases "Resolve (ws_ext s) (ws_factory s) u w")
  have f: "foreign_same u w v" by (rule foreign_stores [OF Resolve_stores [OF r]])
  have "foreign_same u w (snd (delete_listed sid u obs 0 v'))" if "stores v' = stores v" for sid obs v'
    using foreign_trans [OF foreign_trans [OF f foreign_stores [OF that]] delete_listed_foreign] .
  then have "foreign_same u w q" if "delete_listed sid u obs 0 v' = (x, q)" "stores v' = stores v" for sid obs v' x q
    using that by (metis snd_conv)
  then show ?thesis using r f assms foreign_trans [OF f foreign_stores]
    by (auto simp: DeleteAllStorageObjects_def split: sum.splits prod.splits dest!: ListObjects_stores)
qed

lemma CreateMigration_stores [store_frames]: "CreateMigration u st tt w = (r, w') \<Longrightarrow> stores w' = stores w"
  by (auto simp: CreateMigration_def Let_def split: if_splits)

lemma StartWithTypes_foreign:
  assumes "cutover_frames s" and "StartWithTypes (Some s) u (Some src) (Some tgt) st tt token w = (r, w')"
  shows "foreign_same u w w'"
proof (cases "ms_store s")
  case True
  obtain c v where c: "CreateMigration u st tt w = (c, v)" by (cases "CreateMigration u st tt w")
  have f: "foreign_same u w v" by (rule foreign_stores [OF CreateMigration_stores [OF c]])
  show ?thesis
  proof (cases c)
    case (Inl e)
    then show ?thesis using assms(2) c True f by (simp add: StartWithTypes_def)
  next
    case (Inr rec)
    obtain x q where q: "Run (Some s) (mr_ID rec) u (Some src) (Some tgt) token v = (x, q)"
      by (cases "Run (Some s) (mr_ID rec) u (Some src) (Some tgt) token v")
    have "foreign_same u w q" by (rule foreign_trans [OF f Run_foreign [OF assms(1) q]])
    moreover have "stores w' = stores q"
      using assms(2) c Inr q True by (auto simp: StartWithTypes_def split: sum.splits dest!: table_bound(2))
    ultimately show ?thesis using foreign_trans foreign_stores by metis
  qed
qed (use assms(2) in \<open>simp add: StartWithTypes_def\<close>)

lemma start_migration_foreign:
  assumes "getUserID c = Some u" and "ws_migrations s = Some m" and "cutover_frames m"
  shows "foreign_same u w (snd (StartStorageMigration s c token w))"
proof (cases "ws_factory s")
  case None
  then show ?thesis by (simp add: StartStorageMigration_def assms(1))
next
  case (Some f)
  obtain cf v where cf: "cfg_of s u w = (cf, v)" by (cases "cfg_of s u w")
  have v: "stores v = stores w" by (rule cfg_of_stores [OF cf])
  show ?thesis
  proof (cases cf)
    case (Inl e)
    then show ?thesis using cf v Some assms by (simp add: StartStorageMigration_def foreign_stores)
  next
    case (Inr cfg)
    let ?tt = "other_type (bc_Type cfg)"
    obtain p q where p: "resolveMigrationPair (ws_ext s) (ws_factory s) u ?tt v = (p, q)"
      by (cases "resolveMigrationPair (ws_ext s) (ws_factory s) u ?tt v")
    have q: "foreign_same u w q" by (rule foreign_stores) (simp add: pair_stores [OF p] v)
    show ?thesis
    proof (cases p)
      case (Inl e)
      then show ?thesis using cf \<open>cf = Inr cfg\<close> p q Some assms by (simp add: StartStorageMigration_def Let_def)
    next
      case pair: (Inr st)
      obtain src tgt where st: "st = (src, tgt)" by (cases st)
      obtain r x where r: "StartWithTypes (Some m) u (Some src) (Some tgt) (bc_Type cfg) ?tt token q = (r, x)"
        by (cases "StartWithTypes (Some m) u (Some src) (Some tgt) (bc_Type cfg) ?tt token q")
      have "snd (StartStorageMigration s c token w) = x"
        using cf \<open>cf = Inr cfg\<close> p pair st r Some assms by (simp add: StartStorageMigration_def Let_def split: sum.splits)
      then show ?thesis using foreign_trans [OF q StartWithTypes_foreign [OF assms(3) r]] by simp
    qed
  qed
qed

definition migrations_framed :: "('a mig_st_scheme, 'x) web_storage_scheme \<Rightarrow> bool" where
  "migrations_framed s = (case ws_migrations s of None \<Rightarrow> True | Some m \<Rightarrow> cutover_frames m)"

lemma web_step_foreign:
  assumes "web_step s c w w'" and "getUserID c = Some u" and "migrations_framed s"
  shows "foreign_same u w w'"
  using assms(1)
proof (cases rule: web_step.cases)
  case (start_migration token)
  show ?thesis
  proof (cases "ws_migrations s")
    case None
    then show ?thesis using start_migration assms(2) by (simp add: StartStorageMigration_def)
  next
    case (Some m)
    then show ?thesis using start_migration start_migration_foreign [OF assms(2) Some] assms(3)
      by (simp add: migrations_framed_def)
  qed
qed (simp_all add: foreign_stores read_only_requests upload_stores migration_reads cancel_stores
      delete_object_foreign [OF assms(2)] delete_all_foreign [OF assms(2)])

text \<open>C11: Whatever sequence of storage requests a user sends, in whatever order and with whatever calls
  failing, no object outside the user's own prefix changes in any store.\<close>
theorem requests_touch_own_objects:
  assumes "(web_step s c)\<^sup>*\<^sup>* w w'" and "getUserID c = Some u" and "migrations_framed s"
    and "\<not> HasPrefix k (userPrefix u)"
  shows "contents w' sid k = contents w sid k"
proof -
  have "foreign_same u w w'"
    using assms(1)
  proof (induction rule: rtranclp_induct)
    case (step x y)
    then show ?case using foreign_trans web_step_foreign [OF step.hyps(2) assms(2,3)] by blast
  qed simp
  then show ?thesis using assms(4) by (simp add: foreign_same_def)
qed

section \<open>Committing an upload\<close>

text \<open>A commit moves the size written in the reservation, of the user written in the reservation.
  Neither the caller nor the key nor the size of the uploaded object is compared with it: any user
  can commit another user's reservation, and an object larger than reserved is charged as reserved.\<close>
theorem commit_charges_the_reservation:
  assumes "getUserID c = Some u" and "\<not> bad_commit_key u (Some r)" and "cm_ReservationID r = rid"
    and "Resolve (ws_ext s) (ws_factory s) u w = (Inr sid, w1)"
    and "StatObject sid (cm_Key r) w1 = (Inr info, w2)"
    and "configured (ws_reservations s)" and "calm w2"
    and "fst (LoadUploadReservation True rid w2) = Inr rv" and "rv_Status rv = ''reserved''"
    and "rv_UserID rv \<noteq> 0" and "0 < rv_Size rv" and "now w2 \<le> rv_ExpiresAt rv"
    and "row_of w2 (rv_UserID rv) = Some row" and "in_range (uint (q_used row)) (uint (q_reserved row))"
    and "rv_Size rv \<le> uint (q_reserved row)"
  shows "status (CommitStorageUpload s c (Some r) w) = 200 \<and>
    quota_view (snd (CommitStorageUpload s c (Some r) w)) = (quota_view w2)(rv_UserID rv \<mapsto>
      (unat (q_quota row), unat (q_used row) + nat (rv_Size rv), unat (q_reserved row) - nat (rv_Size rv)))"
proof -
  have rid: "rid \<noteq> []" using assms(8) by (auto simp: LoadUploadReservation_def split: if_splits)
  have svc: "ws_reservations s \<noteq> None" using assms(6) by (auto simp: configured_def split: option.splits)
  have fac: "ws_factory s \<noteq> None" using assms(4) by (auto simp: Resolve_def split: option.splits)
  obtain x w3 where com: "Commit (ws_reservations s) rid w2 = (x, w3)" by (cases "Commit (ws_reservations s) rid w2")
  have "x = Inr () \<and> quota_view w3 = (quota_view w2)(rv_UserID rv \<mapsto>
      (unat (q_quota row), unat (q_used row) + nat (rv_Size rv), unat (q_reserved row) - nat (rv_Size rv)))"
    using Commit_live [OF assms(7,6,8-15)] com by simp
  then show ?thesis
    using assms(1-5) rid svc fac com
    by (simp add: CommitStorageUpload_def Let_def commit_quota_def)
qed

section \<open>Deleting\<close>

named_theorems quota_frames \<open>operations that leave the quota table alone\<close>

lemma redis_quota [quota_frames]:
  "Get k w = (a, w') \<Longrightarrow> quota_tbl w' = quota_tbl w" "Set k v t w = (b, w') \<Longrightarrow> quota_tbl w' = quota_tbl w"
  by (auto simp: Get_def Set_def rstore_def drawn_def split: if_splits option.splits)

lemma config_quota [quota_frames]:
  "LoadCachedConfig hc u w = (l, w') \<Longrightarrow> quota_tbl w' = quota_tbl w"
  "CachedBackendConfig hc u cfg w = (b, w') \<Longrightarrow> quota_tbl w' = quota_tbl w"
  "StorageConfig fc mkr u x = (r, x') \<Longrightarrow> quota_tbl x' = quota_tbl x"
  "externalClient e f u cfg x = (t, x') \<Longrightarrow> quota_tbl x' = quota_tbl x"
  by (auto simp: LoadCachedConfig_def CachedBackendConfig_def externalClient_def
      split: if_splits sum.splits prod.splits dest!: redis_quota StorageConfig_frames)

lemma Resolve_quota [quota_frames]: "Resolve x fo u w = (r, w') \<Longrightarrow> quota_tbl w' = quota_tbl w"
  by (auto simp: Resolve_def loadCachedConfig_def split: option.splits if_splits sum.splits prod.splits
      dest!: config_quota)

lemma object_quota [quota_frames]:
  "DeleteObject sid k w = (r, w') \<Longrightarrow> quota_tbl w' = quota_tbl w"
  "ListObjects sid p n w = (l, w') \<Longrightarrow> quota_tbl w' = quota_tbl w"
  by (auto simp: DeleteObject_def ListObjects_def Let_def split: sum.splits if_splits)

lemma delete_listed_quota [quota_frames]: "delete_listed sid u is n w = (r, w') \<Longrightarrow> quota_tbl w' = quota_tbl w"
  by (induction sid u "is" n w arbitrary: r w' rule: delete_listed.induct)
    (fastforce split: if_splits sum.splits prod.splits dest!: object_quota)+

lemma quota_view_tbl: "quota_tbl w' = quota_tbl w \<Longrightarrow> quota_view w' = quota_view w"
  by (simp add: quota_view_def row_of_def fun_eq_iff)

text \<open>Deleting one object or all of them leaves the ledger as it is: the bytes of deleted files stay
  charged as used.\<close>
theorem deleting_frees_no_quota:
  "quota_view (snd (DeleteStorageObject s c w)) = quota_view w \<and>
   quota_view (snd (DeleteAllStorageObjects s c w)) = quota_view w"
proof -
  have "quota_tbl (snd (DeleteStorageObject s c w)) = quota_tbl w"
    by (auto simp: DeleteStorageObject_def split: option.splits if_splits sum.splits prod.splits dest!: quota_frames)
  moreover have "quota_tbl (snd (DeleteAllStorageObjects s c w)) = quota_tbl w"
    by (auto simp: DeleteAllStorageObjects_def split: option.splits if_splits sum.splits prod.splits dest!: quota_frames)
  ultimately show ?thesis using quota_view_tbl by blast
qed

section \<open>Sessions\<close>

text \<open>Temporary credentials are requested for the caller's own prefix and bucket only, for 15 minutes to
  24 hours, and are reported to expire within 24 hours from now.\<close>
theorem sessions_are_scoped:
  assumes "CreateSession x (Some s) u ttl rnd w = (Inr ss, w')"
  shows "ss_Prefix ss = userPrefix u \<and> u \<noteq> 0 \<and> now w < ss_ExpiresAt ss \<and> ss_ExpiresAt ss \<le> now w + 24 * hour
    \<and> (\<exists>opts creds. sts_get x opts = Inr creds \<and> ss_AccessKey ss = cr_AccessKey creds
         \<and> so_Policy opts = session_policy (se_bucket s) (userPrefix u)
         \<and> 900 \<le> so_Duration opts \<and> so_Duration opts \<le> 24 * 3600)"
proof -
  let ?p = "userPrefix u"
  let ?opts = "\<lparr>so_Endpoint = se_internal s, so_AccessKey = se_root_access s,
                  so_SecretKey = se_root_secret s, so_Policy = session_policy (se_bucket s) ?p,
                  so_Duration = session_seconds ttl, so_RoleARN = ''assumeRole'',
                  so_SessionName = ''session-'' @ rnd, so_Location = se_location s\<rparr>"
  obtain c where c: "sts_get x ?opts = Inr c" "ss_AccessKey ss = cr_AccessKey c" "ss_Prefix ss = ?p" "u \<noteq> 0"
      "ss_ExpiresAt ss = now w + session_ttl ttl"
    using assms by (auto simp: CreateSession_def Let_def split: if_splits sum.splits)
  show ?thesis
    using c session_ttl_bounds [of ttl] session_seconds_bounds [of ttl]
    by (intro conjI exI [of _ ?opts] exI [of _ c]) simp_all
qed

section \<open>Removing a user\<close>

text \<open>What removing files leaves alone: reservation documents, the clock, calm and the ledger.\<close>

definition docs_same :: "string \<Rightarrow> 'a quota_st_scheme \<Rightarrow> 'a quota_st_scheme \<Rightarrow> bool" where
  "docs_same rid w v = (rlookup v (reservation_key rid) = rlookup w (reservation_key rid) \<and> now v = now w
     \<and> (calm w \<longrightarrow> calm v) \<and> quota_tbl v = quota_tbl w)"

lemma docs_same_refl [simp]: "docs_same rid w w"
  by (simp add: docs_same_def)

lemma docs_same_trans: "docs_same rid w v \<Longrightarrow> docs_same rid v x \<Longrightarrow> docs_same rid w x"
  by (simp add: docs_same_def)

lemma docs_same_drawn: "docs_same rid w (drawn w)"
  by (simp add: docs_same_def calm_drawn) (simp add: drawn_def)

lemma docs_same_store: "k \<noteq> reservation_key rid \<Longrightarrow> docs_same rid w (rstore k v t w)"
  by (simp add: docs_same_def rc.lookup_store) (simp add: rstore_def calm_def)

lemma docs_same_bucket: "docs_same rid w (put_bucket sid b w)"
  by (simp add: docs_same_def rlookup_def split: option.splits)

lemma config_key_kind [simp]: "config_cache_key u \<noteq> reservation_key rid"
  by (simp add: config_cache_key_def reservation_key_def)

lemma Resolve_docs:
  assumes "Resolve x fo u w = (r, w')"
  shows "docs_same rid w w'"
proof -
  have d2: "docs_same rid w (drawn (drawn w))" for w :: "'a cfg_st_scheme"
    by (rule docs_same_trans [OF docs_same_drawn docs_same_drawn])
  have lc: "docs_same rid v v'" if "LoadCachedConfig hc u v = (l, v')" for hc l and v v' :: "'a cfg_st_scheme"
    using that by (auto simp: LoadCachedConfig_def Get_def docs_same_drawn split: if_splits option.splits sum.splits)
  have sc: "docs_same rid v v'" if "StorageConfig fc mk u v = (l, v')" for fc mk l and v v' :: "'a cfg_st_scheme"
    using StorageConfig_frames [OF that] by (auto simp: docs_same_drawn)
  have cc: "docs_same rid v v'" if "CachedBackendConfig hc u cfg v = (l, v')" for hc cfg l and v v' :: "'a cfg_st_scheme"
    using that docs_same_trans [OF docs_same_drawn docs_same_store, of "config_cache_key u" rid v]
    by (auto simp: CachedBackendConfig_def Set_def docs_same_drawn split: if_splits)
  have lo: "docs_same rid w v" if "loadCachedConfig x f u w = (c, v)" for f c v
  proof -
    obtain e b w1 where l: "LoadCachedConfig (f_cache f) u w = ((e, b), w1)" by (metis prod.exhaust)
    show ?thesis
    proof (cases b)
      case True
      then show ?thesis using that l lc [OF l] by (auto simp: loadCachedConfig_def)
    next
      case False
      obtain y w2 where s: "StorageConfig (x_fc x) (x_mkr x) u w1 = (y, w2)"
        by (cases "StorageConfig (x_fc x) (x_mkr x) u w1")
      have "docs_same rid w w2" using docs_same_trans [OF lc [OF l] sc [OF s]] .
      moreover have "v = w2 \<or> (\<exists>cfg z. CachedBackendConfig True u cfg w2 = (z, v))"
        using that l False s by (auto simp: loadCachedConfig_def split: sum.splits prod.splits if_splits)
      ultimately show ?thesis using docs_same_trans cc by blast
    qed
  qed
  have ex: "docs_same rid v v'" if "externalClient x f u cfg v = (c, v')" for f cfg c and v v' :: "'a cfg_st_scheme"
    using that by (auto simp: externalClient_def docs_same_def rlookup_def calm_def split: sum.splits if_splits option.splits)
  show ?thesis
    using assms docs_same_trans [OF lo ex]
    by (auto simp: Resolve_def split: option.splits if_splits sum.splits prod.splits intro: lo)
qed

lemma DeleteObject_docs: "DeleteObject sid k w = (r, w') \<Longrightarrow> docs_same rid w w'"
  using docs_same_trans [OF docs_same_drawn docs_same_bucket]
  by (auto simp: DeleteObject_def Let_def docs_same_drawn split: sum.splits if_splits)

lemma ListObjects_docs: "ListObjects sid p n w = (r, w') \<Longrightarrow> docs_same rid w w'"
  by (auto simp: ListObjects_def Let_def docs_same_drawn split: sum.splits if_splits)

lemma delete_directory_docs: "delete_directory sid is err w = (r, w') \<Longrightarrow> docs_same rid w w'"
proof (induction sid "is" err w rule: delete_directory.induct)
  case (2 sid i rest err w)
  obtain d v where d: "DeleteObject sid (oi_Key i) (drawn w) = (d, v)" by (cases "DeleteObject sid (oi_Key i) (drawn w)")
  have v: "docs_same rid w v" by (rule docs_same_trans [OF docs_same_drawn DeleteObject_docs [OF d]])
  show ?case
  proof (cases "failing w")
    case True
    then show ?thesis using 2(3) by (auto simp: docs_same_drawn)
  next
    case False
    have "docs_same rid v w'"
    proof (cases d)
      case (Inl e)
      then show ?thesis using 2(1) [OF False d [symmetric] Inl] 2(3) False d by auto
    next
      case (Inr y)
      then show ?thesis using 2(2) [OF False d [symmetric] Inr] 2(3) False d by auto
    qed
    then show ?thesis using docs_same_trans [OF v] by blast
  qed
qed simp

lemma recover_nothing [simp]: "snd (RecoverReservation c u 0 w) = w"
  by (simp add: RecoverReservation_def ReleaseStorage_def split: option.splits)

text \<open>Emptying the ledger: in calm the row is made if it is missing and both of its sums become zero.\<close>

lemma ensured_reset:
  fixes w :: "'a quota_st_scheme"
  assumes "calm w" and "u \<noteq> 0"
  defines "x \<equiv> snd (ResetStorageQuota u (snd (EnsureStorageQuota u w)))"
  shows "\<exists>r. row_of x u = Some r \<and> q_used r = 0 \<and> q_reserved r = 0" and "calm x" and "now x = now w"
    and "rlookup x k = rlookup w k"
proof -
  have c: "\<not> failing w" "calm (drawn w)" "\<not> failing (drawn w)" "calm (drawn (drawn w))"
    using assms(1) by (simp_all add: calm_drawn calm_not_failing)
  have "\<exists>r t. row_of x u = Some r \<and> q_used r = 0 \<and> q_reserved r = 0 \<and> x = drawn (drawn w)\<lparr>quota_tbl := t\<rparr>"
  proof (cases "row_of w u")
    case None
    then show ?thesis using c assms(2)
      by (auto simp: x_def EnsureStorageQuota_def ResetStorageQuota_def row_of_def put_row_def update_conv' failing_def
          drawn_def)
  next
    case (Some r)
    then show ?thesis using c assms(2)
      by (auto simp: x_def EnsureStorageQuota_def ResetStorageQuota_def row_of_def put_row_def update_conv' failing_def
          drawn_def)
  qed
  then show "\<exists>r. row_of x u = Some r \<and> q_used r = 0 \<and> q_reserved r = 0" and "calm x" and "now x = now w"
    and "rlookup x k = rlookup w k"
    using c(4) by (auto simp: rlookup_def calm_def drawn_def cong: option.case_cong)
qed

lemma unreserved_cannot_commit:
  "row_of w u = Some r \<Longrightarrow> q_reserved r = 0 \<Longrightarrow> \<exists>e. fst (CommitStorage u n w) = Inl e"
  by (auto simp: CommitStorage_def Let_def row_of_def drawn_def)

text \<open>Removing a user's files, when it reports success, zeroes the ledger but leaves the reservations in
  the cache: a pending upload of that user can still be loaded, and its commit is bound to fail.\<close>
theorem directory_reset_breaks_promises:
  assumes "calm w" and "u \<noteq> 0" and "ws_factory s \<noteq> None"
    and del: "DeleteUserS3Directory s u w = (None, w')"
    and rv: "fst (LoadUploadReservation True rid w) = Inr rv" "rv_UserID rv = u"
  shows "(\<exists>r. row_of w' u = Some r \<and> q_used r = 0 \<and> q_reserved r = 0)
    \<and> fst (LoadUploadReservation True rid w') = Inr rv \<and> (\<exists>e. fst (Commit c rid w') = Inl e)"
proof -
  obtain b w1 l w2 e w3 where st: "Resolve (ws_ext s) (ws_factory s) u w = (Inr b, w1)"
      "ListObjects b (userPrefix u) 0 w1 = (Inr l, w2)" "delete_directory b l None w2 = (Inr e, w3)"
      "w' = snd (ResetStorageQuota u (snd (EnsureStorageQuota u w3)))"
    using del assms(3) by (auto simp: DeleteUserS3Directory_def Let_def split: sum.splits prod.splits if_splits)
  have "docs_same rid w w3"
    by (rule docs_same_trans [OF Resolve_docs [OF st(1)]
          docs_same_trans [OF ListObjects_docs [OF st(2)] delete_directory_docs [OF st(3)]]])
  then have same: "calm w3" "rlookup w3 (reservation_key rid) = rlookup w (reservation_key rid)"
    using assms(1) by (auto simp: docs_same_def)
  note x = ensured_reset [OF same(1) assms(2), folded st(4)]
  have rid: "rid \<noteq> []" using rv(1) by (auto simp: LoadUploadReservation_def)
  have load: "fst (LoadUploadReservation True rid w') = Inr rv"
    using rv(1) by (simp add: Load_calm [OF assms(1) rid] Load_calm [OF x(2) rid] x(4) same(2))
  obtain v where v: "LoadUploadReservation True rid w' = (Inr rv, v)"
    using load by (cases "LoadUploadReservation True rid w'") auto
  obtain r where r: "row_of w' u = Some r" "q_used r = 0" "q_reserved r = 0" using x(1) by blast
  have "row_of v u = Some r"
    using v r(1) by (auto simp: Load_calm [OF x(2) rid] row_of_def drawn_def)
  then obtain f where f: "fst (CommitStorage u (rv_Size rv) v) = Inl f"
    using unreserved_cannot_commit r(3) by blast
  have "\<exists>e. fst (Commit c rid w') = Inl e"
    using v f rv(2) by (cases "CommitStorage u (rv_Size rv) v") (auto simp: Commit_def)
  then show ?thesis using x(1) load by blast
qed

end
