(* ===== verification/MigrationDemo.thy ===== *)
theory MigrationDemo
  imports MigrationRuns
begin

text \<open>Concrete migrations: the witnesses of the migration properties.\<close>

definition plain_service :: "mig_st migration_service" where
  "plain_service = \<lparr>ms_store = True, ms_locker = False, ms_cutover = None, ms_pair = None\<rparr>"

definition wired_service :: "mig_st migration_service" where
  "wired_service = \<lparr>ms_store = True, ms_locker = True, ms_cutover = Some (cutover_config demo_ext),
     ms_pair = Some (resolve_pair demo_ext (Some demo_factory))\<rparr>"

definition mig_of :: "cfg_st \<Rightarrow> (nat \<times> mig_row) list \<Rightarrow> mig_st" where
  "mig_of w t = cfg_st.extend w (mig_st.fields t 5 [])"

definition demo_row :: mig_row where
  "demo_row = new_row 7 BackendInternal BackendExternal 1000"

definition demo_mig :: mig_st where
  "demo_mig = mig_of demo_cfg_st [(4, demo_row)]"

definition demo_target :: store_id where
  "demo_target = External ''s3.example.com'' ''ak'' ''sk'' ''files''"

lemma mig_of_simps [simp]:
  "stores (mig_of w t) = stores w" "mig_tbl (mig_of w t) = t" "faults (mig_of w t) = faults w"
  "now (mig_of w t) = now w" "config_tbl (mig_of w t) = config_tbl w" "etag_fn (mig_of w t) = etag_fn w"
  "mig_next (mig_of w t) = 5" "mig_running (mig_of w t) = []" "redis (mig_of w t) = redis w"
  "calm (mig_of w t) = calm w" "contents (mig_of w t) = contents w"
  by (simp_all add: mig_of_def cfg_st.defs mig_st.defs calm_def contents_def fun_eq_iff)

lemma plain_frames [simp]: "cutover_frames plain_service" "jobs_framed plain_service"
  by (simp_all add: cutover_frames_def jobs_framed_def plain_service_def)

lemma demo_honest [simp]: "honest_job src tgt 4 (mig_of w [(4, demo_row)])"
  by (simp add: honest_job_def demo_row_def new_row_def)

definition demo_run :: "(go_err + unit) \<times> mig_st" where
  "demo_run = Run (Some plain_service) 4 7 (Some Internal) (Some demo_target) ''t'' demo_mig"

lemma demo_contents: "contents demo_mig Internal ''users/7/a'' = Some ''abc''"
  by (simp add: demo_mig_def contents_def demo_cfg_st_def)

lemma prefix_7: "userPrefix 7 = ''users/7/''"
  by code_simp

lemma demo_prefix: "HasPrefix ''users/7/a'' (userPrefix 7)"
  unfolding prefix_7 by code_simp

theorem no_object_lost_witness:
  "contents (snd demo_run) Internal ''users/7/a'' = Some ''abc''
   \<or> contents (snd demo_run) demo_target ''users/7/a'' = Some ''abc''"
proof -
  have "Run (Some plain_service) 4 7 (Some Internal) (Some demo_target) ''t'' demo_mig
      = (fst demo_run, snd demo_run)" by (simp add: demo_run_def)
  from no_object_lost [OF _ plain_frames(1) _ this demo_contents] show ?thesis
    by (simp add: demo_target_def demo_mig_def)
qed

lemma demo_copyable: "copyable src tgt (mig_of w t) ''users/7/a'' = copyable src tgt w ''users/7/a''"
  by (rule copyable_same) simp_all

lemma demo_key_valid: "validateKey ''users/7/a'' = Inr ()"
  by code_simp

lemma demo_all_copyable:
  assumes "stores w src = stores demo_cfg_st Internal"
  shows "all_copyable 7 src tgt w"
  using assms demo_key_valid
  by (simp add: all_copyable_def copyable_def demo_cfg_st_def maxMigrationObjectSize_def)

lemma demo_may_run: "may_run plain_service 4 7 ''t'' (mig_of w [(4, demo_row)])"
  by (simp add: may_run_def plain_service_def demo_row_def)

theorem calm_run_succeeds_witness: "fst demo_run = Inr ()"
  unfolding demo_run_def demo_mig_def
  by (rule calm_run_succeeds [OF _ demo_may_run])
    (simp_all add: cutover_works_def plain_service_def demo_all_copyable)

lemma demo_run_ok: "\<exists>w. demo_run = (Inr (), w)"
proof -
  have works: "cutover_works plain_service 7 demo_mig" by (simp add: cutover_works_def plain_service_def)
  show ?thesis
    unfolding demo_run_def
    by (rule Run_calm [OF _ _ works]) (simp_all add: demo_mig_def demo_may_run demo_all_copyable)
qed

theorem successful_run_moves_objects_witness:
  "contents (snd demo_run) Internal ''users/7/a'' = None
   \<and> contents (snd demo_run) demo_target ''users/7/a'' = Some ''abc''"
proof -
  obtain w where w: "demo_run = (Inr (), w)" using demo_run_ok by blast
  from successful_run_moves_objects [OF _ plain_frames(1) _ w [unfolded demo_run_def] demo_prefix]
  have "contents w Internal ''users/7/a'' = None \<and> contents w demo_target ''users/7/a'' = Some ''abc''"
    using demo_contents by (simp add: demo_target_def demo_mig_def)
  then show ?thesis by (simp only: w snd_conv)
qed

section \<open>The wired service on a stale cache\<close>

definition stale_mig :: mig_st where
  "stale_mig = mig_of demo_stale [(4, demo_row)]"

definition stale_pair :: "(go_err + store_id \<times> store_id) \<times> mig_st" where
  "stale_pair = resolve_pair demo_ext (Some demo_factory) 7 stale_mig"

lemma stale_pair_facts:
  "fst stale_pair = Inr (Internal, Internal)" "calm (snd stale_pair)"
  "mig_tbl (snd stale_pair) = [(4, demo_row)]" "mig_running (snd stale_pair) = []"
  "rlookup (snd stale_pair) (mig_lock_key 7) = None"
  "map_of (config_tbl (snd stale_pair)) 7 = Some (demo_external\<lparr>bc_AccessKey := ''enc:ak'', bc_SecretKey := ''enc:sk''\<rparr>)"
  by code_simp+

lemma cutover_config_stores: "stores (snd (cutover_config x u w)) = stores w"
  by (auto simp: cutover_config_def SaveStorageConfig_def Let_def split: sum.splits prod.splits
      dest!: StorageConfig_stores)

lemma wired_frames: "cutover_frames wired_service"
  by (simp add: cutover_frames_def wired_service_def cutover_config_stores)

lemma wired_cutover: "cutover_works wired_service 7 (snd stale_pair)"
  unfolding cutover_works_def
proof (intro allI impI)
  fix co v assume a: "ms_cutover wired_service = Some co \<and> calm_like (snd stale_pair) v"
  then have "calm v" "map_of (config_tbl v) 7 = Some (demo_external\<lparr>bc_AccessKey := ''enc:ak'', bc_SecretKey := ''enc:sk''\<rparr>)"
    using stale_pair_facts(6) by (simp_all add: calm_like_def)
  then show "fst (co 7 v) = Inr () \<and> calm (snd (co 7 v))"
    using a by (auto simp: wired_service_def cutover_config_def StorageConfig_def SaveStorageConfig_def Let_def
        calm_not_failing calm_drawn demo_ext_def demo_fc_def demo_external_def other_type_def
        decryptStorageCredential_def)
qed

lemma wired_may_run: "may_run wired_service 4 7 ''t'' (snd stale_pair)"
  using stale_pair_facts(3-5) by (simp add: may_run_def demo_row_def wired_service_def)

lemma stale_pair_store: "stores (snd stale_pair) Internal = stores demo_cfg_st Internal"
  by code_simp

theorem wired_migration_deletes_files_witness:
  "contents demo_stale Internal ''users/7/a'' = Some ''abc'' \<and> (\<exists>w.
     Run (Some wired_service) 4 7 (Some Internal) (Some Internal) ''t'' (snd stale_pair) = (Inr (), w)
     \<and> contents w Internal ''users/7/a'' = None)"
proof (intro conjI)
  show "contents demo_stale Internal ''users/7/a'' = Some ''abc''" by code_simp
  obtain w where w: "Run (Some wired_service) 4 7 (Some Internal) (Some Internal) ''t'' (snd stale_pair) = (Inr (), w)"
    using Run_calm [OF stale_pair_facts(2) wired_may_run wired_cutover demo_all_copyable [OF stale_pair_store]] by blast
  have p: "resolve_pair demo_ext (Some demo_factory) 7 stale_mig = (Inr (Internal, Internal), snd stale_pair)"
    using stale_pair_facts(1) by (simp add: stale_pair_def prod_eq_iff)
  have h: "honest_job Internal Internal 4 (snd stale_pair)"
    using stale_pair_facts(3) by (simp add: honest_job_def demo_row_def new_row_def)
  from wired_migration_deletes_files [OF p wired_frames h w demo_prefix] w
  show "\<exists>w. Run (Some wired_service) 4 7 (Some Internal) (Some Internal) ''t'' (snd stale_pair) = (Inr (), w)
     \<and> contents w Internal ''users/7/a'' = None" by blast
qed

section \<open>Jobs that failed or were interrupted\<close>

definition empty_mig :: mig_st where
  "empty_mig = (mig_of demo_cfg_st [])\<lparr>faults := [False, False, False, True]\<rparr>"

text \<open>A new job whose listing fails.\<close>

definition failed_mig :: mig_st where
  "failed_mig = snd (StartWithTypes (Some plain_service) 7 (Some Internal) (Some demo_target)
     BackendInternal BackendExternal ''t'' empty_mig)"

lemma failed_row: "map_option m_State (map_of (mig_tbl failed_mig) 5) = Some MigrationFailed"
  by code_simp

theorem waiting_jobs_start_over_witness:
  "\<exists>row. map_of (mig_tbl failed_mig) 5 = Some row \<and> m_State row = MigrationFailed \<and> fresh_row row"
proof -
  obtain row where row: "map_of (mig_tbl failed_mig) 5 = Some row" "m_State row = MigrationFailed"
    using failed_row by auto
  have run: "(mig_step plain_service)\<^sup>*\<^sup>* empty_mig failed_mig"
    unfolding failed_mig_def by (rule r_into_rtranclp, rule step_start)
  have "mig_tbl empty_mig = []" by (simp add: empty_mig_def)
  from waiting_jobs_start_over [OF run plain_frames(2) this row(1)] show ?thesis
    using row by (simp add: waiting_state_def)
qed

definition stuck_mig :: mig_st where
  "stuck_mig = mig_of demo_cfg_st [(4, demo_row\<lparr>m_State := MigrationRunning\<rparr>)]"

theorem interrupted_job_blocks_user_witness:
  "let w = snd (ProcessPending (Some plain_service) (\<lambda>_. ''t'') stuck_mig) in
   map_of (mig_tbl w) 4 = Some (demo_row\<lparr>m_State := MigrationRunning\<rparr>)
   \<and> \<not> is_ok (fst (Cancel (Some plain_service) 4 w))
   \<and> \<not> is_ok (fst (CreateMigration 7 BackendInternal BackendExternal w))"
proof -
  have run: "(mig_step plain_service)\<^sup>*\<^sup>* stuck_mig (snd (ProcessPending (Some plain_service) (\<lambda>_. ''t'') stuck_mig))"
    by (rule r_into_rtranclp, rule step_process)
  have inv: "jobs_inv stuck_mig"
    by (simp add: jobs_inv_def stuck_mig_def)
  have row: "map_of (mig_tbl stuck_mig) 4 = Some (demo_row\<lparr>m_State := MigrationRunning\<rparr>)"
    by (simp add: stuck_mig_def)
  from interrupted_job_blocks_user [OF run plain_frames(2) inv row, of BackendInternal BackendExternal]
  show ?thesis by (simp add: Let_def demo_row_def)
qed

theorem retries_are_bounded_witness:
  "now (snd (retryMigration (DeleteObject Internal ''users/7/a'') demo_mig)) \<le> 1000 + 600 * (second div 1000)"
proof -
  have "now (snd (DeleteObject Internal k v)) = now v" for k and v :: mig_st
    by (simp add: DeleteObject_def Let_def split: sum.splits)
  from retries_are_bounded [of "DeleteObject Internal ''users/7/a''", OF this, of demo_mig]
  show ?thesis by (simp add: demo_mig_def demo_cfg_st_def)
qed

end
