(* ===== verification/StorageWebDemo.thy ===== *)
theory StorageWebDemo
  imports StorageWebProps MigrationDemo
begin

text \<open>
  A concrete service: user 7 holds a pending reservation of 5 bytes, user 8 has uploaded 9 bytes. The
  witnesses of the endpoint properties.
\<close>

definition web_resv :: upload_reservation where
  "web_resv = \<lparr>rv_ID = ''r1'', rv_IdempotencyKey = [], rv_UserID = 7, rv_ObjectKey = ''users/7/b'', rv_Size = 5,
     rv_Status = ''reserved'', rv_ExpiresAt = 5000\<rparr>"

definition web_st :: mig_st where
  "web_st = mig_of \<lparr>now = 1000, faults = [],
     redis = [(reservation_key ''r1'', (CReservation web_resv, Some 5000))],
     quota_tbl = [(7, \<lparr>q_quota = 100, q_used = 10, q_reserved = 5\<rparr>)],
     stores = (\<lambda>_. [(''users/7/a'', \<lparr>so_Data = ''abc'', so_ETag = [], so_Modified = 0\<rparr>),
                   (''users/8/x'', \<lparr>so_Data = ''ninebytes'', so_ETag = [], so_Modified = 0\<rparr>)]),
     etag_fn = (\<lambda>_ d. d), url_fn = (\<lambda>_ k _. k), healthy = True, config_tbl = [], locked_notified = []\<rparr> []"

definition web_cfg :: "rsvc" where
  "web_cfg = \<lparr>s_cache = True, s_quota = True, s_backend = None, s_setnx = True, s_releaseall = True\<rparr>"

definition demo_sts :: sts where
  "demo_sts = \<lparr>sts_new = (\<lambda>_. Inr ()),
     sts_get = (\<lambda>so. Inr \<lparr>cr_AccessKey = ''tmp'', cr_SecretKey = ''sec'', cr_Token = so_SessionName so\<rparr>)\<rparr>"

definition demo_sessions :: session_service where
  "demo_sessions = \<lparr>se_internal = ''minio:9000'', se_public = ''s3.example.com'', se_root_access = ''root'',
     se_root_secret = ''pw'', se_bucket = ''main'', se_location = [], se_cache = True\<rparr>"

definition demo_web :: "mig_st web_storage" where
  "demo_web = \<lparr>ws_ext = demo_ext, ws_factory = Some (demo_factory\<lparr>f_configs := False\<rparr>), ws_sessions = Some demo_sessions,
     ws_reservations = Some web_cfg, ws_migrations = Some plain_service, ws_exam = True, ws_sts = demo_sts,
     ws_head = (\<lambda>_. Some 200), ws_uuid5 = (\<lambda>s. s)\<rparr>"

definition caller :: "uid \<Rightarrow> gin" where
  "caller u = \<lparr>g_keys = [(''userId'', CtxU32 u)], g_query = [], g_param = []\<rparr>"

lemma caller_id [simp]: "u \<noteq> 0 \<Longrightarrow> getUserID (caller u) = Some u"
  by (simp add: caller_def getUserID_def)

lemma demo_web_resolve [simp]: "Resolve (ws_ext demo_web) (ws_factory demo_web) u w = (Inr Internal, w)"
  by (simp add: demo_web_def demo_factory_def Resolve_def)

lemma demo_web_service: "configured (ws_reservations demo_web)"
  by (simp add: demo_web_def configured_def web_cfg_def)

lemma demo_web_framed: "migrations_framed demo_web"
  by (simp add: migrations_framed_def demo_web_def)

theorem available_is_what_can_be_reserved_witness:
  "\<not> exceeds \<lparr>q_quota = 100, q_used = 10, q_reserved = 5\<rparr> 85"
proof -
  have "(85 :: nat) \<le> unat (availableQuota 100 10 5)" by code_simp
  then show ?thesis
    using available_is_what_can_be_reserved [of "\<lparr>q_quota = 100, q_used = 10, q_reserved = 5\<rparr>" 85] by simp
qed

theorem requests_touch_own_objects_witness:
  "contents (snd (DeleteAllStorageObjects demo_web (caller 7) web_st)) Internal ''users/8/x'' = Some ''ninebytes''"
proof -
  have k: "\<not> HasPrefix ''users/8/x'' (userPrefix 7)" unfolding prefix_7 by code_simp
  have run: "(web_step demo_web (caller 7))\<^sup>*\<^sup>* web_st (snd (DeleteAllStorageObjects demo_web (caller 7) web_st))"
    by (rule r_into_rtranclp) (rule web_step.delete_objects)
  have "contents (snd (DeleteAllStorageObjects demo_web (caller 7) web_st)) Internal ''users/8/x''
      = contents web_st Internal ''users/8/x''"
    by (rule requests_touch_own_objects [OF run caller_id demo_web_framed k]) simp
  also have "\<dots> = Some ''ninebytes''" by (simp add: web_st_def contents_def)
  finally show ?thesis .
qed

definition foreign_commit :: commit_req where
  "foreign_commit = \<lparr>cm_Key = ''users/8/x'', cm_ReservationID = ''r1''\<rparr>"

lemma web_st_simps [simp]:
  "calm web_st" "row_of web_st 7 = Some \<lparr>q_quota = 100, q_used = 10, q_reserved = 5\<rparr>" "now web_st = 1000"
  by (simp_all add: web_st_def calm_def row_of_def mig_of_def cfg_st.defs mig_st.defs)

lemma web_load: "fst (LoadUploadReservation True ''r1'' web_st) = Inr web_resv"
  "fst (LoadUploadReservation True ''r1'' (drawn web_st)) = Inr web_resv"
  by code_simp+

theorem commit_charges_the_reservation_witness:
  "status (CommitStorageUpload demo_web (caller 8) (Some foreign_commit) web_st) = 200
   \<and> quota_view (snd (CommitStorageUpload demo_web (caller 8) (Some foreign_commit) web_st)) 7 = Some (100, 15, 0)"
proof -
  let ?row = "\<lparr>q_quota = 100, q_used = 10, q_reserved = 5\<rparr> :: quota_row"
  have key: "\<not> bad_commit_key 8 (Some foreign_commit)" by code_simp
  have stat: "StatObject Internal (cm_Key foreign_commit) web_st
      = (Inr (info_of ''users/8/x'' \<lparr>so_Data = ''ninebytes'', so_ETag = [], so_Modified = 0\<rparr>), drawn web_st)"
  proof -
    have "validateKey ''users/8/x'' = Inr ()" by code_simp
    then show ?thesis
      by (simp add: StatObject_def foreign_commit_def calm_not_failing Let_def) (simp add: web_st_def)
  qed
  from commit_charges_the_reservation [where s = demo_web and w = web_st and u = 8 and rid = "''r1''",
      OF caller_id key _ demo_web_resolve stat _ _ web_load(2), of ?row]
  show ?thesis
    using demo_web_service web_st_simps(2)
    by (simp add: foreign_commit_def web_resv_def in_range_def calm_drawn row_of_def)
qed

theorem sessions_are_scoped_witness:
  "900 < ss_ExpiresAt (projr (fst (CreateSession demo_sts (Some demo_sessions) 7 0 ''ab'' web_st)))"
proof -
  have "is_ok (fst (CreateSession demo_sts (Some demo_sessions) 7 0 ''ab'' web_st))" by code_simp
  then obtain ss w' where c: "CreateSession demo_sts (Some demo_sessions) 7 0 ''ab'' web_st = (Inr ss, w')"
    by (cases "CreateSession demo_sts (Some demo_sessions) 7 0 ''ab'' web_st"; cases "fst (CreateSession demo_sts (Some demo_sessions) 7 0 ''ab'' web_st)") auto
  show ?thesis using sessions_are_scoped [OF c] c by simp
qed

theorem directory_reset_breaks_promises_witness:
  "\<exists>e. fst (Commit (Some web_cfg) ''r1'' (snd (DeleteUserS3Directory demo_web 7 web_st))) = Inl e"
proof -
  have "fst (DeleteUserS3Directory demo_web 7 web_st) = None" by code_simp
  then obtain w' where d: "DeleteUserS3Directory demo_web 7 web_st = (None, w')"
    by (metis prod.collapse)
  show ?thesis
    using directory_reset_breaks_promises [OF _ _ _ d web_load(1), of "Some web_cfg"] d
    by (simp add: demo_web_def web_resv_def)
qed

end
