(* ===== verification/Sealing.thy ===== *)
theory Sealing
  imports Migration
begin

text \<open>
  Sealed texts: standard base64 of a random 12-byte nonce followed by the AES-GCM ciphertext. Settings,
  e-mail addresses, TOTP secrets and master keys are all stored in this form. Base64 is defined here; of
  the cryptographic library AES-GCM, SHA-256 and the random source are parameters (\<open>crypto\<close>), with the
  laws the code relies on in \<open>good_crypto\<close>. Since Go 1.24 the random source never fails.
\<close>

section \<open>Base64\<close>

definition b64_char :: "nat \<Rightarrow> char" where
  "b64_char n =
     (if n < 26 then char_of (65 + n) else if n < 52 then char_of (71 + n)
      else if n < 62 then char_of (n - 4) else if n = 62 then CHR ''+'' else CHR 0x2F)"

definition b64_val :: "char \<Rightarrow> nat option" where
  "b64_val c =
     (let n = of_char c :: nat in
      if 65 \<le> n \<and> n \<le> 90 then Some (n - 65) else if 97 \<le> n \<and> n \<le> 122 then Some (n - 71)
      else if 48 \<le> n \<and> n \<le> 57 then Some (n + 4) else if n = 43 then Some 62
      else if n = 47 then Some 63 else None)"

fun EncodeToString :: "string \<Rightarrow> string" where
  "EncodeToString [] = []"
| "EncodeToString [a] =
     (let x = of_char a :: nat in
      [b64_char (x div 4), b64_char (x mod 4 * 16), CHR ''='', CHR ''=''])"
| "EncodeToString [a, b] =
     (let x = of_char a :: nat; y = of_char b in
      [b64_char (x div 4), b64_char (x mod 4 * 16 + y div 16), b64_char (y mod 16 * 4), CHR ''=''])"
| "EncodeToString (a # b # c # s) =
     (let x = of_char a :: nat; y = of_char b; z = of_char c in
      b64_char (x div 4) # b64_char (x mod 4 * 16 + y div 16) # b64_char (y mod 16 * 4 + z div 64)
      # b64_char (z mod 64) # EncodeToString s)"

text \<open>
  The decoder skips carriage returns and line feeds anywhere, wants full groups of four, accepts padding in
  the last group only, and ignores the bits left over in a padded group.
\<close>

fun decode_groups :: "string \<Rightarrow> string option" where
  "decode_groups [] = Some []"
| "decode_groups (a # b # c # d # s) =
     (case (b64_val a, b64_val b) of
        (Some i, Some j) \<Rightarrow>
          if c = CHR ''='' then
            (if d = CHR ''='' \<and> s = [] then Some [char_of (i * 4 + j div 16)] else None)
          else (case b64_val c of
                  None \<Rightarrow> None
                | Some k \<Rightarrow>
                    if d = CHR ''='' then
                      (if s = [] then Some [char_of (i * 4 + j div 16), char_of (j mod 16 * 16 + k div 4)] else None)
                    else (case (b64_val d, decode_groups s) of
                            (Some l, Some r) \<Rightarrow>
                              Some (char_of (i * 4 + j div 16) # char_of (j mod 16 * 16 + k div 4)
                                    # char_of (k mod 4 * 64 + l) # r)
                          | _ \<Rightarrow> None))
      | _ \<Rightarrow> None)"
| "decode_groups _ = None"

definition DecodeString :: "string \<Rightarrow> string option" where
  "DecodeString s = decode_groups (filter (\<lambda>c. c \<noteq> char_of (10 :: nat) \<and> c \<noteq> char_of (13 :: nat)) s)"

lemma b64_val_char [simp]: "n < 64 \<Longrightarrow> b64_val (b64_char n) = Some n"
  by (auto simp: b64_val_def b64_char_def Let_def)

lemma b64_breaks [simp]:
  "b64_val (CHR ''='') = None" "b64_val (char_of (10 :: nat)) = None" "b64_val (char_of (13 :: nat)) = None"
  by (simp_all add: b64_val_def)

lemma padding_no_break: "CHR ''='' \<noteq> char_of (10 :: nat)" "CHR ''='' \<noteq> char_of (13 :: nat)"
  by code_simp+

lemma b64_char_neq [simp]: "n < 64 \<Longrightarrow> b64_val c = None \<Longrightarrow> b64_char n \<noteq> c"
  by auto

lemma char_lt: "(of_char c :: nat) < 256"
  by (metis of_char_mod_256 mod_less_divisor zero_less_numeral)

lemma sextet_arith:
  fixes x :: nat
  assumes "x < 256"
  shows "x div 4 < 64" "x mod 4 * 16 < 64" "x mod 16 * 4 < 64" "x div 16 div 16 = 0"
    "x div 16 mod 16 = x div 16" "x div 64 div 4 = 0" "x div 64 mod 4 = x div 64"
  using assms by (simp_all add: div_mult2_eq [symmetric] less_mult_imp_div_less)

lemma sextet_sums:
  fixes x y :: nat
  assumes "x < 256" and "y < 256"
  shows "x mod 4 * 16 + y div 16 < 64" "x mod 16 * 4 + y div 64 < 64"
  using assms by linarith+

lemmas sextets [simp] = sextet_arith [OF char_lt] sextet_sums [OF char_lt char_lt]

lemma decode_encode: "decode_groups (EncodeToString s) = Some s"
  by (induction s rule: EncodeToString.induct) (simp_all add: Let_def)

lemma encode_no_break: "c \<in> set (EncodeToString s) \<Longrightarrow> b64_val c \<noteq> None \<or> c = CHR ''=''"
  by (induction s rule: EncodeToString.induct) (auto simp: Let_def)

lemma base64_roundtrip [simp]: "DecodeString (EncodeToString s) = Some s"
proof -
  have "filter (\<lambda>c. c \<noteq> char_of (10 :: nat) \<and> c \<noteq> char_of (13 :: nat)) (EncodeToString s) = EncodeToString s"
  proof (rule filter_True, rule ballI)
    fix c assume "c \<in> set (EncodeToString s)"
    then have "b64_val c \<noteq> None \<or> c = CHR ''=''" by (rule encode_no_break)
    then show "c \<noteq> char_of (10 :: nat) \<and> c \<noteq> char_of (13 :: nat)" using b64_breaks(2,3) padding_no_break by metis
  qed
  then show ?thesis by (simp add: DecodeString_def decode_encode)
qed

section \<open>AES-GCM\<close>

text \<open>
  \<open>c_seal\<close> and \<open>c_open\<close> take key, nonce and text; \<open>c_rand i n\<close> is the \<open>i\<close>-th string of \<open>n\<close> random bytes the
  process draws, and the state counts the draws.
\<close>

record crypto =
  c_seal :: "string \<Rightarrow> string \<Rightarrow> string \<Rightarrow> string"
  c_open :: "string \<Rightarrow> string \<Rightarrow> string \<Rightarrow> string option"
  c_sha256 :: "string \<Rightarrow> string"
  c_rand :: "nat \<Rightarrow> nat \<Rightarrow> string"

record rand_st = mig_st +
  rnd_pos :: nat

definition good_crypto :: "('x) crypto_scheme \<Rightarrow> bool" where
  "good_crypto x =
     ((\<forall>k n p. length n = 12 \<longrightarrow> c_open x k n (c_seal x k n p) = Some p)
      \<and> (\<forall>s. length (c_sha256 x s) = 32) \<and> (\<forall>i n. length (c_rand x i n) = n))"

definition random_bytes :: "('x) crypto_scheme \<Rightarrow> nat \<Rightarrow> 'a rand_st_scheme \<Rightarrow> string \<times> 'a rand_st_scheme" where
  "random_bytes x n w = (c_rand x (rnd_pos w) n, w\<lparr>rnd_pos := Suc (rnd_pos w)\<rparr>)"

definition aes_key :: "string \<Rightarrow> bool" where
  "aes_key k = (length k = 16 \<or> length k = 24 \<or> length k = 32)"

definition bad_key_size :: go_err where
  "bad_key_size = Wrap ''aes.NewCipher'' (Msg ''crypto/aes: invalid key size'')"

definition seal_text :: "('x) crypto_scheme \<Rightarrow> string \<Rightarrow> string \<Rightarrow> 'a rand_st_scheme
    \<Rightarrow> (go_err + string) \<times> 'a rand_st_scheme" where
  "seal_text x key plain w =
     (if \<not> aes_key key then (Inl bad_key_size, w)
      else (case random_bytes x 12 w of
              (nonce, w) \<Rightarrow> (Inr (EncodeToString (nonce @ c_seal x key nonce plain)), w)))"

definition open_text :: "('x) crypto_scheme \<Rightarrow> string \<Rightarrow> string \<Rightarrow> go_err + string" where
  "open_text x key enc =
     (case DecodeString enc of
        None \<Rightarrow> Inl (Wrap ''base64 decode'' (Msg ''illegal base64 data''))
      | Some d \<Rightarrow>
          if \<not> aes_key key then Inl bad_key_size
          else if length d < 12 then Inl (Msg ''ciphertext too short'')
          else (case c_open x key (take 12 d) (drop 12 d) of
                  None \<Rightarrow> Inl (Wrap ''gcm.Open'' (Msg ''cipher: message authentication failed''))
                | Some p \<Rightarrow> Inr p))"

lemma rnd_pos_frames [simp]:
  "now (w\<lparr>rnd_pos := n\<rparr>) = now w" "faults (w\<lparr>rnd_pos := n\<rparr>) = faults w" "redis (w\<lparr>rnd_pos := n\<rparr>) = redis w"
  "calm (w\<lparr>rnd_pos := n\<rparr>) = calm w" "failing (w\<lparr>rnd_pos := n\<rparr>) = failing w"
  by (simp_all add: calm_def failing_def)

lemma seal_text_state: "seal_text x key p w = (r, w') \<Longrightarrow> \<exists>n. w' = w\<lparr>rnd_pos := n\<rparr>"
  by (auto simp: seal_text_def random_bytes_def split: if_splits) (metis rand_st.surjective rand_st.update_convs(1))

lemma seal_then_open:
  assumes "good_crypto x" and "seal_text x key p w = (Inr t, w')"
  shows "open_text x key t = Inr p"
  using assms by (auto simp: seal_text_def open_text_def random_bytes_def good_crypto_def split: if_splits)

lemma seal_works: "good_crypto x \<Longrightarrow> aes_key key \<Longrightarrow> \<exists>t w'. seal_text x key p w = (Inr t, w')"
  by (auto simp: seal_text_def random_bytes_def)

text \<open>
  A column whose values are either plain or sealed behind a tag. Its reader unseals what carries the tag and
  returns anything else as it is; given good primitives it reads back what the writer has sealed.
\<close>

locale sealed_column =
  fixes writes :: "'x \<Rightarrow> string \<Rightarrow> 's \<Rightarrow> (go_err + string) \<times> 's"
    and unseal :: "'x \<Rightarrow> string \<Rightarrow> go_err + string"
    and good :: "'x \<Rightarrow> bool" and tag :: string
  assumes tagged: "writes x v s = (Inr t, s') \<Longrightarrow> HasPrefix t tag"
    and unseals: "good x \<Longrightarrow> writes x v s = (Inr t, s') \<Longrightarrow> unseal x t = Inr v"
begin

lemma read_back:
  assumes "good x" and "writes x v s = (Inr t, s')"
  shows "(if HasPrefix t tag then unseal x t else Inr t) = Inr v"
  using tagged [OF assms(2)] unseals [OF assms] by simp

lemma not_empty: "tag \<noteq> [] \<Longrightarrow> writes x v s = (Inr t, s') \<Longrightarrow> t \<noteq> []"
  using tagged [of x v s t s'] by (cases tag) auto

end

section \<open>Concrete primitives\<close>

text \<open>For the examples: a text opens under the key it was sealed with.\<close>

definition toy_crypto :: crypto where
  "toy_crypto = \<lparr>c_seal = (\<lambda>k n p. take 4 k @ p),
     c_open = (\<lambda>k n c. if HasPrefix c (take 4 k) then Some (drop (length (take 4 k)) c) else None),
     c_sha256 = (\<lambda>s. take 32 (s @ replicate 32 (CHR ''.''))), c_rand = (\<lambda>i n. replicate n (CHR ''r''))\<rparr>"

lemma toy_crypto_good: "good_crypto toy_crypto"
  by (auto simp: good_crypto_def toy_crypto_def min_def)

end
