(* ===== verification/AppConfig.thy ===== *)
theory AppConfig
  imports Sealing
begin

text \<open>
  The settings table \<open>app_config\<close>: \<open>repository/mysql/app_config.go\<close> and \<open>app_config_crypto.go\<close>. The
  table is an association list in the order MySQL returns its rows. Keys are compared byte by byte; the
  column's collation ignores case, but the program's keys are lower-case constants. A value fits its column.
  The process environment (variables, secret files, the master key read at the start) is a parameter.
\<close>

record settings_env =
  se_crypto :: crypto
  se_master :: string                       \<comment> \<open>\<open>state.MasterKey\<close>\<close>
  se_getenv :: "string \<Rightarrow> string"
  se_readfile :: "string \<Rightarrow> go_err + string"

record app_st = rand_st +
  app_tbl :: "(string \<times> string) list"

definition cfg_down :: go_err where
  "cfg_down = Msg ''sql: connection error''"

section \<open>Keys and values\<close>

definition appConfigEncPrefix :: string where
  "appConfigEncPrefix = ''enc:v1:''"

definition sensitiveAppConfigPrefixes :: "string list" where
  "sensitiveAppConfigPrefixes =
     [''auth.'', ''smtp.'', ''google_oauth.'', ''tg.'', ''oper.'', ''svc.'', ''widg.'']"

definition isSensitiveAppConfigKey :: "string \<Rightarrow> bool" where
  "isSensitiveAppConfigKey key = list_ex (HasPrefix key) sensitiveAppConfigPrefixes"

definition isEncryptedAppConfigValue :: "string \<Rightarrow> bool" where
  "isEncryptedAppConfigValue v = HasPrefix v appConfigEncPrefix"

text \<open>The boolean of the Go results is the constructor of the option.\<close>

definition loadCurrentAppMasterKey :: "settings_env \<Rightarrow> go_err + string option" where
  "loadCurrentAppMasterKey e = (if se_master e = [] then Inr None else Inr (Some (se_master e)))"

definition readSecretFile :: "settings_env \<Rightarrow> string \<Rightarrow> go_err + string" where
  "readSecretFile e path =
     (case se_readfile e path of Inl err \<Rightarrow> Inl err | Inr b \<Rightarrow> Inr (TrimSpace b))"

definition new_key_variable :: "settings_env \<Rightarrow> string option" where
  "new_key_variable e =
     (let v = TrimSpace (se_getenv e ''NEW_APP_MASTER_KEY'') in if v \<noteq> [] then Some v else None)"

definition loadNewAppMasterKey :: "settings_env \<Rightarrow> go_err + string option" where
  "loadNewAppMasterKey e =
     (let path = TrimSpace (se_getenv e ''NEW_APP_MASTER_KEY_FILE'') in
      if path \<noteq> [] then
        (case readSecretFile e path of
           Inl err \<Rightarrow> Inl (Wrap ''NEW_APP_MASTER_KEY_FILE'' err)
         | Inr v \<Rightarrow> if v \<noteq> [] then Inr (Some v) else Inr (new_key_variable e))
      else Inr (new_key_variable e))"

definition IsAppConfigRekeyMode :: "settings_env \<Rightarrow> bool" where
  "IsAppConfigRekeyMode e = EqualFold (TrimSpace (se_getenv e ''APP_CONFIG_REKEY'')) ''true''"

definition IsAppConfigRekeyDryRun :: "settings_env \<Rightarrow> bool" where
  "IsAppConfigRekeyDryRun e = EqualFold (TrimSpace (se_getenv e ''APP_CONFIG_REKEY_DRY_RUN'')) ''true''"

definition deriveAppConfigAESKey :: "settings_env \<Rightarrow> string \<Rightarrow> string" where
  "deriveAppConfigAESKey e mk = c_sha256 (se_crypto e) mk"

definition encryptAppConfigValue :: "settings_env \<Rightarrow> string \<Rightarrow> string \<Rightarrow> 'a rand_st_scheme
    \<Rightarrow> (go_err + string) \<times> 'a rand_st_scheme" where
  "encryptAppConfigValue e mk plain w =
     (case seal_text (se_crypto e) (deriveAppConfigAESKey e mk) plain w of
        (Inl err, w) \<Rightarrow> (Inl err, w)
      | (Inr t, w) \<Rightarrow> (Inr (appConfigEncPrefix @ t), w))"

definition decryptAppConfigValue :: "settings_env \<Rightarrow> string \<Rightarrow> string \<Rightarrow> go_err + string" where
  "decryptAppConfigValue e mk encoded =
     open_text (se_crypto e) (deriveAppConfigAESKey e mk) (TrimPrefix encoded appConfigEncPrefix)"

definition prepareAppConfigValueForStorage :: "settings_env \<Rightarrow> string \<Rightarrow> string \<Rightarrow> 'a rand_st_scheme
    \<Rightarrow> (go_err + string) \<times> 'a rand_st_scheme" where
  "prepareAppConfigValueForStorage e key v w =
     (if v = [] \<or> \<not> isSensitiveAppConfigKey key then (Inr v, w)
      else if isEncryptedAppConfigValue v then (Inr v, w)
      else (case loadCurrentAppMasterKey e of
              Inl err \<Rightarrow> (Inl err, w)
            | Inr None \<Rightarrow> (Inr v, w)
            | Inr (Some mk) \<Rightarrow> encryptAppConfigValue e mk v w))"

definition decodeAppConfigValue :: "settings_env \<Rightarrow> string \<Rightarrow> string \<Rightarrow> go_err + string" where
  "decodeAppConfigValue e key v =
     (if v = [] \<or> \<not> isEncryptedAppConfigValue v then Inr v
      else (case loadCurrentAppMasterKey e of
              Inl err \<Rightarrow> Inl err
            | Inr None \<Rightarrow> Inl (Msg ''the value is encrypted but APP_MASTER_KEY is not set'')
            | Inr (Some mk) \<Rightarrow> decryptAppConfigValue e mk v))"

section \<open>Reading and writing\<close>

definition SetAppConfig :: "settings_env \<Rightarrow> string \<Rightarrow> string \<Rightarrow> 'a app_st_scheme
    \<Rightarrow> (go_err + unit) \<times> 'a app_st_scheme" where
  "SetAppConfig e key v w =
     (case prepareAppConfigValueForStorage e key v w of
        (Inl err, w) \<Rightarrow> (Inl (Wrap ''SetAppConfig'' err), w)
      | (Inr s, w) \<Rightarrow>
          if failing w then (Inl (Wrap ''SetAppConfig'' cfg_down), drawn w)
          else (Inr (), (drawn w)\<lparr>app_tbl := AList.update key s (app_tbl w)\<rparr>))"

definition GetAppConfig :: "settings_env \<Rightarrow> string \<Rightarrow> 'a app_st_scheme
    \<Rightarrow> (go_err + string) \<times> 'a app_st_scheme" where
  "GetAppConfig e key w =
     (if failing w then (Inl (Wrap ''GetAppConfig'' cfg_down), drawn w)
      else (case map_of (app_tbl w) key of
              None \<Rightarrow> (Inr [], drawn w)
            | Some v \<Rightarrow>
                (case decodeAppConfigValue e key v of
                   Inl err \<Rightarrow> (Inl (Wrap ''GetAppConfig'' err), drawn w)
                 | Inr d \<Rightarrow> (Inr d, drawn w))))"

fun decode_rows :: "settings_env \<Rightarrow> (string \<times> string) list \<Rightarrow> go_err + (string \<times> string) list" where
  "decode_rows e [] = Inr []"
| "decode_rows e ((k, v) # rows) =
     (case decodeAppConfigValue e k v of
        Inl err \<Rightarrow> Inl (Wrap ''GetAllAppConfig'' err)
      | Inr d \<Rightarrow> (case decode_rows e rows of Inl err \<Rightarrow> Inl err | Inr r \<Rightarrow> Inr ((k, d) # r)))"

text \<open>The second failure is the one \<open>rows.Err\<close> reports.\<close>

definition GetAllAppConfig :: "settings_env \<Rightarrow> 'a app_st_scheme
    \<Rightarrow> (go_err + (string \<times> string) list) \<times> 'a app_st_scheme" where
  "GetAllAppConfig e w =
     (if failing w then (Inl (Wrap ''GetAllAppConfig'' cfg_down), drawn w)
      else (case decode_rows e (app_tbl w) of
              Inl err \<Rightarrow> (Inl err, drawn w)
            | Inr r \<Rightarrow> if failing (drawn w) then (Inl cfg_down, drawn (drawn w))
                       else (Inr r, drawn (drawn w))))"

section \<open>Sealing what is still plain\<close>

definition must_encrypt :: "string \<Rightarrow> string \<Rightarrow> bool" where
  "must_encrypt k v = (isSensitiveAppConfigKey k \<and> v \<noteq> [] \<and> \<not> isEncryptedAppConfigValue v)"

fun encrypt_updates :: "settings_env \<Rightarrow> string \<Rightarrow> (string \<times> string) list \<Rightarrow> 'a rand_st_scheme
    \<Rightarrow> (go_err + (string \<times> string) list) \<times> 'a rand_st_scheme" where
  "encrypt_updates e mk [] w = (Inr [], w)"
| "encrypt_updates e mk ((k, v) # rows) w =
     (if \<not> must_encrypt k v then encrypt_updates e mk rows w
      else (case encryptAppConfigValue e mk v w of
              (Inl err, w) \<Rightarrow> (Inl (Wrap ''EncryptAppConfigSensitiveValues encrypt'' err), w)
            | (Inr enc, w) \<Rightarrow>
                (case encrypt_updates e mk rows w of
                   (Inl err, w) \<Rightarrow> (Inl err, w)
                 | (Inr us, w) \<Rightarrow> (Inr ((k, enc) # us), w))))"

text \<open>\<open>UPDATE app_config SET value = ? WHERE key = ?\<close> on the table a transaction sees.\<close>

definition update_value :: "string \<Rightarrow> string \<Rightarrow> (string \<times> string) list \<Rightarrow> (string \<times> string) list" where
  "update_value k v t = map (\<lambda>(j, u). (j, if j = k then v else u)) t"

fun write_updates :: "(string \<times> string) list \<Rightarrow> (string \<times> string) list \<Rightarrow> 'a env_scheme
    \<Rightarrow> (go_err + (string \<times> string) list) \<times> 'a env_scheme" where
  "write_updates [] t w = (Inr t, w)"
| "write_updates ((k, v) # us) t w =
     (if failing w then (Inl (Wrap ''EncryptAppConfigSensitiveValues update'' cfg_down), drawn w)
      else write_updates us (update_value k v t) (drawn w))"

text \<open>
  The rows are read outside the transaction; the updates and the commit are one transaction, which changes
  the table when its commit succeeds.
\<close>

definition EncryptAppConfigSensitiveValues :: "settings_env \<Rightarrow> 'a app_st_scheme
    \<Rightarrow> (go_err + unit) \<times> 'a app_st_scheme" where
  "EncryptAppConfigSensitiveValues e w =
     (case loadCurrentAppMasterKey e of
        Inl err \<Rightarrow> (Inl err, w)
      | Inr None \<Rightarrow> (Inr (), w)
      | Inr (Some mk) \<Rightarrow>
          if failing w then (Inl (Wrap ''EncryptAppConfigSensitiveValues query'' cfg_down), drawn w)
          else (case encrypt_updates e mk (app_tbl w) (drawn w) of
             (Inl err, w) \<Rightarrow> (Inl err, w)
           | (Inr us, w) \<Rightarrow>
               if failing w then (Inl (Wrap ''EncryptAppConfigSensitiveValues rows'' cfg_down), drawn w)
               else if us = [] then (Inr (), drawn w)
               else if failing (drawn w)
                 then (Inl (Wrap ''EncryptAppConfigSensitiveValues begin tx'' cfg_down), drawn (drawn w))
               else (case write_updates us (app_tbl w) (drawn (drawn w)) of
                  (Inl err, w) \<Rightarrow> (Inl err, w)
                | (Inr t, w) \<Rightarrow>
                    if failing w then (Inl (Wrap ''EncryptAppConfigSensitiveValues commit'' cfg_down), drawn w)
                    else (Inr (), (drawn w)\<lparr>app_tbl := t\<rparr>))))"

section \<open>Changing the master key\<close>

definition ValidateAppConfigRekeyConfig :: "settings_env \<Rightarrow> go_err + unit" where
  "ValidateAppConfigRekeyConfig e =
     (case loadCurrentAppMasterKey e of
        Inl err \<Rightarrow> Inl err
      | Inr old \<Rightarrow>
          (case loadNewAppMasterKey e of
             Inl err \<Rightarrow> Inl err
           | Inr new \<Rightarrow>
               (case (old, new) of
                  (None, _) \<Rightarrow> Inl (Msg ''APP_CONFIG_REKEY=true but APP_MASTER_KEY is not set'')
                | (_, None) \<Rightarrow> Inl (Msg ''APP_CONFIG_REKEY=true but NEW_APP_MASTER_KEY is not set'')
                | (Some a, Some b) \<Rightarrow>
                    if TrimSpace a = TrimSpace b then Inl (Msg ''APP_MASTER_KEY and NEW_APP_MASTER_KEY are equal'')
                    else Inr ())))"

record rekey_item =
  rk_key :: string
  rk_plaintext :: string
  rk_newValue :: string

record rekey_result =
  rk_Count :: nat
  rk_Keys :: "string list"
  rk_DryRun :: bool

fun rekey_collect :: "settings_env \<Rightarrow> string \<Rightarrow> string \<Rightarrow> (string \<times> string) list \<Rightarrow> 'a rand_st_scheme
    \<Rightarrow> (go_err + rekey_item list) \<times> 'a rand_st_scheme" where
  "rekey_collect e old new [] w = (Inr [], w)"
| "rekey_collect e old new ((k, v) # rows) w =
     (if \<not> isSensitiveAppConfigKey k \<or> v = [] then rekey_collect e old new rows w
      else (case (if isEncryptedAppConfigValue v then decryptAppConfigValue e old v else Inr v) of
         Inl err \<Rightarrow> (Inl (Wrap ''RekeyAppConfigSensitiveValues decrypt'' err), w)
       | Inr plain \<Rightarrow>
           (case encryptAppConfigValue e new plain w of
              (Inl err, w) \<Rightarrow> (Inl (Wrap ''RekeyAppConfigSensitiveValues encrypt'' err), w)
            | (Inr enc, w) \<Rightarrow>
                (case decryptAppConfigValue e new enc of
                   Inl err \<Rightarrow> (Inl (Wrap ''RekeyAppConfigSensitiveValues verify'' err), w)
                 | Inr _ \<Rightarrow>
                     (case rekey_collect e old new rows w of
                        (Inl err, w) \<Rightarrow> (Inl err, w)
                      | (Inr us, w) \<Rightarrow>
                          (Inr (\<lparr>rk_key = k, rk_plaintext = plain, rk_newValue = enc\<rparr> # us), w))))))"

text \<open>One item: write, read back, decrypt with the new key, compare.\<close>

definition rekey_row :: "settings_env \<Rightarrow> string \<Rightarrow> rekey_item \<Rightarrow> (string \<times> string) list \<Rightarrow> 'a env_scheme
    \<Rightarrow> (go_err + (string \<times> string) list) \<times> 'a env_scheme" where
  "rekey_row e new it t w =
     (if failing w then (Inl (Wrap ''RekeyAppConfigSensitiveValues update'' cfg_down), drawn w)
      else let t = update_value (rk_key it) (rk_newValue it) t; w = drawn w in
      if failing w then (Inl (Wrap ''RekeyAppConfigSensitiveValues readback'' cfg_down), drawn w)
      else let w = drawn w in
      (case map_of t (rk_key it) of
         None \<Rightarrow> (Inl (Wrap ''RekeyAppConfigSensitiveValues readback'' (Msg ''sql: no rows in result set'')), w)
       | Some s \<Rightarrow>
           if \<not> isEncryptedAppConfigValue s
             then (Inl (Msg ''RekeyAppConfigSensitiveValues readback: the value is not encrypted''), w)
           else (case decryptAppConfigValue e new s of
                   Inl err \<Rightarrow> (Inl (Wrap ''RekeyAppConfigSensitiveValues decrypt-new'' err), w)
                 | Inr d \<Rightarrow>
                     if d \<noteq> rk_plaintext it
                       then (Inl (Msg ''RekeyAppConfigSensitiveValues mismatch: verify failed''), w)
                     else (Inr t, w))))"

fun rekey_rows :: "settings_env \<Rightarrow> string \<Rightarrow> rekey_item list \<Rightarrow> (string \<times> string) list \<Rightarrow> 'a env_scheme
    \<Rightarrow> (go_err + (string \<times> string) list) \<times> 'a env_scheme" where
  "rekey_rows e new [] t w = (Inr t, w)"
| "rekey_rows e new (it # its) t w =
     (case rekey_row e new it t w of
        (Inl err, w) \<Rightarrow> (Inl err, w)
      | (Inr t, w) \<Rightarrow> rekey_rows e new its t w)"

definition tx_end :: "string \<Rightarrow> 'r \<Rightarrow> 'a env_scheme \<Rightarrow> (go_err + 'r) \<times> 'a env_scheme" where
  "tx_end what r w = (if failing w then (Inl (Wrap what cfg_down), drawn w) else (Inr r, drawn w))"

definition rekey_tx :: "settings_env \<Rightarrow> string \<Rightarrow> string \<Rightarrow> bool \<Rightarrow> 'a app_st_scheme
    \<Rightarrow> (go_err + rekey_result) \<times> 'a app_st_scheme" where
  "rekey_tx e old new dry w =
     (case rekey_collect e old new (app_tbl w) w of
        (Inl err, w) \<Rightarrow> (Inl err, w)
      | (Inr us, w) \<Rightarrow>
          if failing w then (Inl (Wrap ''RekeyAppConfigSensitiveValues rows'' cfg_down), drawn w)
          else let w = drawn w;
                   r = \<lparr>rk_Count = length us, rk_Keys = map rk_key us, rk_DryRun = dry\<rparr> in
          if us = [] then
            tx_end (if dry then ''RekeyAppConfigSensitiveValues empty dry-run rollback''
                    else ''RekeyAppConfigSensitiveValues empty commit'') r w
          else if dry then tx_end ''RekeyAppConfigSensitiveValues dry-run rollback'' r w
          else (case rekey_rows e new us (app_tbl w) w of
             (Inl err, w) \<Rightarrow> (Inl err, w)
           | (Inr t, w) \<Rightarrow>
               (case tx_end ''RekeyAppConfigSensitiveValues commit'' r w of
                  (Inl err, w) \<Rightarrow> (Inl err, w)
                | (Inr r, w) \<Rightarrow> (Inr r, w\<lparr>app_tbl := t\<rparr>))))"

definition RekeyAppConfigSensitiveValues :: "settings_env \<Rightarrow> 'a app_st_scheme
    \<Rightarrow> (go_err + rekey_result) \<times> 'a app_st_scheme" where
  "RekeyAppConfigSensitiveValues e w =
     (case ValidateAppConfigRekeyConfig e of
        Inl err \<Rightarrow> (Inl err, w)
      | Inr _ \<Rightarrow>
          (case (loadCurrentAppMasterKey e, loadNewAppMasterKey e) of
             (Inr old, Inr new) \<Rightarrow>
               if failing w then (Inl (Wrap ''RekeyAppConfigSensitiveValues begin tx'' cfg_down), drawn w)
               else if failing (drawn w)
                 then (Inl (Wrap ''RekeyAppConfigSensitiveValues query'' cfg_down), drawn (drawn w))
               else rekey_tx e ((case old of None \<Rightarrow> [] | Some k \<Rightarrow> k)) ((case new of None \<Rightarrow> [] | Some k \<Rightarrow> k)) (IsAppConfigRekeyDryRun e) (drawn (drawn w))
           | (Inl err, _) \<Rightarrow> (Inl err, w)
           | (_, Inl err) \<Rightarrow> (Inl err, w)))"

end
