(* ===== verification/Exam.thy ===== *)
theory Exam
  imports AppConfig Sessions Http
begin

text \<open>
  The security service \<open>infrastructure/security/exam.go\<close>: one-time registration keys, passwords, e-mail
  encryption, TOTP secrets, JSON web tokens and the users' master keys. Hash functions, AES-CBC, bcrypt,
  PBKDF2, the TOTP algorithm and the JWT library are parameters of the record \<open>exam_env\<close>; what the code
  relies on is stated with the properties. \<open>strings.ToLower\<close> is a parameter for its Unicode tables.
\<close>

type_synonym claims = "(string \<times> json) list"

record exam_env = settings_env +
  xe_redis :: bool                                       \<comment> \<open>\<open>redisCli\<close> is set\<close>
  xe_sha3 :: "string \<Rightarrow> string"
  xe_hmac :: "string \<Rightarrow> string \<Rightarrow> string"
  xe_md5 :: "string \<Rightarrow> string"
  xe_cbc :: "string \<Rightarrow> string \<Rightarrow> string \<Rightarrow> string"     \<comment> \<open>key, initial vector, whole blocks\<close>
  xe_bcrypt :: "string \<Rightarrow> string \<Rightarrow> go_err + string"      \<comment> \<open>salt and password\<close>
  xe_bcrypt_ok :: "string \<Rightarrow> string \<Rightarrow> bool"
  xe_pbkdf2 :: "string \<Rightarrow> string \<Rightarrow> string"             \<comment> \<open>password and salt, 100000 rounds, 32 bytes\<close>
  xe_lower :: "string \<Rightarrow> string"
  xe_sign :: "string \<Rightarrow> claims \<Rightarrow> string"
  xe_parse :: "string \<Rightarrow> int \<Rightarrow> string \<Rightarrow> claims option" \<comment> \<open>key, time, token\<close>
  xe_show_time :: "int \<Rightarrow> string"                     \<comment> \<open>RFC 3339\<close>
  xe_read_time :: "string \<Rightarrow> int option"
  xe_totp :: "string \<Rightarrow> int \<Rightarrow> string \<Rightarrow> bool"          \<comment> \<open>secret, time, code\<close>

type_synonym reg_data = "int \<times> string"

record exam_st = app_st +
  ex_session :: string
  ex_created :: int
  ex_regs :: "(u64 \<times> reg_data) list"
  ex_email_enc :: string
  ex_email_hmac :: string
  ex_totp_enc :: string
  ex_mks :: "(uid \<times> string) list"

definition AccessTokenTTL :: int where "AccessTokenTTL = 30 * minute"
definition RefreshTokenTTL :: int where "RefreshTokenTTL = 7 * 24 * hour"
definition RegKeyTTL :: int where "RegKeyTTL = 30"
definition MailTokenTTL :: int where "MailTokenTTL = 24"
definition MasterKeyRedisTTL :: int where "MasterKeyRedisTTL = 24 * hour"

section \<open>Random keys\<close>

definition hex_digit :: "nat \<Rightarrow> char" where
  "hex_digit n = char_of (if n < 10 then 48 + n else 87 + n)"

definition hex_of :: "string \<Rightarrow> string" where
  "hex_of s = concat (map (\<lambda>c. [hex_digit (of_char c div 16), hex_digit (of_char c mod 16)]) s)"

definition createRandomSHA3 :: "('e) exam_env_scheme \<Rightarrow> 'a rand_st_scheme \<Rightarrow> string \<times> 'a rand_st_scheme" where
  "createRandomSHA3 e w =
     (case random_bytes (se_crypto e) 32 w of (k, w) \<Rightarrow> (hex_of (xe_sha3 e k), w))"

definition SetNewSessionKey :: "('e) exam_env_scheme \<Rightarrow> 'a exam_st_scheme \<Rightarrow> 'a exam_st_scheme" where
  "SetNewSessionKey e w =
     (case createRandomSHA3 e w of (k, w) \<Rightarrow> w\<lparr>ex_session := k, ex_created := now w\<rparr>)"

definition AddRegUser :: "('e) exam_env_scheme \<Rightarrow> u64 \<Rightarrow> 'a exam_st_scheme \<Rightarrow> string \<times> 'a exam_st_scheme" where
  "AddRegUser e resp w =
     (case random_bytes (se_crypto e) 32 w of
        (k, w) \<Rightarrow> (hex_of k, w\<lparr>ex_regs := AList.update resp (now w, hex_of k) (ex_regs w)\<rparr>))"

section \<open>Transported passwords\<close>

text \<open>
  \<open>deriveKeyAndIV\<close> hashes until 48 bytes are collected; the loop is a partial function, since nothing in it
  bounds the number of rounds but the length of a hash.
\<close>

partial_function (option) derive_loop :: "(string \<Rightarrow> string) \<Rightarrow> string \<Rightarrow> string \<Rightarrow> string \<Rightarrow> string option" where
  "derive_loop md5 ps result data =
     (if length result < 48
      then (let h = md5 data in derive_loop md5 ps (result @ h) (h @ ps))
      else Some result)"

declare derive_loop.simps [code]

definition deriveKeyAndIV :: "(string \<Rightarrow> string) \<Rightarrow> string \<Rightarrow> string \<Rightarrow> (string \<times> string) option" where
  "deriveKeyAndIV md5 password salt =
     (case derive_loop md5 (password @ salt) [] (password @ salt) of
        None \<Rightarrow> None
      | Some r \<Rightarrow> Some (take 32 r, take 16 (drop 32 r)))"

text \<open>
  The result \<open>None\<close> of \<open>decryptAESPassword\<close> is a panic: \<open>CryptBlocks\<close> on an input that is no multiple of the
  block size, or the last byte of an empty plaintext.
\<close>

definition unpad :: "string \<Rightarrow> string" where
  "unpad p = (let n = of_char (last p) :: nat in
     if 0 < n \<and> n \<le> 16 then take (length p - n) p else p)"

definition decryptAESPassword :: "('e) exam_env_scheme \<Rightarrow> string \<Rightarrow> string \<Rightarrow> (go_err + string) option" where
  "decryptAESPassword e ciphertext passphrase =
     (case DecodeString ciphertext of
        None \<Rightarrow> Some (Inl (Wrap ''base64 decode'' (Msg ''illegal base64 data'')))
      | Some d \<Rightarrow>
          if length d < 16 then Some (Inl (Msg ''invalid ciphertext format''))
          else (case deriveKeyAndIV (xe_md5 e) passphrase (take 8 (drop 8 d)) of
                  None \<Rightarrow> None
                | Some (key, iv) \<Rightarrow>
                    if length (drop 16 d) mod 16 \<noteq> 0 \<or> drop 16 d = [] then None
                    else Some (Inr (unpad (xe_cbc e key iv (drop 16 d))))))"

text \<open>The registration entry is removed in every case, a panic included.\<close>

definition DecryptPassword :: "('e) exam_env_scheme \<Rightarrow> u64 \<Rightarrow> string \<Rightarrow> 'a exam_st_scheme
    \<Rightarrow> (go_err + string) option \<times> 'a exam_st_scheme" where
  "DecryptPassword e resp enc w =
     ((case map_of (ex_regs w) resp of
         None \<Rightarrow> Some (Inl (Msg ''no registration data''))
       | Some (created, key) \<Rightarrow>
           if RegKeyTTL * second < now w - created then Some (Inl (Msg ''registration key expired''))
           else decryptAESPassword e enc key),
      w\<lparr>ex_regs := AList.delete resp (ex_regs w)\<rparr>)"

section \<open>Password hashes\<close>

definition createSHA3 :: "('e) exam_env_scheme \<Rightarrow> string \<Rightarrow> string" where
  "createSHA3 e pass = hex_of (xe_sha3 e pass)"

definition HashPassword :: "('e) exam_env_scheme \<Rightarrow> string \<Rightarrow> 'a rand_st_scheme
    \<Rightarrow> (go_err + string) \<times> 'a rand_st_scheme" where
  "HashPassword e plain w =
     (case random_bytes (se_crypto e) 16 w of
        (salt, w) \<Rightarrow>
          ((case xe_bcrypt e salt plain of Inl err \<Rightarrow> Inl (Wrap ''hash password'' err) | Inr h \<Rightarrow> Inr h), w))"

definition VerifyPassword :: "('e) exam_env_scheme \<Rightarrow> string \<Rightarrow> string \<Rightarrow> bool" where
  "VerifyPassword e stored plain =
     (if HasPrefix stored ''$2a$'' \<or> HasPrefix stored ''$2b$'' then xe_bcrypt_ok e stored plain
      else stored = createSHA3 e plain)"

section \<open>E-mail addresses and TOTP secrets\<close>

definition EncryptEmail :: "('e) exam_env_scheme \<Rightarrow> string \<Rightarrow> 'a exam_st_scheme
    \<Rightarrow> (go_err + string) \<times> 'a exam_st_scheme" where
  "EncryptEmail e email w =
     (case seal_text (se_crypto e) (ex_email_enc w) (xe_lower e email) w of
        (Inl err, w) \<Rightarrow> (Inl err, w)
      | (Inr t, w) \<Rightarrow> (Inr (''$enc$'' @ t), w))"

definition decryptEmail :: "('e) exam_env_scheme \<Rightarrow> 'a exam_st_scheme \<Rightarrow> string \<Rightarrow> go_err + string" where
  "decryptEmail e w raw =
     (if \<not> HasPrefix raw ''$enc$'' then Inr raw
      else open_text (se_crypto e) (ex_email_enc w) (TrimPrefix raw ''$enc$''))"

definition DecryptEmailIfNeeded :: "('e) exam_env_scheme \<Rightarrow> 'a exam_st_scheme \<Rightarrow> string \<Rightarrow> go_err + string" where
  "DecryptEmailIfNeeded e w raw = decryptEmail e w raw"

definition EmailHMAC :: "('e) exam_env_scheme \<Rightarrow> 'a exam_st_scheme \<Rightarrow> string \<Rightarrow> string" where
  "EmailHMAC e w email = hex_of (xe_hmac e (ex_email_hmac w) (xe_lower e email))"

definition EncryptTOTPSecret :: "('e) exam_env_scheme \<Rightarrow> string \<Rightarrow> 'a exam_st_scheme
    \<Rightarrow> (go_err + string) \<times> 'a exam_st_scheme" where
  "EncryptTOTPSecret e secret w = seal_text (se_crypto e) (ex_totp_enc w) secret w"

definition decryptTOTPSecret :: "('e) exam_env_scheme \<Rightarrow> 'a exam_st_scheme \<Rightarrow> string \<Rightarrow> go_err + string" where
  "decryptTOTPSecret e w enc = open_text (se_crypto e) (ex_totp_enc w) enc"

definition ValidateTOTPCode :: "('e) exam_env_scheme \<Rightarrow> 'a exam_st_scheme \<Rightarrow> string \<Rightarrow> string \<Rightarrow> bool" where
  "ValidateTOTPCode e w enc code =
     (case decryptTOTPSecret e w enc of Inl err \<Rightarrow> False | Inr secret \<Rightarrow> xe_totp e secret (now w) code)"

section \<open>Tokens\<close>

text \<open>
  A JSON number read into an untyped Go value is a \<open>float64\<close>: an integer is rounded to 53 significant bits,
  ties to even. The conversion to \<open>uint64\<close> of a float beyond its range is that of amd64.
\<close>

definition round_bits :: "nat \<Rightarrow> nat \<Rightarrow> nat" where
  "round_bits b n =
     (let q = n div 2 ^ b; r = n mod 2 ^ b; h = 2 ^ b div 2 in
      (if h < r \<or> (r = h \<and> odd q) then q + 1 else q) * 2 ^ b)"

fun excess_bits :: "nat \<Rightarrow> nat \<Rightarrow> nat" where
  "excess_bits 0 n = 0"
| "excess_bits (Suc f) n = (if n < 2 ^ 53 then 0 else Suc (excess_bits f (n div 2)))"

definition float64_of :: "nat \<Rightarrow> nat" where
  "float64_of n = (if n < 2 ^ 53 then n else round_bits (excess_bits 64 n) n)"

definition go_uint64 :: "nat \<Rightarrow> u64" where
  "go_uint64 n = (if n < 2 ^ 64 then word_of_nat n else 2 ^ 63)"

definition auth_claims :: "uid \<Rightarrow> u64 \<Rightarrow> int \<Rightarrow> int \<Rightarrow> claims" where
  "auth_claims u r ttl t =
     [(''exp'', JInt ((t + ttl) div second)), (''iat'', JInt (t div second)),
      (''resp'', JInt (int (unat r))), (''user'', JInt (int (unat u)))]"

text \<open>Signing with an HMAC key never fails.\<close>

definition GenerateAccessToken :: "('e) exam_env_scheme \<Rightarrow> uid \<Rightarrow> u64 \<Rightarrow> 'a exam_st_scheme \<Rightarrow> string \<times> string" where
  "GenerateAccessToken e u r w =
     (xe_sign e (ex_session w) (auth_claims u r AccessTokenTTL (now w)),
      xe_sign e (ex_session w) (auth_claims u r RefreshTokenTTL (now w)))"

definition number_claim :: "claims \<Rightarrow> string \<Rightarrow> nat option" where
  "number_claim c name = (case map_of c name of Some (JInt n) \<Rightarrow> Some (float64_of (nat n)) | _ \<Rightarrow> None)"

definition VerifyAccessToken :: "('e) exam_env_scheme \<Rightarrow> string \<Rightarrow> 'a exam_st_scheme \<Rightarrow> go_err + (uid \<times> u64)" where
  "VerifyAccessToken e tok w =
     (case xe_parse e (ex_session w) (now w) tok of
        None \<Rightarrow> Inl (Msg ''token parse error'')
      | Some c \<Rightarrow>
          (case number_claim c ''user'' of
             None \<Rightarrow> Inl (Msg ''invalid userId in token'')
           | Some u \<Rightarrow>
               (case number_claim c ''resp'' of
                  None \<Rightarrow> Inl (Msg ''invalid respId in token'')
                | Some r \<Rightarrow> Inr (word_of_nat u, go_uint64 r))))"

text \<open>Decoding into the struct \<open>AuthToken\<close>: an absent number is zero, one out of range an error.\<close>

definition struct_number :: "claims \<Rightarrow> string \<Rightarrow> nat \<Rightarrow> nat option" where
  "struct_number c name bound =
     (case map_of c name of
        None \<Rightarrow> Some 0
      | Some JNull \<Rightarrow> Some 0
      | Some (JInt n) \<Rightarrow> if 0 \<le> n \<and> n < int bound then Some (nat n) else None
      | Some _ \<Rightarrow> None)"

definition ParseAuthToken :: "('e) exam_env_scheme \<Rightarrow> string \<Rightarrow> 'a exam_st_scheme \<Rightarrow> go_err + (uid \<times> u64)" where
  "ParseAuthToken e tok w =
     (case xe_parse e (ex_session w) (now w) tok of
        None \<Rightarrow> Inl (Msg ''token parse error'')
      | Some c \<Rightarrow>
          (case (struct_number c ''user'' (2 ^ 32), struct_number c ''resp'' (2 ^ 64)) of
             (Some u, Some r) \<Rightarrow> Inr (word_of_nat u, word_of_nat r)
           | _ \<Rightarrow> Inl (Msg ''token parse error'')))"

definition mail_claims :: "uid \<Rightarrow> string \<Rightarrow> int \<Rightarrow> claims" where
  "mail_claims u email t =
     [(''email'', JStr email), (''exp'', JInt ((t + MailTokenTTL * hour) div second)),
      (''iat'', JInt (t div second)), (''jti'', JStr (email @ ''-'' @ show_nat (nat t))),
      (''user'', JInt (int (unat u)))]"

definition GetMailConfirmationToken :: "('e) exam_env_scheme \<Rightarrow> uid \<Rightarrow> string \<Rightarrow> 'a exam_st_scheme \<Rightarrow> string" where
  "GetMailConfirmationToken e u email w = xe_sign e (ex_session w) (mail_claims u email (now w))"

definition ParseMailConfirmationToken :: "('e) exam_env_scheme \<Rightarrow> string \<Rightarrow> 'a exam_st_scheme
    \<Rightarrow> go_err + (uid \<times> string)" where
  "ParseMailConfirmationToken e tok w =
     (case xe_parse e (ex_session w) (now w) tok of
        None \<Rightarrow> Inl (Msg ''token parse error'')
      | Some c \<Rightarrow>
          (case map_of c ''email'' of
             Some (JStr email) \<Rightarrow>
               if email = [] then Inl (Msg ''no email in token'')
               else (case number_claim c ''user'' of
                       None \<Rightarrow> Inl (Msg ''no userId in token'')
                     | Some u \<Rightarrow> Inr (word_of_nat u, email))
           | _ \<Rightarrow> Inl (Msg ''no email in token'')))"

definition blacklist_key :: "string \<Rightarrow> string" where
  "blacklist_key tok = ''tokens_blacklist:'' @ tok"

definition BlacklistToken :: "('e) exam_env_scheme \<Rightarrow> string \<Rightarrow> int \<Rightarrow> 'a exam_st_scheme
    \<Rightarrow> (go_err + unit) \<times> 'a exam_st_scheme" where
  "BlacklistToken e tok ttl w =
     (if \<not> xe_redis e then (Inr (), w)
      else Set (blacklist_key tok) (CBytes (show_nat (nat (now w div second)))) ttl w)"

text \<open>A token revoked less than ten seconds ago still counts as good; so does one Redis cannot be asked about.\<close>

definition IsBlacklisted :: "('e) exam_env_scheme \<Rightarrow> string \<Rightarrow> 'a exam_st_scheme
    \<Rightarrow> (go_err + bool) \<times> 'a exam_st_scheme" where
  "IsBlacklisted e tok w =
     (if \<not> xe_redis e then (Inr False, w)
      else (case Get (blacklist_key tok) w of
              (Inl err, w) \<Rightarrow> (Inr False, w)
            | (Inr v, w) \<Rightarrow>
                (case (case v of CBytes b \<Rightarrow> Atoi b | _ \<Rightarrow> None) of
                   None \<Rightarrow> (Inr True, w)
                 | Some t \<Rightarrow> (Inr (\<not> now w - t * second < 10 * second), w))))"

section \<open>Master keys\<close>

definition appMasterKey :: "('e) exam_env_scheme \<Rightarrow> string" where
  "appMasterKey e = c_sha256 (se_crypto e) (se_master e)"

definition isZeroKey :: "string \<Rightarrow> bool" where
  "isZeroKey k = list_all (\<lambda>c. c = char_of (0 :: nat)) k"

definition encryptMasterKeyForRedis :: "('e) exam_env_scheme \<Rightarrow> string \<Rightarrow> 'a exam_st_scheme
    \<Rightarrow> (go_err + string) \<times> 'a exam_st_scheme" where
  "encryptMasterKeyForRedis e mk w =
     (if isZeroKey (appMasterKey e) then (Inl (Msg ''appMasterKey is not set''), w)
      else seal_text (se_crypto e) (appMasterKey e) mk w)"

definition key_bytes :: "string \<Rightarrow> string" where
  "key_bytes p = take 32 (p @ replicate 32 (char_of (0 :: nat)))"

definition decryptMasterKeyFromRedis :: "('e) exam_env_scheme \<Rightarrow> string \<Rightarrow> go_err + string" where
  "decryptMasterKeyFromRedis e enc =
     (if isZeroKey (appMasterKey e) then Inl (Msg ''appMasterKey is not set'')
      else (case open_text (se_crypto e) (appMasterKey e) enc of Inl err \<Rightarrow> Inl err | Inr p \<Rightarrow> Inr (key_bytes p)))"

definition masterkey_key :: "uid \<Rightarrow> string" where
  "masterkey_key u = ''masterkey:'' @ show_uid u"

definition saveMasterKeyToRedis :: "('e) exam_env_scheme \<Rightarrow> uid \<Rightarrow> string \<Rightarrow> 'a exam_st_scheme
    \<Rightarrow> (go_err + unit) \<times> 'a exam_st_scheme" where
  "saveMasterKeyToRedis e u mk w =
     (if \<not> xe_redis e then (Inl (Msg ''RedisClient is not set''), w)
      else (case encryptMasterKeyForRedis e mk w of
              (Inl err, w) \<Rightarrow> (Inl (Wrap ''MasterKey: encryption for Redis'' err), w)
            | (Inr enc, w) \<Rightarrow>
                (case Set (masterkey_key u) (CBytes enc) MasterKeyRedisTTL w of
                   (Inl err, w) \<Rightarrow> (Inl (Wrap ''MasterKey: saving to Redis'' err), w)
                 | (Inr _, w) \<Rightarrow> (Inr (), w))))"

text \<open>The key goes into the memory of the process; its copy in Redis may fail.\<close>

definition cache_master_key :: "('e) exam_env_scheme \<Rightarrow> uid \<Rightarrow> string \<Rightarrow> 'a exam_st_scheme \<Rightarrow> 'a exam_st_scheme" where
  "cache_master_key e u mk w = snd (saveMasterKeyToRedis e u mk (w\<lparr>ex_mks := AList.update u mk (ex_mks w)\<rparr>))"

definition wrapMasterKeyBytes :: "('e) exam_env_scheme \<Rightarrow> string \<Rightarrow> string \<Rightarrow> 'a exam_st_scheme
    \<Rightarrow> (go_err + (string \<times> string)) \<times> 'a exam_st_scheme" where
  "wrapMasterKeyBytes e raw password w =
     (case random_bytes (se_crypto e) 16 w of
        (salt, w) \<Rightarrow>
          (case seal_text (se_crypto e) (xe_pbkdf2 e password salt) raw w of
             (Inl err, w) \<Rightarrow> (Inl err, w)
           | (Inr t, w) \<Rightarrow> (Inr (t, EncodeToString salt), w)))"

definition GenerateAndWrapMasterKey :: "('e) exam_env_scheme \<Rightarrow> uid \<Rightarrow> string \<Rightarrow> 'a exam_st_scheme
    \<Rightarrow> (go_err + (string \<times> string \<times> string)) \<times> 'a exam_st_scheme" where
  "GenerateAndWrapMasterKey e u password w =
     (case random_bytes (se_crypto e) 32 w of
        (raw, w) \<Rightarrow>
          (case wrapMasterKeyBytes e raw password w of
             (Inl err, w) \<Rightarrow> (Inl err, w)
           | (Inr (enc, salt), w) \<Rightarrow> (Inr (EncodeToString raw, enc, salt), cache_master_key e u raw w)))"

definition WrapMasterKey :: "('e) exam_env_scheme \<Rightarrow> string \<Rightarrow> string \<Rightarrow> 'a exam_st_scheme
    \<Rightarrow> (go_err + (string \<times> string)) \<times> 'a exam_st_scheme" where
  "WrapMasterKey e rawB64 password w =
     (case DecodeString rawB64 of
        None \<Rightarrow> (Inl (Wrap ''base64 decode'' (Msg ''illegal base64 data'')), w)
      | Some raw \<Rightarrow>
          if length raw \<noteq> 32 then (Inl (Msg ''invalid MasterKey length''), w)
          else wrapMasterKeyBytes e raw password w)"

definition LoadMasterKey :: "('e) exam_env_scheme \<Rightarrow> uid \<Rightarrow> string \<Rightarrow> string \<Rightarrow> string \<Rightarrow> 'a exam_st_scheme
    \<Rightarrow> (go_err + unit) \<times> 'a exam_st_scheme" where
  "LoadMasterKey e u password encMK wrapSalt w =
     (case DecodeString wrapSalt of
        None \<Rightarrow> (Inl (Wrap ''decode wrapSalt'' (Msg ''illegal base64 data'')), w)
      | Some salt \<Rightarrow>
          (case open_text (se_crypto e) (xe_pbkdf2 e password salt) encMK of
             Inl err \<Rightarrow> (Inl err, w)
           | Inr raw \<Rightarrow>
               if length raw \<noteq> 32 then (Inl (Msg ''invalid MasterKey length''), w)
               else (Inr (), cache_master_key e u raw w)))"

definition GetMasterKey :: "uid \<Rightarrow> 'a exam_st_scheme \<Rightarrow> string option" where
  "GetMasterKey u w = map_of (ex_mks w) u"

definition RefreshMasterKeyTTL :: "('e) exam_env_scheme \<Rightarrow> uid \<Rightarrow> 'a exam_st_scheme
    \<Rightarrow> (go_err + unit) \<times> 'a exam_st_scheme" where
  "RefreshMasterKeyTTL e u w =
     (if \<not> xe_redis e then (Inl (Msg ''RedisClient is not set''), w)
      else (case Expire (masterkey_key u) MasterKeyRedisTTL w of
              (Inl err, w) \<Rightarrow> (Inl (Wrap ''MasterKey: TTL update'' err), w)
            | (Inr ok, w) \<Rightarrow> if ok then (Inr (), w) else (Inl (Msg ''MasterKey: key not found in Redis''), w)))"

definition ParseUint32 :: "string \<Rightarrow> uid option" where
  "ParseUint32 s = (case digits s of Some n \<Rightarrow> if n < 2 ^ 32 then Some (word_of_nat n) else None | None \<Rightarrow> None)"

fun load_keys :: "('e) exam_env_scheme \<Rightarrow> string list \<Rightarrow> 'a exam_st_scheme \<Rightarrow> 'a exam_st_scheme" where
  "load_keys e [] w = w"
| "load_keys e (k # ks) w =
     (case ParseUint32 (TrimPrefix k ''masterkey:'') of
        None \<Rightarrow> load_keys e ks w
      | Some u \<Rightarrow>
          (case Get k w of
             (Inl err, w) \<Rightarrow> load_keys e ks w
           | (Inr v, w) \<Rightarrow>
               (case (case v of CBytes b \<Rightarrow> decryptMasterKeyFromRedis e b | _ \<Rightarrow> Inl (Msg ''bad document'')) of
                  Inl err \<Rightarrow> load_keys e ks w
                | Inr mk \<Rightarrow> load_keys e ks (w\<lparr>ex_mks := AList.update u mk (ex_mks w)\<rparr>))))"

definition LoadAllMasterKeysFromRedis :: "('e) exam_env_scheme \<Rightarrow> 'a exam_st_scheme
    \<Rightarrow> (go_err + unit) \<times> 'a exam_st_scheme" where
  "LoadAllMasterKeysFromRedis e w =
     (if \<not> xe_redis e then (Inr (), w)
      else (case Keys ''masterkey:'' w of
              (Inl err, w) \<Rightarrow> (Inl (Wrap ''Keys masterkey:*'' err), w)
            | (Inr ks, w) \<Rightarrow> (Inr (), load_keys e ks w)))"

section \<open>Keys at the start of the process\<close>

definition loadOrInitEmailKey :: "('e) exam_env_scheme \<Rightarrow> 'a exam_st_scheme \<Rightarrow> (go_err + unit) \<times> 'a exam_st_scheme" where
  "loadOrInitEmailKey e w =
     (case GetAppConfig (settings_env.truncate e) ''auth.email_key'' w of
        (Inl err, w) \<Rightarrow> (Inl (Wrap ''reading the email key'' err), w)
      | (Inr stored, w) \<Rightarrow>
          (case (if stored \<noteq> [] then (Inr stored, w)
                 else (case (if se_getenv e ''SESSION_KEY_LEGACY'' \<noteq> [] then (se_getenv e ''SESSION_KEY_LEGACY'', w)
                             else createRandomSHA3 e w) of
                   (k, w) \<Rightarrow>
                     (case SetAppConfig (settings_env.truncate e) ''auth.email_key'' k w of
                        (Inl err, w) \<Rightarrow> (Inl (Wrap ''saving the email key'' err), w)
                      | (Inr _, w) \<Rightarrow> (Inr k, w)))) of
             (Inl err, w) \<Rightarrow> (Inl err, w)
           | (Inr k, w) \<Rightarrow>
               (Inr (), w\<lparr>ex_email_enc := c_sha256 (se_crypto e) (''emailenc:'' @ k),
                           ex_email_hmac := c_sha256 (se_crypto e) (''emailhmac:'' @ k),
                           ex_totp_enc := c_sha256 (se_crypto e) (''totpenc:'' @ k)\<rparr>)))"

definition load_created :: "('e) exam_env_scheme \<Rightarrow> 'a exam_st_scheme \<Rightarrow> 'a exam_st_scheme" where
  "load_created e w =
     (case GetAppConfig (settings_env.truncate e) ''auth.created'' w of
        (Inl err, w) \<Rightarrow> w
      | (Inr t, w) \<Rightarrow> (case (if t = [] then None else xe_read_time e t) of None \<Rightarrow> w | Some i \<Rightarrow> w\<lparr>ex_created := i\<rparr>))"

definition init_session_key :: "('e) exam_env_scheme \<Rightarrow> 'a exam_st_scheme \<Rightarrow> (go_err + unit) \<times> 'a exam_st_scheme" where
  "init_session_key e w =
     (case createRandomSHA3 e w of
        (k, w) \<Rightarrow>
          (case SetAppConfig (settings_env.truncate e) ''auth.session'' k w of
             (Inl err, w) \<Rightarrow> (Inl (Wrap ''LoadOrInitKey: saving the JWT key'' err), w)
           | (Inr _, w) \<Rightarrow>
               (case SetAppConfig (settings_env.truncate e) ''auth.created'' (xe_show_time e (now w)) w of
                  (Inl err, w) \<Rightarrow> (Inl (Wrap ''LoadOrInitKey: saving the date'' err), w)
                | (Inr _, w) \<Rightarrow> (Inr (), w\<lparr>ex_session := k, ex_created := now w\<rparr>))))"

definition LoadOrInitKey :: "('e) exam_env_scheme \<Rightarrow> 'a exam_st_scheme \<Rightarrow> (go_err + unit) \<times> 'a exam_st_scheme" where
  "LoadOrInitKey e w =
     (case GetAppConfig (settings_env.truncate e) ''auth.session'' w of
        (Inl err, w) \<Rightarrow> (Inl (Wrap ''LoadOrInitKey: reading the JWT key'' err), w)
      | (Inr k, w) \<Rightarrow>
          (case (if k \<noteq> [] then (Inr (), load_created e (w\<lparr>ex_session := k\<rparr>)) else init_session_key e w) of
             (Inl err, w) \<Rightarrow> (Inl err, w)
           | (Inr _, w) \<Rightarrow>
               (case loadOrInitEmailKey e w of
                  (Inl err, w) \<Rightarrow> (Inl (Wrap ''LoadOrInitKey: initialising the email key'' err), w)
                | (Inr _, w) \<Rightarrow> (Inr (), w))))"

end
