(* ===== verification/UserData.thy ===== *)
theory UserData
  imports Exam
begin

text \<open>
  The users' own data and its encryption with a master key: \<open>EncryptChannelsWSS\<close> and its eight siblings of
  \<open>repository/mysql/security.go\<close> and \<open>api_keys.go\<close>, and \<open>DeleteEncryptedUserData\<close>. A table is an
  association list from its primary key to the columns the code reads or writes; a nullable column is an
  option. The messages of the progress callback are collected in the state. Field encryption is the
  parameter \<open>field_crypto\<close> of the storage configuration. Encrypted values are taken to fit their columns.
\<close>

record acct_env = exam_env +
  xa_fc :: field_crypto
  xa_is_app :: "string \<Rightarrow> bool"               \<comment> \<open>\<open>crypto.IsEncryptedWithAppKey\<close>\<close>
  xa_same :: "string \<Rightarrow> string \<Rightarrow> bool"     \<comment> \<open>equality under the collation of \<open>user_auth.Email\<close>\<close>
  xa_lang :: "string \<Rightarrow> nat option"         \<comment> \<open>the table \<open>languages\<close>\<close>

record channel_row =
  ch_cols :: "(string \<times> string option) list"
  ch_on :: "(string \<times> bool) list"

record dialog_row =
  dl_User :: uid
  dl_Data :: "string option"

record google_row =
  gt_access :: string
  gt_refresh :: string

record vector_row =
  ve_user :: uid
  ve_name :: string
  ve_content :: string

record crm_row =
  cr_user :: uid
  cr_name :: string
  cr_subdomain :: "string option"
  cr_credentials :: string
  cr_options :: string
  cr_channels :: "string option"

record oauth_row =
  oa_user :: uid
  oa_id :: string
  oa_secret :: string
  oa_url :: string
  oa_subdomain :: string
  oa_type :: string

record bot_row =
  bo_user :: uid
  bo_auth :: string

record data_st = exam_st +
  api_keys :: "((uid \<times> string) \<times> string) list"
  channels :: "(uid \<times> channel_row) list"
  dialogs :: "(nat \<times> dialog_row) list"
  google :: "(uid \<times> google_row) list"
  vectors :: "(nat \<times> vector_row) list"
  crm :: "(nat \<times> crm_row) list"
  oauth :: "(string \<times> oauth_row) list"
  tgbots :: "(nat \<times> bot_row) list"
  wabots :: "(nat \<times> bot_row) list"
  progress :: "string list"

definition say :: "string \<Rightarrow> 'a data_st_scheme \<Rightarrow> 'a data_st_scheme" where
  "say m w = w\<lparr>progress := progress w @ [m]\<rparr>"

definition say_count :: "string \<Rightarrow> nat \<Rightarrow> 'a data_st_scheme \<Rightarrow> 'a data_st_scheme" where
  "say_count m n w = say (m @ '':'' @ show_nat n) w"

text \<open>\<open>UPDATE ... WHERE key = ?\<close> changes the row if there is one.\<close>

definition upd :: "'k \<Rightarrow> ('r \<Rightarrow> 'r) \<Rightarrow> ('k \<times> 'r) list \<Rightarrow> ('k \<times> 'r) list" where
  "upd k f t = (case map_of t k of None \<Rightarrow> t | Some r \<Rightarrow> AList.update k (f r) t)"

text \<open>A loop over fetched rows: a step reports a row done (\<open>True\<close>), passed over, or an error that ends the loop.\<close>

fun each :: "('r \<Rightarrow> 'w \<Rightarrow> (go_err + bool) \<times> 'w) \<Rightarrow> 'r list \<Rightarrow> nat \<Rightarrow> 'w \<Rightarrow> (go_err + nat) \<times> 'w" where
  "each f [] n w = (Inr n, w)"
| "each f (r # rs) n w =
     (case f r w of
        (Inl err, w) \<Rightarrow> (Inl err, w)
      | (Inr done, w) \<Rightarrow> each f rs (if done then Suc n else n) w)"

definition sealed :: "('e) acct_env_scheme \<Rightarrow> string \<Rightarrow> bool" where
  "sealed e v = fc_is (xa_fc e) v"

text \<open>The code often drops the error of the encryption and goes on with the empty text it gets.\<close>

definition enc_or_empty :: "('e) acct_env_scheme \<Rightarrow> mkey \<Rightarrow> string \<Rightarrow> string" where
  "enc_or_empty e mk v = (case fc_enc (xa_fc e) mk v of Inl err \<Rightarrow> [] | Inr c \<Rightarrow> c)"

section \<open>API keys\<close>

definition api_key_step :: "('e) acct_env_scheme \<Rightarrow> uid \<Rightarrow> mkey \<Rightarrow> (uid \<times> string) \<times> string \<Rightarrow> 'a data_st_scheme
    \<Rightarrow> (go_err + bool) \<times> 'a data_st_scheme" where
  "api_key_step e u mk r w =
     (let provider = snd (fst r); w = say (''ENCRYPTING_KEY:'' @ provider) w in
      case fc_enc (xa_fc e) mk (snd r) of
        Inl err \<Rightarrow> (Inr False, w)
      | Inr c \<Rightarrow>
          if failing w then (Inr False, drawn w)
          else (Inr True, (drawn w)\<lparr>api_keys := upd (u, provider) (\<lambda>_. c) (api_keys w)\<rparr>))"

definition EncryptUserAPIKeysWSS :: "('e) acct_env_scheme \<Rightarrow> uid \<Rightarrow> mkey \<Rightarrow> 'a data_st_scheme
    \<Rightarrow> (go_err + unit) \<times> 'a data_st_scheme" where
  "EncryptUserAPIKeysWSS e u mk w =
     (if failing w then (Inl (Wrap ''failed to get API keys'' sql_down), drawn w)
      else let keys = filter (\<lambda>((v, p), k). v = u \<and> \<not> sealed e k \<and> \<not> xa_is_app e k) (api_keys w); w = drawn w in
      if failing w then (Inl (Wrap ''failed to iterate API keys'' sql_down), drawn w)
      else let w = drawn w in
      if keys = [] then (Inr (), say ''NO_KEYS_TO_ENCRYPT'' w)
      else (case each (api_key_step e u mk) keys 0 w of
              (Inl err, w) \<Rightarrow> (Inl err, w)
            | (Inr n, w) \<Rightarrow> (Inr (), if 0 < n then say_count ''ENCRYPTED_COUNT'' n w else w)))"

section \<open>Channels\<close>

definition channel_columns :: "(string \<times> string) list" where
  "channel_columns =
     [(''tgbot'', ''TgBot''), (''widget'', ''Widget''), (''tgubot'', ''TgUserBot''), (''whatsbot'', ''Whats''),
      (''insta'', ''Insta''), (''avito'', ''Avito'')]"

definition ch_val :: "channel_row \<Rightarrow> string \<Rightarrow> string option" where
  "ch_val r col = (case map_of (ch_cols r) col of None \<Rightarrow> None | Some v \<Rightarrow> v)"

definition set_col :: "string \<Rightarrow> string option \<Rightarrow> channel_row \<Rightarrow> channel_row" where
  "set_col col v r = r\<lparr>ch_cols := AList.update col v (ch_cols r)\<rparr>"

definition channel_step :: "('e) acct_env_scheme \<Rightarrow> uid \<Rightarrow> mkey \<Rightarrow> channel_row \<Rightarrow> string \<times> string \<Rightarrow> 'a data_st_scheme
    \<Rightarrow> (go_err + bool) \<times> 'a data_st_scheme" where
  "channel_step e u mk fetched c w =
     (case ch_val fetched (snd c) of
        None \<Rightarrow> (Inr False, w)
      | Some v \<Rightarrow>
          if v = [] \<or> sealed e v then (Inr False, w)
          else let w = say (''ENCRYPTING_CHANNEL:'' @ fst c) w in
          (case fc_enc (xa_fc e) mk v of
             Inl err \<Rightarrow> (Inr False, w)
           | Inr x \<Rightarrow>
               if failing w then (Inr False, drawn w)
               else (Inr True, (drawn w)\<lparr>channels := upd u (set_col (snd c) (Some x)) (channels w)\<rparr>)))"

definition EncryptChannelsWSS :: "('e) acct_env_scheme \<Rightarrow> uid \<Rightarrow> mkey \<Rightarrow> 'a data_st_scheme
    \<Rightarrow> (go_err + unit) \<times> 'a data_st_scheme" where
  "EncryptChannelsWSS e u mk w =
     (if failing w then (Inl (Wrap ''EncryptChannelsWSS: failed to read channels'' sql_down), drawn w)
      else let w = drawn w in
      case map_of (channels w) u of
        None \<Rightarrow> (Inr (), say ''NO_CHANNELS_TO_ENCRYPT'' w)
      | Some r \<Rightarrow>
          (case each (channel_step e u mk r) channel_columns 0 w of
             (Inl err, w) \<Rightarrow> (Inl err, w)
           | (Inr n, w) \<Rightarrow>
               (Inr (), if n = 0 then say ''NO_CHANNELS_TO_ENCRYPT'' w
                        else say_count ''ENCRYPTED_CHANNELS_COUNT'' n w)))"

section \<open>Dialogs\<close>

definition open_dialog :: "('e) acct_env_scheme \<Rightarrow> uid \<Rightarrow> nat \<times> dialog_row \<Rightarrow> bool" where
  "open_dialog e u r = (dl_User (snd r) = u
     \<and> (case dl_Data (snd r) of None \<Rightarrow> False | Some d \<Rightarrow> d \<noteq> [] \<and> \<not> sealed e d))"

definition dialog_step :: "('e) acct_env_scheme \<Rightarrow> mkey \<Rightarrow> nat \<times> dialog_row \<Rightarrow> 'a data_st_scheme
    \<Rightarrow> (go_err + bool) \<times> 'a data_st_scheme" where
  "dialog_step e mk r w =
     (case fc_enc (xa_fc e) mk (case dl_Data (snd r) of None \<Rightarrow> [] | Some d \<Rightarrow> d) of
        Inl err \<Rightarrow> (Inr False, w)
      | Inr c \<Rightarrow>
          if failing w then (Inr False, drawn w)
          else (Inr True, (drawn w)\<lparr>dialogs := upd (fst r) (dl_Data_update (\<lambda>_. Some c)) (dialogs w)\<rparr>))"

definition EncryptDialogsWSS :: "('e) acct_env_scheme \<Rightarrow> uid \<Rightarrow> mkey \<Rightarrow> 'a data_st_scheme
    \<Rightarrow> (go_err + unit) \<times> 'a data_st_scheme" where
  "EncryptDialogsWSS e u mk w =
     (if failing w then (Inl (Wrap ''EncryptDialogsWSS: query'' sql_down), drawn w)
      else let rs = filter (open_dialog e u) (dialogs w); w = drawn w in
      if failing w then (Inl (Wrap ''EncryptDialogsWSS: rows'' sql_down), drawn w)
      else let w = drawn w in
      if rs = [] then (Inr (), say ''NO_DIALOGS_TO_ENCRYPT'' w)
      else (case each (dialog_step e mk) rs 0 (say_count ''ENCRYPTING_DIALOGS'' (length rs) w) of
              (Inl err, w) \<Rightarrow> (Inl err, w)
            | (Inr n, w) \<Rightarrow> (Inr (), say_count ''ENCRYPTED_DIALOGS_COUNT'' n w)))"

section \<open>Google tokens\<close>

definition seal_token :: "('e) acct_env_scheme \<Rightarrow> mkey \<Rightarrow> string \<Rightarrow> string option" where
  "seal_token e mk v =
     (if v = [] \<or> sealed e v then None else (case fc_enc (xa_fc e) mk v of Inl err \<Rightarrow> None | Inr c \<Rightarrow> Some c))"

definition EncryptGoogleTokenWSS :: "('e) acct_env_scheme \<Rightarrow> uid \<Rightarrow> mkey \<Rightarrow> 'a data_st_scheme
    \<Rightarrow> (go_err + unit) \<times> 'a data_st_scheme" where
  "EncryptGoogleTokenWSS e u mk w =
     (if failing w then (Inl (Wrap ''EncryptGoogleTokenWSS: read'' sql_down), drawn w)
      else let w = drawn w in
      case map_of (google w) u of
        None \<Rightarrow> (Inr (), say ''NO_GOOGLE_TOKEN_TO_ENCRYPT'' w)
      | Some r \<Rightarrow>
          let w = (if gt_access r \<noteq> [] \<and> \<not> sealed e (gt_access r) then say ''ENCRYPTING_GOOGLE_TOKEN'' w else w);
              a = seal_token e mk (gt_access r); f = seal_token e mk (gt_refresh r) in
          if a = None \<and> f = None then (Inr (), say ''NO_GOOGLE_TOKEN_TO_ENCRYPT'' w)
          else if failing w then (Inl (Wrap ''EncryptGoogleTokenWSS: update'' sql_down), drawn w)
          else (Inr (), say ''ENCRYPTED_GOOGLE_TOKEN'' ((drawn w)\<lparr>google := upd u (\<lambda>_.
                 \<lparr>gt_access = (case a of None \<Rightarrow> gt_access r | Some c \<Rightarrow> c),
                  gt_refresh = (case f of None \<Rightarrow> gt_refresh r | Some c \<Rightarrow> c)\<rparr>) (google w)\<rparr>)))"

section \<open>Vector documents, CRM settings, OAuth states\<close>

text \<open>Here neither the error of the encryption nor, for the vectors, that of the update stops anything.\<close>

definition vector_step :: "('e) acct_env_scheme \<Rightarrow> mkey \<Rightarrow> nat \<times> vector_row \<Rightarrow> 'a data_st_scheme
    \<Rightarrow> (go_err + bool) \<times> 'a data_st_scheme" where
  "vector_step e mk r w =
     (if failing w then (Inr True, drawn w)
      else (Inr True, (drawn w)\<lparr>vectors := upd (fst r) (\<lambda>x. x\<lparr>ve_name := enc_or_empty e mk (ve_name (snd r)),
              ve_content := enc_or_empty e mk (ve_content (snd r))\<rparr>) (vectors w)\<rparr>))"

definition EncryptVectorEmbeddingsWSS :: "('e) acct_env_scheme \<Rightarrow> uid \<Rightarrow> mkey \<Rightarrow> 'a data_st_scheme
    \<Rightarrow> (go_err + unit) \<times> 'a data_st_scheme" where
  "EncryptVectorEmbeddingsWSS e u mk w =
     (if failing w then (Inl (Wrap ''EncryptVectorEmbeddingsWSS: query'' sql_down), drawn w)
      else let rs = filter (\<lambda>(i, r). ve_user r = u \<and> \<not> (sealed e (ve_name r) \<and> sealed e (ve_content r))) (vectors w);
               w = drawn w in
      if rs = [] then (Inr (), say ''NO_VECTORS_TO_ENCRYPT'' w)
      else (case each (vector_step e mk) rs 0 (say_count ''ENCRYPTING_VECTORS'' (length rs) w) of
              (Inl err, w) \<Rightarrow> (Inl err, w)
            | (Inr n, w) \<Rightarrow> (Inr (), say_count ''ENCRYPTED_VECTORS_COUNT'' n w)))"

definition null_or_sealed :: "('e) acct_env_scheme \<Rightarrow> string option \<Rightarrow> bool" where
  "null_or_sealed e v = (case v of None \<Rightarrow> True | Some s \<Rightarrow> sealed e s)"

definition crm_sealed :: "('e) acct_env_scheme \<Rightarrow> crm_row \<Rightarrow> bool" where
  "crm_sealed e r = (sealed e (cr_name r) \<and> null_or_sealed e (cr_subdomain r) \<and> sealed e (cr_credentials r)
     \<and> sealed e (cr_options r) \<and> null_or_sealed e (cr_channels r))"

definition crm_step :: "('e) acct_env_scheme \<Rightarrow> mkey \<Rightarrow> nat \<times> crm_row \<Rightarrow> 'a data_st_scheme
    \<Rightarrow> (go_err + bool) \<times> 'a data_st_scheme" where
  "crm_step e mk r w =
     (if failing w then (Inl (Wrap ''EncryptCRMConfigsWSS: update'' sql_down), drawn w)
      else (Inr True, (drawn w)\<lparr>crm := upd (fst r) (\<lambda>x. x\<lparr>cr_name := enc_or_empty e mk (cr_name (snd r)),
              cr_subdomain := map_option (enc_or_empty e mk) (cr_subdomain (snd r)),
              cr_credentials := enc_or_empty e mk (cr_credentials (snd r)),
              cr_options := enc_or_empty e mk (cr_options (snd r)),
              cr_channels := map_option (enc_or_empty e mk) (cr_channels (snd r))\<rparr>) (crm w)\<rparr>))"

definition EncryptCRMConfigsWSS :: "('e) acct_env_scheme \<Rightarrow> uid \<Rightarrow> mkey \<Rightarrow> 'a data_st_scheme
    \<Rightarrow> (go_err + unit) \<times> 'a data_st_scheme" where
  "EncryptCRMConfigsWSS e u mk w =
     (if failing w then (Inl (Wrap ''EncryptCRMConfigsWSS: query'' sql_down), drawn w)
      else let rs = filter (\<lambda>(i, r). cr_user r = u \<and> \<not> crm_sealed e r) (crm w); w = drawn w in
      if rs = [] then (Inr (), say ''NO_CRM_CONFIGS_TO_ENCRYPT'' w)
      else (case each (crm_step e mk) rs 0 (say_count ''ENCRYPTING_CRM_CONFIGS'' (length rs) w) of
              (Inl err, w) \<Rightarrow> (Inl err, w)
            | (Inr n, w) \<Rightarrow> (Inr (), say_count ''ENCRYPTED_CRM_CONFIGS_COUNT'' n w)))"

definition oauth_sealed :: "('e) acct_env_scheme \<Rightarrow> oauth_row \<Rightarrow> bool" where
  "oauth_sealed e r = (sealed e (oa_id r) \<and> sealed e (oa_secret r) \<and> sealed e (oa_url r) \<and> sealed e (oa_subdomain r))"

definition oauth_step :: "('e) acct_env_scheme \<Rightarrow> mkey \<Rightarrow> string \<times> oauth_row \<Rightarrow> 'a data_st_scheme
    \<Rightarrow> (go_err + bool) \<times> 'a data_st_scheme" where
  "oauth_step e mk r w =
     (if failing w then (Inl (Wrap ''EncryptCRMOAuthStatesWSS: update'' sql_down), drawn w)
      else (Inr True, (drawn w)\<lparr>oauth := upd (fst r) (\<lambda>x. x\<lparr>oa_id := enc_or_empty e mk (oa_id (snd r)),
              oa_secret := enc_or_empty e mk (oa_secret (snd r)), oa_url := enc_or_empty e mk (oa_url (snd r)),
              oa_subdomain := enc_or_empty e mk (oa_subdomain (snd r)), oa_type := oa_type (snd r)\<rparr>) (oauth w)\<rparr>))"

definition EncryptCRMOAuthStatesWSS :: "('e) acct_env_scheme \<Rightarrow> uid \<Rightarrow> mkey \<Rightarrow> 'a data_st_scheme
    \<Rightarrow> (go_err + unit) \<times> 'a data_st_scheme" where
  "EncryptCRMOAuthStatesWSS e u mk w =
     (if failing w then (Inl (Wrap ''EncryptCRMOAuthStatesWSS: query'' sql_down), drawn w)
      else let rs = filter (\<lambda>(i, r). oa_user r = u \<and> \<not> oauth_sealed e r) (oauth w); w = drawn w in
      if rs = [] then (Inr (), say ''NO_OAUTH_STATES_TO_ENCRYPT'' w)
      else (case each (oauth_step e mk) rs 0 (say_count ''ENCRYPTING_OAUTH_STATES'' (length rs) w) of
              (Inl err, w) \<Rightarrow> (Inl err, w)
            | (Inr n, w) \<Rightarrow> (Inr (), say_count ''ENCRYPTED_OAUTH_STATES_COUNT'' n w)))"

section \<open>Storage credentials\<close>

text \<open>The table of the storage configuration; a credential that is \<open>NULL\<close> there is the empty text.\<close>

definition creds_sealed :: "('e) acct_env_scheme \<Rightarrow> backend_config \<Rightarrow> bool" where
  "creds_sealed e r = ((bc_AccessKey r = [] \<or> sealed e (bc_AccessKey r))
     \<and> (bc_SecretKey r = [] \<or> sealed e (bc_SecretKey r)))"

definition enc_unless_empty :: "('e) acct_env_scheme \<Rightarrow> mkey \<Rightarrow> string \<Rightarrow> string" where
  "enc_unless_empty e mk v = (if v = [] then [] else enc_or_empty e mk v)"

definition storage_step :: "('e) acct_env_scheme \<Rightarrow> uid \<Rightarrow> mkey \<Rightarrow> backend_config \<Rightarrow> 'a data_st_scheme
    \<Rightarrow> (go_err + bool) \<times> 'a data_st_scheme" where
  "storage_step e u mk r w =
     (if failing w then (Inl (Wrap ''EncryptUserStorageConfigWSS: update'' sql_down), drawn w)
      else (Inr True, (drawn w)\<lparr>config_tbl := upd u (\<lambda>x. x\<lparr>bc_AccessKey := enc_unless_empty e mk (bc_AccessKey r),
              bc_SecretKey := enc_unless_empty e mk (bc_SecretKey r)\<rparr>) (config_tbl w)\<rparr>))"

definition EncryptUserStorageConfigWSS :: "('e) acct_env_scheme \<Rightarrow> uid \<Rightarrow> mkey \<Rightarrow> 'a data_st_scheme
    \<Rightarrow> (go_err + unit) \<times> 'a data_st_scheme" where
  "EncryptUserStorageConfigWSS e u mk w =
     (if failing w then (Inl (Wrap ''EncryptUserStorageConfigWSS: query'' sql_down), drawn w)
      else let rs = (case map_of (config_tbl w) u of None \<Rightarrow> [] | Some r \<Rightarrow> filter (\<lambda>r. \<not> creds_sealed e r) [r]);
               w = drawn w in
      if rs = [] then (Inr (), say ''NO_USER_STORAGE_CONFIGS_TO_ENCRYPT'' w)
      else (case each (storage_step e u mk) rs 0 (say_count ''ENCRYPTING_USER_STORAGE_CONFIGS'' (length rs) w) of
              (Inl err, w) \<Rightarrow> (Inl err, w)
            | (Inr n, w) \<Rightarrow> (Inr (), say_count ''ENCRYPTED_USER_STORAGE_CONFIGS_COUNT'' n w)))"

section \<open>Bots of the service\<close>

definition open_bot :: "('e) acct_env_scheme \<Rightarrow> uid \<Rightarrow> nat \<times> bot_row \<Rightarrow> bool" where
  "open_bot e u r = (bo_user (snd r) = u \<and> bo_auth (snd r) \<noteq> [] \<and> \<not> sealed e (bo_auth (snd r)))"

text \<open>The two tables are handled by one routine; \<open>get\<close> and \<open>put\<close> choose the table.\<close>

definition bot_step :: "('e) acct_env_scheme \<Rightarrow> mkey \<Rightarrow> ((nat \<times> bot_row) list \<Rightarrow> 'a data_st_scheme \<Rightarrow> 'a data_st_scheme)
    \<Rightarrow> ('a data_st_scheme \<Rightarrow> (nat \<times> bot_row) list) \<Rightarrow> nat \<times> bot_row \<Rightarrow> 'a data_st_scheme
    \<Rightarrow> (go_err + bool) \<times> 'a data_st_scheme" where
  "bot_step e mk put get r w =
     (if failing w then (Inl (Wrap ''EncryptUserStorageServicesBotDataWSS: update'' sql_down), drawn w)
      else (Inr True, put (upd (fst r) (bo_auth_update (\<lambda>_. enc_or_empty e mk (bo_auth (snd r)))) (get w)) (drawn w)))"

definition encryptTable :: "('e) acct_env_scheme \<Rightarrow> uid \<Rightarrow> mkey \<Rightarrow> string
    \<Rightarrow> ((nat \<times> bot_row) list \<Rightarrow> 'a data_st_scheme \<Rightarrow> 'a data_st_scheme)
    \<Rightarrow> ('a data_st_scheme \<Rightarrow> (nat \<times> bot_row) list) \<Rightarrow> 'a data_st_scheme
    \<Rightarrow> (go_err + unit) \<times> 'a data_st_scheme" where
  "encryptTable e u mk name put get w =
     (if failing w then (Inl (Wrap ''EncryptUserStorageServicesBotDataWSS: query'' sql_down), drawn w)
      else let rs = filter (open_bot e u) (get w); w = drawn w in
      if rs = [] then (Inr (), say (''NO_'' @ name @ ''_TO_ENCRYPT'') w)
      else (case each (bot_step e mk put get) rs 0 (say_count (''ENCRYPTING_'' @ name) (length rs) w) of
              (Inl err, w) \<Rightarrow> (Inl err, w)
            | (Inr n, w) \<Rightarrow> (Inr (), say_count (''ENCRYPTED_'' @ name @ ''_COUNT'') n w)))"

definition EncryptUserStorageServicesBotDataWSS :: "('e) acct_env_scheme \<Rightarrow> uid \<Rightarrow> mkey \<Rightarrow> 'a data_st_scheme
    \<Rightarrow> (go_err + unit) \<times> 'a data_st_scheme" where
  "EncryptUserStorageServicesBotDataWSS e u mk w =
     (case encryptTable e u mk ''SERVICE_TGBOTS'' (\<lambda>t w. w\<lparr>tgbots := t\<rparr>) tgbots w of
        (Inl err, w) \<Rightarrow> (Inl err, w)
      | (Inr _, w) \<Rightarrow>
          (case encryptTable e u mk ''SERVICE_WABOTS'' (\<lambda>t w. w\<lparr>wabots := t\<rparr>) wabots w of
             (Inl err, w) \<Rightarrow> (Inl err, w)
           | (Inr _, w) \<Rightarrow> (Inr (), w)))"

section \<open>Deleting a user's encrypted data\<close>

text \<open>
  Ten statements in one transaction. The last two set \<open>AuthData\<close> to \<open>NULL\<close>, which the column, declared
  \<open>NOT NULL\<close> in \<open>migrations/air.sql\<close>, does not allow: with a matching row MariaDB's strict mode, the mode of
  that dump, refuses the statement. A statement maps the tables to new tables or an error.
\<close>

definition clear_channels :: "channel_row \<Rightarrow> channel_row" where
  "clear_channels r = r\<lparr>ch_cols := map (\<lambda>(n, c). (c, None)) channel_columns,
     ch_on := map (\<lambda>(n, c). (c, False)) channel_columns\<rparr>"

definition null_auth :: "uid \<Rightarrow> (nat \<times> bot_row) list \<Rightarrow> go_err + unit" where
  "null_auth u t = (if list_ex (\<lambda>(i, r). bo_user r = u) t
     then Inl (Msg ''Column AuthData cannot be null'') else Inr ())"

definition delete_statements :: "uid \<Rightarrow> ('a data_st_scheme \<Rightarrow> go_err + 'a data_st_scheme) list" where
  "delete_statements u =
     [\<lambda>w. Inr (w\<lparr>api_keys := filter (\<lambda>((v, p), k). v \<noteq> u) (api_keys w)\<rparr>),
      \<lambda>w. Inr (w\<lparr>channels := upd u clear_channels (channels w)\<rparr>),
      \<lambda>w. Inr (w\<lparr>dialogs := map (\<lambda>(i, r). (i, if dl_User r = u then r\<lparr>dl_Data := None\<rparr> else r)) (dialogs w)\<rparr>),
      \<lambda>w. Inr (w\<lparr>google := filter (\<lambda>(v, r). v \<noteq> u) (google w)\<rparr>),
      \<lambda>w. Inr (w\<lparr>vectors := filter (\<lambda>(i, r). ve_user r \<noteq> u) (vectors w)\<rparr>),
      \<lambda>w. Inr (w\<lparr>crm := filter (\<lambda>(i, r). cr_user r \<noteq> u) (crm w)\<rparr>),
      \<lambda>w. Inr (w\<lparr>oauth := filter (\<lambda>(i, r). oa_user r \<noteq> u) (oauth w)\<rparr>),
      \<lambda>w. Inr (w\<lparr>config_tbl := upd u (\<lambda>r. r\<lparr>bc_AccessKey := [], bc_SecretKey := []\<rparr>) (config_tbl w)\<rparr>),
      \<lambda>w. (case null_auth u (tgbots w) of Inl err \<Rightarrow> Inl err | Inr _ \<Rightarrow> Inr w),
      \<lambda>w. (case null_auth u (wabots w) of Inl err \<Rightarrow> Inl err | Inr _ \<Rightarrow> Inr w)]"

text \<open>The statements run on a copy; the second component is the state outside the transaction.\<close>

fun run_statements :: "('w \<Rightarrow> go_err + 'w) list \<Rightarrow> 'w \<Rightarrow> 'a env_scheme \<Rightarrow> (go_err + 'w) \<times> 'a env_scheme" where
  "run_statements [] t w = (Inr t, w)"
| "run_statements (q # qs) t w =
     (if failing w then (Inl sql_down, drawn w)
      else (case q t of Inl err \<Rightarrow> (Inl err, drawn w) | Inr t \<Rightarrow> run_statements qs t (drawn w)))"

definition DeleteEncryptedUserData :: "uid \<Rightarrow> 'a data_st_scheme \<Rightarrow> (go_err + unit) \<times> 'a data_st_scheme" where
  "DeleteEncryptedUserData u w =
     (if u = 0 then (Inl (Msg ''invalid userId''), w)
      else if failing w then (Inl (Wrap ''begin transaction'' sql_down), drawn w)
      else (case run_statements (delete_statements u) (drawn w) (drawn w) of
              (Inl err, w) \<Rightarrow> (Inl (Wrap ''deleting the encrypted data'' err), w)
            | (Inr t, w) \<Rightarrow>
                if failing w then (Inl (Wrap ''commit'' sql_down), drawn w)
                else (Inr (), t\<lparr>faults := faults (drawn w)\<rparr>)))"

end
