(* ===== verification/Accounts.thy ===== *)
theory Accounts
  imports UserData
begin

text \<open>
  Accounts: the tables \<open>users\<close>, \<open>user_auth\<close> and \<open>subscriptions\<close> with the operations of
  \<open>repository/mysql/auth.go\<close> and \<open>security.go\<close>, and the use cases of \<open>usecase/auth/auth.go\<close> and
  \<open>usecase/masterkey/masterkey.go\<close>. \<open>user_auth\<close> has one row per user, kept under the user's number in
  the order the server returns rows. \<open>RowsAffected\<close> counts the rows a statement changes.
\<close>

record auth_row =
  au_SHA :: string
  au_Email :: string
  au_EmailHash :: "string option"
  au_MasterKey :: "string option"
  au_WrapSalt :: "string option"
  au_TOTP :: "string option"
  au_Confirmed :: bool
  au_Disabled :: bool

record user_row =
  us_Name :: string
  us_Role :: nat
  us_Lang :: nat

record acct_st = data_st +
  auth_tbl :: "(uid \<times> auth_row) list"
  users :: "(uid \<times> user_row) list"
  subscriptions :: "(uid \<times> bool) list"      \<comment> \<open>\<open>True\<close>: one month of demonstration\<close>
  next_user :: uid
  hash_required :: bool                      \<comment> \<open>\<open>EmailHash\<close> has become \<open>NOT NULL\<close>\<close>
  migration_done :: bool

section \<open>Finding a user\<close>

definition named :: "('e) acct_env_scheme \<Rightarrow> string \<Rightarrow> string \<Rightarrow> auth_row \<Rightarrow> bool" where
  "named e email hmac r = (xa_same e (au_Email r) email \<or> au_EmailHash r = Some hmac)"

definition find_user :: "('e) acct_env_scheme \<Rightarrow> string \<Rightarrow> string \<Rightarrow> 'a acct_st_scheme \<Rightarrow> (uid \<times> auth_row) option" where
  "find_user e email hmac w = find (\<lambda>(u, r). named e email hmac r) (auth_tbl w)"

definition db_CheckEmail :: "('e) acct_env_scheme \<Rightarrow> string \<Rightarrow> string \<Rightarrow> 'a acct_st_scheme
    \<Rightarrow> (go_err + uid) \<times> 'a acct_st_scheme" where
  "db_CheckEmail e email hmac w =
     (if failing w then (Inl (Wrap ''checking the email'' sql_down), drawn w)
      else (Inr (case find_user e email hmac w of None \<Rightarrow> 0 | Some (u, r) \<Rightarrow> u), drawn w))"

definition GetAuthData :: "('e) acct_env_scheme \<Rightarrow> string \<Rightarrow> string \<Rightarrow> 'a acct_st_scheme
    \<Rightarrow> (go_err + (string \<times> uid \<times> bool \<times> bool \<times> bool)) \<times> 'a acct_st_scheme" where
  "GetAuthData e email hmac w =
     (if email = [] \<and> hmac = [] then (Inl (Msg ''empty values''), w)
      else if failing w then (Inl (Wrap ''authorisation data'' sql_down), drawn w)
      else (Inr (case find_user e email hmac w of
                   None \<Rightarrow> ([], 0, False, False, False)
                 | Some (u, r) \<Rightarrow> (au_SHA r, u, au_Confirmed r, au_Disabled r, au_EmailHash r = None)), drawn w))"

section \<open>Creating and changing rows\<close>

definition NewUserStorageLimit :: nat where
  "NewUserStorageLimit = 104857600"

definition new_auth :: "string \<Rightarrow> string \<Rightarrow> string \<Rightarrow> auth_row" where
  "new_auth pass encEmail hmac = \<lparr>au_SHA = pass, au_Email = encEmail, au_EmailHash = Some hmac, au_MasterKey = None,
     au_WrapSalt = None, au_TOTP = None, au_Confirmed = False, au_Disabled = False\<rparr>"

definition duplicate_entry :: go_err where
  "duplicate_entry = Msg ''Duplicate entry''"

text \<open>The four inserts; the new row of \<open>user_auth\<close> must respect its two unique keys.\<close>

definition user_inserts :: "('e) acct_env_scheme \<Rightarrow> string \<Rightarrow> string \<Rightarrow> string \<Rightarrow> string \<Rightarrow> nat \<Rightarrow> bool \<Rightarrow> uid
    \<Rightarrow> ('a acct_st_scheme \<Rightarrow> go_err + 'a acct_st_scheme) list" where
  "user_inserts e name pass encEmail hmac langId trial u =
     [\<lambda>w. Inr (w\<lparr>users := users w @ [(u, \<lparr>us_Name = name, us_Role = (if trial then 1 else 2), us_Lang = langId\<rparr>)]\<rparr>),
      \<lambda>w. if list_ex (\<lambda>(v, r). named e encEmail hmac r) (auth_tbl w) then Inl duplicate_entry
          else Inr (w\<lparr>auth_tbl := auth_tbl w @ [(u, new_auth pass encEmail hmac)]\<rparr>),
      \<lambda>w. Inr (w\<lparr>subscriptions := subscriptions w @ [(u, trial)]\<rparr>),
      \<lambda>w. if row_of w u \<noteq> None then Inl duplicate_entry
          else Inr (w\<lparr>quota_tbl := quota_tbl w
                 @ [(u, \<lparr>q_quota = word_of_nat NewUserStorageLimit, q_used = 0, q_reserved = 0\<rparr>)]\<rparr>)]"

text \<open>A rolled back insert has used up its number all the same.\<close>

definition CreateUser :: "('e) acct_env_scheme \<Rightarrow> string \<Rightarrow> string \<Rightarrow> string \<Rightarrow> string \<Rightarrow> string \<Rightarrow> bool
    \<Rightarrow> 'a acct_st_scheme \<Rightarrow> (go_err + uid) \<times> 'a acct_st_scheme" where
  "CreateUser e name pass encEmail hmac lang trial w =
     (if failing w then (Inl (Wrap ''begin transaction'' sql_down), drawn w)
      else let w = drawn w in
      if failing w then (Inl (Wrap ''language'' sql_down), drawn w)
      else let w = drawn w; langId = (case xa_lang e lang of None \<Rightarrow> 1 | Some n \<Rightarrow> n); u = next_user w in
      (case run_statements (user_inserts e name pass encEmail hmac langId trial u) w w of
         (Inl err, w') \<Rightarrow> (Inl (Wrap ''creating the user'' err), if failing w then w' else w'\<lparr>next_user := u + 1\<rparr>)
       | (Inr t, w') \<Rightarrow>
           if failing w' then (Inl (Wrap ''commit'' sql_down), (drawn w')\<lparr>next_user := u + 1\<rparr>)
           else (Inr u, t\<lparr>faults := faults (drawn w'), next_user := u + 1\<rparr>)))"

definition ConfirmMail :: "('e) acct_env_scheme \<Rightarrow> string \<Rightarrow> string \<Rightarrow> 'a acct_st_scheme
    \<Rightarrow> (go_err + unit) \<times> 'a acct_st_scheme" where
  "ConfirmMail e email hmac w =
     (let hit = \<lambda>r. named e email hmac r \<and> \<not> au_Confirmed r in
      if failing w then (Inl (Wrap ''confirming the email'' sql_down), drawn w)
      else if list_ex (\<lambda>(u, r). hit r) (auth_tbl w)
        then (Inr (), (drawn w)\<lparr>auth_tbl := map (\<lambda>(u, r). (u, if hit r then r\<lparr>au_Confirmed := True\<rparr> else r)) (auth_tbl w)\<rparr>)
      else (Inl (Msg ''confirming the email''), drawn w))"

definition UpdatePassword :: "('e) acct_env_scheme \<Rightarrow> string \<Rightarrow> string \<Rightarrow> string \<Rightarrow> 'a acct_st_scheme
    \<Rightarrow> (go_err + unit) \<times> 'a acct_st_scheme" where
  "UpdatePassword e email hmac newSHA w =
     (if failing w then (Inl (Wrap ''updating the password'' sql_down), drawn w)
      else if list_ex (\<lambda>(u, r). named e email hmac r \<and> au_SHA r \<noteq> newSHA) (auth_tbl w)
        then (Inr (), (drawn w)\<lparr>auth_tbl :=
               map (\<lambda>(u, r). (u, if named e email hmac r then r\<lparr>au_SHA := newSHA\<rparr> else r)) (auth_tbl w)\<rparr>)
      else (Inl (Msg ''updating the password, no such user''), drawn w))"

definition set_auth :: "string \<Rightarrow> uid \<Rightarrow> (auth_row \<Rightarrow> auth_row) \<Rightarrow> 'a acct_st_scheme
    \<Rightarrow> (go_err + unit) \<times> 'a acct_st_scheme" where
  "set_auth what u f w =
     (if failing w then (Inl (Wrap what sql_down), drawn w)
      else (Inr (), (drawn w)\<lparr>auth_tbl := upd u f (auth_tbl w)\<rparr>))"

definition get_auth :: "string \<Rightarrow> uid \<Rightarrow> 'a acct_st_scheme \<Rightarrow> (go_err + auth_row option) \<times> 'a acct_st_scheme" where
  "get_auth what u w =
     (if failing w then (Inl (Wrap what sql_down), drawn w) else (Inr (map_of (auth_tbl w) u), drawn w))"

definition SaveTOTPSecret :: "uid \<Rightarrow> string \<Rightarrow> 'a acct_st_scheme \<Rightarrow> (go_err + unit) \<times> 'a acct_st_scheme" where
  "SaveTOTPSecret u enc w = set_auth ''saving the TOTP secret'' u (au_TOTP_update (\<lambda>_. Some enc)) w"

definition ClearTOTPSecret :: "uid \<Rightarrow> 'a acct_st_scheme \<Rightarrow> (go_err + unit) \<times> 'a acct_st_scheme" where
  "ClearTOTPSecret u w = set_auth ''deleting the TOTP secret'' u (au_TOTP_update (\<lambda>_. None)) w"

text \<open>The secret when TOTP is enabled.\<close>

definition GetTOTPData :: "uid \<Rightarrow> 'a acct_st_scheme \<Rightarrow> (go_err + string option) \<times> 'a acct_st_scheme" where
  "GetTOTPData u w =
     (case get_auth ''reading TOTP data'' u w of
        (Inl err, w) \<Rightarrow> (Inl err, w)
      | (Inr None, w) \<Rightarrow> (Inr None, w)
      | (Inr (Some r), w) \<Rightarrow>
          (Inr (case au_TOTP r of None \<Rightarrow> None | Some s \<Rightarrow> if s = [] then None else Some s), w))"

definition GetPasswordHash :: "uid \<Rightarrow> 'a acct_st_scheme \<Rightarrow> (go_err + string) \<times> 'a acct_st_scheme" where
  "GetPasswordHash u w =
     (case get_auth ''reading the password hash'' u w of
        (Inl err, w) \<Rightarrow> (Inl err, w)
      | (Inr None, w) \<Rightarrow> (Inl (Msg ''user not found''), w)
      | (Inr (Some r), w) \<Rightarrow> (Inr (au_SHA r), w))"

definition SaveMasterKey :: "uid \<Rightarrow> string \<Rightarrow> string \<Rightarrow> 'a acct_st_scheme \<Rightarrow> (go_err + unit) \<times> 'a acct_st_scheme" where
  "SaveMasterKey u enc salt w =
     set_auth ''saving the MasterKey'' u (\<lambda>r. r\<lparr>au_MasterKey := Some enc, au_WrapSalt := Some salt\<rparr>) w"

definition ClearMasterKey :: "uid \<Rightarrow> 'a acct_st_scheme \<Rightarrow> (go_err + unit) \<times> 'a acct_st_scheme" where
  "ClearMasterKey u w =
     set_auth ''clearing the MasterKey'' u (\<lambda>r. r\<lparr>au_MasterKey := None, au_WrapSalt := None\<rparr>) w"

definition GetMasterKeyData :: "uid \<Rightarrow> 'a acct_st_scheme \<Rightarrow> (go_err + (string \<times> string) option) \<times> 'a acct_st_scheme" where
  "GetMasterKeyData u w =
     (case get_auth ''reading the MasterKey'' u w of
        (Inl err, w) \<Rightarrow> (Inl err, w)
      | (Inr None, w) \<Rightarrow> (Inr None, w)
      | (Inr (Some r), w) \<Rightarrow>
          (Inr (case (au_MasterKey r, au_WrapSalt r) of
                  (Some a, Some b) \<Rightarrow> if a = [] \<or> b = [] then None else Some (a, b)
                | _ \<Rightarrow> None), w))"

section \<open>The migration of old accounts\<close>

definition checkAndFinalizeMigration :: "'a acct_st_scheme \<Rightarrow> 'a acct_st_scheme" where
  "checkAndFinalizeMigration w =
     (if migration_done w then w
      else if failing w then drawn w
      else if list_ex (\<lambda>(u, r). au_EmailHash r = None) (auth_tbl w) then drawn w
      else if failing (drawn w) then drawn (drawn w)
      else (drawn (drawn w))\<lparr>hash_required := True, migration_done := True\<rparr>)"

definition MigrateUserSecurity :: "('e) acct_env_scheme \<Rightarrow> uid \<Rightarrow> string \<Rightarrow> string \<Rightarrow> string \<Rightarrow> 'a acct_st_scheme
    \<Rightarrow> (go_err + unit) \<times> 'a acct_st_scheme" where
  "MigrateUserSecurity e u newHash encEmail hmac w =
     (if u = 0 \<or> newHash = [] \<or> encEmail = [] \<or> hmac = [] then (Inl (Msg ''invalid migration data''), w)
      else if failing w then (Inl (Wrap ''migrating the user'' sql_down), drawn w)
      else (case map_of (auth_tbl w) u of
              None \<Rightarrow> (Inr (), drawn w)
            | Some r \<Rightarrow>
                if au_EmailHash r \<noteq> None then (Inr (), drawn w)
                else if list_ex (\<lambda>(v, s). v \<noteq> u \<and> named e encEmail hmac s) (auth_tbl w)
                  then (Inl (Wrap ''migrating the user'' duplicate_entry), drawn w)
                else (Inr (), checkAndFinalizeMigration ((drawn w)\<lparr>auth_tbl := upd u
                       (\<lambda>r. r\<lparr>au_SHA := newHash, au_Email := encEmail, au_EmailHash := Some hmac\<rparr>) (auth_tbl w)\<rparr>))))"

end
