(* ===== verification/UseCases.thy ===== *)
theory UseCases
  imports Accounts
begin

text \<open>
  The use cases \<open>usecase/auth/auth.go\<close> and \<open>usecase/masterkey/masterkey.go\<close> over the account tables and
  the security service. Where a transported password is decrypted the result is an option: \<open>None\<close> is a panic.
\<close>

section \<open>Registration and login\<close>

record register_input =
  ri_Name :: string
  ri_Mail :: string
  ri_Password :: string
  ri_Demo :: bool
  ri_Language :: string

definition ValidateLanguage :: "string \<Rightarrow> bool" where
  "ValidateLanguage l = (l = ''ru'' \<or> l = ''en'' \<or> l = ''es'')"

definition CheckEmail :: "('e) acct_env_scheme \<Rightarrow> string \<Rightarrow> 'a acct_st_scheme \<Rightarrow> (go_err + uid) \<times> 'a acct_st_scheme" where
  "CheckEmail e mail w =
     (case db_CheckEmail e mail (EmailHMAC e w mail) w of
        (Inl err, w) \<Rightarrow> (Inl (Wrap ''checking the email'' err), w)
      | (Inr u, w) \<Rightarrow> (Inr u, w))"

definition Register :: "('e) acct_env_scheme \<Rightarrow> register_input \<Rightarrow> 'a acct_st_scheme
    \<Rightarrow> (go_err + (uid \<times> string)) \<times> 'a acct_st_scheme" where
  "Register e i w =
     (case HashPassword e (ri_Password i) w of
        (Inl err, w) \<Rightarrow> (Inl (Wrap ''hashing the password'' err), w)
      | (Inr hash, w) \<Rightarrow>
          (case EncryptEmail e (ri_Mail i) w of
             (Inl err, w) \<Rightarrow> (Inl (Wrap ''encrypting the email'' err), w)
           | (Inr enc, w) \<Rightarrow>
               let hmac = EmailHMAC e w (ri_Mail i) in
               if ri_Name i = [] \<or> ri_Password i = [] \<or> enc = [] \<or> hmac = []
                 then (Inl (Msg ''empty values''), w)
               else let lang = (if ValidateLanguage (ri_Language i) then ri_Language i else ''en'') in
               (case CreateUser e (ri_Name i) hash enc hmac lang (ri_Demo i) w of
                  (Inl err, w) \<Rightarrow> (Inl (Wrap ''creating the user'' err), w)
                | (Inr u, w) \<Rightarrow> (Inr (u, GetMailConfirmationToken e u (ri_Mail i) w), w))))"

record login_result =
  lr_UserID :: uid
  lr_Confirmed :: bool
  lr_Disabled :: bool
  lr_IsLegacy :: bool
  lr_TOTPEnabled :: bool
  lr_Password :: string

definition Authenticate :: "('e) acct_env_scheme \<Rightarrow> string \<Rightarrow> string \<Rightarrow> 'a acct_st_scheme
    \<Rightarrow> (go_err + login_result) \<times> 'a acct_st_scheme" where
  "Authenticate e mail password w =
     (case GetAuthData e mail (EmailHMAC e w mail) w of
        (Inl err, w) \<Rightarrow> (Inl (Wrap ''authorisation data'' err), w)
      | (Inr (stored, u, confirmed, disabled, legacy), w) \<Rightarrow>
          if u = 0 then (Inl (Msg ''no such user''), w)
          else if \<not> VerifyPassword e stored password then (Inl (Msg ''wrong password''), w)
          else (case GetTOTPData u w of
                  (Inl err, w) \<Rightarrow> (Inl (Wrap ''checking TOTP'' err), w)
                | (Inr totp, w) \<Rightarrow>
                    (Inr \<lparr>lr_UserID = u, lr_Confirmed = confirmed, lr_Disabled = disabled, lr_IsLegacy = legacy,
                          lr_TOTPEnabled = (totp \<noteq> None), lr_Password = password\<rparr>, w)))"

definition MigrateLegacyUser :: "('e) acct_env_scheme \<Rightarrow> uid \<Rightarrow> string \<Rightarrow> string \<Rightarrow> 'a acct_st_scheme
    \<Rightarrow> (go_err + unit) \<times> 'a acct_st_scheme" where
  "MigrateLegacyUser e u password mail w =
     (case HashPassword e password w of
        (Inl err, w) \<Rightarrow> (Inl (Wrap ''hashing'' err), w)
      | (Inr hash, w) \<Rightarrow>
          (case EncryptEmail e mail w of
             (Inl err, w) \<Rightarrow> (Inl (Wrap ''encrypting the email'' err), w)
           | (Inr enc, w) \<Rightarrow> MigrateUserSecurity e u hash enc (EmailHMAC e w mail) w))"

text \<open>The boolean: a master key exists; it may still have failed to load.\<close>

definition LoadMasterKeyIfExists :: "('e) acct_env_scheme \<Rightarrow> uid \<Rightarrow> string \<Rightarrow> 'a acct_st_scheme
    \<Rightarrow> (bool \<times> go_err option) \<times> 'a acct_st_scheme" where
  "LoadMasterKeyIfExists e u password w =
     (case GetMasterKeyData u w of
        (Inl err, w) \<Rightarrow> ((False, Some (Wrap ''reading the MasterKey'' err)), w)
      | (Inr None, w) \<Rightarrow> ((False, None), w)
      | (Inr (Some (enc, salt)), w) \<Rightarrow>
          (case LoadMasterKey e u password enc salt w of
             (Inl err, w) \<Rightarrow> ((True, Some (Wrap ''loading the MasterKey'' err)), w)
           | (Inr _, w) \<Rightarrow> ((True, None), w)))"

section \<open>Password reset and confirmation\<close>

text \<open>An error of the look-up is reported as a user not found.\<close>

definition RequestPasswordReset :: "('e) acct_env_scheme \<Rightarrow> string \<Rightarrow> 'a acct_st_scheme
    \<Rightarrow> string option \<times> 'a acct_st_scheme" where
  "RequestPasswordReset e mail w =
     (case db_CheckEmail e mail (EmailHMAC e w mail) w of
        (Inl err, w) \<Rightarrow> (None, w)
      | (Inr u, w) \<Rightarrow> (if u = 0 then None else Some (GetMailConfirmationToken e u mail w), w))"

record reset_input =
  rp_Mail :: string
  rp_Password :: string
  rp_RawMasterKey :: string

definition rewrap_after_reset :: "('e) acct_env_scheme \<Rightarrow> uid \<Rightarrow> reset_input \<Rightarrow> 'a acct_st_scheme
    \<Rightarrow> (go_err + unit) \<times> 'a acct_st_scheme" where
  "rewrap_after_reset e u i w =
     (case WrapMasterKey e (rp_RawMasterKey i) (rp_Password i) w of
        (Inl err, w) \<Rightarrow> (Inl (Wrap ''rewrapping the MasterKey'' err), w)
      | (Inr (enc, salt), w) \<Rightarrow>
          (case SaveMasterKey u enc salt w of
             (Inl err, w) \<Rightarrow> (Inl (Wrap ''saving the MasterKey'' err), w)
           | (Inr _, w) \<Rightarrow> (Inr (), snd (LoadMasterKey e u (rp_Password i) enc salt w))))"

definition drop_after_reset :: "uid \<Rightarrow> 'a acct_st_scheme \<Rightarrow> (go_err + unit) \<times> 'a acct_st_scheme" where
  "drop_after_reset u w =
     (case GetMasterKeyData u w of
        (Inl err, w) \<Rightarrow> (Inl (Wrap ''checking the MasterKey'' err), w)
      | (Inr None, w) \<Rightarrow> (Inr (), w)
      | (Inr (Some _), w) \<Rightarrow>
          (case DeleteEncryptedUserData u w of
             (Inl err, w) \<Rightarrow> (Inl (Wrap ''deleting the encrypted data'' err), w)
           | (Inr _, w) \<Rightarrow>
               (case ClearMasterKey u w of
                  (Inl err, w) \<Rightarrow> (Inl (Wrap ''clearing the MasterKey'' err), w)
                | (Inr _, w) \<Rightarrow> (Inr (), w))))"

definition ResetPassword :: "('e) acct_env_scheme \<Rightarrow> uid \<Rightarrow> reset_input \<Rightarrow> 'a acct_st_scheme
    \<Rightarrow> (go_err + unit) \<times> 'a acct_st_scheme" where
  "ResetPassword e u i w =
     (case HashPassword e (rp_Password i) w of
        (Inl err, w) \<Rightarrow> (Inl (Wrap ''hashing the password'' err), w)
      | (Inr hash, w) \<Rightarrow>
          let hmac = EmailHMAC e w (rp_Mail i) in
          if (rp_Mail i = [] \<and> hmac = []) \<or> hash = [] then (Inl (Msg ''empty values''), w)
          else (case UpdatePassword e (rp_Mail i) hmac hash w of
             (Inl err, w) \<Rightarrow> (Inl (Wrap ''updating the password'' err), w)
           | (Inr _, w) \<Rightarrow>
               if rp_RawMasterKey i \<noteq> [] then rewrap_after_reset e u i w else drop_after_reset u w))"

definition ConfirmEmail :: "('e) acct_env_scheme \<Rightarrow> string \<Rightarrow> 'a acct_st_scheme
    \<Rightarrow> (go_err + (uid \<times> string)) \<times> 'a acct_st_scheme" where
  "ConfirmEmail e tok w =
     (case ParseMailConfirmationToken e tok w of
        Inl err \<Rightarrow> (Inl (Wrap ''invalid token'' err), w)
      | Inr (u, email) \<Rightarrow>
          let hmac = EmailHMAC e w email in
          if email = [] \<and> hmac = [] then (Inl (Msg ''empty values''), w)
          else (case ConfirmMail e email hmac w of
                  (Inl err, w) \<Rightarrow> (Inl (Wrap ''confirming the email'' err), w)
                | (Inr _, w) \<Rightarrow> (Inr (u, email), w)))"

section \<open>Master keys\<close>

fun run_encryptions :: "(string \<times> ('w \<Rightarrow> (go_err + unit) \<times> 'w)) list \<Rightarrow> 'w \<Rightarrow> (go_err + unit) \<times> 'w" where
  "run_encryptions [] w = (Inr (), w)"
| "run_encryptions ((what, f) # fs) w =
     (case f w of
        (Inl err, w) \<Rightarrow> (Inl (Wrap what err), w)
      | (Inr _, w) \<Rightarrow> run_encryptions fs w)"

definition encryptions :: "('e) acct_env_scheme \<Rightarrow> uid \<Rightarrow> mkey
    \<Rightarrow> (string \<times> ('a acct_st_scheme \<Rightarrow> (go_err + unit) \<times> 'a acct_st_scheme)) list" where
  "encryptions e u mk =
     [(''encrypting API keys'', EncryptUserAPIKeysWSS e u mk),
      (''encrypting channels'', EncryptChannelsWSS e u mk),
      (''encrypting dialogs'', EncryptDialogsWSS e u mk),
      (''encrypting the Google token'', EncryptGoogleTokenWSS e u mk),
      (''encrypting vector documents'', EncryptVectorEmbeddingsWSS e u mk),
      (''encrypting CRM configurations'', EncryptCRMConfigsWSS e u mk),
      (''encrypting CRM OAuth states'', EncryptCRMOAuthStatesWSS e u mk),
      (''encrypting storage configurations'', EncryptUserStorageConfigWSS e u mk),
      (''encrypting service bots'', EncryptUserStorageServicesBotDataWSS e u mk)]"

definition create_for :: "('e) acct_env_scheme \<Rightarrow> uid \<Rightarrow> string \<Rightarrow> 'a acct_st_scheme
    \<Rightarrow> (go_err + string) \<times> 'a acct_st_scheme" where
  "create_for e u pass w =
     (case GenerateAndWrapMasterKey e u pass w of
        (Inl err, w) \<Rightarrow> (Inl (Wrap ''generating the MasterKey'' err), w)
      | (Inr (rawB64, enc, salt), w) \<Rightarrow>
          (case LoadMasterKey e u pass enc salt w of
             (Inl err, w) \<Rightarrow> (Inl (Wrap ''loading the MasterKey'' err), w)
           | (Inr _, w) \<Rightarrow>
               (case GetMasterKey u w of
                  None \<Rightarrow> (Inl (Msg ''reading the MasterKey from the cache''), w)
                | Some mk \<Rightarrow>
                    (case SaveMasterKey u enc salt w of
                       (Inl err, w) \<Rightarrow> (Inl (Wrap ''saving the MasterKey'' err), w)
                     | (Inr _, w) \<Rightarrow>
                         (case run_encryptions (encryptions e u mk) w of
                            (Inl err, w) \<Rightarrow> (Inl err, w)
                          | (Inr _, w) \<Rightarrow> (Inr rawB64, w))))))"

definition checked_password :: "('e) acct_env_scheme \<Rightarrow> uid \<Rightarrow> u64 \<Rightarrow> string \<Rightarrow> 'a acct_st_scheme
    \<Rightarrow> (go_err + string) option \<times> 'a acct_st_scheme" where
  "checked_password e u resp encPass w =
     (case GetPasswordHash u w of
        (Inl err, w) \<Rightarrow> (Some (Inl (Wrap ''reading the password hash'' err)), w)
      | (Inr hash, w) \<Rightarrow>
          (case DecryptPassword e resp encPass w of
             (None, w) \<Rightarrow> (None, w)
           | (Some (Inl err), w) \<Rightarrow> (Some (Inl (Wrap ''decrypting the password'' err)), w)
           | (Some (Inr pass), w) \<Rightarrow>
               (Some (if VerifyPassword e hash pass then Inr pass else Inl (Msg ''INVALID_PASSWORD'')), w)))"

definition CreateMasterKey :: "('e) acct_env_scheme \<Rightarrow> uid \<Rightarrow> u64 \<Rightarrow> string \<Rightarrow> 'a acct_st_scheme
    \<Rightarrow> (go_err + string) option \<times> 'a acct_st_scheme" where
  "CreateMasterKey e u resp encPass w =
     (case GetMasterKeyData u w of
        (Inl err, w) \<Rightarrow> (Some (Inl (Wrap ''checking the MasterKey'' err)), w)
      | (Inr (Some _), w) \<Rightarrow> (Some (Inl (Msg ''MASTER_KEY_ALREADY_EXISTS'')), w)
      | (Inr None, w) \<Rightarrow>
          (case checked_password e u resp encPass w of
             (None, w) \<Rightarrow> (None, w)
           | (Some (Inl err), w) \<Rightarrow> (Some (Inl err), w)
           | (Some (Inr pass), w) \<Rightarrow> (case create_for e u pass w of (r, w) \<Rightarrow> (Some r, w))))"

definition VerifyUserPassword :: "('e) acct_env_scheme \<Rightarrow> uid \<Rightarrow> u64 \<Rightarrow> string \<Rightarrow> 'a acct_st_scheme
    \<Rightarrow> (go_err + unit) option \<times> 'a acct_st_scheme" where
  "VerifyUserPassword e u resp encPass w =
     (case checked_password e u resp encPass w of
        (None, w) \<Rightarrow> (None, w)
      | (Some (Inl err), w) \<Rightarrow> (Some (Inl err), w)
      | (Some (Inr pass), w) \<Rightarrow> (Some (Inr ()), w))"

definition RewrapOrReset :: "('e) acct_env_scheme \<Rightarrow> uid \<Rightarrow> u64 \<Rightarrow> string \<Rightarrow> string \<Rightarrow> 'a acct_st_scheme
    \<Rightarrow> (go_err + unit) option \<times> 'a acct_st_scheme" where
  "RewrapOrReset e u resp rawMK newPass w =
     (if rawMK = [] then
        (case ClearMasterKey u w of
           (Inl err, w) \<Rightarrow> (Some (Inl (Wrap ''clearing the MasterKey'' err)), w)
         | (Inr _, w) \<Rightarrow>
             (case DeleteEncryptedUserData u w of
                (Inl err, w) \<Rightarrow> (Some (Inl (Wrap ''deleting the encrypted data'' err)), w)
              | (Inr _, w) \<Rightarrow> (Some (Inr ()), w)))
      else
        (case DecryptPassword e resp newPass w of
           (None, w) \<Rightarrow> (None, w)
         | (Some (Inl err), w) \<Rightarrow> (Some (Inl (Wrap ''decrypting the new password'' err)), w)
         | (Some (Inr pass), w) \<Rightarrow>
             (case WrapMasterKey e rawMK pass w of
                (Inl err, w) \<Rightarrow> (Some (Inl (Wrap ''rewrapping the MasterKey'' err)), w)
              | (Inr (enc, salt), w) \<Rightarrow>
                  (case SaveMasterKey u enc salt w of
                     (Inl err, w) \<Rightarrow> (Some (Inl (Wrap ''saving the new MasterKey'' err)), w)
                   | (Inr _, w) \<Rightarrow> (Some (Inr ()), w)))))"

end
