(* ===== verification/Gate.thy ===== *)
theory Gate
  imports UseCases
begin

text \<open>
  What stands before the handlers: the rate limiter of \<open>delivery/http/server.go\<close> and the middleware of
  \<open>delivery/http/middleware.go\<close>, with \<open>IsDevUser\<close> of \<open>usecase/admin/admin.go\<close>. The token bucket of
  \<open>golang.org/x/time/rate\<close> is a parameter: from the times of the earlier calls and the time of this one to
  a decision. Work the code leaves to a goroutine or a timer is a job in the state. Metrics and logging are
  not modelled.
\<close>

record web_env = acct_env +
  xw_allow :: "int list \<Rightarrow> int \<Rightarrow> bool"
  xw_host :: string                                       \<comment> \<open>\<open>mode.GetRealHost\<close>\<close>
  xw_dev :: bool                                          \<comment> \<open>\<open>DEVELOPMENT\<close> is true\<close>
  xw_provider :: "string \<Rightarrow> go_err option"               \<comment> \<open>the error of \<open>comdom.FromString\<close>\<close>
  xw_order :: "(string \<times> string) list \<Rightarrow> (string \<times> string) list"   \<comment> \<open>a map's iteration order\<close>
  xw_totp_gen :: "string \<Rightarrow> string \<Rightarrow> go_err + (string \<times> string)"  \<comment> \<open>account, random bytes; secret, URI\<close>
  xw_widget_keys :: "string \<Rightarrow> go_err + string"          \<comment> \<open>random bytes to an Ed25519 pair as JSON\<close>

datatype job = MigrateUser uid string string | ConfirmLetter string string string | ResetLetter string string string
  | AdminNote string | DropPending int string | DropSetup int uid | RestartAt int

record cookie =
  ck_Value :: string
  ck_Path :: string
  ck_Domain :: string
  ck_Secure :: bool
  ck_Expires :: int

record pending_session =
  tp_userId :: uid
  tp_respId :: u64
  tp_confirmed :: bool
  tp_disabled :: bool
  tp_auto :: bool
  tp_password :: string
  tp_expiresAt :: int

record web2_st = acct_st +
  limiters :: "(u64 \<times> int list) list"                    \<comment> \<open>the calls to each limiter, newest first\<close>
  totp_pending :: "(string \<times> pending_session) list"
  totp_setup :: "(uid \<times> string \<times> int) list"
  jobs :: "job list"
  cookies :: "cookie list"                                \<comment> \<open>the \<open>Set-Cookie\<close> headers sent, newest last\<close>

definition spawn :: "job \<Rightarrow> 'a web2_st_scheme \<Rightarrow> 'a web2_st_scheme" where
  "spawn j w = w\<lparr>jobs := jobs w @ [j]\<rparr>"

section \<open>The rate limiter\<close>

definition Allow :: "('e) web_env_scheme \<Rightarrow> u64 \<Rightarrow> 'a web2_st_scheme \<Rightarrow> bool \<times> 'a web2_st_scheme" where
  "Allow e r w =
     (let ts = (case map_of (limiters w) r of None \<Rightarrow> [] | Some ts \<Rightarrow> ts)
      in (xw_allow e ts (now w), w\<lparr>limiters := AList.update r (now w # ts) (limiters w)\<rparr>))"

text \<open>One tick of \<open>CleanupLimiter\<close>.\<close>

definition CleanupLimiter :: "'a web2_st_scheme \<Rightarrow> 'a web2_st_scheme" where
  "CleanupLimiter w = w\<lparr>limiters := filter (\<lambda>(r, ts). \<not> hour < now w - hd ts) (limiters w)\<rparr>"

text \<open>The answer of a refused request; \<open>None\<close> when it may go on.\<close>

definition performRateLimit :: "('e) web_env_scheme \<Rightarrow> u64 \<Rightarrow> 'a web2_st_scheme \<Rightarrow> response option \<times> 'a web2_st_scheme" where
  "performRateLimit e r w =
     (case Allow e r w of
        (True, w) \<Rightarrow> (None, w)
      | (False, w) \<Rightarrow> (Some (fst (reply_error 429 ''Rate limit exceeded'' w)), w))"

section \<open>Tokens\<close>

record http_req =
  rq_method :: string
  rq_upgrade :: bool                                      \<comment> \<open>a WebSocket upgrade\<close>
  rq_headers :: "(string \<times> string) list"
  rq_gin :: gin

definition GetHeader :: "http_req \<Rightarrow> string \<Rightarrow> string" where
  "GetHeader rq name = (case map_of (rq_headers rq) name of None \<Rightarrow> [] | Some v \<Rightarrow> v)"

definition ascii_lower :: "string \<Rightarrow> string" where
  "ascii_lower s = map (\<lambda>c. if (65::nat) \<le> of_char c \<and> of_char c \<le> (90::nat) then char_of ((of_char c :: nat) + 32) else c) s"

definition extractToken :: "http_req \<Rightarrow> string" where
  "extractToken rq =
     (let q = Query (rq_gin rq) ''token'' in
      if rq_upgrade rq then
        (case filter (\<lambda>t. t \<noteq> []) (map TrimSpace (split_on (CHR '','') (GetHeader rq ''Sec-WebSocket-Protocol''))) of
           t # _ \<Rightarrow> t | [] \<Rightarrow> q)
      else
        let h = GetHeader rq ''Authorization'' in
        if CHR '' '' \<in> set h \<and> ascii_lower (takeWhile (\<lambda>c. c \<noteq> CHR '' '') h) = ''bearer''
          then TrimSpace (tl (dropWhile (\<lambda>c. c \<noteq> CHR '' '') h))
        else q)"

definition set_key :: "string \<Rightarrow> ctx_val \<Rightarrow> gin \<Rightarrow> gin" where
  "set_key k v c = c\<lparr>g_keys := AList.update k v (g_keys c)\<rparr>"

section \<open>Middleware\<close>

text \<open>A middleware ends the request with an answer or passes the context on.\<close>

type_synonym 'w passed = "(response + gin) \<times> 'w"

definition refuse :: "nat \<Rightarrow> string \<Rightarrow> 'w \<Rightarrow> 'w passed" where
  "refuse code msg w = (Inl (fst (reply_error code msg w)), w)"

definition identified :: "uid \<Rightarrow> u64 \<Rightarrow> gin \<Rightarrow> gin" where
  "identified u r c = set_key ''respId'' (CtxU64 r) (set_key ''userId'' (CtxU32 u) c)"

definition verifyTokenAndCheckRateLimit :: "('e) web_env_scheme \<Rightarrow> gin \<Rightarrow> string \<Rightarrow> 'a web2_st_scheme
    \<Rightarrow> 'a web2_st_scheme passed" where
  "verifyTokenAndCheckRateLimit e c tok w =
     (if tok = [] then refuse 401 ''Token required'' w
      else (case VerifyAccessToken e tok w of
              Inl err \<Rightarrow> refuse 401 ''Invalid token'' w
            | Inr (u, r) \<Rightarrow>
                (case performRateLimit e r w of
                   (Some a, w) \<Rightarrow> (Inl a, w)
                 | (None, w) \<Rightarrow> (Inr (identified u r c), w))))"

definition authAllowMiddleware :: "('e) web_env_scheme \<Rightarrow> http_req \<Rightarrow> 'a web2_st_scheme \<Rightarrow> 'a web2_st_scheme passed" where
  "authAllowMiddleware e rq w =
     (let c = rq_gin rq; tok = extractToken rq in
      if rq_method rq = ''POST'' \<and> g_param c = [] \<and> tok = [] then (Inr (set_key ''rateLimitCheck'' CtxOther c), w)
      else (case verifyTokenAndCheckRateLimit e c tok w of
              (Inl a, w) \<Rightarrow> (Inl a, w)
            | (Inr c, w) \<Rightarrow>
                let p = Query c ''provider'' in
                if p = [] then (Inr c, w)
                else (case xw_provider e p of
                        Some err \<Rightarrow> refuse 400 (err_text err) w
                      | None \<Rightarrow> (Inr (set_key ''provider'' CtxOther c), w))))"

definition CRMAuthMiddleware :: "('e) web_env_scheme \<Rightarrow> http_req \<Rightarrow> 'a web2_st_scheme \<Rightarrow> 'a web2_st_scheme passed" where
  "CRMAuthMiddleware e rq w =
     (let h = GetHeader rq ''Authorization'' in
      if h = [] then refuse 401 ''no authorisation token'' w
      else (case VerifyAccessToken e (TrimPrefix h ''Bearer '') w of
              Inl err \<Rightarrow> refuse 401 ''invalid token'' w
            | Inr (u, r) \<Rightarrow>
                (case performRateLimit e r w of
                   (Some a, w) \<Rightarrow> (Inl a, w)
                 | (None, w) \<Rightarrow> (Inr (identified u r (set_key ''user_id'' (CtxU32 u) (rq_gin rq))), w))))"

text \<open>The second component of the pair is the answer already written, if any.\<close>

definition SetUserAuth :: "('e) web_env_scheme \<Rightarrow> gin \<Rightarrow> string \<Rightarrow> 'a web2_st_scheme
    \<Rightarrow> ((go_err + uid) \<times> gin \<times> response option) \<times> 'a web2_st_scheme" where
  "SetUserAuth e c tok w =
     (case VerifyAccessToken e tok w of
        Inl err \<Rightarrow> ((Inl (Msg ''invalid token''), c, None), w)
      | Inr (u, r) \<Rightarrow>
          let c = identified u r c in
          if map_of (g_keys c) ''rateLimitCheck'' = None then ((Inr u, c, None), w)
          else (case performRateLimit e r w of
                  (Some a, w) \<Rightarrow> ((Inl (Msg ''rate limited''), c, Some a), w)
                | (None, w) \<Rightarrow> ((Inr u, c, None), w)))"

section \<open>Developers\<close>

text \<open>
  \<open>GetDevUserData\<close> returns a JSON text. What the server answers to the developer's query, over tables the model
  does not have, is the argument \<open>query\<close>; the answer of an unknown user is empty.
\<close>

definition GetDevUserData :: "(uid \<Rightarrow> string) \<Rightarrow> uid \<Rightarrow> 'a acct_st_scheme \<Rightarrow> (go_err + string) \<times> 'a acct_st_scheme" where
  "GetDevUserData query u w =
     (if u = 0 then (Inl (Msg ''invalid userId''), w)
      else if failing w then (Inl (Wrap ''checking the role'' sql_down), drawn w)
      else (case map_of (users w) u of
              None \<Rightarrow> (Inl (Msg ''user not found''), drawn w)
            | Some r \<Rightarrow>
                let w = drawn w in
                if us_Role r \<noteq> 0 then (Inr ''{}'', w)
                else if failing w then (Inl (Wrap ''reading the developer's data'' sql_down), drawn w)
                else if query u = [] then (Inl (Msg ''empty result''), drawn w)
                else (Inr (query u), drawn w)))"

definition IsDevUser :: "(uid \<Rightarrow> string) \<Rightarrow> uid \<Rightarrow> 'a acct_st_scheme \<Rightarrow> (go_err + bool) \<times> 'a acct_st_scheme" where
  "IsDevUser query u w =
     (case GetDevUserData query u w of
        (Inl err, w) \<Rightarrow> (Inl (Wrap ''checking the developer's rights'' err), w)
      | (Inr d, w) \<Rightarrow> (Inr (0 < length d), w))"

text \<open>
  Without an identity the middleware writes its 401 and returns without aborting, so that gin goes on with the
  next handler.
\<close>

definition devOnlyMiddleware :: "(uid \<Rightarrow> string) \<Rightarrow> gin \<Rightarrow> 'a acct_st_scheme \<Rightarrow> 'a acct_st_scheme passed" where
  "devOnlyMiddleware query c w =
     (case getUserID c of
        None \<Rightarrow> (Inr c, w)
      | Some u \<Rightarrow>
          (case IsDevUser query u w of
             (Inl err, w) \<Rightarrow> refuse 500 ''Internal server error'' w
           | (Inr False, w) \<Rightarrow> refuse 403 ''Forbidden: Developer access required'' w
           | (Inr True, w) \<Rightarrow> (Inr c, w)))"

end
