(* ===== verification/AuthWeb.thy ===== *)
theory AuthWeb
  imports Gate
begin

text \<open>
  The handlers of \<open>delivery/http/auth.go\<close> and \<open>totp.go\<close>. A request's body is the error of binding or the decoded
  fields; a refresh cookie is an option. A panic under a handler is answered with 500 by the recovery middleware
  of \<open>gin.Default\<close>. \<open>reply_redirect\<close> keeps the \<open>Location\<close> where other answers have their body.
\<close>

type_synonym 'b body = "string + 'b"

definition bad_body :: "string \<Rightarrow> 'w \<Rightarrow> 'w handled" where
  "bad_body msg w = reply_error 400 msg w"

definition panicked :: "'w \<Rightarrow> 'w handled" where
  "panicked w = reply_status 500 w"

definition reply_redirect :: "string \<Rightarrow> 'w \<Rightarrow> 'w handled" where
  "reply_redirect loc w = (\<lparr>rs_status = 302, rs_body = JStr loc\<rparr>, w)"

text \<open>The five steps shared by the handlers that take a fresh \<open>respId\<close>: refuse it or go on.\<close>

definition limited :: "('e) web_env_scheme \<Rightarrow> u64 \<Rightarrow> ('a web2_st_scheme \<Rightarrow> 'a web2_st_scheme handled)
    \<Rightarrow> 'a web2_st_scheme \<Rightarrow> 'a web2_st_scheme handled" where
  "limited e r k w = (case performRateLimit e r w of (Some a, w) \<Rightarrow> (a, w) | (None, w) \<Rightarrow> k w)"

definition with_password :: "('e) web_env_scheme \<Rightarrow> u64 \<Rightarrow> string \<Rightarrow> (string \<Rightarrow> 'a web2_st_scheme \<Rightarrow> 'a web2_st_scheme handled)
    \<Rightarrow> 'a web2_st_scheme \<Rightarrow> 'a web2_st_scheme handled" where
  "with_password e r enc k w =
     (case DecryptPassword e r enc w of
        (None, w) \<Rightarrow> panicked w
      | (Some (Inl err), w) \<Rightarrow> reply_error 400 (err_text err) w
      | (Some (Inr p), w) \<Rightarrow> k p w)"

section \<open>Registration\<close>

record mail_req =
  mq_RespId :: u64
  mq_Mail :: string
  mq_Lang :: string

definition CheckMail :: "('e) web_env_scheme \<Rightarrow> mail_req body \<Rightarrow> 'a web2_st_scheme \<Rightarrow> 'a web2_st_scheme handled" where
  "CheckMail e b w =
     (case b of Inl err \<Rightarrow> bad_body err w
      | Inr q \<Rightarrow> limited e (mq_RespId q) (\<lambda>w.
          (case CheckEmail e (mq_Mail q) w of
             (Inl err, w) \<Rightarrow> reply_error 500 (err_text err) w
           | (Inr u, w) \<Rightarrow>
               if u = 0
                 then (case AddRegUser e (mq_RespId q) w of
                         (key, w) \<Rightarrow> reply 200 [(''email'', JBool False), (''key'', JStr key)] w)
               else reply 200 [(''email'', JBool True), (''key'', JStr [])] w)) w)"

record reg_req =
  rg_RespId :: u64
  rg_Name :: string
  rg_Mail :: string
  rg_Pass :: string
  rg_Demo :: bool
  rg_Language :: string

definition bool_text :: "bool \<Rightarrow> string" where
  "bool_text b = (if b then ''true'' else ''false'')"

definition newline :: string where "newline = [char_of (10 :: nat)]"

definition reg_note :: "reg_req \<Rightarrow> string" where
  "reg_note q = ''name: '' @ rg_Name q @ newline @ ''demo: '' @ bool_text (rg_Demo q) @ newline
     @ ''lang: '' @ rg_Language q @ newline @ ''email: '' @ rg_Mail q @ newline"

definition RegNewUser :: "('e) web_env_scheme \<Rightarrow> reg_req body \<Rightarrow> 'a web2_st_scheme \<Rightarrow> 'a web2_st_scheme handled" where
  "RegNewUser e b w =
     (case b of Inl err \<Rightarrow> bad_body err w
      | Inr q \<Rightarrow> limited e (rg_RespId q) (with_password e (rg_RespId q) (rg_Pass q) (\<lambda>pass w.
          (case Register e \<lparr>ri_Name = rg_Name q, ri_Mail = rg_Mail q, ri_Password = pass, ri_Demo = rg_Demo q,
                  ri_Language = rg_Language q\<rparr> w of
             (Inl err, w) \<Rightarrow> reply_error 500 (err_text err) w
           | (Inr (u, tok), w) \<Rightarrow>
               reply 200 [] (spawn (ConfirmLetter (rg_Language q) (rg_Mail q) tok) (spawn (AdminNote (reg_note q)) w))))) w)"

definition GetAuthKey :: "('e) web_env_scheme \<Rightarrow> u64 body \<Rightarrow> 'a web2_st_scheme \<Rightarrow> 'a web2_st_scheme handled" where
  "GetAuthKey e b w =
     (case b of Inl err \<Rightarrow> bad_body err w
      | Inr r \<Rightarrow> limited e r (\<lambda>w. (case AddRegUser e r w of (key, w) \<Rightarrow> reply 200 [(''key'', JStr key)] w)) w)"

section \<open>Resetting a password\<close>

definition HandleResetPass :: "('e) web_env_scheme \<Rightarrow> mail_req body \<Rightarrow> 'a web2_st_scheme \<Rightarrow> 'a web2_st_scheme handled" where
  "HandleResetPass e b w =
     (case b of Inl err \<Rightarrow> bad_body err w
      | Inr q \<Rightarrow> limited e (mq_RespId q) (\<lambda>w.
          (case RequestPasswordReset e (mq_Mail q) w of
             (None, w) \<Rightarrow> reply 200 [(''a'', JBool False)] w
           | (Some tok, w) \<Rightarrow>
               reply 200 [(''a'', JBool True)] (spawn (ResetLetter (mq_Lang q) (mq_Mail q) tok) w))) w)"

definition CheckResetPass :: "('e) web_env_scheme \<Rightarrow> (u64 \<times> string) body \<Rightarrow> 'a web2_st_scheme \<Rightarrow> 'a web2_st_scheme handled" where
  "CheckResetPass e b w =
     (case b of Inl err \<Rightarrow> bad_body err w
      | Inr (r, key) \<Rightarrow> limited e r (\<lambda>w.
          (case ParseMailConfirmationToken e key w of
             Inl err \<Rightarrow> reply 401 [(''status'', JStr ''error''), (''message'', JStr ''invalid or expired token'')] w
           | Inr (u, email) \<Rightarrow>
               reply 200 [(''status'', JStr ''success''), (''email'', JStr email),
                 (''token'', JStr (fst (GenerateAccessToken e u r w)))] w)) w)"

record pass_req =
  pq_Token :: string
  pq_Mail :: string
  pq_Pass :: string
  pq_RawMasterKey :: string

definition ResetPass :: "('e) web_env_scheme \<Rightarrow> pass_req body \<Rightarrow> 'a web2_st_scheme \<Rightarrow> 'a web2_st_scheme handled" where
  "ResetPass e b w =
     (case b of Inl err \<Rightarrow> bad_body err w
      | Inr q \<Rightarrow>
          (case ParseAuthToken e (pq_Token q) w of
             Inl err \<Rightarrow> reply_error 401 ''Invalid token'' w
           | Inr (u, r) \<Rightarrow> limited e r (with_password e r (pq_Pass q) (\<lambda>pass w.
               (case ResetPassword e u \<lparr>rp_Mail = pq_Mail q, rp_Password = pass,
                       rp_RawMasterKey = pq_RawMasterKey q\<rparr> w of
                  (Inl err, w) \<Rightarrow> reply_error 400 (err_text err) w
                | (Inr _, w) \<Rightarrow> reply 200 [] w))) w))"

section \<open>Confirming an address\<close>

definition unescaped :: "char \<Rightarrow> bool" where
  "unescaped c = (let n = of_char c :: nat in (48 \<le> n \<and> n \<le> 57) \<or> (65 \<le> n \<and> n \<le> 90) \<or> (97 \<le> n \<and> n \<le> 122)
     \<or> c \<in> set ''-_.~'')"

definition upper_hex :: "nat \<Rightarrow> char" where
  "upper_hex n = char_of (if n < 10 then 48 + n else 55 + n)"

definition QueryEscape :: "string \<Rightarrow> string" where
  "QueryEscape s = concat (map (\<lambda>c. if unescaped c then [c] else if c = CHR '' '' then ''+''
     else [CHR ''%'', upper_hex (of_char c div 16), upper_hex (of_char c mod 16)]) s)"

definition TrimRightSlash :: "string \<Rightarrow> string" where
  "TrimRightSlash s = rev (dropWhile (\<lambda>c. c = CHR ''/'') (rev s))"

definition publicWebHost :: "('e) web_env_scheme \<Rightarrow> string" where
  "publicWebHost e =
     (let host = TrimRightSlash (xw_host e) in
      if HasPrefix host ''http://'' \<or> HasPrefix host ''https://'' then host else ''https://'' @ host)"

definition ConfirmEmailPage :: "('e) web_env_scheme \<Rightarrow> gin \<Rightarrow> 'a web2_st_scheme \<Rightarrow> 'a web2_st_scheme handled" where
  "ConfirmEmailPage e c w =
     (let host = publicWebHost e; tok = Query c ''key'' in
      if tok = [] then reply_redirect (host @ ''/?confirm=error&reason=no-token'') w
      else (case ConfirmEmail e tok w of
              (Inl err, w) \<Rightarrow> reply_redirect (host @ ''/?confirm=error&reason=invalid-token'') w
            | (Inr (u, email), w) \<Rightarrow>
                reply_redirect (host @ ''/?confirm=success&email='' @ QueryEscape email)
                  (spawn (AdminNote (''email: '' @ email @ newline)) w)))"

section \<open>Tokens and cookies\<close>

definition cookie_for :: "('e) web_env_scheme \<Rightarrow> string \<Rightarrow> int \<Rightarrow> cookie" where
  "cookie_for e v t =
     \<lparr>ck_Value = v, ck_Path = (if xw_dev e then ''/'' else ''/v1/auth/token/refresh''),
      ck_Domain = (if xw_dev e then [] else xw_host e), ck_Secure = (\<not> xw_dev e), ck_Expires = t\<rparr>"

definition SetCookie :: "('e) web_env_scheme \<Rightarrow> string \<Rightarrow> int \<Rightarrow> 'a web2_st_scheme \<Rightarrow> 'a web2_st_scheme" where
  "SetCookie e v t w = w\<lparr>cookies := cookies w @ [cookie_for e v t]\<rparr>"

text \<open>
  When the key's lifetime cannot be renewed the handler writes its 401 and goes on: the status is sent, a cookie
  set after it is not, and the second document follows the first in the body.
\<close>

definition RefreshToken :: "('e) web_env_scheme \<Rightarrow> string option \<Rightarrow> 'a web2_st_scheme \<Rightarrow> 'a web2_st_scheme handled" where
  "RefreshToken e ck w =
     (case ck of None \<Rightarrow> reply_error 401 ''No refresh token'' w
      | Some tok \<Rightarrow>
          (case IsBlacklisted e tok w of
             (Inr True, w) \<Rightarrow> reply_error 401 ''Token revoked'' w
           | (_, w) \<Rightarrow>
               (case VerifyAccessToken e tok w of
                  Inl err \<Rightarrow> reply_error 401 ''Invalid token'' w
                | Inr (u, r) \<Rightarrow>
                    (case GenerateAccessToken e u r w of
                       (sta, lta) \<Rightarrow>
                         let w = snd (BlacklistToken e tok RefreshTokenTTL w) in
                         (case RefreshMasterKeyTTL e u w of
                            (Inl err, w) \<Rightarrow>
                              (\<lparr>rs_status = 401, rs_body = JList [JObj [(''error'', JStr ''Error refreshing token'')],
                                 JObj [(''s'', JStr sta)]]\<rparr>, w)
                          | (Inr _, w) \<Rightarrow>
                              reply 200 [(''s'', JStr sta)] (SetCookie e lta (now w + RefreshTokenTTL) w))))))"

definition Logout :: "('e) web_env_scheme \<Rightarrow> string option \<Rightarrow> 'a web2_st_scheme \<Rightarrow> 'a web2_st_scheme handled" where
  "Logout e ck w =
     (let w = (case ck of
                 Some tok \<Rightarrow> if tok = [] then w else snd (BlacklistToken e tok RefreshTokenTTL w)
               | None \<Rightarrow> w)
      in reply 200 [(''status'', JStr ''ok'')] (SetCookie e [] 0 w))"

section \<open>Login\<close>

definition totpPendingTTL :: int where "totpPendingTTL = 5 * minute"

definition newTOTPToken :: "('e) web_env_scheme \<Rightarrow> 'a web2_st_scheme \<Rightarrow> string \<times> 'a web2_st_scheme" where
  "newTOTPToken e w = (case random_bytes (se_crypto e) 16 w of (b, w) \<Rightarrow> (hex_of b, w))"

definition storeTOTPPending :: "string \<Rightarrow> pending_session \<Rightarrow> 'a web2_st_scheme \<Rightarrow> 'a web2_st_scheme" where
  "storeTOTPPending tok s w =
     spawn (DropPending (now w + totpPendingTTL + second) tok) (w\<lparr>totp_pending := AList.update tok s (totp_pending w)\<rparr>)"

definition loadAndDeleteTOTPPending :: "string \<Rightarrow> 'a web2_st_scheme \<Rightarrow> pending_session option \<times> 'a web2_st_scheme" where
  "loadAndDeleteTOTPPending tok w =
     ((case map_of (totp_pending w) tok of
         None \<Rightarrow> None
       | Some s \<Rightarrow> if tp_expiresAt s < now w then None else Some s),
      w\<lparr>totp_pending := AList.delete tok (totp_pending w)\<rparr>)"

text \<open>One tick of \<open>cleanupTOTPPending\<close>.\<close>

definition cleanupTOTPPending :: "'a web2_st_scheme \<Rightarrow> 'a web2_st_scheme" where
  "cleanupTOTPPending w = w\<lparr>totp_pending := filter (\<lambda>(t, s). \<not> tp_expiresAt s < now w) (totp_pending w)\<rparr>"

record login_req =
  lq_RespId :: u64
  lq_Mail :: string
  lq_Pass :: string
  lq_Auto :: bool

definition finish_login :: "('e) web_env_scheme \<Rightarrow> login_req \<Rightarrow> login_result \<Rightarrow> 'a web2_st_scheme
    \<Rightarrow> 'a web2_st_scheme handled" where
  "finish_login e q r w =
     (let w = (if lr_IsLegacy r then spawn (MigrateUser (lr_UserID r) (lr_Password r) (lq_Mail q)) w else w) in
      (case LoadMasterKeyIfExists e (lr_UserID r) (lr_Password r) w of
         ((master, _), w) \<Rightarrow>
           (case GenerateAccessToken e (lr_UserID r) (lq_RespId q) w of
              (sta, lta) \<Rightarrow>
                reply 200 [(''token'', JStr sta), (''confirmed'', JBool (lr_Confirmed r)),
                    (''disabled'', JBool (lr_Disabled r)), (''master'', JBool master)]
                  (if lq_Auto q then SetCookie e lta (now w + RefreshTokenTTL) w else w))))"

definition await_totp :: "('e) web_env_scheme \<Rightarrow> login_req \<Rightarrow> login_result \<Rightarrow> 'a web2_st_scheme
    \<Rightarrow> 'a web2_st_scheme handled" where
  "await_totp e q r w =
     (case newTOTPToken e w of
        (tok, w) \<Rightarrow>
          reply 200 [(''status'', JStr ''totp_required''), (''totp_token'', JStr tok)]
            (storeTOTPPending tok \<lparr>tp_userId = lr_UserID r, tp_respId = lq_RespId q, tp_confirmed = lr_Confirmed r,
               tp_disabled = lr_Disabled r, tp_auto = lq_Auto q, tp_password = lr_Password r,
               tp_expiresAt = now w + totpPendingTTL\<rparr> w))"

definition Login :: "('e) web_env_scheme \<Rightarrow> login_req body \<Rightarrow> 'a web2_st_scheme \<Rightarrow> 'a web2_st_scheme handled" where
  "Login e b w =
     (case b of Inl err \<Rightarrow> bad_body err w
      | Inr q \<Rightarrow> limited e (lq_RespId q) (with_password e (lq_RespId q) (lq_Pass q) (\<lambda>pass w.
          (case Authenticate e (lq_Mail q) pass w of
             (Inl err, w) \<Rightarrow> reply_error 401 ''unauthorized'' w
           | (Inr r, w) \<Rightarrow> if lr_TOTPEnabled r then await_totp e q r w else finish_login e q r w))) w)"

definition load_key_after_totp :: "('e) web_env_scheme \<Rightarrow> pending_session \<Rightarrow> 'a web2_st_scheme \<Rightarrow> 'a web2_st_scheme" where
  "load_key_after_totp e s w =
     (case GetMasterKeyData (tp_userId s) w of
        (Inr (Some (enc, salt)), w) \<Rightarrow>
          if tp_password s = [] then w else snd (LoadMasterKey e (tp_userId s) (tp_password s) enc salt w)
      | (_, w) \<Rightarrow> w)"

text \<open>The body: \<open>totp_token\<close> and \<open>code\<close>, which binding requires to be there and not empty.\<close>

definition AuthTOTP :: "('e) web_env_scheme \<Rightarrow> (string \<times> string) option \<Rightarrow> 'a web2_st_scheme
    \<Rightarrow> 'a web2_st_scheme handled" where
  "AuthTOTP e b w =
     (case b of None \<Rightarrow> reply_error 400 ''totp_token and code required'' w
      | Some (tok, code) \<Rightarrow>
          if tok = [] \<or> code = [] then reply_error 400 ''totp_token and code required'' w
          else (case loadAndDeleteTOTPPending tok w of
             (None, w) \<Rightarrow> reply_error 401 ''invalid or expired totp_token'' w
           | (Some s, w) \<Rightarrow>
               (case GetTOTPData (tp_userId s) w of
                  (Inr (Some enc), w) \<Rightarrow>
                    if \<not> ValidateTOTPCode e w enc code then reply_error 401 ''invalid code'' w
                    else (case GenerateAccessToken e (tp_userId s) (tp_respId s) w of
                            (sta, lta) \<Rightarrow>
                              reply 200 [(''token'', JStr sta), (''confirmed'', JBool (tp_confirmed s)),
                                  (''disabled'', JBool (tp_disabled s))]
                                (load_key_after_totp e s
                                  (if tp_auto s then SetCookie e lta (now w + RefreshTokenTTL) w else w)))
                | (_, w) \<Rightarrow> reply_error 401 ''totp not enabled'' w)))"

section \<open>Setting TOTP up\<close>

definition GetUserEmail :: "uid \<Rightarrow> 'a acct_st_scheme \<Rightarrow> (go_err + string) \<times> 'a acct_st_scheme" where
  "GetUserEmail u w =
     (if u = 0 then (Inl (Msg ''invalid userId''), w)
      else (case get_auth ''reading the email'' u w of
              (Inl err, w) \<Rightarrow> (Inl err, w)
            | (Inr None, w) \<Rightarrow> (Inr [], w)
            | (Inr (Some r), w) \<Rightarrow> (Inr (au_Email r), w)))"

definition GenerateTOTPSecret :: "('e) web_env_scheme \<Rightarrow> string \<Rightarrow> 'a web2_st_scheme
    \<Rightarrow> (go_err + (string \<times> string)) \<times> 'a web2_st_scheme" where
  "GenerateTOTPSecret e account w =
     (case random_bytes (se_crypto e) 20 w of
        (b, w) \<Rightarrow> (case xw_totp_gen e account b of
                     Inl err \<Rightarrow> (Inl (Wrap ''generating TOTP'' err), w)
                   | Inr r \<Rightarrow> (Inr r, w)))"

definition storeSetupPending :: "uid \<Rightarrow> string \<Rightarrow> 'a web2_st_scheme \<Rightarrow> 'a web2_st_scheme" where
  "storeSetupPending u secret w =
     spawn (DropSetup (now w + totpPendingTTL + second) u)
       (w\<lparr>totp_setup := AList.update u (secret, now w + totpPendingTTL) (totp_setup w)\<rparr>)"

definition loadAndDeleteSetupPending :: "uid \<Rightarrow> 'a web2_st_scheme \<Rightarrow> string option \<times> 'a web2_st_scheme" where
  "loadAndDeleteSetupPending u w =
     ((case map_of (totp_setup w) u of
         None \<Rightarrow> None
       | Some (secret, t) \<Rightarrow> if t < now w then None else Some secret),
      w\<lparr>totp_setup := AList.delete u (totp_setup w)\<rparr>)"

definition TOTPSetup :: "('e) web_env_scheme \<Rightarrow> gin \<Rightarrow> 'a web2_st_scheme \<Rightarrow> 'a web2_st_scheme handled" where
  "TOTPSetup e c w =
     (case getUserID c of None \<Rightarrow> unauthorized w
      | Some u \<Rightarrow>
          (case GetUserEmail u w of
             (g, w) \<Rightarrow>
               let raw = (case g of Inl err \<Rightarrow> ''user'' | Inr m \<Rightarrow> m);
                   email = (case DecryptEmailIfNeeded e w raw of Inl err \<Rightarrow> raw | Inr m \<Rightarrow> m) in
               (case GenerateTOTPSecret e email w of
                  (Inl err, w) \<Rightarrow> reply_error 500 ''totp generation failed'' w
                | (Inr (secret, uri), w) \<Rightarrow> reply 200 [(''uri'', JStr uri)] (storeSetupPending u secret w))))"

text \<open>The body of the next two is the code, which binding requires to be there and not empty.\<close>

definition TOTPConfirm :: "('e) web_env_scheme \<Rightarrow> gin \<Rightarrow> string option \<Rightarrow> 'a web2_st_scheme \<Rightarrow> 'a web2_st_scheme handled" where
  "TOTPConfirm e c b w =
     (case getUserID c of None \<Rightarrow> unauthorized w
      | Some u \<Rightarrow>
          (case b of None \<Rightarrow> reply_error 400 ''code required'' w
           | Some code \<Rightarrow>
               if code = [] then reply_error 400 ''code required'' w
               else (case loadAndDeleteSetupPending u w of
                  (None, w) \<Rightarrow> reply_error 400 ''totp not configured or setup expired, call /totp/setup first'' w
                | (Some secret, w) \<Rightarrow>
                    (case EncryptTOTPSecret e secret w of
                       (Inl err, w) \<Rightarrow> reply_error 500 ''internal error'' w
                     | (Inr enc, w) \<Rightarrow>
                         if \<not> ValidateTOTPCode e w enc code
                           then reply_error 401 ''invalid code'' (storeSetupPending u secret w)
                         else (case SaveTOTPSecret u enc w of
                                 (Inl err, w) \<Rightarrow> reply_error 500 ''totp save failed'' w
                               | (Inr _, w) \<Rightarrow> reply 200 [(''enabled'', JBool True)] w)))))"

definition TOTPDisable :: "('e) web_env_scheme \<Rightarrow> gin \<Rightarrow> string option \<Rightarrow> 'a web2_st_scheme \<Rightarrow> 'a web2_st_scheme handled" where
  "TOTPDisable e c b w =
     (case getUserID c of None \<Rightarrow> unauthorized w
      | Some u \<Rightarrow>
          (case b of None \<Rightarrow> reply_error 400 ''code required'' w
           | Some code \<Rightarrow>
               if code = [] then reply_error 400 ''code required'' w
               else (case GetTOTPData u w of
                  (Inl err, w) \<Rightarrow> reply_error 500 ''internal error'' w
                | (Inr None, w) \<Rightarrow> reply_error 400 ''totp not enabled'' w
                | (Inr (Some enc), w) \<Rightarrow>
                    if \<not> ValidateTOTPCode e w enc code then reply_error 401 ''invalid code'' w
                    else (case ClearTOTPSecret u w of
                            (Inl err, w) \<Rightarrow> reply_error 500 ''totp disable failed'' w
                          | (Inr _, w) \<Rightarrow> reply 200 [(''enabled'', JBool False)] w))))"

section \<open>Work left to goroutines and timers\<close>

text \<open>Sending a letter or a note is outside the model; ending the process is left to the caller.\<close>

definition runs_at :: "job \<Rightarrow> int option" where
  "runs_at j = (case j of DropPending t _ \<Rightarrow> Some t | DropSetup t _ \<Rightarrow> Some t | RestartAt t \<Rightarrow> Some t | _ \<Rightarrow> None)"

definition run_job :: "('e) web_env_scheme \<Rightarrow> job \<Rightarrow> 'a web2_st_scheme \<Rightarrow> 'a web2_st_scheme" where
  "run_job e j w =
     (let w = w\<lparr>jobs := remove1 j (jobs w)\<rparr> in
      case j of
        MigrateUser u p m \<Rightarrow> snd (MigrateLegacyUser e u p m w)
      | DropPending t tok \<Rightarrow> w\<lparr>totp_pending := AList.delete tok (totp_pending w)\<rparr>
      | DropSetup t u \<Rightarrow> w\<lparr>totp_setup := AList.delete u (totp_setup w)\<rparr>
      | _ \<Rightarrow> w)"

end
