(* ===== verification/DevWeb.thy ===== *)
theory DevWeb
  imports AuthWeb
begin

text \<open>
  The handlers of \<open>delivery/http/master_key.go\<close> and \<open>dev.go\<close>, the settings operations of
  \<open>usecase/admin/admin.go\<close>, and the chain of middleware in front of the developers' routes. What a WebSocket
  handler sends is a list of messages; progress texts are the codes the use case reports, before their
  translation for display.
\<close>

section \<open>Master keys\<close>

datatype ws_message = WsProgress string | WsError string | WsSuccess string

text \<open>\<open>fmt.Sscanf(s, "%d", &r)\<close> with an unsigned \<open>r\<close>: no sign is accepted.\<close>

definition scan_u64 :: "string \<Rightarrow> u64 option" where
  "scan_u64 s =
     (case digits (takeWhile is_digit (trim_left_fuel (length s) blanks s)) of
        Some n \<Rightarrow> if n < 2 ^ 64 then Some (word_of_nat n) else None
      | None \<Rightarrow> None)"

text \<open>What is sent once the request is understood; a panic drops the connection.\<close>

definition create_key_messages :: "('e) web_env_scheme \<Rightarrow> uid \<Rightarrow> u64 \<Rightarrow> string \<Rightarrow> 'a web2_st_scheme
    \<Rightarrow> ws_message list \<times> 'a web2_st_scheme" where
  "create_key_messages e u r pass w =
     (case CreateMasterKey e u r pass (w\<lparr>progress := [''creating'']\<rparr>) of
        (None, w) \<Rightarrow> (map WsProgress (progress w), w)
      | (Some (Inl err), w) \<Rightarrow>
          (map WsProgress (progress w) @ [WsError
             (if err_text err = ''MASTER_KEY_ALREADY_EXISTS'' then ''the MasterKey exists already''
              else if err_text err = ''INVALID_PASSWORD'' then ''wrong password''
              else ''internal error'')], w)
      | (Some (Inr raw), w) \<Rightarrow> (map WsProgress (progress w) @ [WsSuccess raw], w))"

text \<open>The answer before the upgrade, or the messages after it.\<close>

definition CreateMasterKeyWSS :: "('e) web_env_scheme \<Rightarrow> gin \<Rightarrow> bool \<Rightarrow> 'a web2_st_scheme
    \<Rightarrow> (response + ws_message list) \<times> 'a web2_st_scheme" where
  "CreateMasterKeyWSS e c upgraded w =
     (case getUserID c of None \<Rightarrow> (Inl (fst (unauthorized w)), w)
      | Some u \<Rightarrow>
          if \<not> upgraded then (Inr [], w)
          else if Query c ''respId'' = [] \<or> Query c ''pass'' = [] then (Inr [WsError ''missing respId or pass''], w)
          else (case scan_u64 (Query c ''respId'') of
             None \<Rightarrow> (Inr [WsError ''malformed respId''], w)
           | Some r \<Rightarrow> (case create_key_messages e u r (Query c ''pass'') w of (ms, w) \<Rightarrow> (Inr ms, w))))"

record key_req =
  kq_RespId :: u64
  kq_Raw :: string
  kq_Pass :: string

text \<open>Binding requires the number not to be zero and the password not to be empty.\<close>

definition VerifyPasswordPage :: "('e) web_env_scheme \<Rightarrow> gin \<Rightarrow> (u64 \<times> string) body \<Rightarrow> 'a web2_st_scheme
    \<Rightarrow> 'a web2_st_scheme handled" where
  "VerifyPasswordPage e c b w =
     (case getUserID c of None \<Rightarrow> unauthorized w
      | Some u \<Rightarrow>
          (case b of Inl err \<Rightarrow> bad_body err w
           | Inr (r, pass) \<Rightarrow>
               if r = 0 \<or> pass = [] then bad_body ''required field missing'' w
               else (case VerifyUserPassword e u r pass w of
                  (None, w) \<Rightarrow> panicked w
                | (Some (Inl err), w) \<Rightarrow>
                    if err_text err = ''INVALID_PASSWORD'' then reply_error 401 ''invalid password'' w
                    else reply_error 500 ''internal error'' w
                | (Some (Inr _), w) \<Rightarrow> reply 200 [] w)))"

definition RewrapMasterKey :: "('e) web_env_scheme \<Rightarrow> gin \<Rightarrow> key_req body \<Rightarrow> 'a web2_st_scheme
    \<Rightarrow> 'a web2_st_scheme handled" where
  "RewrapMasterKey e c b w =
     (case getUserID c of None \<Rightarrow> unauthorized w
      | Some u \<Rightarrow>
          (case b of Inl err \<Rightarrow> bad_body err w
           | Inr q \<Rightarrow>
               if kq_RespId q = 0 \<or> kq_Pass q = [] then bad_body ''required field missing'' w
               else (case RewrapOrReset e u (kq_RespId q) (kq_Raw q) (kq_Pass q) w of
                  (None, w) \<Rightarrow> panicked w
                | (Some (Inl err), w) \<Rightarrow> reply_error 500 (err_text err) w
                | (Some (Inr _), w) \<Rightarrow> reply 200 [] w)))"

section \<open>Settings\<close>

abbreviation cfg_env :: "('e) web_env_scheme \<Rightarrow> settings_env" where
  "cfg_env e \<equiv> settings_env.truncate e"

fun GetConfigs :: "settings_env \<Rightarrow> string list \<Rightarrow> 'a app_st_scheme
    \<Rightarrow> (go_err + (string \<times> string) list) \<times> 'a app_st_scheme" where
  "GetConfigs s [] w = (Inr [], w)"
| "GetConfigs s (k # ks) w =
     (case GetAppConfig s k w of
        (Inl err, w) \<Rightarrow> (Inl (Wrap (''reading '' @ k) err), w)
      | (Inr v, w) \<Rightarrow>
          (case GetConfigs s ks w of
             (Inl err, w) \<Rightarrow> (Inl err, w)
           | (Inr m, w) \<Rightarrow> (Inr (AList.update k v m), w)))"

text \<open>Go ranges over the map in an order of its own; what was written before an error stays.\<close>

fun set_in_order :: "settings_env \<Rightarrow> (string \<times> string) list \<Rightarrow> 'a app_st_scheme
    \<Rightarrow> (go_err + unit) \<times> 'a app_st_scheme" where
  "set_in_order s [] w = (Inr (), w)"
| "set_in_order s ((k, v) # kvs) w =
     (case SetAppConfig s k v w of
        (Inl err, w) \<Rightarrow> (Inl (Wrap (''saving '' @ k) err), w)
      | (Inr _, w) \<Rightarrow> set_in_order s kvs w)"

definition SetConfigs :: "('e) web_env_scheme \<Rightarrow> (string \<times> string) list \<Rightarrow> 'a web2_st_scheme
    \<Rightarrow> (go_err + unit) \<times> 'a web2_st_scheme" where
  "SetConfigs e kvs w = set_in_order (cfg_env e) (xw_order e kvs) w"

definition ResetSessionKeys :: "('e) web_env_scheme \<Rightarrow> 'a web2_st_scheme \<Rightarrow> (go_err + unit) \<times> 'a web2_st_scheme" where
  "ResetSessionKeys e w =
     (case SetAppConfig (cfg_env e) ''auth.session'' [] w of
        (Inl err, w) \<Rightarrow> (Inl err, w)
      | (Inr _, w) \<Rightarrow> SetAppConfig (cfg_env e) ''auth.created'' [] w)"

definition cfg :: "(string \<times> string) list \<Rightarrow> string \<Rightarrow> string" where
  "cfg m k = (case map_of m k of None \<Rightarrow> [] | Some v \<Rightarrow> v)"

definition no_config :: "go_err \<Rightarrow> 'w \<Rightarrow> 'w handled" where
  "no_config err w = reply_error 500 (err_text err) w"

section \<open>The developers' routes\<close>

definition GetTimeCreatedSessionKey :: "('e) web_env_scheme \<Rightarrow> 'a web2_st_scheme \<Rightarrow> string" where
  "GetTimeCreatedSessionKey e w = xe_show_time e (ex_created w)"

definition GetDev :: "('e) web_env_scheme \<Rightarrow> gin \<Rightarrow> 'a web2_st_scheme \<Rightarrow> 'a web2_st_scheme handled" where
  "GetDev e c w =
     (case getUserID c of None \<Rightarrow> unauthorized w
      | Some u \<Rightarrow>
          (case GetConfigs (cfg_env e) [''smtp.mail'', ''google_oauth.client_id'', ''tg.bot'', ''oper.tg.bot'',
                  ''widg.ed25519_keys''] w of
             (Inl err, w) \<Rightarrow> no_config err w
           | (Inr m, w) \<Rightarrow>
               reply 200 [(''email'', JStr (cfg m ''smtp.mail'')), (''google_id'', JStr (cfg m ''google_oauth.client_id'')),
                 (''bot_name'', JStr (cfg m ''tg.bot'')), (''operbot_name'', JStr (cfg m ''oper.tg.bot'')),
                 (''session_created'', JStr (GetTimeCreatedSessionKey e w)),
                 (''widg_keys'', JBool (cfg m ''widg.ed25519_keys'' \<noteq> []))] w))"

text \<open>
  Four handlers take a secret under the transport encryption and store it with other settings; \<open>ok\<close> gives the
  answer in the end.
\<close>

definition store_secret :: "('e) web_env_scheme \<Rightarrow> gin \<Rightarrow> (u64 \<times> string) body
    \<Rightarrow> (string \<Rightarrow> (string \<times> string) list) \<Rightarrow> ('a web2_st_scheme \<Rightarrow> 'a web2_st_scheme handled)
    \<Rightarrow> 'a web2_st_scheme \<Rightarrow> 'a web2_st_scheme handled" where
  "store_secret e c b kvs ok w =
     (case b of Inl err \<Rightarrow> bad_body err w
      | Inr (r, enc) \<Rightarrow>
          (case getUserID c of None \<Rightarrow> unauthorized w
           | Some u \<Rightarrow> with_password e r enc (\<lambda>p w.
               (case SetConfigs e (kvs p) w of
                  (Inl err, w) \<Rightarrow> no_config err w
                | (Inr _, w) \<Rightarrow> ok w)) w))"

definition SetDistribMail :: "('e) web_env_scheme \<Rightarrow> gin \<Rightarrow> (u64 \<times> string) body \<Rightarrow> string \<Rightarrow> string \<Rightarrow> string
    \<Rightarrow> 'a web2_st_scheme \<Rightarrow> 'a web2_st_scheme handled" where
  "SetDistribMail e c b mail host port w =
     store_secret e c b (\<lambda>p. [(''smtp.mail'', mail), (''smtp.host'', host), (''smtp.port'', port), (''smtp.pass'', p)])
       (reply 200 []) w"

definition SetGAUTH :: "('e) web_env_scheme \<Rightarrow> gin \<Rightarrow> (u64 \<times> string) body \<Rightarrow> string \<Rightarrow> string
    \<Rightarrow> 'a web2_st_scheme \<Rightarrow> 'a web2_st_scheme handled" where
  "SetGAUTH e c b url i w =
     store_secret e c b (\<lambda>p. [(''google_oauth.redirect_uri'', url), (''google_oauth.client_id'', i),
         (''google_oauth.client_secret'', p)]) (reply_status 200) w"

definition SetCarpintero :: "('e) web_env_scheme \<Rightarrow> gin \<Rightarrow> (u64 \<times> string) body \<Rightarrow> string
    \<Rightarrow> 'a web2_st_scheme \<Rightarrow> 'a web2_st_scheme handled" where
  "SetCarpintero e c b name w =
     store_secret e c b (\<lambda>p. [(''tg.token'', p), (''tg.bot'', name)]) (reply_status 200) w"

definition SetOperBot :: "('e) web_env_scheme \<Rightarrow> gin \<Rightarrow> (u64 \<times> string) body \<Rightarrow> string
    \<Rightarrow> 'a web2_st_scheme \<Rightarrow> 'a web2_st_scheme handled" where
  "SetOperBot e c b name w =
     store_secret e c b (\<lambda>p. [(''oper.tg.token'', p), (''oper.tg.bot'', bot)]) (reply_status 200) w"

definition CreateNewSessionKey :: "('e) web_env_scheme \<Rightarrow> gin \<Rightarrow> 'a web2_st_scheme \<Rightarrow> 'a web2_st_scheme handled" where
  "CreateNewSessionKey e c w =
     (case getUserID c of None \<Rightarrow> unauthorized w
      | Some u \<Rightarrow>
          (case ResetSessionKeys e w of
             (Inl err, w) \<Rightarrow> no_config err w
           | (Inr _, w) \<Rightarrow>
               reply 200 [] (spawn (RestartAt (now w + 3 * second))
                 (w\<lparr>cookies := cookies w @ [(cookie_for e [] 0)\<lparr>ck_Domain := xw_host e\<rparr>]\<rparr>))))"

definition CheckSettings :: "('e) web_env_scheme \<Rightarrow> gin \<Rightarrow> 'a web2_st_scheme \<Rightarrow> 'a web2_st_scheme handled" where
  "CheckSettings e c w =
     (case getUserID c of None \<Rightarrow> unauthorized w
      | Some u \<Rightarrow>
          (case GetAllAppConfig (cfg_env e) w of
             (Inl err, w) \<Rightarrow> no_config err w
           | (Inr m, w) \<Rightarrow>
               reply 200 [(''smtp'', JBool (cfg m ''smtp.mail'' \<noteq> [])),
                 (''google_oauth'', JBool (cfg m ''google_oauth.client_id'' \<noteq> [])),
                 (''carpintero'', JBool (cfg m ''tg.token'' \<noteq> []))] w))"

definition GetServiceKey :: "('e) web_env_scheme \<Rightarrow> gin \<Rightarrow> 'a web2_st_scheme \<Rightarrow> 'a web2_st_scheme handled" where
  "GetServiceKey e c w =
     (case getUserID c of None \<Rightarrow> unauthorized w
      | Some u \<Rightarrow>
          (case GetConfigs (cfg_env e) [''svc.service_key''] w of
             (Inl err, w) \<Rightarrow> no_config err w
           | (Inr m, w) \<Rightarrow>
               if cfg m ''svc.service_key'' = [] then reply_error 404 ''service key not configured'' w
               else reply 200 [(''service_key'', JStr (cfg m ''svc.service_key''))] w))"

definition GenerateServiceKey :: "('e) web_env_scheme \<Rightarrow> gin \<Rightarrow> 'a web2_st_scheme \<Rightarrow> 'a web2_st_scheme handled" where
  "GenerateServiceKey e c w =
     (case getUserID c of None \<Rightarrow> unauthorized w
      | Some u \<Rightarrow>
          (case random_bytes (se_crypto e) 32 w of
             (b, w) \<Rightarrow>
               (case SetConfigs e [(''svc.service_key'', hex_of b)] w of
                  (Inl err, w) \<Rightarrow> no_config err w
                | (Inr _, w) \<Rightarrow>
                    reply 200 [(''service_key'', JStr (hex_of b)), (''note'', JStr ''keep the key'')]
                      (spawn (RestartAt (now w + 3 * second)) w))))"

definition GenerateWidgetKey :: "('e) web_env_scheme \<Rightarrow> gin \<Rightarrow> 'a web2_st_scheme \<Rightarrow> 'a web2_st_scheme handled" where
  "GenerateWidgetKey e c w =
     (case getUserID c of None \<Rightarrow> unauthorized w
      | Some u \<Rightarrow>
          (case random_bytes (se_crypto e) 32 w of
             (b, w) \<Rightarrow>
               (case xw_widget_keys e b of
                  Inl err \<Rightarrow> reply_error 500 ''key generation failed'' w
                | Inr ks \<Rightarrow>
                    (case SetConfigs e [(''widg.ed25519_keys'', ks)] w of
                       (Inl err, w) \<Rightarrow> no_config err w
                     | (Inr _, w) \<Rightarrow> reply_status 200 w))))"

text \<open>\<open>dev.Use(w.authAllowMiddleware(), w.devOnlyMiddleware())\<close>.\<close>

definition dev_route :: "('e) web_env_scheme \<Rightarrow> (uid \<Rightarrow> string) \<Rightarrow> http_req
    \<Rightarrow> (gin \<Rightarrow> 'a web2_st_scheme \<Rightarrow> 'a web2_st_scheme handled) \<Rightarrow> 'a web2_st_scheme \<Rightarrow> 'a web2_st_scheme handled" where
  "dev_route e query rq h w =
     (case authAllowMiddleware e rq w of
        (Inl a, w) \<Rightarrow> (a, w)
      | (Inr c, w) \<Rightarrow>
          (case devOnlyMiddleware query c w of
             (Inl a, w) \<Rightarrow> (a, w)
           | (Inr c, w) \<Rightarrow> h c w))"

end
