(* ===== verification/Widget.thy ===== *)
theory Widget
  imports DevWeb
begin

text \<open>
  The widget's tokens and codes, \<open>infrastructure/security/widget.go\<close>. Tokens are signed with the session key, as
  the access tokens are; codes with the Ed25519 pair of the settings. The PEM and X.509 readers, the Ed25519
  signature and the JWT library are parameters; the library's check of a token's times is part of \<open>xe_parse\<close>
  and \<open>xg_ed_parse\<close> and left out of \<open>xg_unchecked\<close>. A short read of random bytes is not modelled.
\<close>

datatype any_key = Ed25519 string | OtherKey

record widget_env = web_env +
  xg_unchecked :: "string \<Rightarrow> string \<Rightarrow> claims option"       \<comment> \<open>session key, HS256 token; times not validated\<close>
  xg_pem :: "string \<Rightarrow> string option"
  xg_pkcs8 :: "string \<Rightarrow> go_err + any_key"
  xg_pkix :: "string \<Rightarrow> go_err + any_key"
  xg_public :: "string \<Rightarrow> string"                         \<comment> \<open>the public half of a private key\<close>
  xg_ed_sign :: "string \<Rightarrow> string \<Rightarrow> claims \<Rightarrow> string"      \<comment> \<open>private key, key identifier\<close>
  xg_read_keys :: "string \<Rightarrow> (string \<times> string) option"   \<comment> \<open>\<open>json.Unmarshal\<close> into \<open>widgetKeys\<close>\<close>
  xg_ed_parse :: "string \<Rightarrow> int \<Rightarrow> string \<Rightarrow> claims option"  \<comment> \<open>public key, time, EdDSA token\<close>

section \<open>Status errors\<close>

datatype rpc_code = InvalidArgument | NotFound | PermissionDenied | FailedPrecondition | Unavailable
  | Unauthenticated | Internal | Unknown

datatype rpc_err = Status rpc_code string

section \<open>Claims read into a struct\<close>

text \<open>An absent member or \<open>null\<close> leaves the zero value; a value of another type is an error.\<close>

definition struct_string :: "claims \<Rightarrow> string \<Rightarrow> string option" where
  "struct_string c name =
     (case map_of c name of None \<Rightarrow> Some [] | Some JNull \<Rightarrow> Some [] | Some (JStr s) \<Rightarrow> Some s | _ \<Rightarrow> None)"

definition struct_bool :: "claims \<Rightarrow> string \<Rightarrow> bool option" where
  "struct_bool c name =
     (case map_of c name of None \<Rightarrow> Some False | Some JNull \<Rightarrow> Some False | Some (JBool b) \<Rightarrow> Some b | _ \<Rightarrow> None)"

text \<open>\<open>*jwt.NumericDate\<close>, in seconds: read through a double.\<close>

definition float64_int :: "int \<Rightarrow> int" where
  "float64_int n = (if 0 \<le> n then int (float64_of (nat n)) else - int (float64_of (nat (- n))))"

definition struct_date :: "claims \<Rightarrow> string \<Rightarrow> int option option" where
  "struct_date c name =
     (case map_of c name of None \<Rightarrow> Some None | Some JNull \<Rightarrow> Some None | Some (JInt n) \<Rightarrow> Some (Some (float64_int n)) | _ \<Rightarrow> None)"

fun strings_of :: "json list \<Rightarrow> string list option" where
  "strings_of [] = Some []"
| "strings_of (JStr s # js) = map_option ((#) s) (strings_of js)"
| "strings_of (JNull # js) = map_option ((#) []) (strings_of js)"
| "strings_of (j # js) = None"

definition struct_strings :: "claims \<Rightarrow> string \<Rightarrow> string list option" where
  "struct_strings c name =
     (case map_of c name of None \<Rightarrow> Some [] | Some JNull \<Rightarrow> Some [] | Some (JList js) \<Rightarrow> strings_of js | _ \<Rightarrow> None)"

text \<open>\<open>jwt.ClaimStrings\<close>: one string or a list of strings, \<open>null\<close> not among them.\<close>

definition claim_strings :: "claims \<Rightarrow> string \<Rightarrow> string list option" where
  "claim_strings c name =
     (case map_of c name of
        None \<Rightarrow> Some []
      | Some JNull \<Rightarrow> Some []
      | Some (JStr s) \<Rightarrow> Some [s]
      | Some (JList js) \<Rightarrow> if JNull \<in> set js then None else strings_of js
      | _ \<Rightarrow> None)"

section \<open>Tokens\<close>

record token_data =
  td_UserId :: uid
  td_RespId :: u64
  td_ExpiredSeconds :: int
  td_Origin :: string
  td_Jti :: string

record widget_claims =
  wc_UserId :: uid
  wc_ReapId :: u64
  wc_Origin :: string
  wc_JTI :: string
  wc_ExpiresAt :: "int option"

text \<open>\<open>(expired) * time.Second\<close> in the 64 bits of a \<open>time.Duration\<close>.\<close>

definition times_second :: "int \<Rightarrow> int" where
  "times_second n = sint (word_of_int (n * second) :: 64 word)"

definition token_claims :: "uid \<Rightarrow> u64 \<Rightarrow> string \<Rightarrow> string \<Rightarrow> int \<Rightarrow> int \<Rightarrow> claims" where
  "token_claims u r origin jti expired t =
     [(''userId'', JInt (int (unat u))), (''respId'', JInt (int (unat r))), (''origin'', JStr origin),
      (''jti'', JStr jti), (''exp'', JInt ((t + times_second expired) div second)), (''iat'', JInt (t div second))]"

definition WidgetNewToken :: "('e) widget_env_scheme \<Rightarrow> uid \<Rightarrow> u64 \<Rightarrow> string \<Rightarrow> int \<Rightarrow> 'a exam_st_scheme
    \<Rightarrow> string \<times> 'a exam_st_scheme" where
  "WidgetNewToken e u r origin expired w =
     (case random_bytes (se_crypto e) 16 w of
        (jti, w) \<Rightarrow> (xe_sign e (ex_session w) (token_claims u r origin (hex_of jti) expired (now w)), w))"

definition decode_widget_claims :: "claims \<Rightarrow> widget_claims option" where
  "decode_widget_claims c =
     (case (struct_number c ''userId'' (2 ^ 32), struct_number c ''respId'' (2 ^ 64), struct_string c ''origin'',
            struct_string c ''jti'', struct_date c ''exp'') of
        (Some u, Some r, Some o', Some j, Some x) \<Rightarrow>
          Some \<lparr>wc_UserId = word_of_nat u, wc_ReapId = word_of_nat r, wc_Origin = o', wc_JTI = j, wc_ExpiresAt = x\<rparr>
      | _ \<Rightarrow> None)"

text \<open>\<open>claims.ExpiresAt.Unix()\<close> on a token without an expiry is a panic, \<open>None\<close>.\<close>

definition WidgetParseToken :: "('e) widget_env_scheme \<Rightarrow> string \<Rightarrow> 'a exam_st_scheme \<Rightarrow> (go_err + token_data) option" where
  "WidgetParseToken e tok w =
     (case Option.bind (xe_parse e (ex_session w) (now w) tok) decode_widget_claims of
        None \<Rightarrow> Some (Inl (Msg ''token parse error''))
      | Some c \<Rightarrow>
          (case wc_ExpiresAt c of
             None \<Rightarrow> None
           | Some x \<Rightarrow> Some (Inr \<lparr>td_UserId = wc_UserId c, td_RespId = wc_ReapId c, td_ExpiredSeconds = x,
               td_Origin = wc_Origin c, td_Jti = wc_JTI c\<rparr>)))"

definition WidgetParseExpiredToken :: "('e) widget_env_scheme \<Rightarrow> string \<Rightarrow> 'a exam_st_scheme \<Rightarrow> rpc_err + token_data" where
  "WidgetParseExpiredToken e tok w =
     (if TrimSpace tok = [] then Inl (Status InvalidArgument ''empty widget token'')
      else (case Option.bind (xg_unchecked e (ex_session w) tok) decode_widget_claims of
              None \<Rightarrow> Inl (Status Unauthenticated ''invalid expired widget token'')
            | Some c \<Rightarrow>
                if wc_UserId c = 0 then Inl (Status Unauthenticated ''widget token has empty user id'')
                else if wc_JTI c = [] then Inl (Status Unauthenticated ''widget token has empty jti'')
                else if wc_Origin c = [] then Inl (Status Unauthenticated ''widget token has empty origin'')
                else Inr \<lparr>td_UserId = wc_UserId c, td_RespId = wc_ReapId c,
                  td_ExpiredSeconds = (case wc_ExpiresAt c of None \<Rightarrow> 0 | Some x \<Rightarrow> x),
                  td_Origin = wc_Origin c, td_Jti = wc_JTI c\<rparr>))"

section \<open>Codes\<close>

record code_data =
  cd_UserId :: uid
  cd_ExamKey :: string
  cd_Jti :: string
  cd_ExpiresAt :: int
  cd_NeverExpires :: bool
  cd_AllowedUrls :: "string list"

definition parse_ed_key :: "string \<Rightarrow> string \<Rightarrow> ('e) widget_env_scheme \<Rightarrow> (string \<Rightarrow> go_err + any_key) \<Rightarrow> string
    \<Rightarrow> go_err + string" where
  "parse_ed_key not_pem not_ed e read v =
     (case xg_pem e v of
        None \<Rightarrow> Inl (Msg not_pem)
      | Some der \<Rightarrow>
          (case read der of
             Inl err \<Rightarrow> Inl err
           | Inr (Ed25519 k) \<Rightarrow> Inr k
           | Inr OtherKey \<Rightarrow> Inl (Msg not_ed)))"

definition parseEd25519PrivateKey :: "('e) widget_env_scheme \<Rightarrow> string \<Rightarrow> go_err + string" where
  "parseEd25519PrivateKey e v =
     parse_ed_key ''private key is not PEM'' ''key is not Ed25519 private key'' e (xg_pkcs8 e) v"

definition parseEd25519PublicKey :: "('e) widget_env_scheme \<Rightarrow> string \<Rightarrow> go_err + string" where
  "parseEd25519PublicKey e v =
     parse_ed_key ''public key is not PEM'' ''key is not Ed25519 public key'' e (xg_pkix e) v"

definition code_claims :: "code_data \<Rightarrow> int \<Rightarrow> claims" where
  "code_claims d t =
     [(''uid'', JInt (int (unat (cd_UserId d)))), (''examKey'', JStr (cd_ExamKey d)),
      (''allowedUrls'', JList (map JStr (cd_AllowedUrls d))), (''neverExpires'', JBool (cd_NeverExpires d)),
      (''jti'', JStr (cd_Jti d)), (''iss'', JStr ''air-orc''), (''aud'', JList [JStr ''marusya-widget'']),
      (''iat'', JInt (t div second)), (''nbf'', JInt (t div second))]
     @ (if cd_NeverExpires d then [] else [(''exp'', JInt (cd_ExpiresAt d))])"

definition bad_code_data :: "code_data option \<Rightarrow> int \<Rightarrow> string option" where
  "bad_code_data data t =
     (case data of
        None \<Rightarrow> Some ''widget code data is required''
      | Some d \<Rightarrow>
          if cd_UserId d = 0 then Some ''userId is required''
          else if TrimSpace (cd_ExamKey d) = [] then Some ''examKey is required''
          else if cd_AllowedUrls d = [] then Some ''allowedUrls is required''
          else if cd_NeverExpires d \<and> cd_ExpiresAt d \<noteq> 0 then Some ''expiresAt and neverExpires are mutually exclusive''
          else if \<not> cd_NeverExpires d \<and> cd_ExpiresAt d \<le> t div second then Some ''expiresAt must be in the future''
          else None)"

definition with_jti :: "('e) widget_env_scheme \<Rightarrow> code_data \<Rightarrow> 'a rand_st_scheme \<Rightarrow> code_data \<times> 'a rand_st_scheme" where
  "with_jti e d w =
     (if cd_Jti d = [] then (case random_bytes (se_crypto e) 16 w of (b, w) \<Rightarrow> (d\<lparr>cd_Jti := hex_of b\<rparr>, w))
      else (d, w))"

definition WidgetNewCode :: "('e) widget_env_scheme \<Rightarrow> code_data option \<Rightarrow> string \<Rightarrow> string \<Rightarrow> 'a rand_st_scheme
    \<Rightarrow> (go_err + string) \<times> 'a rand_st_scheme" where
  "WidgetNewCode e data publicKey privateKey w =
     (case bad_code_data data (now w) of
        Some msg \<Rightarrow> (Inl (Msg msg), w)
      | None \<Rightarrow>
          (case parseEd25519PublicKey e publicKey of
             Inl err \<Rightarrow> (Inl (Wrap ''parse public key'' err), w)
           | Inr pub \<Rightarrow>
               (case parseEd25519PrivateKey e privateKey of
                  Inl err \<Rightarrow> (Inl (Wrap ''parse private key'' err), w)
                | Inr priv \<Rightarrow>
                    if pub \<noteq> xg_public e priv then (Inl (Msg ''public and private keys do not match''), w)
                    else (case with_jti e (the data) w of
                            (d, w) \<Rightarrow> (Inr (xg_ed_sign e priv ''widget-code-v1'' (code_claims d (now w))), w)))))"

record code_claims_rec =
  cc_UserID :: uid
  cc_ExamKey :: string
  cc_AllowedUrls :: "string list"
  cc_NeverExpires :: bool
  cc_JTI :: string
  cc_Audience :: "string list"
  cc_ExpiresAt :: "int option"

definition decode_code_claims :: "claims \<Rightarrow> code_claims_rec option" where
  "decode_code_claims c =
     (case (struct_number c ''uid'' (2 ^ 32), struct_string c ''examKey'', struct_strings c ''allowedUrls'',
            struct_bool c ''neverExpires'', struct_string c ''jti'', claim_strings c ''aud'', struct_date c ''exp'') of
        (Some u, Some k, Some us, Some n, Some j, Some a, Some x) \<Rightarrow>
          Some \<lparr>cc_UserID = word_of_nat u, cc_ExamKey = k, cc_AllowedUrls = us, cc_NeverExpires = n, cc_JTI = j,
            cc_Audience = a, cc_ExpiresAt = x\<rparr>
      | _ \<Rightarrow> None)"

definition code_problem :: "code_claims_rec \<Rightarrow> int \<Rightarrow> string option" where
  "code_problem c t =
     (if cc_UserID c = 0 then Some ''widget code has empty user id''
      else if cc_ExamKey c = [] then Some ''widget code has empty exam key''
      else if cc_JTI c = [] then Some ''widget code has empty jti''
      else if ''marusya-widget'' \<notin> set (cc_Audience c) then Some ''invalid widget code audience''
      else if (case cc_ExpiresAt c of None \<Rightarrow> False | Some x \<Rightarrow> \<not> t < x * second) then Some ''widget code expired''
      else None)"

definition WidgetParseCode :: "('e) widget_env_scheme \<Rightarrow> string \<Rightarrow> string \<Rightarrow> 'a env_scheme \<Rightarrow> rpc_err + code_data" where
  "WidgetParseCode e tok publicKey w =
     (case parseEd25519PublicKey e publicKey of
        Inl err \<Rightarrow> Inl (Status Unauthenticated ''invalid widget code: invalid widget public key'')
      | Inr pub \<Rightarrow>
          (case Option.bind (xg_ed_parse e pub (now w) tok) decode_code_claims of
             None \<Rightarrow> Inl (Status Unauthenticated ''invalid widget code'')
           | Some c \<Rightarrow>
               (case code_problem c (now w) of
                  Some msg \<Rightarrow> Inl (Status Unauthenticated msg)
                | None \<Rightarrow> Inr \<lparr>cd_UserId = cc_UserID c, cd_ExamKey = cc_ExamKey c, cd_Jti = cc_JTI c,
                    cd_ExpiresAt = (case cc_ExpiresAt c of None \<Rightarrow> 0 | Some x \<Rightarrow> x),
                    cd_NeverExpires = cc_NeverExpires c, cd_AllowedUrls = cc_AllowedUrls c\<rparr>)))"

end
