(* ===== verification/Grpc.thy ===== *)
theory Grpc
  imports Widget
begin

text \<open>
  The gRPC server \<open>delivery/grpc/server.go\<close> with \<open>calls_context.go\<close> and the proxy of the calls API
  \<open>calls_proxy.go\<close>. A handler is a function of the identity in the context and the state. The transport, the
  generated stubs and the two backends of the proxy are outside: a backend is a record of functions of the
  request and the time.
\<close>

type_synonym ('r, 'w) rpc = "(rpc_err + 'r) \<times> 'w"

definition fail :: "rpc_code \<Rightarrow> string \<Rightarrow> 'w \<Rightarrow> ('r, 'w) rpc" where
  "fail c msg w = (Inl (Status c msg), w)"

fun code_name :: "rpc_code \<Rightarrow> string" where
  "code_name InvalidArgument = ''InvalidArgument''"
| "code_name NotFound = ''NotFound''"
| "code_name PermissionDenied = ''PermissionDenied''"
| "code_name FailedPrecondition = ''FailedPrecondition''"
| "code_name Unavailable = ''Unavailable''"
| "code_name Unauthenticated = ''Unauthenticated''"
| "code_name Internal = ''Internal''"
| "code_name Unknown = ''Unknown''"

fun rpc_text :: "rpc_err \<Rightarrow> string" where
  "rpc_text (Status c msg) = ''rpc error: code = '' @ code_name c @ '' desc = '' @ msg"

section \<open>Who may call\<close>

type_synonym metadata = "(string \<times> string list) list"

definition md_Get :: "metadata \<Rightarrow> string \<Rightarrow> string list" where
  "md_Get md k = (case map_of md k of None \<Rightarrow> [] | Some vs \<Rightarrow> vs)"

text \<open>\<open>strings.Fields\<close>; the fuel is the number of bytes left.\<close>

definition end_field :: "string \<Rightarrow> string list" where
  "end_field cur = (if cur = [] then [] else [cur])"

fun fields_fuel :: "nat \<Rightarrow> string \<Rightarrow> string \<Rightarrow> string list" where
  "fields_fuel n cur [] = end_field cur"
| "fields_fuel 0 cur s = end_field cur"
| "fields_fuel (Suc n) cur (c # s) =
     (case drop_space space_encodings (c # s) of
        Some t \<Rightarrow> end_field cur @ fields_fuel n [] t
      | None \<Rightarrow> fields_fuel n (cur @ [c]) s)"

definition Fields :: "string \<Rightarrow> string list" where
  "Fields s = fields_fuel (length s) [] s"

text \<open>The identity the request gets. No non-ASCII letter folds to one of \<open>bearer\<close>.\<close>

definition authenticateBearer :: "('e) exam_env_scheme \<Rightarrow> metadata option \<Rightarrow> 'a exam_st_scheme \<Rightarrow> rpc_err + uid" where
  "authenticateBearer e md w =
     (case md of
        None \<Rightarrow> Inl (Status Unauthenticated ''missing authorization metadata'')
      | Some md \<Rightarrow>
          (case md_Get md ''authorization'' of
             [] \<Rightarrow> Inl (Status Unauthenticated ''missing bearer token'')
           | v # _ \<Rightarrow>
               (case Fields v of
                  [scheme, tok] \<Rightarrow>
                    if ascii_lower scheme \<noteq> ''bearer'' then Inl (Status Unauthenticated ''invalid bearer token'')
                    else (case VerifyAccessToken e tok w of
                            Inl err \<Rightarrow> Inl (Status Unauthenticated ''invalid bearer token'')
                          | Inr (u, r) \<Rightarrow>
                              if u = 0 then Inl (Status Unauthenticated ''invalid bearer token'') else Inr u)
                | _ \<Rightarrow> Inl (Status Unauthenticated ''invalid bearer token''))))"

definition calls_method :: "string \<Rightarrow> bool" where
  "calls_method m = HasPrefix m ''/calls.v1.Calls/''"

definition serviceKeyInterceptor :: "('e) exam_env_scheme \<Rightarrow> string \<Rightarrow> string \<Rightarrow> metadata option
    \<Rightarrow> (uid option \<Rightarrow> 'a exam_st_scheme \<Rightarrow> ('r, 'a exam_st_scheme) rpc)
    \<Rightarrow> 'a exam_st_scheme \<Rightarrow> ('r, 'a exam_st_scheme) rpc" where
  "serviceKeyInterceptor e key m md h w =
     (if calls_method m then
        (case authenticateBearer e md w of Inl err \<Rightarrow> (Inl err, w) | Inr u \<Rightarrow> h (Some u) w)
      else if key = [] then fail Unavailable ''service key not configured'' w
      else (case md of
              None \<Rightarrow> fail Unauthenticated ''missing metadata'' w
            | Some md \<Rightarrow>
                (case md_Get md ''x-service-key'' of
                   [] \<Rightarrow> fail Unauthenticated ''missing service key'' w
                 | v # _ \<Rightarrow> if v \<noteq> key then fail PermissionDenied ''invalid service key'' w else h None w)))"

definition streamAuthInterceptor :: "('e) exam_env_scheme \<Rightarrow> string \<Rightarrow> metadata option
    \<Rightarrow> (uid option \<Rightarrow> 'a exam_st_scheme \<Rightarrow> ('r, 'a exam_st_scheme) rpc)
    \<Rightarrow> 'a exam_st_scheme \<Rightarrow> ('r, 'a exam_st_scheme) rpc" where
  "streamAuthInterceptor e m md h w =
     (if calls_method m then
        (case authenticateBearer e md w of Inl err \<Rightarrow> (Inl err, w) | Inr u \<Rightarrow> h (Some u) w)
      else fail Unauthenticated ''stream authentication is not configured'' w)"

section \<open>The configuration service\<close>

record grpc_st = web2_st +
  gs_keys :: "string \<times> string"                         \<comment> \<open>the widget's keys, public and private, once read\<close>
  gs_calls :: "(string \<times> nat) list"                    \<comment> \<open>a call's platform\<close>

definition bot_config :: "('e) web_env_scheme \<Rightarrow> string \<Rightarrow> string \<Rightarrow> 'a app_st_scheme
    \<Rightarrow> (string \<times> string, 'a app_st_scheme) rpc" where
  "bot_config e token name w =
     (case GetAppConfig (cfg_env e) token w of
        (Inl err, w) \<Rightarrow> fail Internal ''config error'' w
      | (Inr t, w) \<Rightarrow>
          (case GetAppConfig (cfg_env e) name w of
             (Inl err, w) \<Rightarrow> fail Internal ''config error'' w
           | (Inr n, w) \<Rightarrow> (Inr (t, n), w)))"

definition GetBotConfig :: "('e) web_env_scheme \<Rightarrow> 'a app_st_scheme \<Rightarrow> (string \<times> string, 'a app_st_scheme) rpc" where
  "GetBotConfig e w = bot_config e ''tg.token'' ''tg.bot'' w"

definition GetOperBotConfig :: "('e) web_env_scheme \<Rightarrow> 'a app_st_scheme \<Rightarrow> (string \<times> string, 'a app_st_scheme) rpc" where
  "GetOperBotConfig e w = bot_config e ''oper.tg.token'' ''oper.tg.bot'' w"

definition GetUserMasterKey :: "uid \<Rightarrow> 'a exam_st_scheme \<Rightarrow> (string, 'a exam_st_scheme) rpc" where
  "GetUserMasterKey u w =
     (case GetMasterKey u w of
        None \<Rightarrow> fail NotFound ''master key not found'' w
      | Some k \<Rightarrow> (Inr k, w))"

definition rpc_WidgetNewToken :: "('e) widget_env_scheme \<Rightarrow> token_data \<Rightarrow> 'a exam_st_scheme
    \<Rightarrow> (string, 'a exam_st_scheme) rpc" where
  "rpc_WidgetNewToken e d w =
     (case WidgetNewToken e (td_UserId d) (td_RespId d) (td_Origin d) (td_ExpiredSeconds d) w of (t, w) \<Rightarrow> (Inr t, w))"

text \<open>\<open>None\<close>: the panic of \<open>WidgetParseToken\<close>, which no interceptor recovers.\<close>

definition rpc_WidgetParseToken :: "('e) widget_env_scheme \<Rightarrow> string \<Rightarrow> 'a exam_st_scheme
    \<Rightarrow> (token_data, 'a exam_st_scheme) rpc option" where
  "rpc_WidgetParseToken e tok w =
     (case WidgetParseToken e tok w of
        None \<Rightarrow> None
      | Some (Inl err) \<Rightarrow> Some (fail Unauthenticated (''invalid or expired token: '' @ err_text err) w)
      | Some (Inr d) \<Rightarrow> Some (Inr d, w))"

definition helperWidgetKeys :: "('e) widget_env_scheme \<Rightarrow> 'a grpc_st_scheme \<Rightarrow> (string \<times> string, 'a grpc_st_scheme) rpc" where
  "helperWidgetKeys e w =
     (if snd (gs_keys w) \<noteq> [] \<and> fst (gs_keys w) \<noteq> [] then (Inr (gs_keys w), w)
      else (case GetAppConfig (cfg_env e) ''widg.ed25519_keys'' w of
              (Inl err, w) \<Rightarrow> fail Internal (''failed to get widget keys: '' @ err_text err) w
            | (Inr s, w) \<Rightarrow>
                (case xg_read_keys e s of
                   None \<Rightarrow> fail Internal ''failed to unmarshal widget keys'' w
                 | Some ks \<Rightarrow> (Inr ks, w\<lparr>gs_keys := ks\<rparr>))))"

definition rpc_WidgetNewCode :: "('e) widget_env_scheme \<Rightarrow> code_data \<Rightarrow> 'a grpc_st_scheme
    \<Rightarrow> (string, 'a grpc_st_scheme) rpc" where
  "rpc_WidgetNewCode e d w =
     (case helperWidgetKeys e w of
        (Inl err, w) \<Rightarrow> fail Internal (''failed to get widget keys: '' @ rpc_text err) w
      | (Inr (pub, priv), w) \<Rightarrow>
          (case WidgetNewCode e (Some d) pub priv w of
             (Inl err, w) \<Rightarrow> fail Internal (''failed to generate widget code: '' @ err_text err) w
           | (Inr t, w) \<Rightarrow> (Inr t, w)))"

definition rpc_WidgetParseCode :: "('e) widget_env_scheme \<Rightarrow> string \<Rightarrow> 'a grpc_st_scheme
    \<Rightarrow> (code_data, 'a grpc_st_scheme) rpc" where
  "rpc_WidgetParseCode e tok w =
     (case helperWidgetKeys e w of
        (Inl err, w) \<Rightarrow> fail Internal (''failed to get widget keys: '' @ rpc_text err) w
      | (Inr (pub, priv), w) \<Rightarrow>
          (case WidgetParseCode e tok pub w of
             Inl err \<Rightarrow> fail Internal (''failed to parse widget code: '' @ rpc_text err) w
           | Inr d \<Rightarrow> (Inr d, w)))"

definition rpc_WidgetParseExpiredToken :: "('e) widget_env_scheme \<Rightarrow> string \<Rightarrow> 'a exam_st_scheme
    \<Rightarrow> (token_data, 'a exam_st_scheme) rpc" where
  "rpc_WidgetParseExpiredToken e tok w =
     (case WidgetParseExpiredToken e tok w of
        Inl err \<Rightarrow> fail Unauthenticated (''invalid or expired token: '' @ rpc_text err) w
      | Inr d \<Rightarrow> (Inr d, w))"

section \<open>Calls\<close>

record greeting =
  gr_InitialGreeting :: "bool option"
  gr_Greeting :: "string option"

record call_model =
  cm_Realtime :: bool
  cm_ElevenLabs :: bool                                   \<comment> \<open>\<open>Voice.UsesElevenLabsRealtime()\<close>\<close>
  cm_RealtimeVAD :: "greeting option"

record out_call =
  oc_UserId :: uid
  oc_Provider :: nat
  oc_Target :: string

datatype call_event = CallEvent string string string      \<comment> \<open>type, phase, payload\<close>

record calls_backend =
  cb_Start :: "int \<Rightarrow> out_call \<Rightarrow> rpc_err + string"
  cb_Hangup :: "int \<Rightarrow> uid \<Rightarrow> string \<Rightarrow> string \<Rightarrow> rpc_err + unit"
  cb_Subscribe :: "int \<Rightarrow> uid \<Rightarrow> string \<Rightarrow> nat \<Rightarrow> rpc_err + (call_event list \<times> rpc_err)"
    \<comment> \<open>the events of a stream, and the error that ends it\<close>

record calls_env =
  ce_whatsapp :: "calls_backend option"
  ce_telegram :: "calls_backend option"
  ce_model :: "(uid \<Rightarrow> go_err + call_model option) option"
  ce_demo :: "(uid \<Rightarrow> go_err + bool) option"

definition userIDFromContext :: "uid option \<Rightarrow> rpc_err + uid" where
  "userIDFromContext u =
     (case u of
        Some u \<Rightarrow> if u = 0 then Inl (Status Unauthenticated ''user identity is missing'') else Inr u
      | None \<Rightarrow> Inl (Status Unauthenticated ''user identity is missing''))"

definition or_unavailable :: "string \<Rightarrow> 'b option \<Rightarrow> rpc_err + 'b" where
  "or_unavailable msg b = (case b of None \<Rightarrow> Inl (Status Unavailable msg) | Some b \<Rightarrow> Inr b)"

definition backend :: "calls_env \<Rightarrow> nat \<Rightarrow> rpc_err + calls_backend" where
  "backend x p =
     (if p = 1 then or_unavailable ''WhatsApp calls backend is unavailable'' (ce_whatsapp x)
      else if p = 2 then or_unavailable ''Telegram calls backend is unavailable'' (ce_telegram x)
      else Inl (Status InvalidArgument ''unsupported call provider''))"

definition validateDemoUser :: "calls_env \<Rightarrow> uid \<Rightarrow> rpc_err option" where
  "validateDemoUser x u =
     (case ce_demo x of
        None \<Rightarrow> Some (Status Unavailable ''demo user checker is not configured'')
      | Some f \<Rightarrow>
          (case f u of
             Inl err \<Rightarrow> Some (Status FailedPrecondition (''failed to check demo user: '' @ err_text err))
           | Inr True \<Rightarrow> Some (Status FailedPrecondition ''voice calls are unavailable for demo users'')
           | Inr False \<Rightarrow> None))"

definition greeting_problem :: "call_model \<Rightarrow> rpc_err option" where
  "greeting_problem m =
     (case cm_RealtimeVAD m of
        Some g \<Rightarrow>
          if gr_InitialGreeting g \<noteq> Some True then Some (Status FailedPrecondition ''initial greeting mode is required'')
          else (case gr_Greeting g of
                  Some t \<Rightarrow> if TrimSpace t = [] then Some (Status FailedPrecondition ''greeting phrase is required'') else None
                | None \<Rightarrow> Some (Status FailedPrecondition ''greeting phrase is required''))
      | None \<Rightarrow> Some (Status FailedPrecondition ''initial greeting mode is required''))"

definition validateActiveCallModel :: "calls_env \<Rightarrow> uid \<Rightarrow> rpc_err option" where
  "validateActiveCallModel x u =
     (case ce_model x of
        None \<Rightarrow> Some (Status Unavailable ''active model validator is not configured'')
      | Some f \<Rightarrow>
          (case f u of
             Inl err \<Rightarrow> Some (Status FailedPrecondition (''failed to get active model: '' @ err_text err))
           | Inr None \<Rightarrow> Some (Status FailedPrecondition ''active model is not configured'')
           | Inr (Some m) \<Rightarrow>
               if \<not> cm_Realtime m then Some (Status FailedPrecondition ''active model does not support realtime'')
               else if cm_ElevenLabs m then None
               else greeting_problem m))"

definition StartOutgoingCall :: "calls_env \<Rightarrow> uid option \<Rightarrow> nat \<Rightarrow> string \<Rightarrow> 'a grpc_st_scheme
    \<Rightarrow> (string, 'a grpc_st_scheme) rpc" where
  "StartOutgoingCall x ctx p target w =
     (case userIDFromContext ctx of
        Inl err \<Rightarrow> (Inl err, w)
      | Inr u \<Rightarrow>
          (case backend x p of
             Inl err \<Rightarrow> (Inl err, w)
           | Inr b \<Rightarrow>
               (case validateActiveCallModel x u of
                  Some err \<Rightarrow> (Inl err, w)
                | None \<Rightarrow>
                    (case validateDemoUser x u of
                       Some err \<Rightarrow> (Inl err, w)
                     | None \<Rightarrow>
                         (case cb_Start b (now w) \<lparr>oc_UserId = u, oc_Provider = p, oc_Target = target\<rparr> of
                            Inl err \<Rightarrow> (Inl err, w)
                          | Inr call \<Rightarrow> (Inr call, w\<lparr>gs_calls := AList.update call p (gs_calls w)\<rparr>))))))"

definition HangupCall :: "calls_env \<Rightarrow> uid option \<Rightarrow> string \<Rightarrow> string \<Rightarrow> 'a grpc_st_scheme
    \<Rightarrow> (unit, 'a grpc_st_scheme) rpc" where
  "HangupCall x ctx call reason w =
     (case userIDFromContext ctx of
        Inl err \<Rightarrow> (Inl err, w)
      | Inr u \<Rightarrow>
          (case map_of (gs_calls w) call of
             None \<Rightarrow> fail NotFound ''call not found'' w
           | Some p \<Rightarrow>
               (case backend x p of
                  Inl err \<Rightarrow> (Inl err, w)
                | Inr b \<Rightarrow> (cb_Hangup b (now w) u call reason, w))))"

text \<open>
  What is sent on: the events up to and with the end of the call; the second component is whether the end was
  among them. A failure to send to the client, which ends the handler as well, is not modelled.
\<close>

fun until_ended :: "call_event list \<Rightarrow> call_event list \<times> bool" where
  "until_ended [] = ([], False)"
| "until_ended (CallEvent ty ph d # es) =
     (if ty = ''call'' \<and> ph = ''ended'' then ([CallEvent ty ph d], True)
      else (case until_ended es of (sent, b) \<Rightarrow> (CallEvent ty ph d # sent, b)))"

definition forget_call :: "string \<Rightarrow> 'a grpc_st_scheme \<Rightarrow> 'a grpc_st_scheme" where
  "forget_call call w = w\<lparr>gs_calls := AList.delete call (gs_calls w)\<rparr>"

definition SubscribeCallEvents :: "calls_env \<Rightarrow> uid option \<Rightarrow> string \<Rightarrow> nat \<Rightarrow> 'a grpc_st_scheme
    \<Rightarrow> call_event list \<times> rpc_err option \<times> 'a grpc_st_scheme" where
  "SubscribeCallEvents x ctx call after w =
     (case userIDFromContext ctx of
        Inl err \<Rightarrow> ([], Some err, w)
      | Inr u \<Rightarrow>
          (case map_of (gs_calls w) call of
             None \<Rightarrow> ([], Some (Status NotFound ''call not found''), w)
           | Some p \<Rightarrow>
               (case backend x p of
                  Inl err \<Rightarrow> ([], Some err, w)
                | Inr b \<Rightarrow>
                    (case cb_Subscribe b (now w) u call after of
                       Inl (Status c msg) \<Rightarrow>
                         if c = NotFound \<or> Contains msg ''call not found'' then ([], None, forget_call call w)
                         else ([], Some (Status c msg), w)
                     | Inr (es, err) \<Rightarrow>
                         (case until_ended es of
                            (sent, True) \<Rightarrow> (sent, None, forget_call call w)
                          | (sent, False) \<Rightarrow> (sent, Some err, w))))))"

end
