(* ===== verification/LoginProps.thy ===== *)
theory LoginProps
  imports DevWeb
begin

text \<open>
  The second factor: a token that \<open>AuthTOTP\<close> gives out goes back to a login, at most five minutes earlier, that
  knew the password, and to a code for the stored secret.
\<close>

section \<open>What the steps of a login leave alone\<close>

text \<open>
  A bystander reads a part of the state that requests, failures, random numbers, the caches and background work do
  not touch. The clock, the session key, the account table and the pending sessions are such parts.
\<close>

lemma leaves: "look (snd x) = l \<Longrightarrow> x = (a, w') \<Longrightarrow> look w' = l"
  by simp

locale bystander =
  fixes look :: "'a web2_st_scheme \<Rightarrow> 'l"
  assumes blind: "look (w\<lparr>faults := f\<rparr>) = look w" "look (w\<lparr>limiters := l\<rparr>) = look w"
    "look (w\<lparr>ex_regs := x\<rparr>) = look w" "look (w\<lparr>rnd_pos := n\<rparr>) = look w" "look (w\<lparr>redis := r\<rparr>) = look w"
    "look (w\<lparr>ex_mks := m\<rparr>) = look w" "look (w\<lparr>jobs := j\<rparr>) = look w" "look (w\<lparr>cookies := c\<rparr>) = look w"
begin

lemma basics: "look (drawn w) = look w" "look (spawn j w) = look w" "look (SetCookie e v t w) = look w"
    "look (if b then w1 else w2) = (if b then look w1 else look w2)"
  by (simp_all add: drawn_def spawn_def SetCookie_def blind)

lemma limit: "look (snd (performRateLimit e r w)) = look w"
  by (simp add: performRateLimit_def Allow_def Let_def reply_error_def reply_def blind split: bool.split)

lemma decrypt: "look (snd (DecryptPassword e r enc w)) = look w"
  by (simp add: DecryptPassword_def blind)

lemma row: "look (snd (get_auth what u w)) = look w"
  by (simp add: get_auth_def basics)

lemmas row_out = leaves [of look, OF row]

lemma totp_data: "look (snd (GetTOTPData u w)) = look w"
  by (auto simp: GetTOTPData_def dest!: row_out split: prod.splits sum.splits option.splits)

lemma key_data: "look (snd (GetMasterKeyData u w)) = look w"
  by (auto simp: GetMasterKeyData_def dest!: row_out split: prod.splits sum.splits option.splits)

lemma auth_data: "look (snd (GetAuthData e m h w)) = look w"
  by (simp add: GetAuthData_def basics)

lemma store: "look (snd (saveMasterKeyToRedis e u mk w)) = look w"
  by (auto simp: saveMasterKeyToRedis_def encryptMasterKeyForRedis_def seal_text_def random_bytes_def Set_def rstore_def
      basics blind split: prod.splits sum.splits if_splits)

lemma load: "look (snd (LoadMasterKey e u p enc salt w)) = look w"
  by (simp add: LoadMasterKey_def cache_master_key_def blind store split: option.split sum.split)

lemmas data_outs = leaves [of look, OF totp_data] leaves [of look, OF key_data] leaves [of look, OF auth_data]
  leaves [of look, OF load]

lemma authenticate: "look (snd (Authenticate e m p w)) = look w"
  by (auto simp: Authenticate_def dest!: data_outs split: prod.splits sum.splits)

lemma load_if: "look (snd (LoadMasterKeyIfExists e u p w)) = look w"
  by (auto simp: LoadMasterKeyIfExists_def dest!: data_outs split: prod.splits sum.splits option.splits)

lemma load_after: "look (load_key_after_totp e s w) = look w"
  by (auto simp: load_key_after_totp_def load dest!: data_outs split: prod.splits sum.splits option.splits)

lemmas load_out = leaves [of look, OF load_if]

lemma finish: "look (snd (finish_login e q r w)) = look w"
  by (auto simp: finish_login_def Let_def basics dest!: load_out split: prod.splits)

end

interpretation clock: bystander now by unfold_locales simp_all
interpretation waiting: bystander totp_pending by unfold_locales simp_all
interpretation accounts: bystander auth_tbl by unfold_locales simp_all
interpretation signing: bystander ex_session by unfold_locales simp_all


section \<open>What a login must have known\<close>

definition password_ok :: "('e) web_env_scheme \<Rightarrow> 'a web2_st_scheme \<Rightarrow> login_req \<Rightarrow> uid \<Rightarrow> bool" where
  "password_ok e w q u = (\<exists>pass r. fst (DecryptPassword e (lq_RespId q) (lq_Pass q) w) = Some (Inr pass)
     \<and> find_user e (lq_Mail q) (EmailHMAC e w (lq_Mail q)) w = Some (u, r) \<and> VerifyPassword e (au_SHA r) pass)"

lemma Authenticate_ok:
  assumes "Authenticate e m p w = (Inr r, w')"
  shows "\<exists>row. find_user e m (EmailHMAC e w m) w = Some (lr_UserID r, row) \<and> VerifyPassword e (au_SHA row) p"
  using assms
  by (auto simp: Authenticate_def GetAuthData_def split: prod.splits sum.splits if_splits option.splits)

lemma limit_state: "performRateLimit e r w = (a, w') \<Longrightarrow> \<exists>l. w' = w\<lparr>limiters := l\<rparr>"
  by (auto simp: performRateLimit_def Allow_def Let_def split: prod.splits bool.splits)

lemma decrypt_state: "DecryptPassword e r enc w = (a, w') \<Longrightarrow> \<exists>x. w' = w\<lparr>ex_regs := x\<rparr>"
  by (auto simp: DecryptPassword_def)

lemma TOTP_state: "GetTOTPData u w = (Inr (Some enc), w') \<Longrightarrow>
    w' = drawn w \<and> (\<exists>row. map_of (auth_tbl w) u = Some row \<and> au_TOTP row = Some enc)"
  by (auto simp: GetTOTPData_def get_auth_def split: if_splits option.splits)

lemma update_member: "x \<in> set (AList.update k v t) \<Longrightarrow> x \<in> set t \<or> x = (k, v)"
  by (induction t) (auto split: if_splits)

lemma delete_member: "x \<in> set (AList.delete k t) \<Longrightarrow> x \<in> set t"
  by (auto simp: AList.delete_eq)

lemma await_pending:
  assumes "(t, s) \<in> set (totp_pending (snd (await_totp e q r w)))"
  shows "(t, s) \<in> set (totp_pending w)
    \<or> (tp_userId s = lr_UserID r \<and> tp_respId s = lq_RespId q \<and> tp_expiresAt s = now w + totpPendingTTL)"
  using assms
  by (auto simp: await_totp_def newTOTPToken_def random_bytes_def storeTOTPPending_def spawn_def dest!: update_member)

lemma no_token: "field ''token'' (reply_error c m w) = None"
  by (simp add: reply_error_def)

lemma decrypt_limited: "fst (DecryptPassword e r enc (w\<lparr>limiters := l\<rparr>)) = fst (DecryptPassword e r enc w)"
  by (simp add: DecryptPassword_def split: option.split prod.split)

lemma login_pending:
  assumes "(t, s) \<in> set (totp_pending (snd (Login e b w)))" and "(t, s) \<notin> set (totp_pending w)"
  shows "\<exists>q. b = Inr q \<and> password_ok e w q (tp_userId s) \<and> tp_respId s = lq_RespId q
    \<and> tp_expiresAt s = now w + totpPendingTTL"
proof (cases b)
  case (Inl err)
  then show ?thesis using assms by (simp add: Login_def bad_body_def)
next
  case (Inr q)
  obtain a w1 where l: "performRateLimit e (lq_RespId q) w = (a, w1)" by force
  obtain d w2 where p: "DecryptPassword e (lq_RespId q) (lq_Pass q) w1 = (d, w2)" by force
  obtain l' x where w2: "w2 = w\<lparr>limiters := l', ex_regs := x\<rparr>" and w1: "w1 = w\<lparr>limiters := l'\<rparr>"
    using limit_state [OF l] decrypt_state [OF p] by force
  have none: "a = None" using assms l w1 Inr by (cases a) (auto simp: Login_def limited_def)
  obtain pass where d: "d = Some (Inr pass)"
  proof (cases "d = None \<or> (\<exists>err. d = Some (Inl err))")
    case True
    then show ?thesis using assms l p none Inr w2
      by (auto simp: Login_def limited_def with_password_def panicked_def)
  next
    case False
    then show ?thesis using that by (metis old.sum.exhaust option.exhaust)
  qed
  obtain g w3 where g: "Authenticate e (lq_Mail q) pass w2 = (g, w3)" by force
  have same: "totp_pending w3 = totp_pending w" "now w3 = now w"
    using waiting.authenticate [of e "lq_Mail q" pass w2] clock.authenticate [of e "lq_Mail q" pass w2] g w2 by simp_all
  obtain r where r: "g = Inr r" using assms l p none d g same Inr
    by (cases g) (auto simp: Login_def limited_def with_password_def)
  have totp: "lr_TOTPEnabled r"
    using assms l p none d g same Inr r waiting.finish [of e q r w3]
    by (auto simp: Login_def limited_def with_password_def split: if_splits)
  have "(t, s) \<in> set (totp_pending (snd (await_totp e q r w3)))"
    using assms(1) l p none d g Inr r totp by (simp add: Login_def limited_def with_password_def)
  from await_pending [OF this] have s: "tp_userId s = lr_UserID r" "tp_respId s = lq_RespId q"
      "tp_expiresAt s = now w + totpPendingTTL"
    using assms(2) same by auto
  have "fst (DecryptPassword e (lq_RespId q) (lq_Pass q) w) = Some (Inr pass)"
    using p d w1 decrypt_limited [where e = e and r = "lq_RespId q" and enc = "lq_Pass q" and w = w and l = l'] by simp
  moreover have "\<exists>row. find_user e (lq_Mail q) (EmailHMAC e w (lq_Mail q)) w = Some (lr_UserID r, row)
      \<and> VerifyPassword e (au_SHA row) pass"
    using Authenticate_ok [of e "lq_Mail q" pass w2 r w3] g r w2 by (simp add: find_user_def EmailHMAC_def)
  ultimately show ?thesis using Inr s by (auto simp: password_ok_def)
qed

lemma totp_token:
  assumes "field ''token'' (AuthTOTP e b w) = Some t"
  shows "\<exists>tok code s row enc. b = Some (tok, code) \<and> map_of (totp_pending w) tok = Some s \<and> now w \<le> tp_expiresAt s
    \<and> map_of (auth_tbl w) (tp_userId s) = Some row \<and> au_TOTP row = Some enc \<and> ValidateTOTPCode e w enc code
    \<and> t = JStr (fst (GenerateAccessToken e (tp_userId s) (tp_respId s) w))"
proof -
  obtain tok code where b: "b = Some (tok, code)" and ne: "tok \<noteq> []" "code \<noteq> []"
    using assms by (auto simp: AuthTOTP_def no_token split: option.splits if_splits)
  obtain s where s: "map_of (totp_pending w) tok = Some s" "\<not> tp_expiresAt s < now w"
    using assms b ne by (auto simp: AuthTOTP_def loadAndDeleteTOTPPending_def no_token split: option.splits if_splits)
  define w1 where "w1 = w\<lparr>totp_pending := AList.delete tok (totp_pending w)\<rparr>"
  obtain g w2 where g: "GetTOTPData (tp_userId s) w1 = (g, w2)" by force
  have open_it: "loadAndDeleteTOTPPending tok w = (Some s, w1)" using s by (simp add: loadAndDeleteTOTPPending_def w1_def)
  obtain enc where enc: "g = Inr (Some enc)"
    using assms b ne g open_it by (cases g) (auto simp: AuthTOTP_def no_token split: option.splits)
  obtain row where row: "w2 = drawn w1" "map_of (auth_tbl w1) (tp_userId s) = Some row" "au_TOTP row = Some enc"
    using TOTP_state g enc by blast
  have v: "ValidateTOTPCode e w2 enc code"
    using assms b ne g open_it enc by (auto simp: AuthTOTP_def no_token split: if_splits)
  then have t: "t = JStr (fst (GenerateAccessToken e (tp_userId s) (tp_respId s) w2))"
    using assms b ne g open_it enc by (auto simp: AuthTOTP_def GenerateAccessToken_def)
  have same: "ex_totp_enc w2 = ex_totp_enc w" "ex_session w2 = ex_session w" "now w2 = now w" "auth_tbl w1 = auth_tbl w"
    by (simp_all add: row(1) w1_def drawn_def)
  have "ValidateTOTPCode e w enc code"
    using v by (simp add: ValidateTOTPCode_def decryptTOTPSecret_def same split: sum.split_asm)
  moreover have "t = JStr (fst (GenerateAccessToken e (tp_userId s) (tp_respId s) w))"
    using t by (simp add: GenerateAccessToken_def same)
  moreover have "now w \<le> tp_expiresAt s" using s by simp
  ultimately show ?thesis using b s(1) row(2,3) same(4) by auto
qed


section \<open>Runs of the service\<close>

text \<open>
  Only \<open>Login\<close> stores a pending session. Of everything else, in this program and around it, no more is taken than
  that it stores none and that time does not run backwards; \<open>AuthTOTP\<close> keeps to that.
\<close>

definition stores_none :: "'a web2_st_scheme \<Rightarrow> 'a web2_st_scheme \<Rightarrow> bool" where
  "stores_none w w' = (set (totp_pending w') \<subseteq> set (totp_pending w) \<and> now w \<le> now w')"

inductive web_step :: "('e) web_env_scheme \<Rightarrow> 'a web2_st_scheme \<Rightarrow> 'a web2_st_scheme \<Rightarrow> bool" for e where
  logging_in: "web_step e w (snd (Login e b w))"
| second_factor: "web_step e w (snd (AuthTOTP e b w))"
| elsewhere: "stores_none w w' \<Longrightarrow> web_step e w w'"

lemma totp_stores_none: "stores_none w (snd (AuthTOTP e b w))"
proof (cases "b = None \<or> (\<exists>tok code. b = Some (tok, code) \<and> (tok = [] \<or> code = []))")
  case True
  then show ?thesis by (auto simp: AuthTOTP_def stores_none_def)
next
  case False
  then obtain tok code where b: "b = Some (tok, code)" "tok \<noteq> []" "code \<noteq> []" by (cases b) auto
  obtain s w1 where o: "loadAndDeleteTOTPPending tok w = (s, w1)" by force
  then have w1: "set (totp_pending w1) \<subseteq> set (totp_pending w)" "now w1 = now w"
    by (auto simp: loadAndDeleteTOTPPending_def dest: delete_member)
  have "totp_pending (snd (AuthTOTP e b w)) = totp_pending w1 \<and> now (snd (AuthTOTP e b w)) = now w1"
  proof (cases s)
    case None
    then show ?thesis using o b by (simp add: AuthTOTP_def)
  next
    case (Some p)
    obtain g w2 where g: "GetTOTPData (tp_userId p) w1 = (g, w2)" by force
    then have "totp_pending w2 = totp_pending w1" "now w2 = now w1"
      using waiting.totp_data [of "tp_userId p" w1] clock.totp_data [of "tp_userId p" w1] by simp_all
    then show ?thesis using o b g Some
      by (auto simp: AuthTOTP_def GenerateAccessToken_def waiting.load_after clock.load_after waiting.basics clock.basics
          split: sum.split option.split)
  qed
  then show ?thesis using w1 by (simp add: stores_none_def)
qed

text \<open>Every pending session in a run goes back to a login of the run.\<close>

definition opened :: "('e) web_env_scheme \<Rightarrow> 'a web2_st_scheme \<Rightarrow> 'a web2_st_scheme \<Rightarrow> pending_session \<Rightarrow> bool" where
  "opened e w0 w s = (\<exists>v q. (web_step e)\<^sup>*\<^sup>* w0 v \<and> (web_step e)\<^sup>*\<^sup>* (snd (Login e (Inr q) v)) w
     \<and> password_ok e v q (tp_userId s) \<and> tp_respId s = lq_RespId q \<and> tp_expiresAt s = now v + totpPendingTTL)"

lemma opened_step: "opened e w0 w s \<Longrightarrow> web_step e w w' \<Longrightarrow> opened e w0 w' s"
  unfolding opened_def by (meson rtranclp.rtrancl_into_rtrancl)

lemma pending_opened:
  assumes "(web_step e)\<^sup>*\<^sup>* w0 w" and "totp_pending w0 = []"
  shows "\<forall>(t, s)\<in>set (totp_pending w). opened e w0 w s"
  using assms(1)
proof (induction rule: rtranclp_induct)
  case (step w w')
  have "opened e w0 w' s" if m: "(t, s) \<in> set (totp_pending w')" for t s
  proof (cases "(t, s) \<in> set (totp_pending w)")
    case True
    then show ?thesis using step.IH opened_step [OF _ step.hyps(2)] by blast
  next
    case False
    from step.hyps(2) show ?thesis
    proof (cases rule: web_step.cases)
      case (logging_in b)
      from login_pending [of t s e b w] obtain q where "b = Inr q" "password_ok e w q (tp_userId s)"
          "tp_respId s = lq_RespId q" "tp_expiresAt s = now w + totpPendingTTL"
        using m False logging_in by auto
      then show ?thesis using step.hyps(1) logging_in unfolding opened_def by blast
    next
      case (second_factor b)
      then show ?thesis using totp_stores_none [of w e b] m False by (auto simp: stores_none_def)
    next
      case elsewhere
      then show ?thesis using m False by (auto simp: stores_none_def)
    qed
  qed
  then show ?case by blast
qed (use assms(2) in simp)

text \<open>C2: in any run of the service, whatever else happens in it, an access token that the second step of a login gives
  out was earned twice. Some login of the same run, at most five minutes ago, presented the password of the account
  the token is for, and the code presented now is valid for the secret stored for that account; the token names
  that account and the device identifier of that login.
\<close>

theorem token_needs_both_factors:
  assumes "(web_step e)\<^sup>*\<^sup>* w0 w" and "totp_pending w0 = []" and "field ''token'' (AuthTOTP e b w) = Some t"
  shows "\<exists>v q u tok code row enc. (web_step e)\<^sup>*\<^sup>* w0 v \<and> (web_step e)\<^sup>*\<^sup>* (snd (Login e (Inr q) v)) w
    \<and> now w \<le> now v + totpPendingTTL \<and> password_ok e v q u
    \<and> b = Some (tok, code) \<and> map_of (auth_tbl w) u = Some row \<and> au_TOTP row = Some enc \<and> ValidateTOTPCode e w enc code
    \<and> t = JStr (fst (GenerateAccessToken e u (lq_RespId q) w))"
proof -
  obtain tok code s row enc where s: "b = Some (tok, code)" "map_of (totp_pending w) tok = Some s"
      "now w \<le> tp_expiresAt s" "map_of (auth_tbl w) (tp_userId s) = Some row" "au_TOTP row = Some enc"
      "ValidateTOTPCode e w enc code" "t = JStr (fst (GenerateAccessToken e (tp_userId s) (tp_respId s) w))"
    using totp_token [OF assms(3)] by blast
  have "opened e w0 w s" using pending_opened [OF assms(1,2)] map_of_SomeD [OF s(2)] by blast
  then obtain v q where "(web_step e)\<^sup>*\<^sup>* w0 v" "(web_step e)\<^sup>*\<^sup>* (snd (Login e (Inr q) v)) w"
      "password_ok e v q (tp_userId s)" "tp_respId s = lq_RespId q" "tp_expiresAt s = now v + totpPendingTTL"
    unfolding opened_def by blast
  then show ?thesis using s
    by (intro exI [where x = v] exI [where x = q] exI [where x = "tp_userId s"] exI [where x = tok]
        exI [where x = code] exI [where x = row] exI [where x = enc]) simp
qed

end
