(* ===== verification/UserDataProps.thy ===== *)
theory UserDataProps
  imports UserData
begin

text \<open>
  Encrypting a user's data is a refinement of the identity: what a reader sees under the master key does not
  change. The view of a table maps every row to its decrypted form, under its primary key.
\<close>

section \<open>Views\<close>

definition plain :: "('e) acct_env_scheme \<Rightarrow> mkey \<Rightarrow> string \<Rightarrow> string" where
  "plain e mk v = (if sealed e v then (case fc_dec (xa_fc e) mk v of Inl err \<Rightarrow> v | Inr p \<Rightarrow> p) else v)"

definition vw :: "('r \<Rightarrow> 'v) \<Rightarrow> ('k \<times> 'r) list \<Rightarrow> 'k \<Rightarrow> 'v option" where
  "vw f t k = map_option f (map_of t k)"

definition pv_channel :: "('e) acct_env_scheme \<Rightarrow> mkey \<Rightarrow> channel_row \<Rightarrow> channel_row" where
  "pv_channel e mk r = r\<lparr>ch_cols := map (\<lambda>(c, v). (c, map_option (plain e mk) v)) (ch_cols r)\<rparr>"

definition pv_dialog :: "('e) acct_env_scheme \<Rightarrow> mkey \<Rightarrow> dialog_row \<Rightarrow> dialog_row" where
  "pv_dialog e mk r = r\<lparr>dl_Data := map_option (plain e mk) (dl_Data r)\<rparr>"

definition pv_google :: "('e) acct_env_scheme \<Rightarrow> mkey \<Rightarrow> google_row \<Rightarrow> google_row" where
  "pv_google e mk r = \<lparr>gt_access = plain e mk (gt_access r), gt_refresh = plain e mk (gt_refresh r)\<rparr>"

definition pv_vector :: "('e) acct_env_scheme \<Rightarrow> mkey \<Rightarrow> vector_row \<Rightarrow> vector_row" where
  "pv_vector e mk r = r\<lparr>ve_name := plain e mk (ve_name r), ve_content := plain e mk (ve_content r)\<rparr>"

definition pv_crm :: "('e) acct_env_scheme \<Rightarrow> mkey \<Rightarrow> crm_row \<Rightarrow> crm_row" where
  "pv_crm e mk r = r\<lparr>cr_name := plain e mk (cr_name r), cr_subdomain := map_option (plain e mk) (cr_subdomain r),
     cr_credentials := plain e mk (cr_credentials r), cr_options := plain e mk (cr_options r),
     cr_channels := map_option (plain e mk) (cr_channels r)\<rparr>"

definition pv_oauth :: "('e) acct_env_scheme \<Rightarrow> mkey \<Rightarrow> oauth_row \<Rightarrow> oauth_row" where
  "pv_oauth e mk r = r\<lparr>oa_id := plain e mk (oa_id r), oa_secret := plain e mk (oa_secret r),
     oa_url := plain e mk (oa_url r), oa_subdomain := plain e mk (oa_subdomain r)\<rparr>"

definition pv_config :: "('e) acct_env_scheme \<Rightarrow> mkey \<Rightarrow> backend_config \<Rightarrow> backend_config" where
  "pv_config e mk r = r\<lparr>bc_AccessKey := plain e mk (bc_AccessKey r), bc_SecretKey := plain e mk (bc_SecretKey r)\<rparr>"

definition pv_bot :: "('e) acct_env_scheme \<Rightarrow> mkey \<Rightarrow> bot_row \<Rightarrow> bot_row" where
  "pv_bot e mk r = r\<lparr>bo_auth := plain e mk (bo_auth r)\<rparr>"

record data_view =
  vi_keys :: "uid \<times> string \<Rightarrow> string option"
  vi_channels :: "uid \<Rightarrow> channel_row option"
  vi_dialogs :: "nat \<Rightarrow> dialog_row option"
  vi_google :: "uid \<Rightarrow> google_row option"
  vi_vectors :: "nat \<Rightarrow> vector_row option"
  vi_crm :: "nat \<Rightarrow> crm_row option"
  vi_oauth :: "string \<Rightarrow> oauth_row option"
  vi_configs :: "uid \<Rightarrow> backend_config option"
  vi_tgbots :: "nat \<Rightarrow> bot_row option"
  vi_wabots :: "nat \<Rightarrow> bot_row option"

definition view :: "('e) acct_env_scheme \<Rightarrow> mkey \<Rightarrow> 'a data_st_scheme \<Rightarrow> data_view" where
  "view e mk w = \<lparr>vi_keys = vw (plain e mk) (api_keys w), vi_channels = vw (pv_channel e mk) (channels w),
     vi_dialogs = vw (pv_dialog e mk) (dialogs w), vi_google = vw (pv_google e mk) (google w),
     vi_vectors = vw (pv_vector e mk) (vectors w), vi_crm = vw (pv_crm e mk) (crm w),
     vi_oauth = vw (pv_oauth e mk) (oauth w), vi_configs = vw (pv_config e mk) (config_tbl w),
     vi_tgbots = vw (pv_bot e mk) (tgbots w), vi_wabots = vw (pv_bot e mk) (wabots w)\<rparr>"

lemma view_fields [simp]:
  "vi_keys (view e mk w) = vw (plain e mk) (api_keys w)"
  "vi_channels (view e mk w) = vw (pv_channel e mk) (channels w)"
  "vi_dialogs (view e mk w) = vw (pv_dialog e mk) (dialogs w)"
  "vi_google (view e mk w) = vw (pv_google e mk) (google w)"
  "vi_vectors (view e mk w) = vw (pv_vector e mk) (vectors w)" "vi_crm (view e mk w) = vw (pv_crm e mk) (crm w)"
  "vi_oauth (view e mk w) = vw (pv_oauth e mk) (oauth w)"
  "vi_configs (view e mk w) = vw (pv_config e mk) (config_tbl w)"
  "vi_tgbots (view e mk w) = vw (pv_bot e mk) (tgbots w)" "vi_wabots (view e mk w) = vw (pv_bot e mk) (wabots w)"
  by (simp_all add: view_def)

text \<open>Drawing failures and sending messages is invisible.\<close>

lemma say_fields [simp]:
  "api_keys (say m w) = api_keys w" "channels (say m w) = channels w" "dialogs (say m w) = dialogs w"
  "google (say m w) = google w" "vectors (say m w) = vectors w" "crm (say m w) = crm w" "oauth (say m w) = oauth w"
  "config_tbl (say m w) = config_tbl w" "tgbots (say m w) = tgbots w" "wabots (say m w) = wabots w"
  "view e mk (say m w) = view e mk w" "faults (say m w) = faults w" "failing (say m w) = failing w"
  by (simp_all add: say_def view_def failing_def)

lemma say_count_fields [simp]:
  "api_keys (say_count m n w) = api_keys w" "channels (say_count m n w) = channels w"
  "dialogs (say_count m n w) = dialogs w" "google (say_count m n w) = google w"
  "vectors (say_count m n w) = vectors w" "crm (say_count m n w) = crm w" "oauth (say_count m n w) = oauth w"
  "config_tbl (say_count m n w) = config_tbl w" "tgbots (say_count m n w) = tgbots w"
  "wabots (say_count m n w) = wabots w" "view e mk (say_count m n w) = view e mk w"
  by (simp_all add: say_count_def)

lemma drawn_data [simp]:
  fixes w :: "'a data_st_scheme"
  shows "api_keys (drawn w) = api_keys w" "channels (drawn w) = channels w" "dialogs (drawn w) = dialogs w"
    "google (drawn w) = google w" "vectors (drawn w) = vectors w" "crm (drawn w) = crm w" "oauth (drawn w) = oauth w"
    "config_tbl (drawn w) = config_tbl w" "tgbots (drawn w) = tgbots w" "wabots (drawn w) = wabots w"
    "view e mk (drawn w) = view e mk w"
  by (simp_all add: drawn_def view_def)

section \<open>Rows\<close>

definition good_enc :: "('e) acct_env_scheme \<Rightarrow> bool" where
  "good_enc e = (good_fields (xa_fc e) \<and> (\<forall>k v. is_ok (fc_enc (xa_fc e) k v)))"

lemma good_enc_fields: "good_enc e \<Longrightarrow> good_fields (xa_fc e)"
  by (simp add: good_enc_def)

lemma plain_enc: "good_fields (xa_fc e) \<Longrightarrow> fc_enc (xa_fc e) mk v = Inr c \<Longrightarrow> plain e mk c = v"
  by (simp add: good_fields_def plain_def sealed_def)

lemma plain_open: "\<not> sealed e v \<Longrightarrow> plain e mk v = v"
  by (simp add: plain_def)

lemma plain_enc_or_empty: "good_enc e \<Longrightarrow> \<not> sealed e v \<Longrightarrow> plain e mk (enc_or_empty e mk v) = plain e mk v"
proof -
  assume g: "good_enc e" and o: "\<not> sealed e v"
  obtain c where "fc_enc (xa_fc e) mk v = Inr c"
    using g by (metis good_enc_def is_ok_simps(2) obj_sumE)
  then show ?thesis using plain_enc [OF good_enc_fields [OF g]] o by (simp add: enc_or_empty_def plain_open)
qed

lemma vw_upd:
  assumes "\<And>r. map_of t k = Some r \<Longrightarrow> f (g r) = f r"
  shows "vw f (upd k g t) = vw f t"
  using assms by (auto simp: vw_def upd_def fun_eq_iff update_conv' split: option.splits)

lemma vw_upd_to:
  assumes "vw f t k = Some v" and "\<And>r. f r = v \<Longrightarrow> f (g r) = v"
  shows "vw f (upd k g t) = vw f t"
  by (rule vw_upd) (use assms in \<open>auto simp: vw_def\<close>)

lemma vw_member: "distinct (map fst t) \<Longrightarrow> (k, r) \<in> set t \<Longrightarrow> vw f t k = Some (f r)"
  by (simp add: vw_def)

lemma upd_keys [simp]: "map fst (upd k g t) = map fst t"
  by (auto simp: upd_def update_keys map_of_eq_None_iff split: option.splits)

text \<open>Writing values that read the same leaves the view of a row alone.\<close>

lemma put_dialog:
  "pv_dialog e mk r = pv_dialog e mk q \<Longrightarrow> map_option (plain e mk) d = map_option (plain e mk) (dl_Data q)
    \<Longrightarrow> pv_dialog e mk (dl_Data_update (\<lambda>_. d) r) = pv_dialog e mk q"
  by (cases r; cases q) (simp add: pv_dialog_def)

lemma put_vector:
  "pv_vector e mk r = pv_vector e mk q \<Longrightarrow> plain e mk a = plain e mk (ve_name q)
    \<Longrightarrow> plain e mk b = plain e mk (ve_content q)
    \<Longrightarrow> pv_vector e mk (r\<lparr>ve_name := a, ve_content := b\<rparr>) = pv_vector e mk q"
  by (cases r; cases q) (simp add: pv_vector_def)

lemma put_crm:
  "pv_crm e mk r = pv_crm e mk q \<Longrightarrow> plain e mk a = plain e mk (cr_name q)
    \<Longrightarrow> map_option (plain e mk) b = map_option (plain e mk) (cr_subdomain q)
    \<Longrightarrow> plain e mk c = plain e mk (cr_credentials q) \<Longrightarrow> plain e mk d = plain e mk (cr_options q)
    \<Longrightarrow> map_option (plain e mk) f = map_option (plain e mk) (cr_channels q)
    \<Longrightarrow> pv_crm e mk (r\<lparr>cr_name := a, cr_subdomain := b, cr_credentials := c, cr_options := d, cr_channels := f\<rparr>)
        = pv_crm e mk q"
  by (cases r; cases q) (simp add: pv_crm_def)

lemma put_oauth:
  "pv_oauth e mk r = pv_oauth e mk q \<Longrightarrow> plain e mk a = plain e mk (oa_id q)
    \<Longrightarrow> plain e mk b = plain e mk (oa_secret q) \<Longrightarrow> plain e mk c = plain e mk (oa_url q)
    \<Longrightarrow> plain e mk d = plain e mk (oa_subdomain q)
    \<Longrightarrow> pv_oauth e mk (r\<lparr>oa_id := a, oa_secret := b, oa_url := c, oa_subdomain := d, oa_type := oa_type q\<rparr>)
        = pv_oauth e mk q"
  by (cases r; cases q) (simp add: pv_oauth_def)

lemma put_config:
  "pv_config e mk r = pv_config e mk q \<Longrightarrow> plain e mk a = plain e mk (bc_AccessKey q)
    \<Longrightarrow> plain e mk b = plain e mk (bc_SecretKey q)
    \<Longrightarrow> pv_config e mk (r\<lparr>bc_AccessKey := a, bc_SecretKey := b\<rparr>) = pv_config e mk q"
  by (cases r; cases q) (simp add: pv_config_def)

lemma put_bot:
  "pv_bot e mk r = pv_bot e mk q \<Longrightarrow> plain e mk a = plain e mk (bo_auth q)
    \<Longrightarrow> pv_bot e mk (bo_auth_update (\<lambda>_. a) r) = pv_bot e mk q"
  by (cases r; cases q) (simp add: pv_bot_def)

section \<open>A pass over a table\<close>

text \<open>
  The contract of a loop over fetched rows: a step on a row that is as the view says leaves the view alone.
  Then so does the whole pass.
\<close>

locale sealing_pass =
  fixes look :: "'s \<Rightarrow> 'v" and step :: "'r \<Rightarrow> 's \<Rightarrow> (go_err + bool) \<times> 's" and ok :: "'v \<Rightarrow> 'r \<Rightarrow> bool"
  assumes step_look: "ok (look s) r \<Longrightarrow> look (snd (step r s)) = look s"
begin

lemma pass: "\<forall>r\<in>set rs. ok (look s) r \<Longrightarrow> look (snd (each step rs n s)) = look s"
proof (induction rs arbitrary: n s)
  case (Cons r rs)
  obtain x s1 where x: "step r s = (x, s1)" by (cases "step r s")
  have "look s1 = look s" using step_look [of s r] Cons.prems x by simp
  then show ?case using Cons x by (cases x) simp_all
qed simp

end

lemma each_frame:
  assumes "\<And>r s. h (snd (step r s)) = h s"
  shows "h (snd (each step rs n s)) = h s"
proof (induction rs arbitrary: n s)
  case (Cons r rs)
  obtain x s1 where x: "step r s = (x, s1)" by (cases "step r s")
  then show ?case using Cons assms [of r s] by (cases x) simp_all
qed simp

text \<open>The nine tables.\<close>

interpretation keys: sealing_pass "view e mk" "api_key_step e u mk"
  "\<lambda>V r. good_fields (xa_fc e) \<and> vi_keys V (fst r) = Some (snd r) \<and> fst (fst r) = u" for e u mk
proof
  fix s :: "'b data_st_scheme" and r
  assume "good_fields (xa_fc e) \<and> vi_keys (view e mk s) (fst r) = Some (snd r) \<and> fst (fst r) = u"
  then have g: "good_fields (xa_fc e)" and r: "vw (plain e mk) (api_keys s) (u, snd (fst r)) = Some (snd r)"
    by (auto simp: prod_eq_iff)
  have "vw (plain e mk) (upd (u, snd (fst r)) (\<lambda>_. c) (api_keys s)) = vw (plain e mk) (api_keys s)"
    if "fc_enc (xa_fc e) mk (snd r) = Inr c" for c
    by (rule vw_upd_to [OF r]) (use plain_enc [OF g that] in simp)
  then show "view e mk (snd (api_key_step e u mk r s)) = view e mk s"
    by (auto simp: api_key_step_def Let_def view_def split: sum.splits)
qed

lemma set_col_view:
  assumes "pv_channel e mk r = pv_channel e mk r0" and "ch_val r0 col = Some v" and "plain e mk x = plain e mk v"
  shows "pv_channel e mk (set_col col (Some x) r) = pv_channel e mk r0"
proof -
  let ?m = "\<lambda>cs. map (\<lambda>(c, v). (c, map_option (plain e mk) v)) cs"
  have up: "?m (AList.update col y cs) = AList.update col (map_option (plain e mk) y) (?m cs)" for y cs
    by (induction cs) auto
  have eq: "?m (ch_cols r) = ?m (ch_cols r0)" using arg_cong [OF assms(1), where f = ch_cols] by (simp add: pv_channel_def)
  have mm: "map_of (?m cs) col = map_option (map_option (plain e mk)) (map_of cs col)" for cs
    by (induction cs) auto
  have "map_of (ch_cols r0) col = Some (Some v)" using assms(2) by (auto simp: ch_val_def split: option.splits)
  then have "map_of (?m (ch_cols r)) col = Some (Some (plain e mk v))" by (simp add: eq mm)
  then have "AList.update col (Some (plain e mk x)) (?m (ch_cols r)) = ?m (ch_cols r)"
    using assms(3) by (simp add: update_triv)
  then have "pv_channel e mk (set_col col (Some x) r) = pv_channel e mk r"
    by (simp add: pv_channel_def set_col_def up)
  then show ?thesis using assms(1) by simp
qed

interpretation chans: sealing_pass "view e mk" "channel_step e u mk r0"
  "\<lambda>V (c :: string \<times> string). good_fields (xa_fc e) \<and> vi_channels V u = Some (pv_channel e mk r0)" for e u mk r0
proof
  fix s :: "'b data_st_scheme" and c :: "string \<times> string"
  assume "good_fields (xa_fc e) \<and> vi_channels (view e mk s) u = Some (pv_channel e mk r0)"
  then have g: "good_fields (xa_fc e)" and r: "vw (pv_channel e mk) (channels s) u = Some (pv_channel e mk r0)" by simp_all
  have col: "vw (pv_channel e mk) (upd u (set_col (snd c) (Some x)) (channels s)) = vw (pv_channel e mk) (channels s)"
    if "ch_val r0 (snd c) = Some v" "\<not> sealed e v" "fc_enc (xa_fc e) mk v = Inr x" for v x
    by (rule vw_upd_to [OF r], rule set_col_view [OF _ that(1)])
      (simp_all add: plain_enc [OF g that(3)] plain_open [OF that(2)])
  then show "view e mk (snd (channel_step e u mk r0 c s)) = view e mk s"
  proof (cases "ch_val r0 (snd c)")
    case (Some v)
    show ?thesis
    proof (cases "v = [] \<or> sealed e v")
      case False
      show ?thesis
      proof (cases "fc_enc (xa_fc e) mk v")
        case (Inr x)
        then show ?thesis using col [OF Some _ Inr] False Some
          by (simp add: channel_step_def Let_def view_def)
      qed (use Some False in \<open>simp add: channel_step_def Let_def\<close>)
    qed (use Some in \<open>simp add: channel_step_def\<close>)
  qed (simp add: channel_step_def)
qed

interpretation dlgs: sealing_pass "view e mk" "dialog_step e mk"
  "\<lambda>V r. good_fields (xa_fc e) \<and> vi_dialogs V (fst r) = Some (pv_dialog e mk (snd r)) \<and> open_dialog e u r" for e u mk
proof
  fix s :: "'b data_st_scheme" and r
  assume "good_fields (xa_fc e) \<and> vi_dialogs (view e mk s) (fst r) = Some (pv_dialog e mk (snd r)) \<and> open_dialog e u r"
  then obtain d where g: "good_fields (xa_fc e)" and r: "vw (pv_dialog e mk) (dialogs s) (fst r) = Some (pv_dialog e mk (snd r))"
      and d: "dl_Data (snd r) = Some d" "\<not> sealed e d"
    by (auto simp: open_dialog_def split: option.splits)
  have "vw (pv_dialog e mk) (upd (fst r) (dl_Data_update (\<lambda>_. Some c)) (dialogs s)) = vw (pv_dialog e mk) (dialogs s)"
    if "fc_enc (xa_fc e) mk d = Inr c" for c
    by (rule vw_upd_to [OF r], rule put_dialog) (simp_all add: d plain_enc [OF g that] plain_open)
  then show "view e mk (snd (dialog_step e mk r s)) = view e mk s"
    by (auto simp: dialog_step_def d view_def split: sum.splits)
qed

interpretation vecs: sealing_pass "view e mk" "vector_step e mk"
  "\<lambda>V r. good_enc e \<and> vi_vectors V (fst r) = Some (pv_vector e mk (snd r))
     \<and> \<not> sealed e (ve_name (snd r)) \<and> \<not> sealed e (ve_content (snd r))" for e mk
proof
  fix s :: "'b data_st_scheme" and r
  assume a: "good_enc e \<and> vi_vectors (view e mk s) (fst r) = Some (pv_vector e mk (snd r))
     \<and> \<not> sealed e (ve_name (snd r)) \<and> \<not> sealed e (ve_content (snd r))"
  then have "vw (pv_vector e mk) (upd (fst r) (\<lambda>x. x\<lparr>ve_name := enc_or_empty e mk (ve_name (snd r)),
      ve_content := enc_or_empty e mk (ve_content (snd r))\<rparr>) (vectors s)) = vw (pv_vector e mk) (vectors s)"
    by (intro vw_upd_to [where v = "pv_vector e mk (snd r)"] put_vector) (simp_all add: plain_enc_or_empty)
  then show "view e mk (snd (vector_step e mk r s)) = view e mk s" by (simp add: vector_step_def view_def)
qed

definition opt_open :: "('e) acct_env_scheme \<Rightarrow> string option \<Rightarrow> bool" where
  "opt_open e v = (case v of None \<Rightarrow> True | Some s \<Rightarrow> \<not> sealed e s)"

lemma opt_plain: "good_enc e \<Longrightarrow> opt_open e v \<Longrightarrow>
    map_option (plain e mk) (map_option (enc_or_empty e mk) v) = map_option (plain e mk) v"
  by (cases v) (simp_all add: opt_open_def plain_enc_or_empty)

definition crm_open :: "('e) acct_env_scheme \<Rightarrow> crm_row \<Rightarrow> bool" where
  "crm_open e r = (\<not> sealed e (cr_name r) \<and> opt_open e (cr_subdomain r) \<and> \<not> sealed e (cr_credentials r)
     \<and> \<not> sealed e (cr_options r) \<and> opt_open e (cr_channels r))"

interpretation crms: sealing_pass "view e mk" "crm_step e mk"
  "\<lambda>V r. good_enc e \<and> vi_crm V (fst r) = Some (pv_crm e mk (snd r)) \<and> crm_open e (snd r)" for e mk
proof
  fix s :: "'b data_st_scheme" and r
  assume a: "good_enc e \<and> vi_crm (view e mk s) (fst r) = Some (pv_crm e mk (snd r)) \<and> crm_open e (snd r)"
  then have "vw (pv_crm e mk) (upd (fst r) (\<lambda>x. x\<lparr>cr_name := enc_or_empty e mk (cr_name (snd r)),
      cr_subdomain := map_option (enc_or_empty e mk) (cr_subdomain (snd r)),
      cr_credentials := enc_or_empty e mk (cr_credentials (snd r)),
      cr_options := enc_or_empty e mk (cr_options (snd r)),
      cr_channels := map_option (enc_or_empty e mk) (cr_channels (snd r))\<rparr>) (crm s)) = vw (pv_crm e mk) (crm s)"
    by (intro vw_upd_to [where v = "pv_crm e mk (snd r)"] put_crm)
      (simp_all add: crm_open_def plain_enc_or_empty opt_plain del: option.map_comp)
  then show "view e mk (snd (crm_step e mk r s)) = view e mk s" by (simp add: crm_step_def view_def)
qed

definition oauth_open :: "('e) acct_env_scheme \<Rightarrow> oauth_row \<Rightarrow> bool" where
  "oauth_open e r = (\<not> sealed e (oa_id r) \<and> \<not> sealed e (oa_secret r) \<and> \<not> sealed e (oa_url r) \<and> \<not> sealed e (oa_subdomain r))"

interpretation oaus: sealing_pass "view e mk" "oauth_step e mk"
  "\<lambda>V r. good_enc e \<and> vi_oauth V (fst r) = Some (pv_oauth e mk (snd r)) \<and> oauth_open e (snd r)" for e mk
proof
  fix s :: "'b data_st_scheme" and r
  assume a: "good_enc e \<and> vi_oauth (view e mk s) (fst r) = Some (pv_oauth e mk (snd r)) \<and> oauth_open e (snd r)"
  then have "vw (pv_oauth e mk) (upd (fst r) (\<lambda>x. x\<lparr>oa_id := enc_or_empty e mk (oa_id (snd r)),
      oa_secret := enc_or_empty e mk (oa_secret (snd r)), oa_url := enc_or_empty e mk (oa_url (snd r)),
      oa_subdomain := enc_or_empty e mk (oa_subdomain (snd r)), oa_type := oa_type (snd r)\<rparr>) (oauth s))
      = vw (pv_oauth e mk) (oauth s)"
    by (intro vw_upd_to [where v = "pv_oauth e mk (snd r)"] put_oauth) (simp_all add: oauth_open_def plain_enc_or_empty)
  then show "view e mk (snd (oauth_step e mk r s)) = view e mk s" by (simp add: oauth_step_def view_def)
qed

definition creds_open :: "('e) acct_env_scheme \<Rightarrow> backend_config \<Rightarrow> bool" where
  "creds_open e r = (\<not> sealed e (bc_AccessKey r) \<and> \<not> sealed e (bc_SecretKey r))"

lemma plain_enc_unless_empty:
  "good_enc e \<Longrightarrow> \<not> sealed e v \<Longrightarrow> plain e mk (enc_unless_empty e mk v) = plain e mk v"
  by (simp add: enc_unless_empty_def plain_enc_or_empty)

interpretation creds: sealing_pass "view e mk" "storage_step e u mk"
  "\<lambda>V r. good_enc e \<and> vi_configs V u = Some (pv_config e mk r) \<and> creds_open e r" for e u mk
proof
  fix s :: "'b data_st_scheme" and r
  assume a: "good_enc e \<and> vi_configs (view e mk s) u = Some (pv_config e mk r) \<and> creds_open e r"
  then have "vw (pv_config e mk) (upd u (\<lambda>x. x\<lparr>bc_AccessKey := enc_unless_empty e mk (bc_AccessKey r),
      bc_SecretKey := enc_unless_empty e mk (bc_SecretKey r)\<rparr>) (config_tbl s)) = vw (pv_config e mk) (config_tbl s)"
    by (intro vw_upd_to [where v = "pv_config e mk r"] put_config) (simp_all add: creds_open_def plain_enc_unless_empty)
  then show "view e mk (snd (storage_step e u mk r s)) = view e mk s" by (simp add: storage_step_def view_def)
qed


text \<open>The bots live in two tables; the routine is the same for both.\<close>

interpretation tgs: sealing_pass "view e mk" "bot_step e mk (\<lambda>t w. w\<lparr>tgbots := t\<rparr>) tgbots"
  "\<lambda>V r. good_enc e \<and> vi_tgbots V (fst r) = Some (pv_bot e mk (snd r)) \<and> open_bot e u r" for e u mk
proof
  fix s :: "'b data_st_scheme" and r
  assume a: "good_enc e \<and> vi_tgbots (view e mk s) (fst r) = Some (pv_bot e mk (snd r)) \<and> open_bot e u r"
  then have "vw (pv_bot e mk) (upd (fst r) (bo_auth_update (\<lambda>_. enc_or_empty e mk (bo_auth (snd r)))) (tgbots s))
      = vw (pv_bot e mk) (tgbots s)"
    by (intro vw_upd_to [where v = "pv_bot e mk (snd r)"] put_bot) (simp_all add: open_bot_def plain_enc_or_empty)
  then show "view e mk (snd (bot_step e mk (\<lambda>t w. w\<lparr>tgbots := t\<rparr>) tgbots r s)) = view e mk s"
    by (simp add: bot_step_def view_def)
qed

interpretation was: sealing_pass "view e mk" "bot_step e mk (\<lambda>t w. w\<lparr>wabots := t\<rparr>) wabots"
  "\<lambda>V r. good_enc e \<and> vi_wabots V (fst r) = Some (pv_bot e mk (snd r)) \<and> open_bot e u r" for e u mk
proof
  fix s :: "'b data_st_scheme" and r
  assume a: "good_enc e \<and> vi_wabots (view e mk s) (fst r) = Some (pv_bot e mk (snd r)) \<and> open_bot e u r"
  then have "vw (pv_bot e mk) (upd (fst r) (bo_auth_update (\<lambda>_. enc_or_empty e mk (bo_auth (snd r)))) (wabots s))
      = vw (pv_bot e mk) (wabots s)"
    by (intro vw_upd_to [where v = "pv_bot e mk (snd r)"] put_bot) (simp_all add: open_bot_def plain_enc_or_empty)
  then show "view e mk (snd (bot_step e mk (\<lambda>t w. w\<lparr>wabots := t\<rparr>) wabots r s)) = view e mk s"
    by (simp add: bot_step_def view_def)
qed

section \<open>What an encryption leaves alone\<close>

lemma after_each:
  assumes "look (snd (each f rs n w)) = L" and "\<And>k w. look (snd (fin k w)) = look w"
  shows "look (snd (case each f rs n w of (Inl err, w) \<Rightarrow> (Inl err, w) | (Inr k, w) \<Rightarrow> fin k w)) = L"
  using assms by (auto split: prod.splits sum.splits)

text \<open>A reader \<open>look\<close> that sees neither failures nor messages sees only the table an encryption works on.\<close>

locale table_reader =
  fixes look :: "'a data_st_scheme \<Rightarrow> 'l"
  assumes unseen_faults: "look (w\<lparr>faults := f\<rparr>) = look w" and unseen_progress: "look (w\<lparr>progress := p\<rparr>) = look w"
begin

lemma looks [simp]: "look (drawn w) = look w" "look (say m w) = look w" "look (say_count m n w) = look w"
  by (simp_all add: drawn_def say_def say_count_def unseen_faults unseen_progress)

lemma look_if [simp]: "look (if b then v else w) = (if b then look v else look w)"
  by simp

lemma loop [simp]:
  assumes "\<And>r s. look (snd (step r s)) = look s" and "\<And>k w. look (snd (fin k w)) = look w"
  shows "look (snd (case each step rs n w of (Inl err, w) \<Rightarrow> (Inl err, w) | (Inr k, w) \<Rightarrow> fin k w)) = look w"
proof (rule after_each [of look step rs n w "look w" fin])
  show "look (snd (each step rs n w)) = look w" by (rule each_frame [of look step rs n w]) (rule assms(1))
  show "look (snd (fin k w)) = look w" for k w by (rule assms(2))
qed

lemma keys_frame:
  assumes t: "\<And>w t. look (w\<lparr>api_keys := t\<rparr>) = look w"
  shows "look (snd (EncryptUserAPIKeysWSS e u mk w)) = look w"
proof -
  have "look (snd (api_key_step e u mk r s)) = look s" for r s
    by (simp add: api_key_step_def Let_def t split: sum.split)
  then show ?thesis by (simp add: EncryptUserAPIKeysWSS_def Let_def)
qed

lemma channels_frame:
  assumes t: "\<And>w t. look (w\<lparr>channels := t\<rparr>) = look w"
  shows "look (snd (EncryptChannelsWSS e u mk w)) = look w"
proof -
  have "look (snd (channel_step e u mk r c s)) = look s" for r c s
    by (simp add: channel_step_def Let_def t split: sum.split option.split)
  then show ?thesis by (simp add: EncryptChannelsWSS_def Let_def split: option.split)
qed

lemma dialogs_frame:
  assumes t: "\<And>w t. look (w\<lparr>dialogs := t\<rparr>) = look w"
  shows "look (snd (EncryptDialogsWSS e u mk w)) = look w"
proof -
  have "look (snd (dialog_step e mk r s)) = look s" for r s
    by (simp add: dialog_step_def t split: sum.split)
  then show ?thesis by (simp add: EncryptDialogsWSS_def Let_def)
qed

lemma google_frame:
  assumes t: "\<And>w t. look (w\<lparr>google := t\<rparr>) = look w"
  shows "look (snd (EncryptGoogleTokenWSS e u mk w)) = look w"
  by (simp add: EncryptGoogleTokenWSS_def Let_def t split: option.split)

lemma vectors_frame:
  assumes t: "\<And>w t. look (w\<lparr>vectors := t\<rparr>) = look w"
  shows "look (snd (EncryptVectorEmbeddingsWSS e u mk w)) = look w"
proof -
  have "look (snd (vector_step e mk r s)) = look s" for r s by (simp add: vector_step_def t)
  then show ?thesis by (simp add: EncryptVectorEmbeddingsWSS_def Let_def)
qed

lemma crm_frame:
  assumes t: "\<And>w t. look (w\<lparr>crm := t\<rparr>) = look w"
  shows "look (snd (EncryptCRMConfigsWSS e u mk w)) = look w"
proof -
  have "look (snd (crm_step e mk r s)) = look s" for r s by (simp add: crm_step_def t)
  then show ?thesis by (simp add: EncryptCRMConfigsWSS_def Let_def)
qed

lemma oauth_frame:
  assumes t: "\<And>w t. look (w\<lparr>oauth := t\<rparr>) = look w"
  shows "look (snd (EncryptCRMOAuthStatesWSS e u mk w)) = look w"
proof -
  have "look (snd (oauth_step e mk r s)) = look s" for r s by (simp add: oauth_step_def t)
  then show ?thesis by (simp add: EncryptCRMOAuthStatesWSS_def Let_def)
qed

lemma storage_frame:
  assumes t: "\<And>w t. look (w\<lparr>config_tbl := t\<rparr>) = look w"
  shows "look (snd (EncryptUserStorageConfigWSS e u mk w)) = look w"
proof -
  have "look (snd (storage_step e u mk r s)) = look s" for r s by (simp add: storage_step_def t)
  then show ?thesis by (simp add: EncryptUserStorageConfigWSS_def Let_def)
qed

lemma table_frame:
  assumes t: "\<And>t w. look (put t w) = look w"
  shows "look (snd (encryptTable e u mk name put get w)) = look w"
proof -
  have "look (snd (bot_step e mk put get r s)) = look s" for r s by (simp add: bot_step_def t)
  then show ?thesis by (simp add: encryptTable_def Let_def)
qed

end

end
