(* ===== verification/AccountProps.thy ===== *)
theory AccountProps
  imports LoginProps UserDataProps
begin

text \<open>
  Three places where the code lets through what its names and comments say it keeps out: the developers' routes,
  the reset of a password, and the reset of a lost master key.
\<close>

section \<open>The developers' routes\<close>

lemma IsDevUser_ordinary:
  assumes "calm w" and "u \<noteq> 0" and "map_of (users w) u = Some row" and "us_Role row \<noteq> 0"
  shows "IsDevUser query u w = (Inr True, drawn w)"
  using assms by (simp add: IsDevUser_def GetDevUserData_def calm_not_failing)

lemma identified_user [simp]: "u \<noteq> 0 \<Longrightarrow> getUserID (identified u r c) = Some u"
  by (simp add: getUserID_def identified_def set_key_def update_conv')

text \<open>C13: a request with a valid token of any registered user who is no developer passes both middlewares of the
  developers' routes and reaches the handler: what is not a developer's profile is the text of an empty JSON
  object, two bytes long, and the check asks only whether the text is empty.
\<close>

theorem developer_routes_admit_everyone:
  fixes w :: "'a web2_st_scheme"
  assumes "VerifyAccessToken e (extractToken rq) w = Inr (u, r)" and "extractToken rq \<noteq> []" and "u \<noteq> 0"
    and "map_of (users w) u = Some row" and "us_Role row \<noteq> 0" and "calm w"
    and "xw_allow e (case map_of (limiters w) r of None \<Rightarrow> [] | Some ts \<Rightarrow> ts) (now w)"
    and "Query (rq_gin rq) ''provider'' = []"
  shows "\<exists>c w'. dev_route e query rq h w = h c w' \<and> getUserID c = Some u \<and> app_tbl w' = app_tbl w \<and> calm w'"
proof -
  let ?w = "w\<lparr>limiters := AList.update r (now w # (case map_of (limiters w) r of None \<Rightarrow> [] | Some ts \<Rightarrow> ts)) (limiters w)\<rparr>"
  have limit: "performRateLimit e r w = (None, ?w)" using assms(7) by (simp add: performRateLimit_def Allow_def Let_def)
  have q: "Query (identified u r (rq_gin rq)) ''provider'' = []"
    using assms(8) by (simp add: Query_def identified_def set_key_def)
  have gate: "authAllowMiddleware e rq w = (Inr (identified u r (rq_gin rq)), ?w)"
    using assms(1,2) limit q by (simp add: authAllowMiddleware_def verifyTokenAndCheckRateLimit_def Let_def)
  have calm: "calm ?w" using assms(6) by (simp add: calm_def)
  have "devOnlyMiddleware query (identified u r (rq_gin rq)) ?w = (Inr (identified u r (rq_gin rq)), drawn ?w)"
    using IsDevUser_ordinary [OF calm assms(3) _ assms(5)] assms(3,4) by (simp add: devOnlyMiddleware_def)
  then have "dev_route e query rq h w = h (identified u r (rq_gin rq)) (drawn ?w)"
    using gate by (simp add: dev_route_def)
  moreover have "app_tbl (drawn ?w) = app_tbl w" by (simp add: drawn_def)
  moreover have "calm (drawn ?w)" by (rule calm_drawn [OF calm])
  ultimately show ?thesis using identified_user [OF assms(3)] by blast
qed

section \<open>Resetting a password\<close>

lemma limited_password:
  fixes w :: "'a web2_st_scheme"
  assumes "xw_allow e (case map_of (limiters w) r of None \<Rightarrow> [] | Some ts \<Rightarrow> ts) (now w)"
    and "fst (DecryptPassword e r enc w) = Some (Inr pass)"
  shows "\<exists>l x. \<forall>k. limited e r (with_password e r enc k) w = k pass (w\<lparr>limiters := l, ex_regs := x\<rparr>)"
proof -
  obtain l where l: "performRateLimit e r w = (None, w\<lparr>limiters := l\<rparr>)"
    using assms(1) by (auto simp: performRateLimit_def Allow_def Let_def)
  obtain d w1 where d: "DecryptPassword e r enc (w\<lparr>limiters := l\<rparr>) = (d, w1)" by force
  then have "d = Some (Inr pass)" using decrypt_limited [where e = e and r = r and enc = enc and w = w and l = l] assms(2) by (metis fst_conv)
  then obtain x where "DecryptPassword e r enc (w\<lparr>limiters := l\<rparr>) = (Some (Inr pass), w\<lparr>limiters := l, ex_regs := x\<rparr>)"
    using d decrypt_state [OF d] by auto
  then show ?thesis using l by (auto simp: limited_def with_password_def)
qed

text \<open>The update of a reset looks at the address in the body; the user of the token only matters afterwards.\<close>

lemma reset_updates_by_address:
  fixes w :: "'a web2_st_scheme"
  assumes "ParseAuthToken e (pq_Token q) w = Inr (u, r)"
    and "xw_allow e (case map_of (limiters w) r of None \<Rightarrow> [] | Some ts \<Rightarrow> ts) (now w)"
    and "fst (DecryptPassword e r (pq_Pass q) w) = Some (Inr pass)" and "calm w"
    and "xe_bcrypt e (c_rand (se_crypto e) (rnd_pos w) 16) pass = Inr hash" and "hash \<noteq> []"
    and "pq_Mail q \<noteq> []" and "pq_RawMasterKey q = []"
    and "(v, victim) \<in> set (auth_tbl w)" and "named e (pq_Mail q) (EmailHMAC e w (pq_Mail q)) victim"
    and "au_SHA victim \<noteq> hash"
  shows "\<exists>w2. calm w2
    \<and> auth_tbl w2 = map (\<lambda>(u, a). (u, if named e (pq_Mail q) (EmailHMAC e w (pq_Mail q)) a then a\<lparr>au_SHA := hash\<rparr> else a))
        (auth_tbl w)
    \<and> ResetPass e (Inr q) w = (case drop_after_reset u w2 of
        (Inl err, w) \<Rightarrow> reply_error 400 (err_text err) w | (Inr _, w) \<Rightarrow> reply 200 [] w)"
proof -
  let ?hmac = "EmailHMAC e w (pq_Mail q)"
  let ?new = "\<lambda>r. if named e (pq_Mail q) ?hmac r then r\<lparr>au_SHA := hash\<rparr> else r"
  let ?in = "\<lparr>rp_Mail = pq_Mail q, rp_Password = pass, rp_RawMasterKey = pq_RawMasterKey q\<rparr>"
  obtain l x where pw: "limited e r (with_password e r (pq_Pass q) k) w = k pass (w\<lparr>limiters := l, ex_regs := x\<rparr>)" for k
    using limited_password [OF assms(2,3)] by blast
  define w1 where "w1 = w\<lparr>limiters := l, ex_regs := x, rnd_pos := Suc (rnd_pos w)\<rparr>"
  define w2 where "w2 = (drawn w1)\<lparr>auth_tbl := map (\<lambda>(u, r). (u, ?new r)) (auth_tbl w)\<rparr>"
  have calm: "calm w1" "calm w2" using assms(4) calm_drawn [of w1] by (simp_all add: w1_def w2_def calm_def drawn_def)
  have hmac: "EmailHMAC e w1 (pq_Mail q) = ?hmac" by (simp add: EmailHMAC_def w1_def)
  have "list_ex (\<lambda>(u, r). named e (pq_Mail q) ?hmac r \<and> au_SHA r \<noteq> hash) (auth_tbl w)"
    using assms(9-11) by (auto simp: list_ex_iff)
  then have "UpdatePassword e (pq_Mail q) ?hmac hash w1 = (Inr (), w2)"
    using calm by (simp add: UpdatePassword_def calm_not_failing w2_def w1_def)
  then have "ResetPassword e u ?in (w\<lparr>limiters := l, ex_regs := x\<rparr>) = drop_after_reset u w2"
    using hmac assms(5-8)
    by (simp add: ResetPassword_def HashPassword_def random_bytes_def Let_def flip: w1_def)
  then have "ResetPass e (Inr q) w = (case drop_after_reset u w2 of
      (Inl err, w) \<Rightarrow> reply_error 400 (err_text err) w | (Inr _, w) \<Rightarrow> reply 200 [] w)"
    using assms(1) pw by (simp add: ResetPass_def)
  moreover have "auth_tbl w2 = map (\<lambda>(u, r). (u, ?new r)) (auth_tbl w)" by (simp add: w2_def)
  ultimately show ?thesis using calm by blast
qed

text \<open>Nothing happens after the update for a user without a master key, or without an account.\<close>

lemma drop_without_key:
  assumes "calm w" and "\<And>a. map_of (auth_tbl w) u = Some a \<Longrightarrow> au_MasterKey a = None"
  shows "snd (drop_after_reset u w) = drawn w"
  using assms by (auto simp: drop_after_reset_def GetMasterKeyData_def get_auth_def calm_not_failing split: option.split)

text \<open>C14: whoever holds a valid token, for whichever account, sets the password of the account whose address the
  request names. The token is checked and its user handed on, but the update looks only at the address. Here the
  caller has no master key, so the reset ends well.
\<close>

theorem any_token_resets_any_password:
  fixes w :: "'a web2_st_scheme"
  assumes "ParseAuthToken e (pq_Token q) w = Inr (u, r)"
    and "xw_allow e (case map_of (limiters w) r of None \<Rightarrow> [] | Some ts \<Rightarrow> ts) (now w)"
    and "fst (DecryptPassword e r (pq_Pass q) w) = Some (Inr pass)" and "calm w"
    and "xe_bcrypt e (c_rand (se_crypto e) (rnd_pos w) 16) pass = Inr hash" and "hash \<noteq> []"
    and "pq_Mail q \<noteq> []" and "pq_RawMasterKey q = []"
    and "(v, victim) \<in> set (auth_tbl w)" and "named e (pq_Mail q) (EmailHMAC e w (pq_Mail q)) victim"
    and "au_SHA victim \<noteq> hash"
    and "map_of (auth_tbl w) u = Some caller" and "au_MasterKey caller = None"
  shows "status (ResetPass e (Inr q) w) = 200
    \<and> (v, victim\<lparr>au_SHA := hash\<rparr>) \<in> set (auth_tbl (snd (ResetPass e (Inr q) w)))"
proof -
  obtain w2 where w2: "calm w2"
      "auth_tbl w2 = map (\<lambda>(u, a). (u, if named e (pq_Mail q) (EmailHMAC e w (pq_Mail q)) a then a\<lparr>au_SHA := hash\<rparr> else a))
        (auth_tbl w)"
      "ResetPass e (Inr q) w = (case drop_after_reset u w2 of
        (Inl err, w) \<Rightarrow> reply_error 400 (err_text err) w | (Inr _, w) \<Rightarrow> reply 200 [] w)"
    using reset_updates_by_address [OF assms(1-11)] by blast
  have "\<exists>a. map_of (auth_tbl w2) u = Some a \<and> au_MasterKey a = None"
    using assms(12,13) by (simp add: w2(2) map_of_map)
  then have "drop_after_reset u w2 = (Inr (), drawn w2)"
    using w2(1) by (auto simp: drop_after_reset_def GetMasterKeyData_def get_auth_def calm_not_failing)
  moreover have "(v, victim\<lparr>au_SHA := hash\<rparr>) \<in> set (auth_tbl w2)" using assms(9,10) by (force simp: w2(2))
  ultimately show ?thesis by (simp add: w2(3) drawn_def)
qed

section \<open>A lost master key\<close>

definition fewer :: "nat \<Rightarrow> 'a env_scheme \<Rightarrow> 'a env_scheme" where
  "fewer n w = w\<lparr>faults := drop n (faults w)\<rparr>"

lemma fewer_simps: "drawn w = fewer 1 w" "fewer n (fewer m w) = fewer (n + m) w" "calm w \<Longrightarrow> calm (fewer n w)"
  by (simp_all add: fewer_def drawn_def drop_Suc calm_def list_all_iff) (meson in_set_dropD)

lemma fewer_none: "fewer 0 w = w"
  by (simp add: fewer_def)

lemma statements_state: "\<exists>n. snd (run_statements qs t w) = fewer n w"
proof (induction qs arbitrary: t w)
  case Nil
  show ?case by (rule exI [of _ 0]) (simp add: fewer_none)
next
  case (Cons q qs)
  show ?case
  proof (cases "q t")
    case (Inl err)
    then show ?thesis by (auto intro: exI [of _ 1] simp: fewer_simps(1))
  next
    case (Inr t')
    obtain n where n: "snd (run_statements qs t' (drawn w)) = fewer n (drawn w)" using Cons.IH by blast
    show ?thesis
    proof (cases "failing w")
      case True
      then show ?thesis by (auto intro: exI [of _ 1] simp: fewer_simps(1))
    next
      case False
      then have "snd (run_statements (q # qs) t w) = fewer (n + 1) w" using Inr n by (simp add: fewer_simps(1,2))
      then show ?thesis by blast
    qed
  qed
qed

lemma bot_blocks_deletion:
  assumes "(i, b) \<in> set (tgbots t)" and "bo_user b = u" and "calm w"
  shows "\<exists>err. fst (run_statements (delete_statements u) t w) = Inl err"
proof -
  have "list_ex (\<lambda>(i, r). bo_user r = u) (tgbots t)" using assms(1,2) by (auto simp: list_ex_iff)
  then show ?thesis using assms(3) by (simp add: delete_statements_def null_auth_def calm_not_failing calm_drawn)
qed

lemma deletion_refused:
  assumes "(i, b) \<in> set (tgbots w)" and "bo_user b = u" and "calm w" and "u \<noteq> 0"
  shows "\<exists>err n. DeleteEncryptedUserData u w = (Inl err, fewer n w)"
proof -
  obtain r w1 where r: "run_statements (delete_statements u) (drawn w) (drawn w) = (r, w1)" by force
  obtain err where "r = Inl err"
    using bot_blocks_deletion [of i b "drawn w" u "drawn w"] assms calm_drawn [OF assms(3)] r by auto
  moreover obtain n where "w1 = fewer n (drawn w)"
    using statements_state [of "delete_statements u" "drawn w" "drawn w"] r by auto
  then have "w1 = fewer (n + 1) w" by (simp add: fewer_simps(1,2))
  ultimately show ?thesis using assms(3,4) r by (auto simp: DeleteEncryptedUserData_def calm_not_failing)
qed

lemma fewer_fields:
  fixes w :: "'a acct_st_scheme"
  shows "auth_tbl (fewer n w) = auth_tbl w" "ex_mks (fewer n w) = ex_mks w" "view e mk (fewer n w) = view e mk w"
  by (simp_all add: fewer_def view_def)

text \<open>A user with a Telegram bot reports the master key lost. The stored key is erased first; the deletion of what
  it encrypts is then refused, as the bot's credential must not become null, and the request ends in an error. The
  account now looks as if it never had a key, while every encrypted value is still there and the process goes on
  handing out the old key.
\<close>

theorem lost_key_reset_stops_halfway:
  assumes "calm w" and "u \<noteq> 0" and "(i, b) \<in> set (tgbots w)" and "bo_user b = u"
  shows "\<exists>err w'. RewrapOrReset e u resp [] newPass w = (Some (Inl err), w')
    \<and> fst (GetMasterKeyData u w') = Inr None \<and> view e mk w' = view e mk w \<and> GetMasterKey u w' = GetMasterKey u w"
proof -
  define f where "f = (\<lambda>r::auth_row. r\<lparr>au_MasterKey := None, au_WrapSalt := None\<rparr>)"
  define w1 where "w1 = (drawn w)\<lparr>auth_tbl := upd u f (auth_tbl w)\<rparr>"
  have c: "ClearMasterKey u w = (Inr (), w1)"
    using assms(1) by (simp add: ClearMasterKey_def set_auth_def calm_not_failing w1_def f_def)
  have calm: "calm w1" using calm_drawn [OF assms(1)] by (simp add: w1_def calm_def)
  have "(i, b) \<in> set (tgbots w1)" using assms(3) by (simp add: w1_def)
  from deletion_refused [OF this assms(4) calm assms(2)] obtain err n where
    d: "DeleteEncryptedUserData u w1 = (Inl err, fewer n w1)" by blast
  let ?w = "fewer n w1"
  have "RewrapOrReset e u resp [] newPass w = (Some (Inl (Wrap ''deleting the encrypted data'' err)), ?w)"
    by (simp add: RewrapOrReset_def c d)
  moreover have "fst (GetMasterKeyData u ?w) = Inr None"
  proof -
    have "map_of (upd u f (auth_tbl w)) u = map_option f (map_of (auth_tbl w) u)"
      by (auto simp: upd_def update_conv' split: option.split)
    then show ?thesis using fewer_simps(3) [OF calm, of n]
      by (cases "map_of (auth_tbl w) u")
        (simp_all add: GetMasterKeyData_def get_auth_def calm_not_failing fewer_fields w1_def f_def)
  qed
  moreover have "view e mk ?w = view e mk w"
    unfolding fewer_fields by (simp add: w1_def drawn_def view_def)
  moreover have "GetMasterKey u ?w = GetMasterKey u w"
    by (simp add: GetMasterKey_def fewer_fields) (simp add: w1_def drawn_def)
  ultimately show ?thesis by blast
qed

end
