(* ===== verification/AppConfigProps.thy ===== *)
theory AppConfigProps
  imports AppConfig
begin

text \<open>What the settings keep: values read back, stay sealed, and survive a change of the master key.\<close>

section \<open>Sealed values\<close>

lemma encrypt_state:
  assumes "encryptAppConfigValue e mk v w = (r, w')"
  shows "\<exists>n. w' = w\<lparr>rnd_pos := n\<rparr>"
proof -
  obtain t w1 where s: "seal_text (se_crypto e) (deriveAppConfigAESKey e mk) v w = (t, w1)"
    by (cases "seal_text (se_crypto e) (deriveAppConfigAESKey e mk) v w")
  then show ?thesis using assms seal_text_state [OF s] by (auto simp: encryptAppConfigValue_def split: sum.splits)
qed

interpretation cfg: sealed_column "\<lambda>(e, mk). encryptAppConfigValue e mk" "\<lambda>(e, mk). decryptAppConfigValue e mk"
  "\<lambda>(e, mk). good_crypto (se_crypto e)" appConfigEncPrefix
proof (unfold_locales, goal_cases)
  case (1 x v s t s')
  then show ?case by (auto simp: encryptAppConfigValue_def split: prod.splits sum.splits)
next
  case (2 x v s t s')
  then show ?case
    by (auto simp: encryptAppConfigValue_def decryptAppConfigValue_def dest: seal_then_open split: prod.splits sum.splits)
qed

lemma encrypt_works:
  assumes "good_crypto (se_crypto e)"
  shows "\<exists>t w'. encryptAppConfigValue e mk v w = (Inr t, w')"
proof -
  have "aes_key (deriveAppConfigAESKey e mk)"
    using assms by (simp add: good_crypto_def aes_key_def deriveAppConfigAESKey_def)
  from seal_works [OF assms this, of v w] show ?thesis by (auto simp: encryptAppConfigValue_def)
qed

lemma master_cases: "loadCurrentAppMasterKey e = (if se_master e = [] then Inr None else Inr (Some (se_master e)))"
  by (simp add: loadCurrentAppMasterKey_def)

text \<open>What a table says of a key under a master key.\<close>

definition setting :: "settings_env \<Rightarrow> string \<Rightarrow> (string \<times> string) list \<Rightarrow> string \<Rightarrow> go_err + string" where
  "setting e mk t k =
     (case map_of t k of None \<Rightarrow> Inr [] | Some v \<Rightarrow> decodeAppConfigValue (e\<lparr>se_master := mk\<rparr>) k v)"

lemma Get_setting:
  assumes "\<not> failing w"
  shows "GetAppConfig e k w = (case setting e (se_master e) (app_tbl w) k of
      Inl err \<Rightarrow> (Inl (Wrap ''GetAppConfig'' err), drawn w) | Inr v \<Rightarrow> (Inr v, drawn w))"
  using assms by (simp add: GetAppConfig_def setting_def split: option.splits sum.splits)

lemma decrypt_master [simp]: "decryptAppConfigValue (e\<lparr>se_master := m\<rparr>) = decryptAppConfigValue e"
  by (simp add: fun_eq_iff decryptAppConfigValue_def deriveAppConfigAESKey_def)

lemma not_sealed_Nil [simp]: "\<not> isEncryptedAppConfigValue []"
  by (simp add: isEncryptedAppConfigValue_def appConfigEncPrefix_def)

lemma app_tbl_frames [simp]:
  "calm (w\<lparr>app_tbl := t\<rparr>) = calm w" "failing (w\<lparr>app_tbl := t\<rparr>) = failing w" "now (w\<lparr>app_tbl := t\<rparr>) = now w"
  by (simp_all add: calm_def failing_def)

lemma drawn_app [simp]: "app_tbl (drawn w) = app_tbl w" "failing (drawn (w\<lparr>rnd_pos := n\<rparr>)) = failing (drawn w)"
  by (simp_all add: drawn_def failing_def)

lemma decode_sealed:
  "isEncryptedAppConfigValue v \<Longrightarrow> mk \<noteq> [] \<Longrightarrow> decodeAppConfigValue (e\<lparr>se_master := mk\<rparr>) k v = decryptAppConfigValue e mk v"
  by (auto simp: decodeAppConfigValue_def isEncryptedAppConfigValue_def appConfigEncPrefix_def master_cases)

lemma decode_plain: "\<not> isEncryptedAppConfigValue v \<Longrightarrow> decodeAppConfigValue e k v = Inr v"
  by (simp add: decodeAppConfigValue_def)

section \<open>Writing and reading back\<close>

lemma prepare_decodes:
  assumes "good_crypto (se_crypto e)" and "\<not> isEncryptedAppConfigValue v"
  shows "\<exists>s n. prepareAppConfigValueForStorage e k v w = (Inr s, w\<lparr>rnd_pos := n\<rparr>)
    \<and> decodeAppConfigValue e k s = Inr v \<and> (must_encrypt k v \<and> se_master e \<noteq> [] \<longrightarrow> isEncryptedAppConfigValue s)"
proof (cases "must_encrypt k v \<and> se_master e \<noteq> []")
  case True
  obtain t w' where t: "encryptAppConfigValue e (se_master e) v w = (Inr t, w')"
    using encrypt_works [OF assms(1)] by blast
  moreover obtain n where "w' = w\<lparr>rnd_pos := n\<rparr>" using encrypt_state [OF t] by blast
  moreover have "isEncryptedAppConfigValue t"
    using cfg.tagged [of "(e, se_master e)"] t by (auto simp: isEncryptedAppConfigValue_def)
  moreover have "decryptAppConfigValue e (se_master e) t = Inr v"
    using cfg.unseals [of "(e, se_master e)"] assms(1) t by auto
  ultimately show ?thesis
    using True assms(2)
    by (auto simp: prepareAppConfigValueForStorage_def must_encrypt_def master_cases decodeAppConfigValue_def)
next
  case False
  have "w = w\<lparr>rnd_pos := rnd_pos w\<rparr>" by simp
  then have "prepareAppConfigValueForStorage e k v w = (Inr v, w\<lparr>rnd_pos := rnd_pos w\<rparr>)"
    using False assms(2) by (auto simp: prepareAppConfigValueForStorage_def must_encrypt_def master_cases)
  then show ?thesis using False assms(2) decode_plain by blast
qed

text \<open>A setting that was written reads back as it was given, sealed in the table when its key is
  sensitive and a master key is present, and no other setting changes.\<close>
theorem app_config_roundtrip:
  assumes "calm w" and "good_crypto (se_crypto e)" and "\<not> isEncryptedAppConfigValue v"
  shows "\<exists>w'. SetAppConfig e k v w = (Inr (), w') \<and> fst (GetAppConfig e k w') = Inr v
    \<and> (\<forall>j. j \<noteq> k \<longrightarrow> fst (GetAppConfig e j w') = fst (GetAppConfig e j w))
    \<and> (must_encrypt k v \<and> se_master e \<noteq> [] \<longrightarrow> (\<exists>s. map_of (app_tbl w') k = Some s \<and> isEncryptedAppConfigValue s))"
proof -
  obtain s n where p: "prepareAppConfigValueForStorage e k v w = (Inr s, w\<lparr>rnd_pos := n\<rparr>)"
      "decodeAppConfigValue e k s = Inr v" "must_encrypt k v \<and> se_master e \<noteq> [] \<longrightarrow> isEncryptedAppConfigValue s"
    using prepare_decodes [OF assms(2,3)] by blast
  let ?w = "(drawn (w\<lparr>rnd_pos := n\<rparr>))\<lparr>app_tbl := AList.update k s (app_tbl w)\<rparr>"
  have f: "\<not> failing w" "\<not> failing ?w"
    using assms(1) by (simp_all add: calm_not_failing calm_drawn)
  have "SetAppConfig e k v w = (Inr (), ?w)" using p(1) f(1) by (simp add: SetAppConfig_def)
  moreover have "fst (GetAppConfig e k ?w) = Inr v"
    using f(2) p(2) by (simp add: GetAppConfig_def update_conv')
  moreover have "j \<noteq> k \<longrightarrow> fst (GetAppConfig e j ?w) = fst (GetAppConfig e j w)" for j
    using f by (simp add: GetAppConfig_def update_conv' split: option.splits sum.splits)
  ultimately show ?thesis using p(3) by (auto simp: update_conv')
qed

section \<open>Changing the master key\<close>

text \<open>The rows a rekeying collects, and what a collected item says of its row.\<close>

definition rekeyed :: "string \<times> string \<Rightarrow> bool" where
  "rekeyed r = (isSensitiveAppConfigKey (fst r) \<and> snd r \<noteq> [])"

definition item_of :: "settings_env \<Rightarrow> string \<Rightarrow> string \<times> string \<Rightarrow> rekey_item \<Rightarrow> bool" where
  "item_of e old r it = (rk_key it = fst r
     \<and> (if isEncryptedAppConfigValue (snd r) then decryptAppConfigValue e old (snd r) else Inr (snd r))
         = Inr (rk_plaintext it))"

lemma collect_items:
  "rekey_collect e old new rows w = (Inr us, w') \<Longrightarrow> list_all2 (item_of e old) (filter rekeyed rows) us"
  by (induction e old new rows w arbitrary: us rule: rekey_collect.induct)
    (auto simp: rekeyed_def item_of_def split: if_splits sum.splits prod.splits)

lemma collect_state: "rekey_collect e old new rows w = (r, w') \<Longrightarrow> \<exists>n. w' = w\<lparr>rnd_pos := n\<rparr>"
proof (induction e old new rows w arbitrary: r rule: rekey_collect.induct)
  case (1 e old new w)
  then show ?case by (metis rand_st.surjective rand_st.update_convs(1) rekey_collect.simps(1) snd_conv)
next
  case (2 e old new k v rows w)
  show ?case
  proof (cases "\<not> isSensitiveAppConfigKey k \<or> v = []")
    case True
    then show ?thesis using 2 by auto
  next
    case False
    show ?thesis
    proof (cases "if isEncryptedAppConfigValue v then decryptAppConfigValue e old v else Inr v")
      case (Inl err)
      then have "w' = w" using 2(3) False by (simp split: if_splits)
      then show ?thesis by (metis rand_st.surjective rand_st.update_convs(1))
    next
      case (Inr p)
      obtain t w1 where t: "encryptAppConfigValue e new p w = (t, w1)" by (cases "encryptAppConfigValue e new p w")
      obtain n where n: "w1 = w\<lparr>rnd_pos := n\<rparr>" using encrypt_state [OF t] by blast
      show ?thesis
        using 2(3) False Inr t n 2(2) [OF False Inr t [symmetric]]
        by (fastforce split: sum.splits prod.splits simp del: if_split)
    qed
  qed
qed

lemma map_of_update_value:
  "map_of (update_value k v t) j = (if j = k then map_option (\<lambda>_. v) (map_of t j) else map_of t j)"
  by (induction t) (auto simp: update_value_def)

lemma rekey_row_done:
  assumes "rekey_row e new it t w = (Inr t', w')"
  shows "t' = update_value (rk_key it) (rk_newValue it) t \<and> isEncryptedAppConfigValue (rk_newValue it)
    \<and> map_of t' (rk_key it) = Some (rk_newValue it)
    \<and> decryptAppConfigValue e new (rk_newValue it) = Inr (rk_plaintext it)"
  using assms
  by (auto simp: rekey_row_def Let_def map_of_update_value split: if_splits option.splits sum.splits)

lemma rekey_rows_done:
  assumes "rekey_rows e new us t w = (Inr t', w')" and "distinct (map rk_key us)"
  shows "(k \<notin> rk_key ` set us \<longrightarrow> map_of t' k = map_of t k)
    \<and> (it \<in> set us \<longrightarrow> (\<exists>s. map_of t' (rk_key it) = Some s \<and> isEncryptedAppConfigValue s
          \<and> decryptAppConfigValue e new s = Inr (rk_plaintext it)))"
  using assms
proof (induction e new us t w arbitrary: k it rule: rekey_rows.induct)
  case (2 e new jt its t w)
  obtain r w1 where r: "rekey_row e new jt t w = (r, w1)" by (cases "rekey_row e new jt t w")
  with 2(2) obtain t1 where t1: "r = Inr t1" by (cases r) auto
  note row = rekey_row_done [OF r [unfolded t1]]
  have rest: "rekey_rows e new its t1 w1 = (Inr t', w')" using 2(2) r t1 by simp
  note IH = 2(1) [OF r [symmetric] t1 rest]
  show ?case using IH [where k = k and it = it] IH [where k = "rk_key jt"] row 2(3)
    by (auto simp: map_of_update_value)
qed auto

text \<open>The environment operations only draw failures.\<close>

definition only_draws :: "'a env_scheme \<Rightarrow> 'a env_scheme \<Rightarrow> bool" where
  "only_draws w v = (\<exists>f. v = w\<lparr>faults := f\<rparr>)"

lemma only_draws_intros [simp, intro]: "only_draws w w" "only_draws w (drawn w)"
  by (auto simp: only_draws_def drawn_def intro: exI [of _ "faults w"])

lemma only_draws_trans [trans]: "only_draws w v \<Longrightarrow> only_draws v x \<Longrightarrow> only_draws w x"
  by (auto simp: only_draws_def)

lemma only_draws_tbl: "only_draws w v \<Longrightarrow> app_tbl v = app_tbl w"
  by (auto simp: only_draws_def)

lemma rekey_row_draws: "rekey_row e new it t w = (r, w') \<Longrightarrow> only_draws w w'"
  using only_draws_trans [OF only_draws_intros(2) only_draws_intros(2), of w]
  by (auto simp: rekey_row_def Let_def split: if_splits option.splits sum.splits)

lemma rekey_rows_draws: "rekey_rows e new us t w = (r, w') \<Longrightarrow> only_draws w w'"
proof (induction e new us t w rule: rekey_rows.induct)
  case (2 e new it its t w)
  obtain q w1 where q: "rekey_row e new it t w = (q, w1)" by (cases "rekey_row e new it t w")
  note d = rekey_row_draws [OF q]
  show ?case
  proof (cases q)
    case (Inl err)
    then show ?thesis using 2(2) q d by simp
  next
    case (Inr t1)
    then show ?thesis using 2(1) [OF q [symmetric] Inr] 2(2) q only_draws_trans [OF d] by simp
  qed
qed simp

lemma tx_end_draws: "tx_end what r w = (q, w') \<Longrightarrow> only_draws w w'"
  by (auto simp: tx_end_def split: if_splits)

lemma tx_end_result: "tx_end what r w = (Inr q, w') \<Longrightarrow> q = r"
  by (auto simp: tx_end_def split: if_splits)

text \<open>
  The two outcomes of the transaction: nothing has changed, or every collected row is written under the
  new key.
\<close>

definition rekey_effect :: "settings_env \<Rightarrow> string \<Rightarrow> string \<Rightarrow> (string \<times> string) list \<Rightarrow> (string \<times> string) list \<Rightarrow> bool" where
  "rekey_effect e old new t t' = (\<exists>us. list_all2 (item_of e old) (filter rekeyed t) us
     \<and> (\<forall>k. k \<notin> rk_key ` set us \<longrightarrow> map_of t' k = map_of t k)
     \<and> (\<forall>it\<in>set us. \<exists>s. map_of t' (rk_key it) = Some s \<and> isEncryptedAppConfigValue s
          \<and> decryptAppConfigValue e new s = Inr (rk_plaintext it)))"

lemma item_keys: "list_all2 (item_of e old) rows us \<Longrightarrow> map rk_key us = map fst rows"
  by (induction rule: list_all2_induct) (auto simp: item_of_def)

lemma rekey_tx_cases:
  assumes "rekey_tx e old new dry w = (r, w')" and "distinct (map fst (app_tbl w))"
  shows "if is_ok r \<and> \<not> dry then rekey_effect e old new (app_tbl w) (app_tbl w') else app_tbl w' = app_tbl w"
proof -
  obtain q w1 where c: "rekey_collect e old new (app_tbl w) w = (q, w1)"
    by (cases "rekey_collect e old new (app_tbl w) w")
  have t1: "app_tbl w1 = app_tbl w" using collect_state [OF c] by auto
  show ?thesis
  proof (cases q)
    case (Inl err)
    then show ?thesis using assms(1) c t1 by (auto simp: rekey_tx_def is_ok_def)
  next
    case (Inr us)
    note items = collect_items [OF c [unfolded Inr]]
    have dist: "distinct (map rk_key us)"
      using item_keys [OF items] assms(2) by (simp add: distinct_map_filter)
    let ?res = "\<lparr>rk_Count = length us, rk_Keys = map rk_key us, rk_DryRun = dry\<rparr>"
    consider (rows) "failing w1" | (empty) "\<not> failing w1" "us = []" | (dry) "\<not> failing w1" "us \<noteq> []" dry
      | (real) "\<not> failing w1" "us \<noteq> []" "\<not> dry" by blast
    then show ?thesis
    proof cases
      case rows
      then show ?thesis using assms(1) c Inr t1 by (auto simp: rekey_tx_def is_ok_def)
    next
      case empty
      then have "\<exists>what. tx_end what ?res (drawn w1) = (r, w')"
        using assms(1) c Inr by (auto simp: rekey_tx_def Let_def)
      then have "app_tbl w' = app_tbl w" using only_draws_tbl [OF tx_end_draws] t1 by fastforce
      then show ?thesis using items empty(2) by (auto simp: rekey_effect_def)
    next
      case dry
      then have "\<exists>what. tx_end what ?res (drawn w1) = (r, w')"
        using assms(1) c Inr by (auto simp: rekey_tx_def Let_def)
      then have "app_tbl w' = app_tbl w" using only_draws_tbl [OF tx_end_draws] t1 by fastforce
      then show ?thesis using dry(3) by simp
    next
      case real
      obtain p w2 where p: "rekey_rows e new us (app_tbl w1) (drawn w1) = (p, w2)"
        by (cases "rekey_rows e new us (app_tbl w1) (drawn w1)")
      have t2: "app_tbl w2 = app_tbl w" using only_draws_tbl [OF rekey_rows_draws [OF p]] t1 by simp
      show ?thesis
      proof (cases p)
        case (Inl err)
        then show ?thesis using assms(1) c Inr real p t2 by (auto simp: rekey_tx_def Let_def is_ok_def)
      next
        case pr: (Inr t)
        obtain f w3 where f: "tx_end ''RekeyAppConfigSensitiveValues commit'' ?res w2 = (f, w3)"
          by (cases "tx_end ''RekeyAppConfigSensitiveValues commit'' ?res w2")
        have t3: "app_tbl w3 = app_tbl w" using only_draws_tbl [OF tx_end_draws [OF f]] t2 by simp
        have "rekey_effect e old new (app_tbl w) t"
          using items rekey_rows_done [OF p [unfolded pr] dist] t1 unfolding rekey_effect_def by auto
        then show ?thesis
          using assms(1) c Inr real p pr f t3
          by (cases f) (auto simp: rekey_tx_def Let_def is_ok_def)
      qed
    qed
  qed
qed

lemma all2_member: "list_all2 P xs ys \<Longrightarrow> x \<in> set xs \<Longrightarrow> \<exists>y\<in>set ys. P x y"
  by (induction rule: list_all2_induct) auto

lemma effect_settings:
  assumes "rekey_effect e old new t t'" and "distinct (map fst t)" and "old \<noteq> []" and "new \<noteq> []"
  shows "isSensitiveAppConfigKey k \<Longrightarrow> setting e new t' k = setting e old t k"
    and "\<not> isSensitiveAppConfigKey k \<Longrightarrow> map_of t' k = map_of t k"
    and "must_encrypt k v \<Longrightarrow> map_of t' k \<noteq> Some v"
proof -
  from assms(1) obtain us where us: "list_all2 (item_of e old) (filter rekeyed t) us"
      "\<And>k. k \<notin> rk_key ` set us \<Longrightarrow> map_of t' k = map_of t k"
      "\<And>it. it \<in> set us \<Longrightarrow> \<exists>s. map_of t' (rk_key it) = Some s \<and> isEncryptedAppConfigValue s
          \<and> decryptAppConfigValue e new s = Inr (rk_plaintext it)"
    unfolding rekey_effect_def by blast
  have keys: "rk_key ` set us = fst ` set (filter rekeyed t)"
    using item_keys [OF us(1)] by (metis list.set_map)
  have other: "map_of t' k = map_of t k" if "\<not> (\<exists>v. map_of t k = Some v \<and> rekeyed (k, v))" for k
    using us(2) [of k] that keys assms(2) by (force simp: map_of_eq_Some_iff)
  have hit: "\<exists>it s. item_of e old (k, v) it \<and> map_of t' k = Some s \<and> isEncryptedAppConfigValue s
      \<and> decryptAppConfigValue e new s = Inr (rk_plaintext it)" if "map_of t k = Some v" "rekeyed (k, v)" for k v
  proof -
    have "(k, v) \<in> set (filter rekeyed t)" using that map_of_SomeD by force
    from all2_member [OF us(1) this] obtain it where it: "it \<in> set us" "item_of e old (k, v) it" by blast
    moreover from this(2) have "rk_key it = k" by (simp add: item_of_def)
    ultimately show ?thesis using us(3) [OF it(1)] by blast
  qed
  show "setting e new t' k = setting e old t k" if sens: "isSensitiveAppConfigKey k"
  proof (cases "map_of t k")
    case None
    then show ?thesis using other [of k] by (simp add: setting_def)
  next
    case (Some v)
    show ?thesis
    proof (cases "v = []")
      case True
      then show ?thesis using other [of k] Some by (simp add: setting_def rekeyed_def decode_plain)
    next
      case False
      then obtain it s where "item_of e old (k, v) it" "map_of t' k = Some s" "isEncryptedAppConfigValue s"
          "decryptAppConfigValue e new s = Inr (rk_plaintext it)"
        using hit [OF Some] sens by (auto simp: rekeyed_def)
      then show ?thesis
        using Some assms(3,4) by (auto simp: setting_def decode_sealed decode_plain item_of_def split: if_splits)
    qed
  qed
  show "map_of t' k = map_of t k" if "\<not> isSensitiveAppConfigKey k"
    using other [of k] that by (simp add: rekeyed_def)
  show "map_of t' k \<noteq> Some v" if "must_encrypt k v"
  proof
    assume v: "map_of t' k = Some v"
    show False
    proof (cases "\<exists>u. map_of t k = Some u \<and> rekeyed (k, u)")
      case True
      then obtain u where "map_of t k = Some u" "rekeyed (k, u)" by blast
      from hit [OF this] v that show ?thesis by (auto simp: must_encrypt_def)
    next
      case False
      then show ?thesis using other [OF False] v that by (auto simp: must_encrypt_def rekeyed_def)
    qed
  qed
qed

lemma new_key_nonempty: "loadNewAppMasterKey e = Inr (Some new) \<Longrightarrow> new \<noteq> []"
  by (auto simp: loadNewAppMasterKey_def new_key_variable_def Let_def split: if_splits sum.splits)

text \<open>C7: Rekeying refines the identity on settings. When it succeeds outside a dry run, every sensitive
  setting read with the new key is what it was with the old key, no sensitive row is left plain, and the
  other rows are untouched; in every other case, whatever call has failed, the table is unchanged.\<close>
theorem rekey_preserves_settings:
  assumes "RekeyAppConfigSensitiveValues e w = (r, w')" and "distinct (map fst (app_tbl w))"
    and "loadNewAppMasterKey e = Inr (Some new)"
  shows "if is_ok r \<and> \<not> IsAppConfigRekeyDryRun e
    then (\<forall>k. isSensitiveAppConfigKey k \<longrightarrow> setting e new (app_tbl w') k = setting e (se_master e) (app_tbl w) k)
      \<and> (\<forall>k v. must_encrypt k v \<longrightarrow> map_of (app_tbl w') k \<noteq> Some v)
      \<and> (\<forall>k. \<not> isSensitiveAppConfigKey k \<longrightarrow> map_of (app_tbl w') k = map_of (app_tbl w) k)
    else app_tbl w' = app_tbl w"
proof (cases "is_ok (ValidateAppConfigRekeyConfig e) \<and> \<not> failing w \<and> \<not> failing (drawn w)")
  case False
  have "app_tbl w' = app_tbl w \<and> \<not> is_ok r"
    using False assms(1,3)
    by (cases "ValidateAppConfigRekeyConfig e")
      (auto simp: RekeyAppConfigSensitiveValues_def master_cases split: if_splits)
  then show ?thesis by simp
next
  case True
  then have old: "se_master e \<noteq> []"
    using assms(3) by (auto simp: ValidateAppConfigRekeyConfig_def master_cases is_ok_def split: if_splits)
  have "rekey_tx e (se_master e) new (IsAppConfigRekeyDryRun e) (drawn (drawn w)) = (r, w')"
    using True assms(1,3) old
    by (cases "ValidateAppConfigRekeyConfig e") (auto simp: RekeyAppConfigSensitiveValues_def master_cases)
  from rekey_tx_cases [OF this, unfolded drawn_app(1), OF assms(2)] have "if is_ok r \<and> \<not> IsAppConfigRekeyDryRun e
      then rekey_effect e (se_master e) new (app_tbl w) (app_tbl w') else app_tbl w' = app_tbl w" .
  then show ?thesis
    using effect_settings [OF _ assms(2) old new_key_nonempty [OF assms(3)]] by (auto split: if_splits)
qed

section \<open>No plain secrets\<close>

definition all_sealed :: "(string \<times> string) list \<Rightarrow> bool" where
  "all_sealed t = (\<forall>k v. map_of t k = Some v \<longrightarrow> \<not> must_encrypt k v)"

lemma sealed_not_plain: "isEncryptedAppConfigValue v \<Longrightarrow> \<not> must_encrypt k v"
  by (simp add: must_encrypt_def)

lemma encrypt_sealed: "encryptAppConfigValue e mk v w = (Inr t, w') \<Longrightarrow> isEncryptedAppConfigValue t"
  using cfg.tagged [of "(e, mk)"] by (auto simp: isEncryptedAppConfigValue_def)

lemma updates_cover:
  assumes "encrypt_updates e mk rows w = (Inr us, w')"
  shows "(k, v) \<in> set us \<Longrightarrow> isEncryptedAppConfigValue v"
    and "(k, v) \<in> set rows \<Longrightarrow> must_encrypt k v \<Longrightarrow> k \<in> fst ` set us"
  using assms
  by (induction e mk rows w arbitrary: us rule: encrypt_updates.induct)
    (auto dest: encrypt_sealed split: if_splits sum.splits prod.splits)

lemma write_updates_sealed:
  assumes "write_updates us t w = (Inr t', w')" and "\<forall>(k, v)\<in>set us. isEncryptedAppConfigValue v"
    and "map_of t' k = Some v"
  shows "isEncryptedAppConfigValue v \<or> (k \<notin> fst ` set us \<and> map_of t k = Some v)"
  using assms
  by (induction us t w rule: write_updates.induct)
    (auto simp: map_of_update_value split: if_splits)

lemma write_updates_draws: "write_updates us t w = (r, w') \<Longrightarrow> only_draws w w'"
proof (induction us t w rule: write_updates.induct)
  case (2 k v us t w)
  show ?case
  proof (cases "failing w")
    case True
    then show ?thesis using 2(2) by auto
  next
    case False
    then show ?thesis using 2 only_draws_trans [OF only_draws_intros(2), of w w'] by simp
  qed
qed simp

lemma encrypt_updates_tbl:
  "encrypt_updates e mk rows w = (r, w') \<Longrightarrow> app_tbl w' = app_tbl w"
proof (induction e mk rows w arbitrary: r rule: encrypt_updates.induct)
  case (2 e mk k v rows w)
  show ?case
  proof (cases "must_encrypt k v")
    case True
    obtain t w1 where t: "encryptAppConfigValue e mk v w = (t, w1)" by (cases "encryptAppConfigValue e mk v w")
    have "app_tbl w1 = app_tbl w" using encrypt_state [OF t] by auto
    then show ?thesis
      using 2(3) True t 2(2) [OF _ t [symmetric]] by (fastforce split: sum.splits prod.splits)
  next
    case False
    then show ?thesis using 2 by simp
  qed
qed simp

lemma startup_seals:
  assumes "EncryptAppConfigSensitiveValues e w = (Inr (), w')" and "se_master e \<noteq> []"
  shows "all_sealed (app_tbl w')"
proof -
  have nf: "\<not> failing w" using assms by (auto simp: EncryptAppConfigSensitiveValues_def master_cases split: if_splits)
  obtain q w1 where q: "encrypt_updates e (se_master e) (app_tbl w) (drawn w) = (q, w1)"
    by (cases "encrypt_updates e (se_master e) (app_tbl w) (drawn w)")
  then obtain us where us: "q = Inr us" using assms nf
    by (cases q) (auto simp: EncryptAppConfigSensitiveValues_def master_cases)
  note cover = updates_cover [OF q [unfolded us]]
  have t1: "app_tbl w1 = app_tbl w" using encrypt_updates_tbl [OF q] by simp
  have old: "k \<in> fst ` set us" if "map_of (app_tbl w) k = Some v" "must_encrypt k v" for k v
    using cover(2) [OF map_of_SomeD] that by blast
  show ?thesis
  proof (cases "us = []")
    case True
    then have "app_tbl w' = app_tbl w"
      using assms nf q us t1 by (auto simp: EncryptAppConfigSensitiveValues_def master_cases split: if_splits)
    then show ?thesis using old True by (auto simp: all_sealed_def)
  next
    case False
    obtain p w2 where p: "write_updates us (app_tbl w1) (drawn (drawn w1)) = (p, w2)"
      by (cases "write_updates us (app_tbl w1) (drawn (drawn w1))")
    then obtain t where t: "p = Inr t" "app_tbl w' = t"
      using assms nf q us False
      by (cases p) (auto simp: EncryptAppConfigSensitiveValues_def master_cases split: if_splits)
    have "\<not> must_encrypt k v" if "map_of t k = Some v" for k v
      using write_updates_sealed [OF p [unfolded t(1)] _ that] cover(1) old sealed_not_plain t1 by fastforce
    then show ?thesis by (simp add: all_sealed_def t(2))
  qed
qed

text \<open>What the running program does with its settings.\<close>

inductive cfg_step :: "settings_env \<Rightarrow> 'a app_st_scheme \<Rightarrow> 'a app_st_scheme \<Rightarrow> bool" for e where
  set: "cfg_step e w (snd (SetAppConfig e k v w))"
| get: "cfg_step e w (snd (GetAppConfig e k w))"
| get_all: "cfg_step e w (snd (GetAllAppConfig e w))"
| encrypt: "cfg_step e w (snd (EncryptAppConfigSensitiveValues e w))"
| rekey: "cfg_step e w (snd (RekeyAppConfigSensitiveValues e w))"

text \<open>A step under any master key that is set, as a restart after a rekeying brings a new one.\<close>

inductive keyed_step :: "'a app_st_scheme \<Rightarrow> 'a app_st_scheme \<Rightarrow> bool" where
  "se_master e \<noteq> [] \<Longrightarrow> cfg_step e w w' \<Longrightarrow> keyed_step w w'"

lemma prepare_sealed:
  assumes "prepareAppConfigValueForStorage e k v w = (Inr s, w')" and "se_master e \<noteq> []"
  shows "\<not> must_encrypt k s" and "app_tbl w' = app_tbl w"
proof -
  have "\<not> must_encrypt k s \<and> app_tbl w' = app_tbl w"
  proof (cases "must_encrypt k v")
    case True
    then have enc: "encryptAppConfigValue e (se_master e) v w = (Inr s, w')"
      using assms by (auto simp: prepareAppConfigValueForStorage_def must_encrypt_def master_cases)
    show ?thesis using encrypt_sealed [OF enc] encrypt_state [OF enc] by (auto simp: must_encrypt_def)
  next
    case False
    then show ?thesis using assms by (auto simp: prepareAppConfigValueForStorage_def must_encrypt_def split: if_splits)
  qed
  then show "\<not> must_encrypt k s" and "app_tbl w' = app_tbl w" by simp_all
qed

lemma prepare_tbl: "prepareAppConfigValueForStorage e k v w = (r, w') \<Longrightarrow> app_tbl w' = app_tbl w"
  using encrypt_state by (fastforce simp: prepareAppConfigValueForStorage_def split: if_splits sum.splits option.splits)

lemma startup_cases: "EncryptAppConfigSensitiveValues e w = (r, w') \<Longrightarrow> is_ok r \<or> app_tbl w' = app_tbl w"
  by (auto simp: EncryptAppConfigSensitiveValues_def is_ok_def
      dest!: encrypt_updates_tbl write_updates_draws [THEN only_draws_tbl]
      split: sum.splits option.splits if_splits prod.splits)

text \<open>Whatever rekeying writes is sealed, also when it stops halfway or its commit fails.\<close>

lemma update_sealed: "all_sealed t \<Longrightarrow> isEncryptedAppConfigValue v \<Longrightarrow> all_sealed (update_value k v t)"
  by (auto simp: all_sealed_def map_of_update_value sealed_not_plain split: if_splits)

lemma rekey_rows_sealed: "rekey_rows e new us t w = (Inr t', w') \<Longrightarrow> all_sealed t \<Longrightarrow> all_sealed t'"
proof (induction e new us t w rule: rekey_rows.induct)
  case (2 e new it its t w)
  obtain r w1 where r: "rekey_row e new it t w = (r, w1)" by (cases "rekey_row e new it t w")
  with 2(2) obtain t1 where t1: "r = Inr t1" by (cases r) auto
  have "all_sealed t1" using rekey_row_done [OF r [unfolded t1]] update_sealed [OF 2(3)] by auto
  then show ?case using 2(1) [OF r [symmetric] t1] 2(2) r t1 by simp
qed simp

lemma tx_end_tbl: "tx_end what r w = (q, w') \<Longrightarrow> app_tbl w' = app_tbl w"
  by (rule only_draws_tbl [OF tx_end_draws])

lemma rekey_tx_sealed:
  assumes "rekey_tx e old new dry w = (r, w')" and "all_sealed (app_tbl w)"
  shows "all_sealed (app_tbl w')"
proof -
  obtain q w1 where c: "rekey_collect e old new (app_tbl w) w = (q, w1)"
    by (cases "rekey_collect e old new (app_tbl w) w")
  have t1: "app_tbl w1 = app_tbl w" using collect_state [OF c] by auto
  show ?thesis
  proof (cases q)
    case (Inl err)
    then show ?thesis using assms c t1 by (auto simp: rekey_tx_def)
  next
    case (Inr us)
    obtain p w2 where p: "rekey_rows e new us (app_tbl w1) (drawn w1) = (p, w2)"
      by (cases "rekey_rows e new us (app_tbl w1) (drawn w1)")
    have t2: "app_tbl w2 = app_tbl w" using only_draws_tbl [OF rekey_rows_draws [OF p]] t1 by simp
    have t: "p = Inr t \<Longrightarrow> all_sealed t" for t using rekey_rows_sealed p assms(2) t1 by fastforce
    show ?thesis
      using assms c Inr t1 p t2 t
      by (cases p) (auto simp: rekey_tx_def Let_def split: if_splits prod.splits sum.splits dest!: tx_end_tbl)
  qed
qed

lemma rekey_sealed:
  assumes "all_sealed (app_tbl w)"
  shows "all_sealed (app_tbl (snd (RekeyAppConfigSensitiveValues e w)))"
proof -
  have "all_sealed (app_tbl (snd (rekey_tx e old new dry (drawn (drawn w)))))" for old new dry
    using rekey_tx_sealed [of e old new dry "drawn (drawn w)"] assms
    by (cases "rekey_tx e old new dry (drawn (drawn w))") simp
  then show ?thesis using assms
    by (simp add: RekeyAppConfigSensitiveValues_def split: sum.split prod.split)
qed

lemma cfg_step_sealed:
  assumes "cfg_step e w w'" and "all_sealed (app_tbl w)" and "se_master e \<noteq> []"
  shows "all_sealed (app_tbl w')"
  using assms(1)
proof cases
  case (set k v)
  obtain r w1 where p: "prepareAppConfigValueForStorage e k v w = (r, w1)"
    by (cases "prepareAppConfigValueForStorage e k v w")
  show ?thesis
  proof (cases r)
    case (Inl err)
    then show ?thesis using set p prepare_tbl [OF p] assms(2) by (simp add: SetAppConfig_def)
  next
    case (Inr s)
    note pr = prepare_sealed [OF p [unfolded Inr] assms(3)]
    then show ?thesis using set p Inr assms(2)
      by (auto simp: SetAppConfig_def all_sealed_def update_conv')
  qed
next
  case (get k)
  then show ?thesis using assms(2) by (simp add: GetAppConfig_def split: option.splits sum.splits)
next
  case get_all
  then show ?thesis using assms(2) by (simp add: GetAllAppConfig_def split: sum.splits)
next
  case encrypt
  obtain r where r: "EncryptAppConfigSensitiveValues e w = (r, w')" using encrypt by (metis prod.collapse)
  show ?thesis
  proof (cases r)
    case (Inl err)
    then show ?thesis using startup_cases [OF r] assms(2) by simp
  next
    case (Inr u)
    then show ?thesis using startup_seals r assms(3) by simp
  qed
next
  case rekey
  then show ?thesis using rekey_sealed [OF assms(2)] by simp
qed

text \<open>C8: Once the sealing at the start has succeeded, no sequence of reads and writes of settings, of further
  sealings and of rekeyings, with whatever calls failing and under whatever master keys that are set, leaves a
  non-empty value of a sensitive key unsealed in the table.\<close>
theorem settings_stay_sealed:
  assumes "se_master e \<noteq> []" and "EncryptAppConfigSensitiveValues e w = (Inr (), w0)"
    and "keyed_step\<^sup>*\<^sup>* w0 w'" and "must_encrypt k v"
  shows "map_of (app_tbl w') k \<noteq> Some v"
proof -
  have "all_sealed (app_tbl w')"
    using assms(3)
    by (induction rule: rtranclp_induct)
      (use startup_seals [OF assms(2,1)] cfg_step_sealed keyed_step.simps in blast)+
  then show ?thesis using assms(4) by (auto simp: all_sealed_def)
qed

section \<open>A concrete table\<close>

definition toy_env :: settings_env where
  "toy_env = \<lparr>se_crypto = toy_crypto, se_master = ''old1'',
     se_getenv = (\<lambda>v. if v = ''NEW_APP_MASTER_KEY'' then ''new1'' else []), se_readfile = (\<lambda>_. Inr [])\<rparr>"

definition toy_app :: app_st where
  "toy_app = \<lparr>now = 0, faults = [], redis = [], quota_tbl = [], stores = (\<lambda>_. []), etag_fn = (\<lambda>_ d. d),
     url_fn = (\<lambda>_ k _. k), healthy = True, config_tbl = [], locked_notified = [], mig_tbl = [], mig_next = 1,
     mig_running = [], rnd_pos = 0,
     app_tbl = [(''auth.session'', ''s3cret''), (''ui.theme'', ''dark'')]\<rparr>"

definition sealed_app :: app_st where
  "sealed_app = snd (EncryptAppConfigSensitiveValues toy_env toy_app)"

lemma toy_env_fields [simp]: "se_master toy_env = ''old1''" "good_crypto (se_crypto toy_env)"
  by (simp_all add: toy_env_def toy_crypto_good)

theorem app_config_roundtrip_witness:
  "fst (GetAppConfig toy_env ''auth.k'' (snd (SetAppConfig toy_env ''auth.k'' ''v'' toy_app))) = Inr ''v''"
  using app_config_roundtrip [of toy_app toy_env "''v''" "''auth.k''"]
  by (auto simp: toy_app_def calm_def isEncryptedAppConfigValue_def appConfigEncPrefix_def)

lemma toy_sealing: "EncryptAppConfigSensitiveValues toy_env toy_app = (Inr (), sealed_app)"
proof -
  have "fst (EncryptAppConfigSensitiveValues toy_env toy_app) = Inr ()" by code_simp
  then show ?thesis unfolding sealed_app_def by (metis prod.collapse)
qed

theorem settings_stay_sealed_witness:
  "map_of (app_tbl (snd (SetAppConfig toy_env ''smtp.pass'' ''pw'' (snd (RekeyAppConfigSensitiveValues toy_env sealed_app)))))
     ''smtp.pass'' \<noteq> Some ''pw''"
proof (rule settings_stay_sealed [OF _ toy_sealing])
  have "keyed_step sealed_app (snd (RekeyAppConfigSensitiveValues toy_env sealed_app))"
    by (rule keyed_step.intros [of toy_env]) (simp, rule cfg_step.rekey)
  moreover have "keyed_step w (snd (SetAppConfig toy_env ''smtp.pass'' ''pw'' w))" for w :: app_st
    by (rule keyed_step.intros [of toy_env]) (simp, rule cfg_step.set)
  ultimately show "keyed_step\<^sup>*\<^sup>* sealed_app
      (snd (SetAppConfig toy_env ''smtp.pass'' ''pw'' (snd (RekeyAppConfigSensitiveValues toy_env sealed_app))))"
    by (meson r_into_rtranclp rtranclp.rtrancl_into_rtrancl)
  show "must_encrypt ''smtp.pass'' ''pw''" by code_simp
qed simp

lemma toy_trims: "TrimSpace ''new1'' = ''new1''" "TrimSpace ''old1'' = ''old1''" "TrimSpace [] = []"
proof -
  have "plain_start (CHR ''n'')" "plain_start (CHR ''o'')" "is_digit (CHR ''1'')" by code_simp+
  then show "TrimSpace ''new1'' = ''new1''" "TrimSpace ''old1'' = ''old1''"
    using TrimSpace_plain [of _ "CHR ''1''" "''ew''"] TrimSpace_plain [of _ "CHR ''1''" "''ld''"] by simp_all
qed (simp add: TrimSpace_def)

lemma toy_keys:
  "loadNewAppMasterKey toy_env = Inr (Some ''new1'')" "ValidateAppConfigRekeyConfig toy_env = Inr ()"
  "\<not> IsAppConfigRekeyDryRun toy_env"
proof -
  show new: "loadNewAppMasterKey toy_env = Inr (Some ''new1'')"
    by (simp add: loadNewAppMasterKey_def toy_env_def toy_trims new_key_variable_def Let_def)
  show "ValidateAppConfigRekeyConfig toy_env = Inr ()"
    by (simp add: ValidateAppConfigRekeyConfig_def master_cases new toy_trims)
  have "\<not> EqualFold [] ''true''" by code_simp
  then show "\<not> IsAppConfigRekeyDryRun toy_env" by (simp add: IsAppConfigRekeyDryRun_def toy_env_def toy_trims)
qed

lemma toy_rekey: "is_ok (fst (RekeyAppConfigSensitiveValues toy_env toy_app))"
proof -
  have "is_ok (fst (rekey_tx toy_env ''old1'' ''new1'' False toy_app))" by code_simp
  moreover have "drawn toy_app = toy_app" "\<not> failing toy_app" by (simp_all add: toy_app_def drawn_def failing_def)
  ultimately show ?thesis using toy_keys(3) by (simp add: RekeyAppConfigSensitiveValues_def toy_keys master_cases)
qed

theorem rekey_preserves_settings_witness:
  "setting toy_env ''new1'' (app_tbl (snd (RekeyAppConfigSensitiveValues toy_env toy_app))) ''auth.session''
     = Inr ''s3cret''"
proof -
  have dist: "distinct (map fst (app_tbl toy_app))" by (simp add: toy_app_def)
  have sens: "isSensitiveAppConfigKey ''auth.session''" by code_simp
  have before: "setting toy_env ''old1'' (app_tbl toy_app) ''auth.session'' = Inr ''s3cret''" by code_simp
  from rekey_preserves_settings [OF _ dist toy_keys(1),
      of "fst (RekeyAppConfigSensitiveValues toy_env toy_app)" "snd (RekeyAppConfigSensitiveValues toy_env toy_app)"]
  show ?thesis using toy_rekey toy_keys(3) sens before by simp
qed

end
