(* ===== verification/ExamProps.thy ===== *)
theory ExamProps
  imports Exam AppConfigProps "HOL-Library.Countable"
begin

text \<open>Key derivation, tokens and wrapped master keys.\<close>

section \<open>Key derivation\<close>

lemma derive_loop_stop [simp]: "48 \<le> length r \<Longrightarrow> derive_loop md5 ps r d = Some r"
  by (subst derive_loop.simps) simp

lemma derive_loop_go [simp]:
  "length r < 48 \<Longrightarrow> derive_loop md5 ps r d = derive_loop md5 ps (r @ md5 d) (md5 d @ ps)"
  by (subst derive_loop.simps) (simp add: Let_def)

text \<open>With a hash of 16 bytes the derivation of key and initial vector ends after three rounds: the key
  is the first two hashes of the chain, the vector the third.\<close>
theorem key_derivation_ends:
  assumes "\<And>s. length (md5 s) = 16"
  shows "deriveKeyAndIV md5 password salt =
    (let d = password @ salt; h1 = md5 d; h2 = md5 (h1 @ d); h3 = md5 (h2 @ d) in Some (h1 @ h2, h3))"
  using assms by (simp add: deriveKeyAndIV_def Let_def)

theorem key_derivation_ends_witness:
  "deriveKeyAndIV (\<lambda>s. replicate 16 (last s)) ''ab'' ''cd'' = Some (replicate 32 (CHR ''d''), replicate 16 (CHR ''d''))"
  using key_derivation_ends [of "\<lambda>s. replicate 16 (last s)" "''ab''" "''cd''"]
  by (simp add: Let_def numeral_eq_Suc)

section \<open>Tokens\<close>

text \<open>
  What the JWT library documents: a token signed with a key parses under that key to its claims while it is
  not expired and not issued in the future.
\<close>

definition fresh :: "int \<Rightarrow> claims \<Rightarrow> bool" where
  "fresh t c =
     ((case map_of c ''exp'' of Some (JInt x) \<Rightarrow> t < x * second | _ \<Rightarrow> True)
      \<and> (case map_of c ''iat'' of Some (JInt x) \<Rightarrow> x * second \<le> t | _ \<Rightarrow> True))"

definition good_jwt :: "('e) exam_env_scheme \<Rightarrow> bool" where
  "good_jwt e = (\<forall>k t c. xe_parse e k t (xe_sign e k c) = (if fresh t c then Some c else None))"

lemma float64_small [simp]: "n < 2 ^ 53 \<Longrightarrow> float64_of n = n"
  by (simp add: float64_of_def)

lemma uid_float [simp]: "float64_of (unat (u :: uid)) = unat u"
  by (rule float64_small) (rule less_trans [OF unsigned_less], simp)

lemma issued_before: "t \<le> t' \<Longrightarrow> t div second * second \<le> t'"
  using minus_mod_eq_div_mult [of t second] pos_mod_sign [of second t] by (simp add: second_def)

lemma fresh_auth: "t \<le> t' \<Longrightarrow> fresh t' (auth_claims u r ttl t) \<longleftrightarrow> t' < (t + ttl) div second * second"
  by (simp add: fresh_def auth_claims_def issued_before)

lemma Verify_signed:
  assumes "good_jwt e" and "now w \<le> now w'" and "ex_session w' = ex_session w"
  shows "VerifyAccessToken e (xe_sign e (ex_session w) (auth_claims u r ttl (now w))) w' =
    (if now w' < (now w + ttl) div second * second then Inr (u, go_uint64 (float64_of (unat r)))
     else Inl (Msg ''token parse error''))"
  using assms
  by (simp add: VerifyAccessToken_def good_jwt_def fresh_auth) (simp add: auth_claims_def number_claim_def)

lemma small_resp: "unat r < 2 ^ 53 \<Longrightarrow> go_uint64 (float64_of (unat r)) = r"
  by (simp add: go_uint64_def)

text \<open>C10: An access or refresh token is accepted until its lifetime of 30 minutes or seven days ends, to the
  second, and names the user it was issued to. The respondent's number comes back rounded to a
  double: exactly below 2 to the 53rd.\<close>
theorem token_roundtrip:
  assumes "good_jwt e" and "GenerateAccessToken e u r w = (sta, lta)"
    and "now w \<le> now w'" and "ex_session w' = ex_session w"
  shows "VerifyAccessToken e sta w' =
      (if now w' < (now w + AccessTokenTTL) div second * second then Inr (u, go_uint64 (float64_of (unat r)))
       else Inl (Msg ''token parse error''))
    \<and> VerifyAccessToken e lta w' =
      (if now w' < (now w + RefreshTokenTTL) div second * second then Inr (u, go_uint64 (float64_of (unat r)))
       else Inl (Msg ''token parse error''))
    \<and> (unat r < 2 ^ 53 \<longrightarrow> go_uint64 (float64_of (unat r)) = r)"
  using assms(2) Verify_signed [OF assms(1,3,4)] small_resp [of r] by (auto simp: GenerateAccessToken_def)

section \<open>Wrapped master keys\<close>

definition good_kdf :: "('e) exam_env_scheme \<Rightarrow> bool" where
  "good_kdf e = (\<forall>p s. length (xe_pbkdf2 e p s) = 32)"

lemma seal_text_mks: "seal_text x k p w = (r, w') \<Longrightarrow> ex_mks w' = ex_mks w"
  by (auto simp: seal_text_def random_bytes_def split: if_splits)

lemma Set_mks: "Set k v t w = (r, w') \<Longrightarrow> ex_mks w' = ex_mks w"
  by (auto simp: Set_def rstore_def drawn_def split: if_splits)

lemma GetMasterKey_cached [simp]:
  fixes w :: "'b exam_st_scheme"
  shows "GetMasterKey v (cache_master_key e u mk w) = (if v = u then Some mk else GetMasterKey v w)"
proof -
  have "ex_mks x' = ex_mks x" if "saveMasterKeyToRedis e u mk x = (r, x')" for r and x x' :: "'b exam_st_scheme"
    using that
    by (auto simp: saveMasterKeyToRedis_def encryptMasterKeyForRedis_def dest!: seal_text_mks Set_mks
        split: sum.splits prod.splits if_splits)
  then have "ex_mks (snd (saveMasterKeyToRedis e u mk x)) = ex_mks x" for x :: "'b exam_st_scheme"
    by (metis prod.collapse)
  then show ?thesis by (simp add: GetMasterKey_def cache_master_key_def update_conv')
qed

lemma wrap_then_load:
  assumes "good_crypto (se_crypto e)" and "length raw = 32"
    and "wrapMasterKeyBytes e raw password w = (Inr (enc, salt), w1)"
  shows "LoadMasterKey e u password enc salt w' = (Inr (), cache_master_key e u raw w')"
proof -
  obtain s n where s: "salt = EncodeToString s"
      "seal_text (se_crypto e) (xe_pbkdf2 e password s) raw (w\<lparr>rnd_pos := n\<rparr>) = (Inr enc, w1)"
    using assms(3) by (auto simp: wrapMasterKeyBytes_def random_bytes_def split: sum.splits prod.splits)
  show ?thesis using seal_then_open [OF assms(1) s(2)] s(1) assms(2) by (simp add: LoadMasterKey_def)
qed

lemma random_length: "good_crypto (se_crypto e) \<Longrightarrow> length (c_rand (se_crypto e) i n) = n"
  by (simp add: good_crypto_def)

text \<open>C9: The key a user is shown once, the key in memory and the key unwrapped later with the password are
  the same 32 bytes, and wrapping the shown key under any other password keeps them.\<close>
theorem master_key_roundtrip:
  assumes "good_crypto (se_crypto e)"
    and "GenerateAndWrapMasterKey e u password w = (Inr (rawB64, enc, salt), w1)"
  shows "\<exists>raw. DecodeString rawB64 = Some raw \<and> length raw = 32 \<and> GetMasterKey u w1 = Some raw
    \<and> LoadMasterKey e u password enc salt w2 = (Inr (), cache_master_key e u raw w2)
    \<and> (\<forall>enc' salt' w4. WrapMasterKey e rawB64 password' w3 = (Inr (enc', salt'), w4)
         \<longrightarrow> LoadMasterKey e u password' enc' salt' w5 = (Inr (), cache_master_key e u raw w5))"
proof -
  let ?raw = "c_rand (se_crypto e) (rnd_pos w) 32"
  obtain n v where g: "rawB64 = EncodeToString ?raw" "w1 = cache_master_key e u ?raw v"
      "wrapMasterKeyBytes e ?raw password (w\<lparr>rnd_pos := n\<rparr>) = (Inr (enc, salt), v)"
    using assms(2) by (auto simp: GenerateAndWrapMasterKey_def random_bytes_def split: sum.splits prod.splits)
  have len: "length ?raw = 32" using random_length [OF assms(1)] .
  have re: "LoadMasterKey e u password' enc' salt' w5 = (Inr (), cache_master_key e u ?raw w5)"
    if "WrapMasterKey e rawB64 password' w3 = (Inr (enc', salt'), w4)" for enc' salt' w4
    by (rule wrap_then_load [OF assms(1) len]) (use that g(1) len in \<open>simp add: WrapMasterKey_def\<close>)
  show ?thesis
    using g(1,2) len re wrap_then_load [OF assms(1) len g(3)] by (intro exI [of _ ?raw]) auto
qed

section \<open>A concrete service\<close>

text \<open>A token library for the examples: JSON values are countable, a token is the number of key and claims.\<close>

instance json :: countable
  by countable_datatype

definition toy_token :: "string \<Rightarrow> claims \<Rightarrow> string" where
  "toy_token k c = show_nat (to_nat (k, c))"

definition toy_claims :: "string \<Rightarrow> int \<Rightarrow> string \<Rightarrow> claims option" where
  "toy_claims k t s =
     (case from_nat (read_nat s) of (j, c) \<Rightarrow> if j = k \<and> fresh t c then Some c else None)"

definition toy_exam :: exam_env where
  "toy_exam = settings_env.extend toy_env \<lparr>xe_redis = True, xe_sha3 = (\<lambda>s. s), xe_hmac = (\<lambda>k m. k @ m),
     xe_md5 = (\<lambda>s. replicate 16 (CHR ''m'')), xe_cbc = (\<lambda>k iv c. c), xe_bcrypt = (\<lambda>s p. Inr (''$2a$'' @ p)),
     xe_bcrypt_ok = (\<lambda>h p. h = ''$2a$'' @ p), xe_pbkdf2 = (\<lambda>p s. take 32 (p @ s @ replicate 32 (CHR ''.''))),
     xe_lower = (\<lambda>s. s), xe_sign = toy_token, xe_parse = toy_claims, xe_show_time = (\<lambda>t. []),
     xe_read_time = (\<lambda>s. None), xe_totp = (\<lambda>s t c. c = s)\<rparr>"

lemma toy_exam_fields [simp]:
  "se_crypto toy_exam = toy_crypto" "xe_redis toy_exam" "xe_lower toy_exam = (\<lambda>s. s)"
  "xe_bcrypt toy_exam = (\<lambda>s p. Inr (''$2a$'' @ p))" "xe_bcrypt_ok toy_exam = (\<lambda>h p. h = ''$2a$'' @ p)"
  "xe_hmac toy_exam = (\<lambda>k m. k @ m)" "xe_totp toy_exam = (\<lambda>s t c. c = s)"
  by (simp_all add: toy_exam_def settings_env.defs toy_env_def)

lemma toy_jwt: "good_jwt toy_exam"
  by (simp add: good_jwt_def toy_exam_def settings_env.defs toy_token_def toy_claims_def read_show_nat
      del: read_nat.simps)

lemma toy_kdf: "good_kdf toy_exam"
  by (auto simp: good_kdf_def toy_exam_def settings_env.defs min_def)

definition exam_of :: "app_st \<Rightarrow> exam_st" where
  "exam_of w = app_st.extend w \<lparr>ex_session = ''jwt'', ex_created = 0, ex_regs = [],
     ex_email_enc = replicate 32 (CHR ''e''), ex_email_hmac = ''h'', ex_totp_enc = replicate 32 (CHR ''t''), ex_mks = []\<rparr>"

definition toy_exam_st :: exam_st where
  "toy_exam_st = exam_of toy_app"

lemma toy_exam_st_fields [simp]: "now toy_exam_st = 0" "ex_session toy_exam_st = ''jwt''" "ex_mks toy_exam_st = []"
  by (simp_all add: toy_exam_st_def exam_of_def app_st.defs toy_app_def)

theorem token_roundtrip_witness:
  "VerifyAccessToken toy_exam (fst (GenerateAccessToken toy_exam 7 5 toy_exam_st)) (advance minute toy_exam_st)
     = Inr (7, 5)"
  using token_roundtrip [OF toy_jwt, of 7 5 toy_exam_st _ _ "advance minute toy_exam_st"]
  by (cases "GenerateAccessToken toy_exam 7 5 toy_exam_st")
    (simp add: advance_def minute_def second_def AccessTokenTTL_def)

theorem master_key_roundtrip_witness:
  "\<exists>raw. GetMasterKey 7 (snd (GenerateAndWrapMasterKey toy_exam 7 ''pw'' toy_exam_st)) = Some raw"
proof -
  obtain r w1 where g: "GenerateAndWrapMasterKey toy_exam 7 ''pw'' toy_exam_st = (r, w1)"
    by (cases "GenerateAndWrapMasterKey toy_exam 7 ''pw'' toy_exam_st")
  moreover have "aes_key (xe_pbkdf2 toy_exam p s)" for p s using toy_kdf by (simp add: good_kdf_def aes_key_def)
  ultimately obtain a b c where "r = Inr (a, b, c)"
    by (auto simp: GenerateAndWrapMasterKey_def wrapMasterKeyBytes_def random_bytes_def seal_text_def)
  then have "GenerateAndWrapMasterKey toy_exam 7 ''pw'' toy_exam_st = (Inr (a, b, c), w1)" using g by simp
  from master_key_roundtrip [OF _ this] toy_crypto_good show ?thesis using g by fastforce
qed

end
