(* ===== verification/WidgetProps.thy ===== *)
theory WidgetProps
  imports Grpc AccountProps ExamProps
begin

text \<open>
  What the widget's tokens and codes are good for: they carry what they were made from until they expire, the
  lifetime of a token wraps around, and a token given to a visitor passes where an account's token is asked for.
\<close>

section \<open>Claims\<close>

lemma float64_int_small [simp]: "\<bar>n\<bar> < 2 ^ 53 \<Longrightarrow> float64_int n = n"
  by (auto simp: float64_int_def float64_of_def)

lemma strings_of_map [simp]: "strings_of (map JStr ss) = Some ss"
  by (induction ss) auto

lemma decode_token_claims:
  assumes "\<bar>(t + times_second s) div second\<bar> < 2 ^ 53"
  shows "decode_widget_claims (token_claims u r origin jti s t) =
    Some \<lparr>wc_UserId = u, wc_ReapId = r, wc_Origin = origin, wc_JTI = jti,
      wc_ExpiresAt = Some ((t + times_second s) div second)\<rparr>"
  using assms uint_lt2p [of u] uint_lt2p [of r]
  by (simp add: decode_widget_claims_def token_claims_def struct_number_def struct_string_def struct_date_def)

lemma fresh_token:
  "t \<le> t' \<Longrightarrow> fresh t' (token_claims u r origin jti s t) \<longleftrightarrow> t' < (t + times_second s) div second * second"
  by (simp add: fresh_def token_claims_def issued_before)

lemma times_second_small: "\<bar>s\<bar> \<le> 9223372036 \<Longrightarrow> times_second s = s * second"
  unfolding times_second_def signed_of_int
  by (subst signed_take_bit_int_eq_self) (auto simp: second_def abs_le_iff)

section \<open>Tokens\<close>

text \<open>
  The library without its check of the times accepts whatever was signed with the key. A token is never blank:
  it has two dots.
\<close>

definition good_unchecked :: "('e) widget_env_scheme \<Rightarrow> bool" where
  "good_unchecked e = (\<forall>k c. xg_unchecked e k (xe_sign e k c) = Some c \<and> TrimSpace (xe_sign e k c) \<noteq> [])"

lemma hex_of_nonempty: "s \<noteq> [] \<Longrightarrow> hex_of s \<noteq> []"
  by (cases s) (auto simp: hex_of_def)

lemma hex_random: "good_crypto (se_crypto e) \<Longrightarrow> hex_of (c_rand (se_crypto e) n 16) \<noteq> []"
  using random_length [of e n 16] by (auto intro!: hex_of_nonempty)

text \<open>A token of the widget, made for at most 292 years, names its user, its visitor and its origin exactly, the
  64-bit number of the visitor included. It is accepted until its last second has come and refused from then on,
  while the renewal of expired tokens goes on accepting it for ever.
\<close>

theorem widget_token_life:
  assumes "good_jwt e" and "good_unchecked e" and "good_crypto (se_crypto e)"
    and "WidgetNewToken e u r origin s w = (tok, w1)" and "u \<noteq> 0" and "origin \<noteq> []"
    and "\<bar>s\<bar> \<le> 9223372036" and "0 \<le> now w" and "now w < 2 ^ 52 * second"
    and "now w \<le> now w'" and "ex_session w' = ex_session w"
  shows "\<exists>d. td_UserId d = u \<and> td_RespId d = r \<and> td_Origin d = origin \<and> td_ExpiredSeconds d = now w div second + s
    \<and> WidgetParseToken e tok w' = Some (if now w' < (now w div second + s) * second then Inr d
        else Inl (Msg ''token parse error''))
    \<and> WidgetParseExpiredToken e tok w' = Inr d"
proof -
  define jti where "jti = hex_of (c_rand (se_crypto e) (rnd_pos w) 16)"
  let ?c = "token_claims u r origin jti s (now w)"
  let ?d = "\<lparr>td_UserId = u, td_RespId = r, td_ExpiredSeconds = now w div second + s, td_Origin = origin, td_Jti = jti\<rparr>"
  have tok: "tok = xe_sign e (ex_session w) ?c"
    using assms(4) by (auto simp: WidgetNewToken_def random_bytes_def jti_def)
  have end': "(now w + times_second s) div second = now w div second + s"
    using assms(7) by (simp add: times_second_small second_def)
  have "now w div second < 2 ^ 52" "0 \<le> now w div second"
    using assms(8,9) by (auto simp: second_def)
  then have "\<bar>now w div second + s\<bar> < 2 ^ 53" using assms(7) by (simp add: abs_le_iff abs_less_iff)
  then have dec: "decode_widget_claims ?c =
      Some \<lparr>wc_UserId = u, wc_ReapId = r, wc_Origin = origin, wc_JTI = jti, wc_ExpiresAt = Some (now w div second + s)\<rparr>"
    using decode_token_claims [of "now w" s] by (simp add: end')
  have "xe_parse e (ex_session w') (now w') tok = (if now w' < (now w div second + s) * second then Some ?c else None)"
    using assms(1) fresh_token [OF assms(10)] by (simp add: good_jwt_def tok assms(11) end')
  then have "WidgetParseToken e tok w' = Some (if now w' < (now w div second + s) * second then Inr ?d
      else Inl (Msg ''token parse error''))"
    by (simp add: WidgetParseToken_def dec)
  moreover have "WidgetParseExpiredToken e tok w' = Inr ?d"
    using assms(2,5,6) hex_random [OF assms(3)]
    by (simp add: WidgetParseExpiredToken_def good_unchecked_def tok assms(11) dec) (simp add: jti_def)
  ultimately show ?thesis by (intro exI [of _ ?d]) simp
qed

text \<open>A second more, and the lifetime wraps around to 292 years in the past.\<close>

lemma longest_lifetime: "times_second 9223372036 = 9223372036 * second" "times_second 9223372037 < 0"
  by (simp_all add: times_second_small) (simp add: times_second_def second_def)

section \<open>A visitor's token\<close>

text \<open>The struct an account's token is read into has other names for its members, so both numbers come out zero.\<close>

lemma widget_token_is_an_account_token:
  assumes "good_jwt e" and "WidgetNewToken e u r origin s w = (tok, w1)" and "now w \<le> now w'"
    and "now w' < (now w + times_second s) div second * second" and "ex_session w' = ex_session w"
  shows "ParseAuthToken e tok w' = Inr (0, 0)"
proof -
  obtain jti where tok: "tok = xe_sign e (ex_session w) (token_claims u r origin jti s (now w))"
    using assms(2) by (auto simp: WidgetNewToken_def random_bytes_def)
  then have "xe_parse e (ex_session w') (now w') tok = Some (token_claims u r origin jti s (now w))"
    using assms(1,4,5) fresh_token [OF assms(3)] by (simp add: good_jwt_def)
  then show ?thesis by (simp add: ParseAuthToken_def struct_number_def token_claims_def)
qed

text \<open>Whoever opens a page with the widget is given a token that resets passwords. It is signed with the same key
  as the tokens of accounts and passes where \<open>ResetPass\<close> asks for one, as user zero and device zero; the visitor
  asks for a transport key of device zero and sends the new password for the address of any account.
\<close>

theorem widget_visitor_resets_any_password:
  fixes w :: "'a web2_st_scheme"
  assumes "good_jwt e" and "WidgetNewToken e u r origin s w0 = (pq_Token q, w1)" and "now w0 \<le> now w"
    and "now w < (now w0 + times_second s) div second * second" and "ex_session w = ex_session w0"
    and "xw_allow e (case map_of (limiters w) 0 of None \<Rightarrow> [] | Some ts \<Rightarrow> ts) (now w)"
    and "fst (DecryptPassword e 0 (pq_Pass q) w) = Some (Inr pass)" and "calm w"
    and "xe_bcrypt e (c_rand (se_crypto e) (rnd_pos w) 16) pass = Inr hash" and "hash \<noteq> []"
    and "pq_Mail q \<noteq> []" and "pq_RawMasterKey q = []" and "map_of (auth_tbl w) 0 = None"
    and "(v, victim) \<in> set (auth_tbl w)" and "named e (pq_Mail q) (EmailHMAC e w (pq_Mail q)) victim"
    and "au_SHA victim \<noteq> hash"
  shows "(v, victim\<lparr>au_SHA := hash\<rparr>) \<in> set (auth_tbl (snd (ResetPass e (Inr q) w)))"
proof -
  have tok: "ParseAuthToken e (pq_Token q) w = Inr (0, 0)"
    using widget_token_is_an_account_token [OF assms(1-5)] .
  obtain w2 where w2: "calm w2"
      "auth_tbl w2 = map (\<lambda>(u, a). (u, if named e (pq_Mail q) (EmailHMAC e w (pq_Mail q)) a then a\<lparr>au_SHA := hash\<rparr> else a))
        (auth_tbl w)"
      "ResetPass e (Inr q) w = (case drop_after_reset 0 w2 of
        (Inl err, w) \<Rightarrow> reply_error 400 (err_text err) w | (Inr _, w) \<Rightarrow> reply 200 [] w)"
    using reset_updates_by_address [OF tok assms(6-12,14-16)] by blast
  have "map_of (auth_tbl w2) 0 = None" using assms(13) by (simp add: w2(2) map_of_map)
  then have "snd (drop_after_reset 0 w2) = drawn w2" using w2(1) by (intro drop_without_key) simp_all
  then have "auth_tbl (snd (ResetPass e (Inr q) w)) = auth_tbl w2"
    by (cases "drop_after_reset 0 w2") (simp add: w2(3) drawn_def split: sum.split)
  moreover have "(v, victim\<lparr>au_SHA := hash\<rparr>) \<in> set (auth_tbl w2)" using assms(14,15) by (force simp: w2(2))
  ultimately show ?thesis by simp
qed

section \<open>Codes\<close>

text \<open>
  The library on EdDSA tokens: what a private key has signed parses under its public half while the times allow
  it. No PEM block is found in the empty text.
\<close>

definition in_time :: "int \<Rightarrow> claims \<Rightarrow> bool" where
  "in_time t c = (fresh t c \<and> (case map_of c ''nbf'' of Some (JInt x) \<Rightarrow> x * second \<le> t | _ \<Rightarrow> True))"

definition good_ed :: "('e) widget_env_scheme \<Rightarrow> bool" where
  "good_ed e = (xg_pem e [] = None
     \<and> (\<forall>p i t c. xg_ed_parse e (xg_public e p) t (xg_ed_sign e p i c) = (if in_time t c then Some c else None)))"

lemma decode_code_claims_of:
  assumes "\<bar>cd_ExpiresAt d\<bar> < 2 ^ 53"
  shows "decode_code_claims (code_claims d t) =
    Some \<lparr>cc_UserID = cd_UserId d, cc_ExamKey = cd_ExamKey d, cc_AllowedUrls = cd_AllowedUrls d,
      cc_NeverExpires = cd_NeverExpires d, cc_JTI = cd_Jti d, cc_Audience = [''marusya-widget''],
      cc_ExpiresAt = (if cd_NeverExpires d then None else Some (cd_ExpiresAt d))\<rparr>"
  using assms uint_lt2p [of "cd_UserId d"]
  by (simp add: decode_code_claims_def code_claims_def struct_number_def struct_string_def struct_date_def
      struct_strings_def struct_bool_def claim_strings_def)

lemma in_time_code:
  "t \<le> t' \<Longrightarrow> in_time t' (code_claims d t) \<longleftrightarrow> cd_NeverExpires d \<or> t' < cd_ExpiresAt d * second"
  by (simp add: in_time_def fresh_def code_claims_def issued_before)

text \<open>What a code that was given out says of its request.\<close>

lemma new_code_result:
  assumes "WidgetNewCode e (Some d) pub priv w = (Inr code, w1)"
  obtains p j where "parseEd25519PublicKey e pub = Inr (xg_public e p)" and "now w1 = now w"
    and "parseEd25519PrivateKey e priv = Inr p"
    and "code = xg_ed_sign e p ''widget-code-v1'' (code_claims (d\<lparr>cd_Jti := j\<rparr>) (now w))"
    and "j = (if cd_Jti d = [] then hex_of (c_rand (se_crypto e) (rnd_pos w) 16) else cd_Jti d)"
    and "bad_code_data (Some d) (now w) = None"
proof -
  obtain p where p: "bad_code_data (Some d) (now w) = None" "parseEd25519PublicKey e pub = Inr (xg_public e p)"
      "parseEd25519PrivateKey e priv = Inr p"
      "code = xg_ed_sign e p ''widget-code-v1'' (code_claims (fst (with_jti e d w)) (now w1))" "w1 = snd (with_jti e d w)"
  proof (cases "bad_code_data (Some d) (now w)")
    case ok: None
    show ?thesis
    proof (cases "parseEd25519PublicKey e pub")
      case pub: (Inr k)
      show ?thesis
      proof (cases "parseEd25519PrivateKey e priv")
        case priv: (Inr p)
        obtain d' v where d: "with_jti e d w = (d', v)" by force
        have k: "k = xg_public e p"
          by (rule ccontr) (use assms ok pub priv in \<open>simp add: WidgetNewCode_def\<close>)
        then have "WidgetNewCode e (Some d) pub priv w = (Inr (xg_ed_sign e p ''widget-code-v1'' (code_claims d' (now v))), v)"
          using ok pub priv by (simp add: WidgetNewCode_def d)
        from trans [OF assms [symmetric] this]
        have "code = xg_ed_sign e p ''widget-code-v1'' (code_claims d' (now v))" "w1 = v" by simp_all
        then show ?thesis using that [of p] ok pub priv d k by simp
      qed (use assms ok pub in \<open>simp add: WidgetNewCode_def\<close>)
    qed (use assms ok in \<open>simp add: WidgetNewCode_def\<close>)
  qed (use assms in \<open>simp add: WidgetNewCode_def\<close>)
  let ?j = "if cd_Jti d = [] then hex_of (c_rand (se_crypto e) (rnd_pos w) 16) else cd_Jti d"
  have "fst (with_jti e d w) = d\<lparr>cd_Jti := ?j\<rparr>" "now w1 = now w"
    by (simp_all add: p(5) with_jti_def random_bytes_def)
  then show ?thesis using that [of p ?j] p by simp
qed

lemma TrimSpace_Nil [simp]: "TrimSpace [] = []"
  by code_simp

lemma code_data_checked:
  assumes "bad_code_data (Some d) t = None"
  shows "cd_UserId d \<noteq> 0" and "cd_ExamKey d \<noteq> []" and "cd_NeverExpires d \<Longrightarrow> cd_ExpiresAt d = 0"
  using assms by (auto simp: bad_code_data_def split: if_splits)

lemma parse_new_code:
  assumes "good_ed e" and "good_crypto (se_crypto e)" and "WidgetNewCode e (Some d) pub priv w = (Inr code, w1)"
    and "\<bar>cd_ExpiresAt d\<bar> < 2 ^ 53" and "now w \<le> now w'"
  obtains j where "j \<noteq> []" and "cd_Jti d \<noteq> [] \<Longrightarrow> j = cd_Jti d"
    and "WidgetParseCode e code pub w' = (if cd_NeverExpires d \<or> now w' < cd_ExpiresAt d * second
      then Inr (d\<lparr>cd_Jti := j\<rparr>) else Inl (Status Unauthenticated ''invalid widget code''))"
proof -
  from assms(3) obtain p j where c: "parseEd25519PublicKey e pub = Inr (xg_public e p)"
      "code = xg_ed_sign e p ''widget-code-v1'' (code_claims (d\<lparr>cd_Jti := j\<rparr>) (now w))"
      "j = (if cd_Jti d = [] then hex_of (c_rand (se_crypto e) (rnd_pos w) 16) else cd_Jti d)"
      "bad_code_data (Some d) (now w) = None"
    by (rule new_code_result)
  note d = code_data_checked [OF c(4)]
  have j: "j \<noteq> []" "cd_Jti d \<noteq> [] \<Longrightarrow> j = cd_Jti d" using hex_random [OF assms(2)] by (simp_all add: c(3))
  let ?c = "code_claims (d\<lparr>cd_Jti := j\<rparr>) (now w)"
  have parse: "xg_ed_parse e (xg_public e p) (now w') code
      = (if cd_NeverExpires d \<or> now w' < cd_ExpiresAt d * second then Some ?c else None)"
    using assms(1) in_time_code [OF assms(5), of "d\<lparr>cd_Jti := j\<rparr>"] by (simp add: good_ed_def c(2))
  have "WidgetParseCode e code pub w' = (if cd_NeverExpires d \<or> now w' < cd_ExpiresAt d * second
      then Inr (d\<lparr>cd_Jti := j\<rparr>) else Inl (Status Unauthenticated ''invalid widget code''))"
  proof (cases "cd_NeverExpires d \<or> now w' < cd_ExpiresAt d * second")
    case True
    have "code_problem \<lparr>cc_UserID = cd_UserId d, cc_ExamKey = cd_ExamKey d, cc_AllowedUrls = cd_AllowedUrls d,
        cc_NeverExpires = cd_NeverExpires d, cc_JTI = j, cc_Audience = [''marusya-widget''],
        cc_ExpiresAt = (if cd_NeverExpires d then None else Some (cd_ExpiresAt d))\<rparr> (now w') = None"
      using True d(1,2) j(1) by (auto simp: code_problem_def)
    then show ?thesis using True d(3) assms(4) decode_code_claims_of [of "d\<lparr>cd_Jti := j\<rparr>" "now w"]
      by (auto simp: WidgetParseCode_def c(1) parse)
  next
    case False
    then show ?thesis by (auto simp: WidgetParseCode_def c(1) parse)
  qed
  with j that show ?thesis by blast
qed

lemma keys_kept:
  assumes "helperWidgetKeys e w = (Inr (pub, priv), w1)" and "pub \<noteq> []" and "priv \<noteq> []"
  shows "gs_keys w1 = (pub, priv)" and "now w1 = now w"
  using assms by (auto simp: helperWidgetKeys_def GetAppConfig_def fail_def drawn_def split: if_splits sum.splits option.splits prod.splits)

text \<open>C29: A code the server gives out carries exactly the data it was asked for, with an identifier of its own if
  none was named, and the server reads it back until the moment it was to expire, or for ever if never.
\<close>

theorem widget_code_roundtrip:
  assumes "good_ed e" and "good_crypto (se_crypto e)" and "rpc_WidgetNewCode e d w = (Inr code, w1)"
    and "\<bar>cd_ExpiresAt d\<bar> < 2 ^ 53" and "now w1 \<le> now w'" and "gs_keys w' = gs_keys w1"
  shows "\<exists>j. j \<noteq> [] \<and> (cd_Jti d \<noteq> [] \<longrightarrow> j = cd_Jti d)
    \<and> (if cd_NeverExpires d \<or> now w' < cd_ExpiresAt d * second
       then rpc_WidgetParseCode e code w' = (Inr (d\<lparr>cd_Jti := j\<rparr>), w')
       else isl (fst (rpc_WidgetParseCode e code w')))"
proof -
  obtain pub priv v where h: "helperWidgetKeys e w = (Inr (pub, priv), v)"
      and n: "WidgetNewCode e (Some d) pub priv v = (Inr code, w1)"
    using assms(3) by (auto simp: rpc_WidgetNewCode_def fail_def split: sum.splits prod.splits)
  from n obtain p where p: "parseEd25519PublicKey e pub = Inr (xg_public e p)" "parseEd25519PrivateKey e priv = Inr p"
      "now w1 = now v" by (rule new_code_result)
  have ne: "pub \<noteq> []" "priv \<noteq> []"
    using assms(1) p(1,2) by (auto simp: good_ed_def parseEd25519PublicKey_def parseEd25519PrivateKey_def parse_ed_key_def)
  have "gs_keys w1 = gs_keys v"
    using n by (auto simp: WidgetNewCode_def with_jti_def random_bytes_def split: option.splits sum.splits if_splits prod.splits)
  then have keys: "helperWidgetKeys e w' = (Inr (pub, priv), w')"
    using keys_kept [OF h ne] ne assms(6) by (simp add: helperWidgetKeys_def)
  have "now v \<le> now w'" using assms(5) p(3) by simp
  from parse_new_code [OF assms(1,2) n assms(4) this]
  obtain j where j: "j \<noteq> []" "cd_Jti d \<noteq> [] \<Longrightarrow> j = cd_Jti d"
      "WidgetParseCode e code pub w' = (if cd_NeverExpires d \<or> now w' < cd_ExpiresAt d * second
        then Inr (d\<lparr>cd_Jti := j\<rparr>) else Inl (Status Unauthenticated ''invalid widget code''))"
    by metis
  then show ?thesis by (intro exI [of _ j]) (simp add: rpc_WidgetParseCode_def keys fail_def)
qed

section \<open>Replacing the keys\<close>

lemma prepare_draws: "prepareAppConfigValueForStorage s k v w = (r, w') \<Longrightarrow> \<exists>n. w' = w\<lparr>rnd_pos := n\<rparr>"
  by (auto simp: prepareAppConfigValueForStorage_def encryptAppConfigValue_def seal_text_def random_bytes_def
      intro: exI [of _ "rnd_pos w"] split: if_splits sum.splits option.splits prod.splits)

lemma set_draws: "SetAppConfig s k v w = (r, w') \<Longrightarrow> \<exists>n fs t. w' = w\<lparr>rnd_pos := n, faults := fs, app_tbl := t\<rparr>"
proof -
  assume a: "SetAppConfig s k v w = (r, w')"
  obtain p v' where p: "prepareAppConfigValueForStorage s k v w = (p, v')" by force
  obtain n where v': "v' = w\<lparr>rnd_pos := n\<rparr>" using prepare_draws [OF p] by blast
  show ?thesis
  proof (cases p)
    case (Inl err)
    then have "w' = w\<lparr>rnd_pos := n, faults := faults w, app_tbl := app_tbl w\<rparr>" using a p v' by (auto simp: SetAppConfig_def)
    then show ?thesis by blast
  next
    case (Inr t)
    then have "w' = w\<lparr>rnd_pos := n, faults := tl (faults w), app_tbl := app_tbl w\<rparr>
        \<or> w' = w\<lparr>rnd_pos := n, faults := tl (faults w), app_tbl := AList.update k t (app_tbl w)\<rparr>"
      using a p v' by (auto simp: SetAppConfig_def drawn_def split: if_splits)
    then show ?thesis by blast
  qed
qed

lemma set_all_draws: "set_in_order s kvs w = (r, w') \<Longrightarrow> \<exists>n fs t. w' = w\<lparr>rnd_pos := n, faults := fs, app_tbl := t\<rparr>"
proof (induction kvs arbitrary: w)
  case Nil
  then have "w' = w\<lparr>rnd_pos := rnd_pos w, faults := faults w, app_tbl := app_tbl w\<rparr>" by simp
  then show ?case by blast
next
  case (Cons kv kvs)
  obtain k v where kv: "kv = (k, v)" by force
  obtain p w1 where p: "SetAppConfig s k v w = (p, w1)" by force
  obtain n fs t where w1: "w1 = w\<lparr>rnd_pos := n, faults := fs, app_tbl := t\<rparr>" using set_draws [OF p] by blast
  have "w' = w1 \<or> (\<exists>n fs t. w' = w1\<lparr>rnd_pos := n, faults := fs, app_tbl := t\<rparr>)"
    using Cons kv p by (cases p) auto
  then show ?case using w1 by auto
qed

lemma generate_keys_draws:
  "\<exists>n fs t. snd (GenerateWidgetKey e c w) = w\<lparr>rnd_pos := n, faults := fs, app_tbl := t\<rparr>"
proof (cases "getUserID c")
  case None
  then have "snd (GenerateWidgetKey e c w) = w\<lparr>rnd_pos := rnd_pos w, faults := faults w, app_tbl := app_tbl w\<rparr>"
    by (simp add: GenerateWidgetKey_def)
  then show ?thesis by blast
next
  case (Some u)
  let ?b = "c_rand (se_crypto e) (rnd_pos w) 32" and ?w = "w\<lparr>rnd_pos := Suc (rnd_pos w)\<rparr>"
  show ?thesis
  proof (cases "xw_widget_keys e ?b")
    case (Inl err)
    then have "snd (GenerateWidgetKey e c w) = w\<lparr>rnd_pos := Suc (rnd_pos w), faults := faults w, app_tbl := app_tbl w\<rparr>"
      using Some by (simp add: GenerateWidgetKey_def random_bytes_def)
    then show ?thesis by blast
  next
    case (Inr ks)
    obtain r w' where s: "SetConfigs e [(''widg.ed25519_keys'', ks)] ?w = (r, w')" by force
    have "snd (GenerateWidgetKey e c w) = w'"
      using Some Inr s by (cases r) (simp_all add: GenerateWidgetKey_def random_bytes_def no_config_def)
    moreover obtain n fs t where "w' = ?w\<lparr>rnd_pos := n, faults := fs, app_tbl := t\<rparr>"
      using set_all_draws s unfolding SetConfigs_def by blast
    ultimately show ?thesis by auto
  qed
qed

text \<open>Replacing the widget's keys has no effect on the running server: once it has read a pair it goes on signing
  codes with that pair and reading them with it, whatever the developers have stored since.
\<close>

theorem replaced_keys_stay_in_use:
  assumes "fst (gs_keys w) \<noteq> []" and "snd (gs_keys w) \<noteq> []" and "cd_Jti d \<noteq> []"
  shows "fst (rpc_WidgetNewCode e d (snd (GenerateWidgetKey e c w))) = fst (rpc_WidgetNewCode e d w)
    \<and> fst (rpc_WidgetParseCode e code (snd (GenerateWidgetKey e c w))) = fst (rpc_WidgetParseCode e code w)"
proof -
  obtain n fs t where k: "snd (GenerateWidgetKey e c w) = w\<lparr>rnd_pos := n, faults := fs, app_tbl := t\<rparr>"
    using generate_keys_draws by blast
  have h: "helperWidgetKeys e (w\<lparr>rnd_pos := n, faults := fs, app_tbl := t\<rparr>)
      = (Inr (gs_keys w), w\<lparr>rnd_pos := n, faults := fs, app_tbl := t\<rparr>)" "helperWidgetKeys e w = (Inr (gs_keys w), w)"
    using assms(1,2) by (simp_all add: helperWidgetKeys_def)
  obtain pub priv where ks: "gs_keys w = (pub, priv)" by force
  have new: "fst (WidgetNewCode e (Some d) pub priv (w\<lparr>rnd_pos := n, faults := fs, app_tbl := t\<rparr>))
      = fst (WidgetNewCode e (Some d) pub priv w)"
    using assms(3) by (simp add: WidgetNewCode_def with_jti_def split: option.split sum.split)
  have "fst (rpc_WidgetNewCode e d (snd (GenerateWidgetKey e c w))) = fst (rpc_WidgetNewCode e d w)"
    using new by (cases "WidgetNewCode e (Some d) pub priv w"; cases "WidgetNewCode e (Some d) pub priv (w\<lparr>rnd_pos := n, faults := fs, app_tbl := t\<rparr>)")
      (simp add: k rpc_WidgetNewCode_def h ks fail_def split: sum.split)
  moreover have "fst (rpc_WidgetParseCode e code (snd (GenerateWidgetKey e c w))) = fst (rpc_WidgetParseCode e code w)"
    by (simp add: k rpc_WidgetParseCode_def h ks fail_def WidgetParseCode_def split: sum.split option.split)
  ultimately show ?thesis ..
qed

end
