(* ===== verification/EncryptionProps.thy ===== *)
theory EncryptionProps
  imports UserDataProps UseCases
begin

text \<open>
  The nine encryptions that follow the creation of a master key, one by one and in sequence, refine the
  identity on what the holder of the key reads.
\<close>

section \<open>One encryption\<close>

text \<open>
  The code asks of a row with several encrypted fields that they are all encrypted or none of them: a row with
  some of them is encrypted once more as a whole.
\<close>

definition vectors_unmixed :: "('e) acct_env_scheme \<Rightarrow> uid \<Rightarrow> (nat \<times> vector_row) list \<Rightarrow> bool" where
  "vectors_unmixed e u t = list_all (\<lambda>(i, r). ve_user r = u \<longrightarrow> sealed e (ve_name r) = sealed e (ve_content r)) t"

definition crm_unmixed :: "('e) acct_env_scheme \<Rightarrow> uid \<Rightarrow> (nat \<times> crm_row) list \<Rightarrow> bool" where
  "crm_unmixed e u t = list_all (\<lambda>(i, r). cr_user r = u \<longrightarrow> crm_sealed e r \<or> crm_open e r) t"

definition oauth_unmixed :: "('e) acct_env_scheme \<Rightarrow> uid \<Rightarrow> (string \<times> oauth_row) list \<Rightarrow> bool" where
  "oauth_unmixed e u t = list_all (\<lambda>(i, r). oa_user r = u \<longrightarrow> oauth_sealed e r \<or> oauth_open e r) t"

definition config_unmixed :: "('e) acct_env_scheme \<Rightarrow> uid \<Rightarrow> (uid \<times> backend_config) list \<Rightarrow> bool" where
  "config_unmixed e u t = (case map_of t u of None \<Rightarrow> True | Some r \<Rightarrow> creds_sealed e r \<or> creds_open e r)"

lemmas view_after = after_each [where look = "view e mk" for e mk]

lemma view_if: "view e mk (if b then v else w) = (if b then view e mk v else view e mk w)"
  by simp

text \<open>Each table is a reader of its own.\<close>

interpretation keys_rd: table_reader api_keys by unfold_locales simp_all
interpretation channels_rd: table_reader channels by unfold_locales simp_all
interpretation dialogs_rd: table_reader dialogs by unfold_locales simp_all
interpretation google_rd: table_reader google by unfold_locales simp_all
interpretation vectors_rd: table_reader vectors by unfold_locales simp_all
interpretation crm_rd: table_reader crm by unfold_locales simp_all
interpretation oauth_rd: table_reader oauth by unfold_locales simp_all
interpretation config_rd: table_reader config_tbl by unfold_locales simp_all
interpretation tgbots_rd: table_reader tgbots by unfold_locales simp_all
interpretation wabots_rd: table_reader wabots by unfold_locales simp_all

lemma keys_view:
  assumes g: "good_fields (xa_fc e)" and d: "distinct (map fst (api_keys w))"
  shows "view e mk (snd (EncryptUserAPIKeysWSS e u mk w)) = view e mk w"
proof -
  let ?rs = "filter (\<lambda>((v, p), k). v = u \<and> \<not> sealed e k \<and> \<not> xa_is_app e k) (api_keys w)"
  have "view e mk (snd (each (api_key_step e u mk) ?rs 0 (drawn (drawn w)))) = view e mk (drawn (drawn w))"
    by (rule keys.pass [of ?rs e mk "drawn (drawn w)" u 0]) (use g d in \<open>auto simp: vw_member plain_open\<close>)
  then have "view e mk (snd (each (api_key_step e u mk) ?rs 0 (drawn (drawn w)))) = view e mk w" by simp
  then show ?thesis by (simp add: EncryptUserAPIKeysWSS_def Let_def view_after view_if)
qed

lemma channels_view:
  assumes g: "good_fields (xa_fc e)"
  shows "view e mk (snd (EncryptChannelsWSS e u mk w)) = view e mk w"
proof (cases "map_of (channels w) u")
  case (Some r)
  have "view e mk (snd (each (channel_step e u mk r) channel_columns 0 (drawn w))) = view e mk w"
    using chans.pass [of channel_columns e mk "drawn w" u r 0] g Some by (simp add: vw_def)
  then show ?thesis using Some by (simp add: EncryptChannelsWSS_def Let_def view_after view_if)
qed (simp add: EncryptChannelsWSS_def Let_def)

lemma dialogs_view:
  assumes g: "good_fields (xa_fc e)" and d: "distinct (map fst (dialogs w))"
  shows "view e mk (snd (EncryptDialogsWSS e u mk w)) = view e mk w"
proof -
  let ?rs = "filter (open_dialog e u) (dialogs w)"
  have "view e mk (snd (each (dialog_step e mk) ?rs 0 (say_count m n (drawn (drawn w))))) = view e mk w" for m n
    using dlgs.pass [of ?rs e mk "say_count m n (drawn (drawn w))" u 0] g d by (auto simp: vw_member)
  then show ?thesis by (simp add: EncryptDialogsWSS_def Let_def view_after view_if)
qed

lemma seal_token_plain: "good_fields (xa_fc e) \<Longrightarrow> plain e mk (case seal_token e mk v of None \<Rightarrow> v | Some c \<Rightarrow> c) = plain e mk v"
  by (auto simp: seal_token_def plain_enc plain_open split: sum.splits)

lemma google_view:
  assumes g: "good_fields (xa_fc e)"
  shows "view e mk (snd (EncryptGoogleTokenWSS e u mk w)) = view e mk w"
proof (cases "map_of (google w) u")
  case (Some r)
  have "vw (pv_google e mk) (upd u (\<lambda>_. \<lparr>gt_access = (case seal_token e mk (gt_access r) of None \<Rightarrow> gt_access r | Some c \<Rightarrow> c),
      gt_refresh = (case seal_token e mk (gt_refresh r) of None \<Rightarrow> gt_refresh r | Some c \<Rightarrow> c)\<rparr>) (google w))
      = vw (pv_google e mk) (google w)"
    by (rule vw_upd) (use Some g in \<open>simp add: pv_google_def seal_token_plain\<close>)
  then show ?thesis
    by (cases "gt_access r = []") (use Some in \<open>simp_all add: EncryptGoogleTokenWSS_def Let_def view_def\<close>)
qed (simp add: EncryptGoogleTokenWSS_def Let_def)

lemma vectors_view:
  assumes g: "good_enc e" and d: "distinct (map fst (vectors w))" and m: "vectors_unmixed e u (vectors w)"
  shows "view e mk (snd (EncryptVectorEmbeddingsWSS e u mk w)) = view e mk w"
proof -
  let ?rs = "filter (\<lambda>(i, r). ve_user r = u \<and> \<not> (sealed e (ve_name r) \<and> sealed e (ve_content r))) (vectors w)"
  have "view e mk (snd (each (vector_step e mk) ?rs 0 (say_count x n (drawn w)))) = view e mk w" for x n
    using vecs.pass [of ?rs e mk "say_count x n (drawn w)" 0] g d m
    by (fastforce simp: vw_member vectors_unmixed_def list_all_iff)
  then show ?thesis by (simp add: EncryptVectorEmbeddingsWSS_def Let_def view_after view_if)
qed

lemma crm_view:
  assumes g: "good_enc e" and d: "distinct (map fst (crm w))" and m: "crm_unmixed e u (crm w)"
  shows "view e mk (snd (EncryptCRMConfigsWSS e u mk w)) = view e mk w"
proof -
  let ?rs = "filter (\<lambda>(i, r). cr_user r = u \<and> \<not> crm_sealed e r) (crm w)"
  have "view e mk (snd (each (crm_step e mk) ?rs 0 (say_count x n (drawn w)))) = view e mk w" for x n
    using crms.pass [of ?rs e mk "say_count x n (drawn w)" 0] g d m
    by (fastforce simp: vw_member crm_unmixed_def list_all_iff)
  then show ?thesis by (simp add: EncryptCRMConfigsWSS_def Let_def view_after view_if)
qed

lemma oauth_view:
  assumes g: "good_enc e" and d: "distinct (map fst (oauth w))" and m: "oauth_unmixed e u (oauth w)"
  shows "view e mk (snd (EncryptCRMOAuthStatesWSS e u mk w)) = view e mk w"
proof -
  let ?rs = "filter (\<lambda>(i, r). oa_user r = u \<and> \<not> oauth_sealed e r) (oauth w)"
  have "view e mk (snd (each (oauth_step e mk) ?rs 0 (say_count x n (drawn w)))) = view e mk w" for x n
    using oaus.pass [of ?rs e mk "say_count x n (drawn w)" 0] g d m
    by (fastforce simp: vw_member oauth_unmixed_def list_all_iff)
  then show ?thesis by (simp add: EncryptCRMOAuthStatesWSS_def Let_def view_after view_if)
qed

lemma storage_view:
  assumes g: "good_enc e" and m: "config_unmixed e u (config_tbl w)"
  shows "view e mk (snd (EncryptUserStorageConfigWSS e u mk w)) = view e mk w"
proof -
  let ?rs = "case map_of (config_tbl w) u of None \<Rightarrow> [] | Some r \<Rightarrow> filter (\<lambda>r. \<not> creds_sealed e r) [r]"
  have "view e mk (snd (each (storage_step e u mk) ?rs 0 (say_count x n (drawn w)))) = view e mk w" for x n
    using creds.pass [of ?rs e mk "say_count x n (drawn w)" u 0] g m
    by (auto simp: vw_def config_unmixed_def split: option.splits if_splits)
  then show ?thesis by (simp add: EncryptUserStorageConfigWSS_def Let_def view_after view_if del: filter.simps)
qed

lemma bots_view:
  fixes w :: "'a data_st_scheme"
  assumes g: "good_enc e" and d: "distinct (map fst (tgbots w))" "distinct (map fst (wabots w))"
  shows "view e mk (snd (EncryptUserStorageServicesBotDataWSS e u mk w)) = view e mk w"
proof -
  have tg: "view e mk (snd (encryptTable e u mk name (\<lambda>t w. w\<lparr>tgbots := t\<rparr>) tgbots w)) = view e mk w" for name
  proof -
    let ?rs = "filter (open_bot e u) (tgbots w)"
    have "view e mk (snd (each (bot_step e mk (\<lambda>t w. w\<lparr>tgbots := t\<rparr>) tgbots) ?rs 0 (say_count x n (drawn w)))) = view e mk w" for x n
      using tgs.pass [of ?rs e mk "say_count x n (drawn w)" u 0] g d by (auto simp: vw_member)
    then show ?thesis by (simp add: encryptTable_def Let_def view_after view_if)
  qed
  have wa: "view e mk (snd (encryptTable e u mk name (\<lambda>t w. w\<lparr>wabots := t\<rparr>) wabots w)) = view e mk w"
    if "distinct (map fst (wabots w))" for name and w :: "'a data_st_scheme"
  proof -
    let ?rs = "filter (open_bot e u) (wabots w)"
    have "view e mk (snd (each (bot_step e mk (\<lambda>t w. w\<lparr>wabots := t\<rparr>) wabots) ?rs 0 (say_count x n (drawn w)))) = view e mk w" for x n
      using was.pass [of ?rs e mk "say_count x n (drawn w)" u 0] g that by (auto simp: vw_member)
    then show ?thesis by (simp add: encryptTable_def Let_def view_after view_if)
  qed
  obtain x w1 where one: "encryptTable e u mk ''SERVICE_TGBOTS'' (\<lambda>t w. w\<lparr>tgbots := t\<rparr>) tgbots w = (x, w1)" by force
  then have "wabots w1 = wabots w"
    using wabots_rd.table_frame [of "\<lambda>t w. w\<lparr>tgbots := t\<rparr>" e u mk "''SERVICE_TGBOTS''" tgbots w] by simp
  then show ?thesis using one tg [of "''SERVICE_TGBOTS''"] wa [of w1 "''SERVICE_WABOTS''"] d
    by (auto simp: EncryptUserStorageServicesBotDataWSS_def split: prod.splits sum.splits)
qed

section \<open>All of them\<close>

lemmas frames =
  channels_rd.keys_frame dialogs_rd.keys_frame vectors_rd.keys_frame crm_rd.keys_frame oauth_rd.keys_frame
  config_rd.keys_frame tgbots_rd.keys_frame wabots_rd.keys_frame
  dialogs_rd.channels_frame vectors_rd.channels_frame crm_rd.channels_frame oauth_rd.channels_frame
  config_rd.channels_frame tgbots_rd.channels_frame wabots_rd.channels_frame
  vectors_rd.dialogs_frame crm_rd.dialogs_frame oauth_rd.dialogs_frame
  config_rd.dialogs_frame tgbots_rd.dialogs_frame wabots_rd.dialogs_frame
  vectors_rd.google_frame crm_rd.google_frame oauth_rd.google_frame
  config_rd.google_frame tgbots_rd.google_frame wabots_rd.google_frame
  crm_rd.vectors_frame oauth_rd.vectors_frame config_rd.vectors_frame tgbots_rd.vectors_frame wabots_rd.vectors_frame
  oauth_rd.crm_frame config_rd.crm_frame tgbots_rd.crm_frame wabots_rd.crm_frame
  config_rd.oauth_frame tgbots_rd.oauth_frame wabots_rd.oauth_frame
  tgbots_rd.storage_frame wabots_rd.storage_frame

definition well_keyed :: "'a data_st_scheme \<Rightarrow> bool" where
  "well_keyed w = (distinct (map fst (api_keys w)) \<and> distinct (map fst (dialogs w)) \<and> distinct (map fst (vectors w))
     \<and> distinct (map fst (crm w)) \<and> distinct (map fst (oauth w)) \<and> distinct (map fst (tgbots w))
     \<and> distinct (map fst (wabots w)))"

definition unmixed :: "('e) acct_env_scheme \<Rightarrow> uid \<Rightarrow> 'a data_st_scheme \<Rightarrow> bool" where
  "unmixed e u w = (vectors_unmixed e u (vectors w) \<and> crm_unmixed e u (crm w) \<and> oauth_unmixed e u (oauth w)
     \<and> config_unmixed e u (config_tbl w))"

lemma run_look:
  assumes "look (snd (f w)) = look w"
    and "look (snd (run_encryptions fs (snd (f w)))) = look (snd (f w))"
  shows "look (snd (run_encryptions ((what, f) # fs) w)) = look w"
  using assms by (auto split: prod.splits sum.splits)

text \<open>
  The tables whose values are encrypted one by one, each checked before: keys of services, channels, dialogs, and the
  Google token. The other passes do not touch them.
\<close>

definition single_values :: "('e) acct_env_scheme \<Rightarrow> mkey \<Rightarrow> 'a data_st_scheme
    \<Rightarrow> (uid \<times> string \<Rightarrow> string option) \<times> (uid \<Rightarrow> channel_row option) \<times> (nat \<Rightarrow> dialog_row option) \<times> (uid \<Rightarrow> google_row option)" where
  "single_values e mk w = (vi_keys (view e mk w), vi_channels (view e mk w), vi_dialogs (view e mk w), vi_google (view e mk w))"

lemma single_of_view: "view e mk v = view e mk w \<Longrightarrow> single_values e mk v = single_values e mk w"
  by (simp only: single_values_def)

interpretation single_rd: table_reader "single_values e mk" for e mk
  by unfold_locales (simp_all add: single_values_def)

lemma single_frames:
  fixes w :: "'a data_st_scheme"
  shows "single_values e mk (snd (EncryptVectorEmbeddingsWSS e u k w)) = single_values e mk w"
  "single_values e mk (snd (EncryptCRMConfigsWSS e u k w)) = single_values e mk w"
  "single_values e mk (snd (EncryptCRMOAuthStatesWSS e u k w)) = single_values e mk w"
  "single_values e mk (snd (EncryptUserStorageConfigWSS e u k w)) = single_values e mk w"
  "single_values e mk (snd (EncryptUserStorageServicesBotDataWSS e u k w)) = single_values e mk w"
proof -
  show "single_values e mk (snd (EncryptVectorEmbeddingsWSS e u k w)) = single_values e mk w"
    by (rule single_rd.vectors_frame) (simp add: single_values_def)
  show "single_values e mk (snd (EncryptCRMConfigsWSS e u k w)) = single_values e mk w"
    by (rule single_rd.crm_frame) (simp add: single_values_def)
  show "single_values e mk (snd (EncryptCRMOAuthStatesWSS e u k w)) = single_values e mk w"
    by (rule single_rd.oauth_frame) (simp add: single_values_def)
  show "single_values e mk (snd (EncryptUserStorageConfigWSS e u k w)) = single_values e mk w"
    by (rule single_rd.storage_frame) (simp add: single_values_def)
  have tg: "single_values e mk (snd (encryptTable e u k n (\<lambda>t w. w\<lparr>tgbots := t\<rparr>) tgbots v)) = single_values e mk v"
    for n and v :: "'a data_st_scheme"
    by (rule single_rd.table_frame) (simp add: single_values_def)
  have wa: "single_values e mk (snd (encryptTable e u k n (\<lambda>t w. w\<lparr>wabots := t\<rparr>) wabots v)) = single_values e mk v"
    for n and v :: "'a data_st_scheme"
    by (rule single_rd.table_frame) (simp add: single_values_def)
  obtain x w1 where one: "encryptTable e u k ''SERVICE_TGBOTS'' (\<lambda>t w. w\<lparr>tgbots := t\<rparr>) tgbots w = (x, w1)" by force
  then show "single_values e mk (snd (EncryptUserStorageServicesBotDataWSS e u k w)) = single_values e mk w"
    using tg [of "''SERVICE_TGBOTS''" w] wa [of "''SERVICE_WABOTS''" w1]
    by (auto simp: EncryptUserStorageServicesBotDataWSS_def split: prod.splits sum.splits)
qed

lemma single_values_kept:
  assumes "good_fields (xa_fc e)" and "well_keyed w"
  shows "single_values e mk (snd (run_encryptions (encryptions e u mk) w)) = single_values e mk w"
  unfolding encryptions_def
  apply (rule run_look, rule single_of_view, rule keys_view, rule assms(1), use assms in \<open>simp add: well_keyed_def\<close>)
  apply (rule run_look, rule single_of_view, rule channels_view, rule assms(1))
  apply (rule run_look, rule single_of_view, rule dialogs_view, rule assms(1), use assms in \<open>simp add: well_keyed_def frames\<close>)
  apply (rule run_look, rule single_of_view, rule google_view, rule assms(1))
  apply (rule run_look, simp only: single_frames)
  apply (rule run_look, simp only: single_frames)
  apply (rule run_look, simp only: single_frames)
  apply (rule run_look, simp only: single_frames)
  apply (rule run_look, simp only: single_frames)
  apply simp
  done

lemma whole_view_kept:
  assumes g: "good_enc e" and "well_keyed w" and "unmixed e u w"
  shows "view e mk (snd (run_encryptions (encryptions e u mk) w)) = view e mk w"
  unfolding encryptions_def
  apply (rule run_look, rule keys_view, rule good_enc_fields [OF g], use assms in \<open>simp add: well_keyed_def\<close>)
  apply (rule run_look, rule channels_view, rule good_enc_fields [OF g])
  apply (rule run_look, rule dialogs_view, rule good_enc_fields [OF g], use assms in \<open>simp add: well_keyed_def frames\<close>)
  apply (rule run_look, rule google_view, rule good_enc_fields [OF g])
  apply (rule run_look, rule vectors_view, rule g,
      use assms in \<open>simp add: well_keyed_def frames\<close>, use assms in \<open>simp add: unmixed_def frames\<close>)
  apply (rule run_look, rule crm_view, rule g,
      use assms in \<open>simp add: well_keyed_def frames\<close>, use assms in \<open>simp add: unmixed_def frames\<close>)
  apply (rule run_look, rule oauth_view, rule g,
      use assms in \<open>simp add: well_keyed_def frames\<close>, use assms in \<open>simp add: unmixed_def frames\<close>)
  apply (rule run_look, rule storage_view, rule g, use assms in \<open>simp add: unmixed_def frames\<close>)
  apply (rule run_look, rule bots_view, rule g)
    apply (use assms in \<open>simp_all add: well_keyed_def frames\<close>)
  done

text \<open>C3: The nine encryptions that follow the creation of a master key, with any statements failing and wherever the
  sequence stops, in tables whose primary keys are keys. The holder of the key reads the same service keys, channels,
  dialogs and Google tokens as before, even if encrypting some of them fails. Vector documents, CRM configurations,
  OAuth states, storage credentials and bots read the same too if encrypting never fails and no row of the user has some of its
  values encrypted and others not; without these two conditions the code destroys such rows.
\<close>

theorem encryption_preserves_user_data:
  assumes "good_fields (xa_fc e)" and "well_keyed w"
  shows "single_values e mk (snd (run_encryptions (encryptions e u mk) w)) = single_values e mk w
    \<and> ((\<forall>k v. is_ok (fc_enc (xa_fc e) k v)) \<and> unmixed e u w
        \<longrightarrow> view e mk (snd (run_encryptions (encryptions e u mk) w)) = view e mk w)"
  using single_values_kept [OF assms] whole_view_kept [of e w u mk] assms by (auto simp: good_enc_def)

text \<open>What a document with an encrypted name and an open text becomes: the name is encrypted again.\<close>

lemma mixed_vector_is_wrapped_twice:
  assumes "good_fields (xa_fc e)" and "faults w = []" and "vectors w = [(i, r)]" and "ve_user r = u"
    and "sealed e (ve_name r)" and "\<not> sealed e (ve_content r)" and "fc_enc (xa_fc e) mk (ve_name r) = Inr c"
  shows "\<exists>r'. vectors (snd (EncryptVectorEmbeddingsWSS e u mk w)) = [(i, r')] \<and> ve_name r' = c \<and> plain e mk c = ve_name r"
    and "\<exists>err. fc_enc (xa_fc e) mk (ve_content r) = Inl err
       \<Longrightarrow> \<exists>r'. vectors (snd (EncryptVectorEmbeddingsWSS e u mk w)) = [(i, r')] \<and> ve_content r' = []"
  using assms by (auto simp: EncryptVectorEmbeddingsWSS_def Let_def vector_step_def failing_def say_count_def say_def
      drawn_def upd_def enc_or_empty_def plain_enc)

end
