(* ===== verification/AccountDemo.thy ===== *)
theory AccountDemo
  imports AccountProps EncryptionProps ExamProps
begin

text \<open>
  Concrete users for the properties of the accounts: user 7 has a second factor and a Telegram bot, user 8 is a
  victim. The JWT library of these examples signs everything alike and reads every token as user 7, device 5.
\<close>

definition small_web :: web_env where
  "small_web = settings_env.extend toy_env \<lparr>xe_redis = True, xe_sha3 = (\<lambda>s. s), xe_hmac = (\<lambda>k m. k @ m),
     xe_md5 = (\<lambda>s. replicate 16 (CHR ''m'')), xe_cbc = (\<lambda>k iv c. c), xe_bcrypt = (\<lambda>s p. Inr (''$2a$'' @ p)),
     xe_bcrypt_ok = (\<lambda>h p. h = ''$2a$'' @ p), xe_pbkdf2 = (\<lambda>p s. take 32 (p @ s @ replicate 32 (CHR ''.''))),
     xe_lower = (\<lambda>s. s), xe_sign = (\<lambda>k c. ''signed''),
     xe_parse = (\<lambda>k t s. Some [(''user'', JInt 7), (''resp'', JInt 5)]), xe_show_time = (\<lambda>t. []),
     xe_read_time = (\<lambda>s. None), xe_totp = (\<lambda>s t c. c = s), xa_fc = demo_fc, xa_is_app = (\<lambda>_. False),
     xa_same = (\<lambda>a b. a = b), xa_lang = (\<lambda>_. Some 1), xw_allow = (\<lambda>ts t. length ts < 10), xw_host = ''h'', xw_dev = True,
     xw_provider = (\<lambda>_. None), xw_order = (\<lambda>m. m), xw_totp_gen = (\<lambda>a b. Inr (b, a)), xw_widget_keys = Inr\<rparr>"

definition hash_row :: "string \<Rightarrow> string \<Rightarrow> string option \<Rightarrow> auth_row" where
  "hash_row pass mail totp = \<lparr>au_SHA = ''$2a$'' @ pass, au_Email = mail, au_EmailHash = None, au_MasterKey = None,
     au_WrapSalt = None, au_TOTP = totp, au_Confirmed = True, au_Disabled = False\<rparr>"

definition small_data :: data_st where
  "small_data = exam_st.extend (toy_exam_st\<lparr>ex_regs := [(5, 0, ''k'')]\<rparr>) \<lparr>api_keys = [((7, ''openai''), ''sk'')],
     channels = [(7, \<lparr>ch_cols = [(''TgBot'', Some ''t''), (''Widget'', None)], ch_on = []\<rparr>)],
     dialogs = [(1, \<lparr>dl_User = 7, dl_Data = Some ''hello''\<rparr>)], google = [(7, \<lparr>gt_access = ''a'', gt_refresh = []\<rparr>)],
     vectors = [(1, \<lparr>ve_user = 7, ve_name = ''n'', ve_content = ''c''\<rparr>)],
     crm = [(1, \<lparr>cr_user = 7, cr_name = ''n'', cr_subdomain = None, cr_credentials = ''c'', cr_options = ''o'',
       cr_channels = Some ''w''\<rparr>)], oauth = [], tgbots = [(1, \<lparr>bo_user = 7, bo_auth = ''s''\<rparr>)], wabots = [],
     progress = []\<rparr>"

definition small_totp :: string where
  "small_totp = EncodeToString (replicate 12 (CHR ''r'') @ ''tttt'' @ ''code'')"

definition small_st :: web2_st where
  "small_st = data_st.extend small_data
     \<lparr>auth_tbl = [(7, hash_row ''pw'' ''u7'' (Some small_totp)), (8, hash_row ''other'' ''u8'' None)],
      users = [(7, \<lparr>us_Name = ''seven'', us_Role = 2, us_Lang = 1\<rparr>)], subscriptions = [], next_user = 9,
      hash_required = False, migration_done = False, limiters = [], totp_pending = [], totp_setup = [], jobs = [],
      cookies = []\<rparr>"

text \<open>The password as a client sends it: a header of 16 bytes and one padded block.\<close>

definition small_pass :: string where
  "small_pass = EncodeToString (''Salted__12345678'' @ ''pw'' @ replicate 14 (char_of (14 :: nat)))"

definition small_login :: login_req where
  "small_login = \<lparr>lq_RespId = 5, lq_Mail = ''u7'', lq_Pass = small_pass, lq_Auto = True\<rparr>"

definition small_token :: string where
  "small_token = hex_of (replicate 16 (CHR ''r''))"

lemma small_web_fields [simp]:
  "se_crypto small_web = toy_crypto" "xe_hmac small_web = (\<lambda>k m. k @ m)" "xe_totp small_web = (\<lambda>s t c. c = s)"
  "xe_bcrypt small_web = (\<lambda>s p. Inr (''$2a$'' @ p))" "xe_bcrypt_ok small_web = (\<lambda>h p. h = ''$2a$'' @ p)"
  "xe_sign small_web = (\<lambda>k c. ''signed'')" "xa_same small_web = (\<lambda>a b. a = b)" "xa_fc small_web = demo_fc"
  "xe_md5 small_web = (\<lambda>s. replicate 16 (CHR ''m''))" "xe_cbc small_web = (\<lambda>k iv c. c)"
  "xw_allow small_web = (\<lambda>ts t. length ts < 10)" "xw_dev small_web"
  "xe_parse small_web = (\<lambda>k t s. Some [(''user'', JInt 7), (''resp'', JInt 5)])"
  by (simp_all add: small_web_def settings_env.defs toy_env_def)

lemma small_st_fields [simp]:
  "now small_st = 0" "faults small_st = []" "limiters small_st = []" "ex_regs small_st = [(5, 0, ''k'')]"
  "auth_tbl small_st = [(7, hash_row ''pw'' ''u7'' (Some small_totp)), (8, hash_row ''other'' ''u8'' None)]"
  "totp_pending small_st = []" "ex_totp_enc small_st = replicate 32 (CHR ''t'')"
  "users small_st = [(7, \<lparr>us_Name = ''seven'', us_Role = 2, us_Lang = 1\<rparr>)]"
  "tgbots small_st = [(1, \<lparr>bo_user = 7, bo_auth = ''s''\<rparr>)]"
  by (simp_all add: small_st_def data_st.defs small_data_def exam_st.defs toy_exam_st_def exam_of_def app_st.defs toy_app_def)

lemma small_password: "decryptAESPassword small_web small_pass ''k'' = Some (Inr ''pw'')"
  by code_simp

lemma small_decrypt: "fst (DecryptPassword small_web 5 small_pass small_st) = Some (Inr ''pw'')"
  by (simp add: DecryptPassword_def small_password RegKeyTTL_def second_def)


lemma small_totp_text: "DecodeString small_totp = Some (replicate 12 (CHR ''r'') @ ''tttt'' @ ''code'')" "small_totp \<noteq> []"
proof -
  show t: "DecodeString small_totp = Some (replicate 12 (CHR ''r'') @ ''tttt'' @ ''code'')"
    unfolding small_totp_def by (rule base64_roundtrip)
  show "small_totp \<noteq> []"
  proof
    assume "small_totp = []"
    then have "DecodeString [] = Some (replicate 12 (CHR ''r'') @ ''tttt'' @ ''code'')" using t by simp
    then show False by (simp add: DecodeString_def)
  qed
qed

lemma small_token_text: "small_token \<noteq> []"
  by (simp add: small_token_def hex_of_def)

lemma small_limited: "performRateLimit small_web 5 small_st = (None, small_st\<lparr>limiters := [(5, [0])]\<rparr>)"
  by (simp add: performRateLimit_def Allow_def)

definition small_asked :: web2_st where
  "small_asked = small_st\<lparr>limiters := [(5, [0])], ex_regs := []\<rparr>"

lemma small_with: "with_password small_web 5 small_pass k (small_st\<lparr>limiters := [(5, [0])]\<rparr>) = k ''pw'' small_asked"
  by (simp add: with_password_def DecryptPassword_def small_password RegKeyTTL_def second_def small_asked_def)

lemma small_asked_fields [simp]: "faults small_asked = []" "now small_asked = 0" "totp_pending small_asked = []"
  "auth_tbl small_asked = [(7, hash_row ''pw'' ''u7'' (Some small_totp)), (8, hash_row ''other'' ''u8'' None)]"
  "ex_totp_enc small_asked = replicate 32 (CHR ''t'')"
  by (simp_all add: small_asked_def)

lemma small_auth: "Authenticate small_web ''u7'' ''pw'' small_asked = (Inr \<lparr>lr_UserID = 7, lr_Confirmed = True,
    lr_Disabled = False, lr_IsLegacy = True, lr_TOTPEnabled = True, lr_Password = ''pw''\<rparr>, drawn (drawn small_asked))"
  by (simp add: Authenticate_def GetAuthData_def failing_def find_user_def named_def hash_row_def VerifyPassword_def
      GetTOTPData_def get_auth_def small_totp_text drawn_def)


definition small_session :: pending_session where
  "small_session = \<lparr>tp_userId = 7, tp_respId = 5, tp_confirmed = True, tp_disabled = False, tp_auto = True,
     tp_password = ''pw'', tp_expiresAt = totpPendingTTL\<rparr>"

definition small_waiting :: web2_st where
  "small_waiting = snd (Login small_web (Inr small_login) small_st)"

lemma random_toy: "random_bytes toy_crypto n w = (replicate n (CHR ''r''), w\<lparr>rnd_pos := Suc (rnd_pos w)\<rparr>)"
  by (simp add: random_bytes_def toy_crypto_def)

lemma small_waiting_fields:
  "totp_pending small_waiting = [(small_token, small_session)]" "now small_waiting = 0" "faults small_waiting = []"
  "auth_tbl small_waiting = auth_tbl small_st" "ex_totp_enc small_waiting = replicate 32 (CHR ''t'')"
  by (simp_all add: small_waiting_def Login_def limited_def small_login_def small_limited small_with small_auth
      await_totp_def newTOTPToken_def random_toy storeTOTPPending_def spawn_def drawn_def small_session_def small_token_def)

lemma small_code: "ValidateTOTPCode small_web w small_totp ''code''" if "ex_totp_enc w = replicate 32 (CHR ''t'')"
proof -
  have "open_text toy_crypto (replicate 32 (CHR ''t'')) small_totp = Inr ''code''"
    by (simp add: open_text_def small_totp_text(1) aes_key_def) (simp add: toy_crypto_def numeral_eq_Suc)
  then show ?thesis using that by (simp add: ValidateTOTPCode_def decryptTOTPSecret_def)
qed

lemma small_second_factor: "field ''token'' (AuthTOTP small_web (Some (small_token, ''code'')) small_waiting) = Some (JStr ''signed'')"
proof -
  let ?w = "small_waiting\<lparr>totp_pending := []\<rparr>"
  have l: "loadAndDeleteTOTPPending small_token small_waiting = (Some small_session, ?w)"
    by (simp add: loadAndDeleteTOTPPending_def small_waiting_fields small_session_def totpPendingTTL_def minute_def second_def)
  have g: "GetTOTPData 7 ?w = (Inr (Some small_totp), drawn ?w)"
    by (simp add: GetTOTPData_def get_auth_def failing_def small_waiting_fields hash_row_def small_totp_text(2))
  have v: "ValidateTOTPCode small_web (drawn ?w) small_totp ''code''"
    by (rule small_code) (simp add: drawn_def small_waiting_fields)
  have "tp_userId small_session = 7" by (simp add: small_session_def)
  then show ?thesis using l g v
    by (simp add: AuthTOTP_def small_token_text GenerateAccessToken_def)
qed

theorem token_needs_both_factors_witness:
  "\<exists>v q. (web_step small_web)\<^sup>*\<^sup>* (snd (Login small_web (Inr q) v)) small_waiting \<and> password_ok small_web v q 7"
proof -
  have "(web_step small_web)\<^sup>*\<^sup>* small_st small_waiting"
    unfolding small_waiting_def by (rule r_into_rtranclp) (rule logging_in)
  from token_needs_both_factors [OF this _ small_second_factor] obtain v q u row where
    run: "(web_step small_web)\<^sup>*\<^sup>* (snd (Login small_web (Inr q) v)) small_waiting" "password_ok small_web v q u"
      and row: "map_of (auth_tbl small_waiting) u = Some row" "au_TOTP row \<noteq> None"
    by auto
  from row have "u = 7" by (auto simp: small_waiting_fields hash_row_def split: if_splits)
  then show ?thesis using run by blast
qed

definition small_request :: http_req where
  "small_request = \<lparr>rq_method = ''GET'', rq_upgrade = False, rq_headers = [],
     rq_gin = \<lparr>g_keys = [], g_query = [(''token'', ''tok'')], g_param = []\<rparr>\<rparr>"

lemma small_verify: "VerifyAccessToken small_web t w = Inr (7, 5)"
  by (simp add: VerifyAccessToken_def number_claim_def go_uint64_def)

lemma small_extract: "extractToken small_request = ''tok''"
  by (simp add: extractToken_def small_request_def GetHeader_def Query_def)

theorem developer_routes_admit_everyone_witness:
  "\<exists>c w'. dev_route small_web (\<lambda>_. []) small_request (GetServiceKey small_web) small_st = GetServiceKey small_web c w'
     \<and> getUserID c = Some 7 \<and> us_Role (snd (hd (users small_st))) \<noteq> 0"
proof -
  have "Query (rq_gin small_request) ''provider'' = []" by (simp add: small_request_def Query_def)
  then show ?thesis
    using developer_routes_admit_everyone [OF small_verify, of small_request small_st
        "\<lparr>us_Name = ''seven'', us_Role = 2, us_Lang = 1\<rparr>" "\<lambda>_. []" "GetServiceKey small_web"]
    by (auto simp: small_extract calm_def)
qed

theorem any_token_resets_any_password_witness:
  "\<exists>row. (8, row) \<in> set (auth_tbl (snd (ResetPass small_web (Inr \<lparr>pq_Token = ''t'', pq_Mail = ''u8'', pq_Pass = small_pass,
       pq_RawMasterKey = []\<rparr>) small_st))) \<and> au_SHA row = ''$2a$pw''"
proof -
  let ?q = "\<lparr>pq_Token = ''t'', pq_Mail = ''u8'', pq_Pass = small_pass, pq_RawMasterKey = []\<rparr>"
  have t: "ParseAuthToken small_web (pq_Token ?q) small_st = Inr (7, 5)"
    by (simp add: ParseAuthToken_def struct_number_def)
  have "status (ResetPass small_web (Inr ?q) small_st) = 200
    \<and> (8, (hash_row ''other'' ''u8'' None)\<lparr>au_SHA := ''$2a$pw''\<rparr>) \<in> set (auth_tbl (snd (ResetPass small_web (Inr ?q) small_st)))"
    by (rule any_token_resets_any_password [OF t, where caller = "hash_row ''pw'' ''u7'' (Some small_totp)" and pass = "''pw''"])
      (simp_all add: small_decrypt calm_def named_def hash_row_def)
  then show ?thesis by fastforce
qed

theorem lost_key_reset_stops_halfway_witness:
  "\<exists>err w'. RewrapOrReset small_web 7 5 [] small_pass small_st = (Some (Inl err), w')"
  using lost_key_reset_stops_halfway [of small_st 7 1 "\<lparr>bo_user = 7, bo_auth = ''s''\<rparr>" small_web 5 small_pass "[]"]
  by (auto simp: calm_def)

lemma small_good: "good_enc small_web"
  using demo_fc_good by (simp add: good_enc_def) (simp add: demo_fc_def)

theorem encryption_preserves_user_data_witness:
  "view small_web ''key'' (snd (run_encryptions (encryptions small_web 7 ''key'') small_st)) = view small_web ''key'' small_st"
proof -
  have k: "well_keyed small_st" by (simp add: well_keyed_def small_st_def data_st.defs small_data_def exam_st.defs)
  have "unmixed small_web 7 small_st"
    by (simp add: unmixed_def small_st_def data_st.defs small_data_def exam_st.defs vectors_unmixed_def crm_unmixed_def
        oauth_unmixed_def config_unmixed_def crm_open_def opt_open_def sealed_def demo_fc_def
        toy_exam_st_def exam_of_def app_st.defs toy_app_def)
  then show ?thesis using encryption_preserves_user_data [OF _ k, of small_web "''key''" 7] small_good
    by (simp add: good_enc_def)
qed

end
