(* ===== verification/WidgetDemo.thy ===== *)
theory WidgetDemo
  imports WidgetProps AccountDemo
begin

text \<open>
  Concrete inputs for the widget's properties, over the users of \<open>AccountDemo\<close>. A token of this library is the
  number of its key and claims.
\<close>

definition numbered :: "string \<Rightarrow> claims \<Rightarrow> string" where
  "numbered k c = ''e0'' @ show_nat (to_nat (k, c))"

definition read_numbered :: "(claims \<Rightarrow> bool) \<Rightarrow> string \<Rightarrow> string \<Rightarrow> claims option" where
  "read_numbered ok k s = (case from_nat (read_nat (drop 2 s)) of (j, c) \<Rightarrow> if j = k \<and> ok c then Some c else None)"

definition visit :: widget_env where
  "visit = web_env.extend (small_web\<lparr>xe_sign := numbered, xe_parse := (\<lambda>k t. read_numbered (fresh t) k)\<rparr>)
     \<lparr>xg_unchecked = read_numbered (\<lambda>_. True), xg_pem = (\<lambda>v. if v = [] then None else Some v), xg_pkcs8 = (\<lambda>v. Inr (Ed25519 v)),
      xg_pkix = (\<lambda>v. Inr (Ed25519 v)), xg_public = (\<lambda>p. ''pub'' @ p), xg_ed_sign = (\<lambda>p i c. numbered (''pub'' @ p) c),
      xg_read_keys = (\<lambda>s. Some (''pubk'', ''k'')), xg_ed_parse = (\<lambda>k t. read_numbered (in_time t) k)\<rparr>"

lemma read_numbered [simp]: "read_numbered ok k (numbered j c) = (if j = k \<and> ok c then Some c else None)"
  by (simp add: read_numbered_def numbered_def read_show_nat del: read_nat.simps)

lemma numbered_not_blank: "TrimSpace (numbered k c) \<noteq> []"
proof -
  let ?n = "show_nat (to_nat (k, c))"
  have "is_digit (last ?n)" using show_nat_digits [OF last_in_set [OF show_nat_nonempty]] .
  moreover have "plain_start (CHR ''e'')" by code_simp
  ultimately have "TrimSpace (CHR ''e'' # (CHR ''0'' # butlast ?n) @ [last ?n]) = CHR ''e'' # (CHR ''0'' # butlast ?n) @ [last ?n]"
    by (intro TrimSpace_plain)
  then show ?thesis by (simp add: numbered_def)
qed

lemma visit_fields [simp]:
  "se_crypto visit = toy_crypto" "xe_hmac visit = (\<lambda>k m. k @ m)" "xe_bcrypt visit = (\<lambda>s p. Inr (''$2a$'' @ p))"
  "xa_same visit = (\<lambda>a b. a = b)" "xw_allow visit = (\<lambda>ts t. length ts < 10)" "xe_sign visit = numbered"
  "xe_parse visit = (\<lambda>k t. read_numbered (fresh t) k)" "xg_unchecked visit = read_numbered (\<lambda>_. True)"
  "xe_md5 visit = xe_md5 small_web" "xe_cbc visit = xe_cbc small_web"
  "xg_pem visit = (\<lambda>v. if v = [] then None else Some v)" "xg_pkcs8 visit = (\<lambda>v. Inr (Ed25519 v))"
  "xg_pkix visit = (\<lambda>v. Inr (Ed25519 v))" "xg_public visit = (\<lambda>p. ''pub'' @ p)"
  "xg_ed_sign visit = (\<lambda>p i c. numbered (''pub'' @ p) c)" "xg_ed_parse visit = (\<lambda>k t. read_numbered (in_time t) k)"
  "xg_read_keys visit = (\<lambda>s. Some (''pubk'', ''k''))"
  by (simp_all add: visit_def web_env.defs small_web_def settings_env.defs toy_env_def)

lemma visit_jwt: "good_jwt visit"
  by (simp add: good_jwt_def)

lemma visit_unchecked: "good_unchecked visit"
  by (simp add: good_unchecked_def numbered_not_blank)

lemma visit_ed: "good_ed visit"
  by (simp add: good_ed_def)

text \<open>A token of an hour for visitor \<open>2 ^ 60 + 1\<close>, a number no double holds, read half an hour and two hours later.\<close>

theorem widget_token_life_witness:
  "\<exists>tok d. td_RespId d = 2 ^ 60 + 1 \<and> WidgetParseToken visit tok (advance (30 * minute) small_st) = Some (Inr d)
     \<and> WidgetParseToken visit tok (advance (2 * hour) small_st) = Some (Inl (Msg ''token parse error''))
     \<and> WidgetParseExpiredToken visit tok (advance (2 * hour) small_st) = Inr d"
proof -
  obtain tok w1 where t: "WidgetNewToken visit 7 (2 ^ 60 + 1) ''site'' 3600 small_st = (tok, w1)" by force
  have crypto: "good_crypto (se_crypto visit)" using toy_crypto_good by simp
  note life = widget_token_life [OF visit_jwt visit_unchecked crypto t]
  obtain d where d: "td_RespId d = 2 ^ 60 + 1" "WidgetParseToken visit tok (advance (30 * minute) small_st) = Some (Inr d)"
      "WidgetParseExpiredToken visit tok (advance (30 * minute) small_st) = Inr d"
    using life [of "advance (30 * minute) small_st"] by (auto simp: advance_def minute_def second_def)
  have "WidgetParseToken visit tok (advance (2 * hour) small_st) = Some (Inl (Msg ''token parse error''))"
    using life [of "advance (2 * hour) small_st"] by (auto simp: advance_def hour_def minute_def second_def)
  moreover have "WidgetParseExpiredToken visit tok (advance (2 * hour) small_st)
      = WidgetParseExpiredToken visit tok (advance (30 * minute) small_st)"
    by (simp add: WidgetParseExpiredToken_def advance_def)
  ultimately show ?thesis using d by metis
qed

definition visit_st :: web2_st where
  "visit_st = small_st\<lparr>ex_regs := [(0, 0, ''k'')]\<rparr>"

definition visit_req :: "string \<Rightarrow> pass_req" where
  "visit_req tok = \<lparr>pq_Token = tok, pq_Mail = ''u8'', pq_Pass = small_pass, pq_RawMasterKey = []\<rparr>"

lemma visit_decrypt: "fst (DecryptPassword visit 0 small_pass visit_st) = Some (Inr ''pw'')"
proof -
  have "decryptAESPassword visit small_pass ''k'' = decryptAESPassword small_web small_pass ''k''"
    unfolding decryptAESPassword_def visit_fields ..
  then show ?thesis by (simp add: DecryptPassword_def visit_st_def small_password RegKeyTTL_def second_def)
qed

theorem widget_visitor_resets_any_password_witness:
  "\<exists>tok. (8, (hash_row ''other'' ''u8'' None)\<lparr>au_SHA := ''$2a$pw''\<rparr>)
     \<in> set (auth_tbl (snd (ResetPass visit (Inr (visit_req tok)) visit_st)))"
proof -
  obtain tok w1 where t: "WidgetNewToken visit 7 5 ''site'' 3600 small_st = (tok, w1)" by force
  have "(8, (hash_row ''other'' ''u8'' None)\<lparr>au_SHA := ''$2a$pw''\<rparr>)
      \<in> set (auth_tbl (snd (ResetPass visit (Inr (visit_req tok)) visit_st)))"
    by (rule widget_visitor_resets_any_password [OF visit_jwt, where pass = "''pw''" and ?w0.0 = small_st and s = 3600])
      (use t visit_decrypt in \<open>simp_all add: visit_req_def visit_st_def times_second_small second_def calm_def named_def hash_row_def\<close>)
  then show ?thesis by blast
qed

definition visit_server :: grpc_st where
  "visit_server = web2_st.extend small_st \<lparr>gs_keys = (''pubk'', ''k''), gs_calls = []\<rparr>"

definition visit_code :: code_data where
  "visit_code = \<lparr>cd_UserId = 7, cd_ExamKey = ''exam'', cd_Jti = ''j'', cd_ExpiresAt = 60, cd_NeverExpires = False,
     cd_AllowedUrls = [''site'']\<rparr>"

lemma visit_server_fields [simp]: "gs_keys visit_server = (''pubk'', ''k'')" "now visit_server = 0"
  by (simp_all add: visit_server_def web2_st.defs small_st_def data_st.defs small_data_def exam_st.defs toy_exam_st_def
      exam_of_def app_st.defs toy_app_def)

lemma visit_new_code: "\<exists>code. rpc_WidgetNewCode visit visit_code visit_server = (Inr code, visit_server)"
proof -
  have "TrimSpace ''exam'' \<noteq> []" by code_simp
  then show ?thesis
    by (simp add: rpc_WidgetNewCode_def helperWidgetKeys_def WidgetNewCode_def with_jti_def visit_code_def bad_code_data_def
        parseEd25519PublicKey_def parseEd25519PrivateKey_def parse_ed_key_def)
qed

theorem widget_code_roundtrip_witness:
  "\<exists>code. rpc_WidgetParseCode visit code visit_server = (Inr visit_code, visit_server)"
proof -
  obtain code where c: "rpc_WidgetNewCode visit visit_code visit_server = (Inr code, visit_server)"
    using visit_new_code by blast
  have crypto: "good_crypto (se_crypto visit)" using toy_crypto_good by simp
  show ?thesis
    using widget_code_roundtrip [OF visit_ed crypto c, of visit_server]
    by (intro exI [of _ code]) (auto simp: visit_code_def second_def)
qed

theorem replaced_keys_stay_in_use_witness:
  "fst (rpc_WidgetNewCode visit visit_code (snd (GenerateWidgetKey visit c visit_server)))
     = fst (rpc_WidgetNewCode visit visit_code visit_server)"
  using replaced_keys_stay_in_use [of visit_server visit_code visit c] by (simp add: visit_code_def)

end
