(* ===== verification/JsonText.thy ===== *)
theory JsonText
  imports Http
begin

text \<open>
  \<open>json.Valid\<close> of Go's \<open>encoding/json\<close> on a text: one JSON value with nothing but blanks around it, nested at most
  10000 deep. A reader returns what follows the part it has read. The fuel of the readers decreases at each
  value, member and element, of which a text of \<open>n\<close> bytes has at most \<open>2 n\<close>.
\<close>

definition json_space :: "char \<Rightarrow> bool" where
  "json_space c = (c = CHR '' '' \<or> c = CHR 0x09 \<or> c = CHR 0x0A \<or> c = CHR 0x0D)"

definition json_skip :: "string \<Rightarrow> string" where
  "json_skip s = dropWhile json_space s"

definition hex_char :: "char \<Rightarrow> bool" where
  "hex_char c = (is_digit c \<or> (97 \<le> (of_char c :: nat) \<and> (of_char c :: nat) \<le> 102)
     \<or> (65 \<le> (of_char c :: nat) \<and> (of_char c :: nat) \<le> 70))"

text \<open>The rest of a string literal after its opening quote.\<close>

fun json_string :: "string \<Rightarrow> string option" where
  "json_string [] = None"
| "json_string (c # s) =
     (if c = CHR 0x22 then Some s
      else if c = CHR 0x5C then
        (case s of
           [] \<Rightarrow> None
         | d # t \<Rightarrow>
             if d = CHR ''u'' then
               (case t of
                  h1 # h2 # h3 # h4 # r \<Rightarrow> if list_all hex_char [h1, h2, h3, h4] then json_string r else None
                | _ \<Rightarrow> None)
             else if d \<in> set (CHR 0x22 # CHR 0x5C # ''/bfnrt'') then json_string t
             else None)
      else if (of_char c :: nat) < 32 then None
      else json_string s)"

definition json_exponent :: "string \<Rightarrow> string option" where
  "json_exponent s =
     (case s of
        c # t \<Rightarrow>
          if c = CHR ''e'' \<or> c = CHR ''E'' then
            (let t = (case t of d # r \<Rightarrow> if d = CHR ''+'' \<or> d = CHR ''-'' then r else t | [] \<Rightarrow> t) in
             case t of d # r \<Rightarrow> if is_digit d then Some (dropWhile is_digit r) else None | [] \<Rightarrow> None)
          else Some s
      | [] \<Rightarrow> Some [])"

definition json_fraction :: "string \<Rightarrow> string option" where
  "json_fraction s =
     (case s of
        c # t \<Rightarrow>
          if c = CHR ''.'' then
            (case t of d # r \<Rightarrow> if is_digit d then json_exponent (dropWhile is_digit r) else None | [] \<Rightarrow> None)
          else json_exponent s
      | [] \<Rightarrow> Some [])"

definition json_number :: "string \<Rightarrow> string option" where
  "json_number s =
     (case (if HasPrefix s ''-'' then tl s else s) of
        [] \<Rightarrow> None
      | c # t \<Rightarrow>
          if c = CHR ''0'' then json_fraction t
          else if is_digit c then json_fraction (dropWhile is_digit t)
          else None)"

definition json_literal :: "string \<Rightarrow> string \<Rightarrow> string option" where
  "json_literal l s = (if HasPrefix s l then Some (drop (length l) s) else None)"

text \<open>After a value: the separator with what follows it, or the closing bracket.\<close>

definition json_after :: "char \<Rightarrow> (string \<Rightarrow> string option) \<Rightarrow> string \<Rightarrow> string option" where
  "json_after close further s =
     (case json_skip s of
        c # t \<Rightarrow> if c = close then Some t else if c = CHR '','' then further (json_skip t) else None
      | [] \<Rightarrow> None)"

fun json_value :: "nat \<Rightarrow> nat \<Rightarrow> string \<Rightarrow> string option"
and json_members :: "nat \<Rightarrow> nat \<Rightarrow> string \<Rightarrow> string option"
and json_elements :: "nat \<Rightarrow> nat \<Rightarrow> string \<Rightarrow> string option" where
  "json_value 0 d s = None"
| "json_value (Suc n) d s =
     (case s of
        [] \<Rightarrow> None
      | c # t \<Rightarrow>
          if c = CHR ''{'' then
            (if d = 0 then None
             else if HasPrefix (json_skip t) ''}'' then Some (tl (json_skip t))
             else json_members n (d - 1) (json_skip t))
          else if c = CHR ''['' then
            (if d = 0 then None
             else if HasPrefix (json_skip t) '']'' then Some (tl (json_skip t))
             else json_elements n (d - 1) (json_skip t))
          else if c = CHR 0x22 then json_string t
          else if c = CHR ''t'' then json_literal ''true'' s
          else if c = CHR ''f'' then json_literal ''false'' s
          else if c = CHR ''n'' then json_literal ''null'' s
          else json_number s)"
| "json_members 0 d s = None"
| "json_members (Suc n) d s =
     (if \<not> HasPrefix s [CHR 0x22] then None
      else (case json_string (tl s) of
              None \<Rightarrow> None
            | Some r \<Rightarrow>
                if \<not> HasPrefix (json_skip r) '':'' then None
                else (case json_value n d (json_skip (tl (json_skip r))) of
                        None \<Rightarrow> None
                      | Some r \<Rightarrow> json_after (CHR ''}'') (json_members n d) r)))"
| "json_elements 0 d s = None"
| "json_elements (Suc n) d s =
     (case json_value n d s of
        None \<Rightarrow> None
      | Some r \<Rightarrow> json_after (CHR '']'') (json_elements n d) r)"

definition json_valid :: "string \<Rightarrow> bool" where
  "json_valid s =
     (case json_value (2 * length s + 2) 10000 (json_skip s) of
        None \<Rightarrow> False
      | Some r \<Rightarrow> json_skip r = [])"

section \<open>Objects of one member\<close>

text \<open>A text that needs no escapes.\<close>

definition plain_text :: "string \<Rightarrow> bool" where
  "plain_text s = list_all (\<lambda>c. 32 \<le> (of_char c :: nat) \<and> c \<noteq> CHR 0x22 \<and> c \<noteq> CHR 0x5C) s"

lemma json_string_plain: "plain_text p \<Longrightarrow> json_string (p @ CHR 0x22 # r) = Some r"
  by (induction p) (auto simp: plain_text_def)

definition member_text :: "string \<Rightarrow> string \<Rightarrow> string" where
  "member_text k v = CHR ''{'' # CHR 0x22 # k @ CHR 0x22 # CHR '':'' # CHR '' '' # CHR 0x22 # v @ CHR 0x22 # ''}''"

lemma member_valid:
  assumes "plain_text k" and "plain_text v"
  shows "json_valid (member_text k v)"
proof -
  let ?r = "k @ CHR 0x22 # CHR '':'' # CHR '' '' # CHR 0x22 # v @ CHR 0x22 # ''}''"
  have m: "json_members (Suc (Suc n)) d (CHR 0x22 # ?r) = Some []" for n d
    using json_string_plain [OF assms(1)] json_string_plain [OF assms(2), of "''}''"]
    by (simp add: json_skip_def json_space_def json_after_def)
  obtain n where "2 * length (member_text k v) + 2 = Suc (Suc (Suc n))"
    by (simp add: member_text_def)
  then show ?thesis
    using m [of n 9999] by (simp add: json_valid_def) (simp add: member_text_def json_skip_def json_space_def)
qed

lemma json_examples:
  "json_valid ''{}''" "json_valid '' [1, -2.5e3, true, {} ] ''" "\<not> json_valid ''[1,]''" "\<not> json_valid ''01''"
  "\<not> json_valid []" "\<not> json_valid ''token''"
  by code_simp+

end
