(* ===== verification/Channels.thy ===== *)
theory Channels
  imports DevWeb JsonText
begin

text \<open>
  A user's messenger channels: \<open>repository/mysql/channels.go\<close> with \<open>decryptChannelField\<close> of \<open>security.go\<close>, and
  the handlers of \<open>delivery/http/channels.go\<close>. The services that run the channels are outside: a call is a
  parameter of the time and the URL, and the URLs called are listed in the state. Work left to a goroutine is
  listed too. Progress texts are codes. The compaction of a stored text by \<open>json.Marshal\<close> is not modelled.
\<close>

record chan_env = web_env +
  xc_call :: "int \<Rightarrow> string \<Rightarrow> go_err + (nat \<times> string)"   \<comment> \<open>a GET: the status and body\<close>
  xc_bot_name :: "string \<Rightarrow> go_err + string"               \<comment> \<open>\<open>bot_name\<close> of a JSON body\<close>
  xc_rune :: "string \<Rightarrow> string \<times> nat"                    \<comment> \<open>the quoted form of a non-ASCII rune and its length\<close>

record chan_st = web2_st +
  called :: "string list"                                 \<comment> \<open>newest last\<close>
  to_stop :: "(string \<times> uid \<times> bool) list"               \<comment> \<open>the goroutines of \<open>stopChannel\<close>\<close>

section \<open>Stored values\<close>

definition quote_byte :: "char \<Rightarrow> string" where
  "quote_byte c =
     (let n = (of_char c :: nat) in
      if n = 34 \<or> n = 92 then [CHR 0x5C, c]
      else if 32 \<le> n \<and> n \<le> 126 then [c]
      else (case map_of [(7, CHR ''a''), (8, CHR ''b''), (12, CHR ''f''), (10, CHR ''n''), (13, CHR ''r''),
                         (9, CHR ''t''), (11, CHR ''v'')] n of
              Some l \<Rightarrow> [CHR 0x5C, l]
            | None \<Rightarrow> [CHR 0x5C, CHR ''x'', hex_digit (n div 16), hex_digit (n mod 16)]))"

fun quote_from :: "(string \<Rightarrow> string \<times> nat) \<Rightarrow> string \<Rightarrow> string" where
  "quote_from rune [] = []"
| "quote_from rune (c # s) =
     (if (of_char c :: nat) < 128 then quote_byte c @ quote_from rune s
      else (case rune (c # s) of (t, n) \<Rightarrow> t @ quote_from rune (drop (n - 1) s)))"

text \<open>The verb \<open>%q\<close>.\<close>

definition Quote :: "('e) chan_env_scheme \<Rightarrow> string \<Rightarrow> string" where
  "Quote e s = CHR 0x22 # quote_from (xc_rune e) s @ [CHR 0x22]"

definition channel_text :: "('e) chan_env_scheme \<Rightarrow> string \<Rightarrow> string \<Rightarrow> string" where
  "channel_text e ty data =
     (if json_valid data then data
      else ''{'' @ Quote e (if ty = ''tgbot'' \<or> ty = ''tgubot'' then ''token'' else ''value'') @ '': '' @ Quote e data @ ''}'')"

text \<open>Without a master key in memory the text is stored as it is.\<close>

definition seal_channel :: "('e) chan_env_scheme \<Rightarrow> uid \<Rightarrow> string \<Rightarrow> 'a exam_st_scheme \<Rightarrow> go_err + string" where
  "seal_channel e u text w =
     (case GetMasterKey u w of
        None \<Rightarrow> Inr text
      | Some mk \<Rightarrow>
          (case fc_enc (xa_fc e) mk text of
             Inl err \<Rightarrow> Inl (Wrap ''failed to encrypt channel data with MasterKey'' err)
           | Inr c \<Rightarrow> Inr c))"

definition empty_object :: string where
  "empty_object = ''{}''"

definition valid_or_empty :: "string \<Rightarrow> string" where
  "valid_or_empty v = (if json_valid v then v else empty_object)"

definition decryptChannelField :: "('e) acct_env_scheme \<Rightarrow> uid \<Rightarrow> string option \<Rightarrow> 'a exam_st_scheme \<Rightarrow> string" where
  "decryptChannelField e u s w =
     (case s of
        None \<Rightarrow> empty_object
      | Some v \<Rightarrow>
          if v = [] then empty_object
          else if sealed e v then
            (case GetMasterKey u w of
               None \<Rightarrow> empty_object
             | Some mk \<Rightarrow> (case fc_dec (xa_fc e) mk v of Inl err \<Rightarrow> empty_object | Inr p \<Rightarrow> valid_or_empty p))
          else valid_or_empty v)"

section \<open>The table\<close>

definition is_on :: "channel_row \<Rightarrow> string \<Rightarrow> bool" where
  "is_on r col = (map_of (ch_on r) col = Some True)"

definition set_channel :: "string \<Rightarrow> string option \<Rightarrow> bool \<Rightarrow> channel_row \<Rightarrow> channel_row" where
  "set_channel col v on r = (set_col col v r)\<lparr>ch_on := AList.update col on (ch_on r)\<rparr>"

definition new_channels :: channel_row where
  "new_channels = \<lparr>ch_cols = [], ch_on = []\<rparr>"

definition fail_tx :: "string \<Rightarrow> 'a env_scheme \<Rightarrow> (go_err + 'r) \<times> 'a env_scheme" where
  "fail_tx msg w = (Inl (Wrap msg sql_down), drawn w)"

text \<open>
  The two writes of \<open>SaveChannelData\<close>'s transaction, on the table; a new row needs its user. The third component
  is how many statements have run.
\<close>

definition ensure_row :: "uid \<Rightarrow> 'a acct_st_scheme \<Rightarrow> (go_err + unit) \<times> 'a acct_st_scheme" where
  "ensure_row u w =
     (if failing w then fail_tx ''checking the row'' w
      else let w = drawn w in
        if map_of (channels w) u \<noteq> None then (Inr (), w)
        else if failing w then fail_tx ''creating the row'' w
        else if map_of (users w) u = None then (Inl (Wrap ''creating the row'' (Msg ''foreign key constraint fails'')), drawn w)
        else (Inr (), (drawn w)\<lparr>channels := AList.update u new_channels (channels w)\<rparr>))"

definition update_channel :: "string \<Rightarrow> (string \<Rightarrow> channel_row \<Rightarrow> channel_row) \<Rightarrow> uid \<Rightarrow> 'a data_st_scheme
    \<Rightarrow> (go_err + unit) \<times> 'a data_st_scheme" where
  "update_channel ty f u w =
     (case map_of channel_columns ty of
        None \<Rightarrow> (Inl (Msg (''unknown channel type: '' @ ty)), w)
      | Some col \<Rightarrow>
          if failing w then fail_tx (''updating channel '' @ ty) w
          else (Inr (), (drawn w)\<lparr>channels := upd u (f col) (channels w)\<rparr>))"

text \<open>What a transaction has done is kept only if the commit succeeds.\<close>

definition commit :: "'a data_st_scheme \<Rightarrow> (go_err + unit) \<times> 'a data_st_scheme \<Rightarrow> (go_err + unit) \<times> 'a data_st_scheme" where
  "commit before r =
     (case r of
        (Inl err, w) \<Rightarrow> (Inl err, w\<lparr>channels := channels before\<rparr>)
      | (Inr _, w) \<Rightarrow>
          if failing w then (Inl (Wrap ''commit'' sql_down), (drawn w)\<lparr>channels := channels before\<rparr>)
          else (Inr (), drawn w))"

definition SaveChannelData :: "('e) chan_env_scheme \<Rightarrow> uid \<Rightarrow> string \<Rightarrow> string \<Rightarrow> bool \<Rightarrow> 'a acct_st_scheme
    \<Rightarrow> (go_err + unit) \<times> 'a acct_st_scheme" where
  "SaveChannelData e u ty data on w =
     (case seal_channel e u (channel_text e ty data) w of
        Inl err \<Rightarrow> (Inl err, w)
      | Inr text \<Rightarrow>
          if failing w then fail_tx ''begin transaction'' w
          else (case ensure_row u (drawn w) of
                  (Inl err, w') \<Rightarrow> (Inl err, w'\<lparr>channels := channels w\<rparr>)
                | (Inr _, w') \<Rightarrow> commit w (update_channel ty (\<lambda>col. set_channel col (Some text) on) u w')))"

definition DeleteChannelData :: "uid \<Rightarrow> string \<Rightarrow> 'a data_st_scheme \<Rightarrow> (go_err + unit) \<times> 'a data_st_scheme" where
  "DeleteChannelData u ty w =
     (if failing w then fail_tx ''begin transaction'' w
      else commit w (update_channel ty (\<lambda>col. set_channel col None False) u (drawn w)))"

text \<open>
  \<open>json.Marshal\<close> of a \<open>json.RawMessage\<close>: blanks outside of strings go, and the bytes HTML knows and the two Unicode line
  separators are escaped. The first argument says whether the text goes on within a string.
\<close>

function compact_from :: "bool \<Rightarrow> string \<Rightarrow> string" where
  "compact_from q [] = []"
| "compact_from q (c # s) =
     (if c \<in> set ''<>&'' then [CHR 0x5C] @ ''u00'' @ [hex_digit (of_char c div 16), hex_digit (of_char c mod 16)] @ compact_from q s
      else if HasPrefix (c # s) [CHR 0xE2, CHR 0x80, CHR 0xA8] then [CHR 0x5C] @ ''u2028'' @ compact_from q (drop 2 s)
      else if HasPrefix (c # s) [CHR 0xE2, CHR 0x80, CHR 0xA9] then [CHR 0x5C] @ ''u2029'' @ compact_from q (drop 2 s)
      else if \<not> q \<and> json_space c then compact_from q s
      else if q \<and> c = CHR 0x5C \<and> s \<noteq> [] then c # hd s # compact_from q (tl s)
      else c # compact_from (if c = CHR 0x22 then \<not> q else q) s)"
  by pat_completeness auto

termination
  by (relation "measure (\<lambda>(q, s). length s)") auto

definition json_compact :: "string \<Rightarrow> string" where
  "json_compact s = compact_from False s"

text \<open>The names of the answer and their columns; \<open>Insta\<close> is not among them.\<close>

definition shown_channels :: "(string \<times> string) list" where
  "shown_channels = [(''tgbot'', ''TgBot''), (''widget'', ''Widget''), (''tguserbot'', ''TgUserBot''),
     (''whatsbot'', ''Whats''), (''avito'', ''Avito'')]"

definition GetChannelsData :: "('e) acct_env_scheme \<Rightarrow> uid \<Rightarrow> 'a data_st_scheme
    \<Rightarrow> (go_err + (string \<times> string \<times> bool) list) \<times> 'a data_st_scheme" where
  "GetChannelsData e u w =
     (if failing w then fail_tx ''checking the channels'' w
      else (case map_of (channels w) u of
              None \<Rightarrow> (Inr (map (\<lambda>(n, col). (n, json_compact empty_object, False)) shown_channels), drawn w)
            | Some r \<Rightarrow>
                if failing (drawn w) then fail_tx ''reading the channels'' (drawn w)
                else (Inr (map (\<lambda>(n, col). (n, json_compact (decryptChannelField e u (ch_val r col) w), is_on r col)) shown_channels),
                      drawn (drawn w))))"

definition CheckActiveChannels :: "uid \<Rightarrow> 'a data_st_scheme \<Rightarrow> (go_err + bool) \<times> 'a data_st_scheme" where
  "CheckActiveChannels u w =
     (if failing w then fail_tx ''checking the active channels'' w
      else (Inr (case map_of (channels w) u of
               None \<Rightarrow> False
             | Some r \<Rightarrow> list_ex (is_on r) [''TgBot'', ''Widget'', ''TgUserBot'', ''Whats'', ''Insta'', ''Avito'']), drawn w))"

definition active_names :: "(string \<times> string) list" where
  "active_names = [(''tgbot'', ''TgBot''), (''widget'', ''Widget''), (''tguserbot'', ''TgUserBot''),
     (''whatsbot'', ''Whats''), (''insta'', ''Insta''), (''avito'', ''Avito'')]"

definition GetActiveChannels :: "uid \<Rightarrow> 'a data_st_scheme \<Rightarrow> (go_err + string list) \<times> 'a data_st_scheme" where
  "GetActiveChannels u w =
     (if failing w then fail_tx ''reading the active channels'' w
      else (Inr (case map_of (channels w) u of
               None \<Rightarrow> []
             | Some r \<Rightarrow> map fst (filter (\<lambda>(n, col). is_on r col) active_names)), drawn w))"

section \<open>Calls to the channels' services\<close>

definition call :: "('e) chan_env_scheme \<Rightarrow> string \<Rightarrow> 'a chan_st_scheme \<Rightarrow> (go_err + (nat \<times> string)) \<times> 'a chan_st_scheme" where
  "call e url w = (xc_call e (now w) url, w\<lparr>called := called w @ [url]\<rparr>)"

definition uid_query :: "string \<Rightarrow> uid \<Rightarrow> string" where
  "uid_query url u = url @ ''?uid='' @ show_uid u"

definition disable_url :: "string \<Rightarrow> string option" where
  "disable_url ch =
     map_of [(''tgbot'', ''http://tgbot:8080/tgbot/disable''), (''tgubot'', ''http://tguserbot:8080/tguser/disable''),
       (''tguserbot'', ''http://tguserbot:8080/tguser/disable''), (''whats'', ''http://whatsbot:8080/whats/disable''),
       (''whatsbot'', ''http://whatsbot:8080/whats/disable''), (''widg'', ''http://widget:8080/widget/disable''),
       (''widget'', ''http://widget:8080/widget/disable''), (''avito'', ''http://avitobot:8080/avito/disable'')] ch"

definition disableChannels :: "('e) chan_env_scheme \<Rightarrow> uid \<Rightarrow> string \<Rightarrow> 'a chan_st_scheme
    \<Rightarrow> (go_err + unit) \<times> 'a chan_st_scheme" where
  "disableChannels e u ch w =
     (case disable_url ch of
        None \<Rightarrow> (Inl (Msg (''invalid channel name: '' @ ch)), w)
      | Some url \<Rightarrow>
          (case call e (uid_query url u) w of
             (Inl err, w) \<Rightarrow> (Inl err, w)
           | (Inr (st, b), w) \<Rightarrow> if st \<noteq> 200 then (Inl (Msg ''unexpected status''), w) else (Inr (), w)))"

definition stop_base :: "string \<Rightarrow> string option" where
  "stop_base ch =
     map_of [(''tgbot'', ''http://tgbot:8080/tgbot/''), (''tgubot'', ''http://tguserbot:8080/tguser/''),
       (''whatsbot'', ''http://whatsbot:8080/whats/''), (''widg'', ''http://widget:8080/widget/''),
       (''widget'', ''http://widget:8080/widget/''), (''insta'', ''http://insta:8080/insta/'')] ch"

definition stopChannel :: "('e) chan_env_scheme \<Rightarrow> string \<Rightarrow> uid \<Rightarrow> bool \<Rightarrow> 'a chan_st_scheme \<Rightarrow> 'a chan_st_scheme" where
  "stopChannel e ch u start w =
     (case stop_base ch of
        None \<Rightarrow> w
      | Some base \<Rightarrow> snd (call e (uid_query (base @ (if start then ''enable'' else ''disable'')) u) w))"

text \<open>One of the goroutines runs.\<close>

definition run_stop :: "('e) chan_env_scheme \<Rightarrow> 'a chan_st_scheme \<Rightarrow> 'a chan_st_scheme" where
  "run_stop e w =
     (case to_stop w of
        [] \<Rightarrow> w
      | (ch, u, on) # rest \<Rightarrow> stopChannel e ch u on (w\<lparr>to_stop := rest\<rparr>))"

definition restart_url :: "string \<Rightarrow> string option" where
  "restart_url ch =
     map_of [(''tgbot'', ''http://tgbot:8080/tgbot/restart''), (''tguserbot'', ''http://tguserbot:8080/tguserbot/restart''),
       (''whatsbot'', ''http://whatsbot:8080/whatsbot/restart''), (''widget'', ''http://widget:8080/widget/restart''),
       (''insta'', ''http://insta:8080/insta/restart'')] ch"

text \<open>The messages sent, and the error.\<close>

definition restartChannel :: "('e) chan_env_scheme \<Rightarrow> string \<Rightarrow> uid \<Rightarrow> 'a chan_st_scheme
    \<Rightarrow> string list \<times> (go_err + unit) \<times> 'a chan_st_scheme" where
  "restartChannel e ch u w =
     (case restart_url ch of
        None \<Rightarrow> ([], Inl (Msg (''unknown channels type: '' @ ch)), w)
      | Some url \<Rightarrow>
          (case call e (uid_query url u) w of
             (Inl err, w) \<Rightarrow> ([''restarting '' @ ch], Inl (Wrap (''error restarting channel '' @ ch) err), w)
           | (Inr (st, b), w) \<Rightarrow>
               if st \<noteq> 200 then ([''restarting '' @ ch], Inl (Msg (''channel '' @ ch @ '' restart returned status: '' @ show_nat st)), w)
               else ([''restarting '' @ ch, ''restarted '' @ ch], Inr (), w)))"

fun restart_all :: "('e) chan_env_scheme \<Rightarrow> uid \<Rightarrow> string list \<Rightarrow> 'a chan_st_scheme \<Rightarrow> string list \<times> 'a chan_st_scheme" where
  "restart_all e u [] w = ([], w)"
| "restart_all e u (ch # chs) w =
     (case restartChannel e ch u w of
        (ms, r, w) \<Rightarrow>
          (case restart_all e u chs w of
             (ms', w) \<Rightarrow> (ms @ (case r of Inl err \<Rightarrow> [''failed: '' @ err_text err] | Inr _ \<Rightarrow> []) @ ms', w)))"

definition RestartActiveServicesWSS :: "('e) chan_env_scheme \<Rightarrow> uid \<Rightarrow> 'a chan_st_scheme \<Rightarrow> string list \<times> 'a chan_st_scheme" where
  "RestartActiveServicesWSS e u w =
     (case GetActiveChannels u w of
        (Inl err, w) \<Rightarrow> ([''start'', ''reading the active channels failed''], w)
      | (Inr chs, w) \<Rightarrow> (case restart_all e u chs w of (ms, w) \<Rightarrow> ([''start''] @ ms @ [''all restarted''], w)))"

section \<open>Handlers\<close>

record channel_req =
  cq_Type :: string
  cq_Data :: string
  cq_Enabled :: bool

definition SaveChannel :: "('e) chan_env_scheme \<Rightarrow> gin \<Rightarrow> channel_req body \<Rightarrow> 'a chan_st_scheme \<Rightarrow> 'a chan_st_scheme handled" where
  "SaveChannel e c b w =
     (case getUserID c of None \<Rightarrow> unauthorized w
      | Some u \<Rightarrow>
          (case b of Inl err \<Rightarrow> bad_body err w
           | Inr q \<Rightarrow>
               if cq_Type q = [] then reply_error 400 ''incorrect data'' w
               else (case SaveChannelData e u (cq_Type q) (cq_Data q) (cq_Enabled q) w of
                       (Inl err, w) \<Rightarrow> reply_error 500 (err_text err) w
                     | (Inr _, w) \<Rightarrow>
                         reply 200 [(''message'', JStr ''ok'')]
                           (w\<lparr>to_stop := to_stop w @ [(cq_Type q, u, cq_Enabled q)]\<rparr>))))"

text \<open>A member's data is a JSON text of its own.\<close>

definition ReadChannel :: "('e) acct_env_scheme \<Rightarrow> gin \<Rightarrow> 'a data_st_scheme \<Rightarrow> 'a data_st_scheme handled" where
  "ReadChannel e c w =
     (case getUserID c of None \<Rightarrow> unauthorized w
      | Some u \<Rightarrow>
          (case GetChannelsData e u w of
             (Inl err, w) \<Rightarrow> reply_error 500 (err_text err) w
           | (Inr m, w) \<Rightarrow>
               reply 200 (map (\<lambda>(n, d, on). (n, JObj [(''data'', JStr d), (''enabled'', JBool on)])) m) w))"

definition DeleteChannel :: "('e) chan_env_scheme \<Rightarrow> gin \<Rightarrow> string body \<Rightarrow> 'a chan_st_scheme \<Rightarrow> 'a chan_st_scheme handled" where
  "DeleteChannel e c b w =
     (case getUserID c of None \<Rightarrow> unauthorized w
      | Some u \<Rightarrow>
          (case b of Inl err \<Rightarrow> bad_body err w
           | Inr ty \<Rightarrow>
               if ty = [] then reply_error 400 ''incorrect data'' w
               else (case DeleteChannelData u ty w of
                       (Inl err, w) \<Rightarrow> reply_error 500 (err_text err) w
                     | (Inr _, w) \<Rightarrow> reply 200 [(''message'', JStr ''ok'')] (snd (disableChannels e u ty w)))))"

definition available_base :: "string \<Rightarrow> string option" where
  "available_base ch =
     map_of [(''tgbot'', ''http://tgbot:8080''), (''tguser'', ''http://tguserbot:8080''), (''whats'', ''http://whatsbot:8080''),
       (''widget'', ''http://widget:8080''), (''oper'', ''http://oper:8080''), (''crm'', ''http://crm:8080''),
       (''pay'', ''http://pay:8080''), (''avito'', ''http://avitobot:8080''), (''insta'', ''http://insta:8080'')] ch"

definition availableHandler :: "('e) chan_env_scheme \<Rightarrow> gin \<Rightarrow> 'a chan_st_scheme \<Rightarrow> 'a chan_st_scheme handled" where
  "availableHandler e c w =
     (case getUserID c of None \<Rightarrow> unauthorized w
      | Some u \<Rightarrow>
          let ch = Param c ''ch_type'' in
          if ch = [] then reply_error 400 ''Channel type required'' w
          else (case available_base ch of
                  None \<Rightarrow> reply_error 400 ''Unknown channel type'' w
                | Some base \<Rightarrow>
                    (case call e (base @ ''/'' @ ch @ ''/available'') w of
                       (Inl err, w) \<Rightarrow> reply_status 503 w
                     | (Inr (st, b), w) \<Rightarrow>
                         if st \<noteq> 200 then reply_status 503 w else reply 200 [(''available'', JBool True)] w)))"

definition name_url :: "string \<Rightarrow> string option" where
  "name_url ch =
     map_of [(''tbot'', ''http://tgbot:8080/tgbot/getname''), (''tguserbot'', ''http://tguserbot:8080/tguser/getname''),
       (''whatsbot'', ''http://whatsbot:8080/whats/getname''), (''insta'', ''http://insta:8080/insta/getname''),
       (''widg'', ''http://widget:8080/widget/getname'')] ch"

definition GetChannelName :: "('e) chan_env_scheme \<Rightarrow> gin \<Rightarrow> 'a chan_st_scheme \<Rightarrow> 'a chan_st_scheme handled" where
  "GetChannelName e c w =
     (let ch = Query c ''name'' in
      if ch = [] then reply_error 400 ''missing name'' w
      else (case getUserID c of None \<Rightarrow> unauthorized w
            | Some u \<Rightarrow>
                (case name_url ch of
                   None \<Rightarrow> reply_error 400 ''invalid channel name'' w
                 | Some url \<Rightarrow>
                     (case call e (uid_query url u) w of
                        (Inl err, w) \<Rightarrow> reply_error 500 (err_text err) w
                      | (Inr (st, b), w) \<Rightarrow>
                          if st \<noteq> 200 then reply_error 500 ''invalid response from channel service'' w
                          else (case xc_bot_name e b of
                                  Inl err \<Rightarrow> reply_error 500 (err_text err) w
                                | Inr n \<Rightarrow> reply 200 [(''name'', JStr n)] w)))))"

text \<open>Without an upgrade the answer is the upgrader's own.\<close>

definition RestartChannels :: "('e) chan_env_scheme \<Rightarrow> gin \<Rightarrow> bool \<Rightarrow> 'a chan_st_scheme
    \<Rightarrow> (response + string list) \<times> 'a chan_st_scheme" where
  "RestartChannels e c upgraded w =
     (case map_of (g_keys c) ''userId'' of
        Some (CtxU32 u) \<Rightarrow>
          if u = 0 then (Inl (fst (reply_error 400 ''invalid userId'' w)), w)
          else if \<not> upgraded then (Inr [], w)
          else (case RestartActiveServicesWSS e u w of (ms, w) \<Rightarrow> (Inr ms, w))
      | Some _ \<Rightarrow> (Inl (fst (panicked w)), w)
      | None \<Rightarrow> (Inl (fst (unauthorized w)), w))"

end
