(* ===== verification/ChannelsProps.thy ===== *)
theory ChannelsProps
  imports Channels EncryptionProps
begin

text \<open>A saved channel reads back, sealed in the table when its user's master key is in memory.\<close>

section \<open>Texts\<close>

text \<open>The bytes \<open>%q\<close> writes the way JSON does.\<close>

definition safe_byte :: "nat \<Rightarrow> bool" where
  "safe_byte n = (n \<in> {8, 9, 10, 12, 13} \<or> (32 \<le> n \<and> n \<le> 126))"

definition json_safe :: "string \<Rightarrow> bool" where
  "json_safe s = list_all (\<lambda>c. safe_byte (of_char c)) s"

lemma char_known: "of_char c = (n :: nat) \<Longrightarrow> c = char_of n"
  by (metis char_of_char)

lemma json_quoted_byte:
  assumes "safe_byte (of_char c)"
  shows "json_string (quote_byte c @ s) = json_string s"
proof (cases "(of_char c :: nat) \<in> {34, 92}")
  case True
  moreover have "char_of (34 :: nat) = CHR 0x22" "char_of (92 :: nat) = CHR 0x5C" by code_simp+
  ultimately have "c = CHR 0x22 \<or> c = CHR 0x5C" by (metis char_known insertE singletonD)
  then show ?thesis by (auto simp: quote_byte_def)
next
  case False
  then have ne: "c \<noteq> CHR 0x22" "c \<noteq> CHR 0x5C" by auto
  show ?thesis
  proof (cases "32 \<le> (of_char c :: nat)")
    case True
    then have "quote_byte c = [c]" using False assms by (auto simp: quote_byte_def safe_byte_def Let_def)
    then show ?thesis using True ne by simp
  next
    case small: False
    then have "(of_char c :: nat) \<in> {8, 9, 10, 12, 13}" using assms by (auto simp: safe_byte_def)
    then obtain l where "quote_byte c = [CHR 0x5C, l]" "l \<in> set ''bfnrt''"
      by (auto simp: quote_byte_def Let_def)
    then show ?thesis by auto
  qed
qed

lemma json_string_quoted: "json_safe p \<Longrightarrow> json_string (quote_from rune p @ CHR 0x22 # r) = Some r"
proof (induction p)
  case (Cons c p)
  then have "safe_byte (of_char c)" "(of_char c :: nat) < 128"
    by (auto simp: json_safe_def safe_byte_def)
  then show ?case using Cons by (simp add: json_safe_def json_quoted_byte)
qed simp

lemma object_valid:
  assumes "\<And>r. json_string (k @ CHR 0x22 # r) = Some r" and "\<And>r. json_string (v @ CHR 0x22 # r) = Some r"
  shows "json_valid (''{'' @ (CHR 0x22 # k @ [CHR 0x22]) @ '': '' @ (CHR 0x22 # v @ [CHR 0x22]) @ ''}'')"
proof -
  let ?t = "''{'' @ (CHR 0x22 # k @ [CHR 0x22]) @ '': '' @ (CHR 0x22 # v @ [CHR 0x22]) @ ''}''"
  have m: "json_members (Suc (Suc n)) d (CHR 0x22 # k @ CHR 0x22 # CHR '':'' # CHR '' '' # CHR 0x22 # v @ CHR 0x22 # ''}'')
      = Some []" for n d
    using assms by (simp add: json_skip_def json_space_def json_after_def)
  obtain n where "2 * length ?t + 2 = Suc (Suc (Suc n))" by simp
  then show ?thesis using m [of n 9999] by (simp add: json_valid_def) (simp add: json_skip_def json_space_def)
qed

lemma channel_text_valid: "json_safe data \<Longrightarrow> json_valid (channel_text e ty data)"
proof -
  assume d: "json_safe data"
  have k: "json_safe ''token''" "json_safe ''value''" by code_simp+
  show ?thesis
    using object_valid [OF json_string_quoted [OF k(1)] json_string_quoted [OF d]]
      object_valid [OF json_string_quoted [OF k(2)] json_string_quoted [OF d]]
    by (simp add: channel_text_def Quote_def del: append.simps)
qed

text \<open>A byte \<open>%q\<close> writes as \<open>\a\<close> or \<open>\x..\<close> makes the text no JSON, and it is read back as the empty object.\<close>

lemma bell_is_lost: "\<not> json_valid (channel_text e ''tgbot'' [CHR 0x07])"
proof -
  have "\<not> json_valid [CHR 0x07]"
    "\<not> json_valid (''{'' @ (CHR 0x22 # ''token'' @ [CHR 0x22]) @ '': '' @ (CHR 0x22 # [CHR 0x5C, CHR ''a''] @ [CHR 0x22]) @ ''}'')"
    by code_simp+
  moreover have "Quote e ''token'' = CHR 0x22 # ''token'' @ [CHR 0x22]" "Quote e [CHR 0x07] = CHR 0x22 # [CHR 0x5C, CHR ''a''] @ [CHR 0x22]"
    by (simp_all add: Quote_def quote_byte_def)
  ultimately show ?thesis by (simp add: channel_text_def)
qed

text \<open>No JSON text starts as a sealed one does.\<close>

lemma json_not_sealed: "json_valid s \<Longrightarrow> \<not> HasPrefix s ''$mk$''"
proof
  assume "json_valid s" "HasPrefix s ''$mk$''"
  then obtain t where s: "s = CHR ''$'' # t" by (auto simp: HasPrefix_iff)
  have "json_value (Suc n) d (CHR ''$'' # t) = None" for n d
    by (simp add: json_number_def is_digit_def)
  then show False using \<open>json_valid s\<close> by (simp add: json_valid_def s json_skip_def json_space_def)
qed

section \<open>Saving and reading\<close>

text \<open>What the field encryption documents: sealed values begin with a mark and open under their key.\<close>

definition good_marks :: "field_crypto \<Rightarrow> bool" where
  "good_marks fc = (good_fields fc \<and> (\<forall>v. fc_is fc v \<longrightarrow> HasPrefix v ''$mk$''))"

text \<open>Whatever was saved, the text stored is not empty and does not start as a sealed one does.\<close>

lemma channel_text_plain:
  "channel_text e ty data \<noteq> [] \<and> \<not> HasPrefix (channel_text e ty data) ''$mk$''"
  using json_not_sealed [of data] json_examples(5) by (auto simp: channel_text_def)

lemma sealed_field_reads:
  assumes "good_marks (xa_fc e)" and "seal_channel e u text w = Inr c" and "text \<noteq> []" "\<not> HasPrefix text ''$mk$''"
    and "GetMasterKey u w' = GetMasterKey u w"
  shows "decryptChannelField e u (Some c) w' = valid_or_empty text"
proof (cases "GetMasterKey u w")
  case None
  then have "c = text" using assms(2) by (simp add: seal_channel_def)
  moreover have "\<not> sealed e text" using assms(1,4) by (auto simp: good_marks_def sealed_def)
  ultimately show ?thesis using assms(3) by (simp add: decryptChannelField_def)
next
  case (Some mk)
  then have "fc_enc (xa_fc e) mk text = Inr c" using assms(2) by (auto simp: seal_channel_def split: sum.splits)
  then have "fc_is (xa_fc e) c" "c \<noteq> []" "fc_dec (xa_fc e) mk c = Inr text"
    using assms(1) by (auto simp: good_marks_def good_fields_def)
  then show ?thesis using Some assms(5) by (simp add: decryptChannelField_def sealed_def)
qed

text \<open>Where a channel's data is shown.\<close>

definition shown_name :: "string \<Rightarrow> string option" where
  "shown_name ty = map_of [(''tgbot'', ''tgbot''), (''widget'', ''widget''), (''tgubot'', ''tguserbot''),
     (''whatsbot'', ''whatsbot''), (''avito'', ''avito'')] ty"

text \<open>A successful save is one update of one row, made first if it is missing.\<close>

lemma ensure_row_result:
  assumes "ensure_row u w = (Inr (), w')"
  shows "\<exists>fs. w' = w\<lparr>faults := fs, channels := channels w'\<rparr>"
    and "channels w' = (if map_of (channels w) u = None then AList.update u new_channels (channels w) else channels w)"
    and "map_of (channels w') u \<noteq> None"
  using assms by (auto simp: ensure_row_def fail_tx_def drawn_def Let_def update_conv' split: if_splits)

lemma save_result:
  assumes "SaveChannelData e u ty data on w = (Inr (), w')"
  obtains t col r fs where "seal_channel e u (channel_text e ty data) w = Inr t"
    and "map_of channel_columns ty = Some col" and "map_of (channels w') u = Some (set_channel col (Some t) on r)"
    and "r = (case map_of (channels w) u of None \<Rightarrow> new_channels | Some r \<Rightarrow> r)"
    and "\<And>v. v \<noteq> u \<Longrightarrow> map_of (channels w') v = map_of (channels w) v"
    and "w' = w\<lparr>faults := fs, channels := channels w'\<rparr>"
proof -
  obtain x where t: "seal_channel e u (channel_text e ty data) w = Inr x"
    using assms by (cases "seal_channel e u (channel_text e ty data) w") (auto simp: SaveChannelData_def)
  have nf: "\<not> failing w" using assms t by (auto simp: SaveChannelData_def fail_tx_def)
  obtain w1 where r: "ensure_row u (drawn w) = (Inr (), w1)"
    using assms t nf by (cases "ensure_row u (drawn w)"; cases "fst (ensure_row u (drawn w))") (auto simp: SaveChannelData_def)
  have c: "commit w (update_channel ty (\<lambda>col. set_channel col (Some x) on) u w1) = (Inr (), w')"
    using assms t nf r by (simp add: SaveChannelData_def)
  obtain col where col: "map_of channel_columns ty = Some col"
    using c by (cases "map_of channel_columns ty") (auto simp: commit_def update_channel_def)
  let ?f = "set_channel col (Some x) on"
  have w': "w' = drawn ((drawn w1)\<lparr>channels := upd u ?f (channels w1)\<rparr>)"
    using c col by (auto simp: commit_def update_channel_def fail_tx_def drawn_def split: if_splits)
  obtain fs where w1: "w1 = (drawn w)\<lparr>faults := fs, channels := channels w1\<rparr>" using ensure_row_result(1) [OF r] by blast
  define ch where "ch = channels w1"
  have "w1 = w\<lparr>faults := fs, channels := ch\<rparr>" using w1 by (simp add: ch_def drawn_def)
  then have "w' = w\<lparr>faults := tl (tl fs), channels := channels w'\<rparr>"
    using w' by (simp add: drawn_def)
  moreover have "channels w' = upd u ?f (channels w1)" by (simp add: w' drawn_def)
  moreover have "channels w1 = (if map_of (channels w) u = None then AList.update u new_channels (channels w) else channels w)"
    using ensure_row_result(2) [OF r] by (simp add: drawn_def)
  ultimately show ?thesis
    using that [OF t col] by (auto simp: upd_def update_conv' split: option.splits if_splits)
qed

lemma shown_column:
  assumes "shown_name ty = Some n" and "map_of channel_columns ty = Some col"
  shows "map_of (map (\<lambda>(n, c). (n, f c)) shown_channels) n = Some (f col)"
  using assms by (auto simp: shown_name_def channel_columns_def shown_channels_def split: if_splits)

lemma set_channel_cols [simp]:
  "ch_val (set_channel col v on r) col' = (if col' = col then v else ch_val r col')"
  "is_on (set_channel col v on r) col' = (if col' = col then on else is_on r col')"
  by (auto simp: set_channel_def set_col_def ch_val_def is_on_def update_conv')

lemma shown_text:
  shows "json_valid data \<Longrightarrow> valid_or_empty (channel_text e ty data) = data"
    and "json_safe data \<Longrightarrow> valid_or_empty (channel_text e ty data) = channel_text e ty data"
proof -
  show "json_valid data \<Longrightarrow> valid_or_empty (channel_text e ty data) = data"
    by (simp add: valid_or_empty_def channel_text_def)
  show "json_safe data \<Longrightarrow> valid_or_empty (channel_text e ty data) = channel_text e ty data"
    using channel_text_valid [of data e ty] by (simp only: valid_or_empty_def if_True)
qed

text \<open>C31: What was saved for a channel, whatever it is, is what reading the channels shows under its name, without blanks
  and with the flag as it was set: the text itself when it is JSON, wrapped into an object when it is any other text of
  printable ASCII bytes, and the empty object when the wrapping of another text is no JSON. An Instagram channel is
  stored alike and not shown under any name. If the user's master key is in memory the column holds the text sealed.
  No other channel and no other user is touched.
\<close>

theorem saved_channel_reads_back:
  assumes "good_marks (xa_fc e)" and "SaveChannelData e u ty data on w = (Inr (), w')" and "calm w'"
  shows "(\<exists>m. fst (GetChannelsData e u w') = Inr m
        \<and> (\<forall>n. shown_name ty = Some n \<longrightarrow> map_of m n = Some (json_compact (valid_or_empty (channel_text e ty data)), on))
        \<and> map fst m = [''tgbot'', ''widget'', ''tguserbot'', ''whatsbot'', ''avito''])
    \<and> (shown_name ty = None \<longrightarrow> ty = ''insta'')
    \<and> (json_valid data \<longrightarrow> valid_or_empty (channel_text e ty data) = data)
    \<and> (json_safe data \<longrightarrow> valid_or_empty (channel_text e ty data) = channel_text e ty data)
    \<and> (\<exists>r col c. map_of (channels w') u = Some r \<and> map_of channel_columns ty = Some col \<and> ch_val r col = Some c
        \<and> (GetMasterKey u w \<noteq> None \<longrightarrow> sealed e c)
        \<and> (\<forall>r0 col'. map_of (channels w) u = Some r0 \<longrightarrow> col' \<noteq> col
             \<longrightarrow> ch_val r col' = ch_val r0 col' \<and> is_on r col' = is_on r0 col'))
    \<and> (\<forall>v. v \<noteq> u \<longrightarrow> map_of (channels w') v = map_of (channels w) v)"
proof -
  obtain c col r fs where s: "seal_channel e u (channel_text e ty data) w = Inr c" "map_of channel_columns ty = Some col"
      "map_of (channels w') u = Some (set_channel col (Some c) on r)"
      "r = (case map_of (channels w) u of None \<Rightarrow> new_channels | Some r \<Rightarrow> r)"
      "\<And>v. v \<noteq> u \<Longrightarrow> map_of (channels w') v = map_of (channels w) v" "w' = w\<lparr>faults := fs, channels := channels w'\<rparr>"
    using save_result [OF assms(2)] by metis
  have mk: "GetMasterKey u w' = GetMasterKey u w" by (subst s(6)) (simp add: GetMasterKey_def)
  have shown: "decryptChannelField e u (Some c) w' = valid_or_empty (channel_text e ty data)"
    by (rule sealed_field_reads [OF assms(1) s(1) _ _ mk]) (simp_all add: channel_text_plain)
  let ?row = "set_channel col (Some c) on r"
  let ?m = "map (\<lambda>(n, c). (n, json_compact (decryptChannelField e u (ch_val ?row c) w'), is_on ?row c)) shown_channels"
  have m: "fst (GetChannelsData e u w') = Inr ?m"
    using assms(3) calm_drawn [OF assms(3)] s(3) by (simp add: GetChannelsData_def calm_not_failing)
  have "map_of ?m n = Some (json_compact (valid_or_empty (channel_text e ty data)), on)" if "shown_name ty = Some n" for n
    using shown_column [OF that s(2), of "\<lambda>c. (json_compact (decryptChannelField e u (ch_val ?row c) w'), is_on ?row c)"] shown
    by simp
  moreover have "map fst ?m = [''tgbot'', ''widget'', ''tguserbot'', ''whatsbot'', ''avito'']"
    by (simp add: shown_channels_def)
  moreover have "shown_name ty = None \<Longrightarrow> ty = ''insta''"
    using s(2) by (auto simp: shown_name_def channel_columns_def split: if_splits)
  moreover have "GetMasterKey u w \<noteq> None \<Longrightarrow> sealed e c"
    using s(1) assms(1) by (auto simp: seal_channel_def good_marks_def good_fields_def sealed_def split: sum.splits)
  ultimately show ?thesis using s(2-5) m shown_text by auto
qed

text \<open>Compacting touches blanks between the parts and the bytes HTML knows.\<close>

lemma compact_examples:
  "json_compact ''{ }'' = ''{}''"
  "json_compact (''[1, '' @ [CHR 0x22] @ ''a bc<'' @ [CHR 0x22] @ '']'') = ''[1,'' @ [CHR 0x22] @ ''a bc'' @ [CHR 0x5C] @ ''u003c'' @ [CHR 0x22] @ '']''"
  by code_simp+

section \<open>Channels with a part missing\<close>

text \<open>
  The names of the channels differ from one part to the next. Enabling or disabling an Avito channel reaches no
  service, restarting one is refused, an Instagram channel is never shown, and deleting it leaves its service on.
\<close>

lemma avito_is_never_started: "stopChannel e ''avito'' u on w = w"
  by (simp add: stopChannel_def stop_base_def)

lemma avito_is_never_restarted: "\<exists>err. restartChannel e ''avito'' u w = ([], Inl err, w)"
  by (simp add: restartChannel_def restart_url_def)

lemma insta_is_never_shown:
  "GetChannelsData e u (w\<lparr>channels := upd u (set_channel ''Insta'' v on) (channels w)\<rparr>)
     = map_prod id (\<lambda>w'. w'\<lparr>channels := upd u (set_channel ''Insta'' v on) (channels w)\<rparr>) (GetChannelsData e u w)"
proof -
  have mk: "decryptChannelField e u x (w\<lparr>channels := t\<rparr>) = decryptChannelField e u x w" for x t
  proof -
    have k: "GetMasterKey u (w\<lparr>channels := t\<rparr>) = GetMasterKey u w" by (simp add: GetMasterKey_def)
    show ?thesis unfolding decryptChannelField_def k ..
  qed
  have cols: "ch_val (set_channel ''Insta'' v on r) col = ch_val r col \<and> is_on (set_channel ''Insta'' v on r) col = is_on r col"
    if "(n, col) \<in> set shown_channels" for n col r
    using that by (auto simp: shown_channels_def)
  have m: "map (\<lambda>(n, col). (n, json_compact (decryptChannelField e u (ch_val (set_channel ''Insta'' v on r) col) w),
        is_on (set_channel ''Insta'' v on r) col)) shown_channels
      = map (\<lambda>(n, col). (n, json_compact (decryptChannelField e u (ch_val r col) w), is_on r col)) shown_channels" for r
    using cols by (intro map_cong) auto
  have f: "failing (w\<lparr>channels := t\<rparr>) = failing w" "drawn (w\<lparr>channels := t\<rparr>) = (drawn w)\<lparr>channels := t\<rparr>"
    "failing ((drawn w)\<lparr>channels := t\<rparr>) = failing (drawn w)" "drawn ((drawn w)\<lparr>channels := t\<rparr>) = (drawn (drawn w))\<lparr>channels := t\<rparr>" for t
    by (simp_all add: failing_def drawn_def)
  show ?thesis
    by (cases "map_of (channels w) u")
      (simp_all add: GetChannelsData_def fail_tx_def f upd_def update_conv' mk m del: set_channel_cols)
qed

lemma insta_is_never_disabled: "\<exists>err. disableChannels e u ''insta'' w = (Inl err, w)"
  by (simp add: disableChannels_def disable_url_def)

end
