(* ===== verification/ChannelsDemo.thy ===== *)
theory ChannelsDemo
  imports ChannelsProps AccountDemo
begin

text \<open>User 7 saves a bot's token while the master key is in memory.\<close>

definition mark_fc :: field_crypto where
  "mark_fc = \<lparr>fc_is = (\<lambda>v. HasPrefix v ''$mk$''), fc_enc = (\<lambda>k v. Inr (''$mk$'' @ v)), fc_dec = (\<lambda>k c. Inr (drop 4 c))\<rparr>"

lemma mark_fc_good: "good_marks mark_fc"
  by (auto simp: good_marks_def good_fields_def mark_fc_def)

definition chan_demo :: chan_env where
  "chan_demo = web_env.extend (small_web\<lparr>xa_fc := mark_fc\<rparr>)
     \<lparr>xc_call = (\<lambda>t u. Inr (200, [])), xc_bot_name = Inr, xc_rune = (\<lambda>s. ([hd s], 1))\<rparr>"

lemma chan_demo_fields [simp]: "xa_fc chan_demo = mark_fc"
  by (simp add: chan_demo_def web_env.defs)

definition chan_before :: web2_st where
  "chan_before = small_st\<lparr>ex_mks := [(7, ''key'')]\<rparr>"

lemma chan_saved: "\<exists>w. SaveChannelData chan_demo 7 ''tgubot'' ''a secret'' True chan_before = (Inr (), w) \<and> calm w"
proof -
  obtain r where r: "map_of (channels small_st) 7 = Some r"
    by (simp add: small_st_def data_st.defs small_data_def exam_st.defs)
  show ?thesis
    using r by (simp add: SaveChannelData_def seal_channel_def GetMasterKey_def chan_before_def mark_fc_def failing_def
        ensure_row_def drawn_def update_channel_def channel_columns_def commit_def calm_def)
qed

theorem saved_channel_reads_back_witness:
  "\<exists>w m. SaveChannelData chan_demo 7 ''tgubot'' ''a secret'' True chan_before = (Inr (), w)
     \<and> fst (GetChannelsData chan_demo 7 w) = Inr m
     \<and> map_of m ''tguserbot'' = Some (json_compact (member_text ''token'' ''a secret''), True)"
proof -
  obtain w where w: "SaveChannelData chan_demo 7 ''tgubot'' ''a secret'' True chan_before = (Inr (), w)" "calm w"
    using chan_saved by blast
  have safe: "json_safe ''a secret''" and plain: "\<not> json_valid ''a secret''" by code_simp+
  have "channel_text chan_demo ''tgubot'' ''a secret'' = member_text ''token'' ''a secret''"
    using plain by (simp add: channel_text_def Quote_def quote_byte_def member_text_def Let_def)
  then show ?thesis
    using saved_channel_reads_back [OF _ w] mark_fc_good safe w(1) by (auto simp: shown_name_def)
qed

lemma shown_token:
  "json_compact (member_text ''token'' ''a secret'') =
     ''{'' @ [CHR 0x22] @ ''token'' @ [CHR 0x22] @ '':'' @ [CHR 0x22] @ ''a secret'' @ [CHR 0x22] @ ''}''"
  by code_simp

end
