(* ===== verification/Notices.thy ===== *)
theory Notices
  imports Channels
begin

text \<open>
  Notifications: \<open>repository/mysql/notifications.go\<close>, the handlers of \<open>delivery/http/notifications.go\<close>,
  \<open>DecryptEmailInJSON\<close> of \<open>security/exam.go\<close>, and the delivery of instant messages, \<open>delivery/http/instant.go\<close>.
  The texts of messages, the mail server and the Telegram service are parameters. JSON documents are values of
  the type \<open>json\<close>; the order of an object's members is not modelled.
\<close>

record notice_row =
  no_Email :: bool
  no_Telegram :: "int option"
  no_Telegram_enabled :: bool
  no_Instant :: bool
  no_Start :: bool
  no_End :: bool
  no_Target :: bool

record notice_env = chan_env +
  xn_cap :: nat                                           \<comment> \<open>the capacity of \<open>mode.GetInstantMsgCh()\<close>\<close>
  xn_bot :: string                                        \<comment> \<open>\<open>carpinteroName\<close>\<close>
  xn_lang :: "uid \<Rightarrow> string"
  xn_message :: "string \<Rightarrow> string \<Rightarrow> string \<Rightarrow> string \<Rightarrow> string \<Rightarrow> go_err + string"
  xn_verify :: "int \<Rightarrow> nat \<Rightarrow> string \<Rightarrow> go_err option"
  xn_mail :: "int \<Rightarrow> uid \<Rightarrow> string \<Rightarrow> string \<Rightarrow> go_err option"
  xn_telega :: "int \<Rightarrow> string \<Rightarrow> int \<Rightarrow> string \<times> string \<times> string \<times> string \<Rightarrow> go_err + (nat \<times> string)"

type_synonym inst_msg = "uid \<times> string"

record notice_st = chan_st +
  notices :: "(uid \<times> notice_row) list"
  inst_queue :: "inst_msg list"

section \<open>The table\<close>

text \<open>The row an \<open>INSERT\<close> makes when it names no flag.\<close>

definition no_notices :: notice_row where
  "no_notices = \<lparr>no_Email = False, no_Telegram = None, no_Telegram_enabled = False, no_Instant = False,
     no_Start = False, no_End = False, no_Target = False\<rparr>"

type_synonym notice_tbl = "(uid \<times> notice_row) list"

definition has_row :: "uid \<Rightarrow> notice_tbl \<Rightarrow> bool" where
  "has_row u t = (map_of t u \<noteq> None)"

text \<open>A transaction of some statements on the table.\<close>

definition notice_tx :: "string \<Rightarrow> (notice_tbl \<Rightarrow> go_err + notice_tbl) list \<Rightarrow> go_err option \<Rightarrow> 'a notice_st_scheme
    \<Rightarrow> (go_err + unit) \<times> 'a notice_st_scheme" where
  "notice_tx msg qs refused w =
     (if failing w then fail_tx ''begin transaction'' w
      else (case run_statements qs (notices w) (drawn w) of
              (Inl err, w) \<Rightarrow> (Inl (Wrap msg err), w)
            | (Inr t, w) \<Rightarrow>
                (case refused of
                   Some err \<Rightarrow> (Inl err, w)
                 | None \<Rightarrow>
                     if failing w then fail_tx ''commit'' w else (Inr (), (drawn w)\<lparr>notices := t\<rparr>))))"

text \<open>A \<open>bigint\<close> takes no number from \<open>2 ^ 63\<close> on; the conversion to \<open>int64\<close> makes it negative.\<close>

definition as_int64 :: "u64 \<Rightarrow> int" where
  "as_int64 n = sint n"

definition in_bigint :: "u64 \<Rightarrow> bool" where
  "in_bigint n = (unat n < 2 ^ 63)"

definition update_notice :: "uid \<Rightarrow> string \<Rightarrow> bool \<Rightarrow> u64 \<Rightarrow> notice_tbl \<Rightarrow> go_err + notice_tbl" where
  "update_notice u tip on tg t =
     (if tip = ''email'' then Inr (upd u (no_Email_update (\<lambda>_. on)) t)
      else if tip = ''telega'' then
        (if tg \<noteq> 0 then
           (if in_bigint tg
            then Inr (upd u (\<lambda>r. r\<lparr>no_Telegram_enabled := on, no_Telegram := Some (int (unat tg))\<rparr>) t)
            else if has_row u t then Inl (Msg ''out of range value for column Telegram'') else Inr t)
         else Inr (upd u (no_Telegram_enabled_update (\<lambda>_. on)) t))
      else Inr (upd u (no_Instant_update (\<lambda>_. on)) t))"

definition insert_notice :: "uid \<Rightarrow> string \<Rightarrow> bool \<Rightarrow> u64 \<Rightarrow> (uid \<Rightarrow> bool) \<Rightarrow> notice_tbl \<Rightarrow> go_err + notice_tbl" where
  "insert_notice u tip on tg known t =
     (let r = no_notices\<lparr>no_Telegram := Some 0\<rparr>;
          r = (if tip = ''email'' then r\<lparr>no_Email := on\<rparr>
               else if tip = ''telega'' then
                 r\<lparr>no_Telegram := (if tg \<noteq> 0 then Some (as_int64 tg) else None), no_Telegram_enabled := on\<rparr>
               else r\<lparr>no_Instant := on\<rparr>)
      in if known u then Inr (AList.update u r t) else Inl (Msg ''foreign key constraint fails''))"

definition known_user :: "'a acct_st_scheme \<Rightarrow> uid \<Rightarrow> bool" where
  "known_user w u = (map_of (users w) u \<noteq> None)"

definition UpdateNotification :: "uid \<Rightarrow> string \<Rightarrow> bool \<Rightarrow> u64 \<Rightarrow> 'a notice_st_scheme
    \<Rightarrow> (go_err + unit) \<times> 'a notice_st_scheme" where
  "UpdateNotification u tip on tg w =
     (if tip \<notin> {''email'', ''telega'', ''instant''}
      then notice_tx ''checking the row'' [Inr] (Some (Msg (''unknown notification: '' @ tip))) w
      else notice_tx ''updating the notification''
        [Inr, \<lambda>t. if has_row u (notices w) then update_notice u tip on tg t else insert_notice u tip on tg (known_user w) t]
        None w)"

definition SaveNotificationEvent :: "uid \<Rightarrow> bool \<Rightarrow> bool \<Rightarrow> bool \<Rightarrow> 'a notice_st_scheme
    \<Rightarrow> (go_err + unit) \<times> 'a notice_st_scheme" where
  "SaveNotificationEvent u s e' t' w =
     (let f = (\<lambda>r. r\<lparr>no_Start := s, no_End := e', no_Target := t'\<rparr>) in
      notice_tx ''saving the events''
        [Inr, \<lambda>t. if has_row u (notices w) then Inr (upd u f t)
                  else if known_user w u then Inr (AList.update u (f no_notices) t)
                  else Inl (Msg ''foreign key constraint fails'')] None w)"

text \<open>Without any address left the events are switched off.\<close>

definition all_channels_off :: "notice_row \<Rightarrow> bool" where
  "all_channels_off r = (\<not> no_Email r \<and> no_Telegram r \<in> {None, Some 0} \<and> \<not> no_Instant r)"

definition reset_events :: "notice_row \<Rightarrow> notice_row" where
  "reset_events r = (if all_channels_off r then r\<lparr>no_Start := False, no_End := False, no_Target := False\<rparr> else r)"

definition drop_channel :: "string \<Rightarrow> notice_row \<Rightarrow> notice_row" where
  "drop_channel ch r =
     (if ch = ''email'' then r\<lparr>no_Email := False\<rparr>
      else if ch = ''telegram'' then r\<lparr>no_Telegram := None, no_Telegram_enabled := False\<rparr>
      else r\<lparr>no_Instant := False\<rparr>)"

definition db_DeleteNotificationsChannel :: "uid \<Rightarrow> string \<Rightarrow> 'a notice_st_scheme
    \<Rightarrow> (go_err + unit) \<times> 'a notice_st_scheme" where
  "db_DeleteNotificationsChannel u ch w =
     (if ch \<notin> {''email'', ''telegram'', ''instant''}
      then notice_tx [] [] (Some (Msg (''unknown channel: '' @ ch))) w
      else notice_tx ''deleting the channel''
        [\<lambda>t. Inr (upd u (drop_channel ch) t), \<lambda>t. Inr (upd u reset_events t)] None w)"

definition on_of :: "bool \<Rightarrow> json" where
  "on_of b = JObj [(''enabled'', JBool b)]"

definition notice_json :: "string \<Rightarrow> notice_row \<Rightarrow> json" where
  "notice_json email r =
     JObj [(''email'', JObj [(''data'', JStr email), (''enabled'', JBool (no_Email r))]),
       (''telega'', JObj [(''data'', (case no_Telegram r of
            None \<Rightarrow> JNull | Some n \<Rightarrow> if n = 0 then JNull
              else JStr ((if n < 0 then ''-'' else []) @ show_nat (nat (abs n))))),
          (''enabled'', JBool (no_Telegram_enabled r))]),
       (''instant'', on_of (no_Instant r)),
       (''events'', JObj [(''start'', JBool (no_Start r)), (''end'', JBool (no_End r)), (''target'', JBool (no_Target r))])]"

definition GetNotificationsData :: "uid \<Rightarrow> 'a notice_st_scheme \<Rightarrow> (go_err + json) \<times> 'a notice_st_scheme" where
  "GetNotificationsData u w =
     (if failing w then fail_tx ''reading the email'' w
      else let email = (case map_of (auth_tbl w) u of None \<Rightarrow> [] | Some r \<Rightarrow> au_Email r); w = drawn w in
        if failing w then fail_tx ''checking the notifications'' w
        else let w = drawn w in
          if failing w then fail_tx ''reading the notifications'' w
          else (Inr (notice_json email (case map_of (notices w) u of None \<Rightarrow> no_notices | Some r \<Rightarrow> r)), drawn w))"

section \<open>An address inside a document\<close>

text \<open>The path is given by its parts; whatever does not fit leaves the document as it is.\<close>

fun DecryptEmailInJSON :: "('e) exam_env_scheme \<Rightarrow> 'a exam_st_scheme \<Rightarrow> string list \<Rightarrow> json \<Rightarrow> json" where
  "DecryptEmailInJSON e w [] j = j"
| "DecryptEmailInJSON e w [k] j =
     (case j of
        JObj fs \<Rightarrow>
          (case (case map_of fs k of Some (JStr s) \<Rightarrow> Some s | Some JNull \<Rightarrow> Some [] | _ \<Rightarrow> None) of
             None \<Rightarrow> j
           | Some s \<Rightarrow>
               (case decryptEmail e w s of
                  Inl err \<Rightarrow> j
                | Inr p \<Rightarrow> JObj (AList.update k (JStr p) fs)))
      | _ \<Rightarrow> j)"
| "DecryptEmailInJSON e w (k # ks) j =
     (case j of
        JObj fs \<Rightarrow>
          (case map_of fs k of
             None \<Rightarrow> j
           | Some n \<Rightarrow> JObj (AList.update k (DecryptEmailInJSON e w ks n) fs))
      | _ \<Rightarrow> j)"

section \<open>Handlers\<close>

definition GetMail :: "('e) notice_env_scheme \<Rightarrow> gin \<Rightarrow> 'a notice_st_scheme \<Rightarrow> 'a notice_st_scheme handled" where
  "GetMail e c w =
     (case getUserID c of None \<Rightarrow> unauthorized w
      | Some u \<Rightarrow>
          (case GetUserEmail u w of
             (Inl err, w) \<Rightarrow> reply_error 500 (err_text err) w
           | (Inr raw, w) \<Rightarrow>
               (case DecryptEmailIfNeeded e w raw of
                  Inl err \<Rightarrow> reply_error 500 (err_text err) w
                | Inr m \<Rightarrow> reply 200 [(''email'', JStr m)] w)))"

record notice_req =
  nq_Type :: string
  nq_Data :: string
  nq_Enabled :: bool

definition answer_active :: "uid \<Rightarrow> (go_err + unit) \<times> 'a notice_st_scheme \<Rightarrow> 'a notice_st_scheme handled" where
  "answer_active u r =
     (case r of
        (Inl err, w) \<Rightarrow> reply_error 500 (err_text err) w
      | (Inr _, w) \<Rightarrow>
          (case CheckActiveChannels u w of
             (Inl err, w) \<Rightarrow> reply_error 500 (err_text err) w
           | (Inr on, w) \<Rightarrow> reply 200 [(''active_channels'', JBool on)] w))"

text \<open>The address is read while the name is still as it was sent, the name lowered only then.\<close>

definition SaveNotifications :: "('e) notice_env_scheme \<Rightarrow> gin \<Rightarrow> notice_req body \<Rightarrow> 'a notice_st_scheme
    \<Rightarrow> 'a notice_st_scheme handled" where
  "SaveNotifications e c b w =
     (case getUserID c of None \<Rightarrow> unauthorized w
      | Some u \<Rightarrow>
          (case b of Inl err \<Rightarrow> bad_body err w
           | Inr q \<Rightarrow>
               (case (if nq_Type q = ''telega'' \<and> nq_Data q \<noteq> [] then ParseUint (nq_Data q) else Some 0) of
                  None \<Rightarrow> reply_error 400 ''Invalid Telegram ID format'' w
                | Some tg \<Rightarrow>
                    if nq_Type q = [] then reply_error 400 ''incorrect values'' w
                    else answer_active u
                      (UpdateNotification u (xe_lower e (nq_Type q)) (nq_Enabled q) (word_of_nat tg) w))))"

definition ReadNotifications :: "('e) notice_env_scheme \<Rightarrow> gin \<Rightarrow> 'a notice_st_scheme \<Rightarrow> 'a notice_st_scheme handled" where
  "ReadNotifications e c w =
     (case getUserID c of None \<Rightarrow> unauthorized w
      | Some u \<Rightarrow>
          (case GetNotificationsData u w of
             (Inl err, w) \<Rightarrow> reply_error 500 (err_text err) w
           | (Inr j, w) \<Rightarrow>
               (case DecryptEmailInJSON e w [''email'', ''data''] j of
                  JObj fs \<Rightarrow> reply 200 (AList.update ''BotName'' (JStr (xn_bot e)) fs) w
                | _ \<Rightarrow> reply_error 500 ''not an object'' w)))"

definition SendVerificationCode :: "('e) notice_env_scheme \<Rightarrow> gin \<Rightarrow> (string \<times> string) body \<Rightarrow> 'a notice_st_scheme
    \<Rightarrow> 'a notice_st_scheme handled" where
  "SendVerificationCode e c b w =
     (case getUserID c of None \<Rightarrow> unauthorized w
      | Some u \<Rightarrow>
          (case b of Inl err \<Rightarrow> bad_body err w
           | Inr (i, pin) \<Rightarrow>
               (case ParseUint i of
                  None \<Rightarrow> reply_error 400 ''Invalid Telegram ID format'' w
                | Some tg \<Rightarrow>
                    if tg = 0 then reply_error 400 ''Invalid Telegram ID'' w
                    else (case xn_verify e (now w) tg pin of
                            Some err \<Rightarrow> reply_error 500 (err_text err) w
                          | None \<Rightarrow> reply 200 [(''send'', JStr ''ok'')] w))))"

definition SaveNotificationsEvents :: "gin \<Rightarrow> (bool \<times> bool \<times> bool) body \<Rightarrow> 'a notice_st_scheme
    \<Rightarrow> 'a notice_st_scheme handled" where
  "SaveNotificationsEvents c b w =
     (case getUserID c of None \<Rightarrow> unauthorized w
      | Some u \<Rightarrow>
          (case b of Inl err \<Rightarrow> bad_body err w
           | Inr (s, e', t) \<Rightarrow> answer_active u (SaveNotificationEvent u s e' t w)))"

definition DeleteNotificationsChannel :: "('e) notice_env_scheme \<Rightarrow> gin \<Rightarrow> string body \<Rightarrow> 'a notice_st_scheme
    \<Rightarrow> 'a notice_st_scheme handled" where
  "DeleteNotificationsChannel e c b w =
     (case getUserID c of None \<Rightarrow> unauthorized w
      | Some u \<Rightarrow>
          (case b of Inl err \<Rightarrow> bad_body err w
           | Inr ch \<Rightarrow>
               if ch = [] then reply_error 400 ''incorrect values'' w
               else (case db_DeleteNotificationsChannel u (xe_lower e ch) w of
                       (Inl err, w) \<Rightarrow> reply_error 500 (err_text err) w
                     | (Inr _, w) \<Rightarrow> reply 200 [] w)))"

text \<open>The three endpoints of the internal network, which check no identity.\<close>

record event_req =
  er_UID :: uid
  er_Email :: string
  er_TelegramId :: int
  er_Event :: string
  er_User :: string
  er_Assist :: string
  er_Target :: string

definition event_text :: "('e) notice_env_scheme \<Rightarrow> event_req \<Rightarrow> go_err + string" where
  "event_text e q = xn_message e (xn_lang e (er_UID q)) (er_Event q) (er_User q) (er_Assist q) (er_Target q)"

text \<open>A full channel drops the message.\<close>

definition offer :: "nat \<Rightarrow> inst_msg \<Rightarrow> inst_msg list \<Rightarrow> inst_msg list" where
  "offer cap m q = (if length q < cap then q @ [m] else q)"

definition SendInstantNotification :: "('e) notice_env_scheme \<Rightarrow> event_req body \<Rightarrow> 'a notice_st_scheme
    \<Rightarrow> 'a notice_st_scheme handled" where
  "SendInstantNotification e b w =
     (case b of Inl err \<Rightarrow> bad_body err w
      | Inr q \<Rightarrow>
          (case event_text e q of
             Inl err \<Rightarrow> reply_error 500 ''Failed to create message'' w
           | Inr m \<Rightarrow> reply 200 [] (w\<lparr>inst_queue := offer (xn_cap e) (er_UID q, m) (inst_queue w)\<rparr>)))"

definition SendMailNotification :: "('e) notice_env_scheme \<Rightarrow> event_req body \<Rightarrow> 'a notice_st_scheme
    \<Rightarrow> 'a notice_st_scheme handled" where
  "SendMailNotification e b w =
     (case b of Inl err \<Rightarrow> bad_body err w
      | Inr q \<Rightarrow>
          (case event_text e q of
             Inl err \<Rightarrow> reply_error 500 ''Failed to create message'' w
           | Inr m \<Rightarrow>
               (case xn_mail e (now w) (er_UID q) (er_Email q) m of
                  Some err \<Rightarrow> reply_error 500 ''Failed to send email'' w
                | None \<Rightarrow> reply 200 [] w)))"

text \<open>A body the service sends with another status is passed on as it is.\<close>

definition SendTelegaNotification :: "('e) notice_env_scheme \<Rightarrow> event_req body \<Rightarrow> 'a notice_st_scheme
    \<Rightarrow> 'a notice_st_scheme handled" where
  "SendTelegaNotification e b w =
     (case b of Inl err \<Rightarrow> bad_body err w
      | Inr q \<Rightarrow>
          (case xn_telega e (now w) (xn_lang e (er_UID q)) (er_TelegramId q) (er_Event q, er_User q, er_Assist q, er_Target q) of
             Inl err \<Rightarrow> reply_error 500 ''Service unavailable'' w
           | Inr (st, body) \<Rightarrow>
               if st \<noteq> 200 then (\<lparr>rs_status = st, rs_body = JStr body\<rparr>, w) else reply 200 [] w))"

section \<open>Instant messages\<close>

text \<open>
  All WebSocket handlers of \<open>Instant\<close> receive from one channel. Which of the waiting handlers gets the next
  message is up to the scheduler; a handler of another user reads the message and does nothing with it.
\<close>

record inst_st =
  is_queue :: "inst_msg list"
  is_listening :: "(nat \<times> uid) list"
  is_sent :: "(nat \<times> uid \<times> inst_msg) list"                \<comment> \<open>connection, its user, message\<close>

definition Instant_take :: "nat \<times> uid \<Rightarrow> inst_st \<Rightarrow> inst_st" where
  "Instant_take l s =
     (case is_queue s of
        [] \<Rightarrow> s
      | m # q \<Rightarrow>
          s\<lparr>is_queue := q, is_sent := is_sent s @ (if fst m = snd l then [(fst l, snd l, m)] else [])\<rparr>)"

inductive inst_step :: "nat \<Rightarrow> inst_st \<Rightarrow> inst_st \<Rightarrow> bool" for cap :: nat where
  post: "inst_step cap s (s\<lparr>is_queue := offer cap m (is_queue s)\<rparr>)"
| take: "l \<in> set (is_listening s) \<Longrightarrow> is_queue s \<noteq> [] \<Longrightarrow> inst_step cap s (Instant_take l s)"
| join: "c \<notin> fst ` set (is_listening s) \<Longrightarrow> inst_step cap s (s\<lparr>is_listening := (c, u) # is_listening s\<rparr>)"
| leave: "inst_step cap s (s\<lparr>is_listening := removeAll l (is_listening s)\<rparr>)"

end
