(* ===== verification/Planner.thy ===== *)
theory Planner
  imports Notices
begin

text \<open>
  The planner \<open>infrastructure/scheduler/cron.go\<close> with its queries, \<open>repository/mysql/cron.go\<close>. A pass over users
  may be broken off by a cancelled context before any user: the argument \<open>stop\<close> says before which. Goroutines are
  listed as jobs. The check of a subscription and the refresh of a Google token belong to a library and are
  parameters. Local time is an offset from the clock; changes of the offset are not modelled. Of the table
  \<open>subscriptions\<close> these are the columns the planner reads.
\<close>

record sub_row =
  sb_user :: uid
  sb_end :: "int option"                                   \<comment> \<open>a day, counted as the clock's days are\<close>
  sb_notified :: bool

datatype plan_job = NotifyEnd uid | DisableAll uid

record plan_st = notice_st +
  subs :: "sub_row list"
  plan_jobs :: "plan_job list"
  refreshed :: "uid list"                                  \<comment> \<open>tokens asked to be refreshed, in order\<close>

record plan_env =
  xp_zone :: int
  xp_check :: "int \<Rightarrow> uid \<Rightarrow> bool"                      \<comment> \<open>\<open>com.CheckUserSubscription\<close> finds no error\<close>

definition day :: int where "day = 24 * hour"

definition today :: "('e) plan_env_scheme \<Rightarrow> int \<Rightarrow> int" where
  "today e t = (t + xp_zone e) div day"

section \<open>Queries\<close>

text \<open>The query joins the user, the authorisation row and the subscription.\<close>

definition expired :: "('e) plan_env_scheme \<Rightarrow> 'a plan_st_scheme \<Rightarrow> sub_row \<Rightarrow> bool" where
  "expired e w s =
     (\<not> sb_notified s
      \<and> (case sb_end s of None \<Rightarrow> False | Some d \<Rightarrow> d < today e (now w))
      \<and> (case map_of (users w) (sb_user s) of None \<Rightarrow> False | Some r \<Rightarrow> us_Role r = 2)
      \<and> (case map_of (auth_tbl w) (sb_user s) of None \<Rightarrow> False | Some a \<Rightarrow> \<not> au_Disabled a))"

definition UsersWithoutSubscription :: "('e) plan_env_scheme \<Rightarrow> 'a plan_st_scheme
    \<Rightarrow> (go_err + uid list) \<times> 'a plan_st_scheme" where
  "UsersWithoutSubscription e w =
     (if failing w then fail_tx ''users without a subscription'' w
      else (Inr (map sb_user (filter (expired e w) (subs w))), drawn w))"

text \<open>\<open>UPDATE subscriptions SET Notified = TRUE WHERE UserId IN (...)\<close>.\<close>

definition notify_rows :: "uid list \<Rightarrow> sub_row list \<Rightarrow> sub_row list" where
  "notify_rows us t = map (\<lambda>s. if sb_user s \<in> set us then s\<lparr>sb_notified := True\<rparr> else s) t"

definition SetUsersSubscriptionNotified :: "uid list \<Rightarrow> 'a plan_st_scheme \<Rightarrow> (go_err + unit) \<times> 'a plan_st_scheme" where
  "SetUsersSubscriptionNotified us w =
     (if failing w then fail_tx ''updating the notification flag'' w
      else (Inr (), (drawn w)\<lparr>subs := notify_rows us (subs w)\<rparr>))"

definition GetUsersWithGoogleToken :: "'a data_st_scheme \<Rightarrow> (go_err + uid list) \<times> 'a data_st_scheme" where
  "GetUsersWithGoogleToken w =
     (if failing w then fail_tx ''users with Google tokens'' w
      else (Inr (sort_key unat (map fst (google w))), drawn w))"

definition GetMigratedUsersEmails :: "'a acct_st_scheme \<Rightarrow> (go_err + (uid \<times> string) list) \<times> 'a acct_st_scheme" where
  "GetMigratedUsersEmails w =
     (if failing w then fail_tx ''migrated users'' w
      else (Inr (map (\<lambda>(u, a). (u, au_Email a)) (filter (\<lambda>(u, a). au_EmailHash a \<noteq> None) (auth_tbl w))), drawn w))"

section \<open>Passes\<close>

definition until_stop :: "nat option \<Rightarrow> 'u list \<Rightarrow> 'u list" where
  "until_stop stop us = (case stop of None \<Rightarrow> us | Some n \<Rightarrow> take n us)"

definition stopped :: "nat option \<Rightarrow> 'u list \<Rightarrow> bool" where
  "stopped stop us = (case stop of None \<Rightarrow> False | Some n \<Rightarrow> n < length us)"

definition checkUserSubscription :: "('e) plan_env_scheme \<Rightarrow> nat option \<Rightarrow> 'a plan_st_scheme \<Rightarrow> 'a plan_st_scheme" where
  "checkUserSubscription e stop w =
     (case UsersWithoutSubscription e w of
        (Inl err, w) \<Rightarrow> w
      | (Inr us, w) \<Rightarrow>
          let w = w\<lparr>plan_jobs := plan_jobs w @ concat (map (\<lambda>u. [NotifyEnd u, DisableAll u]) (until_stop stop us))\<rparr> in
          if stopped stop us \<or> us = [] then w
          else snd (SetUsersSubscriptionNotified us w))"

text \<open>Cancellation is looked at before each user and, for those with a subscription, after the refresh.\<close>

definition refreshAllGoogleTokens :: "('e) plan_env_scheme \<Rightarrow> nat option \<Rightarrow> 'a plan_st_scheme \<Rightarrow> 'a plan_st_scheme" where
  "refreshAllGoogleTokens e stop w =
     (case GetUsersWithGoogleToken w of
        (Inl err, w) \<Rightarrow> w
      | (Inr us, w) \<Rightarrow> w\<lparr>refreshed := refreshed w @ filter (xp_check e (now w)) (until_stop stop us)\<rparr>)"

section \<open>The daily run\<close>

text \<open>The next 00:01, local time.\<close>

definition next_run :: "('e) plan_env_scheme \<Rightarrow> int \<Rightarrow> int" where
  "next_run e t =
     (let r = today e t * day - xp_zone e + minute in if r < t then r + day else r)"

end
