(* ===== verification/PlannerProps.thy ===== *)
theory PlannerProps
  imports Planner
begin

text \<open>The daily check of subscriptions: who is told, how often, and what happens to a user who renewed in time.\<close>

section \<open>The time of the next run\<close>

lemma next_run_bounds: "t \<le> next_run e t \<and> next_run e t < t + day"
proof -
  have "(t + xp_zone e) div day * day \<le> t + xp_zone e" "t + xp_zone e < (t + xp_zone e) div day * day + day"
    by (simp_all add: day_def hour_def minute_def second_def)
  then show ?thesis by (auto simp: next_run_def Let_def today_def minute_def second_def day_def hour_def)
qed

section \<open>One pass\<close>

definition due :: "('e) plan_env_scheme \<Rightarrow> 'a plan_st_scheme \<Rightarrow> uid list" where
  "due e w = map sb_user (filter (expired e w) (subs w))"

definition notices_for :: "uid list \<Rightarrow> plan_job list" where
  "notices_for us = concat (map (\<lambda>u. [NotifyEnd u, DisableAll u]) us)"

lemma notices_for_simps [simp]:
  "NotifyEnd u \<in> set (notices_for us) \<longleftrightarrow> u \<in> set us" "DisableAll u \<in> set (notices_for us) \<longleftrightarrow> u \<in> set us"
  "notices_for [] = []"
  by (auto simp: notices_for_def)

lemma notify_none [simp]: "notify_rows [] t = t"
  by (simp add: notify_rows_def)

text \<open>What a pass does while nothing fails: it goes to the end or, when it is broken off, forgets whom it has told.\<close>

lemma check_calm:
  assumes "calm w"
  shows "plan_jobs (checkUserSubscription e stop w) = plan_jobs w @ notices_for (until_stop stop (due e w))"
    and "subs (checkUserSubscription e stop w) = (if stopped stop (due e w) then subs w else notify_rows (due e w) (subs w))"
    and "now (checkUserSubscription e stop w) = now w" and "users (checkUserSubscription e stop w) = users w"
    and "auth_tbl (checkUserSubscription e stop w) = auth_tbl w" and "calm (checkUserSubscription e stop w)"
proof -
  let ?us = "due e w" and ?jobs = "plan_jobs w @ notices_for (until_stop stop (due e w))"
  let ?w = "(drawn w)\<lparr>plan_jobs := ?jobs\<rparr>"
  have q: "UsersWithoutSubscription e w = (Inr ?us, drawn w)"
    using assms by (simp add: UsersWithoutSubscription_def due_def calm_not_failing)
  have c: "calm ?w" using calm_drawn [OF assms] by (simp add: calm_def)
  have s: "SetUsersSubscriptionNotified ?us ?w = (Inr (), (drawn ?w)\<lparr>subs := notify_rows ?us (subs w)\<rparr>)"
    using c by (simp add: SetUsersSubscriptionNotified_def calm_not_failing) (simp add: drawn_def)
  have r: "checkUserSubscription e stop w = (if stopped stop ?us \<or> ?us = [] then ?w else snd (SetUsersSubscriptionNotified ?us ?w))"
    by (simp add: checkUserSubscription_def q Let_def notices_for_def drawn_def)
  show "plan_jobs (checkUserSubscription e stop w) = ?jobs"
    unfolding r s by (simp add: drawn_def)
  show "subs (checkUserSubscription e stop w) = (if stopped stop ?us then subs w else notify_rows ?us (subs w))"
    unfolding r s by (simp add: drawn_def)
  show "now (checkUserSubscription e stop w) = now w" "users (checkUserSubscription e stop w) = users w"
    "auth_tbl (checkUserSubscription e stop w) = auth_tbl w"
    unfolding r s by (simp_all add: drawn_def)
  show "calm (checkUserSubscription e stop w)"
    unfolding r s using c calm_drawn [OF c] by (simp add: calm_def)
qed

section \<open>Told once\<close>

lemma notified_not_expired: "s \<in> set (notify_rows us t) \<Longrightarrow> sb_user s \<in> set us \<Longrightarrow> \<not> expired e w s"
  by (auto simp: notify_rows_def expired_def split: if_splits)

lemma notify_rows_users: "map sb_user (notify_rows us t) = map sb_user t"
  by (simp add: notify_rows_def comp_def if_distrib cong: if_cong)

text \<open>Whoever a full pass has told is told by no later one, as long as no new subscription is added.\<close>

lemma told_once:
  assumes "calm w" and "w1 = checkUserSubscription e None w" and "u \<in> set (due e w)" and "subs w2 = subs w1"
  shows "u \<notin> set (due e w2)"
proof
  assume "u \<in> set (due e w2)"
  then obtain s where "s \<in> set (subs w2)" "expired e w2 s" "sb_user s = u" by (auto simp: due_def)
  moreover have "subs w2 = notify_rows (due e w) (subs w)"
    using check_calm(2) [OF assms(1), of e None] assms(2,4) by (simp add: stopped_def)
  ultimately show False using notified_not_expired assms(3) by metis
qed

text \<open>A pass that is broken off leaves the table as it was, so the next one tells the same users again.\<close>

lemma broken_pass_tells_again:
  assumes "calm w" and "0 < n" and "n < length (due e w)"
  shows "hd (due e w) \<in> set (due e (checkUserSubscription e (Some n) w))
    \<and> NotifyEnd (hd (due e w)) \<in> set (plan_jobs (checkUserSubscription e (Some n) w))"
proof -
  let ?w = "checkUserSubscription e (Some n) w"
  have "subs ?w = subs w" using check_calm(2) [OF assms(1), of e "Some n"] assms(3) by (simp add: stopped_def)
  moreover have "expired e ?w = expired e w"
    unfolding fun_eq_iff expired_def check_calm(3-5) [OF assms(1), of e "Some n"] by simp
  ultimately have d: "due e ?w = due e w" by (simp add: due_def)
  obtain x xs where x: "due e w = x # xs" using assms(3) by (cases "due e w") auto
  obtain k where "n = Suc k" using assms(2) by (cases n) auto
  then have "x \<in> set (until_stop (Some n) (due e w))" by (simp add: until_stop_def x)
  then show ?thesis using check_calm(1) [OF assms(1), of e "Some n"] d x by simp
qed

text \<open>C32: A user who has paid for another period before the old one was noticed to be over is cut off: the pass tells
  him his subscription has ended and disables his channels, though a subscription of his still runs. All his rows are
  marked as told, so when the paid period does end no pass at any time notices.
\<close>

theorem renewed_user_is_cut_off:
  fixes w :: "'a plan_st_scheme"
  assumes "calm w" and "old \<in> set (subs w)" and "expired e w old" and "sb_user old = u"
    and "new \<in> set (subs w)" and "sb_user new = u" and "sb_end new = Some d" and "today e (now w) \<le> d"
    and "w1 = checkUserSubscription e None w"
  shows "\<not> expired e w new \<and> NotifyEnd u \<in> set (plan_jobs w1) \<and> DisableAll u \<in> set (plan_jobs w1)
    \<and> (\<forall>w2. subs w2 = subs w1 \<longrightarrow> u \<notin> set (due e (w2 :: 'a plan_st_scheme)))"
proof -
  have u: "u \<in> set (due e w)" using assms(2-4) by (auto simp: due_def)
  then have "NotifyEnd u \<in> set (plan_jobs w1)" "DisableAll u \<in> set (plan_jobs w1)"
    using check_calm(1) [OF assms(1), of e None] assms(9) by (simp_all add: until_stop_def)
  moreover have "\<not> expired e w new" using assms(7,8) by (simp add: expired_def)
  moreover have "u \<notin> set (due e w2)" if "subs w2 = subs w1" for w2 :: "'a plan_st_scheme"
    by (rule told_once [OF assms(1,9) u that])
  ultimately show ?thesis by blast
qed

end
