(* ===== verification/PlannerDemo.thy ===== *)
theory PlannerDemo
  imports PlannerProps AccountDemo
begin

text \<open>User 7, whose first period ended yesterday, has paid for another thirty days.\<close>

definition old_period :: sub_row where
  "old_period = \<lparr>sb_user = 7, sb_end = Some (- 1), sb_notified = False\<rparr>"

definition paid_period :: sub_row where
  "paid_period = \<lparr>sb_user = 7, sb_end = Some 30, sb_notified = False\<rparr>"

definition renewed :: plan_st where
  "renewed = web2_st.extend small_st \<lparr>called = [], to_stop = [], notices = [], inst_queue = [],
     subs = [old_period, paid_period], plan_jobs = [], refreshed = []\<rparr>"

definition utc :: plan_env where
  "utc = \<lparr>xp_zone = 0, xp_check = (\<lambda>t u. True)\<rparr>"

lemma renewed_fields [simp]:
  "now renewed = 0" "subs renewed = [old_period, paid_period]" "users renewed = users small_st"
  "auth_tbl renewed = auth_tbl small_st" "faults renewed = []"
  by (simp_all add: renewed_def web2_st.defs small_st_def data_st.defs small_data_def exam_st.defs toy_exam_st_def
      exam_of_def app_st.defs toy_app_def)

theorem renewed_user_is_cut_off_witness:
  "\<not> expired utc renewed paid_period \<and> DisableAll 7 \<in> set (plan_jobs (checkUserSubscription utc None renewed))"
  using renewed_user_is_cut_off [of renewed old_period utc 7 paid_period 30]
  by (simp add: calm_def expired_def old_period_def paid_period_def utc_def today_def hash_row_def)

end
