(* ===== verification/NoticesProps.thy ===== *)
theory NoticesProps
  imports Notices
begin

text \<open>
  Notifications: an instant message is never shown to another user but may be lost to its own, the stored address
  is shown decrypted, and what switching channels off does to the events.
\<close>

section \<open>Instant messages\<close>

inductive_cases inst_stepE: "inst_step cap s s'"

abbreviation inst_run :: "nat \<Rightarrow> inst_st \<Rightarrow> inst_st \<Rightarrow> bool" where
  "inst_run cap \<equiv> (inst_step cap)\<^sup>*\<^sup>*"

definition addressed :: "inst_st \<Rightarrow> bool" where
  "addressed s = (\<forall>(c, u, m) \<in> set (is_sent s). fst m = u)"

definition bounded :: "nat \<Rightarrow> inst_st \<Rightarrow> bool" where
  "bounded cap s = (length (is_queue s) \<le> cap)"

lemma inst_step_addressed: "inst_step cap s s' \<Longrightarrow> addressed s \<Longrightarrow> addressed s'"
  by (elim inst_stepE) (auto simp: addressed_def Instant_take_def split: list.splits)

lemma inst_step_bounded: "inst_step cap s s' \<Longrightarrow> bounded cap s \<Longrightarrow> bounded cap s'"
  by (elim inst_stepE) (auto simp: bounded_def offer_def Instant_take_def split: list.splits)

text \<open>No connection ever gets a message of another user, and the channel never holds more than its capacity.\<close>

lemma instant_run_invariant: "inst_run cap s s' \<Longrightarrow> addressed s \<and> bounded cap s \<Longrightarrow> addressed s' \<and> bounded cap s'"
  by (induction rule: rtranclp_induct) (auto intro: inst_step_addressed inst_step_bounded)

text \<open>While only connections of one user wait, that user gets the messages.\<close>

lemma taken_by_owner:
  assumes "is_queue s = m # q" and "l \<in> set (is_listening s)" and "\<forall>l \<in> set (is_listening s). snd l = fst m"
  shows "inst_step cap s (Instant_take l s) \<and> is_sent (Instant_take l s) = is_sent s @ [(fst l, snd l, m)]"
proof -
  have "inst_step cap s (Instant_take l s)" using assms(1,2) by (intro inst_step.take) simp_all
  then show ?thesis using assms by (simp add: Instant_take_def)
qed

text \<open>An instant message for a user who is connected, and stays so, can vanish: the WebSocket handlers of all users
  read one channel, and a handler that takes the message of someone else drops it. From any state in which two users
  are connected the message can be posted and consumed, while its user is sent nothing.
\<close>

theorem instant_message_is_lost:
  assumes "(c1, u1) \<in> set (is_listening s)" and "(c2, u2) \<in> set (is_listening s)" and "u1 \<noteq> u2" and "0 < cap"
    and "is_queue s = []"
  shows "\<exists>s1 s2. inst_step cap s s1 \<and> is_queue s1 = [(u1, m)] \<and> inst_step cap s1 s2 \<and> is_queue s2 = []
    \<and> is_sent s2 = is_sent s \<and> is_listening s2 = is_listening s"
proof -
  let ?s1 = "s\<lparr>is_queue := [(u1, m)]\<rparr>"
  have "inst_step cap s (s\<lparr>is_queue := offer cap (u1, m) (is_queue s)\<rparr>)" by (rule inst_step.post)
  then have "inst_step cap s ?s1" using assms(4,5) by (simp add: offer_def)
  moreover have "inst_step cap ?s1 (Instant_take (c2, u2) ?s1)" using assms(2) by (intro inst_step.take) simp_all
  then have "inst_step cap ?s1 (?s1\<lparr>is_queue := []\<rparr>)" using assms(3) by (simp add: Instant_take_def)
  ultimately show ?thesis by (intro exI [of _ ?s1] exI [of _ "?s1\<lparr>is_queue := []\<rparr>"]) simp
qed

definition two_users :: inst_st where
  "two_users = \<lparr>is_queue = [], is_listening = [(1, 7), (2, 8)], is_sent = []\<rparr>"

theorem instant_message_is_lost_witness:
  "\<exists>s1 s2. inst_step 10 two_users s1 \<and> is_queue s1 = [(7, ''paid'')] \<and> inst_step 10 s1 s2 \<and> is_queue s2 = [] \<and> is_sent s2 = []"
  using instant_message_is_lost [of 1 7 two_users 2 8 10 "''paid''"] by (auto simp: two_users_def)

section \<open>The address in the answer\<close>

lemma decrypt_encrypted:
  assumes "good_crypto (se_crypto e)" and "EncryptEmail e email w = (Inr enc, w1)" and "ex_email_enc w' = ex_email_enc w"
  shows "decryptEmail e w' enc = Inr (xe_lower e email)"
proof -
  obtain t where "seal_text (se_crypto e) (ex_email_enc w) (xe_lower e email) w = (Inr t, w1)" "enc = ''$enc$'' @ t"
    using assms(2) by (auto simp: EncryptEmail_def split: sum.splits prod.splits)
  then show ?thesis using seal_then_open [OF assms(1)] assms(3) by (simp add: decryptEmail_def del: append.simps)
qed

lemma notice_path [simp]:
  "DecryptEmailInJSON e w [''email'', ''data''] (notice_json raw r) =
    (case decryptEmail e w raw of Inl err \<Rightarrow> notice_json raw r | Inr p \<Rightarrow> notice_json p r)"
  by (simp add: notice_json_def split: sum.split)

text \<open>
  The answer shows the address in clear where the table holds it encrypted, and everything else as stored. If it
  cannot be decrypted the encrypted text itself is shown.
\<close>

lemma notifications_show_the_address:
  assumes "good_crypto (se_crypto e)" and "EncryptEmail e email w0 = (Inr enc, w1)" and "ex_email_enc w = ex_email_enc w0"
    and "calm w" and "getUserID c = Some u" and "map_of (auth_tbl w) u = Some a" and "au_Email a = enc"
    and "map_of (notices w) u = Some r"
  shows "status (ReadNotifications e c w) = 200
    \<and> field ''email'' (ReadNotifications e c w)
        = Some (JObj [(''data'', JStr (xe_lower e email)), (''enabled'', JBool (no_Email r))])
    \<and> field ''BotName'' (ReadNotifications e c w) = Some (JStr (xn_bot e))"
proof -
  have c: "calm (drawn w)" "calm (drawn (drawn w))" using calm_drawn assms(4) by blast+
  have g: "GetNotificationsData u w = (Inr (notice_json enc r), drawn (drawn (drawn w)))"
    using assms(4,6-8) c by (simp add: GetNotificationsData_def calm_not_failing Let_def) (simp add: drawn_def)
  have k: "ex_email_enc (drawn (drawn (drawn w))) = ex_email_enc w0" using assms(3) by (simp add: drawn_def)
  have "ReadNotifications e c w = reply 200 (AList.update ''BotName'' (JStr (xn_bot e))
      (case notice_json (xe_lower e email) r of JObj fs \<Rightarrow> fs | _ \<Rightarrow> [])) (drawn (drawn (drawn w)))"
    using decrypt_encrypted [OF assms(1,2) k] by (simp add: ReadNotifications_def assms(5) g) (simp add: notice_json_def)
  then show ?thesis by (simp add: update_conv') (simp add: notice_json_def)
qed

section \<open>Names and flags\<close>

text \<open>Saving knows the Telegram channel as \<open>telega\<close>, deleting as \<open>telegram\<close>.\<close>

lemma names_differ:
  "fst (db_DeleteNotificationsChannel u ''telega'' w) \<noteq> Inr ()"
  "fst (UpdateNotification u ''telegram'' on tg w) \<noteq> Inr ()"
  by (auto simp: db_DeleteNotificationsChannel_def UpdateNotification_def notice_tx_def fail_tx_def split: if_splits sum.splits prod.splits)

text \<open>Deleting the last channel switches the events off, and only then.\<close>

lemma delete_resets_events:
  assumes "db_DeleteNotificationsChannel u ch w = (Inr (), w')" and "map_of (notices w) u = Some r"
  shows "map_of (notices w') u = Some (reset_events (drop_channel ch r))"
    and "v \<noteq> u \<Longrightarrow> map_of (notices w') v = map_of (notices w) v"
  using assms by (auto simp: db_DeleteNotificationsChannel_def notice_tx_def fail_tx_def upd_def update_conv'
      split: if_splits sum.splits prod.splits option.splits)

end
