(* ===== verification/Mcp.thy ===== *)
theory Mcp
  imports Widget
begin

text \<open>
  The MCP server, \<open>delivery/mcp/handler.go\<close>, \<open>session.go\<close> and \<open>tools.go\<close>. The model store, the user's time zone, the
  Google and ElevenLabs clients and the callback for leads are parameters. Parsed JSON documents are values of
  \<open>json\<close>, an absent document \<open>None\<close>; members are read by their exact names. A tool is known by its name, its
  description and schema are left out; the hints of the prompt are named. The file service is that of \<open>Files\<close>.
\<close>

record music_config =
  mu_Format :: "string option"
  mu_Plan :: "string option"                              \<comment> \<open>a composition plan, if it has chunks\<close>
  mu_LengthMs :: "int option"
  mu_ForceInstrumental :: "bool option"
  mu_Seed :: "int option"

record user_model =
  mo_Provider :: nat
  mo_MetaAction :: string
  mo_CreateMusic :: bool
  mo_S3 :: bool
  mo_Calendar :: bool
  mo_Sheets :: bool
  mo_Interpreter :: bool
  mo_WebSearch :: bool
  mo_Voice :: "(string \<times> music_config option) option"     \<comment> \<open>the model's name for music and its settings\<close>

record music_request =
  mr_Model :: string
  mr_Prompt :: string
  mr_Plan :: "string option option"
  mr_LengthMs :: "int option"
  mr_ForceInstrumental :: "bool option"
  mr_Seed :: "int option"
  mr_Format :: string

record music_args =
  ma_Prompt :: string
  ma_Plan :: "string option option"                       \<comment> \<open>a plan without chunks is \<open>Some None\<close>\<close>
  ma_LengthMs :: "int option"
  ma_ForceInstrumental :: "bool option"
  ma_Seed :: "int option"

type_synonym google_creds = "string \<times> string \<times> string"

record mcp_env =
  xm_set :: settings_env
  xm_ext :: ext
  xm_files :: service
  xm_models :: "uid \<Rightarrow> go_err + user_model list"
  xm_provider :: "nat \<Rightarrow> nat"                            \<comment> \<open>the conversion to \<open>comdom.ProviderType\<close>\<close>
  xm_lead :: "(int \<Rightarrow> int \<Rightarrow> go_err option) option"
  xm_zone :: "uid \<Rightarrow> go_err + string"
  xm_time :: "string \<Rightarrow> int \<Rightarrow> (string \<times> string) option"  \<comment> \<open>zone, time: date with time, RFC 3339\<close>
  xm_params :: "string \<Rightarrow> json \<Rightarrow> go_err option"         \<comment> \<open>does not fit the tool's parameters\<close>
  xm_google :: "string \<Rightarrow> google_creds \<Rightarrow> int \<Rightarrow> uid \<Rightarrow> json \<Rightarrow> go_err + string"
  xm_music_args :: "json \<Rightarrow> go_err + music_args"
  xm_api_key :: "uid \<Rightarrow> go_err + string"
  xm_music :: "string \<Rightarrow> int \<Rightarrow> music_request \<Rightarrow> go_err + ((go_err + string) \<times> string \<times> string)"
    \<comment> \<open>the audio once read, file name, content type\<close>

datatype tool_text = Doc json | Plain string

record tool_result =
  tr_Text :: tool_text
  tr_IsError :: bool

definition toolOK :: "tool_text \<Rightarrow> 'w \<Rightarrow> tool_result \<times> 'w" where
  "toolOK t w = (\<lparr>tr_Text = t, tr_IsError = False\<rparr>, w)"

definition toolErr :: "string \<Rightarrow> 'w \<Rightarrow> tool_result \<times> 'w" where
  "toolErr msg w = (\<lparr>tr_Text = Doc (JObj [(''error'', JStr msg)]), tr_IsError = True\<rparr>, w)"

section \<open>Sessions\<close>

text \<open>\<open>strings.SplitN(s, ":", 2)\<close> has two parts when there is a colon.\<close>

definition ParseSessionID :: "('e) mcp_env_scheme \<Rightarrow> string \<Rightarrow> go_err + (uid \<times> nat)" where
  "ParseSessionID e h =
     (if CHR '':'' \<notin> set h then Inl (Msg ''invalid X-Session-ID format, expected userId:providerType'')
      else (case ParseUint (takeWhile (\<lambda>c. c \<noteq> CHR '':'') h) of
              None \<Rightarrow> Inl (Msg ''invalid userId'')
            | Some u \<Rightarrow>
                if 2 ^ 32 \<le> u then Inl (Msg ''invalid userId'')
                else (case ParseUint (tl (dropWhile (\<lambda>c. c \<noteq> CHR '':'') h)) of
                        None \<Rightarrow> Inl (Msg ''invalid providerType'')
                      | Some p \<Rightarrow> Inr (word_of_nat u, xm_provider e p))))"

section \<open>The user's model\<close>

definition getUserModel :: "('e) mcp_env_scheme \<Rightarrow> uid \<Rightarrow> nat \<Rightarrow> user_model option" where
  "getUserModel e u p =
     (case xm_models e u of Inl err \<Rightarrow> None | Inr ms \<Rightarrow> find (\<lambda>m. mo_Provider m = p) ms)"

definition buildToolsList :: "('e) mcp_env_scheme \<Rightarrow> uid \<Rightarrow> nat \<Rightarrow> string list" where
  "buildToolsList e u p =
     ''get_current_time'' #
     (case getUserModel e u p of
        None \<Rightarrow> []
      | Some m \<Rightarrow>
          (if mo_MetaAction m \<noteq> [] then [''lead_target''] else [])
          @ (if mo_CreateMusic m then [''generate_music''] else [])
          @ (if mo_S3 m then [''get_s3_files'', ''create_file'', ''save_image''] else [])
          @ (if mo_Calendar m then [''calendar_create'', ''calendar_list'', ''calendar_delete'', ''calendar_get''] else [])
          @ (if mo_Sheets m then [''sheets_read'', ''sheets_write'', ''sheets_append''] else []))"

datatype hint = HintTime | HintGoal string | HintFiles | HintFileURL | HintPython | HintNoPythonFiles
  | HintCalendar | HintSheets | HintTables | HintWeb | HintMusic | HintMusicURL

definition buildSystemPromptHint :: "('e) mcp_env_scheme \<Rightarrow> uid \<Rightarrow> nat \<Rightarrow> hint list" where
  "buildSystemPromptHint e u p =
     HintTime #
     (case getUserModel e u p of
        None \<Rightarrow> []
      | Some m \<Rightarrow>
          (if mo_MetaAction m \<noteq> [] then [HintGoal (mo_MetaAction m)] else [])
          @ (if mo_S3 m then [HintFiles, HintFileURL] else [])
          @ (if mo_Interpreter m then HintPython # (if mo_S3 m then [HintNoPythonFiles] else []) else [])
          @ (if mo_Calendar m then [HintCalendar] else [])
          @ (if mo_Sheets m then [HintSheets, HintTables] else [])
          @ (if mo_WebSearch m then [HintWeb] else [])
          @ (if mo_CreateMusic m then [HintMusic, HintMusicURL] else []))"

section \<open>Tools\<close>

text \<open>A document read into a struct.\<close>

definition members :: "json option \<Rightarrow> claims option" where
  "members j = (case j of Some (JObj fs) \<Rightarrow> Some fs | Some JNull \<Rightarrow> Some [] | _ \<Rightarrow> None)"

definition struct_int64 :: "claims \<Rightarrow> string \<Rightarrow> int option" where
  "struct_int64 c name =
     (case map_of c name of
        None \<Rightarrow> Some 0
      | Some JNull \<Rightarrow> Some 0
      | Some (JInt n) \<Rightarrow> if - (2 ^ 63) \<le> n \<and> n < 2 ^ 63 then Some n else None
      | Some _ \<Rightarrow> None)"

definition toolLeadTarget :: "('e) mcp_env_scheme \<Rightarrow> json option \<Rightarrow> 'a app_st_scheme \<Rightarrow> tool_result \<times> 'a app_st_scheme" where
  "toolLeadTarget e args w =
     (case Option.bind (members args) (\<lambda>c. struct_int64 c ''resp_id'') of
        None \<Rightarrow> toolErr ''invalid params: resp_id (integer) required'' w
      | Some r \<Rightarrow>
          if r = 0 then toolErr ''invalid params: resp_id (integer) required'' w
          else (case (case xm_lead e of None \<Rightarrow> None | Some f \<Rightarrow> f (now w) r) of
                  Some err \<Rightarrow> toolErr (''lead_target failed: '' @ err_text err) w
                | None \<Rightarrow> toolOK (Doc (JObj [(''target'', JBool True), (''resp_id'', JInt r)])) w))"

definition toolGetCurrentTime :: "('e) mcp_env_scheme \<Rightarrow> uid \<Rightarrow> 'a app_st_scheme \<Rightarrow> tool_result \<times> 'a app_st_scheme" where
  "toolGetCurrentTime e u w =
     (let zone = (case xm_zone e u of Inl err \<Rightarrow> ''UTC'' | Inr z \<Rightarrow> z);
          t = (case xm_time e zone (now w) of Some t \<Rightarrow> t | None \<Rightarrow> (case xm_time e ''UTC'' (now w) of Some t \<Rightarrow> t | None \<Rightarrow> ([], [])))
      in toolOK (Doc (JObj [(''datetime'', JStr (fst t)), (''timezone'', JStr zone), (''rfc3339'', JStr (snd t))])) w)"

definition file_json :: "stored_file \<Rightarrow> json" where
  "file_json f = JObj [(''key'', JStr (fi_Key f)), (''file_name'', JStr (fi_FileName f)), (''size'', JInt (fi_Size f)),
     (''content_type'', JStr (fi_ContentType f)), (''modified_at'', JTime (fi_ModifiedAt f)), (''url'', JStr (fi_URL f))]"

definition toolGetS3Files :: "('e) mcp_env_scheme \<Rightarrow> uid \<Rightarrow> 'a app_st_scheme \<Rightarrow> tool_result \<times> 'a app_st_scheme" where
  "toolGetS3Files e u w =
     (if xm_files e = None then toolErr ''storage is not configured'' w
      else (case ListFiles (xm_ext e) (xm_files e) u w of
              (Inl err, w) \<Rightarrow> toolErr ''failed to list files'' w
            | (Inr fs, w) \<Rightarrow> toolOK (Doc (JList (map file_json fs))) w))"

definition toolCreateFile :: "('e) mcp_env_scheme \<Rightarrow> json option \<Rightarrow> uid \<Rightarrow> string \<Rightarrow> 'a app_st_scheme
    \<Rightarrow> tool_result \<times> 'a app_st_scheme" where
  "toolCreateFile e args u uuid w =
     (case Option.bind (members args) (\<lambda>c. case (struct_string c ''file_name'', struct_string c ''content'') of
             (Some n, Some t) \<Rightarrow> if n = [] then None else Some (n, t) | _ \<Rightarrow> None) of
        None \<Rightarrow> toolErr ''invalid params: file_name and content required'' w
      | Some (n, t) \<Rightarrow>
          if xm_files e = None then toolErr ''storage is not configured'' w
          else (case CreateTextFile (xm_ext e) (xm_files e) u n t (int (length t)) uuid w of
                  (Inl err, w) \<Rightarrow> toolErr ''failed to create file'' w
                | (Inr f, w) \<Rightarrow>
                    toolOK (Doc (JObj [(''file_name'', JStr (fi_FileName f)), (''url'', JStr (fi_URL f)),
                      (''key'', JStr (fi_Key f)), (''type'', JStr ''doc'')])) w))"

text \<open>\<open>filepath.Ext\<close> and lower case; only ASCII extensions matter.\<close>

definition filepath_Ext :: "string \<Rightarrow> string" where
  "filepath_Ext s =
     (let r = takeWhile (\<lambda>c. c \<noteq> CHR ''.'' \<and> c \<noteq> CHR ''/'') (rev s); n = length r
      in if n < length s \<and> rev s ! n = CHR ''.'' then CHR ''.'' # rev r else [])"

definition image_type :: "string \<Rightarrow> string" where
  "image_type name =
     (let x = ascii_lower (filepath_Ext name) in
      if x = ''.jpg'' \<or> x = ''.jpeg'' then ''image/jpeg''
      else if x = ''.png'' then ''image/png''
      else if x = ''.gif'' then ''image/gif''
      else if x = ''.webp'' then ''image/webp''
      else ''application/octet-stream'')"

text \<open>The second decoder takes the text without padding; \<open>pad\<close> adds what is missing.\<close>

definition pad :: "string \<Rightarrow> string" where
  "pad s = s @ replicate ((4 - length (filter (\<lambda>c. c \<noteq> CHR 0x0A \<and> c \<noteq> CHR 0x0D) s) mod 4) mod 4) (CHR ''='')"

definition decode_image :: "string \<Rightarrow> string option" where
  "decode_image s =
     (case DecodeString s of
        Some d \<Rightarrow> Some d
      | None \<Rightarrow> if CHR ''='' \<in> set s then None else DecodeString (pad s))"

definition toolSaveImage :: "('e) mcp_env_scheme \<Rightarrow> json option \<Rightarrow> uid \<Rightarrow> string \<Rightarrow> 'a app_st_scheme
    \<Rightarrow> tool_result \<times> 'a app_st_scheme" where
  "toolSaveImage e args u uuid w =
     (case Option.bind (members args) (\<lambda>c. case (struct_string c ''image_data'', struct_string c ''file_name'') of
             (Some d, Some n) \<Rightarrow> if d = [] \<or> n = [] then None else Some (d, n) | _ \<Rightarrow> None) of
        None \<Rightarrow> toolErr ''invalid params: image_data and file_name required'' w
      | Some (d, n) \<Rightarrow>
          (case decode_image d of
             None \<Rightarrow> toolErr ''invalid base64 image_data'' w
           | Some b \<Rightarrow>
               if xm_files e = None then toolErr ''storage is not configured'' w
               else (case SaveImage (xm_ext e) (xm_files e) u n b (int (length b)) (image_type n) uuid w of
                       (Inl err, w) \<Rightarrow> toolErr ''failed to save image'' w
                     | (Inr f, w) \<Rightarrow>
                         toolOK (Doc (JObj [(''url'', JStr (fi_URL f)), (''file_name'', JStr (fi_FileName f)),
                           (''key'', JStr (fi_Key f))])) w)))"

section \<open>Music\<close>

definition orelse :: "'b option \<Rightarrow> 'b option \<Rightarrow> 'b option" where
  "orelse a b = (case a of None \<Rightarrow> b | Some x \<Rightarrow> Some x)"

definition has_plan :: "music_args \<Rightarrow> bool" where
  "has_plan a = (case ma_Plan a of Some (Some _) \<Rightarrow> True | _ \<Rightarrow> False)"

text \<open>The call's arguments go before the settings; a request without prompt and plan takes the plan of the settings.
  Without settings a plan that has no chunks is passed on.\<close>

definition music_request_of :: "music_args \<Rightarrow> user_model option \<Rightarrow> music_request option" where
  "music_request_of a m =
     (let voice = Option.bind m mo_Voice; music = Option.bind voice snd;
          prompted = TrimSpace (ma_Prompt a) \<noteq> []; planned = has_plan a;
          q = \<lparr>mr_Model = (case voice of None \<Rightarrow> [] | Some (n, c) \<Rightarrow> n), mr_Prompt = ma_Prompt a, mr_Plan = ma_Plan a,
            mr_LengthMs = ma_LengthMs a, mr_ForceInstrumental = ma_ForceInstrumental a, mr_Seed = ma_Seed a, mr_Format = []\<rparr>;
          q = (case music of
                 None \<Rightarrow> q
               | Some c \<Rightarrow>
                   (let q = (case mu_Format c of None \<Rightarrow> q | Some f \<Rightarrow> q\<lparr>mr_Format := f\<rparr>) in
                    if planned then q\<lparr>mr_Seed := orelse (mr_Seed q) (mu_Seed c)\<rparr>
                    else q\<lparr>mr_LengthMs := orelse (mr_LengthMs q) (mu_LengthMs c),
                      mr_ForceInstrumental := orelse (mr_ForceInstrumental q) (mu_ForceInstrumental c)\<rparr>))
      in if prompted \<or> planned then Some q
         else (case (case music of None \<Rightarrow> mr_Plan q | Some c \<Rightarrow> map_option Some (mu_Plan c)) of
                 None \<Rightarrow> None
               | Some p \<Rightarrow> Some (q\<lparr>mr_Plan := Some p, mr_Prompt := []\<rparr>)))"

definition toolGenerateMusic :: "('e) mcp_env_scheme \<Rightarrow> json option \<Rightarrow> uid \<Rightarrow> nat \<Rightarrow> string \<Rightarrow> 'a app_st_scheme
    \<Rightarrow> tool_result \<times> 'a app_st_scheme" where
  "toolGenerateMusic e args u p uuid w =
     (case (case args of None \<Rightarrow> Inl (Msg ''unexpected end of JSON input'') | Some j \<Rightarrow> xm_music_args e j) of
        Inl err \<Rightarrow> toolErr (''invalid params: '' @ err_text err) w
      | Inr a \<Rightarrow>
          if TrimSpace (ma_Prompt a) \<noteq> [] \<and> has_plan a then toolErr ''invalid params: prompt and composition_plan exclude each other'' w
          else if xm_files e = None then toolErr ''storage is not configured'' w
          else (case xm_api_key e u of
             Inl err \<Rightarrow> toolErr ''ElevenLabs API key is not configured'' w
           | Inr key \<Rightarrow>
               if TrimSpace key = [] then toolErr ''ElevenLabs API key is not configured'' w
               else (case music_request_of a (getUserModel e u p) of
                  None \<Rightarrow> toolErr ''invalid params: prompt or composition_plan needed'' w
                | Some q \<Rightarrow>
                    (case xm_music e key (now w) q of
                       Inl err \<Rightarrow> toolErr (''failed to generate music: '' @ err_text err) w
                     | Inr (Inl err, n, ct) \<Rightarrow> toolErr ''failed to read generated music'' w
                     | Inr (Inr d, n, ct) \<Rightarrow>
                         (case SaveFile (xm_ext e) (xm_files e) u (if TrimSpace n = [] then ''music.mp3'' else n) d (int (length d))
                                 (if TrimSpace ct = [] then ''audio/mpeg'' else ct) uuid w of
                            (Inl err, w) \<Rightarrow> toolErr ''failed to save music file'' w
                          | (Inr f, w) \<Rightarrow>
                              toolOK (Doc (JObj [(''url'', JStr (fi_URL f)), (''file_name'', JStr (fi_FileName f)),
                                (''type'', JStr ''audio'')])) w)))))"

section \<open>Google\<close>

text \<open>A setting that cannot be read is the empty text.\<close>

definition cfg_or_empty :: "settings_env \<Rightarrow> string \<Rightarrow> 'a app_st_scheme \<Rightarrow> string \<times> 'a app_st_scheme" where
  "cfg_or_empty s k w = (case GetAppConfig s k w of (Inl err, w) \<Rightarrow> ([], w) | (Inr v, w) \<Rightarrow> (v, w))"

definition google_config :: "settings_env \<Rightarrow> 'a app_st_scheme \<Rightarrow> google_creds \<times> 'a app_st_scheme" where
  "google_config s w =
     (case cfg_or_empty s ''google_oauth.client_id'' w of
        (i, w) \<Rightarrow> (case cfg_or_empty s ''google_oauth.client_secret'' w of
          (k, w) \<Rightarrow> (case cfg_or_empty s ''google_oauth.redirect_uri'' w of (r, w) \<Rightarrow> ((i, k, r), w))))"

text \<open>The identifier of the user is set by the server, whatever the arguments say.\<close>

definition google_tool :: "('e) mcp_env_scheme \<Rightarrow> string \<Rightarrow> json option \<Rightarrow> (json \<Rightarrow> json) \<Rightarrow> uid \<Rightarrow> 'a app_st_scheme
    \<Rightarrow> tool_result \<times> 'a app_st_scheme" where
  "google_tool e name args fill u w =
     (case args of
        None \<Rightarrow> toolErr ''invalid params: unexpected end of JSON input'' w
      | Some j \<Rightarrow>
          (case xm_params e name j of
             Some err \<Rightarrow> toolErr (''invalid params: '' @ err_text err) w
           | None \<Rightarrow>
               (case google_config (xm_set e) w of
                  (creds, w) \<Rightarrow>
                    (case xm_google e name creds (now w) u (fill j) of
                       Inl err \<Rightarrow> toolErr (err_text err) w
                     | Inr r \<Rightarrow> toolOK (Plain r) w))))"

definition default_results :: "json \<Rightarrow> json" where
  "default_results j =
     (case j of
        JObj fs \<Rightarrow> if struct_int64 fs ''max_results'' = Some 0 then JObj (AList.update ''max_results'' (JInt 10) fs) else j
      | _ \<Rightarrow> JObj [(''max_results'', JInt 10)])"

definition google_tools :: "string list" where
  "google_tools = [''calendar_create'', ''calendar_list'', ''calendar_delete'', ''calendar_get'', ''sheets_read'',
     ''sheets_write'', ''sheets_append'']"

section \<open>Requests\<close>

definition callTool :: "('e) mcp_env_scheme \<Rightarrow> json option \<Rightarrow> uid \<Rightarrow> nat \<Rightarrow> string \<Rightarrow> 'a app_st_scheme
    \<Rightarrow> tool_result \<times> 'a app_st_scheme" where
  "callTool e params u p uuid w =
     (case Option.bind (members params) (\<lambda>c. map_option (\<lambda>n. (n, map_of c ''arguments'')) (struct_string c ''name'')) of
        None \<Rightarrow> toolErr ''invalid params'' w
      | Some (name, args) \<Rightarrow>
          if name = ''lead_target'' then toolLeadTarget e args w
          else if name = ''get_current_time'' then toolGetCurrentTime e u w
          else if name = ''get_s3_files'' then toolGetS3Files e u w
          else if name = ''create_file'' then toolCreateFile e args u uuid w
          else if name = ''save_image'' then toolSaveImage e args u uuid w
          else if name = ''generate_music'' then toolGenerateMusic e args u p uuid w
          else if name \<in> set google_tools
            then google_tool e name args (if name = ''calendar_list'' then default_results else id) u w
          else toolErr (''tool not found: '' @ name) w)"

record mcp_req =
  mq_JSONRPC :: string
  mq_ID :: "json option"                                  \<comment> \<open>\<open>None\<close> for \<open>null\<close> as well\<close>
  mq_Method :: string
  mq_Params :: "json option"

datatype mcp_body = McpError int string | McpInit | McpTools "string list" | McpTool tool_result
  | McpPrompts | McpPrompt "hint list" | McpNothing

type_synonym mcp_answer = "nat \<times> json option \<times> mcp_body"

definition prompt_name :: "json option \<Rightarrow> string option" where
  "prompt_name j = Option.bind (members j) (\<lambda>c. struct_string c ''name'')"

definition serve_method :: "('e) mcp_env_scheme \<Rightarrow> mcp_req \<Rightarrow> uid \<Rightarrow> nat \<Rightarrow> string \<Rightarrow> 'a app_st_scheme
    \<Rightarrow> mcp_body \<times> 'a app_st_scheme" where
  "serve_method e q u p uuid w =
     (if mq_Method q = ''tools/list'' then (McpTools (buildToolsList e u p), w)
      else if mq_Method q = ''tools/call'' then
        (case callTool e (mq_Params q) u p uuid w of (r, w) \<Rightarrow> (McpTool r, w))
      else if mq_Method q = ''prompts/list'' then (McpPrompts, w)
      else if mq_Method q = ''prompts/get'' then
        (if prompt_name (mq_Params q) \<noteq> Some ''system''
           then (McpError (- 32602) ''Invalid params: only 'system' prompt is supported'', w)
           else (McpPrompt (buildSystemPromptHint e u p), w))
      else (McpError (- 32601) ''Method not found'', w))"

definition ServeHTTP :: "('e) mcp_env_scheme \<Rightarrow> string \<Rightarrow> mcp_req body \<Rightarrow> string \<Rightarrow> 'a app_st_scheme
    \<Rightarrow> mcp_answer \<times> 'a app_st_scheme" where
  "ServeHTTP e header b uuid w =
     (case b of
        Inl err \<Rightarrow> ((400, None, McpError (- 32700) ''Parse error''), w)
      | Inr q \<Rightarrow>
          if mq_JSONRPC q \<noteq> ''2.0'' \<or> mq_Method q = [] then ((400, None, McpError (- 32600) ''Invalid Request''), w)
          else (case mq_ID q of
                  None \<Rightarrow> ((202, None, McpNothing), w)
                | Some i \<Rightarrow>
                    if mq_Method q = ''initialize'' then ((200, Some i, McpInit), w)
                    else (case ParseSessionID e header of
                            Inl err \<Rightarrow> ((200, Some i, McpError (- 32001) (''Unauthorized: '' @ err_text err)), w)
                          | Inr (u, p) \<Rightarrow>
                              (case serve_method e q u p uuid w of (r, w) \<Rightarrow> ((200, Some i, r), w)))))"

end
