(* ===== verification/McpProps.thy ===== *)
theory McpProps
  imports Mcp AppConfigProps
begin

text \<open>
  What the MCP server guarantees and what it does not: a call works inside the files of the user its header names, and
  nobody checks that the header names the caller; the tools offered depend on the user's model, the tools run do not.
\<close>

named_theorems own_files

lemma kept_files [own_files]: "foreign_same u w w" by simp

lemma toolOK_foreign [simp]: "snd (toolOK t w) = w"
  by (simp add: toolOK_def)

lemma toolErr_foreign [simp]: "snd (toolErr t w) = w"
  by (simp add: toolErr_def)

lemma put_foreign [own_files]:
  "foreign_same u w (snd (CreateTextFile x s u n d sz uuid w))"
  "foreign_same u w (snd (SaveFile x s u n d sz ct uuid w))"
  "foreign_same u w (snd (SaveImage x s u n d sz ct uuid w))"
  by (simp_all add: CreateTextFile_def SaveFile_def SaveImage_def put_file_foreign)

text \<open>A service call followed by an answer changes what the service call changes.\<close>

lemma answered_foreign:
  assumes "foreign_same u w (snd p)"
  shows "foreign_same u w (snd (case p of (Inl err, v) \<Rightarrow> toolErr m v | (Inr f, v) \<Rightarrow> toolOK (t f) v))"
  using assms by (cases p; cases "fst p") auto

lemma GetAppConfig_stores: "stores (snd (GetAppConfig s k w)) = stores w"
  by (simp add: GetAppConfig_def split: option.splits sum.splits)

lemma cfg_or_empty_stores: "stores (snd (cfg_or_empty s k w)) = stores w"
  using GetAppConfig_stores [of s k w] by (cases "GetAppConfig s k w"; cases "fst (GetAppConfig s k w)") (auto simp: cfg_or_empty_def)

lemma google_config_stores: "stores (snd (google_config s w)) = stores w"
proof -
  obtain i w1 where 1: "cfg_or_empty s ''google_oauth.client_id'' w = (i, w1)" by fastforce
  obtain k w2 where 2: "cfg_or_empty s ''google_oauth.client_secret'' w1 = (k, w2)" by fastforce
  obtain r w3 where 3: "cfg_or_empty s ''google_oauth.redirect_uri'' w2 = (r, w3)" by fastforce
  show ?thesis
    using 1 2 3 cfg_or_empty_stores [of s "''google_oauth.client_id''" w]
      cfg_or_empty_stores [of s "''google_oauth.client_secret''" w1] cfg_or_empty_stores [of s "''google_oauth.redirect_uri''" w2]
    by (simp add: google_config_def)
qed

lemma google_tool_foreign [own_files]: "foreign_same u w (snd (google_tool e name args fill u w))"
proof -
  obtain c v where c: "google_config (xm_set e) w = (c, v)" by fastforce
  have "stores v = stores w" using google_config_stores [of "xm_set e" w] c by simp
  then have "foreign_same u w v" by (rule foreign_stores)
  then show ?thesis using c by (simp add: google_tool_def split: option.splits sum.splits)
qed

lemma toolGetS3Files_foreign [own_files]: "foreign_same u w (snd (toolGetS3Files e u w))"
  by (simp add: toolGetS3Files_def answered_foreign ListFiles_foreign)

lemma toolCreateFile_foreign [own_files]: "foreign_same u w (snd (toolCreateFile e args u uuid w))"
  by (simp add: toolCreateFile_def answered_foreign put_foreign split: option.split)

lemma toolSaveImage_foreign [own_files]: "foreign_same u w (snd (toolSaveImage e args u uuid w))"
  by (simp add: toolSaveImage_def answered_foreign put_foreign split: option.split)

lemma toolGenerateMusic_foreign [own_files]: "foreign_same u w (snd (toolGenerateMusic e args u p uuid w))"
  by (simp add: toolGenerateMusic_def answered_foreign put_foreign split: option.split sum.split prod.split)

lemma toolLeadTarget_foreign [own_files]: "foreign_same u w (snd (toolLeadTarget e args w))"
  by (simp add: toolLeadTarget_def split: option.split)

lemma toolGetCurrentTime_foreign [own_files]: "foreign_same u w (snd (toolGetCurrentTime e u w))"
  by (simp add: toolGetCurrentTime_def Let_def)

lemma callTool_foreign: "foreign_same u w (snd (callTool e q u p uuid w))"
  by (auto simp: callTool_def own_files split: option.split)

lemma serve_method_foreign: "foreign_same u w (snd (serve_method e q u p uuid w))"
  using callTool_foreign [of u w e "mq_Params q" p uuid]
  by (auto simp: serve_method_def split: prod.splits)

text \<open>C30: A request to the MCP server changes no stored object outside the folder of the user that its session header
  names, whatever tool it calls and however the call fails; a request whose header names no user changes nothing.\<close>
theorem mcp_stays_in_the_named_folder:
  "case ParseSessionID e h of
     Inl err \<Rightarrow> snd (ServeHTTP e h b uuid w) = w
   | Inr (u, p) \<Rightarrow> foreign_same u w (snd (ServeHTTP e h b uuid w))"
proof (cases "ParseSessionID e h")
  case (Inl err)
  then show ?thesis by (simp add: ServeHTTP_def split: sum.split option.split)
next
  case (Inr x)
  obtain u p where x: "x = (u, p)" by fastforce
  have "snd (case serve_method e q u p uuid w of (r, w) \<Rightarrow> (a r, w)) = snd (serve_method e q u p uuid w)"
    for a :: "mcp_body \<Rightarrow> mcp_answer" and q
    by (simp split: prod.split)
  then show ?thesis
    using Inr x serve_method_foreign [of u w e _ p uuid] by (simp add: ServeHTTP_def split: sum.split option.split)
qed

section \<open>The list of tools\<close>

lemma kept_fields:
  "xm_lead (e\<lparr>xm_models := f\<rparr>) = xm_lead e" "xm_zone (e\<lparr>xm_models := f\<rparr>) = xm_zone e"
  "xm_time (e\<lparr>xm_models := f\<rparr>) = xm_time e" "xm_files (e\<lparr>xm_models := f\<rparr>) = xm_files e"
  "xm_ext (e\<lparr>xm_models := f\<rparr>) = xm_ext e" "xm_params (e\<lparr>xm_models := f\<rparr>) = xm_params e"
  "xm_set (e\<lparr>xm_models := f\<rparr>) = xm_set e" "xm_google (e\<lparr>xm_models := f\<rparr>) = xm_google e"
  by simp_all

lemma without_model:
  "toolLeadTarget (e\<lparr>xm_models := f\<rparr>) = toolLeadTarget e" "toolGetCurrentTime (e\<lparr>xm_models := f\<rparr>) = toolGetCurrentTime e"
  "toolGetS3Files (e\<lparr>xm_models := f\<rparr>) = toolGetS3Files e" "toolCreateFile (e\<lparr>xm_models := f\<rparr>) = toolCreateFile e"
  "toolSaveImage (e\<lparr>xm_models := f\<rparr>) = toolSaveImage e" "google_tool (e\<lparr>xm_models := f\<rparr>) = google_tool e"
  by (unfold toolLeadTarget_def toolGetCurrentTime_def toolGetS3Files_def toolCreateFile_def
      toolSaveImage_def google_tool_def kept_fields) (rule refl)+

lemma model_only_in_music:
  assumes "map_option fst (Option.bind (members q) (\<lambda>c. map_option (\<lambda>n. (n, map_of c ''arguments'')) (struct_string c ''name'')))
      \<noteq> Some ''generate_music''"
  shows "callTool (e\<lparr>xm_models := f\<rparr>) q u p uuid w = callTool e q u p uuid w"
proof (cases "Option.bind (members q) (\<lambda>c. map_option (\<lambda>n. (n, map_of c ''arguments'')) (struct_string c ''name''))")
  case None
  then show ?thesis unfolding callTool_def by simp
next
  case (Some x)
  obtain name args where x: "x = (name, args)" by fastforce
  have "name \<noteq> ''generate_music''" using assms Some x by simp
  then show ?thesis unfolding callTool_def Some x without_model by simp
qed

text \<open>For a user who has no model the server lists one tool, the clock, yet it runs every other tool but the music
  one exactly as it would run it for a user whose model has all permissions: the flags of the model rule the list, not
  the call.\<close>
theorem unlisted_tools_run:
  assumes "getUserModel e u p = None"
    and "Option.bind (members q) (\<lambda>c. struct_string c ''name'') = Some name" and "name \<noteq> ''generate_music''"
  shows "buildToolsList e u p = [''get_current_time'']
    \<and> callTool e q u p uuid w = callTool (e\<lparr>xm_models := f\<rparr>) q u p uuid w"
proof
  show "buildToolsList e u p = [''get_current_time'']" by (simp add: buildToolsList_def assms(1))
  have name: "map_option fst (Option.bind (members q) (\<lambda>c. map_option (\<lambda>n. (n, map_of c ''arguments'')) (struct_string c ''name'')))
      = Option.bind (members q) (\<lambda>c. struct_string c ''name'')"
    by (cases "members q") (simp_all add: option.map_comp o_def option.map_ident)
  show "callTool e q u p uuid w = callTool (e\<lparr>xm_models := f\<rparr>) q u p uuid w"
    by (rule model_only_in_music [symmetric]) (use assms(2,3) in \<open>unfold name, simp\<close>)
qed

text \<open>A user without a model, and a lead reported for them.\<close>

definition bare_mcp :: mcp_env where
  "bare_mcp = \<lparr>xm_set = toy_env, xm_ext = demo_ext, xm_files = None, xm_models = (\<lambda>u. Inr []), xm_provider = (\<lambda>p. p),
     xm_lead = None, xm_zone = (\<lambda>u. Inl (Msg ''none'')), xm_time = (\<lambda>z t. None), xm_params = (\<lambda>n j. None),
     xm_google = (\<lambda>n c t u j. Inl (Msg ''none'')), xm_music_args = (\<lambda>j. Inl (Msg ''none'')),
     xm_api_key = (\<lambda>u. Inl (Msg ''none'')), xm_music = (\<lambda>k t q. Inl (Msg ''none''))\<rparr>"

definition lead_call :: "json option" where
  "lead_call = Some (JObj [(''name'', JStr ''lead_target''), (''arguments'', JObj [(''resp_id'', JInt 5)])])"

definition generous :: "uid \<Rightarrow> go_err + user_model list" where
  "generous = (\<lambda>u. Inr [\<lparr>mo_Provider = 1, mo_MetaAction = ''buy'', mo_CreateMusic = True, mo_S3 = True, mo_Calendar = True,
     mo_Sheets = True, mo_Interpreter = True, mo_WebSearch = True, mo_Voice = None\<rparr>])"

theorem unlisted_tools_run_witness:
  "buildToolsList bare_mcp 7 1 = [''get_current_time''] \<and> ''lead_target'' \<in> set (buildToolsList (bare_mcp\<lparr>xm_models := generous\<rparr>) 7 1)
   \<and> callTool bare_mcp lead_call 7 1 [] toy_app = callTool (bare_mcp\<lparr>xm_models := generous\<rparr>) lead_call 7 1 [] toy_app
   \<and> \<not> tr_IsError (fst (callTool bare_mcp lead_call 7 1 [] toy_app))"
proof -
  note r = unlisted_tools_run [of bare_mcp 7 1 lead_call "''lead_target''" "[]" toy_app generous]
  have "buildToolsList bare_mcp 7 1 = [''get_current_time'']
      \<and> callTool bare_mcp lead_call 7 1 [] toy_app = callTool (bare_mcp\<lparr>xm_models := generous\<rparr>) lead_call 7 1 [] toy_app"
    by (rule r) (simp_all add: getUserModel_def bare_mcp_def lead_call_def members_def struct_string_def)
  moreover have "\<not> tr_IsError (fst (callTool bare_mcp lead_call 7 1 [] toy_app))"
    by (simp add: callTool_def lead_call_def members_def struct_string_def toolLeadTarget_def struct_int64_def bare_mcp_def toolOK_def)
  moreover have "''lead_target'' \<in> set (buildToolsList (bare_mcp\<lparr>xm_models := generous\<rparr>) 7 1)"
    by (simp add: buildToolsList_def getUserModel_def generous_def)
  ultimately show ?thesis by blast
qed

end
