(* ===== verification/TestApi.thy ===== *)
theory TestApi
  imports Http CacheRecords
begin

text \<open>
  The test sessions, \<open>usecase/session/session.go\<close>. A session, its channel and the model's respondent are Go pointers
  shared between goroutines; they are numbers here, into the tables of the state. The channel type \<open>model.Ch\<close>, the router
  of models, the database and the core that runs a session are code outside the repository and parameters. A call of
  \<open>StartSession\<close> is two steps, before and after its database queries, and so is one of \<open>StopSession\<close>.
\<close>

section \<open>State\<close>

record chat_model =
  cm_Name :: string
  cm_Provider :: nat
  cm_MetaAction :: string
  cm_Triggers :: "string list"
  cm_Limit :: int
  cm_Wait :: int
  cm_Ignore :: bool
  cm_flags :: "(string \<times> bool) list"                    \<comment> \<open>what the model may do\<close>
  cm_Realtime :: bool
  cm_Greeting :: "bool option option"                       \<comment> \<open>\<open>RealtimeVAD.InitialGreeting\<close>\<close>

record assistant =
  as_UserID :: uid
  as_AssistId :: string
  as_AssistName :: string
  as_Provider :: nat
  as_MetaAction :: string
  as_Triggers :: "string list"
  as_Limit :: "32 word"
  as_Espero :: int
  as_Ignore :: bool

datatype chan_ref = Own nat | Router nat                    \<comment> \<open>made here, made by the router\<close>

record resp_model =
  rm_UserID :: uid
  rm_Provider :: nat
  rm_Ctx :: "nat option"                                    \<comment> \<open>the session whose context it has\<close>
  rm_Chan :: "(u64 \<times> chan_ref) list option"              \<comment> \<open>\<open>None\<close> for a nil map\<close>

record test_session =
  ts_UserId :: uid
  ts_RespId :: u64
  ts_TreadId :: u64
  ts_Channel :: chan_ref
  ts_RespModel :: nat
  ts_StartedAt :: int
  ts_LastUsedAt :: int
  ts_IsDemo :: bool

record 'ch api_st = env +
  ta_sessions :: "(string \<times> nat) list"
  ta_objs :: "(nat \<times> test_session) list"
  ta_chans :: "(chan_ref \<times> 'ch) list"
  ta_resps :: "(nat \<times> resp_model) list"
  ta_gauge :: int                                           \<comment> \<open>\<open>metrics.ActiveTestSessions\<close>\<close>
  ta_cancelled :: "nat list"                                \<comment> \<open>sessions whose context is cancelled\<close>
  ta_started :: "nat list"                                  \<comment> \<open>sessions handed to the core\<close>
  ta_next :: nat

record ('ch, 'm) api_env =
  xt_tx_open :: "'ch \<Rightarrow> bool"
  xt_rx_open :: "'ch \<Rightarrow> bool"
  xt_close :: "'ch \<Rightarrow> go_err option \<times> 'ch"
  xt_send :: "'m \<Rightarrow> 'ch \<Rightarrow> go_err option \<times> 'ch"        \<comment> \<open>\<open>SendToRx\<close>\<close>
  xt_recv :: "'ch \<Rightarrow> 'm option option \<times> 'ch"            \<comment> \<open>nothing comes, closed, a message\<close>
  xt_new :: "uid \<Rightarrow> u64 \<Rightarrow> 'ch"
  xt_model :: "int \<Rightarrow> uid \<Rightarrow> nat \<Rightarrow> go_err + chat_model"
  xt_tread :: "int \<Rightarrow> uid \<Rightarrow> u64 \<Rightarrow> go_err + u64"
  xt_record :: "int \<Rightarrow> uid \<Rightarrow> nat \<Rightarrow> go_err + string"    \<comment> \<open>the assistant's identifier\<close>
  xt_demo :: "int \<Rightarrow> uid \<Rightarrow> go_err + bool"
  xt_resp :: "assistant \<Rightarrow> u64 \<Rightarrow> u64 \<Rightarrow> (nat \<times> resp_model) list
     \<Rightarrow> go_err + (nat \<times> resp_model \<times> (chan_ref \<times> 'ch) list)" \<comment> \<open>a respondent, with channels of its own\<close>
  xt_ttl :: int

section \<open>Sessions\<close>

definition sessionKey :: "uid \<Rightarrow> u64 \<Rightarrow> string" where
  "sessionKey u r = show_uid u @ '':'' @ show_nat (unat r)"

definition load_session :: "string \<Rightarrow> 'a api_st \<Rightarrow> (nat \<times> test_session) option" where
  "load_session k w = Option.bind (map_of (ta_sessions w) k) (\<lambda>n. map_option (Pair n) (map_of (ta_objs w) n))"

definition touch :: "nat \<Rightarrow> 'a api_st \<Rightarrow> 'a api_st" where
  "touch n w = w\<lparr>ta_objs := AList.map_entry n (\<lambda>s. s\<lparr>ts_LastUsedAt := now w\<rparr>) (ta_objs w)\<rparr>"

definition drop_chan :: "test_session \<Rightarrow> 'a api_st \<Rightarrow> 'a api_st" where
  "drop_chan s w =
     w\<lparr>ta_resps := AList.map_entry (ts_RespModel s)
         (\<lambda>m. m\<lparr>rm_Chan := map_option (AList.delete (ts_TreadId s)) (rm_Chan m)\<rparr>) (ta_resps w)\<rparr>"

text \<open>\<open>LoadAndDelete\<close> with the metric.\<close>

definition forget_session :: "string \<Rightarrow> 'a api_st \<Rightarrow> 'a api_st" where
  "forget_session k w =
     (case map_of (ta_sessions w) k of
        None \<Rightarrow> w
      | Some n \<Rightarrow> w\<lparr>ta_sessions := AList.delete k (ta_sessions w), ta_gauge := ta_gauge w - 1\<rparr>)"

definition is_open :: "('ch, 'm) api_env \<Rightarrow> 'ch api_st \<Rightarrow> chan_ref \<Rightarrow> bool" where
  "is_open e w c = (case map_of (ta_chans w) c of None \<Rightarrow> False | Some ch \<Rightarrow> xt_tx_open e ch \<and> xt_rx_open e ch)"

definition api_getUserModel :: "('ch, 'm) api_env \<Rightarrow> uid \<Rightarrow> nat \<Rightarrow> 'ch api_st \<Rightarrow> go_err + chat_model" where
  "api_getUserModel e u p w =
     (case xt_model e (now w) u p of Inl err \<Rightarrow> Inl (Wrap ''reading the active model'' err) | Inr m \<Rightarrow> Inr m)"

section \<open>Starting\<close>

text \<open>
  The first step: a session that exists is handed out again, unless its channel is closed. Here a session with a closed
  channel is found and thrown away at once; the relation \<open>api_step\<close> below also has the two apart, as the code has no lock
  between them.
\<close>

definition throw_away :: "string \<Rightarrow> test_session \<Rightarrow> 'ch api_st \<Rightarrow> 'ch api_st" where
  "throw_away k s w = drop_chan s (w\<lparr>ta_sessions := AList.delete k (ta_sessions w), ta_gauge := ta_gauge w - 1\<rparr>)"

declare throw_away_def [simp]

type_synonym started = "go_err + (nat \<times> chat_model)"

definition start_begin :: "('ch, 'm) api_env \<Rightarrow> uid \<Rightarrow> u64 \<Rightarrow> nat \<Rightarrow> 'ch api_st \<Rightarrow> started option \<times> 'ch api_st" where
  "start_begin e u r p w =
     (let k = sessionKey u r in
      case load_session k w of
        None \<Rightarrow> (None, w)
      | Some (n, s) \<Rightarrow>
          if \<not> is_open e w (ts_Channel s)
            then (None, throw_away k s w)
          else if map_option rm_Provider (map_of (ta_resps w) (ts_RespModel s)) \<noteq> Some p
            then (Some (Inl (Msg ''a session exists for another provider'')), w)
          else let w = touch n w in
            (case api_getUserModel e u p w of
               Inl err \<Rightarrow> (Some (Inl (Wrap ''reading the active model'' err)), w)
             | Inr m \<Rightarrow> (Some (Inr (n, m)), w)))"

text \<open>The three queries run at once; their answers and the end of the context are taken in the order they come.\<close>

datatype arrival = CtxDone | TreadDone | RecordDone | DemoDone

type_synonym answers = "u64 option \<times> string option \<times> bool option"

definition complete :: "answers \<Rightarrow> (u64 \<times> string \<times> bool) option" where
  "complete g = (case g of (Some t, Some a, Some d) \<Rightarrow> Some (t, a, d) | _ \<Rightarrow> None)"

fun await :: "go_err + u64 \<Rightarrow> go_err + string \<Rightarrow> bool \<Rightarrow> arrival list \<Rightarrow> answers \<Rightarrow> (go_err + (u64 \<times> string \<times> bool)) option" where
  "await tr rc dm as (t, a, d) =
     (case complete (t, a, d) of
        Some g \<Rightarrow> Some (Inr g)
      | None \<Rightarrow>
          (case as of
             [] \<Rightarrow> None
           | CtxDone # _ \<Rightarrow> Some (Inl (Msg ''the context was cancelled''))
           | TreadDone # as \<Rightarrow>
               (case tr of Inl err \<Rightarrow> Some (Inl (Wrap ''reading the dialog'' err)) | Inr x \<Rightarrow> await tr rc dm as (Some x, a, d))
           | RecordDone # as \<Rightarrow>
               (case rc of Inl err \<Rightarrow> Some (Inl (Wrap ''reading the model record'' err)) | Inr x \<Rightarrow> await tr rc dm as (t, Some x, d))
           | DemoDone # as \<Rightarrow> await tr rc dm as (t, a, Some dm)))"

declare await.simps [simp del]

definition assistant_of :: "uid \<Rightarrow> string \<Rightarrow> chat_model \<Rightarrow> assistant" where
  "assistant_of u a m =
     \<lparr>as_UserID = u, as_AssistId = a, as_AssistName = cm_Name m, as_Provider = cm_Provider m, as_MetaAction = cm_MetaAction m,
      as_Triggers = cm_Triggers m, as_Limit = word_of_int (cm_Limit m), as_Espero = cm_Wait m, as_Ignore = cm_Ignore m\<rparr>"

text \<open>The respondent's channel for the dialog if it is open, otherwise a new one.\<close>

definition open_session :: "('ch, 'm) api_env \<Rightarrow> uid \<Rightarrow> u64 \<Rightarrow> u64 \<Rightarrow> bool \<Rightarrow> nat \<Rightarrow> resp_model \<Rightarrow> 'ch api_st \<Rightarrow> 'ch api_st" where
  "open_session e u r t demo q rm w =
     (let n = ta_next w;
          old = Option.bind (rm_Chan rm) (\<lambda>cs. map_of cs t);
          reuse = (case old of None \<Rightarrow> False | Some c \<Rightarrow> is_open e w c);
          c = (if reuse then the old else Own n);
          chans = (if reuse then rm_Chan rm else Some (AList.update t c (case rm_Chan rm of None \<Rightarrow> [] | Some cs \<Rightarrow> cs)));
          s = \<lparr>ts_UserId = u, ts_RespId = r, ts_TreadId = t, ts_Channel = c, ts_RespModel = q, ts_StartedAt = now w,
               ts_LastUsedAt = now w, ts_IsDemo = demo\<rparr>
      in w\<lparr>ta_next := Suc n, ta_objs := (n, s) # ta_objs w,
           ta_chans := (if reuse then ta_chans w else (c, xt_new e u t) # ta_chans w),
           ta_resps := AList.update q (rm\<lparr>rm_Ctx := Some n, rm_Chan := chans\<rparr>) (ta_resps w),
           ta_sessions := AList.update (sessionKey u r) n (ta_sessions w), ta_gauge := ta_gauge w + 1,
           ta_started := ta_started w @ [n]\<rparr>)"

text \<open>The second step; \<open>None\<close> when an answer never comes.\<close>

definition start_finish :: "('ch, 'm) api_env \<Rightarrow> uid \<Rightarrow> u64 \<Rightarrow> nat \<Rightarrow> arrival list \<Rightarrow> 'ch api_st \<Rightarrow> started option \<times> 'ch api_st" where
  "start_finish e u r p as w =
     (case api_getUserModel e u p w of
        Inl err \<Rightarrow> (Some (Inl (Wrap ''reading the active model'' err)), w)
      | Inr m \<Rightarrow>
          (case await (xt_tread e (now w) u r) (xt_record e (now w) u (cm_Provider m))
                  (case xt_demo e (now w) u of Inl err \<Rightarrow> False | Inr d \<Rightarrow> d) as (None, None, None) of
             None \<Rightarrow> (None, w)
           | Some (Inl err) \<Rightarrow> (Some (Inl err), w)
           | Some (Inr (t, a, demo)) \<Rightarrow>
               (case xt_resp e (assistant_of u a m) t r (ta_resps w) of
                  Inl err \<Rightarrow> (Some (Inl (Wrap ''reading the respondent'' err)), w)
                | Inr (q, rm, cs) \<Rightarrow>
                    (Some (Inr (ta_next w, m)), open_session e u r t demo q rm (w\<lparr>ta_chans := cs @ ta_chans w\<rparr>)))))"

definition StartSession :: "('ch, 'm) api_env \<Rightarrow> uid \<Rightarrow> u64 \<Rightarrow> nat \<Rightarrow> arrival list \<Rightarrow> 'ch api_st \<Rightarrow> started option \<times> 'ch api_st" where
  "StartSession e u r p as w =
     (case start_begin e u r p w of
        (Some x, w) \<Rightarrow> (Some x, w)
      | (None, w) \<Rightarrow> start_finish e u r p as w)"

section \<open>Using a session\<close>

definition no_session :: go_err where
  "no_session = Msg ''session not found''"

definition GetSessionModel :: "('ch, 'm) api_env \<Rightarrow> uid \<Rightarrow> u64 \<Rightarrow> nat \<Rightarrow> 'ch api_st \<Rightarrow> go_err + chat_model" where
  "GetSessionModel e u r p w =
     (case load_session (sessionKey u r) w of
        None \<Rightarrow> Inl no_session
      | Some _ \<Rightarrow> (case xt_model e (now w) u p of Inl err \<Rightarrow> Inl (Wrap ''reading the active model'' err) | Inr m \<Rightarrow> Inr m))"

text \<open>A channel outside the table is a nil pointer: \<open>SendToRx\<close> is not called on one.\<close>

definition SendMessage :: "('ch, 'm) api_env \<Rightarrow> uid \<Rightarrow> u64 \<Rightarrow> 'm \<Rightarrow> 'ch api_st \<Rightarrow> go_err option \<times> 'ch api_st" where
  "SendMessage e u r msg w =
     (case load_session (sessionKey u r) w of
        None \<Rightarrow> (Some no_session, w)
      | Some (n, s) \<Rightarrow>
          let w = touch n w in
          (case map_of (ta_chans w) (ts_Channel s) of
             None \<Rightarrow> (Some (Msg ''nil channel''), w)
           | Some ch \<Rightarrow>
               (case xt_send e msg ch of
                  (err, ch) \<Rightarrow> (err, w\<lparr>ta_chans := AList.update (ts_Channel s) ch (ta_chans w)\<rparr>))))"

definition GetChannel :: "uid \<Rightarrow> u64 \<Rightarrow> 'a api_st \<Rightarrow> (go_err + chan_ref) \<times> 'a api_st" where
  "GetChannel u r w =
     (case load_session (sessionKey u r) w of
        None \<Rightarrow> (Inl no_session, w)
      | Some (n, s) \<Rightarrow> (Inr (ts_Channel s), touch n w))"

definition GetAnswer :: "('ch, 'm) api_env \<Rightarrow> uid \<Rightarrow> u64 \<Rightarrow> 'ch api_st \<Rightarrow> (go_err + 'm) \<times> 'ch api_st" where
  "GetAnswer e u r w =
     (case load_session (sessionKey u r) w of
        None \<Rightarrow> (Inl no_session, w)
      | Some (n, s) \<Rightarrow>
          let w = touch n w in
          (case map_of (ta_chans w) (ts_Channel s) of
             None \<Rightarrow> (Inl (Msg ''timeout''), w)
           | Some ch \<Rightarrow>
               (case xt_recv e ch of
                  (x, ch) \<Rightarrow>
                    ((case x of None \<Rightarrow> Inl (Msg ''timeout'') | Some None \<Rightarrow> Inl (Msg ''the channel of answers is closed'')
                      | Some (Some m) \<Rightarrow> Inr m), w\<lparr>ta_chans := AList.update (ts_Channel s) ch (ta_chans w)\<rparr>))))"

section \<open>Stopping\<close>

definition close_chan :: "('ch, 'm) api_env \<Rightarrow> chan_ref \<Rightarrow> 'ch api_st \<Rightarrow> 'ch api_st" where
  "close_chan e c w =
     (case map_of (ta_chans w) c of None \<Rightarrow> w
      | Some ch \<Rightarrow> w\<lparr>ta_chans := AList.update c (snd (xt_close e ch)) (ta_chans w)\<rparr>)"

text \<open>The second step of \<open>StopSession\<close> ends the session it has loaded and forgets the one that is stored by then.\<close>

definition end_session :: "('ch, 'm) api_env \<Rightarrow> nat \<Rightarrow> test_session \<Rightarrow> 'ch api_st \<Rightarrow> 'ch api_st" where
  "end_session e n s w = drop_chan s (close_chan e (ts_Channel s) (w\<lparr>ta_cancelled := n # ta_cancelled w\<rparr>))"

definition stop_finish :: "('ch, 'm) api_env \<Rightarrow> string \<Rightarrow> nat \<Rightarrow> test_session \<Rightarrow> 'ch api_st \<Rightarrow> 'ch api_st" where
  "stop_finish e k n s w = forget_session k (end_session e n s w)"

definition StopSession :: "('ch, 'm) api_env \<Rightarrow> uid \<Rightarrow> u64 \<Rightarrow> 'ch api_st \<Rightarrow> 'ch api_st" where
  "StopSession e u r w =
     (case load_session (sessionKey u r) w of None \<Rightarrow> w | Some (n, s) \<Rightarrow> stop_finish e (sessionKey u r) n s w)"

definition CleanupWebSocketSession :: "('ch, 'm) api_env \<Rightarrow> uid \<Rightarrow> u64 \<Rightarrow> 'ch api_st \<Rightarrow> 'ch api_st" where
  "CleanupWebSocketSession = StopSession"

text \<open>One pass of the loop; the time is read once.\<close>

definition cleanup_one :: "('ch, 'm) api_env \<Rightarrow> int \<Rightarrow> string \<times> nat \<Rightarrow> 'ch api_st \<Rightarrow> 'ch api_st" where
  "cleanup_one e t kn w =
     (case kn of (k, n) \<Rightarrow>
        (case map_of (ta_objs w) n of
           None \<Rightarrow> w
         | Some s \<Rightarrow> if xt_ttl e < t - ts_LastUsedAt s then end_session e n s (forget_session k w) else w))"

definition cleanup :: "('ch, 'm) api_env \<Rightarrow> 'ch api_st \<Rightarrow> 'ch api_st" where
  "cleanup e w = fold (cleanup_one e (now w)) (ta_sessions w) w"

definition GetSessionsCount :: "'a api_st \<Rightarrow> nat" where
  "GetSessionsCount w = length (ta_sessions w)"

section \<open>Voice\<close>

text \<open>Providers are numbers; \<open>xr_owns\<close> is \<open>GetRealtimeGenerating(respId) \<noteq> nil\<close>.\<close>

record rt_env =
  xr_realtime :: "nat \<Rightarrow> bool"                             \<comment> \<open>the provider of this number can do voice\<close>
  xr_owns :: "nat \<Rightarrow> u64 \<Rightarrow> bool"
  xr_router_owns :: "u64 \<Rightarrow> bool"
  xr_user_provider :: "uid \<Rightarrow> nat option"
  xr_audio :: "nat \<Rightarrow> u64 \<Rightarrow> string \<Rightarrow> go_err option"
  xr_start :: "resp_model \<Rightarrow> u64 \<Rightarrow> u64 \<Rightarrow> nat option \<times> go_err option" \<comment> \<open>the channels, an error at hand\<close>

definition own_provider :: "rt_env \<Rightarrow> uid \<Rightarrow> u64 \<Rightarrow> 'a api_st \<Rightarrow> nat option" where
  "own_provider x u r w =
     Option.bind (load_session (sessionKey u r) w) (\<lambda>(n, s).
       Option.bind (map_of (ta_resps w) (ts_RespModel s)) (\<lambda>m.
         if rm_Provider m \<noteq> 0 \<and> xr_realtime x (rm_Provider m) \<and> xr_owns x (rm_Provider m) r then Some (rm_Provider m) else None))"

definition getRealtimeProvider :: "rt_env \<Rightarrow> uid \<Rightarrow> u64 \<Rightarrow> 'a api_st \<Rightarrow> nat option" where
  "getRealtimeProvider x u r w =
     (case own_provider x u r w of
        Some p \<Rightarrow> Some p
      | None \<Rightarrow>
          (case (if xr_router_owns x r then xr_user_provider x u else None) of
             Some p \<Rightarrow> Some p
           | None \<Rightarrow> xr_user_provider x u))"

definition realtimeRespModel :: "uid \<Rightarrow> u64 \<Rightarrow> 'a api_st \<Rightarrow> resp_model" where
  "realtimeRespModel u r w =
     (case Option.bind (load_session (sessionKey u r) w) (\<lambda>(n, s). map_of (ta_resps w) (ts_RespModel s)) of
        Some m \<Rightarrow> m
      | None \<Rightarrow> \<lparr>rm_UserID = u, rm_Provider = 0, rm_Ctx = None, rm_Chan = None\<rparr>)"

definition StartRealtimeSession :: "rt_env \<Rightarrow> uid \<Rightarrow> u64 \<Rightarrow> u64 \<Rightarrow> 'a api_st \<Rightarrow> go_err + nat" where
  "StartRealtimeSession x u r t w =
     (case xr_start x (realtimeRespModel u r w) r t of
        (Some c, _) \<Rightarrow> Inr c
      | (None, Some err) \<Rightarrow> Inl (Wrap ''the realtime session was not started'' err)
      | (None, None) \<Rightarrow> Inl (Msg (''the realtime session was not started for respId='' @ show_nat (unat r))))"

definition SendRealtimeAudio :: "rt_env \<Rightarrow> uid \<Rightarrow> u64 \<Rightarrow> string \<Rightarrow> 'a api_st \<Rightarrow> go_err option" where
  "SendRealtimeAudio x u r pcm w =
     (case getRealtimeProvider x u r w of
        None \<Rightarrow> Some (Msg ''SendRealtimeAudio: no RealtimeProvider'')
      | Some p \<Rightarrow> xr_audio x p r pcm)"

section \<open>Runs\<close>

text \<open>Whole operations one after the other.\<close>

inductive api_op :: "('ch, 'm) api_env \<Rightarrow> 'ch api_st \<Rightarrow> 'ch api_st \<Rightarrow> bool" for e where
  start: "api_op e w (snd (StartSession e u r p as w))"
| send: "api_op e w (snd (SendMessage e u r m w))"
| channel: "api_op e w (snd (GetChannel u r w))"
| answer: "api_op e w (snd (GetAnswer e u r w))"
| stop: "api_op e w (StopSession e u r w)"
| clean: "api_op e w (cleanup e w)"
| time: "now w \<le> t \<Longrightarrow> api_op e w (w\<lparr>now := t\<rparr>)"

text \<open>The steps of operations under way, interleaved.\<close>

datatype task = Starting uid u64 nat | Discarding uid u64 nat test_session | Stopping string nat

inductive api_step :: "('ch, 'm) api_env \<Rightarrow> 'ch api_st \<times> task list \<Rightarrow> 'ch api_st \<times> task list \<Rightarrow> bool" for e where
  whole: "api_op e w w' \<Longrightarrow> api_step e (w, ts) (w', ts)"
| begin_start: "start_begin e u r p w = (None, w') \<Longrightarrow> api_step e (w, ts) (w', Starting u r p # ts)"
| found_closed: "load_session (sessionKey u r) w = Some (n, s) \<Longrightarrow> \<not> is_open e w (ts_Channel s)
    \<Longrightarrow> api_step e (w, ts) (w, Discarding u r p s # ts)"
| discarded: "api_step e (w, ts1 @ Discarding u r p s # ts2) (throw_away (sessionKey u r) s w, ts1 @ Starting u r p # ts2)"
| finish_start: "start_finish e u r p as w = (Some x, w') \<Longrightarrow> api_step e (w, ts1 @ Starting u r p # ts2) (w', ts1 @ ts2)"
| begin_stop: "load_session k w = Some (n, s) \<Longrightarrow> api_step e (w, ts) (w, Stopping k n # ts)"
| finish_stop: "map_of (ta_objs w) n = Some s
    \<Longrightarrow> api_step e (w, ts1 @ Stopping k n # ts2) (stop_finish e k n s w, ts1 @ ts2)"

end
