(* ===== verification/TestWeb.thy ===== *)
theory TestWeb
  imports TestApi
begin

text \<open>
  The HTTP side of the test sessions, \<open>delivery/http/test_api.go\<close>: starting and stopping a session, sending a
  question, and the loop that turns the model's messages into what the WebSocket is sent. Errors of a provider, the
  transcription of a voice message and the reader of JSON texts inside messages are parameters.
\<close>

datatype provider_kind = LimitKind | AuthKind | PermissionKind | TimeoutKind | UnavailableKind | RequestKind
  | ContentBlockedKind | OtherKind

record sent_file =
  sf_Type :: string
  sf_URL :: string
  sf_FileName :: string
  sf_Caption :: string

record model_message =
  ms_Type :: string
  ms_Message :: string
  ms_Meta :: bool
  ms_SendFiles :: "sent_file list"
  ms_Operator :: bool
  ms_Name :: string
  ms_Timestamp :: int
  ms_Files :: "(string \<times> string) list"                   \<comment> \<open>name and MIME type of an upload\<close>

record ('ch) test_web_env =
  xh_api :: "('ch, model_message) api_env"
  xh_provider_err :: "go_err \<Rightarrow> (provider_kind \<times> string \<times> string) option"  \<comment> \<open>kind, its text, provider\<close>
  xh_provider :: "string \<Rightarrow> nat option"                    \<comment> \<open>\<open>comdom.FromString\<close>\<close>
  xh_provider_name :: "nat \<Rightarrow> string"
  xh_transcribe :: "uid \<Rightarrow> string \<Rightarrow> string \<Rightarrow> go_err + string"
  xh_object :: "string \<Rightarrow> (string \<times> json) list option"     \<comment> \<open>a JSON text that is an object\<close>

definition kind_status :: "provider_kind \<Rightarrow> nat" where
  "kind_status k =
     (case k of LimitKind \<Rightarrow> 429 | AuthKind \<Rightarrow> 401 | PermissionKind \<Rightarrow> 403 | TimeoutKind \<Rightarrow> 504 | UnavailableKind \<Rightarrow> 503
      | RequestKind \<Rightarrow> 400 | ContentBlockedKind \<Rightarrow> 400 | OtherKind \<Rightarrow> 500)"

definition providerErrorResponse :: "('ch) test_web_env \<Rightarrow> go_err \<Rightarrow> 'w \<Rightarrow> 'w handled option" where
  "providerErrorResponse e err w =
     (case xh_provider_err e err of
        None \<Rightarrow> None
      | Some (k, text, prov) \<Rightarrow> Some (reply (kind_status k) [(''error'', JStr text), (''provider'', JStr prov)] w))"

section \<open>Starting and stopping\<close>

definition model_fields :: "('ch) test_web_env \<Rightarrow> chat_model \<Rightarrow> (string \<times> json) list" where
  "model_fields e m =
     [(''provider'', JStr (xh_provider_name e (cm_Provider m))), (''model_name'', JStr (cm_Name m)),
      (''ignore'', JBool (cm_Ignore m)), (''realtime'', JBool (cm_Realtime m))]
     @ map (\<lambda>(n, b). (n, JBool b)) (cm_flags m)
     @ (if cm_Realtime m
          then [(''realtime_provider'', JStr (xh_provider_name e (cm_Provider m))), (''realtime_transport'', JStr ''websocket'')] else [])
     @ (case cm_Greeting m of None \<Rightarrow> [] | Some g \<Rightarrow> [(''greeting'', case g of None \<Rightarrow> JNull | Some b \<Rightarrow> JBool b)])"

definition testStartSessionHandler :: "('ch) test_web_env \<Rightarrow> gin \<Rightarrow> arrival list \<Rightarrow> 'ch api_st \<Rightarrow> 'ch api_st handled option" where
  "testStartSessionHandler e c as w =
     (case getUserID c of None \<Rightarrow> Some (unauthorized w)
      | Some u \<Rightarrow>
          (case getRespId c of None \<Rightarrow> Some (unauthorized w)
           | Some r \<Rightarrow>
               let prov = Query c ''provider'' in
               if prov = [] \<or> prov = ''undefined'' then Some (reply_error 400 ''provider parameter is required'' w)
               else (case xh_provider e prov of
                  None \<Rightarrow> Some (reply_error 400 (''invalid provider: '' @ prov) w)
                | Some p \<Rightarrow>
                    (case StartSession (xh_api e) u r p as w of
                       (None, w) \<Rightarrow> None
                     | (Some (Inl err), w) \<Rightarrow>
                         Some (case providerErrorResponse e err w of Some h \<Rightarrow> h
                               | None \<Rightarrow> reply_error 500 ''Failed to start test session'' w)
                     | (Some (Inr (n, m)), w) \<Rightarrow>
                         (case map_of (ta_objs w) n of
                            None \<Rightarrow> None
                          | Some s \<Rightarrow>
                              Some (reply 201
                                ([(''user_id'', JInt (int (unat (ts_UserId s)))), (''resp_id'', JInt (int (unat (ts_RespId s)))),
                                  (''tread_id'', JInt (int (unat (ts_TreadId s)))), (''started_at'', JTime (ts_StartedAt s))]
                                 @ model_fields e m) w))))))"

definition testStopSessionHandler :: "('ch) test_web_env \<Rightarrow> gin \<Rightarrow> 'ch api_st \<Rightarrow> 'ch api_st handled" where
  "testStopSessionHandler e c w =
     (case getUserID c of None \<Rightarrow> unauthorized w
      | Some u \<Rightarrow>
          (case getRespId c of None \<Rightarrow> unauthorized w
           | Some r \<Rightarrow> reply 200 [(''status'', JStr ''session_stopped'')] (StopSession (xh_api e) u r w)))"

section \<open>Questions\<close>

record ask_req =
  aq_Type :: string
  aq_Message :: string
  aq_Meta :: bool
  aq_SendFiles :: "sent_file list"
  aq_Files :: "(string \<times> string) list"
  aq_AudioData :: string
  aq_AudioName :: string

text \<open>From the last dot on; a name of one byte has no extension, a name without a dot neither.\<close>

definition audio_ext :: "string \<Rightarrow> string" where
  "audio_ext name =
     (if length name \<le> 1 \<or> CHR ''.'' \<notin> set name then ''.ogg''
      else CHR ''.'' # rev (takeWhile (\<lambda>c. c \<noteq> CHR ''.'') (rev name)))"

definition audio_mime :: "string \<Rightarrow> string" where
  "audio_mime x =
     (if x = ''.mp3'' then ''audio/mpeg'' else if x = ''.wav'' then ''audio/wav'' else if x = ''.ogg'' then ''audio/ogg''
      else if x = ''.flac'' then ''audio/flac'' else if x = ''.aac'' then ''audio/aac'' else if x = ''.m4a'' then ''audio/mp4''
      else if x = ''.webm'' then ''audio/webm'' else ''audio/ogg'')"

definition heard :: "('ch) test_web_env \<Rightarrow> uid \<Rightarrow> ask_req \<Rightarrow> (go_err option) + ask_req" where
  "heard e u q =
     (if aq_Type q \<noteq> ''user_voice'' then Inr q
      else if aq_AudioData q = [] then Inl None
      else (case xh_transcribe e u (aq_AudioData q) (audio_mime (audio_ext (if aq_AudioName q = [] then ''voice_message.ogg'' else aq_AudioName q))) of
              Inl err \<Rightarrow> Inl (Some err)
            | Inr text \<Rightarrow> Inr (q\<lparr>aq_Message := text, aq_Files := []\<rparr>)))"

definition message_of :: "ask_req \<Rightarrow> int \<Rightarrow> model_message" where
  "message_of q t =
     \<lparr>ms_Type = (if aq_Type q = [] then ''user'' else aq_Type q), ms_Message = aq_Message q, ms_Meta = aq_Meta q,
      ms_SendFiles = aq_SendFiles q, ms_Operator = False, ms_Name = [], ms_Timestamp = t, ms_Files = aq_Files q\<rparr>"

definition testAskHandler :: "('ch) test_web_env \<Rightarrow> gin \<Rightarrow> ask_req option \<Rightarrow> 'ch api_st \<Rightarrow> 'ch api_st handled" where
  "testAskHandler e c b w =
     (case getUserID c of None \<Rightarrow> unauthorized w
      | Some u \<Rightarrow>
          (case getRespId c of None \<Rightarrow> unauthorized w
           | Some r \<Rightarrow>
               (case b of
                  None \<Rightarrow> reply_error 400 ''invalid request body'' w
                | Some q \<Rightarrow>
                    (case heard e u q of
                       Inl None \<Rightarrow> reply_error 400 ''audio_data required for user_voice type'' w
                     | Inl (Some err) \<Rightarrow>
                         (case providerErrorResponse e err w of Some h \<Rightarrow> h
                          | None \<Rightarrow> reply_error 500 (''transcription failed: '' @ err_text err) w)
                     | Inr q \<Rightarrow>
                         if aq_Message q = [] \<and> aq_Files q = [] then reply_error 400 ''message content required'' w
                         else (case SendMessage (xh_api e) u r (message_of q (now w)) w of
                                 (Some err, w) \<Rightarrow>
                                   (case providerErrorResponse e err w of Some h \<Rightarrow> h | None \<Rightarrow> reply_error 500 (err_text err) w)
                               | (None, w) \<Rightarrow> reply 202 [(''status'', JStr ''message_sent''), (''timestamp'', JTime (now w))] w)))))"

section \<open>Answers\<close>

text \<open>What the WebSocket is sent: JSON, or a ping.\<close>

datatype frame = Frame json | Ping

definition passed_event :: "string \<Rightarrow> bool" where
  "passed_event t = (HasPrefix t ''response.output_item.'' \<or> HasPrefix t ''response.function_call_arguments.''
     \<or> t = ''function_result'' \<or> t = ''token_usage'')"

text \<open>A part of an answer; events of the provider inside it are passed on as they are.\<close>

definition delta_payload :: "('ch) test_web_env \<Rightarrow> model_message \<Rightarrow> json" where
  "delta_payload e m =
     (let plain = JObj [(''type'', JStr ''delta''), (''content'', JStr (ms_Message m)), (''timestamp'', JTime (ms_Timestamp m))] in
      case ms_Message m of
        [] \<Rightarrow> plain
      | ch # _ \<Rightarrow>
          if ch \<noteq> CHR ''{'' then plain
          else (case xh_object e (ms_Message m) of
                  None \<Rightarrow> plain
                | Some fs \<Rightarrow>
                    (case map_of fs ''type'' of
                       Some (JStr t) \<Rightarrow> if passed_event t then JObj fs else plain
                     | _ \<Rightarrow> plain)))"

definition files_json :: "sent_file list \<Rightarrow> (string \<times> json) list" where
  "files_json fs =
     (case fs of
        [] \<Rightarrow> []
      | f # _ \<Rightarrow>
          [(''files'', JList (map (\<lambda>g. JObj [(''type'', JStr (sf_Type g)), (''url'', JStr (sf_URL g)),
              (''file_name'', JStr (sf_FileName g)), (''caption'', JStr (sf_Caption g))]) fs))]
          @ (if sf_Type f = ''photo'' then [(''image_url'', JStr (sf_URL f)), (''file_type'', JStr ''image'')]
             else [(''file_url'', JStr (sf_URL f)), (''file_type'', JStr ''file'')])
          @ [(''file_name'', JStr (sf_FileName f))])"

definition final_payload :: "model_message \<Rightarrow> json" where
  "final_payload m =
     JObj ([(''type'', JStr (if ms_Type m = ''assist'' then ''assistant'' else ms_Type m)), (''message'', JStr (ms_Message m)),
        (''operator'', JBool (ms_Operator m)), (''created_at'', JTime (ms_Timestamp m)), (''name'', JStr (ms_Name m))]
      @ (if ms_Meta m then [(''meta'', JBool True)] else [])
      @ files_json (ms_SendFiles m)
      @ (if ms_Files m = [] then []
         else [(''uploaded_files'', JList (map (\<lambda>(n, t). JObj [(''name'', JStr n), (''mime_type'', JStr t)]) (ms_Files m)))]))"

definition answer_frame :: "('ch) test_web_env \<Rightarrow> model_message \<Rightarrow> json option" where
  "answer_frame e m =
     (if ms_Type m = ''assistant_delta'' then Some (delta_payload e m)
      else if ms_Type m = ''assistant'' \<or> ms_Type m = ''assist'' then Some (final_payload m)
      else None)"

text \<open>
  Three goroutines with two buffers between them. The first reads the model's answers into \<open>rl_inbox\<close> and waits when it is
  full. The main loop makes a frame of each and offers it to \<open>rl_buffer\<close>; what does not fit is dropped, only the notice that
  there are no more answers waits for room. The last one writes the frames and ends with the first write that fails;
  \<open>rl_written\<close> is what was written, \<open>rl_failed\<close> the frame whose write failed.
\<close>

definition send_capacity :: nat where "send_capacity = 2000"

definition inbox_capacity :: nat where "inbox_capacity = 2000"

text \<open>The main loop: it selects, it waits to send the last notice, it has sent it, or it has seen the client leave.\<close>

datatype loop_state = Looping | Telling | Told | Left

record relay_st =
  rl_inbox :: "model_message list"
  rl_closed :: bool                      \<comment> \<open>the first goroutine has ended and closed the inbox\<close>
  rl_loop :: loop_state
  rl_gone :: bool                        \<comment> \<open>the client has left, or the request has ended\<close>
  rl_buffer :: "frame list"
  rl_written :: "frame list"
  rl_failed :: "frame option"

datatype relay_event =
    Received model_message | AnswersEnd | ClientLeaves
  | LoopTakes | LoopTicks | LoopSeesEnd | LoopTells | LoopLeaves
  | Written | WriteFails

definition offer_frame :: "frame \<Rightarrow> relay_st \<Rightarrow> relay_st" where
  "offer_frame f s = (if length (rl_buffer s) < send_capacity then s\<lparr>rl_buffer := rl_buffer s @ [f]\<rparr> else s)"

definition closed_notice :: frame where
  "closed_notice = Frame (JObj [(''status'', JStr ''channel_closed'')])"

definition frames_of :: "('ch) test_web_env \<Rightarrow> model_message \<Rightarrow> frame list" where
  "frames_of e m = (case answer_frame e m of None \<Rightarrow> [] | Some j \<Rightarrow> [Frame j])"

text \<open>\<open>None\<close>: the event cannot happen now.\<close>

definition relay :: "('ch) test_web_env \<Rightarrow> relay_event \<Rightarrow> relay_st \<Rightarrow> relay_st option" where
  "relay e ev s =
     (case ev of
        Received m \<Rightarrow>
          if rl_closed s \<or> length (rl_inbox s) \<ge> inbox_capacity then None else Some (s\<lparr>rl_inbox := rl_inbox s @ [m]\<rparr>)
      | AnswersEnd \<Rightarrow> if rl_closed s then None else Some (s\<lparr>rl_closed := True\<rparr>)
      | ClientLeaves \<Rightarrow> Some (s\<lparr>rl_gone := True\<rparr>)
      | LoopTakes \<Rightarrow>
          (case rl_inbox s of
             [] \<Rightarrow> None
           | m # ms \<Rightarrow> if rl_loop s \<noteq> Looping then None else Some (foldr offer_frame (frames_of e m) (s\<lparr>rl_inbox := ms\<rparr>)))
      | LoopTicks \<Rightarrow> if rl_loop s \<noteq> Looping then None else Some (offer_frame Ping s)
      | LoopSeesEnd \<Rightarrow>
          if rl_loop s \<noteq> Looping \<or> \<not> rl_closed s \<or> rl_inbox s \<noteq> [] then None else Some (s\<lparr>rl_loop := Telling\<rparr>)
      | LoopTells \<Rightarrow>
          if rl_loop s \<noteq> Telling \<or> length (rl_buffer s) \<ge> send_capacity then None
          else Some (s\<lparr>rl_buffer := rl_buffer s @ [closed_notice], rl_loop := Told\<rparr>)
      | LoopLeaves \<Rightarrow> if rl_loop s \<noteq> Looping \<or> \<not> rl_gone s then None else Some (s\<lparr>rl_loop := Left\<rparr>)
      | Written \<Rightarrow>
          (case rl_buffer s of
             [] \<Rightarrow> None
           | f # fs \<Rightarrow> if rl_failed s \<noteq> None then None else Some (s\<lparr>rl_buffer := fs, rl_written := rl_written s @ [f]\<rparr>))
      | WriteFails \<Rightarrow>
          (case rl_buffer s of
             [] \<Rightarrow> None
           | f # fs \<Rightarrow> if rl_failed s \<noteq> None then None else Some (s\<lparr>rl_buffer := fs, rl_failed := Some f\<rparr>)))"

fun relay_run :: "('ch) test_web_env \<Rightarrow> relay_event list \<Rightarrow> relay_st \<Rightarrow> relay_st option" where
  "relay_run e [] s = Some s"
| "relay_run e (ev # evs) s = Option.bind (relay e ev s) (relay_run e evs)"

text \<open>The messages of the model that were read, and the frames offered, each with the number of those that were waiting.\<close>

fun answers_read :: "relay_event list \<Rightarrow> model_message list" where
  "answers_read [] = []"
| "answers_read (ev # evs) = (case ev of Received m \<Rightarrow> [m] | _ \<Rightarrow> []) @ answers_read evs"

definition made :: "('ch) test_web_env \<Rightarrow> relay_event \<Rightarrow> relay_st \<Rightarrow> frame list" where
  "made e ev s =
     (case ev of
        LoopTakes \<Rightarrow> (case rl_inbox s of [] \<Rightarrow> [] | m # ms \<Rightarrow> frames_of e m)
      | LoopTicks \<Rightarrow> [Ping]
      | LoopTells \<Rightarrow> [closed_notice]
      | _ \<Rightarrow> [])"

fun offers :: "('ch) test_web_env \<Rightarrow> relay_event list \<Rightarrow> relay_st \<Rightarrow> (frame \<times> nat) list" where
  "offers e [] s = []"
| "offers e (ev # evs) s =
     (case relay e ev s of
        None \<Rightarrow> []
      | Some s' \<Rightarrow> map (\<lambda>f. (f, length (rl_buffer s))) (made e ev s) @ offers e evs s')"

end
