(* ===== verification/TestApiProps.thy ===== *)
theory TestApiProps
  imports TestApi
begin

text \<open>
  Operations on test sessions that do not overlap keep the metric equal to the number of sessions and never leave a
  stored session with a cancelled context; two starts that overlap break both for good. The clean-up ends exactly the
  sessions that were idle for longer than their life.
\<close>

section \<open>Association lists\<close>

lemma length_delete_key:
  "distinct (map fst xs) \<Longrightarrow> map_of xs k = Some v \<Longrightarrow> length xs = Suc (length (AList.delete k xs))"
  by (induction xs) (auto split: if_splits)

lemma delete_values: "distinct (map snd xs) \<Longrightarrow> map_of xs k = Some v \<Longrightarrow> v \<notin> snd ` set (AList.delete k xs)"
  by (induction xs) (auto simp: AList.delete_eq split: if_splits dest: map_of_SomeD intro: rev_image_eqI)

lemma delete_subset: "f ` set (AList.delete k xs) \<subseteq> f ` set xs"
  by (auto simp: AList.delete_eq)

lemma set_delete_key: "set (AList.delete k xs) = {x \<in> set xs. fst x \<noteq> k}"
  by (auto simp: AList.delete_eq)

lemma distinct_delete_values: "distinct (map snd xs) \<Longrightarrow> distinct (map snd (AList.delete k xs))"
  by (simp add: AList.delete_eq distinct_map_filter)

lemma update_new: "k \<notin> fst ` set xs \<Longrightarrow> AList.update k v xs = xs @ [(k, v)]"
  by (induction xs) auto

section \<open>Frames\<close>

text \<open>What an operation that neither adds nor removes a session leaves alone.\<close>

definition same_sessions :: "'a api_st \<Rightarrow> 'a api_st \<Rightarrow> bool" where
  "same_sessions w w' \<longleftrightarrow> ta_sessions w' = ta_sessions w \<and> ta_gauge w' = ta_gauge w \<and> ta_next w' = ta_next w
     \<and> ta_cancelled w' = ta_cancelled w \<and> dom (map_of (ta_objs w')) = dom (map_of (ta_objs w))"

lemma same_refl [simp]: "same_sessions w w"
  by (simp add: same_sessions_def)

lemma touch_same [simp]: "same_sessions w (touch n w)"
  by (auto simp: same_sessions_def touch_def AList.map_of_map_entry dom_def)

lemma quiet_updates [simp]:
  "same_sessions w (w\<lparr>ta_chans := c\<rparr>)" "same_sessions w (w\<lparr>ta_resps := q\<rparr>)" "same_sessions w (w\<lparr>now := t\<rparr>)"
  by (simp_all add: same_sessions_def)

lemma same_trans: "same_sessions w w' \<Longrightarrow> same_sessions w' w'' \<Longrightarrow> same_sessions w w''"
  by (simp add: same_sessions_def)

lemma frame_simps [simp]:
  "ta_sessions (touch n w) = ta_sessions w" "ta_chans (touch n w) = ta_chans w" "ta_resps (touch n w) = ta_resps w"
  "ta_cancelled (touch n w) = ta_cancelled w" "now (touch n w) = now w"
  "ta_sessions (drop_chan s w) = ta_sessions w" "ta_gauge (drop_chan s w) = ta_gauge w" "ta_objs (drop_chan s w) = ta_objs w"
  "ta_next (drop_chan s w) = ta_next w" "ta_cancelled (drop_chan s w) = ta_cancelled w" "now (drop_chan s w) = now w"
  "ta_chans (drop_chan s w) = ta_chans w"
  by (simp_all add: touch_def drop_chan_def)

lemma close_frame [simp]:
  "ta_sessions (close_chan e c w) = ta_sessions w" "ta_gauge (close_chan e c w) = ta_gauge w"
  "ta_objs (close_chan e c w) = ta_objs w" "ta_next (close_chan e c w) = ta_next w"
  "ta_cancelled (close_chan e c w) = ta_cancelled w" "now (close_chan e c w) = now w"
  by (simp_all add: close_chan_def split: option.split)

lemma end_frame [simp]:
  "ta_sessions (end_session e n s w) = ta_sessions w" "ta_gauge (end_session e n s w) = ta_gauge w"
  "ta_objs (end_session e n s w) = ta_objs w" "ta_next (end_session e n s w) = ta_next w"
  "ta_cancelled (end_session e n s w) = n # ta_cancelled w" "now (end_session e n s w) = now w"
  by (simp_all add: end_session_def)

lemma forget_frame [simp]:
  "ta_objs (forget_session k w) = ta_objs w" "ta_next (forget_session k w) = ta_next w"
  "ta_cancelled (forget_session k w) = ta_cancelled w" "now (forget_session k w) = now w"
  by (simp_all add: forget_session_def split: option.split)

lemma forget_sessions [simp]: "ta_sessions (forget_session k w) = AList.delete k (ta_sessions w)"
  by (auto simp: forget_session_def map_of_eq_None_iff split: option.split)

lemma load_session_facts:
  "load_session k w = Some (n, s) \<Longrightarrow> map_of (ta_sessions w) k = Some n \<and> map_of (ta_objs w) n = Some s"
  by (auto simp: load_session_def split: bind_splits)

section \<open>The count\<close>

text \<open>The stored sessions exist, are stored once and are not cancelled, and the metric is \<open>d\<close> above their number.\<close>

definition counted :: "int \<Rightarrow> 'a api_st \<Rightarrow> bool" where
  "counted d w \<longleftrightarrow> ta_gauge w = int (length (ta_sessions w)) + d
     \<and> distinct (map fst (ta_sessions w)) \<and> distinct (map snd (ta_sessions w))
     \<and> (\<forall>n \<in> snd ` set (ta_sessions w). n < ta_next w \<and> n \<in> dom (map_of (ta_objs w)) \<and> n \<notin> set (ta_cancelled w))
     \<and> (\<forall>n \<in> set (ta_cancelled w). n < ta_next w)"

lemma counted_members:
  assumes "counted d w"
  shows "\<forall>n \<in> snd ` set (ta_sessions w). n < ta_next w \<and> n \<in> dom (map_of (ta_objs w)) \<and> n \<notin> set (ta_cancelled w)"
    and "\<forall>n \<in> set (ta_cancelled w). n < ta_next w"
  using assms unfolding counted_def by blast+

lemma counted_same: "same_sessions w w' \<Longrightarrow> counted d w \<Longrightarrow> counted d w'"
  by (simp add: counted_def same_sessions_def)

lemma counted_load:
  assumes "counted d w" and "map_of (ta_sessions w) k = Some n"
  shows "\<exists>s. load_session k w = Some (n, s)"
proof -
  have "n \<in> snd ` set (ta_sessions w)" using map_of_SomeD [OF assms(2)] by force
  then have "n \<in> dom (map_of (ta_objs w))" using assms(1) unfolding counted_def by blast
  then show ?thesis using assms(2) by (auto simp: load_session_def)
qed

lemma counted_absent: "counted d w \<Longrightarrow> load_session k w = None \<Longrightarrow> k \<notin> fst ` set (ta_sessions w)"
  using counted_load [of d w k] by (cases "map_of (ta_sessions w) k") (auto simp: map_of_eq_None_iff)

lemma counted_forget:
  assumes "counted d w" and "ta_sessions w' = AList.delete k (ta_sessions w)" and "map_of (ta_sessions w) k = Some n"
    and "ta_gauge w' = ta_gauge w - 1" and "ta_next w' = ta_next w" and "ta_objs w' = ta_objs w"
    and "set (ta_cancelled w') \<subseteq> insert n (set (ta_cancelled w))"
  shows "counted d w'"
proof -
  have c: "distinct (map fst (ta_sessions w))" "distinct (map snd (ta_sessions w))"
    using assms(1) by (simp_all add: counted_def)
  have n: "n \<in> snd ` set (ta_sessions w)" using map_of_SomeD [OF assms(3)] by force
  have fresh: "n \<notin> snd ` set (ta_sessions w')" using delete_values [OF c(2) assms(3)] assms(2) by simp
  have sub: "snd ` set (ta_sessions w') \<subseteq> snd ` set (ta_sessions w)" using assms(2) by (auto simp: set_delete_key)
  have old: "\<forall>x \<in> snd ` set (ta_sessions w). x < ta_next w \<and> x \<in> dom (map_of (ta_objs w)) \<and> x \<notin> set (ta_cancelled w)"
    "\<forall>x \<in> set (ta_cancelled w). x < ta_next w"
    using assms(1) unfolding counted_def by blast+
  have "\<forall>x \<in> snd ` set (ta_sessions w'). x < ta_next w' \<and> x \<in> dom (map_of (ta_objs w')) \<and> x \<notin> set (ta_cancelled w')"
    unfolding assms(5,6) using fresh sub old(1) assms(7) by blast
  moreover have "\<forall>x \<in> set (ta_cancelled w'). x < ta_next w'"
    unfolding assms(5) using old n assms(7) by blast
  moreover have "ta_gauge w' = int (length (ta_sessions w')) + d"
    using assms(1,4) length_delete_key [OF c(1) assms(3)] assms(2) by (simp add: counted_def)
  moreover have "distinct (map fst (ta_sessions w'))" "distinct (map snd (ta_sessions w'))"
    using c assms(2) by (simp_all add: distinct_delete distinct_delete_values)
  ultimately show ?thesis unfolding counted_def by blast
qed

lemma counted_stop_finish:
  assumes "counted d w" and "map_of (ta_sessions w) k = Some n"
  shows "counted d (stop_finish e k n s w)"
  by (rule counted_forget [OF assms(1) _ assms(2)]) (use assms(2) in \<open>simp_all add: stop_finish_def forget_session_def\<close>)

lemma counted_StopSession: "counted d w \<Longrightarrow> counted d (StopSession e u r w)"
  using counted_stop_finish by (auto simp: StopSession_def split: option.split dest!: load_session_facts)

lemma start_begin_same: "start_begin e u r p w = (Some x, w') \<Longrightarrow> same_sessions w w'"
  by (auto simp: start_begin_def Let_def split: option.splits if_splits sum.splits)

lemma counted_start_begin:
  assumes "counted d w" and "start_begin e u r p w = (None, w')"
  shows "counted d w' \<and> sessionKey u r \<notin> fst ` set (ta_sessions w')"
proof (cases "load_session (sessionKey u r) w")
  case None
  then show ?thesis using assms counted_absent by (auto simp: start_begin_def Let_def)
next
  case (Some x)
  obtain n s where x: "x = (n, s)" by fastforce
  let ?w = "drop_chan s (w\<lparr>ta_sessions := AList.delete (sessionKey u r) (ta_sessions w), ta_gauge := ta_gauge w - 1\<rparr>)"
  have w': "w' = ?w" using assms(2) Some x by (auto simp: start_begin_def Let_def split: if_splits sum.splits)
  have k: "map_of (ta_sessions w) (sessionKey u r) = Some n" using load_session_facts Some x by blast
  have "counted d ?w" by (rule counted_forget [OF assms(1) _ k]) auto
  then show ?thesis using w' by (auto simp: set_delete_key)
qed

text \<open>What the second step of a start leaves.\<close>

lemma start_finish_failed:
  assumes "start_finish e u r p as w = (x, w')" and "\<And>y. x \<noteq> Some (Inr y)"
  shows "w' = w"
  using assms by (auto simp: start_finish_def split: sum.splits option.splits prod.splits)

lemma start_finish_ok:
  assumes "start_finish e u r p as w = (Some (Inr y), w')"
  shows "\<exists>m t demo q rm cs. y = (ta_next w, m) \<and> w' = open_session e u r t demo q rm (w\<lparr>ta_chans := cs @ ta_chans w\<rparr>)"
  using assms unfolding start_finish_def by (auto split: sum.splits option.splits prod.splits) blast+

lemma open_session_facts:
  "ta_sessions (open_session e u r t demo q rm w) = AList.update (sessionKey u r) (ta_next w) (ta_sessions w)"
  "ta_gauge (open_session e u r t demo q rm w) = ta_gauge w + 1" "ta_next (open_session e u r t demo q rm w) = Suc (ta_next w)"
  "ta_cancelled (open_session e u r t demo q rm w) = ta_cancelled w"
  "dom (map_of (ta_objs (open_session e u r t demo q rm w))) = insert (ta_next w) (dom (map_of (ta_objs w)))"
  "ta_started (open_session e u r t demo q rm w) = ta_started w @ [ta_next w]"
  by (auto simp: open_session_def Let_def)

lemma counted_open:
  assumes "counted d w" and "sessionKey u r \<notin> fst ` set (ta_sessions w)"
  shows "counted d (open_session e u r t demo q rm w)"
proof -
  have "ta_next w \<notin> snd ` set (ta_sessions w)" "ta_next w \<notin> set (ta_cancelled w)"
    using assms(1) by (auto simp: counted_def)
  then show ?thesis
    using assms unfolding counted_def open_session_facts update_new [OF assms(2)] by (auto simp: less_Suc_eq)
qed

lemma counted_start_finish:
  assumes "counted d w" and "start_finish e u r p as w = (x, w')" and "sessionKey u r \<notin> fst ` set (ta_sessions w)"
  shows "counted d w'"
proof (cases "\<exists>y. x = Some (Inr y)")
  case True
  then obtain y where y: "x = Some (Inr y)" by blast
  obtain m t demo q rm cs where "w' = open_session e u r t demo q rm (w\<lparr>ta_chans := cs @ ta_chans w\<rparr>)"
    using start_finish_ok [OF assms(2) [unfolded y]] by blast
  then show ?thesis using counted_open [OF counted_same [OF quiet_updates(1) assms(1)]] assms(3) by simp
next
  case False
  then show ?thesis using start_finish_failed [OF assms(2)] assms(1) by blast
qed

lemma counted_StartSession: "counted d w \<Longrightarrow> counted d (snd (StartSession e u r p as w))"
proof -
  assume c: "counted d w"
  obtain x w1 where b: "start_begin e u r p w = (x, w1)" by fastforce
  show ?thesis
  proof (cases x)
    case None
    obtain y w2 where f: "start_finish e u r p as w1 = (y, w2)" by fastforce
    have "counted d w1" "sessionKey u r \<notin> fst ` set (ta_sessions w1)" using counted_start_begin [OF c b [unfolded None]] by simp_all
    then have "counted d w2" using counted_start_finish f by blast
    then show ?thesis using b None f by (simp add: StartSession_def)
  next
    case (Some y)
    then show ?thesis using counted_same [OF start_begin_same c] b by (simp add: StartSession_def)
  qed
qed

lemma use_same:
  "same_sessions w (snd (SendMessage e u r m w))" "same_sessions w (snd (GetChannel u r w))"
  "same_sessions w (snd (GetAnswer e u r w))"
  by (auto simp: SendMessage_def GetChannel_def GetAnswer_def Let_def split: option.split prod.split
      intro: same_trans [OF touch_same quiet_updates(1)])

lemma cleanup_one_cases:
  "cleanup_one e t (k, n) w = (case map_of (ta_objs w) n of None \<Rightarrow> w
     | Some s \<Rightarrow> if xt_ttl e < t - ts_LastUsedAt s then end_session e n s (forget_session k w) else w)"
  by (simp add: cleanup_one_def)

lemma counted_cleanup_one:
  assumes "counted d w" and "kn \<in> set (ta_sessions w)"
  shows "counted d (cleanup_one e t kn w)"
proof -
  obtain k n where kn: "kn = (k, n)" by fastforce
  have "map_of (ta_sessions w) k = Some n"
    using assms kn by (intro map_of_is_SomeI) (simp_all add: counted_def)
  then show ?thesis
    unfolding kn cleanup_one_cases
    by (auto split: option.split intro!: counted_forget [OF assms(1), of _ k n] assms(1) simp: forget_session_def)
qed

definition idle :: "('ch, 'm) api_env \<Rightarrow> int \<Rightarrow> (nat \<times> test_session) list \<Rightarrow> string \<times> nat \<Rightarrow> bool" where
  "idle e t os kn = (case map_of os (snd kn) of None \<Rightarrow> False | Some s \<Rightarrow> xt_ttl e < t - ts_LastUsedAt s)"

lemma cleanup_one_effect:
  "ta_objs (cleanup_one e t kn w) = ta_objs w" "now (cleanup_one e t kn w) = now w"
  "ta_sessions (cleanup_one e t kn w) = (if idle e t (ta_objs w) kn then AList.delete (fst kn) (ta_sessions w) else ta_sessions w)"
  "ta_cancelled (cleanup_one e t kn w) = (if idle e t (ta_objs w) kn then snd kn # ta_cancelled w else ta_cancelled w)"
  by (cases kn; auto simp: cleanup_one_cases idle_def split: option.split)+

text \<open>The pass visits each stored session once; those it has not yet visited are still stored.\<close>

lemma cleanup_fold:
  assumes "counted d w" and "distinct (map fst kns)" and "set kns \<subseteq> set (ta_sessions w)"
  shows "counted d (fold (cleanup_one e t) kns w)
    \<and> set (ta_sessions (fold (cleanup_one e t) kns w)) = {x \<in> set (ta_sessions w). \<not> (x \<in> set kns \<and> idle e t (ta_objs w) x)}
    \<and> set (ta_cancelled (fold (cleanup_one e t) kns w))
      = set (ta_cancelled w) \<union> {n. \<exists>k. (k, n) \<in> set kns \<and> idle e t (ta_objs w) (k, n)}
    \<and> ta_objs (fold (cleanup_one e t) kns w) = ta_objs w"
  using assms
proof (induction kns arbitrary: w)
  case (Cons kn kns)
  let ?w = "cleanup_one e t kn w"
  have d: "distinct (map fst (ta_sessions w))" using Cons.prems(1) by (simp add: counted_def)
  have del: "set (AList.delete (fst kn) (ta_sessions w)) = set (ta_sessions w) - {kn}"
    using Cons.prems(3) eq_key_imp_eq_value [OF d] by (auto simp: set_delete_key) (metis prod.collapse)+
  have "kn \<notin> set kns" using Cons.prems(2) by force
  then have "set kns \<subseteq> set (ta_sessions ?w)" using Cons.prems(3) del by (auto simp: cleanup_one_effect)
  from Cons.IH [OF counted_cleanup_one [OF Cons.prems(1)] _ this] Cons.prems(2,3) del \<open>kn \<notin> set kns\<close>
  show ?case
    by (cases kn) (auto simp: cleanup_one_effect)
qed auto

lemma cleanup_facts:
  assumes "counted d w"
  shows "counted d (cleanup e w)"
    "set (ta_sessions (cleanup e w)) = {x \<in> set (ta_sessions w). \<not> idle e (now w) (ta_objs w) x}"
    "set (ta_cancelled (cleanup e w)) = set (ta_cancelled w) \<union> {n. \<exists>k. (k, n) \<in> set (ta_sessions w) \<and> idle e (now w) (ta_objs w) (k, n)}"
    "ta_objs (cleanup e w) = ta_objs w"
proof -
  have "distinct (map fst (ta_sessions w))" using assms by (simp add: counted_def)
  note f = cleanup_fold [OF assms this subset_refl, of e "now w", folded cleanup_def]
  show "counted d (cleanup e w)" "ta_objs (cleanup e w) = ta_objs w" using f by simp_all
  show "set (ta_sessions (cleanup e w)) = {x \<in> set (ta_sessions w). \<not> idle e (now w) (ta_objs w) x}"
    using conjunct1 [OF conjunct2 [OF f]] by auto
  show "set (ta_cancelled (cleanup e w)) = set (ta_cancelled w) \<union> {n. \<exists>k. (k, n) \<in> set (ta_sessions w) \<and> idle e (now w) (ta_objs w) (k, n)}"
    using conjunct1 [OF conjunct2 [OF conjunct2 [OF f]]] .
qed

theorem counted_op: "api_op e w w' \<Longrightarrow> counted d w \<Longrightarrow> counted d w'"
proof (induction rule: api_op.induct)
  case (start w u r p as)
  then show ?case by (rule counted_StartSession)
next
  case (stop w u r)
  then show ?case by (rule counted_StopSession)
next
  case (clean w)
  then show ?case by (rule cleanup_facts(1))
next
  case (send w u r m)
  then show ?case by (rule counted_same [OF use_same(1)])
next
  case (channel w u r)
  then show ?case by (rule counted_same [OF use_same(2)])
next
  case (answer w u r)
  then show ?case by (rule counted_same [OF use_same(3)])
next
  case (time w t)
  from time(2) show ?case by (rule counted_same [OF quiet_updates(3)])
qed

lemma counted_run: "(api_op e)\<^sup>*\<^sup>* w w' \<Longrightarrow> counted d w \<Longrightarrow> counted d w'"
  by (induction rule: rtranclp_induct) (use counted_op in blast)+

section \<open>Sequential runs\<close>

definition no_sessions :: "'a api_st \<Rightarrow> bool" where
  "no_sessions w \<longleftrightarrow> ta_sessions w = [] \<and> ta_gauge w = 0 \<and> ta_cancelled w = []"

lemma counted_reach: "no_sessions w0 \<Longrightarrow> (api_op e)\<^sup>*\<^sup>* w0 w \<Longrightarrow> counted 0 w"
  by (rule counted_run) (auto simp: counted_def no_sessions_def)

text \<open>C34: As long as the operations on test sessions do not overlap the metric shows the number of sessions, and the
  context of no stored session has been cancelled.\<close>
theorem sessions_are_counted:
  assumes "no_sessions w0" and "(api_op e)\<^sup>*\<^sup>* w0 w"
  shows "ta_gauge w = int (GetSessionsCount w) \<and> (\<forall>k n. map_of (ta_sessions w) k = Some n \<longrightarrow> n \<notin> set (ta_cancelled w))"
proof -
  note c = counted_reach [OF assms]
  have "n \<notin> set (ta_cancelled w)" if "map_of (ta_sessions w) k = Some n" for k n
    using c map_of_SomeD [OF that] unfolding counted_def by force
  then show ?thesis using c by (simp add: counted_def GetSessionsCount_def)
qed

lemma sessionKey_inj: "sessionKey u r = sessionKey u' r' \<longleftrightarrow> u = u' \<and> r = r'"
proof
  assume "sessionKey u r = sessionKey u' r'"
  then show "u = u' \<and> r = r'"
    using show_nat_sep_inj [of "unat u" "CHR '':''" "show_nat (unat r)" "unat u'" "show_nat (unat r')"]
    by (simp add: sessionKey_def show_uid_def show_nat_inj is_digit_def word_unat_eq_iff)
qed simp

text \<open>New channels are open, as \<open>model.Ch\<close> documents.\<close>

definition good_chan :: "('ch, 'm) api_env \<Rightarrow> bool" where
  "good_chan e \<longleftrightarrow> (\<forall>u t. xt_tx_open e (xt_new e u t) \<and> xt_rx_open e (xt_new e u t))"

lemma open_session_open:
  assumes "good_chan e"
  shows "\<exists>s. load_session (sessionKey u r) (open_session e u r t demo q rm w) = Some (ta_next w, s)
    \<and> is_open e (open_session e u r t demo q rm w) (ts_Channel s)"
  using assms
  by (auto simp: open_session_def Let_def load_session_def update_conv' is_open_def good_chan_def split: option.splits if_splits)

lemma begin_keeps_others:
  assumes "start_begin e u r p w = (x, w')" and "k \<noteq> sessionKey u r"
  shows "map_of (ta_sessions w') k = map_of (ta_sessions w) k"
  using assms by (auto simp: start_begin_def Let_def split: option.splits if_splits sum.splits)

lemma finish_keeps_others:
  assumes "start_finish e u r p as w = (x, w')" and "k \<noteq> sessionKey u r"
  shows "map_of (ta_sessions w') k = map_of (ta_sessions w) k"
proof (cases "\<exists>y. x = Some (Inr y)")
  case True
  then obtain y where "x = Some (Inr y)" by blast
  then show ?thesis using start_finish_ok assms by (fastforce simp: open_session_facts update_conv')
next
  case False
  then show ?thesis using start_finish_failed [OF assms(1)] by blast
qed

lemma reused_session:
  assumes "start_begin e u r p w = (Some (Inr (n, m)), w')"
  shows "\<exists>s. load_session (sessionKey u r) w' = Some (n, s) \<and> is_open e w' (ts_Channel s)"
proof -
  obtain s where s: "load_session (sessionKey u r) w = Some (n, s)" "is_open e w (ts_Channel s)" "w' = touch n w"
    using assms by (auto simp: start_begin_def Let_def split: option.splits if_splits sum.splits)
  then have "load_session (sessionKey u r) w' = Some (n, s\<lparr>ts_LastUsedAt := now w\<rparr>)"
    by (auto simp: load_session_def touch_def AList.map_of_map_entry split: bind_splits)
  then show ?thesis using s by (simp add: is_open_def)
qed

lemma StartSession_loaded:
  assumes "good_chan e" and "StartSession e u r p as w = (Some (Inr (n, m)), w')"
  shows "\<exists>s. load_session (sessionKey u r) w' = Some (n, s) \<and> is_open e w' (ts_Channel s)"
proof -
  obtain x w1 where b: "start_begin e u r p w = (x, w1)" by fastforce
  show ?thesis
  proof (cases x)
    case None
    then have "start_finish e u r p as w1 = (Some (Inr (n, m)), w')" using assms(2) b by (simp add: StartSession_def)
    from start_finish_ok [OF this] obtain t demo q rm cs
      where "n = ta_next w1" "w' = open_session e u r t demo q rm (w1\<lparr>ta_chans := cs @ ta_chans w1\<rparr>)" by blast
    then show ?thesis using open_session_open [OF assms(1), of u r t demo q rm "w1\<lparr>ta_chans := cs @ ta_chans w1\<rparr>"] by simp
  next
    case (Some y)
    then show ?thesis using assms(2) b reused_session by (simp add: StartSession_def)
  qed
qed

lemma StartSession_others:
  assumes "k \<noteq> sessionKey u r"
  shows "map_of (ta_sessions (snd (StartSession e u r p as w))) k = map_of (ta_sessions w) k"
proof -
  obtain x w1 where b: "start_begin e u r p w = (x, w1)" by fastforce
  obtain y w2 where f: "start_finish e u r p as w1 = (y, w2)" by fastforce
  show ?thesis
    using begin_keeps_others [OF b assms] finish_keeps_others [OF f assms] b f by (cases x) (simp_all add: StartSession_def)
qed

text \<open>A session that was started, or found, can be used at once: its channel is the one handed to the WebSocket and is
  open both ways, its context is not cancelled, and the sessions of everyone else are untouched.\<close>
theorem started_session_is_usable:
  assumes "good_chan e" and "no_sessions w0" and "(api_op e)\<^sup>*\<^sup>* w0 w"
    and "StartSession e u r p as w = (Some (Inr (n, m)), w')"
  shows "(\<exists>c. fst (GetChannel u r w') = Inr c \<and> is_open e w' c) \<and> n \<notin> set (ta_cancelled w')
    \<and> (\<forall>u' r'. (u', r') \<noteq> (u, r) \<longrightarrow> map_of (ta_sessions w') (sessionKey u' r') = map_of (ta_sessions w) (sessionKey u' r'))"
proof -
  obtain s where s: "load_session (sessionKey u r) w' = Some (n, s)" "is_open e w' (ts_Channel s)"
    using StartSession_loaded [OF assms(1,4)] by blast
  have "counted 0 w'" using counted_StartSession [OF counted_reach [OF assms(2,3)], of e u r p as] assms(4) by simp
  moreover have "n \<in> snd ` set (ta_sessions w')" using load_session_facts [OF s(1)] map_of_SomeD by force
  ultimately have "n \<notin> set (ta_cancelled w')" unfolding counted_def by blast
  moreover have "map_of (ta_sessions w') (sessionKey u' r') = map_of (ta_sessions w) (sessionKey u' r')" if "(u', r') \<noteq> (u, r)" for u' r'
    using StartSession_others [of "sessionKey u' r'" u r e p as w] that assms(4) by (auto simp: sessionKey_inj)
  ultimately show ?thesis using s by (simp add: GetChannel_def)
qed

text \<open>The clean-up a WebSocket leaves behind ends whatever session is stored by then.\<close>

lemma late_cleanup_stops_new_session:
  assumes "good_chan e" and "StartSession e u r p as w = (Some (Inr (n, m)), w')" and "w'' = CleanupWebSocketSession e u r w'"
  shows "n \<in> set (ta_cancelled w'') \<and> fst (GetChannel u r w'') = Inl no_session"
proof -
  obtain s where s: "load_session (sessionKey u r) w' = Some (n, s)" using StartSession_loaded [OF assms(1,2)] by blast
  have "map_of (AList.delete (sessionKey u r) (ta_sessions w')) (sessionKey u r) = None" by (simp add: delete_conv')
  then show ?thesis
    using s by (simp add: assms(3) CleanupWebSocketSession_def StopSession_def stop_finish_def GetChannel_def load_session_def)
qed

text \<open>C39: One pass of the clean-up ends exactly the sessions that nobody has used for longer than their life: they are
  removed and their contexts cancelled, all others stay.\<close>
theorem cleanup_ends_idle_sessions:
  assumes "no_sessions w0" and "(api_op e)\<^sup>*\<^sup>* w0 w" and "map_of (ta_sessions w) k = Some n" and "map_of (ta_objs w) n = Some s"
  shows "if now w - ts_LastUsedAt s \<le> xt_ttl e
    then map_of (ta_sessions (cleanup e w)) k = Some n \<and> n \<notin> set (ta_cancelled (cleanup e w))
    else map_of (ta_sessions (cleanup e w)) k = None \<and> n \<in> set (ta_cancelled (cleanup e w))"
proof -
  note c = counted_reach [OF assms(1,2)]
  note f = cleanup_facts [OF c, of e]
  have d: "distinct (map fst (ta_sessions (cleanup e w)))" "distinct (map fst (ta_sessions w))"
    using c f(1) by (simp_all add: counted_def)
  have k: "(k, n) \<in> set (ta_sessions w)" using map_of_SomeD [OF assms(3)] .
  have i: "idle e (now w) (ta_objs w) (k, n) \<longleftrightarrow> \<not> now w - ts_LastUsedAt s \<le> xt_ttl e" using assms(4) by (auto simp: idle_def)
  show ?thesis
  proof (cases "now w - ts_LastUsedAt s \<le> xt_ttl e")
    case True
    then have m: "(k, n) \<in> set (ta_sessions (cleanup e w))" using k i f(2) by simp
    then have "n \<notin> set (ta_cancelled (cleanup e w))" using f(1) unfolding counted_def by force
    then show ?thesis using True map_of_is_SomeI [OF d(1) m] by simp
  next
    case False
    have "map_of (ta_sessions (cleanup e w)) k = None"
    proof (rule ccontr)
      assume "map_of (ta_sessions (cleanup e w)) k \<noteq> None"
      then obtain n' where "(k, n') \<in> set (ta_sessions (cleanup e w))" using map_of_SomeD by fastforce
      then have "(k, n') \<in> set (ta_sessions w)" "\<not> idle e (now w) (ta_objs w) (k, n')" using f(2) by auto
      then show False using eq_key_imp_eq_value [OF d(2) k] False i by blast
    qed
    then show ?thesis using False f(3) k i by auto
  qed
qed

section \<open>Starts that overlap\<close>

lemma distinct_update_values:
  "distinct (map snd xs) \<Longrightarrow> v \<notin> snd ` set xs \<Longrightarrow> distinct (map snd (AList.update k v xs)) \<and> snd ` set (AList.update k v xs) \<subseteq> insert v (snd ` set xs)"
  by (induction xs) auto

lemma length_update_key: "k \<in> fst ` set xs \<Longrightarrow> length (AList.update k v xs) = length xs"
  by (induction xs) auto

lemma counted_reopen:
  assumes "counted d w" and "sessionKey u r \<in> fst ` set (ta_sessions w)"
  shows "counted (d + 1) (open_session e u r t demo q rm w)"
proof -
  note m = counted_members [OF assms(1)]
  have d: "distinct (map fst (ta_sessions w))" "distinct (map snd (ta_sessions w))"
    "ta_gauge w = int (length (ta_sessions w)) + d" using assms(1) by (simp_all add: counted_def)
  have fresh: "ta_next w \<notin> set (ta_cancelled w)" using m(2) less_irrefl by metis
  have "ta_next w \<notin> snd ` set (ta_sessions w)" using m(1) less_irrefl by metis
  note v = distinct_update_values [OF d(2) this, of "sessionKey u r"]
  have "x < Suc (ta_next w) \<and> x \<in> insert (ta_next w) (dom (map_of (ta_objs w))) \<and> x \<notin> set (ta_cancelled w)"
    if "x \<in> snd ` set (AList.update (sessionKey u r) (ta_next w) (ta_sessions w))" for x
  proof (cases "x = ta_next w")
    case True
    then show ?thesis using fresh by simp
  next
    case False
    moreover have "x \<in> insert (ta_next w) (snd ` set (ta_sessions w))" by (rule subsetD [OF conjunct2 [OF v] that])
    ultimately have "x \<in> snd ` set (ta_sessions w)" by simp
    then show ?thesis using bspec [OF m(1)] by (simp add: less_SucI)
  qed
  then have "\<forall>x \<in> snd ` set (AList.update (sessionKey u r) (ta_next w) (ta_sessions w)). x < Suc (ta_next w)
      \<and> x \<in> insert (ta_next w) (dom (map_of (ta_objs w))) \<and> x \<notin> set (ta_cancelled w)" by (intro ballI)
  moreover have "\<forall>x \<in> set (ta_cancelled w). x < Suc (ta_next w)" using m(2) less_SucI by blast
  ultimately show ?thesis
    unfolding counted_def open_session_facts length_update_key [OF assms(2)]
    using v d(3) distinct_update [OF d(1)] by (elim conjE, intro conjI) (assumption | simp only: of_nat_Suc)+
qed

text \<open>Operations cancel stored sessions only, and store new ones only.\<close>

definition grows :: "'a api_st \<Rightarrow> 'a api_st \<Rightarrow> bool" where
  "grows w w' \<longleftrightarrow> ta_next w \<le> ta_next w' \<and> snd ` set (ta_sessions w') \<subseteq> snd ` set (ta_sessions w) \<union> {ta_next w ..}
     \<and> set (ta_cancelled w') \<subseteq> set (ta_cancelled w) \<union> snd ` set (ta_sessions w)"

lemma grows_same: "same_sessions w w' \<Longrightarrow> grows w w'"
  by (auto simp: grows_def same_sessions_def)

lemma update_values: "snd ` set (AList.update k v xs) \<subseteq> insert v (snd ` set xs)"
  by (induction xs) auto

lemma grows_open: "grows w (open_session e u r t demo q rm (w\<lparr>ta_chans := cs\<rparr>))"
  using update_values [of "sessionKey u r" "ta_next w" "ta_sessions w"] by (auto simp: grows_def open_session_facts)

lemma grows_finish: "start_finish e u r p as w = (x, w') \<Longrightarrow> grows w w'"
proof (cases "\<exists>y. x = Some (Inr y)")
  case True
  assume f: "start_finish e u r p as w = (x, w')"
  obtain y where "x = Some (Inr y)" using True by blast
  then show ?thesis using start_finish_ok f grows_open by blast
next
  case False
  assume "start_finish e u r p as w = (x, w')"
  then have "w' = w" by (rule start_finish_failed) (use False in blast)
  then show ?thesis using grows_same same_refl by blast
qed

lemma begin_shrinks:
  assumes "start_begin e u r p w = (x, w')"
  shows "ta_next w' = ta_next w \<and> snd ` set (ta_sessions w') \<subseteq> snd ` set (ta_sessions w) \<and> ta_cancelled w' = ta_cancelled w"
proof (cases x)
  case None
  then have "w' = w \<or> (\<exists>s. w' = drop_chan s (w\<lparr>ta_sessions := AList.delete (sessionKey u r) (ta_sessions w), ta_gauge := ta_gauge w - 1\<rparr>))"
    using assms by (auto simp: start_begin_def Let_def split: option.splits if_splits sum.splits)
  then show ?thesis by (elim disjE exE) (simp_all add: delete_subset)
next
  case (Some y)
  then show ?thesis using start_begin_same [of e u r p w y w'] assms by (simp add: same_sessions_def)
qed

lemma grows_StartSession: "grows w (snd (StartSession e u r p as w))"
proof -
  obtain x w1 where b: "start_begin e u r p w = (x, w1)" by fastforce
  obtain y w2 where f: "start_finish e u r p as w1 = (y, w2)" by fastforce
  note s = begin_shrinks [OF b] and g = grows_finish [OF f, unfolded grows_def]
  have "grows w w1" using s by (auto simp: grows_def)
  moreover have "grows w w2"
    unfolding grows_def
  proof (intro conjI)
    show "ta_next w \<le> ta_next w2" using s g by simp
    have "snd ` set (ta_sessions w2) \<subseteq> snd ` set (ta_sessions w1) \<union> {ta_next w ..}" using s g by simp
    also have "\<dots> \<subseteq> snd ` set (ta_sessions w) \<union> {ta_next w ..}" using s by (intro Un_mono) simp_all
    finally show "snd ` set (ta_sessions w2) \<subseteq> snd ` set (ta_sessions w) \<union> {ta_next w ..}" .
    have "set (ta_cancelled w2) \<subseteq> set (ta_cancelled w) \<union> snd ` set (ta_sessions w1)" using s g by simp
    also have "\<dots> \<subseteq> set (ta_cancelled w) \<union> snd ` set (ta_sessions w)" using s by (intro Un_mono) simp_all
    finally show "set (ta_cancelled w2) \<subseteq> set (ta_cancelled w) \<union> snd ` set (ta_sessions w)" .
  qed
  ultimately show ?thesis using b f by (cases x) (simp_all add: StartSession_def)
qed

lemma grows_StopSession: "grows w (StopSession e u r w)"
proof (cases "load_session (sessionKey u r) w")
  case None
  then show ?thesis by (simp add: StopSession_def grows_same)
next
  case (Some x)
  obtain n s where x: "x = (n, s)" by fastforce
  have "n \<in> snd ` set (ta_sessions w)" using load_session_facts Some x map_of_SomeD by force
  then show ?thesis using Some x by (auto simp: StopSession_def stop_finish_def grows_def set_delete_key)
qed

lemma grows_cleanup: "counted d w \<Longrightarrow> grows w (cleanup e w)"
proof -
  assume c: "counted d w"
  have "ta_next (fold (cleanup_one e t) kns v) = ta_next v" for t kns v
    by (induction kns arbitrary: v) (auto simp: cleanup_one_cases split: option.split)
  then have "ta_next (cleanup e w) = ta_next w" by (simp add: cleanup_def)
  then show ?thesis using cleanup_facts [OF c, of e] by (force simp: grows_def)
qed

lemma grows_op: "api_op e w w' \<Longrightarrow> counted d w \<Longrightarrow> grows w w'"
proof (induction rule: api_op.induct)
  case (start w u r p as)
  show ?case by (rule grows_StartSession)
next
  case (stop w u r)
  show ?case by (rule grows_StopSession)
next
  case (clean w)
  then show ?case by (rule grows_cleanup)
next
  case (time w t)
  show ?case by (rule grows_same) simp
qed (rule grows_same, rule use_same)+

lemma lost_for_good:
  assumes "(api_op e)\<^sup>*\<^sup>* w w'" and "counted d w" and "n < ta_next w" and "n \<notin> set (ta_cancelled w)" and "n \<notin> snd ` set (ta_sessions w)"
  shows "n < ta_next w' \<and> n \<notin> set (ta_cancelled w') \<and> n \<notin> snd ` set (ta_sessions w')"
  using assms(1)
proof (induction rule: rtranclp_induct)
  case base
  show ?case using assms(3-5) by blast
next
  case (step w1 w2)
  have "grows w1 w2" using grows_op [OF step.hyps(2)] counted_run [OF step.hyps(1) assms(2)] by blast
  then show ?case using step.IH unfolding grows_def by (meson Un_iff atLeast_iff leD le_less_trans less_le_trans subsetD)
qed

text \<open>C33: Two starts for the same visitor that overlap, a reload of the page for instance, leave a session that nothing
  ever ends: it has been handed to the core and is stored nowhere, its context is cancelled by no later operation, and
  the metric stays one too high for good.\<close>
theorem overlapping_starts_leak:
  assumes "no_sessions w0" and "(api_op e)\<^sup>*\<^sup>* w0 w" and "load_session (sessionKey u r) w = None"
    and "start_finish e u r p as w = (Some (Inr (n1, m1)), w1)" and "start_finish e u r p bs w1 = (Some (Inr (n2, m2)), w2)"
  shows "(api_step e)\<^sup>*\<^sup>* (w, []) (w2, []) \<and> n1 \<in> set (ta_started w2)
    \<and> (\<forall>w3. (api_op e)\<^sup>*\<^sup>* w2 w3 \<longrightarrow> n1 \<notin> set (ta_cancelled w3) \<and> n1 \<notin> snd ` set (ta_sessions w3)
         \<and> ta_gauge w3 = int (GetSessionsCount w3) + 1)"
proof -
  let ?k = "sessionKey u r"
  have b: "start_begin e u r p w = (None, w)" using assms(3) by (simp add: start_begin_def)
  have "api_step e (w, []) (w, [Starting u r p])" "api_step e (w, [Starting u r p]) (w, [Starting u r p, Starting u r p])"
    by (rule begin_start [OF b])+
  moreover have "api_step e (w, [Starting u r p, Starting u r p]) (w1, [Starting u r p])" "api_step e (w1, [Starting u r p]) (w2, [])"
    using finish_start [OF assms(4), of "[]"] finish_start [OF assms(5), of "[]" "[]"] by simp_all
  ultimately have run: "(api_step e)\<^sup>*\<^sup>* (w, []) (w2, [])"
    by (meson converse_rtranclp_into_rtranclp rtranclp.rtrancl_refl)
  note c = counted_reach [OF assms(1,2)]
  have k: "?k \<notin> fst ` set (ta_sessions w)" by (rule counted_absent [OF c assms(3)])
  have c1: "counted 0 w1" by (rule counted_start_finish [OF c assms(4) k])
  obtain t1 d1 q1 rm1 cs1 where 1: "n1 = ta_next w" "w1 = open_session e u r t1 d1 q1 rm1 (w\<lparr>ta_chans := cs1 @ ta_chans w\<rparr>)"
    using start_finish_ok [OF assms(4)] by blast
  obtain t2 d2 q2 rm2 cs2 where 2: "w2 = open_session e u r t2 d2 q2 rm2 (w1\<lparr>ta_chans := cs2 @ ta_chans w1\<rparr>)"
    using start_finish_ok [OF assms(5)] by blast
  have s1: "ta_sessions w1 = ta_sessions w @ [(?k, n1)]" "ta_next w1 = Suc n1" "ta_cancelled w1 = ta_cancelled w"
    "ta_started w1 = ta_started w @ [n1]"
    using 1 update_new [OF k] by (simp_all add: open_session_facts)
  have upd: "AList.update k v (xs @ [(k, n)]) = xs @ [(k, v)]" if "k \<notin> fst ` set xs" for k :: string and v n :: nat and xs
    using that by (induction xs) auto
  have s2: "ta_sessions w2 = ta_sessions w @ [(?k, Suc n1)]" "ta_next w2 = Suc (Suc n1)" "ta_cancelled w2 = ta_cancelled w"
    "ta_started w2 = ta_started w @ [n1, Suc n1]"
    using 2 s1 upd [OF k] by (simp_all add: open_session_facts)
  have n1: "n1 \<notin> set (ta_cancelled w)" "n1 \<notin> snd ` set (ta_sessions w)"
    using counted_members [OF c] 1(1) by (metis less_irrefl)+
  have "?k \<in> fst ` set (ta_sessions (w1\<lparr>ta_chans := cs2 @ ta_chans w1\<rparr>))" using s1(1) by simp
  from counted_reopen [OF counted_same [OF quiet_updates(1) c1] this] have c2: "counted 1 w2" using 2 by simp
  have "n1 \<notin> set (ta_cancelled w3) \<and> n1 \<notin> snd ` set (ta_sessions w3) \<and> ta_gauge w3 = int (GetSessionsCount w3) + 1"
    if "(api_op e)\<^sup>*\<^sup>* w2 w3" for w3
    using lost_for_good [OF that c2, of n1] counted_run [OF that c2] n1 s2 by (simp add: counted_def GetSessionsCount_def)
  then show ?thesis using run s2 by simp
qed

text \<open>Two starts that both find the same session with a closed channel throw it away twice: the metric falls by two.\<close>

lemma overlapping_discards_count_twice:
  assumes "load_session (sessionKey u r) w = Some (n, s)" and "\<not> is_open e w (ts_Channel s)"
  shows "\<exists>w'. (api_step e)\<^sup>*\<^sup>* (w, []) (w', [Starting u r p, Starting u r p])
    \<and> ta_sessions w' = AList.delete (sessionKey u r) (ta_sessions w) \<and> ta_gauge w' = ta_gauge w - 2"
proof -
  let ?k = "sessionKey u r" and ?d = "Discarding u r p s"
  let ?w1 = "throw_away ?k s w"
  let ?w2 = "throw_away ?k s ?w1"
  have "api_step e (w, []) (w, [?d])" "api_step e (w, [?d]) (w, [?d, ?d])" by (rule found_closed [OF assms])+
  moreover have "api_step e (w, [?d, ?d]) (?w1, [Starting u r p, ?d])" using discarded [of e w "[]"] by simp
  moreover have "api_step e (?w1, [Starting u r p, ?d]) (?w2, [Starting u r p, Starting u r p])"
    using discarded [of e ?w1 "[Starting u r p]" u r p s "[]"] by simp
  ultimately have "(api_step e)\<^sup>*\<^sup>* (w, []) (?w2, [Starting u r p, Starting u r p])"
    by (meson converse_rtranclp_into_rtranclp rtranclp.rtrancl_refl)
  moreover have "ta_sessions ?w2 = AList.delete ?k (ta_sessions w)" "ta_gauge ?w2 = ta_gauge w - 2"
    by (simp_all add: drop_chan_def AList.delete_idem)
  ultimately show ?thesis by blast
qed

section \<open>Voice\<close>

text \<open>The second of the three searches asks the router for the user's provider just as the third does.\<close>

lemma voice_provider_search:
  "getRealtimeProvider x u r w = (case own_provider x u r w of Some p \<Rightarrow> Some p | None \<Rightarrow> xr_user_provider x u)"
  by (simp add: getRealtimeProvider_def split: option.split)

end
