(* ===== verification/TestApiDemo.thy ===== *)
theory TestApiDemo
  imports TestApiProps TestWeb
begin

text \<open>Concrete runs for the properties of the test sessions: a channel is a flag, open or closed.\<close>

definition chatty :: chat_model where
  "chatty = \<lparr>cm_Name = ''m'', cm_Provider = 1, cm_MetaAction = [], cm_Triggers = [], cm_Limit = 10, cm_Wait = 0, cm_Ignore = False,
     cm_flags = [], cm_Realtime = False, cm_Greeting = None\<rparr>"

definition lab :: "(bool, model_message) api_env" where
  "lab = \<lparr>xt_tx_open = (\<lambda>c. c), xt_rx_open = (\<lambda>c. c), xt_close = (\<lambda>c. (None, False)), xt_send = (\<lambda>m c. (None, c)),
     xt_recv = (\<lambda>c. (None, c)), xt_new = (\<lambda>u t. True), xt_model = (\<lambda>t u p. Inr chatty), xt_tread = (\<lambda>t u r. Inr 9),
     xt_record = (\<lambda>t u p. Inr ''asst''), xt_demo = (\<lambda>t u. Inr False),
     xt_resp = (\<lambda>a t r qs. Inr (0, \<lparr>rm_UserID = as_UserID a, rm_Provider = as_Provider a, rm_Ctx = None, rm_Chan = None\<rparr>, [])),
     xt_ttl = 900\<rparr>"

definition idle_lab :: "bool api_st" where
  "idle_lab = \<lparr>now = 0, faults = [], ta_sessions = [], ta_objs = [], ta_chans = [], ta_resps = [], ta_gauge = 0, ta_cancelled = [],
     ta_started = [], ta_next = 0\<rparr>"

definition in_order :: "arrival list" where
  "in_order = [DemoDone, TreadDone, RecordDone]"

definition busy_lab :: "bool api_st" where
  "busy_lab = snd (StartSession lab 7 5 1 in_order idle_lab)"

lemma idle_lab_empty: "no_sessions idle_lab"
  by (simp add: no_sessions_def idle_lab_def)

lemma busy_run: "(api_op lab)\<^sup>*\<^sup>* idle_lab busy_lab"
  unfolding busy_lab_def by (rule r_into_rtranclp) (rule api_op.start)

lemma busy_started: "StartSession lab 7 5 1 in_order idle_lab = (Some (Inr (0, chatty)), busy_lab)"
proof -
  have "fst (StartSession lab 7 5 1 in_order idle_lab) = Some (Inr (0, chatty))" by code_simp
  then show ?thesis by (metis busy_lab_def prod.collapse)
qed

lemma busy_view: "ta_sessions busy_lab = [(''7:5'', 0)]" "ta_gauge busy_lab = 1"
  "map_option ts_LastUsedAt (map_of (ta_objs busy_lab) 0) = Some 0" "now busy_lab = 0"
  by code_simp+

theorem sessions_are_counted_witness:
  "ta_gauge busy_lab = int (GetSessionsCount busy_lab) \<and> GetSessionsCount busy_lab = 1 \<and> 0 \<notin> set (ta_cancelled busy_lab)"
  using sessions_are_counted [OF idle_lab_empty busy_run] by (simp add: busy_view GetSessionsCount_def)

theorem started_session_is_usable_witness:
  "(\<exists>c. fst (GetChannel 7 5 busy_lab) = Inr c \<and> is_open lab busy_lab c) \<and> 0 \<notin> set (ta_cancelled busy_lab)"
proof -
  have "good_chan lab" by (simp add: good_chan_def lab_def)
  from started_session_is_usable [OF this idle_lab_empty rtranclp.rtrancl_refl busy_started] show ?thesis by blast
qed

definition late_lab :: "bool api_st" where
  "late_lab = busy_lab\<lparr>now := 901\<rparr>"

theorem cleanup_ends_idle_sessions_witness:
  "map_of (ta_sessions (cleanup lab late_lab)) ''7:5'' = None \<and> 0 \<in> set (ta_cancelled (cleanup lab late_lab))"
proof -
  have "api_op lab busy_lab late_lab" unfolding late_lab_def by (rule time) (simp add: busy_view)
  with busy_run have run: "(api_op lab)\<^sup>*\<^sup>* idle_lab late_lab" by (rule rtranclp.rtrancl_into_rtrancl)
  obtain s where s: "map_of (ta_objs busy_lab) 0 = Some s" "ts_LastUsedAt s = 0" using busy_view(3) by auto
  show ?thesis
    using cleanup_ends_idle_sessions [OF idle_lab_empty run, of "''7:5''" 0 s] s
    by (simp add: late_lab_def busy_view lab_def)
qed

definition first_lab :: "started option \<times> bool api_st" where
  "first_lab = start_finish lab 7 5 1 in_order idle_lab"

definition second_lab :: "started option \<times> bool api_st" where
  "second_lab = start_finish lab 7 5 1 in_order (snd first_lab)"

theorem overlapping_starts_leak_witness:
  "(api_step lab)\<^sup>*\<^sup>* (idle_lab, []) (snd second_lab, []) \<and> 0 \<notin> set (ta_cancelled (snd second_lab))
   \<and> ta_gauge (snd second_lab) = int (GetSessionsCount (snd second_lab)) + 1"
proof -
  have "fst first_lab = Some (Inr (0, chatty))" "fst second_lab = Some (Inr (1, chatty))" by code_simp+
  then have f: "start_finish lab 7 5 1 in_order idle_lab = (Some (Inr (0, chatty)), snd first_lab)"
    "start_finish lab 7 5 1 in_order (snd first_lab) = (Some (Inr (1, chatty)), snd second_lab)"
    by (metis first_lab_def second_lab_def prod.collapse)+
  have "load_session (sessionKey 7 5) idle_lab = None" by (simp add: load_session_def idle_lab_def)
  note leak = overlapping_starts_leak [OF idle_lab_empty rtranclp.rtrancl_refl this f]
  have "(api_op lab)\<^sup>*\<^sup>* (snd second_lab) (snd second_lab)" by simp
  then show ?thesis using leak by blast
qed

end
