(* ===== verification/TestWebProps.thy ===== *)
theory TestWebProps
  imports TestWeb TestApiDemo
begin

text \<open>
  The loop that answers a test session: what the client is sent are the frames of the model's messages in their order,
  and only a full buffer or a failed write loses any. A lost frame can be the final answer.
\<close>

definition rl_start :: relay_st where
  "rl_start = \<lparr>rl_inbox = [], rl_closed = False, rl_loop = Looping, rl_gone = False, rl_buffer = [], rl_written = [],
     rl_failed = None\<rparr>"

text \<open>The frames let into the buffer so far; those offered while fewer than 2000 were waiting.\<close>

definition let_in :: "relay_st \<Rightarrow> frame list" where
  "let_in s = rl_written s @ (case rl_failed s of None \<Rightarrow> [] | Some f \<Rightarrow> [f]) @ rl_buffer s"

definition fitting :: "(frame \<times> nat) list \<Rightarrow> frame list" where
  "fitting os = map fst (filter (\<lambda>(f, n). n < 2000) os)"

definition own_frames :: "(frame \<times> nat) list \<Rightarrow> frame list" where
  "own_frames os = filter (\<lambda>f. f \<noteq> Ping) (map fst os)"

lemma trace_simps [simp]:
  "fitting [] = []" "fitting (os @ ps) = fitting os @ fitting ps"
  "own_frames [] = []" "own_frames (os @ ps) = own_frames os @ own_frames ps"
  by (simp_all add: fitting_def own_frames_def)

text \<open>The invariant of a run: where every message read and every frame offered is now.\<close>

definition on_the_way :: "('ch) test_web_env \<Rightarrow> model_message list \<Rightarrow> (frame \<times> nat) list \<Rightarrow> relay_st \<Rightarrow> bool" where
  "on_the_way e ms os s \<longleftrightarrow>
     let_in s = fitting os \<and> length (rl_buffer s) \<le> 2000 \<and> length (rl_inbox s) \<le> 2000
     \<and> (\<exists>taken. ms = taken @ rl_inbox s
          \<and> own_frames os = concat (map (frames_of e) taken) @ (if rl_loop s = Told then [closed_notice] else []))"

lemma frames_of_cases: "frames_of e m = [] \<or> (\<exists>j. frames_of e m = [Frame j])"
  by (cases "answer_frame e m") (simp_all add: frames_of_def)

lemma taken_step:
  assumes "on_the_way e ms os s" "rl_inbox s = m # qs" "rl_loop s = Looping"
  shows "on_the_way e ms (os @ map (\<lambda>f. (f, length (rl_buffer s))) (frames_of e m)) (foldr offer_frame (frames_of e m) (s\<lparr>rl_inbox := qs\<rparr>))"
proof -
  obtain taken where t: "ms = (taken @ [m]) @ qs" "own_frames os = concat (map (frames_of e) taken)"
    using assms by (auto simp: on_the_way_def)
  have all: "own_frames os @ frames_of e m = concat (map (frames_of e) (taken @ [m]))" using t(2) by simp
  have w: "let_in s = fitting os" "length (rl_buffer s) \<le> 2000" "length qs \<le> 2000"
    using assms(1,2) by (simp_all add: on_the_way_def)
  from frames_of_cases [of e m] show ?thesis
  proof
    assume n: "frames_of e m = []"
    show ?thesis unfolding on_the_way_def
      using w t(1) all assms(3) n by (simp add: let_in_def)
  next
    assume "\<exists>j. frames_of e m = [Frame j]"
    then obtain j where j: "frames_of e m = [Frame j]" ..
    show ?thesis unfolding on_the_way_def
      using w t(1) all assms(3) j
      by (simp add: let_in_def offer_frame_def send_capacity_def fitting_def own_frames_def)
  qed
qed

lemma relay_step:
  assumes "relay e ev s = Some s'" "on_the_way e ms os s"
  shows "on_the_way e (ms @ answers_read [ev]) (os @ map (\<lambda>f. (f, length (rl_buffer s))) (made e ev s)) s'"
proof (cases "ev = LoopTakes")
  case True
  then obtain m qs where q: "rl_inbox s = m # qs" "rl_loop s = Looping" "s' = foldr offer_frame (frames_of e m) (s\<lparr>rl_inbox := qs\<rparr>)"
    using assms(1) by (auto simp: relay_def split: list.splits if_splits)
  then show ?thesis using taken_step [OF assms(2) q(1,2)] True by (simp add: made_def)
next
  case False
  then show ?thesis using assms
    by (cases ev) (auto simp: relay_def made_def on_the_way_def let_in_def offer_frame_def send_capacity_def inbox_capacity_def
        fitting_def own_frames_def closed_notice_def split: list.splits option.splits if_splits)
qed

lemma received_Cons: "answers_read (ev # evs) = answers_read [ev] @ answers_read evs"
  by simp

lemma relay_run_on_the_way:
  "relay_run e evs s = Some s' \<Longrightarrow> on_the_way e ms os s \<Longrightarrow> on_the_way e (ms @ answers_read evs) (os @ offers e evs s) s'"
proof (induction evs arbitrary: s ms os)
  case (Cons ev evs)
  obtain s1 where s1: "relay e ev s = Some s1" "relay_run e evs s1 = Some s'"
    using Cons.prems(1) by (cases "relay e ev s") auto
  from Cons.IH [OF s1(2) relay_step [OF s1(1) Cons.prems(2)]] show ?case
    by (simp only: received_Cons [of ev evs] offers.simps s1(1) option.case append_assoc)
qed simp

text \<open>C35: Whatever the model answers, however slow the client is and however the three goroutines take turns: the messages
  read are those the main loop has taken, in their order, and then those that wait in the first buffer. The frames written
  to the WebSocket, then the one whose write failed if there is one, then those that wait in the second buffer, are exactly
  the frames that were offered while fewer than 2000 were waiting, in the order in which they were offered, none twice and
  none missing. Pings apart, the frames offered are those of the messages taken and, at the end, the notice that there are
  no more. Neither buffer ever holds more than 2000.\<close>
theorem relay_keeps_order:
  assumes "relay_run e evs rl_start = Some s"
  shows "rl_written s @ (case rl_failed s of None \<Rightarrow> [] | Some f \<Rightarrow> [f]) @ rl_buffer s
      = map fst (filter (\<lambda>(f, n). n < 2000) (offers e evs rl_start))
    \<and> length (rl_buffer s) \<le> 2000 \<and> length (rl_inbox s) \<le> 2000
    \<and> (\<exists>taken. answers_read evs = taken @ rl_inbox s
         \<and> filter (\<lambda>f. f \<noteq> Ping) (map fst (offers e evs rl_start))
           = concat (map (frames_of e) taken) @ (if rl_loop s = Told then [closed_notice] else []))"
proof -
  have "on_the_way e [] [] rl_start" by (simp add: on_the_way_def let_in_def rl_start_def)
  from relay_run_on_the_way [OF assms this] show ?thesis
    by (simp add: on_the_way_def let_in_def fitting_def own_frames_def)
qed

text \<open>When the buffer is full the final answer is dropped like any part of it.\<close>

lemma final_answer_is_dropped:
  assumes "ms_Type m = ''assistant''" and "rl_inbox s = m # ms" and "length (rl_buffer s) = send_capacity" and "rl_loop s = Looping"
  shows "relay e LoopTakes s = Some (s\<lparr>rl_inbox := ms\<rparr>)"
  using assms by (simp add: relay_def frames_of_def answer_frame_def offer_frame_def)

text \<open>
  Once a write has failed and the buffer is full, a main loop that waits to send the last notice waits for ever: nobody
  takes a frame any more, and it does not look whether the client has left.
\<close>

lemma last_notice_hangs:
  assumes "relay_run e evs s = Some s'" and "rl_loop s = Telling" and "rl_failed s \<noteq> None" and "length (rl_buffer s) = send_capacity"
  shows "rl_loop s' = Telling"
  using assms
proof (induction evs arbitrary: s)
  case (Cons ev evs)
  obtain s1 where s1: "relay e ev s = Some s1" "relay_run e evs s1 = Some s'"
    using Cons.prems(1) by (cases "relay e ev s") auto
  have "rl_loop s1 = Telling \<and> rl_failed s1 \<noteq> None \<and> length (rl_buffer s1) = send_capacity"
    using s1(1) Cons.prems(2-4) by (cases ev) (auto simp: relay_def split: list.splits if_splits)
  then show ?case using Cons.IH [OF s1(2)] by blast
qed simp

section \<open>Questions\<close>

text \<open>A question is put into the session of the user and device the token names, or not at all.\<close>

lemma ask_touches_own_session:
  assumes "getUserID c = Some u" and "getRespId c = Some r" and "k \<noteq> sessionKey u r"
  shows "load_session k (snd (testAskHandler e c b w)) = load_session k w
    \<or> (\<exists>n. map_of (ta_sessions w) k = Some n \<and> map_of (ta_sessions w) (sessionKey u r) = Some n)"
proof -
  have touch: "load_session k (touch n v) = load_session k v \<or> map_of (ta_sessions v) k = Some n" for n and v :: "'a api_st"
    by (auto simp: load_session_def touch_def AList.map_of_map_entry split: bind_splits)
  have send: "load_session k (snd (SendMessage (xh_api e) u r m w)) = load_session k w
      \<or> (\<exists>n. map_of (ta_sessions w) k = Some n \<and> map_of (ta_sessions w) (sessionKey u r) = Some n)" for m
  proof (cases "load_session (sessionKey u r) w")
    case (Some x)
    obtain n s where x: "x = (n, s)" by fastforce
    have n: "map_of (ta_sessions w) (sessionKey u r) = Some n" using Some x by (auto simp: load_session_def split: bind_splits)
    have "load_session k (snd (SendMessage (xh_api e) u r m w)) = load_session k (touch n w)"
      using Some x by (simp add: SendMessage_def Let_def load_session_def split: option.split prod.split)
    then show ?thesis using touch [of n w] n by auto
  qed (simp add: SendMessage_def)
  have answer: "snd (case providerErrorResponse e err v of Some h \<Rightarrow> h | None \<Rightarrow> reply_error c' m v) = v" for err c' m and v :: "'a api_st"
    by (cases "xh_provider_err e err") (simp_all add: providerErrorResponse_def case_prod_beta)
  show ?thesis
    using assms send
    by (auto simp: testAskHandler_def answer split: option.split sum.split prod.split) (metis snd_conv)+
qed

definition chat_web :: "bool test_web_env" where
  "chat_web = \<lparr>xh_api = lab, xh_provider_err = (\<lambda>err. None), xh_provider = (\<lambda>s. Some 1), xh_provider_name = (\<lambda>p. ''p''),
     xh_transcribe = (\<lambda>u d t. Inl (Msg ''none'')), xh_object = (\<lambda>s. None)\<rparr>"

definition chat_answer :: "string \<Rightarrow> string \<Rightarrow> model_message" where
  "chat_answer ty text = \<lparr>ms_Type = ty, ms_Message = text, ms_Meta = False, ms_SendFiles = [], ms_Operator = False, ms_Name = [],
     ms_Timestamp = 0, ms_Files = []\<rparr>"

definition chat_events :: "relay_event list" where
  "chat_events = [Received (chat_answer ''assistant_delta'' ''Hel''), LoopTakes, Received (chat_answer ''user'' ''x''), Written, LoopTakes,
     LoopTicks, Received (chat_answer ''assist'' ''Hello''), LoopTakes, Written, WriteFails, AnswersEnd, LoopSeesEnd, LoopTells]"

theorem relay_keeps_order_witness:
  "\<exists>s. relay_run chat_web chat_events rl_start = Some s \<and> length (rl_written s) = 2
     \<and> rl_written s @ (case rl_failed s of None \<Rightarrow> [] | Some f \<Rightarrow> [f]) @ rl_buffer s
       = map fst (filter (\<lambda>(f, n). n < 2000) (offers chat_web chat_events rl_start))"
proof -
  have "\<exists>s. relay_run chat_web chat_events rl_start = Some s \<and> length (rl_written s) = 2"
    by (simp add: chat_events_def relay_def offer_frame_def rl_start_def send_capacity_def inbox_capacity_def frames_of_def
        answer_frame_def chat_answer_def)
  then obtain s where s: "relay_run chat_web chat_events rl_start = Some s" "length (rl_written s) = 2" by blast
  show ?thesis using relay_keeps_order [OF s(1)] s by blast
qed

end
