(* ===== verification/Realtime.thy ===== *)
theory Realtime
  imports TestWeb
begin

text \<open>
  The voice of a test session, \<open>delivery/http/realtime.go\<close>: the goroutine that sends the model's audio and events to the
  client, what the client sends, and the recorder of WAV files. A Go channel is what it holds and whether it is closed;
  reading a closed, empty channel never waits, so emptying one that is closed never ends: the loop is partial.
\<close>

section \<open>Sending\<close>

record 'x go_chan =
  gc_items :: "'x list"
  gc_closed :: bool

text \<open>
  The loop of \<open>flushPlayback\<close>: \<open>None\<close> when it does not end. The channel is what it holds at the start; what the model sends
  while the loop runs is not taken into account.
\<close>

partial_function (option) flush :: "'x go_chan \<Rightarrow> 'x go_chan option" where
  "flush ch =
     (case gc_items ch of
        x # xs \<Rightarrow> flush (ch\<lparr>gc_items := xs\<rparr>)
      | [] \<Rightarrow> if gc_closed ch then flush ch else Some ch)"

record rt_event =
  re_Type :: string
  re_Data :: string
  re_Text :: string

datatype ws_frame = Binary string | TextFrame string | PingFrame

definition audio_stop :: ws_frame where
  "audio_stop = TextFrame ''{\"type\":\"audio_stop\"}''"

text \<open>
  The sender's state: the audio still to come, the counters, what was written. \<open>rs_fails\<close> says which writes fail.
\<close>

record sender =
  se_audio :: "string go_chan"
  se_frames :: nat
  se_bytes :: nat
  se_first :: bool
  se_written :: "ws_frame list"
  se_fails :: "bool list"

definition send_frame :: "ws_frame \<Rightarrow> sender \<Rightarrow> bool \<times> sender" where
  "send_frame f s =
     (case se_fails s of
        True # bs \<Rightarrow> (False, s\<lparr>se_fails := bs\<rparr>)
      | bs \<Rightarrow> (True, s\<lparr>se_written := se_written s @ [f], se_fails := tl bs\<rparr>))"

text \<open>What an event can do: go on, end, or hang.\<close>

datatype outcome = GoOn | Ended | Hangs

definition no_playback :: "sender \<Rightarrow> sender" where
  "no_playback s = s\<lparr>se_frames := 0, se_bytes := 0, se_first := False\<rparr>"

definition flushPlayback :: "sender \<Rightarrow> outcome \<times> sender" where
  "flushPlayback s =
     (case flush (se_audio s) of
        None \<Rightarrow> (Hangs, s)
      | Some ch \<Rightarrow>
          (case send_frame audio_stop (no_playback (s\<lparr>se_audio := ch\<rparr>)) of
             (ok, s) \<Rightarrow> (if ok then GoOn else Ended, s)))"

definition write_or_end :: "ws_frame \<Rightarrow> sender \<Rightarrow> outcome \<times> sender" where
  "write_or_end f s = (case send_frame f s of (ok, s) \<Rightarrow> (if ok then GoOn else Ended, s))"

text \<open>One turn of the loop, for the case that is ready; \<open>marshal\<close> is \<open>model.MarshalRealtimeEvent\<close>.\<close>

datatype ready = AudioReady | EventReady "rt_event option" | DrainReady | TickReady

definition one_event :: "(rt_event \<Rightarrow> string option) \<Rightarrow> rt_event \<Rightarrow> sender \<Rightarrow> outcome \<times> sender" where
  "one_event marshal ev s =
     (if re_Type ev = ''audio_delta'' then (GoOn, s)
      else if re_Type ev = ''interrupted'' then flushPlayback s
      else let s = (if re_Type ev = ''response_done'' then no_playback s else s) in
        (case marshal ev of
           None \<Rightarrow> (GoOn, s)
         | Some t \<Rightarrow>
             (case write_or_end (TextFrame t) s of
                (Ended, s) \<Rightarrow> (Ended, s)
              | (r, s) \<Rightarrow> (if re_Type ev = ''error'' then Ended else r, s))))"

definition turn :: "(rt_event \<Rightarrow> string option) \<Rightarrow> ready \<Rightarrow> sender \<Rightarrow> (outcome \<times> sender) option" where
  "turn marshal rd s =
     (case rd of
        AudioReady \<Rightarrow>
          (case gc_items (se_audio s) of
             [] \<Rightarrow> if gc_closed (se_audio s) then Some (Ended, s) else None
           | pcm # rest \<Rightarrow>
               Some (case send_frame (Binary pcm) (s\<lparr>se_audio := (se_audio s)\<lparr>gc_items := rest\<rparr>\<rparr>) of
                       (False, s) \<Rightarrow> (Ended, s)
                     | (True, s) \<Rightarrow> (GoOn, s\<lparr>se_first := True, se_frames := Suc (se_frames s), se_bytes := se_bytes s + length pcm\<rparr>)))
      | EventReady None \<Rightarrow> Some (Ended, s)
      | EventReady (Some ev) \<Rightarrow> Some (one_event marshal ev s)
      | DrainReady \<Rightarrow> Some (flushPlayback s)
      | TickReady \<Rightarrow> Some (write_or_end PingFrame s))"

section \<open>Receiving\<close>

datatype from_client = BinaryMessage string | TextMessage string | ClientClosed

text \<open>The audio handed to the session, up to a command to stop or the end of the connection; \<open>stop\<close> reads a command.\<close>

fun received :: "(string \<Rightarrow> bool) \<Rightarrow> from_client list \<Rightarrow> string list" where
  "received stop [] = []"
| "received stop (ClientClosed # ms) = []"
| "received stop (BinaryMessage d # ms) = d # received stop ms"
| "received stop (TextMessage t # ms) = (if stop t then [] else received stop ms)"

text \<open>What \<open>testRealtimeHandler\<close> does before the connection is upgraded.\<close>

definition realtime_request :: "gin \<Rightarrow> 'w \<Rightarrow> 'w handled + (uid \<times> u64 \<times> u64)" where
  "realtime_request c w =
     (case getUserID c of None \<Rightarrow> Inl (unauthorized w)
      | Some u \<Rightarrow>
          (case getRespId c of None \<Rightarrow> Inl (unauthorized w)
           | Some r \<Rightarrow>
               let t = Query c ''tread_id'' in
               if t = [] then Inl (reply_error 400 ''tread_id query parameter is required'' w)
               else (case ParseUint t of
                       None \<Rightarrow> Inl (reply_error 400 (''invalid tread_id: '' @ t) w)
                     | Some n \<Rightarrow> Inr (u, r, word_of_nat n))))"

section \<open>Recording\<close>

text \<open>
  The recorder, which the program declares and does not use yet. \<open>wv_results\<close> are the results of the calls of the
  operating system to come: \<open>None\<close> works, as does every call beyond the list, and \<open>Some n\<close> is an error, of a write after
  \<open>n\<close> bytes. The file is created, or emptied, when it is opened.
\<close>

record wav =
  wv_path :: string
  wv_file :: string                                        \<comment> \<open>the bytes of the file\<close>
  wv_pos :: nat
  wv_dataBytes :: "32 word"
  wv_sampleRate :: "32 word"
  wv_results :: "nat option list"

definition io_down :: go_err where
  "io_down = Msg ''input/output error''"

fun first_result :: "nat option list \<Rightarrow> nat option" where
  "first_result [] = None"
| "first_result (x # xs) = x"

definition call_os :: "wav \<Rightarrow> go_err option \<times> wav" where
  "call_os r = (map_option (\<lambda>_. io_down) (first_result (wv_results r)), r\<lparr>wv_results := tl (wv_results r)\<rparr>)"

definition le16 :: "16 word \<Rightarrow> string" where
  "le16 x = map (\<lambda>i. char_of (unat (drop_bit (8 * i) x) mod 256)) [0, 1]"

definition le32 :: "32 word \<Rightarrow> string" where
  "le32 x = map (\<lambda>i. char_of (unat (drop_bit (8 * i) x) mod 256)) [0, 1, 2, 3]"

definition wav_header :: "32 word \<Rightarrow> 32 word \<Rightarrow> string" where
  "wav_header rate n =
     ''RIFF'' @ le32 (36 + n) @ ''WAVE'' @ ''fmt '' @ le32 16 @ le16 1 @ le16 1 @ le32 rate @ le32 (rate * 2) @ le16 2
     @ le16 16 @ ''data'' @ le32 n"

definition write_at :: "string \<Rightarrow> wav \<Rightarrow> wav" where
  "write_at d r = r\<lparr>wv_file := take (wv_pos r) (wv_file r) @ d @ drop (wv_pos r + length d) (wv_file r), wv_pos := wv_pos r + length d\<rparr>"

text \<open>\<open>file.Write\<close>: what was written, and the error.\<close>

definition written_part :: "nat option \<Rightarrow> string \<Rightarrow> string" where
  "written_part x d = (case x of None \<Rightarrow> d | Some n \<Rightarrow> take n d)"

definition file_Write :: "string \<Rightarrow> wav \<Rightarrow> (nat \<times> go_err option) \<times> wav" where
  "file_Write d r =
     (let part = written_part (first_result (wv_results r)) d; (err, r) = call_os r
      in ((length part, err), write_at part r))"

definition writeHeader :: "32 word \<Rightarrow> wav \<Rightarrow> go_err option \<times> wav" where
  "writeHeader n r = (case file_Write (wav_header (wv_sampleRate r) n) r of ((_, err), r) \<Rightarrow> (err, r))"

definition wav_path :: "uid \<Rightarrow> u64 \<Rightarrow> string" where
  "wav_path u resp = ''realtime_audio/'' @ show_uid u @ ''/'' @ show_nat (unat resp) @ ''.wav''"

text \<open>The directory is made, the file opened, an empty header written.\<close>

definition newRealtimeWAVRecorder :: "nat option list \<Rightarrow> uid \<Rightarrow> u64 \<Rightarrow> 32 word \<Rightarrow> go_err + wav" where
  "newRealtimeWAVRecorder results u resp rate =
     (case call_os \<lparr>wv_path = wav_path u resp, wv_file = [], wv_pos = 0, wv_dataBytes = 0, wv_sampleRate = rate, wv_results = results\<rparr> of
        (Some err, r) \<Rightarrow> Inl err
      | (None, r) \<Rightarrow>
          (case call_os r of
             (Some err, r) \<Rightarrow> Inl err
           | (None, r) \<Rightarrow> (case writeHeader 0 r of (Some err, r) \<Rightarrow> Inl err | (None, r) \<Rightarrow> Inr r)))"

text \<open>Of a write that fails the bytes that were written are counted.\<close>

definition wav_Write :: "string \<Rightarrow> wav \<Rightarrow> go_err option \<times> wav" where
  "wav_Write pcm r =
     (if odd (length pcm) then (Some (Msg (''PCM16 chunk has odd byte length: '' @ show_nat (length pcm))), r)
      else (case file_Write pcm r of
              ((n, err), r) \<Rightarrow> (err, r\<lparr>wv_dataBytes := wv_dataBytes r + word_of_nat n\<rparr>)))"

text \<open>Seeking the start, writing the header again, closing the file; the file is closed after an error too.\<close>

definition wav_Close :: "wav option \<Rightarrow> go_err option \<times> wav option" where
  "wav_Close rec =
     (case rec of
        None \<Rightarrow> (None, None)
      | Some r \<Rightarrow>
          (case call_os r of
             (Some err, r) \<Rightarrow> (Some err, Some r)
           | (None, r) \<Rightarrow>
               (case writeHeader (wv_dataBytes r) (r\<lparr>wv_pos := 0\<rparr>) of
                  (Some err, r) \<Rightarrow> (Some err, Some r)
                | (None, r) \<Rightarrow> (case call_os r of (err, r) \<Rightarrow> (err, Some r)))))"

fun record_all :: "string list \<Rightarrow> wav \<Rightarrow> wav" where
  "record_all [] r = r"
| "record_all (d # ds) r = record_all ds (snd (wav_Write d r))"

text \<open>What of these chunks comes into the file: those of even length, as far as they were written.\<close>

fun stored :: "string list \<Rightarrow> nat option list \<Rightarrow> string" where
  "stored [] xs = []"
| "stored (d # ds) xs = (if odd (length d) then stored ds xs else written_part (first_result xs) d @ stored ds (tl xs))"

end
