(* ===== verification/RealtimeProps.thy ===== *)
theory RealtimeProps
  imports Realtime
begin

text \<open>
  Emptying a channel ends exactly when it is open; the sender therefore hangs when a user interrupts a model whose audio
  has ended. Raw audio never leaves as text. A recording that is closed without an error is in its file
  as far as it was written.
\<close>

section \<open>Flushing\<close>

lemma flush_open: "flush \<lparr>gc_items = xs, gc_closed = False\<rparr> = Some \<lparr>gc_items = [], gc_closed = False\<rparr>"
  by (induction xs) (subst flush.simps, simp)+

text \<open>The loop's result satisfies whatever one turn of it preserves; a closed channel preserves that there is none.\<close>

lemma flush_result:
  fixes ch :: "'x go_chan"
  assumes "flush ch = Some ch'"
  shows "\<not> gc_closed ch \<and> ch' = ch\<lparr>gc_items := []\<rparr>"
proof (rule flush.raw_induct [where P = "\<lambda>ch ch'. \<not> gc_closed ch \<and> ch' = ch\<lparr>gc_items := []\<rparr>", OF _ assms])
  fix f :: "'x go_chan \<Rightarrow> 'x go_chan option" and ch ch'
  assume IH: "\<And>ch ch'. f ch = Some ch' \<Longrightarrow> \<not> gc_closed ch \<and> ch' = ch\<lparr>gc_items := []\<rparr>"
    and eq: "(case gc_items ch of [] \<Rightarrow> if gc_closed ch then f ch else Some ch | x # xs \<Rightarrow> f (ch\<lparr>gc_items := xs\<rparr>)) = Some ch'"
  show "\<not> gc_closed ch \<and> ch' = ch\<lparr>gc_items := []\<rparr>"
  proof (cases "gc_items ch")
    case Nil
    then have "ch = ch\<lparr>gc_items := []\<rparr>" by (cases ch) simp
    then show ?thesis using IH [of ch ch'] eq Nil by (cases "gc_closed ch") simp_all
  next
    case (Cons x xs)
    then show ?thesis using IH [of "ch\<lparr>gc_items := xs\<rparr>" ch'] eq by simp
  qed
qed

text \<open>C36: Emptying the audio that is still to come, which an interruption by the user asks for, ends if and only if the
  model's channel of audio is open: once the model has closed it the goroutine that serves the client turns for ever.\<close>
theorem flush_ends_iff_open: "(\<exists>ch'. flush ch = Some ch') \<longleftrightarrow> \<not> gc_closed ch"
proof
  assume "\<exists>ch'. flush ch = Some ch'"
  then show "\<not> gc_closed ch" using flush_result by blast
next
  assume "\<not> gc_closed ch"
  then have "ch = \<lparr>gc_items = gc_items ch, gc_closed = False\<rparr>" by (cases ch) simp
  then show "\<exists>ch'. flush ch = Some ch'" using flush_open by metis
qed

lemma interruption_hangs:
  assumes "gc_closed (se_audio s)" and "re_Type ev = ''interrupted''"
  shows "turn marshal (EventReady (Some ev)) s = Some (Hangs, s)"
proof -
  have "flush (se_audio s) = None" using assms(1) flush_ends_iff_open [of "se_audio s"] by (cases "flush (se_audio s)") auto
  then show ?thesis using assms(2) by (simp add: turn_def one_event_def flushPlayback_def)
qed

section \<open>Frames\<close>

lemma send_frame_written: "send_frame f s = (ok, s') \<Longrightarrow> se_written s' = se_written s @ (if ok then [f] else [])"
  by (auto simp: send_frame_def split: list.splits bool.splits)

text \<open>Audio leaves in binary frames only, and an event that carries audio leaves nothing.\<close>

lemma written_once:
  "se_written (snd (write_or_end f s)) = se_written s \<or> se_written (snd (write_or_end f s)) = se_written s @ [f]"
  by (cases "send_frame f s") (auto simp: write_or_end_def dest!: send_frame_written split: if_splits)

lemma flush_writes:
  "se_written (snd (flushPlayback s)) = se_written s \<or> se_written (snd (flushPlayback s)) = se_written s @ [audio_stop]"
proof (cases "flush (se_audio s)")
  case (Some ch)
  then show ?thesis using written_once [of audio_stop "no_playback (s\<lparr>se_audio := ch\<rparr>)"]
    by (simp add: flushPlayback_def write_or_end_def no_playback_def)
qed (simp add: flushPlayback_def)

lemma event_writes:
  "se_written (snd (one_event marshal ev s)) = se_written s \<or> re_Type ev \<noteq> ''audio_delta''
     \<and> (\<exists>f. se_written (snd (one_event marshal ev s)) = se_written s @ [f] \<and> (f = audio_stop \<or> (\<exists>t. f = TextFrame t \<and> marshal ev = Some t)))"
proof -
  let ?s = "if re_Type ev = ''response_done'' then no_playback s else s"
  have w: "se_written ?s = se_written s" by (simp add: no_playback_def)
  show ?thesis
  proof (cases "marshal ev")
    case None
    then show ?thesis using flush_writes [of s] w by (auto simp: one_event_def Let_def)
  next
    case (Some t)
    obtain r v where r: "write_or_end (TextFrame t) ?s = (r, v)" by fastforce
    have "se_written v = se_written s \<or> se_written v = se_written s @ [TextFrame t]"
      using written_once [of "TextFrame t" ?s] r w by simp
    moreover have "re_Type ev \<noteq> ''audio_delta'' \<Longrightarrow> re_Type ev \<noteq> ''interrupted'' \<Longrightarrow> snd (one_event marshal ev s) = v"
      using Some r by (simp add: one_event_def Let_def split: outcome.split)
    moreover have "re_Type ev = ''audio_delta'' \<Longrightarrow> snd (one_event marshal ev s) = s" by (simp add: one_event_def)
    moreover have "re_Type ev = ''interrupted'' \<Longrightarrow> snd (one_event marshal ev s) = snd (flushPlayback s)" by (simp add: one_event_def)
    ultimately show ?thesis using flush_writes [of s] Some by (cases "re_Type ev = ''audio_delta''"; cases "re_Type ev = ''interrupted''") auto
  qed
qed

lemma raw_audio_is_not_text:
  assumes "turn marshal (EventReady (Some ev)) s = Some (r, s')" and "re_Type ev = ''audio_delta''"
  shows "se_written s' = se_written s"
  using assms event_writes [of marshal ev s] by (simp add: turn_def)

section \<open>Recordings\<close>

lemma header_length [simp]: "length (wav_header rate n) = 44"
  by (simp add: wav_header_def le32_def le16_def)

definition read32 :: "string \<Rightarrow> nat" where
  "read32 s = of_char (s ! 0) + 256 * of_char (s ! 1) + 65536 * of_char (s ! 2) + 16777216 * of_char (s ! 3)"

lemma nat_bytes:
  assumes "(n :: nat) < 4294967296"
  shows "n mod 256 + 256 * (n div 256 mod 256) + 65536 * (n div 65536 mod 256) + 16777216 * (n div 16777216 mod 256) = n"
proof -
  have d: "n div 65536 = n div 256 div 256" "n div 16777216 = n div 256 div 256 div 256" by (simp_all add: div_mult2_eq [symmetric])
  have m: "n div 16777216 mod 256 = n div 16777216" using assms by simp
  have split: "k = 256 * (k div 256) + k mod 256" for k :: nat by simp
  have "n = n mod 256 + 256 * (n div 256)" using split [of n] by simp
  also have "n div 256 = n div 256 mod 256 + 256 * (n div 65536)" using split [of "n div 256"] d(1) by simp
  also have "n div 65536 = n div 65536 mod 256 + 256 * (n div 16777216)" using split [of "n div 65536"] d by simp
  finally show ?thesis unfolding m by (simp add: algebra_simps)
qed

lemma unat_shift: "unat (drop_bit n x) = unat x div 2 ^ n"
  by (subst unat_drop_bit_eq) (simp add: drop_bit_eq_div)

lemma read_le32 [simp]: "read32 (le32 x @ s) = unat x"
proof -
  have "unat x < 4294967296" using unsigned_less [of x] by simp
  then show ?thesis
    using nat_bytes [of "unat x"] by (simp add: read32_def le32_def unat_shift)
qed

lemma write_inside:
  assumes "wv_pos r = length (wv_file r)"
  shows "wv_file (write_at d r) = wv_file r @ d" "wv_pos (write_at d r) = length (wv_file (write_at d r))"
  using assms by (simp_all add: write_at_def)

lemma write_at_fields [simp]:
  "wv_sampleRate (write_at d r) = wv_sampleRate r" "wv_dataBytes (write_at d r) = wv_dataBytes r"
  "wv_results (write_at d r) = wv_results r" "wv_path (write_at d r) = wv_path r"
  by (simp_all add: write_at_def)

lemma call_os_result: "call_os r = (x, r') \<Longrightarrow> r' = r\<lparr>wv_results := tl (wv_results r)\<rparr> \<and> (x = None \<longleftrightarrow> first_result (wv_results r) = None)"
  by (auto simp: call_os_def)

lemma wav_Write_even:
  assumes "even (length d)"
  shows "snd (wav_Write d r) = (let part = written_part (first_result (wv_results r)) d in
    (write_at part (r\<lparr>wv_results := tl (wv_results r)\<rparr>))\<lparr>wv_dataBytes := wv_dataBytes r + word_of_nat (length part)\<rparr>)"
  using assms by (simp add: wav_Write_def file_Write_def call_os_def Let_def)

lemma record_all_file:
  assumes "wv_pos r = length (wv_file r)"
  shows "wv_file (record_all ds r) = wv_file r @ stored ds (wv_results r) \<and> wv_sampleRate (record_all ds r) = wv_sampleRate r
    \<and> wv_dataBytes (record_all ds r) = wv_dataBytes r + word_of_nat (length (stored ds (wv_results r)))"
  using assms
proof (induction ds arbitrary: r)
  case (Cons d ds)
  let ?r = "snd (wav_Write d r)"
  show ?case
  proof (cases "odd (length d)")
    case True
    then have "?r = r" by (simp add: wav_Write_def)
    then show ?thesis using Cons True by simp
  next
    case False
    let ?p = "written_part (first_result (wv_results r)) d"
    have w: "?r = (write_at ?p (r\<lparr>wv_results := tl (wv_results r)\<rparr>))\<lparr>wv_dataBytes := wv_dataBytes r + word_of_nat (length ?p)\<rparr>"
      using wav_Write_even [of d r] False by (simp add: Let_def)
    have r: "wv_file ?r = wv_file r @ ?p" "wv_pos ?r = length (wv_file ?r)" "wv_sampleRate ?r = wv_sampleRate r"
      "wv_results ?r = tl (wv_results r)" "wv_dataBytes ?r = wv_dataBytes r + word_of_nat (length ?p)"
      unfolding w using Cons.prems by (simp_all add: write_at_def)
    show ?thesis using Cons.IH [OF r(2)] r(1,3-5) False by simp
  qed
qed simp

lemma writeHeader_works:
  assumes "writeHeader n r = (None, r')"
  shows "r' = write_at (wav_header (wv_sampleRate r) n) (r\<lparr>wv_results := tl (wv_results r)\<rparr>)"
  using assms by (auto simp: writeHeader_def file_Write_def call_os_def Let_def written_part_def)

lemma new_recorder:
  assumes "newRealtimeWAVRecorder results u resp rate = Inr r"
  shows "wv_file r = wav_header rate 0" "wv_pos r = length (wv_file r)" "wv_dataBytes r = 0" "wv_sampleRate r = rate"
    "wv_results r = drop 3 results" "wv_path r = wav_path u resp"
proof -
  let ?r = "\<lparr>wv_path = wav_path u resp, wv_file = [], wv_pos = 0, wv_dataBytes = 0, wv_sampleRate = rate, wv_results = tl (tl results)\<rparr>"
  have "writeHeader 0 ?r = (None, r)"
    using assms by (auto simp: newRealtimeWAVRecorder_def call_os_def split: prod.splits option.splits)
  from writeHeader_works [OF this]
  have "r = write_at (wav_header rate 0) (?r\<lparr>wv_results := tl (tl (tl results))\<rparr>)" by simp
  moreover have "tl (tl (tl results)) = drop 3 results" by (simp add: numeral_3_eq_3 drop_Suc)
  ultimately show "wv_file r = wav_header rate 0" "wv_pos r = length (wv_file r)" "wv_dataBytes r = 0" "wv_sampleRate r = rate"
    "wv_results r = drop 3 results" "wv_path r = wav_path u resp" by (simp_all add: write_at_def)
qed

lemma closed_file:
  assumes "wav_Close (Some r) = (None, Some w)"
  shows "wv_file w = wav_header (wv_sampleRate r) (wv_dataBytes r) @ drop 44 (wv_file r)"
proof -
  obtain r1 where "writeHeader (wv_dataBytes r) (r\<lparr>wv_results := tl (wv_results r), wv_pos := 0\<rparr>) = (None, r1)" "wv_file w = wv_file r1"
    using assms by (auto simp: wav_Close_def call_os_def split: prod.splits option.splits)
  from this(2) writeHeader_works [OF this(1)] show ?thesis by (simp add: write_at_def)
qed

lemma stored_all: "\<forall>x\<in>set xs. x = None \<Longrightarrow> stored ds xs = concat (filter (\<lambda>d. even (length d)) ds)"
proof (induction ds arbitrary: xs)
  case (Cons d ds)
  have "first_result xs = None" "\<forall>x\<in>set (tl xs). x = None"
    using Cons.prems by (cases xs; simp)+
  then show ?case using Cons by (simp add: written_part_def)
qed simp

text \<open>C37: A recorder that could be made and was closed without an error leaves a file of a header of 44 bytes and then all
  that was written of the chunks it was given: every chunk of even length as far as its write went, none of odd length,
  whatever writes failed in between. The header says the length of these bytes, and that length and 36 more, as numbers
  of 32 bits, so both are true below 2 to the 32nd less 36 and wrap around beyond. When no call fails the bytes are the
  chunks of even length one after the other.\<close>
theorem recording_reads_back:
  assumes "newRealtimeWAVRecorder results u resp rate = Inr r" and "wav_Close (Some (record_all ds r)) = (None, Some w)"
  shows "wv_file w = wav_header rate (word_of_nat (length (drop 44 (wv_file w)))) @ drop 44 (wv_file w)
    \<and> drop 44 (wv_file w) = stored ds (drop 3 results)
    \<and> read32 (drop 40 (wv_file w)) = length (stored ds (drop 3 results)) mod 2 ^ 32
    \<and> read32 (drop 4 (wv_file w)) = (length (stored ds (drop 3 results)) + 36) mod 2 ^ 32
    \<and> ((\<forall>x\<in>set results. x = None) \<longrightarrow> stored ds (drop 3 results) = concat (filter (\<lambda>d. even (length d)) ds))"
proof -
  let ?s = "stored ds (drop 3 results)" and ?n = "word_of_nat (length (stored ds (drop 3 results))) :: 32 word"
  note r = new_recorder [OF assms(1)]
  from record_all_file [OF r(2), of ds] r
  have "wv_file (record_all ds r) = wav_header rate 0 @ ?s" "wv_sampleRate (record_all ds r) = rate" "wv_dataBytes (record_all ds r) = ?n"
    by simp_all
  with closed_file [OF assms(2)] have f: "wv_file w = wav_header rate ?n @ ?s" by simp
  have d40: "drop 40 (wav_header rate ?n) = le32 ?n" by (simp add: wav_header_def le32_def le16_def)
  have d4: "drop 4 (wav_header rate ?n @ s) = le32 (36 + ?n) @ drop 8 (wav_header rate ?n @ s)" for s
    by (simp add: wav_header_def le32_def le16_def)
  have n: "unat ?n = length ?s mod 2 ^ 32" by (simp add: unsigned_of_nat take_bit_eq_mod)
  have "36 + ?n = word_of_nat (length ?s + 36)" by (simp add: add.commute)
  then have m: "unat (36 + ?n) = (length ?s + 36) mod 2 ^ 32" by (simp only: unsigned_of_nat take_bit_eq_mod) simp
  have "\<forall>x\<in>set (drop 3 results). x = None" if "\<forall>x\<in>set results. x = None" using that by (auto dest: in_set_dropD)
  then show ?thesis unfolding f using d4 d40 n m stored_all [of "drop 3 results" ds] by (simp add: drop_append)
qed

theorem recording_reads_back_witness:
  "\<exists>r w. newRealtimeWAVRecorder [None, None, None, None, Some 1] 7 5 24000 = Inr r
     \<and> wav_Close (Some (record_all [''ab'', ''cdef'', ''x''] r)) = (None, Some w)
     \<and> drop 44 (wv_file w) = ''abc'' \<and> read32 (drop 40 (wv_file w)) = 3 \<and> read32 (drop 4 (wv_file w)) = 39"
proof -
  have "\<exists>r w. newRealtimeWAVRecorder [None, None, None, None, Some 1] 7 5 24000 = Inr r
     \<and> wav_Close (Some (record_all [''ab'', ''cdef'', ''x''] r)) = (None, Some w)"
    by (simp add: newRealtimeWAVRecorder_def call_os_def writeHeader_def file_Write_def wav_Close_def wav_Write_def written_part_def Let_def)
  then obtain r w where w: "newRealtimeWAVRecorder [None, None, None, None, Some 1] 7 5 24000 = Inr r"
    "wav_Close (Some (record_all [''ab'', ''cdef'', ''x''] r)) = (None, Some w)" by blast
  have "stored [''ab'', ''cdef'', ''x''] (drop 3 [None, None, None, None, Some 1]) = ''abc''" by (simp add: written_part_def)
  then show ?thesis using recording_reads_back [OF w] w by auto
qed

end
