(* ===== verification/Url.thy ===== *)
theory Url
  imports AuthWeb
begin

text \<open>
  Query strings of \<open>net/url\<close> as the proxies use them: \<open>ParseQuery\<close>, the operations of \<open>Values\<close> and \<open>Encode\<close>. A
  \<open>Values\<close> is a map from names to lists of texts, kept as an association list; its order is never seen, since
  \<open>Encode\<close> sorts the names. What \<open>Encode\<close> writes, \<open>ParseQuery\<close> reads back.
\<close>

type_synonym url_values = "(string \<times> string list) list"

section \<open>Reading\<close>

fun QueryUnescape :: "string \<Rightarrow> string option" where
  "QueryUnescape [] = Some []"
| "QueryUnescape (c # s) =
     (if c = CHR ''%'' then
        (case s of
           a # b # r \<Rightarrow>
             (case (hex_val a, hex_val b) of
                (Some x, Some y) \<Rightarrow> map_option (\<lambda>t. char_of (16 * x + y) # t) (QueryUnescape r)
              | _ \<Rightarrow> None)
         | _ \<Rightarrow> None)
      else map_option (\<lambda>t. (if c = CHR ''+'' then CHR '' '' else c) # t) (QueryUnescape s))"

definition add_value :: "string \<Rightarrow> string \<Rightarrow> url_values \<Rightarrow> url_values" where
  "add_value k v m =
     (case map_of m k of None \<Rightarrow> m @ [(k, [v])] | Some vs \<Rightarrow> AList.update k (vs @ [v]) m)"

text \<open>One part between two \<open>&\<close>. A part with a semicolon or a bad escape is left out; \<open>Query()\<close> drops the error.\<close>

definition parse_pair :: "string \<Rightarrow> url_values \<Rightarrow> url_values" where
  "parse_pair p m =
     (if CHR '';'' \<in> set p \<or> p = [] then m
      else (case cut_at (CHR ''='') p of (k, v) \<Rightarrow>
              (case (QueryUnescape k, QueryUnescape (case v of None \<Rightarrow> [] | Some v \<Rightarrow> v)) of
                 (Some k, Some v) \<Rightarrow> add_value k v m
               | _ \<Rightarrow> m)))"

definition ParseQuery :: "string \<Rightarrow> url_values" where
  "ParseQuery q = fold parse_pair (split_on (CHR ''&'') q) []"

section \<open>Values\<close>

definition Values_Get :: "string \<Rightarrow> url_values \<Rightarrow> string" where
  "Values_Get k m = (case map_of m k of Some (v # _) \<Rightarrow> v | _ \<Rightarrow> [])"

definition Values_Set :: "string \<Rightarrow> string \<Rightarrow> url_values \<Rightarrow> url_values" where
  "Values_Set k v m = AList.update k [v] m"

definition Values_Del :: "string \<Rightarrow> url_values \<Rightarrow> url_values" where
  "Values_Del k m = AList.delete k m"

section \<open>Writing\<close>

fun join_on :: "char \<Rightarrow> string list \<Rightarrow> string" where
  "join_on d [] = []"
| "join_on d [p] = p"
| "join_on d (p # q # ps) = p @ d # join_on d (q # ps)"

definition query_pairs :: "url_values \<Rightarrow> (string \<times> string) list" where
  "query_pairs m = concat (map (\<lambda>(k, vs). map (Pair k) vs) (sort_key fst m))"

definition pair_text :: "string \<times> string \<Rightarrow> string" where
  "pair_text p = QueryEscape (fst p) @ CHR ''='' # QueryEscape (snd p)"

definition Encode :: "url_values \<Rightarrow> string" where
  "Encode m = join_on (CHR ''&'') (map pair_text (query_pairs m))"

section \<open>Reading back\<close>

lemma hex_val_upper: "n < 16 \<Longrightarrow> hex_val (upper_hex n) = Some n"
  by (cases "n < 10") (simp_all add: hex_val_def upper_hex_def Let_def)

lemma char_split: "char_of (16 * (of_char c div 16) + of_char c mod 16 :: nat) = c"
  by simp

lemma unescaped_plain: "unescaped c \<Longrightarrow> c \<noteq> CHR ''%'' \<and> c \<noteq> CHR ''+''"
  by (auto simp: unescaped_def Let_def)

lemma QueryUnescape_hex:
  "QueryUnescape (CHR ''%'' # upper_hex (of_char c div 16) # upper_hex (of_char c mod 16) # r)
     = map_option ((#) c) (QueryUnescape r)"
proof -
  have "(of_char c :: nat) div 16 < 16" using char_lt [of c] by (simp add: less_mult_imp_div_less)
  then show ?thesis by (simp add: hex_val_upper)
qed

lemma QueryUnescape_append: "QueryUnescape (QueryEscape s @ r) = map_option ((@) s) (QueryUnescape r)"
proof (induction s)
  case Nil
  then show ?case by (cases "QueryUnescape r") (simp_all add: QueryEscape_def)
next
  case (Cons c s)
  let ?t = "QueryEscape s @ r"
  have e: "QueryEscape (c # s) @ r = (if unescaped c then [c] else if c = CHR '' '' then ''+''
     else [CHR ''%'', upper_hex (of_char c div 16), upper_hex (of_char c mod 16)]) @ ?t"
    by (simp add: QueryEscape_def)
  have m: "map_option ((#) d) (map_option ((@) s) x) = map_option ((@) (d # s)) x" for d x
    by (cases x) simp_all
  have a: "(@) (c # s) = (\<lambda>a. c # s @ a)" by auto
  consider "unescaped c" | "\<not> unescaped c" "c = CHR '' ''" | "\<not> unescaped c" "c \<noteq> CHR '' ''" by blast
  then show ?case
  proof cases
    case 1
    then show ?thesis using unescaped_plain [OF 1] Cons.IH m by (simp add: e a)
  next
    case 2
    have "QueryUnescape (QueryEscape (c # s) @ r) = map_option ((#) CHR '' '') (QueryUnescape ?t)"
      unfolding e using 2 by simp
    then show ?thesis unfolding Cons.IH m 2(2) by (rule trans) (rule refl)
  next
    case 3
    then show ?thesis using Cons.IH m QueryUnescape_hex [of c ?t] by (simp add: e a del: QueryUnescape.simps)
  qed
qed

lemma QueryUnescape_QueryEscape: "QueryUnescape (QueryEscape s) = Some s"
  using QueryUnescape_append [of s "[]"] by simp

lemma upper_hex_unescaped: "n < 16 \<Longrightarrow> unescaped (upper_hex n)"
  by (cases "n < 10") (auto simp: upper_hex_def unescaped_def Let_def)

lemma QueryEscape_chars: "c \<in> set (QueryEscape s) \<Longrightarrow> unescaped c \<or> c = CHR ''+'' \<or> c = CHR ''%''"
proof -
  have h: "(of_char d :: nat) div 16 < 16" for d :: char using char_lt [of d] by (simp add: less_mult_imp_div_less)
  show "c \<in> set (QueryEscape s) \<Longrightarrow> unescaped c \<or> c = CHR ''+'' \<or> c = CHR ''%''"
    using upper_hex_unescaped [OF h] upper_hex_unescaped [of "_ mod 16"]
    by (auto simp: QueryEscape_def split: if_splits)
qed

lemma special_not_unescaped: "d \<in> set ''&=;?#'' \<Longrightarrow> \<not> unescaped d \<and> d \<noteq> CHR ''+'' \<and> d \<noteq> CHR ''%''"
  by (auto simp: unescaped_def Let_def)

lemma QueryEscape_plain: "d \<in> set ''&=;?#'' \<Longrightarrow> d \<notin> set (QueryEscape s)"
  using special_not_unescaped QueryEscape_chars by blast

lemma pair_text_plain: "d \<in> set ''&;?#'' \<Longrightarrow> d \<notin> set (pair_text p)"
  using QueryEscape_plain by (auto simp: pair_text_def)

lemma cut_at_here: "d \<notin> set p \<Longrightarrow> cut_at d (p @ d # r) = (p, Some r)"
  by (induction p) auto

lemma cut_at_none: "d \<notin> set p \<Longrightarrow> cut_at d p = (p, None)"
  by (induction p) auto

lemma parse_pair_text: "parse_pair (pair_text p) m = add_value (fst p) (snd p) m"
proof -
  have "CHR '';'' \<notin> set (pair_text p)" and "pair_text p \<noteq> []"
    using pair_text_plain [of "CHR '';''" p] by (simp_all add: pair_text_def)
  moreover have "cut_at (CHR ''='') (pair_text p) = (QueryEscape (fst p), Some (QueryEscape (snd p)))"
    unfolding pair_text_def by (rule cut_at_here) (rule QueryEscape_plain, simp)
  ultimately show ?thesis by (simp add: parse_pair_def QueryUnescape_QueryEscape)
qed

lemma split_on_plain: "d \<notin> set p \<Longrightarrow> split_on d p = [p]"
  by (induction p) auto

lemma split_on_join: "\<forall>p\<in>set ps. d \<notin> set p \<Longrightarrow> ps \<noteq> [] \<Longrightarrow> split_on d (join_on d ps) = ps"
proof (induction d ps rule: join_on.induct)
  case (3 d p q ps)
  have "split_on d (p @ d # r) = p # split_on d r" if "d \<notin> set p" for p r
    using that by (induction p) auto
  then show ?case using 3 by simp
qed (simp_all add: split_on_plain)

lemma ParseQuery_Encode_fold: "ParseQuery (Encode m) = fold (\<lambda>p. add_value (fst p) (snd p)) (query_pairs m) []"
proof (cases "query_pairs m = []")
  case True
  then show ?thesis by (simp add: ParseQuery_def Encode_def parse_pair_def)
next
  case False
  have "split_on (CHR ''&'') (Encode m) = map pair_text (query_pairs m)"
    unfolding Encode_def using False pair_text_plain by (intro split_on_join) auto
  moreover have "(\<lambda>p. parse_pair (pair_text p)) = (\<lambda>p. add_value (fst p) (snd p))"
    by (intro ext) (rule parse_pair_text)
  ultimately show ?thesis by (simp add: ParseQuery_def fold_map comp_def)
qed

definition values_of :: "string \<Rightarrow> url_values \<Rightarrow> string list" where
  "values_of k m = (case map_of m k of None \<Rightarrow> [] | Some vs \<Rightarrow> vs)"

lemma map_of_add_value:
  "map_of (add_value k v m) = (map_of m)(k \<mapsto> values_of k m @ [v])"
proof (cases "map_of m k")
  case None
  then have "[k \<mapsto> [v]] ++ map_of m = (map_of m)(k \<mapsto> [v])"
    by (intro ext) (simp add: map_add_def split: option.splits)
  then show ?thesis using None by (simp add: add_value_def values_of_def)
next
  case (Some vs)
  then show ?thesis by (simp add: add_value_def values_of_def update_conv')
qed

lemma values_of_fold:
  "values_of k (fold (\<lambda>p. add_value (fst p) (snd p)) ps m) = values_of k m @ map snd (filter (\<lambda>p. fst p = k) ps)"
proof (induction ps arbitrary: m)
  case (Cons p ps)
  have "values_of k (add_value (fst p) (snd p) m) = values_of k m @ (if fst p = k then [snd p] else [])"
    by (simp add: values_of_def map_of_add_value)
  then show ?case using Cons.IH by simp
qed simp

lemma query_pairs_of: 
  assumes "distinct (map fst m)"
  shows "map snd (filter (\<lambda>p. fst p = k) (query_pairs m)) = values_of k m"
proof -
  have c: "map snd (filter (\<lambda>p. fst p = k) (concat (map (\<lambda>(k, vs). map (Pair k) vs) es)))
      = concat (map snd (filter (\<lambda>e. fst e = k) es))" for es :: url_values
    by (induction es) (auto simp: filter_map comp_def)
  have "filter (\<lambda>e. fst e = k) m = (case map_of m k of None \<Rightarrow> [] | Some vs \<Rightarrow> [(k, vs)])"
    using assms by (induction m) (auto simp: filter_empty_conv rev_image_eqI split: option.splits)
  then show ?thesis by (auto simp: query_pairs_def c sort_key_stable values_of_def split: option.splits)
qed

text \<open>What is written is read back, name by name.\<close>

lemma values_read_back: "distinct (map fst m) \<Longrightarrow> values_of k (ParseQuery (Encode m)) = values_of k m"
  by (simp add: ParseQuery_Encode_fold values_of_fold query_pairs_of) (simp add: values_of_def)

section \<open>Well-formed values\<close>

lemma add_value_distinct: "distinct (map fst m) \<Longrightarrow> distinct (map fst (add_value k v m))"
  by (auto simp: add_value_def map_of_eq_None_iff distinct_update split: option.splits)

lemma parse_pair_distinct: "distinct (map fst m) \<Longrightarrow> distinct (map fst (parse_pair p m))"
  by (auto simp: parse_pair_def add_value_distinct split: prod.splits option.splits)

lemma ParseQuery_distinct [simp]: "distinct (map fst (ParseQuery q))"
proof -
  have "distinct (map fst m) \<Longrightarrow> distinct (map fst (fold parse_pair ps m))" for ps m
    by (induction ps arbitrary: m) (simp_all add: parse_pair_distinct)
  then show ?thesis by (simp add: ParseQuery_def)
qed

lemma Values_Set_distinct [simp]: "distinct (map fst m) \<Longrightarrow> distinct (map fst (Values_Set k v m))"
  by (simp add: Values_Set_def distinct_update)

lemma Values_Del_distinct [simp]: "distinct (map fst m) \<Longrightarrow> distinct (map fst (Values_Del k m))"
  by (simp add: Values_Del_def distinct_delete)

lemma values_of_Set: "values_of j (Values_Set k v m) = (if j = k then [v] else values_of j m)"
  by (simp add: values_of_def Values_Set_def update_conv')

lemma values_of_Del: "values_of j (Values_Del k m) = (if j = k then [] else values_of j m)"
  by (simp add: values_of_def Values_Del_def delete_conv')

lemma Encode_plain: "d \<in> set '';?#'' \<Longrightarrow> d \<notin> set (Encode m)"
proof -
  assume d: "d \<in> set '';?#''"
  have j: "set (join_on (CHR ''&'') ps) \<subseteq> {CHR ''&''} \<union> \<Union> (set ` set ps)" for ps
    by (induction "CHR ''&''" ps rule: join_on.induct) auto
  have "d \<notin> set (pair_text p)" for p using pair_text_plain d by simp
  then show ?thesis using j [of "map pair_text (query_pairs m)"] d by (auto simp: Encode_def)
qed

section \<open>The address of a request\<close>

text \<open>
  What the other side is asked for by an address beginning with the constant address of a service: the part after a
  \<open>#\<close> is not sent, and the first \<open>?\<close> begins the query string.
\<close>

definition requested :: "string \<Rightarrow> string \<times> string" where
  "requested url = (case cut_at (CHR ''?'') (fst (cut_at (CHR ''#'') url)) of
     (path, q) \<Rightarrow> (path, case q of None \<Rightarrow> [] | Some q \<Rightarrow> q))"

definition seen_query :: "string \<Rightarrow> url_values" where
  "seen_query url = ParseQuery (snd (requested url))"

lemma seen_query_of:
  assumes "CHR ''?'' \<notin> set path" "CHR ''#'' \<notin> set path" "distinct (map fst m)"
  shows "values_of k (seen_query (path @ CHR ''?'' # Encode m)) = values_of k m"
proof -
  have "CHR ''#'' \<notin> set (path @ CHR ''?'' # Encode m)" using assms(2) Encode_plain [of "CHR ''#''"] by simp
  then have "requested (path @ CHR ''?'' # Encode m) = (path, Encode m)"
    using cut_at_here [OF assms(1)] by (simp add: requested_def cut_at_none)
  then show ?thesis by (simp add: seen_query_def values_read_back assms(3))
qed

end
