(* ===== verification/Proxies.thy ===== *)
theory Proxies
  imports Url
begin

text \<open>
  The handlers that pass a request on to another service: \<open>delivery/http/avito.go\<close>, \<open>crm.go\<close>, \<open>tgbot.go\<close>,
  \<open>pay.go\<close>, \<open>donation.go\<close>, \<open>widget.go\<close> and the proxies of \<open>services.go\<close>. A handler yields what the client is answered
  and the request it has sent, if any. The other service is a parameter; so is the client library's following of
  redirects. The texts of errors are short English names where the code has Russian sentences.
\<close>

section \<open>Requests and answers\<close>

type_synonym headers = "(string \<times> string list) list"

text \<open>
  A request as the server has received it. The bytes of the body may end early; \<open>ib_path\<close> is the decoded path,
  \<open>ib_uri\<close> the path as it was written. \<open>ib_set\<close> are the headers the middleware has put into the answer.
\<close>

record inbound =
  ib_method :: string
  ib_path :: string
  ib_uri :: string
  ib_query :: string
  ib_params :: "(string \<times> string) list"
  ib_headers :: headers
  ib_host :: string
  ib_bytes :: string
  ib_whole :: bool
  ib_set :: "(string \<times> string) list"

datatype content = Bytes string | Doc json | Chunks "string list"

record outbound =
  ob_method :: string
  ob_url :: string
  ob_headers :: headers
  ob_host :: "string option"
  ob_body :: content

record web_out =
  wo_status :: nat
  wo_headers :: "(string \<times> string) list"
  wo_body :: content

datatype arrived = Whole string | Broken | Late

record answer =
  an_status :: nat
  an_headers :: headers
  an_body :: arrived

datatype sent = Refused | TimedOut | Answered answer

datatype read_end = More | Ended

record stream_answer =
  sa_status :: nat
  sa_headers :: headers
  sa_chunks :: "(string \<times> read_end) list"

text \<open>
  The other side: whether the library accepts the address, which \<open>http.NewRequest\<close> may refuse and which what is proved
  of requests that are sent has as a premise, the service's answer, where the library arrives when it
  follows the redirect of an answer, streams, and the check of subscriptions.
\<close>

record back_end =
  be_parses :: "outbound \<Rightarrow> bool"
  be_do :: "outbound \<Rightarrow> sent"
  be_follow :: "outbound \<Rightarrow> answer \<Rightarrow> sent"
  be_stream :: "outbound \<Rightarrow> stream_answer option"
  be_subscribed :: "uid \<Rightarrow> go_err option"

type_synonym proxied = "web_out \<times> outbound list"

definition Header_Get :: "string \<Rightarrow> headers \<Rightarrow> string" where
  "Header_Get k h = (case map_of h k of Some (v # _) \<Rightarrow> v | _ \<Rightarrow> [])"

text \<open>\<open>http.Client\<close> follows a redirect that names a location, unless told to use the last response.\<close>

definition redirects :: "answer \<Rightarrow> bool" where
  "redirects a = (an_status a \<in> set [301, 302, 303, 307, 308] \<and> Header_Get ''Location'' (an_headers a) \<noteq> [])"

definition follows_to_the_end :: "back_end \<Rightarrow> bool" where
  "follows_to_the_end e = (\<forall>o' a b. be_follow e o' a = Answered b \<longrightarrow> \<not> redirects b)"

definition Do :: "back_end \<Rightarrow> outbound \<Rightarrow> sent" where
  "Do e out = (case be_do e out of
     Answered a \<Rightarrow> if redirects a then be_follow e out a else Answered a
   | s \<Rightarrow> s)"

section \<open>Answering the client\<close>

text \<open>\<open>c.Header\<close> replaces a header, \<open>c.Data\<close> and \<open>c.JSON\<close> set the content type when there is none.\<close>

definition c_Header :: "string \<Rightarrow> string \<Rightarrow> (string \<times> string) list \<Rightarrow> (string \<times> string) list" where
  "c_Header k v h = (if v = [] then AList.delete k h else AList.update k v h)"

definition typed :: "string \<Rightarrow> (string \<times> string) list \<Rightarrow> (string \<times> string) list" where
  "typed t h = (case map_of h ''Content-Type'' of None \<Rightarrow> AList.update ''Content-Type'' t h | Some _ \<Rightarrow> h)"

definition c_Data :: "nat \<Rightarrow> string \<Rightarrow> string \<Rightarrow> (string \<times> string) list \<Rightarrow> web_out" where
  "c_Data code t b h = \<lparr>wo_status = code, wo_headers = typed t h, wo_body = Bytes b\<rparr>"

definition c_JSON :: "nat \<Rightarrow> (string \<times> json) list \<Rightarrow> (string \<times> string) list \<Rightarrow> web_out" where
  "c_JSON code fs h = \<lparr>wo_status = code, wo_headers = typed ''application/json; charset=utf-8'' h, wo_body = Doc (JObj fs)\<rparr>"

definition c_error :: "nat \<Rightarrow> string \<Rightarrow> (string \<times> string) list \<Rightarrow> web_out" where
  "c_error code msg h = c_JSON code [(''error'', JStr msg)] h"

text \<open>The page with the link is left out.\<close>

definition c_Redirect :: "nat \<Rightarrow> string \<Rightarrow> (string \<times> string) list \<Rightarrow> web_out" where
  "c_Redirect code loc h = \<lparr>wo_status = code, wo_headers = AList.update ''Location'' loc h, wo_body = Bytes []\<rparr>"

text \<open>A failed type assertion: the recovery of gin answers 500.\<close>

definition gin_panicked :: "(string \<times> string) list \<Rightarrow> web_out" where
  "gin_panicked h = \<lparr>wo_status = 500, wo_headers = h, wo_body = Bytes []\<rparr>"

definition copy_back :: "(string \<Rightarrow> bool) \<Rightarrow> headers \<Rightarrow> (string \<times> string) list \<Rightarrow> (string \<times> string) list" where
  "copy_back keep hs h = fold (\<lambda>(k, vs) h. if keep k then fold (c_Header k) vs h else h) hs h"

definition not_cors :: "string \<Rightarrow> bool" where
  "not_cors k = (\<not> HasPrefix (ascii_lower k) ''access-control-'')"

section \<open>Building the request\<close>

definition h_Add :: "string \<Rightarrow> string \<Rightarrow> headers \<Rightarrow> headers" where
  "h_Add k v h = (case map_of h k of None \<Rightarrow> h @ [(k, [v])] | Some vs \<Rightarrow> AList.update k (vs @ [v]) h)"

definition h_Set :: "string \<Rightarrow> string \<Rightarrow> headers \<Rightarrow> headers" where
  "h_Set k v h = AList.update k [v] h"

definition copy_over :: "(string \<Rightarrow> bool) \<Rightarrow> headers \<Rightarrow> headers" where
  "copy_over keep hs = fold (\<lambda>(k, vs) h. if keep k then fold (h_Add k) vs h else h) hs []"

definition own_headers :: "string \<Rightarrow> bool" where
  "own_headers k = (\<not> EqualFold k ''Host'' \<and> \<not> EqualFold k ''Content-Length'')"

definition with_query :: "string \<Rightarrow> string \<Rightarrow> string" where
  "with_query url q = (if q = [] then url else url @ CHR ''?'' # q)"

definition limited_read :: "string \<Rightarrow> string" where
  "limited_read b = take (10 * 2 ^ 20) b"

definition no_body :: content where
  "no_body = Bytes []"

section \<open>Addresses\<close>

definition CrmServiceURL :: string where "CrmServiceURL = ''http://crm:8080''"
definition TgBotURL :: string where "TgBotURL = ''http://tgbot:8080''"
definition AvitoBotURL :: string where "AvitoBotURL = ''http://avitobot:8080''"
definition WidgetBotURL :: string where "WidgetBotURL = ''http://widget:8080''"
definition PAYURL :: string where "PAYURL = ''http://pay:8080''"
definition LeadServiceURL :: string where "LeadServiceURL = ''http://hunter:8080''"

section \<open>\<open>sendRESP\<close>\<close>

text \<open>The second component of the result is what was sent. Redirects are returned as they are.\<close>

definition sendRESP :: "back_end \<Rightarrow> string \<Rightarrow> string \<Rightarrow> content \<Rightarrow> answer option \<times> outbound list" where
  "sendRESP e mth url b =
     (let out = \<lparr>ob_method = mth, ob_url = url, ob_headers = h_Set ''Content-Type'' ''application/json'' [],
                 ob_host = None, ob_body = b\<rparr> in
      if \<not> be_parses e out then (None, [])
      else ((case be_do e out of Answered a \<Rightarrow> Some a | _ \<Rightarrow> None), [out]))"

text \<open>The tail the handlers of payments, donations and the widget share.\<close>

definition pass_answer :: "(string \<times> string) list \<Rightarrow> answer option \<times> outbound list \<Rightarrow> proxied" where
  "pass_answer h r =
     (case r of
        (None, outs) \<Rightarrow> (c_error 500 ''Failed to proxy request'' h, outs)
      | (Some a, outs) \<Rightarrow>
          (case an_body a of
             Whole b \<Rightarrow> (c_Data (an_status a) (Header_Get ''Content-Type'' (an_headers a)) b h, outs)
           | _ \<Rightarrow> (c_error 500 ''Failed to read response'' h, outs)))"

definition with_user :: "gin \<Rightarrow> inbound \<Rightarrow> (uid \<Rightarrow> proxied) \<Rightarrow> proxied" where
  "with_user c r f = (case getUserID c of None \<Rightarrow> (c_error 401 ''unauthorized'' (ib_set r), []) | Some u \<Rightarrow> f u)"

section \<open>Payments and donations\<close>

definition paySubscription :: "back_end \<Rightarrow> gin \<Rightarrow> inbound \<Rightarrow> proxied" where
  "paySubscription e c r = with_user c r (\<lambda>u.
     (case be_subscribed e u of
        Some err \<Rightarrow> (c_error 500 (err_text err) (ib_set r), [])
      | None \<Rightarrow> (c_JSON 200 [] (ib_set r), [])))"

definition payTariff :: "back_end \<Rightarrow> gin \<Rightarrow> inbound \<Rightarrow> proxied" where
  "payTariff e c r = with_user c r (\<lambda>u.
     pass_answer (ib_set r) (sendRESP e ''GET''
       (with_query (PAYURL @ ''/pay/tariff'') (Encode (Values_Set ''uid'' (show_uid u) []))) no_body))"

definition payCurrencies :: "back_end \<Rightarrow> gin \<Rightarrow> inbound \<Rightarrow> proxied" where
  "payCurrencies e c r = with_user c r (\<lambda>u.
     pass_answer (ib_set r) (sendRESP e ''GET''
       (with_query (PAYURL @ ''/pay/currencies'') (Encode (Values_Set ''uid'' (show_uid u) []))) no_body))"

text \<open>The body is bound to currency, network and amount; the amount is kept as the number it is.\<close>

definition payCreateBybitPayment :: "back_end \<Rightarrow> gin \<Rightarrow> (string \<times> string \<times> json) body \<Rightarrow> inbound \<Rightarrow> proxied" where
  "payCreateBybitPayment e c b r = with_user c r (\<lambda>u.
     (case b of
        Inl err \<Rightarrow> (c_error 400 ''Invalid request body'' (ib_set r), [])
      | Inr (currency, network, amount) \<Rightarrow>
          pass_answer (ib_set r) (sendRESP e ''POST'' (PAYURL @ ''/pay/create-payment'')
            (Doc (JObj [(''amount'', amount), (''currency'', JStr currency), (''network'', JStr network),
                        (''user_id'', JInt (uint u))])))))"

definition order_query :: "string \<Rightarrow> uid \<Rightarrow> string" where
  "order_query order u = Encode (Values_Set ''uid'' (show_uid u) (Values_Set ''orderId'' order []))"

definition payPaymentStatus :: "back_end \<Rightarrow> gin \<Rightarrow> inbound \<Rightarrow> proxied" where
  "payPaymentStatus e c r = with_user c r (\<lambda>u.
     (let order = Query c ''orderId'' in
      if order = [] then (c_error 400 ''orderId is required'' (ib_set r), [])
      else pass_answer (ib_set r) (sendRESP e ''GET''
             (with_query (PAYURL @ ''/pay/payment-status'') (order_query order u)) no_body)))"

definition donationCurrencies :: "back_end \<Rightarrow> inbound \<Rightarrow> proxied" where
  "donationCurrencies e r = pass_answer (ib_set r) (sendRESP e ''GET'' (PAYURL @ ''/pay/donation-currencies'') no_body)"

definition donationAddress :: "back_end \<Rightarrow> inbound \<Rightarrow> proxied" where
  "donationAddress e r =
     (if \<not> ib_whole r then (c_error 400 ''Failed to read request body'' (ib_set r), [])
      else pass_answer (ib_set r) (sendRESP e ''POST'' (PAYURL @ ''/pay/donation-address'') (Bytes (ib_bytes r))))"

section \<open>The widget's service\<close>

text \<open>
  The request's own headers go on, its answer's headers come back, those of CORS included. A body that comes too late or
  breaks off is answered with an error under the headers already copied.
\<close>

definition universalProxyWidgetRequest :: "back_end \<Rightarrow> uid option \<Rightarrow> inbound \<Rightarrow> proxied" where
  "universalProxyWidgetRequest e uid r =
     (let q = ParseQuery (ib_query r);
          q = (case uid of None \<Rightarrow> q | Some u \<Rightarrow> Values_Set ''uid'' (show_uid u) q);
          out = \<lparr>ob_method = ib_method r, ob_url = TrimRightSlash WidgetBotURL @ with_query (ib_uri r) (Encode q),
                 ob_headers = copy_over own_headers (ib_headers r), ob_host = None, ob_body = Bytes (ib_bytes r)\<rparr> in
      if \<not> be_parses e out then (c_error 500 ''Failed to create proxy request'' (ib_set r), [])
      else (case if ib_whole r then Do e out else Refused of
              TimedOut \<Rightarrow> (c_error 408 ''Request timeout'' (ib_set r), [out])
            | Refused \<Rightarrow> (c_error 502 ''Failed to connect to widget service'' (ib_set r), [out])
            | Answered a \<Rightarrow>
                let h = copy_back (\<lambda>_. True) (an_headers a) (ib_set r) in
                ((case an_body a of
                    Late \<Rightarrow> c_error 408 ''Request timeout during read'' h
                  | Broken \<Rightarrow> c_error 502 ''Failed to read widget response'' h
                  | Whole b \<Rightarrow> c_Data (an_status a) (Header_Get ''Content-Type'' (an_headers a)) b h), [out])))"

definition proxyWidgetRequest :: "back_end \<Rightarrow> inbound \<Rightarrow> proxied" where
  "proxyWidgetRequest e r = universalProxyWidgetRequest e None r"

definition proxyWidgetUIDRequest :: "back_end \<Rightarrow> gin \<Rightarrow> inbound \<Rightarrow> proxied" where
  "proxyWidgetUIDRequest e c r = with_user c r (\<lambda>u. universalProxyWidgetRequest e (Some u) r)"

text \<open>The older handlers, of which none is registered any more.\<close>

definition body_to :: "back_end \<Rightarrow> string \<Rightarrow> string \<Rightarrow> inbound \<Rightarrow> proxied" where
  "body_to e mth url r =
     (if \<not> ib_whole r then (c_error 500 ''Failed to read request body'' (ib_set r), [])
      else pass_answer (ib_set r) (sendRESP e mth url (Bytes (ib_bytes r))))"

definition veryold_widgetCode :: "back_end \<Rightarrow> inbound \<Rightarrow> proxied" where
  "veryold_widgetCode e r = body_to e ''GET'' (WidgetBotURL @ ''/widget/code'') r"

definition old_widgetCode :: "back_end \<Rightarrow> gin \<Rightarrow> inbound \<Rightarrow> proxied" where
  "old_widgetCode e c r = with_user c r (\<lambda>u.
     body_to e ''GET'' (TrimRightSlash WidgetBotURL
       @ with_query (ib_uri r) (Encode (Values_Set ''uid'' (show_uid u) (ParseQuery (ib_query r))))) r)"

definition widgetExam :: "back_end \<Rightarrow> inbound \<Rightarrow> proxied" where
  "widgetExam e r = body_to e ''POST'' (WidgetBotURL @ ''/widget/exam'') r"

definition widgetRefresh :: "back_end \<Rightarrow> inbound \<Rightarrow> proxied" where
  "widgetRefresh e r = body_to e ''POST'' (WidgetBotURL @ ''widget/refresh'') r"

definition widgetData :: "back_end \<Rightarrow> inbound \<Rightarrow> proxied" where
  "widgetData e r = body_to e ''POST'' (WidgetBotURL @ ''/widget/data'') r"

definition query_to :: "back_end \<Rightarrow> string \<Rightarrow> url_values \<Rightarrow> inbound \<Rightarrow> proxied" where
  "query_to e url q r = pass_answer (ib_set r) (sendRESP e ''GET'' (with_query url (Encode q)) no_body)"

definition widgetValidate :: "back_end \<Rightarrow> gin \<Rightarrow> inbound \<Rightarrow> proxied" where
  "widgetValidate e c r = query_to e (WidgetBotURL @ ''/widget/validate'') (Values_Set ''token'' (Query c ''token'') []) r"

definition widgetUserName :: "back_end \<Rightarrow> gin \<Rightarrow> inbound \<Rightarrow> proxied" where
  "widgetUserName e c r = query_to e (WidgetBotURL @ ''/widget/username'') (Values_Set ''token'' (Query c ''token'') []) r"

definition widgetDialog :: "back_end \<Rightarrow> gin \<Rightarrow> inbound \<Rightarrow> proxied" where
  "widgetDialog e c r = query_to e (WidgetBotURL @ ''/widget/dialog'')
     (Values_Set ''name'' (Query c ''name'') (Values_Set ''token'' (Query c ''token'') [])) r"

section \<open>The CRM's service\<close>

text \<open>
  In the three handlers below the body is read into a variable of the inner block, which hides the one the request is
  built from: \<open>bodyBytes\<close> stays empty.
\<close>

definition proxyCRMPublicRequest :: "back_end \<Rightarrow> inbound \<Rightarrow> proxied" where
  "proxyCRMPublicRequest e r =
     (let url = with_query (CrmServiceURL @ TrimPrefix (ib_path r) ''/crm'') (ib_query r);
          bodyBytes = []
      in if \<not> ib_whole r then (c_error 500 ''body not read'' (ib_set r), [])
         else let out = \<lparr>ob_method = ib_method r, ob_url = url, ob_headers = copy_over (\<lambda>_. True) (ib_headers r),
                         ob_host = None, ob_body = Bytes bodyBytes\<rparr> in
         if \<not> be_parses e out then (c_error 500 ''no request'' (ib_set r), [])
         else (case Do e out of
                 Answered a \<Rightarrow>
                   (case an_body a of
                      Whole b \<Rightarrow> (c_Data (an_status a) (Header_Get ''Content-Type'' (an_headers a)) (limited_read b)
                                   (copy_back not_cors (an_headers a) (ib_set r)), [out])
                    | _ \<Rightarrow> (c_error 500 ''answer not read'' (ib_set r), [out]))
               | _ \<Rightarrow> (c_error 502 ''no connection to CRM'' (ib_set r), [out])))"

definition proxyAmoCRMOAuthCallback :: "back_end \<Rightarrow> gin \<Rightarrow> inbound \<Rightarrow> proxied" where
  "proxyAmoCRMOAuthCallback e c r =
     (let st = Query c ''state''; parts = split_on (CHR ''_'') st in
      if st = [] then (c_error 400 ''no state'' (ib_set r), [])
      else if length parts < 2 then (c_error 400 ''bad state'' (ib_set r), [])
      else let out = \<lparr>ob_method = ''GET'', ob_url = with_query (CrmServiceURL @ ''/oauth/amocrm/callback'') (ib_query r),
                      ob_headers = h_Set ''X-User-Id'' (hd parts) (copy_over (\<lambda>_. True) (ib_headers r)),
                      ob_host = None, ob_body = no_body\<rparr> in
      if \<not> be_parses e out then (c_error 500 ''no request'' (ib_set r), [])
      else (case be_do e out of
              Answered a \<Rightarrow>
                let loc = Header_Get ''Location'' (an_headers a) in
                if an_status a \<in> set [302, 301, 307, 303] \<and> loc \<noteq> []
                  then (c_Redirect (an_status a) loc (ib_set r), [out])
                else (case an_body a of
                        Whole b \<Rightarrow> (c_Data (an_status a) (Header_Get ''Content-Type'' (an_headers a)) (limited_read b)
                                     (copy_back not_cors (an_headers a) (ib_set r)), [out])
                      | _ \<Rightarrow> (c_error 500 ''answer not read'' (ib_set r), [out]))
            | _ \<Rightarrow> (c_error 502 ''no connection to CRM'' (ib_set r), [out])))"

text \<open>
  A caller without an identity is answered 401 by \<open>getUserID\<close>, and the request is sent all the same; what the proxy
  writes afterwards follows that answer. Such a caller does not pass the middleware before this handler.
\<close>

definition proxyCRMRequest :: "back_end \<Rightarrow> gin \<Rightarrow> inbound \<Rightarrow> proxied" where
  "proxyCRMRequest e c r =
     (let url = with_query (CrmServiceURL @ TrimPrefix (ib_path r) ''/crm/api'') (ib_query r);
          bodyBytes = []
      in if \<not> ib_whole r then (c_error 400 ''body not read'' (ib_set r), [])
         else let h = h_Set ''Authorization'' (Header_Get ''Authorization'' (ib_headers r))
                        (h_Set ''Content-Type'' (Header_Get ''Content-Type'' (ib_headers r)) []);
                  h = (case getUserID c of Some u \<Rightarrow> h_Set ''X-User-Id'' (show_uid u) h | None \<Rightarrow> h);
                  out = \<lparr>ob_method = ib_method r, ob_url = url, ob_headers = h, ob_host = None, ob_body = Bytes bodyBytes\<rparr> in
         if \<not> be_parses e out then (c_error 500 ''no request'' (ib_set r), [])
         else if getUserID c = None then (c_error 401 ''unauthorized'' (ib_set r), [out])
         else (case Do e out of
                 Answered a \<Rightarrow>
                   (case an_body a of
                      Whole b \<Rightarrow> (c_Data (an_status a) (Header_Get ''Content-Type'' (an_headers a)) (limited_read b)
                                   (copy_back not_cors (an_headers a) (ib_set r)), [out])
                    | _ \<Rightarrow> (c_error 500 ''answer not read'' (ib_set r), [out]))
               | _ \<Rightarrow> (c_error 502 ''no connection to CRM'' (ib_set r), [out])))"

section \<open>The Avito service\<close>

definition proxyAvitoRequest :: "back_end \<Rightarrow> gin \<Rightarrow> inbound \<Rightarrow> proxied" where
  "proxyAvitoRequest e c r =
     (let q = ParseQuery (ib_query r);
          bodyBytes = [] in
      (case (case map_of (g_keys c) ''userId'' of
               None \<Rightarrow> Some q
             | Some (CtxU32 u) \<Rightarrow> Some (Values_Set ''uid'' (show_uid u) q)
             | Some _ \<Rightarrow> None) of
         None \<Rightarrow> (gin_panicked (ib_set r), [])
       | Some q \<Rightarrow>
           if \<not> ib_whole r then (c_error 400 ''body not read'' (ib_set r), [])
           else let out = \<lparr>ob_method = ib_method r,
                           ob_url = with_query (AvitoBotURL @ TrimPrefix (ib_path r) ''/open'') (Encode q),
                           ob_headers = copy_over own_headers (ib_headers r), ob_host = None, ob_body = Bytes bodyBytes\<rparr> in
           if \<not> be_parses e out then (c_error 500 ''no request'' (ib_set r), [])
           else (case Do e out of
                   Answered a \<Rightarrow>
                     let loc = Header_Get ''Location'' (an_headers a) in
                     if an_status a \<in> set [302, 301, 307, 303] \<and> loc \<noteq> []
                       then (c_Redirect (an_status a) loc (ib_set r), [out])
                     else (case an_body a of
                             Whole b \<Rightarrow> (c_Data (an_status a) (Header_Get ''Content-Type'' (an_headers a)) (limited_read b)
                                          (copy_back not_cors (an_headers a) (ib_set r)), [out])
                           | _ \<Rightarrow> (c_error 500 ''answer not read'' (ib_set r), [out]))
                 | _ \<Rightarrow> (c_error 502 ''no connection to Avito'' (ib_set r), [out]))))"

section \<open>The Telegram bot\<close>

definition not_hop :: "string \<Rightarrow> bool" where
  "not_hop k = (\<not> EqualFold k ''Transfer-Encoding'' \<and> \<not> EqualFold k ''Connection'')"

definition proxyTgBotRequest :: "back_end \<Rightarrow> inbound \<Rightarrow> proxied" where
  "proxyTgBotRequest e r =
     (let out = \<lparr>ob_method = ib_method r, ob_url = TrimRightSlash TgBotURL @ with_query (ib_uri r) (ib_query r),
                 ob_headers = copy_over (\<lambda>_. True) (ib_headers r), ob_host = Some (ib_host r),
                 ob_body = Bytes (ib_bytes r)\<rparr> in
      if \<not> be_parses e out then (c_error 500 ''no request'' (ib_set r), [])
      else (case Do e out of
              Answered a \<Rightarrow>
                (case an_body a of
                   Whole b \<Rightarrow> (c_Data (an_status a) (Header_Get ''Content-Type'' (an_headers a)) b
                                (copy_back not_hop (an_headers a) (ib_set r)), [out])
                 | _ \<Rightarrow> (c_error 500 ''answer not read'' (ib_set r), [out]))
            | _ \<Rightarrow> (c_error 502 ''no connection to tgbot'' (ib_set r), [out])))"

definition proxyTgBotWebhook :: "back_end \<Rightarrow> inbound \<Rightarrow> proxied" where
  "proxyTgBotWebhook e r = proxyTgBotRequest e r"

definition proxyTgBotSetWebhook :: "back_end \<Rightarrow> inbound \<Rightarrow> proxied" where
  "proxyTgBotSetWebhook e r = proxyTgBotRequest e r"

section \<open>The lead service\<close>

definition lead_path :: "string \<Rightarrow> string" where
  "lead_path p = (let p = (if p = [] then ''/'' else p) in if HasPrefix p ''/'' then p else CHR ''/'' # p)"

text \<open>The wildcard of the route comes decoded from the router, and goes undecoded into the address.\<close>

definition proxyServicesRequest :: "back_end \<Rightarrow> gin \<Rightarrow> inbound \<Rightarrow> proxied" where
  "proxyServicesRequest e c r =
     (case map_of (g_keys c) ''userId'' of
        None \<Rightarrow> (c_error 401 ''unauthorized'' (ib_set r), [])
      | Some (CtxU32 u) \<Rightarrow>
          (let q = Values_Set ''uid'' (show_uid u) (Values_Del ''token'' (ParseQuery (ib_query r)));
               out = \<lparr>ob_method = ib_method r,
                      ob_url = with_query (LeadServiceURL @ ''/lead'' @ lead_path (Param c ''path'')) (Encode q),
                      ob_headers = h_Set ''Content-Type'' (Header_Get ''Content-Type'' (ib_headers r)) [],
                      ob_host = None, ob_body = Bytes (ib_bytes r)\<rparr> in
           if \<not> be_parses e out then (c_error 500 ''no request'' (ib_set r), [])
           else (case Do e out of
                   Answered a \<Rightarrow>
                     (case an_body a of
                        Whole b \<Rightarrow> (c_Data (an_status a) (Header_Get ''Content-Type'' (an_headers a)) b
                                     (copy_back not_cors (an_headers a) (ib_set r)), [out])
                      | _ \<Rightarrow> (c_error 500 ''answer not read'' (ib_set r), [out]))
                 | _ \<Rightarrow> (c_error 502 ''no connection to the service'' (ib_set r), [out])))
      | Some _ \<Rightarrow> (gin_panicked (ib_set r), []))"

definition show_int :: "int \<Rightarrow> string" where
  "show_int n = (if n < 0 then CHR ''-'' # show_nat (nat (- n)) else show_nat (nat n))"

definition CallLeadTarget :: "back_end \<Rightarrow> int \<Rightarrow> go_err option \<times> outbound list" where
  "CallLeadTarget e rid =
     (let out = \<lparr>ob_method = ''POST'', ob_url = LeadServiceURL @ ''/lead/target?rid='' @ show_int rid,
                 ob_headers = [], ob_host = None, ob_body = no_body\<rparr> in
      if \<not> be_parses e out then (Some (Msg ''failed to build request''), [])
      else (case Do e out of
              Answered a \<Rightarrow> ((if an_status a < 200 \<or> 300 \<le> an_status a
                              then Some (Msg (''lead_target returned HTTP '' @ show_nat (an_status a))) else None), [out])
            | _ \<Rightarrow> (Some (Msg ''lead_target service unavailable''), [out])))"

definition CallStopForAllUserServices :: "back_end \<Rightarrow> uid \<Rightarrow> go_err option \<times> outbound list" where
  "CallStopForAllUserServices e u =
     (let out = \<lparr>ob_method = ''GET'', ob_url = LeadServiceURL @ ''/stopall?uid='' @ show_uid u,
                 ob_headers = [], ob_host = None, ob_body = no_body\<rparr> in
      if \<not> be_parses e out then (Some (Msg ''no request''), [])
      else (case Do e out of
              Answered a \<Rightarrow> ((if an_status a \<noteq> 200 then Some (Msg (''status '' @ show_nat (an_status a))) else None), [out])
            | _ \<Rightarrow> (Some (Msg ''no answer''), [out])))"

section \<open>Streams\<close>

text \<open>
  The loops that copy a stream: what is read is written and flushed at once. The client takes \<open>left\<close> more writes, or
  any number (\<open>None\<close>). A stream that stops without an end is still open.
\<close>

fun pass_on :: "nat option \<Rightarrow> (string \<times> read_end) list \<Rightarrow> string list" where
  "pass_on left [] = []"
| "pass_on left ((b, fin) # cs) =
     (if b \<noteq> [] \<and> left = Some 0 then []
      else (let left = (if b = [] then left else map_option (\<lambda>n. n - 1) left);
                rest = (case fin of More \<Rightarrow> pass_on left cs | Ended \<Rightarrow> []) in
            if b = [] then rest else b # rest))"

definition c_Stream :: "nat \<Rightarrow> string list \<Rightarrow> (string \<times> string) list \<Rightarrow> web_out" where
  "c_Stream code bs h = \<lparr>wo_status = code, wo_headers = h, wo_body = Chunks bs\<rparr>"

definition proxyWidgetEvents :: "back_end \<Rightarrow> nat option \<Rightarrow> inbound \<Rightarrow> proxied" where
  "proxyWidgetEvents e left r =
     (let out = \<lparr>ob_method = ''GET'', ob_url = TrimRightSlash WidgetBotURL @ with_query (ib_uri r) (ib_query r),
                 ob_headers = h_Set ''Cache-Control'' ''no-cache'' (h_Set ''Accept'' ''text/event-stream''
                   (copy_over own_headers (ib_headers r))), ob_host = None, ob_body = no_body\<rparr> in
      if \<not> be_parses e out then (c_error 500 ''failed to create SSE request'' (ib_set r), [])
      else (case be_stream e out of
              None \<Rightarrow> ((if left = Some 0 then c_Stream 200 [] (ib_set r)
                        else c_error 502 ''failed to connect to widget service'' (ib_set r)), [out])
            | Some a \<Rightarrow>
                (c_Stream (sa_status a) (pass_on left (sa_chunks a))
                   (c_Header ''X-Accel-Buffering'' ''no'' (c_Header ''Connection'' ''keep-alive''
                     (c_Header ''Cache-Control'' ''no-cache'' (c_Header ''Content-Type'' ''text/event-stream''
                       (copy_back (\<lambda>_. True) (sa_headers a) (ib_set r)))))), [out])))"

text \<open>An answer that is no stream is read to its end and passed on in one piece.\<close>

definition line_stream :: "back_end \<Rightarrow> nat option \<Rightarrow> string \<Rightarrow> (string \<times> string) list \<Rightarrow> proxied" where
  "line_stream e left url h =
     (let out = \<lparr>ob_method = ''GET'', ob_url = url, ob_headers = h_Set ''Content-Type'' ''application/json'' [],
                 ob_host = None, ob_body = no_body\<rparr> in
      if \<not> be_parses e out then (c_Stream 200 [] h, [])
      else (case be_stream e out of
              None \<Rightarrow> (c_Stream 200 [] h, [out])
            | Some a \<Rightarrow>
                if sa_status a \<noteq> 200 \<and> sa_status a \<noteq> 204
                then (c_Stream (sa_status a) [concat (pass_on None (sa_chunks a))] h, [out])
                else (c_Stream 200 (pass_on left (sa_chunks a)) h, [out])))"

definition widgetEvent :: "back_end \<Rightarrow> nat option \<Rightarrow> gin \<Rightarrow> inbound \<Rightarrow> proxied" where
  "widgetEvent e left c r =
     line_stream e left (with_query (WidgetBotURL @ ''/widget/events'') (Encode (Values_Set ''token'' (Query c ''token'') [])))
       (c_Header ''Connection'' ''keep-alive'' (c_Header ''Cache-Control'' ''no-cache''
         (c_Header ''Content-Type'' ''text/event-stream'' (ib_set r))))"

definition payHandlePaymentStatusSSE :: "back_end \<Rightarrow> nat option \<Rightarrow> gin \<Rightarrow> inbound \<Rightarrow> proxied" where
  "payHandlePaymentStatusSSE e left c r = with_user c r (\<lambda>u.
     line_stream e left (with_query (PAYURL @ ''/pay/payment-status-stream'') (order_query (Query c ''orderId'') u))
       (c_Header ''Transfer-Encoding'' ''chunked'' (c_Header ''X-Accel-Buffering'' ''no'' (c_Header ''Connection'' ''keep-alive''
         (c_Header ''Cache-Control'' ''no-cache, no-store, must-revalidate''
           (c_Header ''Content-Type'' ''text/event-stream; charset=utf-8'' (ib_set r)))))))"

end
