(* ===== verification/ProxiesProps.thy ===== *)
theory ProxiesProps
  imports Proxies
begin

text \<open>
  What the proxies tell the other services. The caller named to the lead service is the caller, unless the path holds a
  question mark; Avito's service takes anybody's word for who is calling; the bodies of requests to Avito and the CRM
  never arrive; a stream is passed on in order.
\<close>

section \<open>The front of a request\<close>

definition front :: "inbound \<Rightarrow> http_req" where
  "front r = \<lparr>rq_method = ib_method r, rq_upgrade = False,
     rq_headers = map (\<lambda>(k, vs). (k, Header_Get k [(k, vs)])) (ib_headers r),
     rq_gin = \<lparr>g_keys = [], g_query = map (\<lambda>(k, vs). (k, Values_Get k [(k, vs)])) (ParseQuery (ib_query r)),
               g_param = ib_params r\<rparr>\<rparr>"

definition answered :: "response \<Rightarrow> (string \<times> string) list \<Rightarrow> web_out" where
  "answered a h = \<lparr>wo_status = rs_status a, wo_headers = typed ''application/json; charset=utf-8'' h, wo_body = Doc (rs_body a)\<rparr>"

text \<open>A route behind \<open>authAllowMiddleware\<close>: the group of \<open>avitoRoutes\<close>.\<close>

definition behind_auth :: "('e) web_env_scheme \<Rightarrow> (gin \<Rightarrow> inbound \<Rightarrow> proxied) \<Rightarrow> inbound \<Rightarrow> 'a web2_st_scheme
    \<Rightarrow> proxied \<times> 'a web2_st_scheme" where
  "behind_auth ew f r w =
     (case authAllowMiddleware ew (front r) w of
        (Inl a, w) \<Rightarrow> ((answered a (ib_set r), []), w)
      | (Inr c, w) \<Rightarrow> (f c r, w))"

definition anonymous :: "inbound \<Rightarrow> bool" where
  "anonymous r = (extractToken (front r) = [])"

section \<open>What the other side reads\<close>

lemma seen_query_plain:
  assumes "CHR ''?'' \<notin> set path" "CHR ''#'' \<notin> set path" "distinct (map fst m)"
  shows "values_of k (seen_query (with_query path (Encode m))) = values_of k m"
proof (cases "Encode m = []")
  case True
  have "values_of k (ParseQuery (Encode m)) = values_of k m" using values_read_back assms(3) .
  moreover have "seen_query path = ParseQuery []"
    using assms(1,2) by (simp add: seen_query_def requested_def cut_at_none)
  ultimately show ?thesis using True by (simp add: with_query_def)
next
  case False
  then show ?thesis using seen_query_of [OF assms] by (simp add: with_query_def)
qed

lemma TrimPrefix_subset: "set (TrimPrefix s p) \<subseteq> set s"
  by (auto simp: TrimPrefix_def dest: in_set_dropD)

lemma plain_addresses:
  "d \<in> set ''?#'' \<Longrightarrow> d \<notin> set AvitoBotURL" "d \<in> set ''?#'' \<Longrightarrow> d \<notin> set LeadServiceURL"
  by (auto simp: AvitoBotURL_def LeadServiceURL_def)

lemma avito_sends:
  assumes "map_of (g_keys c) ''userId'' = None" "ib_whole r" "\<And>out. be_parses e out"
    and "CHR ''?'' \<notin> set (ib_path r)" "CHR ''#'' \<notin> set (ib_path r)"
  shows "\<exists>out. snd (proxyAvitoRequest e c r) = [out]
    \<and> (\<forall>k. values_of k (seen_query (ob_url out)) = values_of k (ParseQuery (ib_query r)))"
proof -
  let ?p = "AvitoBotURL @ TrimPrefix (ib_path r) ''/open''"
  have "CHR ''?'' \<notin> set ?p" "CHR ''#'' \<notin> set ?p"
    using assms(4,5) TrimPrefix_subset [of "ib_path r" "''/open''"] plain_addresses(1) by auto
  then have v: "values_of k (seen_query (with_query ?p (Encode (ParseQuery (ib_query r))))) = values_of k (ParseQuery (ib_query r))" for k
    using seen_query_plain by simp
  have "map ob_url (snd (proxyAvitoRequest e c r)) = [with_query ?p (Encode (ParseQuery (ib_query r)))]"
    using assms(1-3) by (simp add: proxyAvitoRequest_def Let_def split: sent.split arrived.split)
  then show ?thesis using v by (auto simp: map_eq_Cons_conv)
qed

text \<open>C15: The service of Avito can be told any user by anybody. A POST without a token passes the middleware, which leaves
  the check to a handler that expects the token in the body; the proxy only replaces the parameter uid when the
  middleware has found a user, and here passes on the one the caller has written. Whatever user is named in the query of
  an anonymous POST, say to disconnect an account, the service reads that user, and nothing is counted or refused.\<close>

theorem anonymous_post_acts_as_anyone:
  assumes "ib_method r = ''POST''" "ib_params r = []" "anonymous r"
    and "Values_Get ''uid'' (ParseQuery (ib_query r)) = show_uid victim"
    and "ib_whole r" "\<And>out. be_parses e out" "CHR ''?'' \<notin> set (ib_path r)" "CHR ''#'' \<notin> set (ib_path r)"
  shows "\<exists>out. behind_auth ew (proxyAvitoRequest e) r w = ((fst (proxyAvitoRequest e (set_key ''rateLimitCheck'' CtxOther (rq_gin (front r))) r), [out]), w)
    \<and> Values_Get ''uid'' (seen_query (ob_url out)) = show_uid victim"
proof -
  let ?c = "set_key ''rateLimitCheck'' CtxOther (rq_gin (front r))"
  have m: "authAllowMiddleware ew (front r) w = (Inr ?c, w)"
    using assms(1-3) by (simp add: authAllowMiddleware_def anonymous_def front_def Let_def)
  have k: "map_of (g_keys ?c) ''userId'' = None"
    by (simp add: set_key_def front_def)
  obtain out where out: "snd (proxyAvitoRequest e ?c r) = [out]"
      "\<forall>k. values_of k (seen_query (ob_url out)) = values_of k (ParseQuery (ib_query r))"
    using avito_sends [OF k assms(5,6,7,8)] by blast
  have g: "Values_Get k q = (case values_of k q of v # _ \<Rightarrow> v | [] \<Rightarrow> [])" for k q
    by (simp add: Values_Get_def values_of_def split: option.split list.split)
  have "Values_Get ''uid'' (seen_query (ob_url out)) = show_uid victim"
    using out(2) assms(4) unfolding g by simp
  moreover have "behind_auth ew (proxyAvitoRequest e) r w = ((fst (proxyAvitoRequest e ?c r), [out]), w)"
    using out(1) by (simp add: behind_auth_def m prod_eq_iff)
  ultimately show ?thesis by blast
qed

section \<open>The lead service\<close>

lemma lead_sends:
  assumes "map_of (g_keys c) ''userId'' = Some (CtxU32 u)" "\<And>out. be_parses e out"
  shows "map ob_url (snd (proxyServicesRequest e c r)) =
    [with_query (LeadServiceURL @ ''/lead'' @ lead_path (Param c ''path''))
       (Encode (Values_Set ''uid'' (show_uid u) (Values_Del ''token'' (ParseQuery (ib_query r)))))]"
  using assms by (simp add: proxyServicesRequest_def Let_def split: sent.split arrived.split)

lemma lead_path_chars: "set (lead_path p) \<subseteq> insert (CHR ''/'') (set p)"
  by (auto simp: lead_path_def Let_def)

text \<open>C38: A request to the lead service names its caller: as long as the path holds neither a question mark nor a hash,
  the service reads exactly one uid, the user of the token, no token, and every other parameter as the client has
  sent it, in all its values.\<close>

theorem lead_service_is_told_the_caller:
  assumes "map_of (g_keys c) ''userId'' = Some (CtxU32 u)" "\<And>out. be_parses e out"
    and "CHR ''?'' \<notin> set (Param c ''path'')" "CHR ''#'' \<notin> set (Param c ''path'')"
  shows "map (\<lambda>out. values_of k (seen_query (ob_url out))) (snd (proxyServicesRequest e c r)) =
    [if k = ''uid'' then [show_uid u] else if k = ''token'' then [] else values_of k (ParseQuery (ib_query r))]"
proof -
  let ?p = "LeadServiceURL @ ''/lead'' @ lead_path (Param c ''path'')"
  have "CHR ''?'' \<notin> set ?p" "CHR ''#'' \<notin> set ?p"
    using assms(3,4) lead_path_chars [of "Param c ''path''"] plain_addresses(2) by auto
  then have "values_of k (seen_query (with_query ?p (Encode (Values_Set ''uid'' (show_uid u)
      (Values_Del ''token'' (ParseQuery (ib_query r))))))) = values_of k (Values_Set ''uid'' (show_uid u)
      (Values_Del ''token'' (ParseQuery (ib_query r))))"
    by (intro seen_query_plain) simp_all
  moreover have "map (\<lambda>out. values_of k (seen_query (ob_url out))) outs = map (\<lambda>u. values_of k (seen_query u)) (map ob_url outs)" for outs
    by simp
  from this [of "snd (proxyServicesRequest e c r)"] calculation show ?thesis
    unfolding lead_sends [OF assms(1,2)] by (simp add: values_of_Set values_of_Del)
qed

lemma first_value_stays:
  "map_of m k = Some (v # vs) \<Longrightarrow> Values_Get k (fold parse_pair ps m) = v"
proof (induction ps arbitrary: m vs)
  case (Cons p ps)
  have "\<exists>ws. map_of (add_value j x m) k = Some (v # ws)" for j x
    using Cons.prems by (auto simp: map_of_add_value values_of_def)
  then have "\<exists>ws. map_of (parse_pair p m) k = Some (v # ws)"
    using Cons.prems by (auto simp: parse_pair_def split: prod.split option.split)
  then show ?case using Cons.IH by auto
qed (simp add: Values_Get_def)

lemma split_on_first: "d \<notin> set x \<Longrightarrow> split_on d (x @ d # r) = x # split_on d r"
  by (induction x) auto

lemma QueryEscape_unescaped: "\<forall>c\<in>set s. unescaped c \<Longrightarrow> QueryEscape s = s"
  by (induction s) (simp_all add: QueryEscape_def)

lemma show_uid_unescaped: "QueryEscape (show_uid u) = show_uid u"
proof (rule QueryEscape_unescaped, rule ballI)
  fix c assume "c \<in> set (show_uid u)"
  then have "is_digit c" using show_nat_digits by (simp add: show_uid_def)
  then show "unescaped c" by (simp add: unescaped_def is_digit_def Let_def)
qed

text \<open>C16: The path can name another user to the lead service. The router hands the handler the decoded rest of the path
  and the handler writes it as it is into the address, so an escaped question mark in the path begins the query string
  there. A request whose path ends in a question mark, a uid and one more parameter that swallows the handler's own
  question mark makes the service read the user of the caller's choice, whoever holds the token.\<close>

theorem lead_service_is_told_another:
  assumes "map_of (g_keys c) ''userId'' = Some (CtxU32 u)" "\<And>out. be_parses e out"
    and "Param c ''path'' = CHR ''/'' # p @ ''?uid='' @ show_uid victim @ ''&a=''"
    and "CHR ''?'' \<notin> set p" "CHR ''#'' \<notin> set p"
  shows "map (\<lambda>out. Values_Get ''uid'' (seen_query (ob_url out))) (snd (proxyServicesRequest e c r)) = [show_uid victim]"
proof -
  let ?q = "Encode (Values_Set ''uid'' (show_uid u) (Values_Del ''token'' (ParseQuery (ib_query r))))"
  let ?head = "LeadServiceURL @ ''/lead'' @ CHR ''/'' # p"
  let ?pair = "pair_text (''uid'', show_uid victim)"
  obtain rest where rest: "with_query (LeadServiceURL @ ''/lead'' @ lead_path (Param c ''path'')) ?q
      = ?head @ CHR ''?'' # ?pair @ CHR ''&'' # rest" "CHR ''#'' \<notin> set rest"
  proof
    have "QueryEscape ''uid'' = ''uid''" by code_simp
    then have "?pair = ''uid='' @ show_uid victim" by (simp add: pair_text_def show_uid_unescaped)
    then show "with_query (LeadServiceURL @ ''/lead'' @ lead_path (Param c ''path'')) ?q
        = ?head @ CHR ''?'' # ?pair @ CHR ''&'' # (''a='' @ (if ?q = [] then [] else CHR ''?'' # ?q))"
      by (simp add: with_query_def assms(3) lead_path_def Let_def)
    show "CHR ''#'' \<notin> set (''a='' @ (if ?q = [] then [] else CHR ''?'' # ?q))"
      using Encode_plain [of "CHR ''#''"] by simp
  qed
  have "CHR ''?'' \<notin> set ?head" "CHR ''#'' \<notin> set ?head"
    using assms(4,5) plain_addresses(2) by auto
  moreover have "CHR ''#'' \<notin> set ?pair" by (rule pair_text_plain) simp
  ultimately have "requested (?head @ CHR ''?'' # ?pair @ CHR ''&'' # rest) = (?head, ?pair @ CHR ''&'' # rest)"
    using rest(2) cut_at_here [of "CHR ''?''" ?head] by (simp add: requested_def cut_at_none)
  moreover have "split_on (CHR ''&'') (?pair @ CHR ''&'' # rest) = ?pair # split_on (CHR ''&'') rest"
    by (rule split_on_first, rule pair_text_plain) simp
  ultimately have "seen_query (?head @ CHR ''?'' # ?pair @ CHR ''&'' # rest)
      = fold parse_pair (split_on (CHR ''&'') rest) (add_value ''uid'' (show_uid victim) [])"
    by (simp add: seen_query_def ParseQuery_def parse_pair_text)
  moreover have "map_of (add_value ''uid'' (show_uid victim) []) ''uid'' = Some [show_uid victim]"
    by (simp add: add_value_def)
  ultimately have "Values_Get ''uid'' (seen_query (?head @ CHR ''?'' # ?pair @ CHR ''&'' # rest)) = show_uid victim"
    using first_value_stays by simp
  moreover have "map (\<lambda>out. Values_Get ''uid'' (seen_query (ob_url out))) outs
      = map (\<lambda>u. Values_Get ''uid'' (seen_query u)) (map ob_url outs)" for outs by simp
  from this [of "snd (proxyServicesRequest e c r)"] calculation show ?thesis
    unfolding lead_sends [OF assms(1,2)] rest(1) by simp
qed

section \<open>Bodies\<close>

text \<open>The body of a request to Avito's service or to the CRM never arrives: what these proxies send and answer does not
  depend on it. Each reads the body into a variable of an inner block and builds its request from the outer one.\<close>

theorem bodies_never_arrive:
  "proxyAvitoRequest e c (r\<lparr>ib_bytes := b\<rparr>) = proxyAvitoRequest e c r
   \<and> proxyCRMRequest e c (r\<lparr>ib_bytes := b\<rparr>) = proxyCRMRequest e c r
   \<and> proxyCRMPublicRequest e (r\<lparr>ib_bytes := b\<rparr>) = proxyCRMPublicRequest e r"
  by (cases r) (simp only: proxyAvitoRequest_def proxyCRMRequest_def proxyCRMPublicRequest_def
    inbound.update_convs inbound.select_convs simp_thms)

text \<open>The other proxies do pass it on.\<close>

lemma webhook_body_arrives:
  "be_parses e \<lparr>ob_method = ib_method r, ob_url = TrimRightSlash TgBotURL @ with_query (ib_uri r) (ib_query r),
     ob_headers = copy_over (\<lambda>_. True) (ib_headers r), ob_host = Some (ib_host r), ob_body = Bytes (ib_bytes r)\<rparr>
   \<Longrightarrow> map ob_body (snd (proxyTgBotRequest e r)) = [Bytes (ib_bytes r)]"
  by (simp add: proxyTgBotRequest_def Let_def split: sent.split arrived.split)

section \<open>Redirects\<close>

text \<open>
  The library follows redirects on its own in the Avito proxy, so the branch that would send the browser on is never
  taken; the CRM's callback asks for the last response and does send it on.
\<close>

lemma redirect_branch_is_dead:
  assumes "follows_to_the_end e" "Do e out = Answered a"
  shows "\<not> (an_status a \<in> set [302, 301, 307, 303] \<and> Header_Get ''Location'' (an_headers a) \<noteq> [])"
proof -
  have "\<not> redirects a"
    using assms by (auto simp: Do_def follows_to_the_end_def split: sent.splits if_splits)
  then show ?thesis by (auto simp: redirects_def)
qed

section \<open>The callback of amoCRM\<close>

text \<open>The callback is public, and the user the CRM is told is the first part of a text the caller writes.\<close>

lemma callback_names_any_user:
  assumes "Query c ''state'' = v @ CHR ''_'' # t" "CHR ''_'' \<notin> set v" "\<And>out. be_parses e out"
  shows "map (\<lambda>out. Header_Get ''X-User-Id'' (ob_headers out)) (snd (proxyAmoCRMOAuthCallback e c r)) = [v]"
proof -
  have "split_on (CHR ''_'') (v @ CHR ''_'' # t) = v # split_on (CHR ''_'') t" using split_on_first assms(2) .
  moreover have "split_on (CHR ''_'') t \<noteq> []" by simp
  ultimately show ?thesis using assms(1,3)
    by (cases "split_on (CHR ''_'') t")
      (simp_all add: proxyAmoCRMOAuthCallback_def Header_Get_def h_Set_def Let_def update_conv' split: sent.split arrived.split)
qed

text \<open>With an identity the CRM is told that identity and nothing the client has written.\<close>

lemma crm_is_told_the_caller:
  assumes "getUserID c = Some u" "\<And>out. be_parses e out" "ib_whole r"
  shows "map (\<lambda>out. Header_Get ''X-User-Id'' (ob_headers out)) (snd (proxyCRMRequest e c r)) = [show_uid u]"
  using assms by (simp add: proxyCRMRequest_def Header_Get_def h_Set_def Let_def update_conv' split: sent.split arrived.split)

section \<open>Headers of an answer\<close>

text \<open>Of several values of one header only the last comes through.\<close>

lemma last_value_wins: "v \<noteq> [] \<Longrightarrow> map_of (fold (c_Header k) (vs @ [v]) h) k = Some v"
  by (simp add: c_Header_def update_conv')

lemma second_cookie_only:
  "map_of (copy_back (\<lambda>_. True) [(''Set-Cookie'', [''a=1'', ''b=2''])] []) ''Set-Cookie'' = Some ''b=2''"
  by code_simp

section \<open>Streams\<close>

fun until_end :: "(string \<times> read_end) list \<Rightarrow> string list" where
  "until_end [] = []"
| "until_end ((b, More) # cs) = b # until_end cs"
| "until_end ((b, Ended) # cs) = [b]"

text \<open>What a stream delivers: the parts up to its end, empty ones left out, as many as the client takes.\<close>

lemma stream_is_passed_on:
  "pass_on left cs = (let bs = filter (\<lambda>b. b \<noteq> []) (until_end cs) in case left of None \<Rightarrow> bs | Some n \<Rightarrow> take n bs)"
proof (induction cs arbitrary: left rule: until_end.induct)
  case (2 b cs)
  show ?case using 2 [of left] 2 [of "map_option (\<lambda>n. n - 1) left"]
    by (cases left) (auto simp: Let_def take_Cons split: nat.split)
next
  case (3 b cs)
  show ?case by (cases left) (auto simp: take_Cons split: nat.split)
qed (auto split: option.split)

end
