(* ===== verification/Bridges.thy ===== *)
theory Bridges
  imports Proxies
begin

text \<open>
  The WebSockets the server bridges to other services: \<open>proxyWebSocket\<close> and its callers and \<open>ServiceStartWSS\<close> of
  \<open>delivery/http/services.go\<close>, \<open>tguser.go\<close> and \<open>whats.go\<close>. Two goroutines copy the frames, one in each direction; the
  handler waits for one of them and closes both connections when it returns. A message is a decoded JSON object or any
  other text; writing to a side that has left fails.
\<close>

section \<open>Frames\<close>

datatype ws_msg = Document "(string \<times> json) list" | Opaque string

record socket_frame =
  fr_type :: nat
  fr_msg :: ws_msg

datatype ws_event = FromClient socket_frame | FromServer socket_frame | ClientLeaves | ServerLeaves

text \<open>The messages that name a user are given the one the server knows.\<close>

definition name_user :: "uid \<Rightarrow> socket_frame \<Rightarrow> socket_frame" where
  "name_user u f =
     (case fr_msg f of
        Document d \<Rightarrow>
          if map_of d ''type'' \<in> set [Some (JStr ''auth_data''), Some (JStr ''init'')]
          then f\<lparr>fr_msg := Document (AList.update ''user_id'' (JInt (uint u)) d)\<rparr> else f
      | Opaque _ \<Rightarrow> f)"

definition upgrade_protocols :: "string \<Rightarrow> string list" where
  "upgrade_protocols h = (if h = [] then [] else filter (\<lambda>t. t \<noteq> []) (map TrimSpace (split_on (CHR '','') h)))"

section \<open>The two goroutines\<close>

record bridge =
  br_to_client :: "socket_frame list"
  br_to_server :: "socket_frame list"
  br_client :: bool              \<comment> \<open>the client is connected\<close>
  br_server :: bool
  br_up :: bool                  \<comment> \<open>the goroutine from the client to the service runs\<close>
  br_down :: bool
  br_done :: bool                \<comment> \<open>the handler returns\<close>

definition stop_up :: "bool \<Rightarrow> bridge \<Rightarrow> bridge" where
  "stop_up by_client b = b\<lparr>br_up := False, br_done := br_done b \<or> by_client\<rparr>"

definition stop_down :: "bool \<Rightarrow> bridge \<Rightarrow> bridge" where
  "stop_down by_client b = b\<lparr>br_down := False, br_done := br_done b \<or> \<not> by_client\<rparr>"

text \<open>\<open>by_client\<close>: the handler waits for the goroutine that reads the client. Reading from a side that has left fails.\<close>

definition bridge_step :: "bool \<Rightarrow> (socket_frame \<Rightarrow> socket_frame) \<Rightarrow> bridge \<Rightarrow> ws_event \<Rightarrow> bridge" where
  "bridge_step by_client edit b ev =
     (if br_done b then b
      else (case ev of
              FromClient f \<Rightarrow>
                if \<not> br_up b \<or> \<not> br_client b then b
                else if br_server b then b\<lparr>br_to_server := br_to_server b @ [edit f]\<rparr>
                else stop_up by_client b
            | FromServer f \<Rightarrow>
                if \<not> br_down b \<or> \<not> br_server b then b
                else if br_client b then b\<lparr>br_to_client := br_to_client b @ [f]\<rparr>
                else stop_down by_client b
            | ClientLeaves \<Rightarrow>
                let b = b\<lparr>br_client := False\<rparr> in if br_up b then stop_up by_client b else b
            | ServerLeaves \<Rightarrow>
                let b = b\<lparr>br_server := False\<rparr> in if br_down b then stop_down by_client b else b))"

definition bridged :: "bool \<Rightarrow> (socket_frame \<Rightarrow> socket_frame) \<Rightarrow> bridge \<Rightarrow> ws_event list \<Rightarrow> bridge" where
  "bridged by_client edit b evs = foldl (bridge_step by_client edit) b evs"

definition ws_opened :: bridge where
  "ws_opened = \<lparr>br_to_client = [], br_to_server = [], br_client = True, br_server = True, br_up = True, br_down = True,
     br_done = False\<rparr>"

section \<open>The handlers\<close>

record ws_env =
  we_upgrades :: bool
  we_dials :: "string \<Rightarrow> bool"

datatype ws_result = Unauthorized | NotUpgraded | NoService string | Over bridge

definition LeadServiceWS :: string where "LeadServiceWS = ''ws://hunter:8080''"

definition proxyWebSocket :: "ws_env \<Rightarrow> string \<Rightarrow> uid \<Rightarrow> ws_event list \<Rightarrow> ws_result" where
  "proxyWebSocket e url u evs =
     (if \<not> we_upgrades e then NotUpgraded
      else if \<not> we_dials e url then NoService ''Service unavailable''
      else Over (bridged True (name_user u) ws_opened evs))"

definition for_user :: "gin \<Rightarrow> (uid \<Rightarrow> ws_result) \<Rightarrow> ws_result" where
  "for_user c f = (case getUserID c of None \<Rightarrow> Unauthorized | Some u \<Rightarrow> f u)"

definition ServiceAddTgAk :: "ws_env \<Rightarrow> gin \<Rightarrow> ws_event list \<Rightarrow> ws_result" where
  "ServiceAddTgAk e c evs = for_user c (\<lambda>u.
     proxyWebSocket e (LeadServiceWS @ ''/lead/ws/telegram/auth?uid='' @ show_uid u) u evs)"

definition ServiceAddWaAk :: "ws_env \<Rightarrow> gin \<Rightarrow> ws_event list \<Rightarrow> ws_result" where
  "ServiceAddWaAk e c evs = for_user c (\<lambda>u.
     proxyWebSocket e (LeadServiceWS @ ''/lead/ws/whatsapp/auth?uid='' @ show_uid u) u evs)"

definition ServiceEventWSS :: "ws_env \<Rightarrow> gin \<Rightarrow> ws_event list \<Rightarrow> ws_result" where
  "ServiceEventWSS e c evs = for_user c (\<lambda>u.
     proxyWebSocket e (LeadServiceWS @ ''/lead/ws/events?uid='' @ show_uid u) u evs)"

text \<open>
  The service speaks first: its question is read and dropped, the user is named, and from then on frames only go to the
  client. Frames that are no JSON object end the goroutine that reads them. \<open>None\<close>: the service is gone before it asks.
\<close>

definition init_frame :: "uid \<Rightarrow> socket_frame" where
  "init_frame u = \<lparr>fr_type = 1, fr_msg = Document [(''type'', JStr ''init''), (''user_id'', JInt (uint u))]\<rparr>"

definition is_document :: "ws_event \<Rightarrow> bool" where
  "is_document ev = (case ev of FromServer f \<Rightarrow> (case fr_msg f of Document _ \<Rightarrow> True | Opaque _ \<Rightarrow> False) | _ \<Rightarrow> False)"

definition awaited :: "ws_event \<Rightarrow> bool" where
  "awaited ev = (case ev of FromServer f \<Rightarrow> True | ServerLeaves \<Rightarrow> True | _ \<Rightarrow> False)"

definition json_only :: "ws_event \<Rightarrow> ws_event" where
  "json_only ev = (case ev of FromServer _ \<Rightarrow> if is_document ev then ev else ServerLeaves | _ \<Rightarrow> ev)"

definition ServiceStartWSS :: "ws_env \<Rightarrow> gin \<Rightarrow> ws_event list \<Rightarrow> ws_result" where
  "ServiceStartWSS e c evs = for_user c (\<lambda>u.
     if \<not> we_upgrades e then NotUpgraded
     else if \<not> we_dials e (LeadServiceWS @ ''/lead/ws/start?uid='' @ show_uid u) then NoService ''Service unavailable''
     else (case dropWhile (\<lambda>ev. \<not> awaited ev) evs of
             ev # rest \<Rightarrow>
               if is_document ev
               then Over (bridged False id (ws_opened\<lparr>br_up := False, br_to_server := [init_frame u],
                      br_client := ClientLeaves \<notin> set (takeWhile (\<lambda>ev. \<not> awaited ev) evs)\<rparr>) (map json_only rest))
               else Over (ws_opened\<lparr>br_done := True\<rparr>)
           | [] \<Rightarrow> Over ws_opened))"

text \<open>The four bridges of the user bots of Telegram and WhatsApp: nothing is edited, and the service ends them.\<close>

definition user_bridge :: "ws_env \<Rightarrow> string \<Rightarrow> ws_event list \<Rightarrow> ws_result" where
  "user_bridge e url evs =
     (if \<not> we_upgrades e then NotUpgraded
      else if \<not> we_dials e url then NoService ''failed to connect to backend service''
      else Over (bridged False id ws_opened evs))"

definition TgAuthWebSocket :: "ws_env \<Rightarrow> gin \<Rightarrow> ws_event list \<Rightarrow> ws_result" where
  "TgAuthWebSocket e c evs = for_user c (\<lambda>u. user_bridge e (''ws://tguserbot:8080/tguser/ws?uid='' @ show_uid u) evs)"

definition TgGetContactsWS :: "ws_env \<Rightarrow> gin \<Rightarrow> ws_event list \<Rightarrow> ws_result" where
  "TgGetContactsWS e c evs = for_user c (\<lambda>u. user_bridge e (''ws://tguserbot:8080/tguser/contacts/ws?uid='' @ show_uid u) evs)"

text \<open>This one reads the key itself; a value that is no user identifier would be printed as it is.\<close>

definition WaAuthWebSocket :: "ws_env \<Rightarrow> gin \<Rightarrow> ws_event list \<Rightarrow> ws_result" where
  "WaAuthWebSocket e c evs =
     (case map_of (g_keys c) ''userId'' of
        None \<Rightarrow> Unauthorized
      | Some v \<Rightarrow> user_bridge e (''ws://whatsbot:8080/whats/ws?uid=''
          @ (case v of CtxU32 u \<Rightarrow> show_uid u | CtxU64 n \<Rightarrow> show_nat (unat n) | CtxStr s \<Rightarrow> s | CtxOther \<Rightarrow> [])) evs)"

definition WaGetContactsWS :: "ws_env \<Rightarrow> gin \<Rightarrow> ws_event list \<Rightarrow> ws_result" where
  "WaGetContactsWS e c evs = for_user c (\<lambda>u. user_bridge e (''ws://whatsbot:8080/whats/contacts/ws?uid='' @ show_uid u) evs)"

section \<open>Who is named\<close>

definition names_user :: "uid \<Rightarrow> socket_frame \<Rightarrow> bool" where
  "names_user u f =
     (case fr_msg f of
        Document d \<Rightarrow> map_of d ''type'' \<in> set [Some (JStr ''auth_data''), Some (JStr ''init'')]
          \<longrightarrow> map_of d ''user_id'' = Some (JInt (uint u))
      | Opaque _ \<Rightarrow> True)"

lemma name_user_names: "names_user u (name_user u f)"
  by (auto simp: names_user_def name_user_def update_conv' split: ws_msg.split)

lemma bridge_step_to_server:
  "br_to_server (bridge_step by_client edit b ev) = br_to_server b
   \<or> (\<exists>f. br_to_server (bridge_step by_client edit b ev) = br_to_server b @ [edit f])"
  by (cases ev) (auto simp: bridge_step_def stop_up_def stop_down_def Let_def)

lemma bridged_to_server:
  "\<forall>f. P (edit f) \<Longrightarrow> list_all P (br_to_server b) \<Longrightarrow> list_all P (br_to_server (bridged by_client edit b evs))"
proof (induction evs arbitrary: b)
  case (Cons ev evs)
  have "list_all P (br_to_server (bridge_step by_client edit b ev))"
    using Cons.prems bridge_step_to_server [of by_client edit b ev] by auto
  then show ?case using Cons.IH Cons.prems(1) by (simp add: bridged_def)
qed (simp add: bridged_def)

text \<open>Whatever a client writes into the WebSocket to the lead service, a message by which a session names its user,
  auth_data or init, arrives there with the user of the token.\<close>

theorem lead_socket_names_the_user:
  assumes "proxyWebSocket e url u evs = Over b"
  shows "list_all (names_user u) (br_to_server b)"
proof -
  have "b = bridged True (name_user u) ws_opened evs"
    using assms by (simp add: proxyWebSocket_def split: if_splits)
  then show ?thesis using bridged_to_server [of "names_user u" "name_user u" ws_opened] name_user_names
    by (simp add: ws_opened_def)
qed

section \<open>When a bridge ends\<close>

lemma bridged_simps [simp]:
  "bridged by_client edit b [] = b"
  "bridged by_client edit b (ev # evs) = bridged by_client edit (bridge_step by_client edit b ev) evs"
  by (simp_all add: bridged_def)

lemma bridged_done [simp]: "br_done b \<Longrightarrow> bridged by_client edit b evs = b"
  by (induction evs) (simp_all add: bridge_step_def)

lemma service_gone:
  assumes "\<not> br_done b" "br_up b" "br_client b" "\<not> br_server b"
  shows "br_done (bridged True edit b evs) \<longleftrightarrow> (\<exists>ev\<in>set evs. ev = ClientLeaves \<or> (\<exists>f. ev = FromClient f))"
  using assms
proof (induction evs arbitrary: b)
  case (Cons ev evs)
  then show ?case
    by (cases ev) (auto simp: bridge_step_def stop_up_def stop_down_def Let_def)
qed simp

definition after_leaving :: "ws_event list \<Rightarrow> ws_event list" where
  "after_leaving evs = tl (dropWhile (\<lambda>ev. ev \<noteq> ServerLeaves) evs)"

lemma service_here:
  assumes "\<not> br_done b" "br_up b" "br_client b" "br_server b"
  shows "br_done (bridged True edit b evs) \<longleftrightarrow> ClientLeaves \<in> set evs \<or> (\<exists>f. FromClient f \<in> set (after_leaving evs))"
  using assms
proof (induction evs arbitrary: b)
  case Nil
  then show ?case by (simp add: after_leaving_def)
next
  case (Cons ev evs)
  show ?case
  proof (cases ev)
    case ServerLeaves
    let ?b = "bridge_step True edit b ServerLeaves"
    have "\<not> br_done ?b" "br_up ?b" "br_client ?b" "\<not> br_server ?b"
      using Cons.prems by (simp_all add: bridge_step_def stop_down_def Let_def)
    then show ?thesis using service_gone [of ?b edit evs] ServerLeaves by (auto simp: after_leaving_def)
  next
    case ClientLeaves
    then show ?thesis using Cons.prems by (simp add: bridge_step_def stop_up_def Let_def)
  next
    case (FromClient f)
    then show ?thesis using Cons.prems Cons.IH by (simp add: bridge_step_def after_leaving_def)
  next
    case (FromServer f)
    then show ?thesis using Cons.prems Cons.IH by (simp add: bridge_step_def after_leaving_def)
  qed
qed

text \<open>A WebSocket to the lead service ends if and only if the client leaves or writes again after the service has gone.
  The departure of the service alone is not noticed: the handler waits for the goroutine that reads the client, and the
  client is told nothing.\<close>

theorem lead_socket_ends_by_client:
  "proxyWebSocket e url u evs = Over b \<Longrightarrow>
   br_done b \<longleftrightarrow> ClientLeaves \<in> set evs \<or> (\<exists>f. FromClient f \<in> set (after_leaving evs))"
proof -
  assume "proxyWebSocket e url u evs = Over b"
  then have "b = bridged True (name_user u) ws_opened evs" by (simp add: proxyWebSocket_def split: if_splits)
  then show ?thesis using service_here [of ws_opened "name_user u" evs] by (simp add: ws_opened_def)
qed

text \<open>The other way round at the bridges of the user bots: a client that leaves is not noticed before the service speaks.\<close>

lemma client_gone_unnoticed:
  assumes "user_bridge e url evs = Over b" "\<forall>ev\<in>set evs. ev = ClientLeaves \<or> (\<exists>f. ev = FromClient f)"
  shows "\<not> br_done b"
proof -
  have "\<not> br_done a \<Longrightarrow> \<not> br_done (bridged False id a evs)" for a
    using assms(2)
    by (induction evs arbitrary: a) (auto simp: bridge_step_def stop_up_def Let_def)
  moreover have "b = bridged False id ws_opened evs" using assms(1) by (simp add: user_bridge_def split: if_splits)
  ultimately show ?thesis by (simp add: ws_opened_def)
qed

end
