(* ===== verification/Routes.thy ===== *)
theory Routes
  imports Gate
begin

text \<open>
  The routes of \<open>delivery/http/server.go\<close>: every group's registrations in the order of the code, with the middleware
  each route gets. In the router a group starts with the middleware its parent has when the group is made, and \<open>Use\<close>
  reaches only what is registered after it. \<open>Any\<close> stands for all methods. A parameter is part of a path
  beginning with a colon or a star.
\<close>

datatype middleware = Metrics | Tracing | Cors | Auth | DevOnly | CrmAuth

datatype reg = Use "middleware list" | Route string string string | Group string "reg list"

record route =
  rt_method :: string
  rt_path :: string
  rt_handler :: string
  rt_guards :: "middleware list"

fun register :: "string \<Rightarrow> middleware list \<Rightarrow> reg list \<Rightarrow> route list" where
  "register p ms [] = []"
| "register p ms (Use us # rs) = register p (ms @ us) rs"
| "register p ms (Route m path h # rs) =
     \<lparr>rt_method = m, rt_path = p @ path, rt_handler = h, rt_guards = ms\<rparr> # register p ms rs"
| "register p ms (Group q gs # rs) = register (p @ q) ms gs @ register p ms rs"

section \<open>The groups\<close>

definition storageRoutes :: "reg list" where
  "storageRoutes = [
     Group ''/storage'' [
       Use [Auth],
       Route ''GET'' ''/config'' ''GetStorageConfig'',
       Route ''POST'' ''/session'' ''CreateStorageSession'',
       Route ''GET'' ''/quota'' ''GetStorageQuota'',
       Route ''PUT'' ''/config/external'' ''PutExternalStorageConfig'',
       Route ''POST'' ''/config/test'' ''TestExternalStorageConfig'',
       Route ''POST'' ''/config/switch'' ''SwitchToInternalStorage'',
       Route ''POST'' ''/presigned-upload'' ''CreatePresignedUpload'',
       Route ''POST'' ''/commit'' ''CommitStorageUpload'',
       Route ''GET'' ''/objects'' ''ListStorageObjects'',
       Route ''DELETE'' ''/object'' ''DeleteStorageObject'',
       Route ''POST'' ''/delete-all'' ''DeleteAllStorageObjects'',
       Route ''GET'' ''/health'' ''StorageHealth'',
       Route ''GET'' ''/presigned-download'' ''PresignStorageDownload'',
       Route ''POST'' ''/migration'' ''StartStorageMigration'',
       Route ''GET'' ''/migration/:id'' ''GetStorageMigration'',
       Route ''POST'' ''/migration/:id/cancel'' ''CancelStorageMigration'']]"

definition authRoutes :: "reg list" where
  "authRoutes = [
     Group ''/auth'' [
       Route ''POST'' ''/check-email'' ''CheckMail'',
       Route ''POST'' ''/register'' ''RegNewUser'',
       Route ''POST'' ''/session-key'' ''GetAuthKey'',
       Route ''POST'' ''/login'' ''Login'',
       Route ''POST'' ''/logout'' ''Logout'',
       Route ''POST'' ''/totp'' ''AuthTOTP'',
       Route ''GET'' ''/email/confirm'' ''ConfirmEmail'',
       Route ''GET'' ''/token/refresh'' ''RefreshToken'',
       Group ''/reset-password'' [
         Route ''POST'' ''/request'' ''HandleResetPass'',
         Route ''POST'' ''/validate'' ''CheckResetPass'',
         Route ''POST'' ''/confirm'' ''ResetPass'']],
     Group ''/auth'' [
       Use [Auth],
       Route ''POST'' ''/rewrap-master-key'' ''RewrapMasterKey'',
       Route ''POST'' ''/verify-password'' ''VerifyUserPassword'',
       Route ''GET'' ''/check-subscription'' ''paySubscription'']]"

definition channelRoutes :: "reg list" where
  "channelRoutes = [
     Group ''/channel'' [
       Use [Auth],
       Route ''GET'' ''/name'' ''GetChannelName'',
       Route ''GET'' [] ''ReadChannel'',
       Route ''POST'' [] ''SaveChannel'',
       Route ''DELETE'' [] ''DeleteChannel'',
       Route ''GET'' ''/available/:ch_type'' ''availableHandler'']]"

definition registerTestAPIRoutes :: "reg list" where
  "registerTestAPIRoutes = [
     Group ''/api/test'' [
       Use [Auth],
       Route ''GET'' ''/start'' ''testStartSessionHandler'',
       Route ''POST'' ''/ask'' ''testAskHandler'',
       Route ''DELETE'' ''/stop'' ''testStopSessionHandler'']]"

definition registerWidgetRoutes :: "reg list" where
  "registerWidgetRoutes = [
     Group ''/widget'' [
       Route ''GET'' ''/available'' ''proxyWidgetRequest'',
       Route ''POST'' ''/exam'' ''proxyWidgetRequest'',
       Route ''GET'' ''/validate'' ''proxyWidgetRequest'',
       Route ''POST'' ''/refresh'' ''proxyWidgetRequest'',
       Route ''GET'' ''/username'' ''proxyWidgetRequest'',
       Route ''GET'' ''/dialog'' ''proxyWidgetRequest'',
       Route ''POST'' ''/data'' ''proxyWidgetRequest'',
       Route ''GET'' ''/events'' ''proxyWidgetEvents'',
       Route ''POST'' ''/events-ticket'' ''proxyWidgetRequest'',
       Group [] [
         Use [Auth],
         Route ''GET'' ''/enable'' ''proxyWidgetUIDRequest'',
         Route ''GET'' ''/disable'' ''proxyWidgetUIDRequest'',
         Route ''GET'' ''/restart'' ''proxyWidgetUIDRequest'',
         Route ''POST'' ''/code'' ''proxyWidgetUIDRequest'']]]"

definition registerPaymentRoutes :: "reg list" where
  "registerPaymentRoutes = [
     Group ''/pay'' [
       Route ''GET'' ''/donation/donation-currencies'' ''donationCurrencies'',
       Route ''POST'' ''/donation/donation-address'' ''donationAddress'',
       Use [Auth],
       Route ''GET'' ''/tariff'' ''payTariff'',
       Route ''GET'' ''/currencies'' ''payCurrencies'',
       Route ''POST'' ''/create-payment'' ''payCreateBybitPayment'',
       Route ''GET'' ''/payment-status'' ''payPaymentStatus'',
       Route ''GET'' ''/payment-status-stream'' ''payHandlePaymentStatusSSE'']]"

definition dialogRoutes :: "reg list" where
  "dialogRoutes = [
     Group ''/dialog'' [
       Use [Auth],
       Route ''GET'' ''/all'' ''GetUserDialogs'',
       Route ''POST'' ''/view/:id'' ''ViewDialog'',
       Route ''DELETE'' ''/:id'' ''DeleteDialog'',
       Route ''DELETE'' ''/list'' ''DeleteDialogs'']]"

definition modelRoutes :: "reg list" where
  "modelRoutes = [
     Group ''/model'' [
       Use [Auth],
       Route ''GET'' ''/demo'' ''CheckDemoUser'',
       Route ''GET'' ''/fast-chek'' ''FastCheckUserModel'',
       Route ''GET'' [] ''ReadUserModel'',
       Route ''POST'' ''/upload-file'' ''FileUpload'',
       Route ''POST'' ''/delete-file'' ''FileDelete'',
       Route ''POST'' ''/add-file'' ''FileAdd'',
       Route ''POST'' ''/create'' ''CreateModel'',
       Route ''POST'' ''/update'' ''UpdateModel'',
       Route ''GET'' ''/list'' ''List'',
       Route ''GET'' ''/set-active'' ''SetModelActive'',
       Route ''GET'' ''/voice/settings'' ''GetVoiceSettings'',
       Route ''POST'' ''/voice/clone'' ''CloneVoice'',
       Route ''GET'' ''/voices'' ''ListVoices'',
       Route ''GET'' ''/voices/:voiceID'' ''GetVoice'',
       Route ''PATCH'' ''/voices/:voiceID'' ''UpdateVoice'',
       Route ''DELETE'' ''/voices/:voiceID'' ''DeleteVoice'',
       Route ''GET'' ''/voices/:voiceID/sample'' ''GetVoiceSample'']]"

definition providerRoutes :: "reg list" where
  "providerRoutes = [
     Group ''/provider'' [
       Use [Auth],
       Route ''GET'' ''/available'' ''ProvidersWithApiKeys'',
       Route ''DELETE'' ''/revoke'' ''RevokeUserAPIKey'',
       Route ''POST'' ''/set-key'' ''SetUserAPIKey'']]"

definition notificationRoutes :: "reg list" where
  "notificationRoutes = [
     Group ''/nota'' [
       Use [Auth],
       Route ''GET'' ''/mail'' ''GetMail'',
       Route ''GET'' [] ''ReadNotifications'',
       Route ''POST'' [] ''SaveNotifications'',
       Route ''POST'' ''/code'' ''SendVerificationCode'',
       Route ''POST'' ''/events'' ''SaveNotificationsEvents'',
       Route ''DELETE'' [] ''DeleteNotificationsChannel'']]"

definition intNotificationsRoutes :: "reg list" where
  "intNotificationsRoutes = [
     Group ''/notification'' [
       Route ''POST'' ''/mail'' ''SendMailNotification'',
       Route ''POST'' ''/telega'' ''SendTelegaNotification'',
       Route ''POST'' ''/instant'' ''SendInstantNotification'']]"

definition mcpRoutes :: "reg list" where
  "mcpRoutes = [
     Route ''POST'' ''/mcp'' ''mcpHandler.ServeHTTP'']"

definition userRoutes :: "reg list" where
  "userRoutes = [
     Group ''/user'' [
       Use [Auth],
       Route ''GET'' ''/data'' ''UserData'',
       Route ''POST'' ''/timezone'' ''UserTimeZone'',
       Route ''POST'' ''/language'' ''UserLanguage'',
       Route ''GET'' ''/details'' ''GetUserDetails'']]"

definition totpRoutes :: "reg list" where
  "totpRoutes = [
     Group ''/totp'' [
       Use [Auth],
       Route ''POST'' ''/setup'' ''TOTPSetup'',
       Route ''POST'' ''/confirm'' ''TOTPConfirm'',
       Route ''DELETE'' [] ''TOTPDisable'']]"

definition embeddingRoutes :: "reg list" where
  "embeddingRoutes = [
     Group ''/embedding'' [
       Use [Auth],
       Route ''POST'' ''/upload'' ''UploadEmbedding'',
       Route ''GET'' ''/list'' ''ListUserDocuments'',
       Route ''DELETE'' ''/:id'' ''DeleteDocument'']]"

definition operatorRoutes :: "reg list" where
  "operatorRoutes = [
     Group ''/operators'' [
       Use [Auth],
       Route ''GET'' [] ''OperatorsList'',
       Route ''POST'' [] ''SaveOperators'']]"

definition servicesRoutes :: "reg list" where
  "servicesRoutes = [
     Group ''/services'' [
       Use [Auth],
       Route ''GET'' ''/list'' ''GetServicesList'',
       Route ''POST'' ''/add'' ''AddService'',
       Route ''DELETE'' ''/delete'' ''DeleteService''],
     Group ''/services/lead'' [
       Use [Auth],
       Route ''Any'' ''/*path'' ''proxyServicesRequest'']]"

definition devRoutes :: "reg list" where
  "devRoutes = [
     Group ''/dev'' [
       Use [Auth, DevOnly],
       Route ''POST'' ''/get-data'' ''GetDev'',
       Route ''POST'' ''/set-distrib-mail'' ''SetDistribMail'',
       Route ''POST'' ''/set-session-key'' ''CreateNewSessionKey'',
       Route ''POST'' ''/check-settings'' ''CheckSettings'',
       Route ''POST'' ''/set-gauth'' ''SetGAUTH'',
       Route ''POST'' ''/set-carpintero'' ''SetCarpintero'',
       Route ''POST'' ''/set-operbot'' ''SetOperBot'',
       Route ''POST'' ''/get-service-key'' ''GetServiceKey'',
       Route ''POST'' ''/generate-service-key'' ''GenerateServiceKey'',
       Route ''POST'' ''/generate-widget-key'' ''GenerateWidgetKey'']]"

definition webSocketRoutes :: "reg list" where
  "webSocketRoutes = [
     Group ''/ws'' [
       Use [Auth],
       Route ''GET'' ''/test-model'' ''testWebSocketHandler'',
       Route ''GET'' ''/test-realtime'' ''testRealtimeHandler'',
       Route ''GET'' ''/create-master-key'' ''CreateMasterKeyWSS'',
       Route ''GET'' ''/instant'' ''Instant'',
       Route ''GET'' ''/log'' ''LogWSSHandler'',
       Route ''GET'' ''/delete-model'' ''DeleteModelWSSHandler'',
       Route ''GET'' ''/delete-all'' ''DeleteAllUserDataWSSHandler'',
       Route ''GET'' ''/lead/tg-auth'' ''ServiceAddTgAk'',
       Route ''GET'' ''/lead/wa-auth'' ''ServiceAddWaAk'',
       Route ''GET'' ''/lead/events'' ''ServiceEventWSS'',
       Route ''GET'' ''/lead/start'' ''ServiceStartWSS'',
       Route ''GET'' ''/restart'' ''RestartChannels'',
       Group ''/tguser'' [
         Route ''GET'' [] ''TgAuthWebSocket'',
         Route ''GET'' ''/contacts'' ''TgGetContactsWS''],
       Group ''/whats'' [
         Route ''GET'' [] ''WaAuthWebSocket'',
         Route ''GET'' ''/contacts'' ''WaGetContactsWS'']]]"

definition crmRoutes :: "reg list" where
  "crmRoutes = [
     Group ''/crm/api'' [
       Use [CrmAuth],
       Route ''Any'' ''/*path'' ''proxyCRMRequest'']]"

definition googleRoutes :: "reg list" where
  "googleRoutes = [
     Group ''/google'' [
       Use [Auth],
       Route ''GET'' ''/oauth/url'' ''GoogleOAuthURL'',
       Route ''GET'' ''/token/status'' ''GetGoogleTokenStatus'',
       Route ''DELETE'' ''/token/revoke'' ''RevokeGoogleToken'']]"

definition avitoRoutes :: "reg list" where
  "avitoRoutes = [
     Group ''/avito'' [
       Use [Auth],
       Route ''GET'' ''/status'' ''proxyAvitoRequest'',
       Route ''POST'' ''/auth/url'' ''proxyAvitoRequest'',
       Route ''POST'' ''/disconnect'' ''proxyAvitoRequest'',
       Route ''GET'' ''/chats'' ''proxyAvitoRequest'',
       Route ''GET'' ''/subscriptions'' ''proxyAvitoRequest'',
       Route ''POST'' ''/subscribe'' ''proxyAvitoRequest'',
       Route ''POST'' ''/unsubscribe'' ''proxyAvitoRequest'']]"


section \<open>All routes\<close>

definition openRoutes :: "reg list" where
  "openRoutes = [
     Route ''Any'' ''/tgbot/webhook'' ''proxyTgBotWebhook'',
     Route ''Any'' ''/tgbot/webhook/*path'' ''proxyTgBotWebhook'',
     Route ''Any'' ''/tgbot/setwebhook'' ''proxyTgBotSetWebhook'',
     Route ''GET'' ''/crm/health'' ''proxyCRMPublicRequest'',
     Route ''GET'' ''/crm/oauth/amocrm/callback'' ''proxyAmoCRMOAuthCallback'',
     Route ''GET'' ''/google/oauth/callback'' ''GoogleOAuthCallback'',
     Route ''GET'' ''/avito/available'' ''proxyAvitoRequest'',
     Route ''GET'' ''/avito/auth/callback'' ''proxyAvitoRequest'',
     Route ''POST'' ''/avito/webhook'' ''proxyAvitoRequest'']"

text \<open>\<open>prof\<close>: there is a profiler; \<open>dev\<close>: \<open>DEVELOPMENT\<close> is true. The pages of Swagger are left out.\<close>

definition Handler :: "bool \<Rightarrow> bool \<Rightarrow> route list" where
  "Handler prof dev = register [] [] (
     [Use [Metrics], Route ''GET'' ''/metrics'' ''metrics'']
     @ (if prof then [Use [Tracing]] else [])
     @ [Use [Cors]]
     @ (if dev then [Route ''GET'' ''/test.html'' ''test.html''] else [])
     @ [Group ''/open'' openRoutes,
        Group ''/v1'' (authRoutes @ channelRoutes @ registerTestAPIRoutes @ registerWidgetRoutes @ registerPaymentRoutes @ dialogRoutes @ modelRoutes @ providerRoutes
          @ notificationRoutes @ userRoutes @ totpRoutes @ storageRoutes @ embeddingRoutes @ operatorRoutes @ servicesRoutes @ devRoutes
          @ webSocketRoutes @ crmRoutes @ googleRoutes @ avitoRoutes),
        Group ''/int'' (mcpRoutes @ intNotificationsRoutes)])"

text \<open>\<open>corsMiddleware\<close>: the headers of the answer, and whether the request ends here with 204.\<close>

definition corsMiddleware :: "string \<Rightarrow> string \<Rightarrow> (string \<times> string) list \<times> bool" where
  "corsMiddleware mth origin =
     ((if origin = [] then [] else [(''Access-Control-Allow-Origin'', origin)])
       @ [(''Access-Control-Allow-Credentials'', ''true''),
          (''Access-Control-Allow-Methods'', ''POST, GET, DELETE, PUT, PATCH, OPTIONS''),
          (''Access-Control-Allow-Headers'', ''Content-Type, Authorization'')], mth = ''OPTIONS'')"

section \<open>What is protected\<close>

definition guarded :: "route \<Rightarrow> bool" where
  "guarded r = (Auth \<in> set (rt_guards r) \<or> CrmAuth \<in> set (rt_guards r))"

definition has_params :: "route \<Rightarrow> bool" where
  "has_params r = ContainsAny (rt_path r) '':*''"

text \<open>\<open>authAllowMiddleware\<close> lets a POST without parameters pass when it has no token (lemma \<open>anonymous_post\<close> below).\<close>

definition lets_anonymous_pass :: "route \<Rightarrow> bool" where
  "lets_anonymous_pass r = (CrmAuth \<notin> set (rt_guards r) \<and> rt_method r \<in> set [''POST'', ''Any''] \<and> \<not> has_params r)"

lemma anonymous_post:
  "rq_method rq = ''POST'' \<Longrightarrow> g_param (rq_gin rq) = [] \<Longrightarrow> extractToken rq = [] \<Longrightarrow>
   authAllowMiddleware ew rq w = (Inr (set_key ''rateLimitCheck'' CtxOther (rq_gin rq)), w)"
  by (simp add: authAllowMiddleware_def Let_def)

text \<open>Without a token a client reaches these handlers and no others, apart from POST routes: the public proxies, the
  registration, login, reset and confirmation of accounts, the widget's own requests, the donations, and the MCP server
  and the sending of notifications, which only a proxy in front of the server keeps inside.\<close>

theorem routes_without_a_guard:
  "map rt_handler (filter (\<lambda>r. \<not> guarded r) (Handler prof False)) =
   [''metrics'', ''proxyTgBotWebhook'', ''proxyTgBotWebhook'', ''proxyTgBotSetWebhook'', ''proxyCRMPublicRequest'',
    ''proxyAmoCRMOAuthCallback'', ''GoogleOAuthCallback'', ''proxyAvitoRequest'', ''proxyAvitoRequest'', ''proxyAvitoRequest'',
    ''CheckMail'', ''RegNewUser'', ''GetAuthKey'', ''Login'', ''Logout'', ''AuthTOTP'', ''ConfirmEmail'', ''RefreshToken'',
    ''HandleResetPass'', ''CheckResetPass'', ''ResetPass'', ''proxyWidgetRequest'', ''proxyWidgetRequest'', ''proxyWidgetRequest'',
    ''proxyWidgetRequest'', ''proxyWidgetRequest'', ''proxyWidgetRequest'', ''proxyWidgetRequest'', ''proxyWidgetEvents'',
    ''proxyWidgetRequest'', ''donationCurrencies'', ''donationAddress'', ''mcpHandler.ServeHTTP'', ''SendMailNotification'',
    ''SendTelegaNotification'', ''SendInstantNotification'']"
proof -
  have a: "map rt_handler (filter (\<lambda>r. \<not> guarded r) (Handler False False)) =
   [''metrics'', ''proxyTgBotWebhook'', ''proxyTgBotWebhook'', ''proxyTgBotSetWebhook'', ''proxyCRMPublicRequest'',
    ''proxyAmoCRMOAuthCallback'', ''GoogleOAuthCallback'', ''proxyAvitoRequest'', ''proxyAvitoRequest'', ''proxyAvitoRequest'',
    ''CheckMail'', ''RegNewUser'', ''GetAuthKey'', ''Login'', ''Logout'', ''AuthTOTP'', ''ConfirmEmail'', ''RefreshToken'',
    ''HandleResetPass'', ''CheckResetPass'', ''ResetPass'', ''proxyWidgetRequest'', ''proxyWidgetRequest'', ''proxyWidgetRequest'',
    ''proxyWidgetRequest'', ''proxyWidgetRequest'', ''proxyWidgetRequest'', ''proxyWidgetRequest'', ''proxyWidgetEvents'',
    ''proxyWidgetRequest'', ''donationCurrencies'', ''donationAddress'', ''mcpHandler.ServeHTTP'', ''SendMailNotification'',
    ''SendTelegaNotification'', ''SendInstantNotification'']" by code_simp
  have b: "map rt_handler (filter (\<lambda>r. \<not> guarded r) (Handler True False)) =
      map rt_handler (filter (\<lambda>r. \<not> guarded r) (Handler False False))" by code_simp
  show ?thesis
  proof (cases prof)
    case True
    show ?thesis using a unfolding b [symmetric] by (simp only: True)
  next
    case False
    show ?thesis using a by (simp only: False)
  qed
qed

text \<open>Every developers' route is behind both of its guards.\<close>

lemma developer_routes_guarded:
  "list_all (\<lambda>r. HasPrefix (rt_path r) ''/v1/dev/'' \<longrightarrow> rt_guards r = [Metrics, Cors, Auth, DevOnly]) (Handler False False)"
  by code_simp

text \<open>The routes behind the guard that an anonymous POST passes: their handlers have to ask for the user themselves.\<close>

lemma avito_posts_pass:
  "map rt_path (filter (\<lambda>r. rt_handler r = ''proxyAvitoRequest'' \<and> guarded r \<and> lets_anonymous_pass r) (Handler False False))
   = [''/v1/avito/auth/url'', ''/v1/avito/disconnect'', ''/v1/avito/subscribe'', ''/v1/avito/unsubscribe'']"
  by code_simp

lemma any_origin_is_trusted:
  "origin \<noteq> [] \<Longrightarrow> map_of (fst (corsMiddleware m origin)) ''Access-Control-Allow-Origin'' = Some origin
     \<and> map_of (fst (corsMiddleware m origin)) ''Access-Control-Allow-Credentials'' = Some ''true''"
  by (simp add: corsMiddleware_def)

end
