(* ===== verification/ProxiesDemo.thy ===== *)
theory ProxiesDemo
  imports ProxiesProps Bridges Routes AccountDemo
begin

text \<open>Concrete requests for the properties of the proxies: user 7 has a token, user 8 is somebody else.\<close>

definition demo_back :: back_end where
  "demo_back = \<lparr>be_parses = (\<lambda>_. True), be_do = (\<lambda>_. Answered \<lparr>an_status = 200, an_headers = [], an_body = Whole ''ok''\<rparr>),
     be_follow = (\<lambda>_ _. Refused), be_stream = (\<lambda>_. None), be_subscribed = (\<lambda>_. None)\<rparr>"

definition demo_post :: inbound where
  "demo_post = \<lparr>ib_method = ''POST'', ib_path = ''/v1/avito/disconnect'', ib_uri = ''/v1/avito/disconnect'',
     ib_query = ''uid=8'', ib_params = [], ib_headers = [], ib_host = ''h'', ib_bytes = [], ib_whole = True, ib_set = []\<rparr>"

definition demo_caller :: "string \<Rightarrow> gin" where
  "demo_caller p = \<lparr>g_keys = [(''userId'', CtxU32 7)], g_query = [], g_param = [(''path'', p)]\<rparr>"

lemma demo_back_parses: "be_parses demo_back out"
  by (simp add: demo_back_def)

lemma demo_back_follows: "follows_to_the_end demo_back"
  by (simp add: follows_to_the_end_def demo_back_def)

lemma anonymous_post_acts_as_anyone_witness:
  "\<exists>out. behind_auth small_web (proxyAvitoRequest demo_back) demo_post small_st =
     ((fst (proxyAvitoRequest demo_back (set_key ''rateLimitCheck'' CtxOther (rq_gin (front demo_post))) demo_post), [out]), small_st)
   \<and> Values_Get ''uid'' (seen_query (ob_url out)) = show_uid 8"
proof (rule anonymous_post_acts_as_anyone)
  show "anonymous demo_post" by code_simp
  show "Values_Get ''uid'' (ParseQuery (ib_query demo_post)) = show_uid 8" by code_simp
qed (simp_all add: demo_post_def demo_back_parses)

lemma lead_service_is_told_the_caller_witness:
  "map (\<lambda>out. values_of ''uid'' (seen_query (ob_url out))) (snd (proxyServicesRequest demo_back (demo_caller ''/list'') demo_post))
   = [[show_uid 7]]"
proof -
  have p: "Param (demo_caller ''/list'') ''path'' = ''/list''" by code_simp
  show ?thesis
    using lead_service_is_told_the_caller [of "demo_caller ''/list''" 7 demo_back "''uid''" demo_post] p
    by (simp add: demo_back_parses demo_caller_def)
qed

lemma lead_service_is_told_another_witness:
  "map (\<lambda>out. Values_Get ''uid'' (seen_query (ob_url out)))
     (snd (proxyServicesRequest demo_back (demo_caller ''/list?uid=8&a='') demo_post)) = [show_uid 8]"
proof (rule lead_service_is_told_another)
  show "map_of (g_keys (demo_caller ''/list?uid=8&a='')) ''userId'' = Some (CtxU32 7)" by code_simp
  show "Param (demo_caller ''/list?uid=8&a='') ''path'' = CHR ''/'' # ''list'' @ ''?uid='' @ show_uid 8 @ ''&a=''" by code_simp
qed (simp_all add: demo_back_parses)

definition demo_socket :: ws_env where
  "demo_socket = \<lparr>we_upgrades = True, we_dials = (\<lambda>_. True)\<rparr>"

definition forged :: "ws_event list" where
  "forged = [FromClient \<lparr>fr_type = 1, fr_msg = Document [(''type'', JStr ''init''), (''user_id'', JInt 8)]\<rparr>, ServerLeaves]"

lemma lead_socket_names_the_user_witness:
  "list_all (names_user 7) (br_to_server (bridged True (name_user 7) ws_opened forged))"
proof (rule lead_socket_names_the_user)
  show "proxyWebSocket demo_socket ''ws'' 7 forged = Over (bridged True (name_user 7) ws_opened forged)"
    by (simp add: proxyWebSocket_def demo_socket_def)
qed

lemma lead_socket_ends_by_client_witness: "\<not> br_done (bridged True (name_user 7) ws_opened forged)"
proof -
  have "proxyWebSocket demo_socket ''ws'' 7 forged = Over (bridged True (name_user 7) ws_opened forged)"
    by (simp add: proxyWebSocket_def demo_socket_def)
  from lead_socket_ends_by_client [OF this] show ?thesis by (simp add: forged_def after_leaving_def)
qed

end
