(* ===== verification/Profiles.thy ===== *)
theory Profiles
  imports Notices Widget Proxies
begin

text \<open>
  A user's own settings: \<open>repository/mysql/user.go\<close>, \<open>user_dev.go\<close>, \<open>services.go\<close> and \<open>operators.go\<close>, the use case
  \<open>usecase/provider/provider.go\<close>, and the handlers of \<open>delivery/http/userdata.go\<close>, \<open>operators.go\<close>, \<open>providers.go\<close>
  and the first part of \<open>services.go\<close>. The documents the database server builds from many tables, its enumeration of
  service types and the router of models are parameters.
\<close>

record operators_row =
  op_Telegram :: "string option"
  op_Widget :: "string option"

record prof_env = notice_env +
  xp_details :: "uid \<Rightarrow> json"                            \<comment> \<open>the document of \<open>GetUserDetails\<close>\<close>
  xp_info :: "uid \<Rightarrow> json"                               \<comment> \<open>the document of \<open>UserInfo\<close>\<close>
  xp_member :: "string \<Rightarrow> string option"                 \<comment> \<open>the member of the enumeration a text is, if any\<close>
  xp_provider :: "string \<Rightarrow> go_err + nat"                \<comment> \<open>\<open>comdom.FromString\<close>\<close>
  xp_active :: "uid \<Rightarrow> go_err + nat"                     \<comment> \<open>\<open>GetActiveProvider\<close>\<close>
  xp_set_key :: "uid \<Rightarrow> nat \<Rightarrow> string \<Rightarrow> ((uid \<times> string) \<times> string) list \<Rightarrow> go_err + ((uid \<times> string) \<times> string) list"
  xp_revoke_key :: "uid \<Rightarrow> nat \<Rightarrow> ((uid \<times> string) \<times> string) list \<Rightarrow> go_err + ((uid \<times> string) \<times> string) list"
  xp_keys :: "uid \<Rightarrow> (string \<times> json) list"              \<comment> \<open>what the router says of providers\<close>

text \<open>A model of the table \<open>gpt_models\<close>: its provider and whether it is the default.\<close>

record prof_st = notice_st +
  service :: "(uid \<times> string) list"
  operators :: "(uid \<times> operators_row) list"
  time_zones :: "(uid \<times> string) list"
  model_providers :: "(nat \<times> string) list"
  gpt_models :: "(nat \<times> (nat \<times> bool)) list"

section \<open>Services\<close>

definition ServiceList :: "uid \<Rightarrow> 'a prof_st_scheme \<Rightarrow> (go_err + string list) \<times> 'a prof_st_scheme" where
  "ServiceList u w =
     (if u = 0 then (Inl (Msg ''invalid userId''), w)
      else if failing w then (Inl (Wrap ''reading the services'' sql_down), drawn w)
      else (Inr (map snd (filter (\<lambda>(v, s). v = u) (service w))), drawn w))"

text \<open>
  \<open>INSERT IGNORE\<close>: a duplicate and an unknown user are left out, and a text that is no member of the enumeration is
  stored as the empty text.
\<close>

definition db_AddService :: "('e) prof_env_scheme \<Rightarrow> uid \<Rightarrow> string \<Rightarrow> 'a prof_st_scheme \<Rightarrow> (go_err + unit) \<times> 'a prof_st_scheme" where
  "db_AddService e u s w =
     (if u = 0 \<or> s = [] then (Inl (Msg ''invalid values''), w)
      else if failing w then (Inl (Wrap ''adding the service'' sql_down), drawn w)
      else let stored = (case xp_member e s of None \<Rightarrow> [] | Some m \<Rightarrow> m) in
        (Inr (), (drawn w)\<lparr>service :=
           (if map_of (users w) u = None \<or> (u, stored) \<in> set (service w) then service w
            else service w @ [(u, stored)])\<rparr>))"

definition db_DeleteService :: "('e) prof_env_scheme \<Rightarrow> uid \<Rightarrow> string \<Rightarrow> 'a prof_st_scheme \<Rightarrow> (go_err + unit) \<times> 'a prof_st_scheme" where
  "db_DeleteService e u s w =
     (if u = 0 \<or> s = [] then (Inl (Msg ''invalid values''), w)
      else if failing w then (Inl (Wrap ''deleting the service'' sql_down), drawn w)
      else (Inr (), (drawn w)\<lparr>service :=
             (case xp_member e s of None \<Rightarrow> service w | Some m \<Rightarrow> filter (\<lambda>p. p \<noteq> (u, m)) (service w))\<rparr>))"

definition GetServicesList :: "gin \<Rightarrow> 'a prof_st_scheme \<Rightarrow> 'a prof_st_scheme handled" where
  "GetServicesList c w =
     (case getUserID c of None \<Rightarrow> unauthorized w
      | Some u \<Rightarrow>
          (case ServiceList u w of
             (Inl err, w) \<Rightarrow> reply_error 500 ''internal server error'' w
           | (Inr l, w) \<Rightarrow> reply 200 [(''services'', if l = [] then JNull else JList (map JStr l))] w))"

definition AddService :: "('e) prof_env_scheme \<Rightarrow> gin \<Rightarrow> string body \<Rightarrow> 'a prof_st_scheme \<Rightarrow> 'a prof_st_scheme handled" where
  "AddService e c b w =
     (case getUserID c of None \<Rightarrow> unauthorized w
      | Some u \<Rightarrow>
          (case b of Inl err \<Rightarrow> bad_body err w
           | Inr s \<Rightarrow>
               (case db_AddService e u s w of
                  (Inl err, w) \<Rightarrow> reply_error 500 ''internal server error'' w
                | (Inr _, w) \<Rightarrow> reply_status 200 w)))"

definition DeleteService :: "('e) prof_env_scheme \<Rightarrow> gin \<Rightarrow> string body \<Rightarrow> 'a prof_st_scheme \<Rightarrow> 'a prof_st_scheme handled" where
  "DeleteService e c b w =
     (case getUserID c of None \<Rightarrow> unauthorized w
      | Some u \<Rightarrow>
          (case b of Inl err \<Rightarrow> bad_body err w
           | Inr s \<Rightarrow>
               (case db_DeleteService e u s w of
                  (Inl err, w) \<Rightarrow> reply_error 500 ''internal server error'' w
                | (Inr _, w) \<Rightarrow> reply_status 200 w)))"

section \<open>Operators\<close>

fun comma_list :: "string list \<Rightarrow> string" where
  "comma_list [] = []"
| "comma_list [s] = s"
| "comma_list (s # t # ss) = s @ CHR '','' # comma_list (t # ss)"

definition ints_text :: "int list \<Rightarrow> string" where
  "ints_text ns = CHR ''['' # comma_list (map show_int ns) @ '']''"

text \<open>
  An element of the list: a number, a text, or anything else. \<open>ONum n k\<close> is the literal with the value \<open>n / 10 ^ k\<close>, as
  \<open>1.5\<close> is \<open>ONum 15 1\<close>; one beyond the range of a \<open>float64\<close> already fails the reading of the list.
\<close>

datatype operator_val = ONum int nat | OText string | OOther

text \<open>\<open>a / b\<close> to the nearest integer, ties to even.\<close>

definition round_div :: "nat \<Rightarrow> nat \<Rightarrow> nat" where
  "round_div a b =
     (let q = a div b; r = a mod b in if b < 2 * r \<or> (2 * r = b \<and> odd q) then q + 1 else q)"

text \<open>The binary places below the point that \<open>m / d\<close> has room for within 53 bits, and at most \<open>f\<close>.\<close>

fun more_bits :: "nat \<Rightarrow> nat \<Rightarrow> nat \<Rightarrow> nat" where
  "more_bits 0 m d = 0"
| "more_bits (Suc f) m d = (if 2 * m < 2 ^ 53 * d then Suc (more_bits f (2 * m) d) else 0)"

text \<open>
  \<open>m / d\<close> is rounded to a \<open>float64\<close> and what is behind the point is cut off: \<open>1.5\<close> becomes 1, and a number nearer to 1 than
  to the \<open>float64\<close> below it becomes 1 too. 54 places are enough: a number below a half is cut to 0 whatever its last bits.
\<close>

definition float64_trunc :: "nat \<Rightarrow> nat \<Rightarrow> nat" where
  "float64_trunc m d =
     (if m < 2 ^ 53 * d then (let f = more_bits 54 m d in round_div (m * 2 ^ f) d div 2 ^ f)
      else (let b = excess_bits 64 (m div d) in round_div m (d * 2 ^ b) * 2 ^ b))"

text \<open>\<open>int64(v)\<close> of what is before the point; out of range it is the smallest number on amd64.\<close>

definition float_to_int64 :: "int \<Rightarrow> int" where
  "float_to_int64 f = (if - (2 ^ 63) \<le> f \<and> f < 2 ^ 63 then f else - (2 ^ 63))"

definition operator_number :: "operator_val \<Rightarrow> int option" where
  "operator_number v =
     (case v of
        ONum n k \<Rightarrow>
          let t = int (float64_trunc (nat \<bar>n\<bar>) (10 ^ k)) in Some (float_to_int64 (if n < 0 then - t else t))
      | OText s \<Rightarrow> Atoi s
      | OOther \<Rightarrow> None)"

fun operator_numbers :: "operator_val list \<Rightarrow> int list option" where
  "operator_numbers [] = Some []"
| "operator_numbers (v # vs) =
     (case operator_number v of None \<Rightarrow> None | Some n \<Rightarrow> map_option ((#) n) (operator_numbers vs))"

definition db_OperatorsList :: "uid \<Rightarrow> 'a prof_st_scheme \<Rightarrow> (go_err + string) \<times> 'a prof_st_scheme" where
  "db_OperatorsList u w =
     (if failing w then (Inl (Wrap ''reading the operators'' sql_down), drawn w)
      else (Inr (case map_of (operators w) u of
                   None \<Rightarrow> ''[]''
                 | Some r \<Rightarrow> (case op_Telegram r of None \<Rightarrow> ''[]'' | Some s \<Rightarrow> if s = [] then ''[]'' else s)), drawn w))"

definition set_operators :: "string \<Rightarrow> string \<Rightarrow> operators_row \<Rightarrow> operators_row" where
  "set_operators ty text r = (if ty = ''Telegram'' then r\<lparr>op_Telegram := Some text\<rparr> else r\<lparr>op_Widget := Some text\<rparr>)"

definition db_SaveOperators :: "uid \<Rightarrow> string \<Rightarrow> string \<Rightarrow> 'a prof_st_scheme \<Rightarrow> (go_err + unit) \<times> 'a prof_st_scheme" where
  "db_SaveOperators u ty text w =
     (if ty \<notin> set [''Telegram'', ''Widget''] then (Inl (Msg (''unsupported type of operator: '' @ ty)), w)
      else if failing w then (Inl (Wrap ''saving the operators'' sql_down), drawn w)
      else if \<not> json_valid text then (Inl (Wrap ''saving the operators'' (Msg ''check constraint fails'')), drawn w)
      else if map_of (users w) u = None then (Inl (Wrap ''saving the operators'' (Msg ''foreign key constraint fails'')), drawn w)
      else (Inr (), (drawn w)\<lparr>operators := AList.update u (set_operators ty text
             (case map_of (operators w) u of None \<Rightarrow> \<lparr>op_Telegram = None, op_Widget = None\<rparr> | Some r \<Rightarrow> r)) (operators w)\<rparr>))"

text \<open>The answer is the stored text itself.\<close>

definition OperatorsList :: "gin \<Rightarrow> 'a prof_st_scheme \<Rightarrow> (response + string) \<times> 'a prof_st_scheme" where
  "OperatorsList c w =
     (case getUserID c of None \<Rightarrow> (Inl (fst (unauthorized w)), w)
      | Some u \<Rightarrow>
          (case db_OperatorsList u w of
             (Inl err, w) \<Rightarrow> (Inl (fst (reply_error 500 (err_text err) w)), w)
           | (Inr t, w) \<Rightarrow> (Inr t, w)))"

text \<open>
  The body is bound first, then its member \<open>data\<close> is read as a list; the inner option is \<open>None\<close> when it is none. What
  is written is again checked to be JSON.
\<close>

definition SaveOperators :: "gin \<Rightarrow> operator_val list option body \<Rightarrow> 'a prof_st_scheme \<Rightarrow> 'a prof_st_scheme handled" where
  "SaveOperators c b w =
     (case getUserID c of None \<Rightarrow> unauthorized w
      | Some u \<Rightarrow>
          (case b of
             Inl err \<Rightarrow> bad_body err w
           | Inr None \<Rightarrow> reply_error 400 ''Invalid operators format'' w
           | Inr (Some vs) \<Rightarrow>
               (case operator_numbers vs of
                  None \<Rightarrow> reply_error 400 ''All operators must be numeric'' w
                | Some ns \<Rightarrow>
                    let text = (if ns = [] then ''[]'' else ints_text ns) in
                    if \<not> json_valid text then reply_error 400 ''Invalid JSON data'' w
                    else (case db_SaveOperators u ''Telegram'' text w of
                            (Inl err, w) \<Rightarrow> reply_error 500 (err_text err) w
                          | (Inr _, w) \<Rightarrow> reply 200 [(''status'', JStr ''success'')] w))))"

section \<open>The profile\<close>

text \<open>The row of the user decides whether there is a document; one that is empty is an error.\<close>

definition user_document :: "string \<Rightarrow> string \<Rightarrow> bool \<Rightarrow> (uid \<Rightarrow> json) \<Rightarrow> uid \<Rightarrow> 'a acct_st_scheme
    \<Rightarrow> (go_err + json) \<times> 'a acct_st_scheme" where
  "user_document what missing needs_auth doc u w =
     (if u = 0 then (Inl (Msg ''invalid userId''), w)
      else if failing w then (Inl (Wrap what sql_down), drawn w)
      else if map_of (users w) u = None \<or> (needs_auth \<and> map_of (auth_tbl w) u = None) then (Inl (Msg missing), drawn w)
      else if doc u = JNull then (Inl (Msg ''empty result''), drawn w)
      else (Inr (doc u), drawn w))"

definition db_GetUserDetails :: "('e) prof_env_scheme \<Rightarrow> uid \<Rightarrow> 'a acct_st_scheme \<Rightarrow> (go_err + json) \<times> 'a acct_st_scheme" where
  "db_GetUserDetails e u w = user_document ''reading the user'' ''user not found'' True (xp_details e) u w"

definition UserInfo :: "('e) prof_env_scheme \<Rightarrow> uid \<Rightarrow> 'a acct_st_scheme \<Rightarrow> (go_err + json) \<times> 'a acct_st_scheme" where
  "UserInfo e u w = user_document ''reading the information'' ''no information'' False (xp_info e) u w"

definition UserData :: "('e) prof_env_scheme \<Rightarrow> gin \<Rightarrow> 'a prof_st_scheme \<Rightarrow> 'a prof_st_scheme handled" where
  "UserData e c w =
     (case getUserID c of None \<Rightarrow> unauthorized w
      | Some u \<Rightarrow>
          (case UserInfo e u w of
             (Inl err, w) \<Rightarrow> reply_error 500 (err_text err) w
           | (Inr j, w) \<Rightarrow> (\<lparr>rs_status = 200, rs_body = DecryptEmailInJSON e w [''Email''] j\<rparr>, w)))"

definition SaveUserTimeZone :: "uid \<Rightarrow> string \<Rightarrow> 'a prof_st_scheme \<Rightarrow> (go_err + unit) \<times> 'a prof_st_scheme" where
  "SaveUserTimeZone u zone w =
     (if u = 0 \<or> zone = [] then (Inl (Msg ''invalid values''), w)
      else if zone = [] \<or> 64 < length zone then (Inl (Msg ''invalid time zone''), w)
      else if failing w then (Inl (Wrap ''saving the time zone'' sql_down), drawn w)
      else (Inr (), (drawn w)\<lparr>time_zones :=
             (if map_of (users w) u = None then time_zones w else AList.update u zone (time_zones w))\<rparr>))"

text \<open>The number 0 stands for the \<open>NULL\<close> a language that is not in the table becomes.\<close>

definition SaveUserLanguage :: "('e) acct_env_scheme \<Rightarrow> uid \<Rightarrow> string \<Rightarrow> 'a acct_st_scheme \<Rightarrow> (go_err + unit) \<times> 'a acct_st_scheme" where
  "SaveUserLanguage e u lang w =
     (if u = 0 \<or> lang = [] then (Inl (Msg ''invalid values''), w)
      else if length lang \<noteq> 2 then (Inl (Msg ''invalid language''), w)
      else if failing w then (Inl (Wrap ''saving the language'' sql_down), drawn w)
      else (Inr (), (drawn w)\<lparr>users := upd u (us_Lang_update (\<lambda>_. case xa_lang e lang of None \<Rightarrow> 0 | Some n \<Rightarrow> n)) (users w)\<rparr>))"

definition CheckDemo :: "uid \<Rightarrow> 'a acct_st_scheme \<Rightarrow> (go_err + bool) \<times> 'a acct_st_scheme" where
  "CheckDemo u w =
     (if u = 0 then (Inl (Msg ''empty userId''), w)
      else if failing w then (Inl (Wrap ''checking the role'' sql_down), drawn w)
      else (case map_of (users w) u of
              None \<Rightarrow> (Inl (Msg ''user not found''), drawn w)
            | Some r \<Rightarrow> (Inr (us_Role r = 1), drawn w)))"

definition UserTimeZone :: "gin \<Rightarrow> string body \<Rightarrow> 'a prof_st_scheme \<Rightarrow> 'a prof_st_scheme handled" where
  "UserTimeZone c b w =
     (case getUserID c of None \<Rightarrow> unauthorized w
      | Some u \<Rightarrow>
          (case b of Inl err \<Rightarrow> bad_body err w
           | Inr zone \<Rightarrow>
               (case SaveUserTimeZone u zone w of
                  (Inl err, w) \<Rightarrow> reply_error 500 (err_text err) w
                | (Inr _, w) \<Rightarrow> reply 200 [] w)))"

definition UserLanguage :: "('e) prof_env_scheme \<Rightarrow> gin \<Rightarrow> string body \<Rightarrow> 'a prof_st_scheme \<Rightarrow> 'a prof_st_scheme handled" where
  "UserLanguage e c b w =
     (case getUserID c of None \<Rightarrow> unauthorized w
      | Some u \<Rightarrow>
          (case b of Inl err \<Rightarrow> bad_body err w
           | Inr lang \<Rightarrow>
               if \<not> ValidateLanguage lang then reply_error 400 ''unsupported language'' w
               else (case SaveUserLanguage e u lang w of
                       (Inl err, w) \<Rightarrow> reply_error 500 (err_text err) w
                     | (Inr _, w) \<Rightarrow> reply 200 [] w)))"

section \<open>Providers and their keys\<close>

definition is_active :: "('e) prof_env_scheme \<Rightarrow> uid \<Rightarrow> nat \<Rightarrow> bool" where
  "is_active e u p = (case xp_active e u of Inl err \<Rightarrow> False | Inr a \<Rightarrow> a \<noteq> 0 \<and> a = p)"

definition uc_RevokeUserAPIKey :: "('e) prof_env_scheme \<Rightarrow> uid \<Rightarrow> nat \<Rightarrow> 'a data_st_scheme \<Rightarrow> (go_err + bool) \<times> 'a data_st_scheme" where
  "uc_RevokeUserAPIKey e u p w =
     (case xp_revoke_key e u p (api_keys w) of
        Inl err \<Rightarrow> (Inl (Wrap ''revoking the key'' err), w)
      | Inr t \<Rightarrow> (Inr (is_active e u p), w\<lparr>api_keys := t\<rparr>))"

text \<open>With a master key that is not in memory the key could only be stored unencrypted, so the password is asked for first.\<close>

definition uc_SetUserAPIKey :: "('e) prof_env_scheme \<Rightarrow> uid \<Rightarrow> nat \<Rightarrow> string \<Rightarrow> 'a acct_st_scheme \<Rightarrow> (go_err + bool) \<times> 'a acct_st_scheme" where
  "uc_SetUserAPIKey e u p key w =
     (let store = (\<lambda>w. case xp_set_key e u p key (api_keys w) of
                        Inl err \<Rightarrow> (Inl (Wrap ''saving the key'' err), w)
                      | Inr t \<Rightarrow> (Inr (is_active e u p), w\<lparr>api_keys := t\<rparr>)) in
      if GetMasterKey u w \<noteq> None then store w
      else (case GetMasterKeyData u w of
              (Inl err, w) \<Rightarrow> (Inl (Wrap ''checking the MasterKey'' err), w)
            | (Inr (Some _), w) \<Rightarrow> (Inl (Msg ''MASTER_KEY_REQUIRED''), w)
            | (Inr None, w) \<Rightarrow> store w))"

definition ProvidersWithApiKeys :: "('e) prof_env_scheme \<Rightarrow> gin \<Rightarrow> 'w \<Rightarrow> 'w handled" where
  "ProvidersWithApiKeys e c w =
     (case getUserID c of None \<Rightarrow> unauthorized w | Some u \<Rightarrow> reply 200 (xp_keys e u) w)"

definition known_provider :: "('e) prof_env_scheme \<Rightarrow> string \<Rightarrow> nat option" where
  "known_provider e s = (case xp_provider e s of Inl err \<Rightarrow> None | Inr p \<Rightarrow> if p = 0 then None else Some p)"

definition RevokeUserAPIKey :: "('e) prof_env_scheme \<Rightarrow> gin \<Rightarrow> 'a data_st_scheme \<Rightarrow> 'a data_st_scheme handled" where
  "RevokeUserAPIKey e c w =
     (case getUserID c of None \<Rightarrow> unauthorized w
      | Some u \<Rightarrow>
          let s = Query c ''providerStr'' in
          if s = [] then reply_error 400 ''Provider query parameter is required'' w
          else (case known_provider e s of
                  None \<Rightarrow> reply_error 400 ''Invalid provider'' w
                | Some p \<Rightarrow>
                    (case uc_RevokeUserAPIKey e u p w of
                       (Inl err, w) \<Rightarrow> reply_status 500 w
                     | (Inr restart, w) \<Rightarrow> reply 200 [(''restart'', JBool restart)] w)))"

definition SetUserAPIKey :: "('e) prof_env_scheme \<Rightarrow> gin \<Rightarrow> string body \<Rightarrow> 'a acct_st_scheme \<Rightarrow> 'a acct_st_scheme handled" where
  "SetUserAPIKey e c b w =
     (case getUserID c of None \<Rightarrow> unauthorized w
      | Some u \<Rightarrow>
          let s = Query c ''providerStr'' in
          if s = [] then reply_error 400 ''Provider query parameter is required'' w
          else (case b of
                  Inl err \<Rightarrow> bad_body err w
                | Inr key \<Rightarrow>
                    (case known_provider e s of
                       None \<Rightarrow> reply_error 400 ''Invalid provider'' w
                     | Some p \<Rightarrow>
                         (case uc_SetUserAPIKey e u p key w of
                            (Inl err, w) \<Rightarrow>
                              if err_text err = ''MASTER_KEY_REQUIRED'' then reply_error 422 ''MASTER_KEY_REQUIRED'' w
                              else reply_status 500 w
                          | (Inr restart, w) \<Rightarrow> reply 200 [(''restart'', JBool restart)] w))))"

section \<open>The developers' tables\<close>

text \<open>Empty values are left alone. What is written is kept if every statement and the commit succeed.\<close>

definition dev_updates :: "uid \<Rightarrow> string \<Rightarrow> string \<Rightarrow> string \<Rightarrow> string \<Rightarrow> ('a acct_st_scheme \<Rightarrow> go_err + 'a acct_st_scheme) list" where
  "dev_updates u name encEmail hmac sha =
     (if name = [] then [] else [\<lambda>w. Inr (w\<lparr>users := upd u (us_Name_update (\<lambda>_. name)) (users w)\<rparr>)])
     @ (if encEmail = [] then [] else
          [\<lambda>w. if list_ex (\<lambda>(v, r). v \<noteq> u \<and> (au_Email r = encEmail \<or> au_EmailHash r = Some hmac)) (auth_tbl w)
              then Inl duplicate_entry
              else Inr (w\<lparr>auth_tbl := upd u (\<lambda>r. r\<lparr>au_Email := encEmail, au_EmailHash := Some hmac\<rparr>) (auth_tbl w)\<rparr>)])
     @ (if sha = [] then [] else [\<lambda>w. Inr (w\<lparr>auth_tbl := upd u (au_SHA_update (\<lambda>_. sha)) (auth_tbl w)\<rparr>)])"

definition in_tx :: "string \<Rightarrow> ('a env_scheme \<Rightarrow> (go_err + 'a env_scheme) \<times> 'a env_scheme) \<Rightarrow> 'a env_scheme
    \<Rightarrow> (go_err + unit) \<times> 'a env_scheme" where
  "in_tx what f w =
     (if failing w then (Inl (Wrap ''begin transaction'' sql_down), drawn w)
      else (case f (drawn w) of
              (Inl err, w) \<Rightarrow> (Inl (Wrap what err), w)
            | (Inr t, w) \<Rightarrow>
                if failing w then (Inl (Wrap ''commit'' sql_down), drawn w)
                else (Inr (), t\<lparr>faults := faults (drawn w)\<rparr>)))"

definition UpdateDevData :: "uid \<Rightarrow> string \<Rightarrow> string \<Rightarrow> string \<Rightarrow> string \<Rightarrow> 'a acct_st_scheme \<Rightarrow> (go_err + unit) \<times> 'a acct_st_scheme" where
  "UpdateDevData u name encEmail hmac sha w =
     (if u = 0 then (Inl (Msg ''invalid userId''), w)
      else in_tx ''updating'' (\<lambda>w. run_statements (dev_updates u name encEmail hmac sha) w w) w)"

text \<open>The provider's number is looked up by its name, the first row with that name.\<close>

definition provider_id :: "string \<Rightarrow> (nat \<times> string) list \<Rightarrow> nat option" where
  "provider_id name t = map_option fst (find (\<lambda>(i, n). n = name) t)"

definition reset_defaults :: "nat \<Rightarrow> (nat \<times> (nat \<times> bool)) list \<Rightarrow> (nat \<times> (nat \<times> bool)) list" where
  "reset_defaults p t = map (\<lambda>(i, q, d). (i, q, if q = p then False else d)) t"

definition mark_default :: "nat \<Rightarrow> nat \<Rightarrow> (nat \<times> (nat \<times> bool)) list \<Rightarrow> (nat \<times> (nat \<times> bool)) list" where
  "mark_default p m t = map (\<lambda>(i, q, d). (i, q, if q = p \<and> i = m then True else d)) t"

text \<open>The five statements; the last one must change a row.\<close>

definition default_statements :: "string \<Rightarrow> nat \<Rightarrow> 'a prof_st_scheme \<Rightarrow> (go_err + 'a prof_st_scheme) \<times> 'a prof_st_scheme" where
  "default_statements name m w =
     (if failing w then (Inl sql_down, drawn w)
      else (case provider_id name (model_providers w) of
              None \<Rightarrow> (Inl (Msg ''provider not found''), drawn w)
            | Some p \<Rightarrow>
                run_statements
                  [\<lambda>w. if list_ex (\<lambda>(i, q, d). i = m \<and> q = p) (gpt_models w) then Inr w else Inl (Msg ''model not found''),
                   \<lambda>w. Inr (w\<lparr>gpt_models := reset_defaults p (gpt_models w)\<rparr>),
                   \<lambda>w. if list_ex (\<lambda>(i, q, d). i = m \<and> q = p \<and> \<not> d) (gpt_models w)
                       then Inr (w\<lparr>gpt_models := mark_default p m (gpt_models w)\<rparr>) else Inl (Msg ''model not updated'')]
                  (drawn w) (drawn w)))"

definition UpdateDevGPTModel :: "string \<Rightarrow> nat \<Rightarrow> 'a prof_st_scheme \<Rightarrow> (go_err + unit) \<times> 'a prof_st_scheme" where
  "UpdateDevGPTModel name m w =
     (if name = [] then (Inl (Msg ''empty provider''), w)
      else if m = 0 then (Inl (Msg ''invalid modId''), w)
      else in_tx ''updating the default model'' (default_statements name m) w)"

end
