(* ===== verification/Dialogs.thy ===== *)
theory Dialogs
  imports Profiles
begin

text \<open>
  Dialogs and the log a user sees: \<open>delivery/http/dialogs.go\<close>, \<open>GetUserDialogs\<close> of \<open>repository/mysql/user_dev.go\<close>, and
  the stored procedures \<open>DeleteDialog\<close> and \<open>ReadDialog\<close> of \<open>migrations/air.sql\<close>. Reading and deleting one dialog are
  methods of air-common and parameters, and nothing is assumed of them. So is the search of the log store. \<open>dl_variables\<close> are the variables of the database connection.
\<close>

record hit =
  ht_message :: string
  ht_time :: "int option"                 \<comment> \<open>the time stamp, when it can be read\<close>
  ht_service :: string
  ht_container :: string
  ht_app :: string

record dlg_st = prof_st +
  dl_variables :: "dialog_row option"

record 'w dlg_env = prof_env +
  xd_read :: "nat \<Rightarrow> 'w \<Rightarrow> (go_err + json) \<times> 'w"
  xd_delete :: "uid \<Rightarrow> nat \<Rightarrow> 'w \<Rightarrow> (go_err + unit) \<times> 'w"
  xd_entry :: "nat \<Rightarrow> dialog_row \<Rightarrow> json"                \<comment> \<open>a dialog in the list\<close>
  xd_search :: "nat \<Rightarrow> uid \<Rightarrow> nat \<Rightarrow> int option \<Rightarrow> go_err + hit list"   \<comment> \<open>the query's number, the user, limit, after\<close>

section \<open>The stored procedures\<close>

text \<open>
  Three texts on demo users, here in English: the error of the procedure, what the handler looks for in an error, and what
  it answers. The first two differ in their first letter.
\<close>

definition sp_refusal :: string where
  "sp_refusal = ''Impossible to delete a dialog of a demo user''"

definition demo_mark :: string where
  "demo_mark = ''impossible to delete a dialog of a demo user''"

definition demo_message :: string where
  "demo_message = ''Impossible to delete dialogs of a demo user''"

text \<open>The user's role is looked at, the owner of the dialog is not.\<close>

definition sp_DeleteDialog :: "uid \<Rightarrow> nat \<Rightarrow> 'a acct_st_scheme \<Rightarrow> go_err + 'a acct_st_scheme" where
  "sp_DeleteDialog u d w =
     (if map_option us_Role (map_of (users w) u) = Some 1 then Inl (Msg sp_refusal)
      else Inr (w\<lparr>dialogs := filter (\<lambda>(i, r). i \<noteq> d) (dialogs w)\<rparr>))"

text \<open>
  A query without rows leaves the variables as they were. Of the document only the text is modelled, which is what the
  user and the responder wrote.
\<close>

definition dialog_json :: "dialog_row option \<Rightarrow> json" where
  "dialog_json r =
     JObj [(''Data'', case r of None \<Rightarrow> JNull | Some r \<Rightarrow> (case dl_Data r of None \<Rightarrow> JNull | Some t \<Rightarrow> JStr t))]"

definition sp_ReadDialog :: "nat \<Rightarrow> 'a dlg_st_scheme \<Rightarrow> json \<times> 'a dlg_st_scheme" where
  "sp_ReadDialog d w =
     (let w = (case map_of (dialogs w) d of None \<Rightarrow> w | Some r \<Rightarrow> w\<lparr>dl_variables := Some r\<rparr>)
      in (dialog_json (dl_variables w), w))"

section \<open>Dialogs\<close>

text \<open>The document is missing when the user has no dialog.\<close>

definition db_GetUserDialogs :: "('w, 'e) dlg_env_scheme \<Rightarrow> uid \<Rightarrow> 'a acct_st_scheme \<Rightarrow> (go_err + json option) \<times> 'a acct_st_scheme" where
  "db_GetUserDialogs e u w =
     (if u = 0 then (Inl (Msg ''invalid userId''), w)
      else if failing w then (Inl (Wrap ''reading the dialogs'' sql_down), drawn w)
      else let ds = filter (\<lambda>(i, r). dl_User r = u) (dialogs w) in
        (Inr (if map_of (users w) u = None \<or> ds = [] then None else Some (JList (map (\<lambda>(i, r). xd_entry e i r) ds))), drawn w))"

text \<open>\<open>json.Indent\<close> of no text at all is an error.\<close>

definition indented :: "json option \<Rightarrow> string + json" where
  "indented j = (case j of None \<Rightarrow> Inl ''unexpected end of JSON input'' | Some j \<Rightarrow> Inr j)"

definition answer_indented :: "json option \<Rightarrow> 'w \<Rightarrow> 'w handled" where
  "answer_indented j w = (case indented j of Inl err \<Rightarrow> reply_error 500 err w | Inr j \<Rightarrow> (\<lparr>rs_status = 200, rs_body = j\<rparr>, w))"

definition GetUserDialogs :: "('w, 'e) dlg_env_scheme \<Rightarrow> gin \<Rightarrow> 'a acct_st_scheme \<Rightarrow> 'a acct_st_scheme handled" where
  "GetUserDialogs e c w =
     (case getUserID c of None \<Rightarrow> unauthorized w
      | Some u \<Rightarrow>
          (case db_GetUserDialogs e u w of
             (Inl err, w) \<Rightarrow> reply_error 500 (err_text err) w
           | (Inr j, w) \<Rightarrow> answer_indented j w))"

definition ViewDialog :: "('w, 'e) dlg_env_scheme \<Rightarrow> gin \<Rightarrow> 'w \<Rightarrow> 'w handled" where
  "ViewDialog e c w =
     (case ParseUint (Param c ''id'') of None \<Rightarrow> reply_error 400 ''Invalid dialog ID'' w
      | Some d \<Rightarrow>
          (case getUserID c of None \<Rightarrow> unauthorized w
           | Some u \<Rightarrow>
               (case xd_read e d w of
                  (Inl err, w) \<Rightarrow> reply_error 500 (err_text err) w
                | (Inr j, w) \<Rightarrow> answer_indented (Some j) w)))"

definition GetUserDetails :: "('e) prof_env_scheme \<Rightarrow> gin \<Rightarrow> 'a acct_st_scheme \<Rightarrow> 'a acct_st_scheme handled" where
  "GetUserDetails e c w =
     (case getUserID c of None \<Rightarrow> unauthorized w
      | Some u \<Rightarrow>
          (case db_GetUserDetails e u w of
             (Inl err, w) \<Rightarrow> reply_error 500 (err_text err) w
           | (Inr j, w) \<Rightarrow> answer_indented (Some j) w))"

definition DeleteDialog :: "('w, 'e) dlg_env_scheme \<Rightarrow> gin \<Rightarrow> 'w \<Rightarrow> 'w handled" where
  "DeleteDialog e c w =
     (case ParseUint (Param c ''id'') of None \<Rightarrow> reply_error 400 ''Invalid dialog ID'' w
      | Some d \<Rightarrow>
          (case getUserID c of None \<Rightarrow> unauthorized w
           | Some u \<Rightarrow>
               (case xd_delete e u d w of
                  (Inl err, w) \<Rightarrow> reply_error 500 (err_text err) w
                | (Inr _, w) \<Rightarrow> reply 200 [(''status'', JStr ''Dialog deleted successfully'')] w)))"

text \<open>The numbers of a list \<open>1,2,3\<close>; \<open>Inl\<close> is the first part that is no number.\<close>

fun query_ids :: "string list \<Rightarrow> string + nat list" where
  "query_ids [] = Inr []"
| "query_ids (p # ps) =
     (let p = TrimSpace p in
      if p = [] then query_ids ps
      else (case ParseUint p of None \<Rightarrow> Inl p
            | Some n \<Rightarrow> (case query_ids ps of Inl s \<Rightarrow> Inl s | Inr ns \<Rightarrow> Inr (n # ns))))"

definition ids_error :: "string \<Rightarrow> 'w \<Rightarrow> 'w handled" where
  "ids_error msg w = reply 400 [(''status'', JStr ''error''), (''error'', JStr msg)] w"

text \<open>The identifiers of the body, or else of the query.\<close>

definition asked_ids :: "gin \<Rightarrow> nat list body \<Rightarrow> string + nat list" where
  "asked_ids c b =
     (case b of
        Inr (n # ns) \<Rightarrow> Inr (n # ns)
      | _ \<Rightarrow>
          let q = Query c ''ids'' in
          if q = [] then Inl ''no ids provided''
          else (case query_ids (split_on (CHR '','') q) of
                  Inl p \<Rightarrow> Inl (''invalid id: '' @ p)
                | Inr [] \<Rightarrow> Inl ''empty ids list''
                | Inr ns \<Rightarrow> Inr ns))"

text \<open>The numbers deleted, failed and refused to a demo user.\<close>

fun delete_ids :: "('w, 'e) dlg_env_scheme \<Rightarrow> uid \<Rightarrow> nat list \<Rightarrow> 'w \<Rightarrow> (nat \<times> nat list \<times> nat list) \<times> 'w" where
  "delete_ids e u [] w = ((0, [], []), w)"
| "delete_ids e u (d # ds) w =
     (case xd_delete e u d w of
        (r, w) \<Rightarrow>
          (case delete_ids e u ds w of
             ((n, failed, refused), w) \<Rightarrow>
               ((case r of
                   Inr _ \<Rightarrow> (Suc n, failed, refused)
                 | Inl err \<Rightarrow> if Contains (err_text err) demo_mark then (n, failed, d # refused)
                              else (n, d # failed, refused)), w)))"

definition ids_json :: "nat list \<Rightarrow> json" where
  "ids_json ns = (if ns = [] then JNull else JList (map (\<lambda>n. JInt (int n)) ns))"

definition DeleteDialogs :: "('w, 'e) dlg_env_scheme \<Rightarrow> gin \<Rightarrow> nat list body \<Rightarrow> 'w \<Rightarrow> 'w handled" where
  "DeleteDialogs e c b w =
     (case asked_ids c b of
        Inl msg \<Rightarrow> ids_error msg w
      | Inr ds \<Rightarrow>
          (case getUserID c of None \<Rightarrow> unauthorized w
           | Some u \<Rightarrow>
               (case delete_ids e u ds w of
                  ((n, failed, refused), w) \<Rightarrow>
                    reply 200 ([(''status'', JStr ''ok''), (''ids'', ids_json ds), (''deleted'', JInt (int n)),
                                (''failed'', ids_json failed)]
                               @ (if refused = [] then [] else [(''demo_restricted'', ids_json refused),
                                    (''message'', JStr demo_message)])) w)))"

section \<open>The log\<close>

text \<open>The two replacements: sequences that colour a terminal, and the markers of users with the blanks after them.\<close>

definition esc :: char where
  "esc = CHR 0x1B"

definition colour_end :: "string \<Rightarrow> string option" where
  "colour_end s =
     (case s of
        a # b # r \<Rightarrow>
          if a = esc \<and> b = CHR ''['' then
            (case dropWhile (\<lambda>c. is_digit c \<or> c = CHR '';'') r of
               c # t \<Rightarrow> if c = CHR ''m'' then Some t else None
             | [] \<Rightarrow> None)
          else None
      | _ \<Rightarrow> None)"

definition re_space :: "char \<Rightarrow> bool" where
  "re_space c = (c \<in> set [CHR '' '', CHR 0x09, CHR 0x0A, CHR 0x0C, CHR 0x0D])"

definition marker_end :: "string \<Rightarrow> string option" where
  "marker_end s =
     (if HasPrefix s ''[USER:'' then
        (let r = drop 6 s in
         case r of
           c # _ \<Rightarrow>
             if is_digit c then
               (case dropWhile is_digit r of
                  d # t \<Rightarrow> if d = CHR '']'' then Some (dropWhile re_space t) else None
                | [] \<Rightarrow> None)
             else None
         | [] \<Rightarrow> None)
      else None)"

lemma length_dropWhile: "length (dropWhile P s) \<le> length s"
  by (induction s) auto

lemma colour_end_shorter: "colour_end s = Some t \<Longrightarrow> length t < length s"
  using length_dropWhile [of "\<lambda>c. is_digit c \<or> c = CHR '';''"]
  by (auto simp: colour_end_def split: list.splits if_splits) (metis Suc_le_lessD le_SucI length_Cons)+

lemma marker_end_shorter: "marker_end s = Some t \<Longrightarrow> length t < length s"
proof -
  assume a: "marker_end s = Some t"
  then obtain d r where r: "dropWhile is_digit (drop 6 s) = d # r" "t = dropWhile re_space r"
    by (auto simp: marker_end_def Let_def split: list.splits if_splits)
  have "length t \<le> length r" using r(2) length_dropWhile by blast
  also have "\<dots> < length (dropWhile is_digit (drop 6 s))" by (simp add: r(1))
  also have "\<dots> \<le> length (drop 6 s)" by (rule length_dropWhile)
  also have "\<dots> \<le> length s" by simp
  finally show ?thesis .
qed

function remove_all :: "(string \<Rightarrow> string option) \<Rightarrow> string \<Rightarrow> string" where
  "remove_all f [] = []"
| "remove_all f (c # s) =
     (case f (c # s) of
        None \<Rightarrow> c # remove_all f s
      | Some t \<Rightarrow> if length t \<le> length s then remove_all f t else [])"
  by pat_completeness auto

termination by (relation "measure (\<lambda>(f, s). length s)") auto

definition sanitizeUserLogLine :: "string \<Rightarrow> string" where
  "sanitizeUserLogLine line = TrimSpace (remove_all marker_end (remove_all colour_end line))"

definition user_marker :: "uid \<Rightarrow> string" where
  "user_marker u = ''[USER:'' @ show_uid u @ '']''"

text \<open>A time that cannot be read is the zero time of Go.\<close>

definition log_zero_time :: int where
  "log_zero_time = - 62135596800 * second"

record log_entry =
  le_time :: int
  le_message :: string
  le_service :: string

definition service_name :: "hit \<Rightarrow> string" where
  "service_name h =
     (if ht_service h \<noteq> [] then ht_service h else if ht_container h \<noteq> [] then ht_container h
      else if ht_app h \<noteq> [] then ht_app h else ''unknown'')"

definition hit_time :: "hit \<Rightarrow> int" where
  "hit_time h = (case ht_time h of None \<Rightarrow> log_zero_time | Some t \<Rightarrow> t)"

text \<open>\<open>since\<close> is the zero time when there is none.\<close>

definition log_entry_of :: "uid \<Rightarrow> int \<Rightarrow> hit \<Rightarrow> log_entry option" where
  "log_entry_of u since h =
     (if since \<noteq> log_zero_time \<and> \<not> since < hit_time h then None
      else if ht_message h = [] then None
      else if \<not> Contains (ht_message h) (user_marker u) then None
      else Some \<lparr>le_time = hit_time h, le_message = sanitizeUserLogLine (ht_message h), le_service = service_name h\<rparr>)"

text \<open>Entries with equal times keep the order in which they were found.\<close>

definition fetchLokiLogsSince :: "('w, 'e) dlg_env_scheme \<Rightarrow> nat \<Rightarrow> uid \<Rightarrow> nat \<Rightarrow> int \<Rightarrow> go_err + log_entry list" where
  "fetchLokiLogsSince e k u limit since =
     (case xd_search e k u limit (if since = log_zero_time then None else Some since) of
        Inl err \<Rightarrow> Inl (Wrap ''the search'' err)
      | Inr hs \<Rightarrow> Inr (sort_key le_time (List.map_filter (log_entry_of u since) hs)))"

definition fetchLokiLogs :: "('w, 'e) dlg_env_scheme \<Rightarrow> nat \<Rightarrow> uid \<Rightarrow> nat \<Rightarrow> go_err + log_entry list" where
  "fetchLokiLogs e k u limit = fetchLokiLogsSince e k u limit log_zero_time"

definition log_line :: "log_entry \<Rightarrow> string" where
  "log_line l = ''['' @ le_service l @ ''] '' @ le_message l @ newline"

text \<open>\<open>n\<close> ticks, the first with number \<open>k\<close>: the lines written and the time of the last one.\<close>

fun log_ticks :: "('w, 'e) dlg_env_scheme \<Rightarrow> uid \<Rightarrow> nat \<Rightarrow> nat \<Rightarrow> int \<Rightarrow> string list" where
  "log_ticks e u k 0 since = []"
| "log_ticks e u k (Suc n) since =
     (case fetchLokiLogsSince e k u 100 since of
        Inl err \<Rightarrow> []
      | Inr ls \<Rightarrow> map log_line ls @ log_ticks e u (Suc k) n (foldl max since (map le_time ls)))"

text \<open>The client stays for \<open>n\<close> ticks; it is told when the first search fails.\<close>

definition GetLogWSS :: "('w, 'e) dlg_env_scheme \<Rightarrow> uid \<Rightarrow> nat \<Rightarrow> string list" where
  "GetLogWSS e u n =
     (case fetchLokiLogs e 0 u 200 of
        Inl err \<Rightarrow> [''log not read: '' @ err_text err]
      | Inr ls \<Rightarrow> map log_line ls @ log_ticks e u 1 n log_zero_time)"

definition LogWSSHandler :: "('w, 'e) dlg_env_scheme \<Rightarrow> gin \<Rightarrow> nat \<Rightarrow> string list" where
  "LogWSSHandler e c n = (case getUserID c of None \<Rightarrow> [''invalid token''] | Some u \<Rightarrow> GetLogWSS e u n)"

end
