(* ===== verification/ProfileProps.thy ===== *)
theory ProfileProps
  imports Dialogs
begin

text \<open>
  A dialog is asked for by its number alone. The log is shown twice. The operators are always a
  list of numbers. An unknown service stays in the list for good.
\<close>

section \<open>Dialogs\<close>

text \<open>The handler that shows a dialog hands its number on and nobody's name: all users get the same answer.\<close>

lemma reading_names_no_user:
  assumes "getUserID c = Some u" "getUserID c' = Some u'" "Param c' ''id'' = Param c ''id''"
  shows "ViewDialog e c' w = ViewDialog e c w"
  using assms by (simp add: ViewDialog_def split: option.split)

text \<open>The stored procedure deletes any dialog for any user who is no demo user, and says nothing when there is none.\<close>

lemma procedure_deletes_any_dialog:
  assumes "map_option us_Role (map_of (users w) u) \<noteq> Some 1"
  shows "\<exists>w'. sp_DeleteDialog u d w = Inr w' \<and> d \<notin> fst ` set (dialogs w')"
  using assms by (auto simp: sp_DeleteDialog_def)

text \<open>The stored function answers for a dialog that does not exist with the one read before on the connection.\<close>

lemma procedure_shows_the_last:
  assumes "map_of (dialogs w) d = Some r" "map_of (dialogs w) d' = None"
  shows "fst (sp_ReadDialog d' (snd (sp_ReadDialog d w))) = dialog_json (Some r)"
  using assms by (simp add: sp_ReadDialog_def)

text \<open>The handler does not recognise the text of the procedure.\<close>

lemma refusal_is_not_recognised: "\<not> Contains sp_refusal demo_mark"
  by code_simp

text \<open>A user without dialogs is answered with an error.\<close>

lemma no_dialogs_is_an_error:
  assumes "getUserID c = Some u" "\<not> failing w" "\<forall>(i, r)\<in>set (dialogs w). dl_User r \<noteq> u"
  shows "status (GetUserDialogs e c w) = 500"
proof -
  have "filter (\<lambda>(i, r). dl_User r = u) (dialogs w) = []" using assms(3) by (auto simp: filter_empty_conv)
  moreover have "u \<noteq> 0" using getUserID_nonzero assms(1) .
  ultimately show ?thesis
    using assms(1,2) by (simp add: GetUserDialogs_def db_GetUserDialogs_def answer_indented_def indented_def)
qed

section \<open>The log\<close>

text \<open>The log store answers with the first entries after the time asked for, in the order of their times.\<close>

definition searches :: "('w, 'e) dlg_env_scheme \<Rightarrow> uid \<Rightarrow> hit list \<Rightarrow> bool" where
  "searches e u store = (\<forall>k limit since. xd_search e k u limit since =
     Inr (take limit (filter (\<lambda>h. case since of None \<Rightarrow> True | Some t \<Rightarrow> t < hit_time h) store)))"

definition all_lines :: "uid \<Rightarrow> hit list \<Rightarrow> string list" where
  "all_lines u store = map log_line (sort_key le_time (List.map_filter (log_entry_of u log_zero_time) store))"

lemma foldl_max_ge: "(a :: int) \<le> foldl max a ts \<and> (\<forall>t\<in>set ts. t \<le> foldl max a ts)"
proof (induction ts arbitrary: a)
  case (Cons t ts)
  have "max a t \<le> foldl max (max a t) ts" "\<forall>x\<in>set ts. x \<le> foldl max (max a t) ts"
    using Cons.IH [of "max a t"] by auto
  then show ?case by (simp add: max.bounded_iff)
qed simp

lemma log_entry_of_time: "log_entry_of u since h = Some l \<Longrightarrow> le_time l = hit_time h"
  by (auto simp: log_entry_of_def split: if_splits)

lemma log_entry_of_later:
  "log_entry_of u since h = Some l \<Longrightarrow> since \<noteq> log_zero_time \<Longrightarrow> since < hit_time h"
  by (auto simp: log_entry_of_def split: if_splits)

lemma log_entry_of_zero: "log_entry_of u since h = Some l \<Longrightarrow> log_entry_of u log_zero_time h = Some l"
  by (auto simp: log_entry_of_def split: if_splits)

text \<open>Once the time is that of the last entry nothing is found any more.\<close>

lemma later_ticks_idle:
  assumes "searches e u store" "\<forall>h\<in>set store. log_zero_time < hit_time h"
    and "\<forall>h\<in>set store. log_entry_of u log_zero_time h \<noteq> None \<longrightarrow> hit_time h \<le> since" "since = log_zero_time \<longrightarrow> List.map_filter (log_entry_of u log_zero_time) store = []"
    and "length store \<le> 100"
  shows "log_ticks e u k n since = []"
  using assms
proof (induction n arbitrary: k)
  case (Suc n)
  let ?q = "if since = log_zero_time then None else Some since"
  let ?hs = "take 100 (filter (\<lambda>h. case ?q of None \<Rightarrow> True | Some t \<Rightarrow> t < hit_time h) store)"
  have "List.map_filter (log_entry_of u since) ?hs = []"
  proof (cases "since = log_zero_time")
    case True
    then show ?thesis using Suc.prems(4,5) by simp
  next
    case False
    have "log_entry_of u since h = None" if "h \<in> set store" for h
    proof (rule ccontr)
      assume "log_entry_of u since h \<noteq> None"
      then obtain l where l: "log_entry_of u since h = Some l" by blast
      then have "since < hit_time h" using log_entry_of_later False by blast
      moreover have "hit_time h \<le> since" using Suc.prems(3) that log_entry_of_zero [OF l] by simp
      ultimately show False by simp
    qed
    then have "\<forall>h\<in>set ?hs. log_entry_of u since h = None" by (auto dest: in_set_takeD)
    then show ?thesis by (auto simp: map_filter_def filter_empty_conv)
  qed
  then have "fetchLokiLogsSince e k u 100 since = Inr []"
    using Suc.prems(1) by (simp add: fetchLokiLogsSince_def searches_def)
  then show ?case using Suc.IH [OF Suc.prems] by simp
qed simp

text \<open>Whoever opens the log sees every line twice. After the first two hundred lines have been sent the time of the last
  one is not remembered, so the first tick asks for the log from its beginning; from then on only new lines are sent.
  Shown for a log of at most a hundred entries to which nothing is added.\<close>

theorem log_is_shown_twice:
  assumes "searches e u store" "length store \<le> 100" "\<forall>h\<in>set store. log_zero_time < hit_time h"
  shows "GetLogWSS e u (Suc n) = all_lines u store @ all_lines u store"
proof -
  let ?ls = "sort_key le_time (List.map_filter (log_entry_of u log_zero_time) store)"
  let ?t = "foldl max log_zero_time (map le_time ?ls)"
  have f: "fetchLokiLogsSince e k u limit log_zero_time = Inr ?ls" if "100 \<le> limit" for k limit
    using assms(1,2) that by (simp add: fetchLokiLogsSince_def searches_def)
  have times: "le_time l = hit_time h" if "log_entry_of u log_zero_time h = Some l" for h l
    using log_entry_of_time that .
  have in_ls: "l \<in> set ?ls" if "h \<in> set store" "log_entry_of u log_zero_time h = Some l" for h l
    using that by (force simp: map_filter_def)
  have le: "hit_time h \<le> ?t" if "h \<in> set store" "log_entry_of u log_zero_time h = Some l" for h l
    using foldl_max_ge [where ts = "map le_time ?ls" and a = log_zero_time] in_ls [OF that] times [OF that(2)] by force
  have late: "\<forall>h\<in>set store. log_entry_of u log_zero_time h \<noteq> None \<longrightarrow> hit_time h \<le> ?t"
    using le by blast
  have none: "?t = log_zero_time \<longrightarrow> List.map_filter (log_entry_of u log_zero_time) store = []"
  proof
    assume z: "?t = log_zero_time"
    have "log_entry_of u log_zero_time h = None" if "h \<in> set store" for h
      using le [OF that] assms(3) that z by fastforce
    then show "List.map_filter (log_entry_of u log_zero_time) store = []" by (auto simp: map_filter_def filter_empty_conv)
  qed
  have "log_ticks e u 1 (Suc n) log_zero_time = map log_line ?ls @ log_ticks e u 2 n ?t"
    using f [of 100 1] by (simp add: numeral_2_eq_2)
  also have "log_ticks e u 2 n ?t = []"
    by (rule later_ticks_idle [OF assms(1,3) late none assms(2)])
  finally have "log_ticks e u 1 (Suc n) log_zero_time = map log_line ?ls" by simp
  then show ?thesis using f [of 200 0] by (simp add: GetLogWSS_def fetchLokiLogs_def all_lines_def)
qed

section \<open>Operators\<close>

definition in_int64 :: "int \<Rightarrow> bool" where
  "in_int64 n = (- (2 ^ 63) \<le> n \<and> n < 2 ^ 63)"

definition numbers_text :: "string \<Rightarrow> bool" where
  "numbers_text t = (\<exists>ns. t = ints_text ns \<and> list_all in_int64 ns)"

definition operators_typed :: "'a prof_st_scheme \<Rightarrow> bool" where
  "operators_typed w = (\<forall>(u, r)\<in>set (operators w). pred_option numbers_text (op_Telegram r))"

lemma int64_of_bound: "int64_of neg d = Some n \<Longrightarrow> in_int64 n"
  by (auto simp: int64_of_def in_int64_def split: option.splits if_splits)

lemma Atoi_bound: "Atoi s = Some n \<Longrightarrow> in_int64 n"
  by (cases s) (auto dest: int64_of_bound split: if_splits)

lemma float_to_int64_bound [simp]: "in_int64 (float_to_int64 n)"
  by (simp add: float_to_int64_def in_int64_def)

lemma operator_numbers_bound: "operator_numbers vs = Some ns \<Longrightarrow> list_all in_int64 ns"
proof (induction vs arbitrary: ns)
  case (Cons v vs)
  then obtain n ms where "operator_number v = Some n" "operator_numbers vs = Some ms" "ns = n # ms"
    by (auto split: option.splits)
  moreover have "in_int64 n" using \<open>operator_number v = Some n\<close> Atoi_bound
    by (auto simp: operator_number_def Let_def split: operator_val.splits)
  ultimately show ?case using Cons.IH by simp
qed simp

lemma empty_numbers: "numbers_text ''[]''"
  unfolding numbers_text_def by (rule exI [of _ "[]"]) (simp add: ints_text_def)

lemma update_members: "p \<in> set (AList.update k v al) \<Longrightarrow> p = (k, v) \<or> p \<in> set al"
  by (induction al) (auto split: if_splits)

lemma typed_update:
  "operators_typed w \<Longrightarrow> pred_option numbers_text (op_Telegram r) \<Longrightarrow> operators_typed (w\<lparr>operators := AList.update u r (operators w)\<rparr>)"
  unfolding operators_typed_def by (auto dest!: update_members)

lemma saved_typed:
  assumes "operators_typed w" "numbers_text t"
  shows "operators_typed (snd (db_SaveOperators u ''Telegram'' t w))"
proof -
  have d: "operators_typed (drawn w)" using assms(1) by (simp add: operators_typed_def drawn_def)
  have s: "op_Telegram (set_operators ''Telegram'' t r) = Some t" for r by (simp add: set_operators_def)
  show ?thesis
    using d assms(1) typed_update [OF d, of "set_operators ''Telegram'' t _"] s assms(2)
    by (auto simp: db_SaveOperators_def drawn_def)
qed

lemma answered_state:
  "snd (case x of (Inl err, w) \<Rightarrow> reply_error 500 (err_text err) w | (Inr (_ :: unit), w) \<Rightarrow> reply 200 fs w) = snd x"
  by (cases x; cases "fst x") auto

lemma SaveOperators_typed: "operators_typed w \<Longrightarrow> operators_typed (snd (SaveOperators c b w))"
proof -
  assume t: "operators_typed w"
  have n: "numbers_text (if ns = [] then ''[]'' else ints_text ns)" if "operator_numbers vs = Some ns" for vs ns
    using operator_numbers_bound [OF that] empty_numbers by (auto simp: numbers_text_def)
  have "operators_typed (snd (db_SaveOperators u ''Telegram'' (if ns = [] then ''[]'' else ints_text ns) w))"
    if "operator_numbers vs = Some ns" for u vs ns
    using saved_typed [OF t n [OF that]] .
  then have saved: "operators_typed (snd (case db_SaveOperators u ''Telegram'' (if ns = [] then ''[]'' else ints_text ns) w of
      (Inl err, w) \<Rightarrow> reply_error 500 (err_text err) w | (Inr _, w) \<Rightarrow> reply 200 [(''status'', JStr ''success'')] w))"
    if "operator_numbers vs = Some ns" for u vs ns
    unfolding answered_state using that .
  show ?thesis
  proof (cases "getUserID c")
    case None
    then show ?thesis using t by (simp add: SaveOperators_def)
  next
    case (Some u)
    show ?thesis
    proof (cases b)
      case (Inl err)
      then show ?thesis using t Some by (simp add: SaveOperators_def bad_body_def)
    next
      case (Inr q)
      show ?thesis
      proof (cases q)
        case None
        then show ?thesis using t Some Inr by (simp add: SaveOperators_def)
      next
        case vs: (Some vs)
        show ?thesis
        proof (cases "operator_numbers vs")
          case None
          then show ?thesis using t Some Inr vs by (simp add: SaveOperators_def)
        next
          case ns: (Some ns)
          show ?thesis using t Some Inr vs ns saved [OF ns]
            by (simp only: SaveOperators_def option.case sum.case Let_def if_distrib [of snd] reply_simps simp_thms split: if_split)
        qed
      qed
    qed
  qed
qed

lemma OperatorsList_typed:
  assumes "operators_typed w"
  shows "operators_typed (snd (OperatorsList c w))" "fst (OperatorsList c w) = Inr t \<Longrightarrow> numbers_text t"
proof -
  show "operators_typed (snd (OperatorsList c w))"
    using assms by (auto simp: OperatorsList_def db_OperatorsList_def operators_typed_def drawn_def split: option.split)
  have "numbers_text s" if "map_of (operators w) u = Some r" "op_Telegram r = Some s" for u r s
  proof -
    have "(u, r) \<in> set (operators w)" using that(1) by (rule map_of_SomeD)
    then show ?thesis using assms that(2) unfolding operators_typed_def by fastforce
  qed
  then show "fst (OperatorsList c w) = Inr t \<Longrightarrow> numbers_text t"
    using empty_numbers by (auto simp: OperatorsList_def db_OperatorsList_def split: option.splits if_splits)
qed

datatype operator_request = SaveThem gin "operator_val list option body" | ListThem gin

fun operator_served :: "'a prof_st_scheme \<Rightarrow> operator_request \<Rightarrow> 'a prof_st_scheme" where
  "operator_served w (SaveThem c b) = snd (SaveOperators c b w)"
| "operator_served w (ListThem c) = snd (OperatorsList c w)"

lemma listed_after_save:
  assumes "SaveOperators c (Inr (Some vs)) w = (r, w')" "rs_status r = 200" "getUserID c' = getUserID c" "\<not> failing w'"
  shows "\<exists>ns. operator_numbers vs = Some ns \<and> fst (OperatorsList c' w') = Inr (ints_text ns)"
proof -
  obtain u where u: "getUserID c = Some u"
    using assms(1,2) by (cases "getUserID c") (auto simp: SaveOperators_def unauthorized_def reply_error_def reply_def)
  obtain ns where ns: "operator_numbers vs = Some ns"
    using assms(1,2) u by (cases "operator_numbers vs") (auto simp: SaveOperators_def reply_error_def reply_def)
  have shown: "(if ns = [] then ''[]'' else ints_text ns) = ints_text ns" "ints_text ns \<noteq> []"
    by (simp_all add: ints_text_def)
  obtain x v where s: "db_SaveOperators u ''Telegram'' (ints_text ns) w = (x, v)" by fastforce
  have v: "x = Inr ()" "w' = v"
    using assms(1,2) u ns s shown(1)
    by (cases x; auto simp: SaveOperators_def Let_def reply_error_def reply_def split: if_splits)+
  then have "map_option op_Telegram (map_of (operators w') u) = Some (Some (ints_text ns))"
    using s by (auto simp: db_SaveOperators_def set_operators_def update_conv' split: if_splits)
  then show ?thesis using assms(3,4) u ns shown(2)
    by (auto simp: OperatorsList_def db_OperatorsList_def)
qed

text \<open>C40: The operators a user is shown are a JSON list of integers of 64 bits: whatever bodies are sent, in whatever order
  and with whatever failing statements, from a table that is so typed, what the listing returns is such a list. After a
  save that was answered 200 it lists the numbers sent, texts read as decimal numbers and JSON numbers rounded to a
  double and cut to integers.\<close>

theorem operators_are_numbers:
  assumes "operators_typed w" "v = foldl operator_served w rs"
  shows "(\<forall>t. fst (OperatorsList c v) = Inr t \<longrightarrow> (\<exists>ns. t = ints_text ns \<and> list_all in_int64 ns))
    \<and> (\<forall>c' vs r v'. SaveOperators c' (Inr (Some vs)) v = (r, v') \<and> rs_status r = 200 \<and> getUserID c' = getUserID c
          \<and> \<not> failing v'
        \<longrightarrow> (\<exists>ns. operator_numbers vs = Some ns \<and> fst (OperatorsList c v') = Inr (ints_text ns)))"
proof -
  have "operators_typed (foldl operator_served w rs)" using assms(1)
  proof (induction rs arbitrary: w)
    case (Cons q rs)
    have "operators_typed (operator_served w q)"
      using Cons.prems SaveOperators_typed OperatorsList_typed(1) by (cases q) auto
    then show ?case using Cons.IH by simp
  qed simp
  then have "fst (OperatorsList c v) = Inr t \<Longrightarrow> \<exists>ns. t = ints_text ns \<and> list_all in_int64 ns" for t
    using OperatorsList_typed(2) assms(2) unfolding numbers_text_def by blast
  then show ?thesis using listed_after_save by metis
qed

text \<open>An integer is rounded as before, a fraction is cut, and one too near to the next integer is not.\<close>

lemma round_div_one: "round_div a 1 = a"
  by (simp add: round_div_def)

lemma whole_number_trunc: "float64_trunc m 1 = float64_of m"
proof (cases "m < 2 ^ 53")
  case True
  then show ?thesis unfolding float64_trunc_def float64_of_def Let_def by (simp only: mult_1_right if_True round_div_one) simp
next
  case False
  have half: "2 ^ Suc b < 2 * r \<longleftrightarrow> 2 ^ Suc b div 2 < r" "2 * r = 2 ^ Suc b \<longleftrightarrow> r = 2 ^ Suc b div 2" for b r :: nat by auto
  have "round_div m (2 ^ Suc b) * 2 ^ Suc b = round_bits (Suc b) m" for b
    unfolding round_div_def round_bits_def Let_def half ..
  moreover have "excess_bits 64 m = Suc (excess_bits 63 (m div 2))" using False excess_bits.simps(2) [of 63 m] by simp
  ultimately show ?thesis
    using False unfolding float64_trunc_def float64_of_def Let_def by (simp only: mult_1_right mult_1_left if_False div_by_1)
qed

lemma more_bits_numeral [simp]:
  "more_bits (numeral k) m d = (if 2 * m < 2 ^ 53 * d then Suc (more_bits (pred_numeral k) (2 * m) d) else 0)"
  by (simp only: numeral_eq_Suc [of k] more_bits.simps)

lemma excess_bits_numeral [simp]:
  "excess_bits (numeral k) n = (if n < 2 ^ 53 then 0 else Suc (excess_bits (pred_numeral k) (n div 2)))"
  by (simp only: numeral_eq_Suc [of k] excess_bits.simps)

lemma operator_number_examples:
  "operator_number (ONum 150 2) = Some 1" "operator_number (ONum (- 15) 1) = Some (- 1)"
  "operator_number (ONum 99999999999999999 17) = Some 1" "operator_number (ONum (10 ^ 30) 0) = Some (- (2 ^ 63))"
  by (simp_all add: operator_number_def float64_trunc_def Let_def round_div_def float_to_int64_def)

section \<open>Services\<close>

text \<open>The list of a user to whom an unknown service was added holds the empty text, and no request deletes it.\<close>

lemma unknown_service_stays:
  assumes "getUserID c = Some u" "\<not> failing w" "s \<noteq> []" "xp_member e s = None" "map_of (users w) u \<noteq> None"
    and "\<forall>t m. xp_member e t = Some m \<longrightarrow> m \<noteq> []"
  shows "(u, []) \<in> set (service (snd (DeleteService e c' b (snd (AddService e c (Inr s) w)))))"
proof -
  have "u \<noteq> 0" using getUserID_nonzero assms(1) .
  then have a: "(u, []) \<in> set (service (snd (AddService e c (Inr s) w)))"
    using assms(1-5) by (auto simp: AddService_def db_AddService_def)
  have "(u, []) \<in> set (service (snd (DeleteService e c' b v)))" if "(u, []) \<in> set (service v)" for v
    using that assms(6)
    by (auto simp: DeleteService_def db_DeleteService_def bad_body_def unauthorized_def drawn_def split: option.split sum.split)
  then show ?thesis using a by blast
qed

section \<open>The default model\<close>

lemma statements_three:
  "run_statements [f, g, h] t w = (Inr t', w') \<Longrightarrow> \<exists>a b. f t = Inr a \<and> g a = Inr b \<and> h b = Inr t'"
  by (auto split: if_splits sum.splits)

text \<open>After a change of the default exactly the chosen model is the default of its provider.\<close>

lemma one_default_model:
  assumes "UpdateDevGPTModel name m w = (Inr (), w')" "distinct (map fst (gpt_models w))"
  shows "\<exists>p. provider_id name (model_providers w) = Some p
     \<and> map fst (filter (\<lambda>(i, q, d). q = p \<and> d) (gpt_models w')) = [m]"
proof -
  obtain t v where t: "default_statements name m (drawn w) = (Inr t, v)" "gpt_models w' = gpt_models t"
    using assms(1) by (auto simp: UpdateDevGPTModel_def in_tx_def split: if_splits sum.splits prod.splits)
  then obtain p where p: "provider_id name (model_providers w) = Some p"
      "gpt_models t = mark_default p m (reset_defaults p (gpt_models w))"
      "list_ex (\<lambda>(i, q, d). i = m \<and> q = p \<and> \<not> d) (reset_defaults p (gpt_models w))"
    by (auto simp: default_statements_def drawn_def split: if_splits option.splits dest!: statements_three)
  have "map fst (filter (\<lambda>(i, q, d). q = p \<and> d) (mark_default p m (reset_defaults p ms))) =
      (if \<exists>d. (m, p, d) \<in> set ms then [m] else [])" if "distinct (map fst ms)" for ms
    using that by (induction ms) (auto simp: mark_default_def reset_defaults_def rev_image_eqI split: if_splits)
  moreover have "\<exists>d. (m, p, d) \<in> set (gpt_models w)"
    using p(3) by (auto simp: list_ex_iff reset_defaults_def)
  ultimately show ?thesis using assms(2) p(1,2) t(2) by auto
qed

lemma key_waits_for_the_password:
  assumes "GetMasterKey u w = None" "GetMasterKeyData u w = (Inr (Some k), w')"
  shows "uc_SetUserAPIKey e u p key w = (Inl (Msg ''MASTER_KEY_REQUIRED''), w')"
  using assms by (simp add: uc_SetUserAPIKey_def)

end
