(* ===== verification/ProfileDemo.thy ===== *)
theory ProfileDemo
  imports ProfileProps AccountDemo
begin

text \<open>A user with one dialog and one line in the log, who saves two operators.\<close>

definition talk_st :: dlg_st where
  "talk_st = web2_st.extend small_st
     \<lparr>called = [], to_stop = [], notices = [], inst_queue = [], service = [], operators = [], time_zones = [],
      model_providers = [], gpt_models = [], dl_variables = None\<rparr>"

definition one_hit :: hit where
  "one_hit = \<lparr>ht_message = ''[USER:7] started'', ht_time = Some 5, ht_service = ''tgbot'', ht_container = [], ht_app = []\<rparr>"

definition talk_env :: "dlg_st dlg_env" where
  "talk_env = web_env.extend small_web
     \<lparr>xc_call = (\<lambda>t u. Inl (Msg [])), xc_bot_name = Inr, xc_rune = (\<lambda>s. ([], 1)),
      xn_cap = 1, xn_bot = [], xn_lang = (\<lambda>u. ''ru''), xn_message = (\<lambda>a b c d t. Inr t), xn_verify = (\<lambda>t n s. None),
      xn_mail = (\<lambda>t u a b. None), xn_telega = (\<lambda>t a n m. Inr (200, [])),
      xp_details = (\<lambda>u. JObj []), xp_info = (\<lambda>u. JObj []), xp_member = (\<lambda>s. None), xp_provider = (\<lambda>s. Inr 1),
      xp_active = (\<lambda>u. Inr 1), xp_set_key = (\<lambda>u p k t. Inr t), xp_revoke_key = (\<lambda>u p t. Inr t), xp_keys = (\<lambda>u. []),
      xd_read = (\<lambda>d w. (Inr JNull, w)), xd_delete = (\<lambda>u d w. (Inr (), w)),
      xd_entry = (\<lambda>i r. JNull),
      xd_search = (\<lambda>k u limit since. Inr (take limit (filter (\<lambda>h. case since of None \<Rightarrow> True | Some t \<Rightarrow> t < hit_time h) [one_hit])))\<rparr>"

definition asks_for :: "uid \<Rightarrow> string \<Rightarrow> gin" where
  "asks_for u i = \<lparr>g_keys = [(''userId'', CtxU32 u)], g_query = [], g_param = [(''id'', i)]\<rparr>"

lemma talk_searches: "searches talk_env 7 [one_hit]"
  by (simp add: searches_def talk_env_def web_env.defs)

lemma talk_fields [simp]:
  "dialogs talk_st = [(1, \<lparr>dl_User = 7, dl_Data = Some ''hello''\<rparr>)]" "operators talk_st = []"
  "users talk_st = [(7, \<lparr>us_Name = ''seven'', us_Role = 2, us_Lang = 1\<rparr>)]" "faults talk_st = []"
  by (simp_all add: talk_st_def web2_st.defs small_st_def data_st.defs small_data_def exam_st.defs toy_exam_st_def exam_of_def app_st.defs toy_app_def)

lemma log_is_shown_twice_witness: "GetLogWSS talk_env 7 (Suc 4) = all_lines 7 [one_hit] @ all_lines 7 [one_hit]"
  by (rule log_is_shown_twice [OF talk_searches]) (simp_all add: one_hit_def hit_time_def log_zero_time_def second_def)

lemma one_line_shown: "all_lines 7 [one_hit] = [''[tgbot] started'' @ newline]"
  by code_simp

lemma talk_typed: "operators_typed talk_st"
  by (simp add: operators_typed_def)

lemma operators_are_numbers_witness:
  "\<exists>ns. ''[1,-7]'' = ints_text ns \<and> list_all in_int64 ns"
proof -
  let ?save = "SaveThem (asks_for 7 []) (Inr (Some [ONum 150 2, OText ''-7'']))"
  let ?v = "foldl operator_served talk_st [?save]"
  have "fst (OperatorsList (asks_for 7 []) ?v) = Inr ''[1,-7]''"
  proof -
    have n: "operator_numbers [ONum 150 2, OText ''-7''] = Some [1, - 7]"
      by (simp only: operator_numbers.simps operator_number_examples)
        (simp add: operator_number_def digits_def int64_of_def is_digit_def)
    have t: "ints_text [1, - 7] = ''[1,-7]''" and v: "json_valid ''[1,-7]''" by code_simp+
    have u: "getUserID (asks_for 7 []) = Some 7" by (simp add: getUserID_def asks_for_def)
    show ?thesis
      by (simp del: operator_numbers.simps add: SaveOperators_def OperatorsList_def db_OperatorsList_def db_SaveOperators_def
          n t v u failing_def drawn_def set_operators_def)
  qed
  then show ?thesis using operators_are_numbers [OF talk_typed, of ?v "[?save]" "asks_for 7 []"] by blast
qed

end
