(* ===== verification/ModelStore.thy ===== *)
theory ModelStore
  imports Channels Mcp
begin

text \<open>
  The state behind \<open>delivery/http/model_crud.go\<close> and the queries of \<open>repository/mysql/model.go\<close>. The router of
  models is a library outside the repository: its state is the type parameter \<open>'r\<close> and its calls are parameters, as
  are the types of providers, the methods the repository inherits from its library, and what the database server does
  when it merges two JSON texts.
\<close>

section \<open>Models and voices\<close>

text \<open>The part of a model the handlers look into; \<open>um_fields\<close> holds the JSON of the other fields by name.\<close>

record mistral_vad =
  mv_VoiceID :: "string option"
  mv_Clone :: "(bool \<times> string \<times> json) option"           \<comment> \<open>\<open>Enabled\<close>, \<open>ProfileID\<close> and the rest\<close>
  mv_other :: json

record vad =
  va_Mistral :: "mistral_vad option"
  va_other :: json

record chosen_models =
  ch_General :: "string \<times> nat"
  ch_Realtime :: "string \<times> nat"

record umodel =
  um_fields :: "(string \<times> json) list"
  um_FileIds :: "(string \<times> string) list"                \<comment> \<open>ID and name\<close>
  um_Chosen :: "chosen_models option"                     \<comment> \<open>\<open>UseModelName\<close>\<close>
  um_Provider :: nat
  um_VAD :: "vad option"                                  \<comment> \<open>\<open>RealtimeVAD\<close>\<close>

record voice =
  vo_ID :: string
  vo_UserID :: "string option"
  vo_Doc :: json                                          \<comment> \<open>the voice as JSON\<close>

record create_voice =
  cv_Name :: string
  cv_Samples :: "string list"
  cv_SampleAudio :: string
  cv_CloneMode :: string
  cv_Language :: string
  cv_ModelID :: string
  cv_Languages :: "string list"
  cv_Tags :: "string list"
  cv_Filename :: "string option"
  cv_Gender :: "string option"
  cv_Description :: "string option"

record ids_data =
  id_files :: "(string \<times> string) list"                  \<comment> \<open>ID and name\<close>
  id_vectors :: "string list"

record 'r model_env =
  xm_openai :: nat
  xm_mistral :: nat
  xm_google :: nat
  xm_from_string :: "string \<Rightarrow> nat option"
  xm_valid :: "nat \<Rightarrow> bool"
  xm_name :: "nat \<Rightarrow> string"
  xm_json :: "nat \<Rightarrow> json"                             \<comment> \<open>a provider as JSON\<close>
  xm_voice_only :: "nat \<Rightarrow> bool"
  xm_clones :: "nat \<Rightarrow> bool"
  xm_instant :: string
  xm_mode_ok :: "string \<Rightarrow> bool"
  xm_type :: "string \<Rightarrow> bool \<times> nat"                     \<comment> \<open>\<open>ModelTypeFromString\<close>: an error and the value\<close>
  xm_realtime :: "nat \<Rightarrow> bool"
  xm_general :: nat
  xm_list_voices :: "uid \<Rightarrow> nat \<Rightarrow> int \<Rightarrow> int \<Rightarrow> string \<Rightarrow> 'r \<Rightarrow> (go_err + json) \<times> 'r"
  xm_get_voice :: "uid \<Rightarrow> nat \<Rightarrow> string \<Rightarrow> 'r \<Rightarrow> (go_err + voice) \<times> 'r"
  xm_update_voice :: "uid \<Rightarrow> nat \<Rightarrow> string \<Rightarrow> json \<Rightarrow> 'r \<Rightarrow> (go_err + voice) \<times> 'r"
  xm_delete_voice :: "uid \<Rightarrow> nat \<Rightarrow> string \<Rightarrow> 'r \<Rightarrow> (go_err + voice) \<times> 'r"
  xm_sample :: "uid \<Rightarrow> nat \<Rightarrow> string \<Rightarrow> 'r \<Rightarrow> (go_err + json) \<times> 'r"
  xm_create_voice :: "uid \<Rightarrow> nat \<Rightarrow> create_voice \<Rightarrow> 'r \<Rightarrow> (go_err + voice) \<times> 'r"
  xm_delete_mistral :: "uid \<Rightarrow> string \<Rightarrow> 'r \<Rightarrow> (go_err + unit) \<times> 'r"
  xm_user_model :: "uid \<Rightarrow> nat \<Rightarrow> 'r \<Rightarrow> (go_err + umodel option) \<times> 'r"
  xm_update_everywhere :: "uid \<Rightarrow> umodel \<Rightarrow> 'r \<Rightarrow> (go_err + unit) \<times> 'r"
  xm_invalidate :: "uid \<Rightarrow> 'r \<Rightarrow> 'r"
  xm_create_model :: "uid \<Rightarrow> nat \<Rightarrow> umodel \<Rightarrow> (string \<times> string) list \<Rightarrow> 'r \<Rightarrow> (go_err + json) \<times> 'r"
  xm_save_model :: "uid \<Rightarrow> json \<Rightarrow> umodel \<Rightarrow> 'r \<Rightarrow> (go_err + unit) \<times> 'r"
  xm_delete_model :: "uid \<Rightarrow> nat \<Rightarrow> 'r \<Rightarrow> (go_err + unit) \<times> string list \<times> 'r"   \<comment> \<open>with the progress reported\<close>
  xm_upload :: "uid \<Rightarrow> nat \<Rightarrow> string \<Rightarrow> string \<Rightarrow> 'r \<Rightarrow> (go_err + string) \<times> 'r"
  xm_delete_file :: "uid \<Rightarrow> nat \<Rightarrow> string \<Rightarrow> 'r \<Rightarrow> (go_err + unit) \<times> 'r"
  xm_set_active :: "uid \<Rightarrow> nat \<Rightarrow> 'r \<Rightarrow> (go_err + unit) \<times> 'r"
  xm_all_models :: "uid \<Rightarrow> 'r \<Rightarrow> (go_err + json) \<times> 'r"
  xm_models_list :: "nat \<Rightarrow> nat \<Rightarrow> string \<Rightarrow> 'r \<Rightarrow> (go_err + json) \<times> 'r"   \<comment> \<open>within three seconds\<close>
  xm_capabilities :: "string \<Rightarrow> json"
  xm_available :: "uid \<Rightarrow> string list"
  xm_api_key :: "uid \<Rightarrow> nat \<Rightarrow> go_err + string"
  xm_voice_models :: "nat \<Rightarrow> go_err + json list"
  xm_defaults :: "string \<Rightarrow> go_err + chosen_models"
  xm_row :: "nat \<Rightarrow> string \<Rightarrow> json"                     \<comment> \<open>\<open>ProviderModel\<close> as JSON\<close>
  xm_rank :: "string \<Rightarrow> nat"                              \<comment> \<open>the order of the collation\<close>
  xm_merge :: "string \<Rightarrow> string \<Rightarrow> go_err + string option"
  xm_ids :: "string \<Rightarrow> go_err + ids_data"
  xm_text :: "ids_data \<Rightarrow> string"
  xm_content_type :: "string \<Rightarrow> string"                   \<comment> \<open>\<open>http.DetectContentType\<close>\<close>

text \<open>
  \<open>user_models\<close>: user, model and whether it is active; \<open>user_gpt\<close>: the column \<open>Ids\<close> of a model; the two catalogues:
  number, provider, name.
\<close>

record 'r model_st = data_st +
  router :: 'r
  user_models :: "(uid \<times> nat \<times> bool) list"
  user_gpt :: "(nat \<times> string option) list"
  gpt_names :: "(nat \<times> nat \<times> string) list"
  realtime_names :: "(nat \<times> nat \<times> string) list"

text \<open>A call to the router.\<close>

definition routed :: "('r \<Rightarrow> 'x \<times> 'r) \<Rightarrow> ('r, 'a) model_st_scheme \<Rightarrow> 'x \<times> ('r, 'a) model_st_scheme" where
  "routed f w = (case f (router w) of (x, r) \<Rightarrow> (x, w\<lparr>router := r\<rparr>))"

lemma routed_is: "f (router w) = (x, r) \<Longrightarrow> routed f w = (x, w\<lparr>router := r\<rparr>)"
  by (simp add: routed_def)

section \<open>The queries\<close>

definition FastCheckActiveUserModel :: "uid \<Rightarrow> ('r, 'a) model_st_scheme \<Rightarrow> (go_err + bool) \<times> ('r, 'a) model_st_scheme" where
  "FastCheckActiveUserModel u w =
     (if failing w then (Inl (Wrap ''active model'' sql_down), drawn w)
      else (Inr (list_ex (\<lambda>(v, m, on). v = u \<and> on) (user_models w)), drawn w))"

definition full_id :: "string \<Rightarrow> string" where
  "full_id i = (if HasPrefix i ''file-'' then i else ''file-'' @ i)"

text \<open>The first active model of the user that has its row, with the column \<open>Ids\<close>; \<open>Scan\<close> fails without a row.\<close>

definition active_ids :: "uid \<Rightarrow> ('r, 'a) model_st_scheme \<Rightarrow> (nat \<times> string option) option" where
  "active_ids u w =
     (case find (\<lambda>(v, m, on). v = u \<and> on \<and> map_of (user_gpt w) m \<noteq> None) (user_models w) of
        None \<Rightarrow> None
      | Some (v, m, on) \<Rightarrow> Some (m, the (map_of (user_gpt w) m)))"

text \<open>
  A transaction on that row: the query, then what the function makes of the column. A failed statement or commit rolls
  back, so nothing is stored.
\<close>

definition on_active_ids :: "uid \<Rightarrow> (string option \<Rightarrow> go_err + string option) \<Rightarrow> ('r, 'a) model_st_scheme
    \<Rightarrow> (go_err + unit) \<times> ('r, 'a) model_st_scheme" where
  "on_active_ids u f w =
     (if failing w then (Inl (Wrap ''begin transaction'' sql_down), drawn w)
      else let w = drawn w in
        if failing w then (Inl (Wrap ''reading user_gpt'' sql_down), drawn w)
        else let w = drawn w in
          case active_ids u w of
            None \<Rightarrow> (Inl (Msg ''no active model''), w)
          | Some (m, ids) \<Rightarrow>
              (case f ids of
                 Inl err \<Rightarrow> (Inl err, w)
               | Inr ids' \<Rightarrow>
                   if failing w then (Inl (Wrap ''updating user_gpt'' sql_down), drawn w)
                   else let w = drawn w in
                     if failing w then (Inl (Wrap ''commit'' sql_down), drawn w)
                     else (Inr (), (drawn w)\<lparr>user_gpt := AList.update m ids' (user_gpt w)\<rparr>)))"

text \<open>The object is put together as text; only the quotes of the name are escaped.\<close>

definition escape_quotes :: "string \<Rightarrow> string" where
  "escape_quotes s = concat (map (\<lambda>c. if c = CHR 0x22 then [CHR 0x5C, CHR 0x22] else [c]) s)"

definition in_quotes :: "string \<Rightarrow> string" where
  "in_quotes s = CHR 0x22 # s @ [CHR 0x22]"

definition file_object :: "string \<Rightarrow> string \<Rightarrow> string" where
  "file_object name i =
     ''{'' @ in_quotes ''name'' @ '':'' @ in_quotes (escape_quotes name) @ '','' @ in_quotes ''id'' @ '':'' @ in_quotes i @ ''}''"

text \<open>\<open>JSON_MERGE_PRESERVE\<close> of \<open>NULL\<close> and anything is \<open>NULL\<close>.\<close>

definition merge_preserve :: "('r, 'e) model_env_scheme \<Rightarrow> string option \<Rightarrow> string \<Rightarrow> go_err + string option" where
  "merge_preserve e ids doc = (case ids of None \<Rightarrow> Inr None | Some t \<Rightarrow> xm_merge e t doc)"

definition AddFileFromUserGPT :: "('r, 'e) model_env_scheme \<Rightarrow> uid \<Rightarrow> string \<Rightarrow> string \<Rightarrow> ('r, 'a) model_st_scheme
    \<Rightarrow> (go_err + unit) \<times> ('r, 'a) model_st_scheme" where
  "AddFileFromUserGPT e u i name w =
     on_active_ids u (\<lambda>ids. merge_preserve e ids
       (''{'' @ in_quotes ''FileIds'' @ '':['' @ file_object name (full_id i) @ '']}'')) w"

definition without_file :: "('r, 'e) model_env_scheme \<Rightarrow> string \<Rightarrow> string option \<Rightarrow> go_err + string option" where
  "without_file e i ids =
     (case ids of
        None \<Rightarrow> Inl (Msg ''no JSON data'')
      | Some t \<Rightarrow>
          if t = [] then Inl (Msg ''no JSON data'')
          else (case xm_ids e t of
                  Inl err \<Rightarrow> Inl (Wrap ''parsing JSON'' err)
                | Inr d \<Rightarrow>
                    if list_ex (\<lambda>(j, n). j = i) (id_files d)
                    then Inr (Some (xm_text e (d\<lparr>id_files := filter (\<lambda>(j, n). j \<noteq> i) (id_files d)\<rparr>)))
                    else Inl (Msg (''no file '' @ i))))"

definition DeleteFileFromUserGPT :: "('r, 'e) model_env_scheme \<Rightarrow> uid \<Rightarrow> string \<Rightarrow> ('r, 'a) model_st_scheme
    \<Rightarrow> (go_err + unit) \<times> ('r, 'a) model_st_scheme" where
  "DeleteFileFromUserGPT e u i w =
     (if i = [] then (Inl (Msg ''empty fileID''), w) else on_active_ids u (without_file e (full_id i)) w)"

definition catalogue_rows :: "('r, 'e) model_env_scheme \<Rightarrow> nat \<Rightarrow> (nat \<times> nat \<times> string) list \<Rightarrow> json list" where
  "catalogue_rows e p t =
     map (\<lambda>(i, q, n). xm_row e i (TrimSpace n))
       (sort_key (\<lambda>(i, q, n). xm_rank e n) (filter (\<lambda>(i, q, n). q = p) t))"

definition GetTypesGPT :: "('r, 'e) model_env_scheme \<Rightarrow> nat \<Rightarrow> nat \<Rightarrow> ('r, 'a) model_st_scheme
    \<Rightarrow> (go_err + json) \<times> ('r, 'a) model_st_scheme" where
  "GetTypesGPT e p t w =
     (let (rows, w) =
        (if xm_voice_only e p then (Inr [], w)
         else if failing w then (Inl (Wrap ''GetTypesGPT'' sql_down), drawn w)
         else (Inr (catalogue_rows e p (if xm_realtime e t then realtime_names w else gpt_names w)), drawn w))
      in case rows of
           Inl err \<Rightarrow> (Inl err, w)
         | Inr ms \<Rightarrow> (case xm_voice_models e p of
                        Inl err \<Rightarrow> (Inl err, w)
                      | Inr vs \<Rightarrow> (Inr (JList (ms @ vs)), w)))"

section \<open>Lemmas\<close>

lemma in_quotes_plain: "plain_text p \<Longrightarrow> json_string (tl (in_quotes p) @ r) = Some r"
  by (simp add: in_quotes_def json_string_plain)

lemma model_tables_drawn [simp]:
  "user_models (drawn w) = user_models w" "user_gpt (drawn w) = user_gpt w" "router (drawn w) = router w"
  by (simp_all add: drawn_def)

lemma active_ids_drawn: "active_ids u (drawn w) = active_ids u w"
  by (simp only: active_ids_def model_tables_drawn)

lemma on_active_ids_calm:
  assumes "calm w" "active_ids u w = Some (m, ids)" "f ids = Inr ids'"
  shows "\<exists>v. on_active_ids u f w = (Inr (), v) \<and> calm v \<and> user_models v = user_models w
    \<and> user_gpt v = AList.update m ids' (user_gpt w)"
proof -
  let ?d = "\<lambda>n. (drawn ^^ n) w"
  have "calm (?d n)" for n by (induction n) (simp_all add: assms(1) calm_drawn)
  from this [of 1] this [of 2] this [of 3] this [of 4] have c:
    "calm (drawn w)" "calm (drawn (drawn w))" "calm (drawn (drawn (drawn w)))" "calm (drawn (drawn (drawn (drawn w))))"
    by (simp_all add: numeral_eq_Suc)
  note n = calm_not_failing [OF assms(1)] c [THEN calm_not_failing]
  have a: "active_ids u (drawn (drawn w)) = Some (m, ids)"
    using assms(2) by (simp only: active_ids_drawn)
  show ?thesis
    using n c(4) assms(3) by (simp add: on_active_ids_def a calm_def)
qed

end
