(* ===== verification/Voices.thy ===== *)
theory Voices
  imports ModelStore
begin

text \<open>
  The voices of \<open>delivery/http/model_crud.go\<close>: listing, reading, changing, deleting and cloning the voices of a
  provider, and the link between a cloned voice and the user's Mistral model. What is written to the log only is left
  out.
\<close>

section \<open>The provider of a request\<close>

text \<open>What the context holds under \<open>provider\<close>.\<close>

datatype ctx_provider = NoProvider | ProviderIs nat | ProviderText string | ProviderOther

definition getProvider :: "('r, 'e) model_env_scheme \<Rightarrow> ctx_provider \<Rightarrow> 'w \<Rightarrow> 'w handled + nat" where
  "getProvider e pv w =
     (case pv of
        NoProvider \<Rightarrow> Inl (reply_error 400 ''Provider not specified'' w)
      | ProviderIs p \<Rightarrow> Inr p
      | ProviderText s \<Rightarrow> (case xm_from_string e s of
                            None \<Rightarrow> Inl (reply_error 400 ''Invalid provider format'' w)
                          | Some p \<Rightarrow> Inr p)
      | ProviderOther \<Rightarrow> Inl (reply_error 400 ''Invalid provider format'' w))"

definition voiceProvider :: "('r, 'e) model_env_scheme \<Rightarrow> ctx_provider \<Rightarrow> 'w \<Rightarrow> 'w handled + nat" where
  "voiceProvider e pv w = (if pv = NoProvider then Inr (xm_mistral e) else getProvider e pv w)"

definition with_voice_provider :: "('r, 'e) model_env_scheme \<Rightarrow> gin \<Rightarrow> ctx_provider \<Rightarrow> (uid \<Rightarrow> nat \<Rightarrow> 'w handled) \<Rightarrow> 'w \<Rightarrow> 'w handled" where
  "with_voice_provider e c pv k w =
     (case getUserID c of None \<Rightarrow> unauthorized w
      | Some u \<Rightarrow> (case voiceProvider e pv w of Inl h \<Rightarrow> h | Inr p \<Rightarrow> k u p))"

definition DefaultQuery :: "gin \<Rightarrow> string \<Rightarrow> string \<Rightarrow> string" where
  "DefaultQuery c k d = (case map_of (g_query c) k of None \<Rightarrow> d | Some v \<Rightarrow> v)"

text \<open>\<open>n, _ := strconv.Atoi(s)\<close>: no number is 0, a number out of range the nearest \<open>int64\<close>.\<close>

fun Atoi_ignoring :: "string \<Rightarrow> int" where
  "Atoi_ignoring [] = 0"
| "Atoi_ignoring (c # s) =
     (let neg = c = CHR ''-''; body = (if neg \<or> c = CHR ''+'' then s else c # s) in
      case digits body of
        None \<Rightarrow> 0
      | Some n \<Rightarrow> if neg then max (- (2 ^ 63)) (- int n) else min (2 ^ 63 - 1) (int n))"

definition json_reply :: "nat \<Rightarrow> json \<Rightarrow> 'w \<Rightarrow> 'w handled" where
  "json_reply code j w = (\<lparr>rs_status = code, rs_body = j\<rparr>, w)"

lemma json_reply_simps [simp]: "status (json_reply c j w) = c" "snd (json_reply c j w) = w"
  by (simp_all add: json_reply_def status_def)

section \<open>Reading and changing a voice\<close>

definition ListVoices :: "('r, 'e) model_env_scheme \<Rightarrow> gin \<Rightarrow> ctx_provider \<Rightarrow> ('r, 'a) model_st_scheme \<Rightarrow> ('r, 'a) model_st_scheme handled" where
  "ListVoices e c pv w =
     with_voice_provider e c pv (\<lambda>u p.
       let limit = Atoi_ignoring (DefaultQuery c ''limit'' ''100''); offset = Atoi_ignoring (DefaultQuery c ''offset'' ''0'') in
       if limit < 1 \<or> limit > 1000 \<or> offset < 0 then reply_error 400 ''invalid pagination'' w
       else (case routed (xm_list_voices e u p limit offset (DefaultQuery c ''type'' ''custom'')) w of
               (Inl err, w) \<Rightarrow> reply_error 502 (err_text err) w
             | (Inr vs, w) \<Rightarrow> json_reply 200 vs w)) w"

definition GetVoice :: "('r, 'e) model_env_scheme \<Rightarrow> gin \<Rightarrow> ctx_provider \<Rightarrow> ('r, 'a) model_st_scheme \<Rightarrow> ('r, 'a) model_st_scheme handled" where
  "GetVoice e c pv w =
     with_voice_provider e c pv (\<lambda>u p.
       case routed (xm_get_voice e u p (Param c ''voiceID'')) w of
         (Inl err, w) \<Rightarrow> reply_error 502 (err_text err) w
       | (Inr v, w) \<Rightarrow> json_reply 200 (vo_Doc v) w) w"

definition preset :: "voice \<Rightarrow> bool" where
  "preset v = (case vo_UserID v of None \<Rightarrow> True | Some i \<Rightarrow> TrimSpace i = [])"

definition getEditableVoice :: "('r, 'e) model_env_scheme \<Rightarrow> uid \<Rightarrow> nat \<Rightarrow> string \<Rightarrow> ('r, 'a) model_st_scheme
    \<Rightarrow> (go_err + voice) \<times> ('r, 'a) model_st_scheme" where
  "getEditableVoice e u p i w =
     (case routed (xm_get_voice e u p i) w of
        (Inl err, w) \<Rightarrow> (Inl err, w)
      | (Inr v, w) \<Rightarrow> if p = xm_mistral e \<and> preset v then (Inl (Msg ''preset voice cannot be modified''), w) else (Inr v, w))"

text \<open>The first steps of the three handlers that need a voice the user may change.\<close>

definition with_editable :: "('r, 'e) model_env_scheme \<Rightarrow> gin \<Rightarrow> ctx_provider
    \<Rightarrow> (uid \<Rightarrow> nat \<Rightarrow> string \<Rightarrow> ('r, 'a) model_st_scheme \<Rightarrow> ('r, 'a) model_st_scheme handled)
    \<Rightarrow> ('r, 'a) model_st_scheme \<Rightarrow> ('r, 'a) model_st_scheme handled" where
  "with_editable e c pv k w =
     with_voice_provider e c pv (\<lambda>u p.
       let i = TrimSpace (Param c ''voiceID'') in
       if i = [] then reply_error 400 ''voice_id is required'' w
       else (case getEditableVoice e u p i w of
               (Inl err, w) \<Rightarrow> reply_error 403 (err_text err) w
             | (Inr v, w) \<Rightarrow> k u p i w)) w"

definition UpdateVoice :: "('r, 'e) model_env_scheme \<Rightarrow> gin \<Rightarrow> ctx_provider \<Rightarrow> json body \<Rightarrow> ('r, 'a) model_st_scheme
    \<Rightarrow> ('r, 'a) model_st_scheme handled" where
  "UpdateVoice e c pv b w =
     with_editable e c pv (\<lambda>u p i w.
       case b of Inl err \<Rightarrow> bad_body err w
       | Inr q \<Rightarrow>
           (case routed (xm_update_voice e u p i q) w of
              (Inl err, w) \<Rightarrow> reply_error 502 (err_text err) w
            | (Inr v, w) \<Rightarrow> json_reply 200 (vo_Doc v) w)) w"

definition DeleteVoice :: "('r, 'e) model_env_scheme \<Rightarrow> gin \<Rightarrow> ctx_provider \<Rightarrow> ('r, 'a) model_st_scheme \<Rightarrow> ('r, 'a) model_st_scheme handled" where
  "DeleteVoice e c pv w =
     with_editable e c pv (\<lambda>u p i w.
       case routed (xm_delete_voice e u p i) w of
         (Inl err, w) \<Rightarrow> reply_error 502 (err_text err) w
       | (Inr v, w) \<Rightarrow> json_reply 200 (vo_Doc v) w) w"

definition GetVoiceSample :: "('r, 'e) model_env_scheme \<Rightarrow> gin \<Rightarrow> ctx_provider \<Rightarrow> ('r, 'a) model_st_scheme \<Rightarrow> ('r, 'a) model_st_scheme handled" where
  "GetVoiceSample e c pv w =
     with_editable e c pv (\<lambda>u p i w.
       case routed (xm_sample e u p i) w of
         (Inl err, w) \<Rightarrow> reply_error 502 (err_text err) w
       | (Inr s, w) \<Rightarrow> json_reply 200 s w) w"

text \<open>The list of models is asked for first, then the catalogue of the database; a failure leaves its field out.\<close>

definition GetVoiceSettings :: "('r, 'e) model_env_scheme \<Rightarrow> gin \<Rightarrow> ctx_provider \<Rightarrow> ('r, 'a) model_st_scheme
    \<Rightarrow> ('r, 'a) model_st_scheme handled" where
  "GetVoiceSettings e c pv w =
     with_voice_provider e c pv (\<lambda>u p.
       let key = (case xm_api_key e u p of Inl err \<Rightarrow> [] | Inr k \<Rightarrow> k);
           (listed, w) = routed (xm_models_list e p (xm_general e) key) w;
           (ms, w) = (case listed of Inr j \<Rightarrow> (Some j, w)
                      | Inl _ \<Rightarrow> (case GetTypesGPT e p 0 w of (Inr j, w) \<Rightarrow> (Some j, w) | (Inl _, w) \<Rightarrow> (None, w)));
           (voices, w) = routed (xm_list_voices e u p 100 0 (DefaultQuery c ''type'' ''custom'')) w
       in reply 200
            ([(''provider'', JStr (xm_name e p)), (''voice_only'', JBool (xm_voice_only e p)),
              (''available'', JBool (List.member (xm_available e u) (xm_name e p))), (''capabilities'', xm_capabilities e (xm_name e p))]
             @ (case ms of None \<Rightarrow> [] | Some j \<Rightarrow> [(''models'', j)])
             @ (case voices of Inl err \<Rightarrow> [(''voices_error'', JStr (err_text err))] | Inr vs \<Rightarrow> [(''voices'', vs)])) w) w"

section \<open>Samples of a voice\<close>

record sample =
  sm_Filename :: string
  sm_Content :: "string option"                           \<comment> \<open>\<open>None\<close>: it cannot be opened or read\<close>

record clone_form =
  cf_values :: "(string \<times> string list) list"
  cf_files :: "(string \<times> sample list) list"

definition MiB :: nat where "MiB = 1048576"

definition audio_types :: "(string \<times> string list) list" where
  "audio_types =
     [(''.mp3'', [''audio/mpeg'', ''audio/mp3'', ''application/octet-stream'']),
      (''.wav'', [''audio/wav'', ''audio/x-wav'', ''audio/wave'', ''application/octet-stream'']),
      (''.ogg'', [''audio/ogg'', ''application/ogg'', ''application/octet-stream'']),
      (''.flac'', [''audio/flac'', ''audio/x-flac'', ''application/octet-stream'']),
      (''.m4a'', [''audio/mp4'', ''video/mp4'', ''application/mp4'', ''application/octet-stream''])]"

definition validateVoiceAudio :: "('r, 'e) model_env_scheme \<Rightarrow> string \<Rightarrow> string \<Rightarrow> go_err option" where
  "validateVoiceAudio e name audio =
     (if name = [] then Some (Msg ''audio filename is required'')
      else let x = ascii_lower (filepath_Ext name) in
        case map_of audio_types x of
          None \<Rightarrow> Some (Msg (''unsupported audio format: '' @ x))
        | Some ts \<Rightarrow>
            if List.member ts (xm_content_type e audio) then None
            else Some (Msg (''audio format does not match extension: extension='' @ x
                            @ '' content_type='' @ xm_content_type e audio)))"

definition voice_sample :: "('r, 'e) model_env_scheme \<Rightarrow> sample \<Rightarrow> go_err + string \<times> string" where
  "voice_sample e h =
     (case sm_Content h of
        None \<Rightarrow> Inl (Msg (''cannot open audio file: '' @ sm_Filename h))
      | Some audio \<Rightarrow>
          if 25 * MiB < length audio then Inl (Msg (''audio file is too large: '' @ sm_Filename h))
          else if audio = [] then Inl (Msg (''invalid audio file: '' @ sm_Filename h))
          else (case validateVoiceAudio e (sm_Filename h) audio of
                  Some err \<Rightarrow> Inl err
                | None \<Rightarrow> Inr (EncodeToString audio, sm_Filename h)))"

fun all_samples :: "('r, 'e) model_env_scheme \<Rightarrow> sample list \<Rightarrow> go_err + (string \<times> string) list" where
  "all_samples e [] = Inr []"
| "all_samples e (h # hs) =
     (case voice_sample e h of
        Inl err \<Rightarrow> Inl err
      | Inr x \<Rightarrow> (case all_samples e hs of Inl err \<Rightarrow> Inl err | Inr xs \<Rightarrow> Inr (x # xs)))"

definition form_files :: "clone_form \<Rightarrow> string \<Rightarrow> sample list" where
  "form_files f k = (case map_of (cf_files f) k of None \<Rightarrow> [] | Some hs \<Rightarrow> hs)"

definition collectVoiceSamples :: "('r, 'e) model_env_scheme \<Rightarrow> clone_form option \<Rightarrow> go_err + string list \<times> string list" where
  "collectVoiceSamples e f =
     (case f of
        None \<Rightarrow> Inl (Msg ''multipart form is required'')
      | Some f \<Rightarrow>
          let hs = concat (map (form_files f) [''file'', ''files'', ''samples'']) in
          if hs = [] then Inl (Msg ''at least one audio file is required'')
          else if 25 < length hs then Inl (Msg ''too many audio files (max 25)'')
          else (case all_samples e hs of Inl err \<Rightarrow> Inl err | Inr xs \<Rightarrow> Inr (map fst xs, map snd xs)))"

text \<open>\<open>strings.FieldsFunc\<close> on three separators; empty parts are dropped either way.\<close>

fun split_where :: "(char \<Rightarrow> bool) \<Rightarrow> string \<Rightarrow> string list" where
  "split_where p [] = [[]]"
| "split_where p (c # s) =
     (if p c then [] # split_where p s
      else (case split_where p s of [] \<Rightarrow> [[c]] | x # xs \<Rightarrow> (c # x) # xs))"

definition splitVoiceMetadata :: "string \<Rightarrow> string list" where
  "splitVoiceMetadata s =
     filter (\<lambda>p. p \<noteq> []) (map TrimSpace (split_where (\<lambda>c. c = CHR '','' \<or> c = CHR '';'' \<or> c = CHR 0x0A) s))"

section \<open>Cloning\<close>

definition currentMistralVoiceID :: "('r, 'e) model_env_scheme \<Rightarrow> uid \<Rightarrow> ('r, 'a) model_st_scheme \<Rightarrow> string \<times> ('r, 'a) model_st_scheme" where
  "currentMistralVoiceID e u w =
     (case routed (xm_user_model e u (xm_mistral e)) w of
        (Inr (Some d), w) \<Rightarrow>
          (case Option.bind (um_VAD d) va_Mistral of
             None \<Rightarrow> ([], w)
           | Some m \<Rightarrow>
               (case mv_Clone m of
                  Some (on, i, o') \<Rightarrow> if TrimSpace i \<noteq> [] then (i, w)
                                  else (case mv_VoiceID m of None \<Rightarrow> ([], w) | Some v \<Rightarrow> (TrimSpace v, w))
                | None \<Rightarrow> (case mv_VoiceID m of None \<Rightarrow> ([], w) | Some v \<Rightarrow> (TrimSpace v, w))))
      | (_, w) \<Rightarrow> ([], w))"

text \<open>The model with the new voice; parts that are missing are made with their zero values.\<close>

definition link_voice :: "string \<Rightarrow> umodel \<Rightarrow> umodel" where
  "link_voice i d =
     (let va = (case um_VAD d of None \<Rightarrow> \<lparr>va_Mistral = None, va_other = JNull\<rparr> | Some va \<Rightarrow> va);
          m = (case va_Mistral va of None \<Rightarrow> \<lparr>mv_VoiceID = None, mv_Clone = None, mv_other = JNull\<rparr> | Some m \<Rightarrow> m);
          kept = (case mv_Clone m of None \<Rightarrow> JNull | Some (on, j, o') \<Rightarrow> o')
      in d\<lparr>um_VAD := Some (va\<lparr>va_Mistral := Some (m\<lparr>mv_VoiceID := Some i, mv_Clone := Some (True, i, kept)\<rparr>)\<rparr>)\<rparr>)"

definition linkMistralVoice :: "('r, 'e) model_env_scheme \<Rightarrow> uid \<Rightarrow> string \<Rightarrow> string \<Rightarrow> ('r, 'a) model_st_scheme
    \<Rightarrow> (go_err + unit) \<times> ('r, 'a) model_st_scheme" where
  "linkMistralVoice e u new old w =
     (case routed (xm_user_model e u (xm_mistral e)) w of
        (Inl err, w) \<Rightarrow> (Inl err, w)
      | (Inr None, w) \<Rightarrow> (Inl (Msg ''Mistral model not found''), w)
      | (Inr (Some d), w) \<Rightarrow>
          (case routed (xm_update_everywhere e u (link_voice new d)) w of
             (Inl err, w) \<Rightarrow> (Inl err, w)
           | (Inr _, w) \<Rightarrow>
               if old \<noteq> [] \<and> old \<noteq> new
               then (Inr (), snd (routed (xm_delete_voice e u (xm_mistral e) old) w))
               else (Inr (), w)))"

text \<open>A request: whether its body could be read, its length, the multipart form, and the fields of another form.\<close>

record clone_req =
  cl_reads :: bool
  cl_length :: nat
  cl_form :: "clone_form option"
  cl_post :: "(string \<times> string) list"

definition getField :: "clone_req \<Rightarrow> string \<Rightarrow> string" where
  "getField q k =
     TrimSpace (case Option.bind (cl_form q) (\<lambda>f. map_of (cf_values f) k) of
       Some (v # _) \<Rightarrow> v
     | _ \<Rightarrow> (case map_of (cl_post q) k of None \<Rightarrow> [] | Some v \<Rightarrow> v))"

definition cloneProvider :: "('r, 'e) model_env_scheme \<Rightarrow> ctx_provider \<Rightarrow> clone_req \<Rightarrow> 'w \<Rightarrow> 'w handled + nat" where
  "cloneProvider e pv q w =
     (let name = getField q ''provider'' in
      if name \<noteq> []
      then (case xm_from_string e name of
              None \<Rightarrow> Inl (reply_error 400 (''invalid provider: '' @ name) w)
            | Some p \<Rightarrow> if xm_valid e p then Inr p else Inl (reply_error 400 (''invalid provider: '' @ name) w))
      else voiceProvider e pv w)"

definition clone_request :: "clone_req \<Rightarrow> string \<Rightarrow> string \<Rightarrow> string list \<Rightarrow> string list \<Rightarrow> create_voice" where
  "clone_request q name mode samples names =
     \<lparr>cv_Name = name, cv_Samples = samples, cv_SampleAudio = hd samples, cv_CloneMode = mode,
      cv_Language = getField q ''language'', cv_ModelID = getField q ''model_id'',
      cv_Languages = splitVoiceMetadata (getField q ''languages''), cv_Tags = splitVoiceMetadata (getField q ''tags''),
      cv_Filename = (case names of [] \<Rightarrow> None | n # _ \<Rightarrow> Some n),
      cv_Gender = (if getField q ''gender'' = [] then None else Some (getField q ''gender'')),
      cv_Description = (if getField q ''description'' = [] then None else Some (getField q ''description''))\<rparr>"

text \<open>The voice is created first; when it cannot be linked it is deleted again.\<close>

definition create_and_link :: "('r, 'e) model_env_scheme \<Rightarrow> uid \<Rightarrow> nat \<Rightarrow> create_voice \<Rightarrow> ('r, 'a) model_st_scheme
    \<Rightarrow> ('r, 'a) model_st_scheme handled" where
  "create_and_link e u p r w =
     (let (old, w) = (if p = xm_mistral e then currentMistralVoiceID e u w else ([], w)) in
      case routed (xm_create_voice e u p r) w of
        (Inl err, w) \<Rightarrow> reply_error 502 (err_text err) w
      | (Inr v, w) \<Rightarrow>
          if p = xm_mistral e
          then (case linkMistralVoice e u (vo_ID v) old w of
                  (Inl err, w) \<Rightarrow> reply_error 500 (err_text err) (snd (routed (xm_delete_voice e u p (vo_ID v)) w))
                | (Inr _, w) \<Rightarrow> reply 201 [(''voice'', vo_Doc v)] w)
          else reply 201 [(''voice'', vo_Doc v)] w)"

definition CloneVoice :: "('r, 'e) model_env_scheme \<Rightarrow> gin \<Rightarrow> ctx_provider \<Rightarrow> clone_req \<Rightarrow> ('r, 'a) model_st_scheme
    \<Rightarrow> ('r, 'a) model_st_scheme handled" where
  "CloneVoice e c pv q w =
     (case getUserID c of None \<Rightarrow> unauthorized w
      | Some u \<Rightarrow>
          if \<not> cl_reads q then reply_error 400 ''cannot read request body'' w
          else if 128 * MiB < cl_length q then reply_error 413 ''request body is too large'' w
          else (case cloneProvider e pv q w of
             Inl h \<Rightarrow> h
           | Inr p \<Rightarrow>
               if \<not> xm_clones e p then reply_error 400 (xm_name e p @ '' does not clone voices'') w
               else let name = getField q ''name''; asked = getField q ''clone_mode'';
                        mode = (if asked = [] then xm_instant e else asked) in
                 if name = [] then reply_error 400 ''name is required'' w
                 else if \<not> xm_mode_ok e mode then reply_error 400 ''clone_mode must be instant or professional'' w
                 else (case collectVoiceSamples e (cl_form q) of
                         Inl err \<Rightarrow> reply_error 400 (err_text err) w
                       | Inr (samples, names) \<Rightarrow> create_and_link e u p (clone_request q name mode samples names) w)))"

end
