(* ===== verification/Models.thy ===== *)
theory Models
  imports Voices Profiles
begin

text \<open>
  The models of \<open>delivery/http/model_crud.go\<close>: creating, changing, choosing and deleting a model, its files, and the
  catalogue. A frame that cannot be written to the WebSocket is only logged, so the frames are those the code tries to
  send.
\<close>

definition with_provider :: "('r, 'e) model_env_scheme \<Rightarrow> gin \<Rightarrow> ctx_provider \<Rightarrow> (uid \<Rightarrow> nat \<Rightarrow> 'w handled) \<Rightarrow> 'w \<Rightarrow> 'w handled" where
  "with_provider e c pv k w =
     (case getUserID c of None \<Rightarrow> unauthorized w
      | Some u \<Rightarrow> (case getProvider e pv w of Inl h \<Rightarrow> h | Inr p \<Rightarrow> k u p))"

definition SetModelActive :: "('r, 'e) model_env_scheme \<Rightarrow> gin \<Rightarrow> ctx_provider \<Rightarrow> ('r, 'a) model_st_scheme \<Rightarrow> ('r, 'a) model_st_scheme handled" where
  "SetModelActive e c pv w =
     with_provider e c pv (\<lambda>u p.
       case routed (xm_set_active e u p) w of
         (Inl err, w) \<Rightarrow> reply_error 500 (err_text err) w
       | (Inr _, w) \<Rightarrow>
           (case CheckActiveChannels u w of
              (Inl err, w) \<Rightarrow> reply_error 500 (err_text err) w
            | (Inr on, w) \<Rightarrow> reply 200 [(''active_channels'', JBool on)] w)) w"

text \<open>
  The list of the provider when it can be had, else the catalogue. The error of an unknown type is forgotten, the value
  that comes with it is used.
\<close>

definition web_List :: "('r, 'e) model_env_scheme \<Rightarrow> gin \<Rightarrow> ctx_provider \<Rightarrow> ('r, 'a) model_st_scheme \<Rightarrow> ('r, 'a) model_st_scheme handled" where
  "web_List e c pv w =
     with_provider e c pv (\<lambda>u p.
       let (bad, t) = xm_type e (Query c ''type'');
           (res, w) = (if bad then (None, w)
                       else (case xm_api_key e u p of
                               Inl err \<Rightarrow> (None, w)
                             | Inr key \<Rightarrow> (case routed (xm_models_list e p t key) w of
                                             (Inl err, w) \<Rightarrow> (None, w)
                                           | (Inr j, w) \<Rightarrow> (Some j, w))))
       in case res of
            Some j \<Rightarrow> reply 200 [(''models'', j)] w
          | None \<Rightarrow> (case GetTypesGPT e p t w of
                       (Inl err, w) \<Rightarrow> reply_error 500 (err_text err) w
                     | (Inr j, w) \<Rightarrow> reply 200 [(''models'', j)] w)) w"

section \<open>Files\<close>

text \<open>An upload: its name and content; \<open>None\<close> when the file of the form cannot be read.\<close>

definition FileUpload :: "('r, 'e) model_env_scheme \<Rightarrow> gin \<Rightarrow> ctx_provider \<Rightarrow> (string \<times> string option) option
    \<Rightarrow> ('r, 'a) model_st_scheme \<Rightarrow> ('r, 'a) model_st_scheme handled" where
  "FileUpload e c pv f w =
     (case getUserID c of None \<Rightarrow> unauthorized w
      | Some u \<Rightarrow>
          (case f of
             None \<Rightarrow> reply_error 400 ''File is required'' w
           | Some (name, None) \<Rightarrow> reply_error 500 ''Error reading file'' w
           | Some (name, Some content) \<Rightarrow>
               (case getProvider e pv w of
                  Inl h \<Rightarrow> h
                | Inr p \<Rightarrow>
                    (case routed (xm_upload e u p name content) w of
                       (Inl err, w) \<Rightarrow> reply_error 500 (err_text err) w
                     | (Inr i, w) \<Rightarrow> reply 200 [(''id'', JStr i)] w))))"

definition FileDelete :: "('r, 'e) model_env_scheme \<Rightarrow> gin \<Rightarrow> ctx_provider \<Rightarrow> string body
    \<Rightarrow> ('r, 'a) model_st_scheme \<Rightarrow> ('r, 'a) model_st_scheme handled" where
  "FileDelete e c pv b w =
     (case getUserID c of None \<Rightarrow> unauthorized w
      | Some u \<Rightarrow>
          (case b of Inl err \<Rightarrow> bad_body err w
           | Inr i \<Rightarrow>
               (case getProvider e pv w of
                  Inl h \<Rightarrow> h
                | Inr p \<Rightarrow>
                    (case routed (xm_delete_file e u p i) w of
                       (Inl err, w) \<Rightarrow> reply_error 500 (err_text err) w
                     | (Inr _, w) \<Rightarrow> reply 200 [(''status'', JStr ''ok'')] w))))"

text \<open>The names of the files that were added; files without a name or ID and files that fail are passed over.\<close>

fun add_files :: "('r, 'e) model_env_scheme \<Rightarrow> uid \<Rightarrow> (string \<times> string) list \<Rightarrow> ('r, 'a) model_st_scheme
    \<Rightarrow> string list \<times> ('r, 'a) model_st_scheme" where
  "add_files e u [] w = ([], w)"
| "add_files e u ((i, name) # fs) w =
     (if u = 0 \<or> i = [] \<or> name = [] then add_files e u fs w
      else (case AddFileFromUserGPT e u i name w of
              (Inl err, w) \<Rightarrow> add_files e u fs w
            | (Inr _, w) \<Rightarrow> (case add_files e u fs w of (ns, w) \<Rightarrow> (name # ns, w))))"

definition FileAdd :: "('r, 'e) model_env_scheme \<Rightarrow> gin \<Rightarrow> ctx_provider \<Rightarrow> (string \<times> string) list body
    \<Rightarrow> ('r, 'a) model_st_scheme \<Rightarrow> ('r, 'a) model_st_scheme handled" where
  "FileAdd e c pv b w =
     with_provider e c pv (\<lambda>u p.
       case b of Inl err \<Rightarrow> bad_body err w
       | Inr fs \<Rightarrow>
           if fs = [] then reply_error 400 ''Files array is empty'' w
           else (case add_files e u fs w of
                   (ns, w) \<Rightarrow>
                     let failed = ([] :: json list);
                         response = [(''status'', JStr ''completed''), (''success_count'', JInt (int (length ns))),
                           (''failed_count'', JInt (int (length failed)))]
                           @ (if ns \<noteq> [] then [(''success_files'', JList (map JStr ns))] else [])
                           @ (if failed \<noteq> [] then [(''failed_files'', JList failed)] else [])
                     in if ns = [] \<and> failed \<noteq> [] then reply 500 response w else reply 200 response w)) w"

section \<open>Creating and changing a model\<close>

definition provider_label :: "('r, 'e) model_env_scheme \<Rightarrow> nat \<Rightarrow> string option" where
  "provider_label e p =
     map_of [(xm_openai e, ''OpenAI''), (xm_mistral e, ''Mistral''), (xm_google e, ''Google'')] p"

definition copied_fields :: "string list" where
  "copied_fields = [''Name'', ''Prompt'', ''MetaAction'', ''Triggers'', ''Operator'', ''Search'', ''Interpreter'', ''Image'',
     ''WebSearch'', ''Realtime'', ''S3'', ''Haunter'', ''Espero'', ''GOAuth'', ''CreateMusic'', ''Voice'']"

definition saved_model :: "nat \<Rightarrow> umodel \<Rightarrow> umodel" where
  "saved_model p d =
     \<lparr>um_fields = filter (\<lambda>(k, v). List.member copied_fields k) (um_fields d), um_FileIds = um_FileIds d,
      um_Chosen = um_Chosen d, um_Provider = p, um_VAD = um_VAD d\<rparr>"

text \<open>The models a request that names none gets; only the creation checks that there is a default.\<close>

definition with_defaults :: "('r, 'e) model_env_scheme \<Rightarrow> bool \<Rightarrow> nat \<Rightarrow> umodel \<Rightarrow> 'w \<Rightarrow> 'w handled + umodel" where
  "with_defaults e checked p d w =
     (if um_Chosen d \<noteq> None then Inr d
      else (case provider_label e p of
              None \<Rightarrow> Inl (reply_error 400 ''unsupported provider'' w)
            | Some n \<Rightarrow>
                (case xm_defaults e n of
                   Inl err \<Rightarrow> Inl (reply_error 500 (err_text err) w)
                 | Inr m \<Rightarrow>
                     if checked \<and> (fst (ch_General m) = [] \<or> snd (ch_General m) = 0)
                     then Inl (reply_error 500 ''no default model'' w)
                     else Inr (d\<lparr>um_Chosen := Some m\<rparr>))))"

definition voice_only_refusal :: string where
  "voice_only_refusal = ''ElevenLabs is voice-only''"

definition CreateModel :: "('r, 'e) model_env_scheme \<Rightarrow> gin \<Rightarrow> ctx_provider \<Rightarrow> umodel body
    \<Rightarrow> ('r, 'a) model_st_scheme \<Rightarrow> ('r, 'a) model_st_scheme handled" where
  "CreateModel e c pv b w =
     (case getUserID c of
        None \<Rightarrow> (\<lparr>rs_status = 401, rs_body = JList [JObj [(''error'', JStr ''unauthorized'')],
                   JObj [(''error'', JStr ''User ID not found'')]]\<rparr>, w)
      | Some u \<Rightarrow>
          (case pv of
             NoProvider \<Rightarrow> reply_error 400 ''Provider not specified'' w
           | ProviderText _ \<Rightarrow> reply_error 400 ''Invalid provider format'' w
           | ProviderOther \<Rightarrow> reply_error 400 ''Invalid provider format'' w
           | ProviderIs p \<Rightarrow>
               if xm_voice_only e p then reply_error 400 voice_only_refusal w
               else (case b of Inl err \<Rightarrow> bad_body err w
                     | Inr d \<Rightarrow>
                         (case with_defaults e True p d w of
                            Inl h \<Rightarrow> h
                          | Inr d \<Rightarrow>
                              (case routed (xm_create_model e u p d (um_FileIds d)) w of
                                 (Inl err, w) \<Rightarrow> reply_error 500 (err_text err) w
                               | (Inr made, w) \<Rightarrow>
                                   (case routed (xm_save_model e u made (saved_model p d)) w of
                                      (Inl err, w) \<Rightarrow> reply_error 500 (err_text err) w
                                    | (Inr _, w) \<Rightarrow> reply 200 [(''status'', JStr ''ok''), (''provider'', JStr (xm_name e p))] w))))))"

definition UpdateModel :: "('r, 'e) model_env_scheme \<Rightarrow> gin \<Rightarrow> ctx_provider \<Rightarrow> umodel body
    \<Rightarrow> ('r, 'a) model_st_scheme \<Rightarrow> ('r, 'a) model_st_scheme handled" where
  "UpdateModel e c pv b w =
     with_provider e c pv (\<lambda>u p.
       if xm_voice_only e p then reply_error 400 voice_only_refusal w
       else (case b of Inl err \<Rightarrow> bad_body err w
             | Inr d \<Rightarrow>
                 (case with_defaults e False p d w of
                    Inl h \<Rightarrow> h
                  | Inr d \<Rightarrow>
                      (case routed (xm_update_everywhere e u (saved_model p d)) w of
                         (Inl err, w) \<Rightarrow> reply_error 500 (err_text err) w
                       | (Inr _, w) \<Rightarrow>
                           reply 200 [(''message'', JStr ''ok''), (''provider'', xm_json e p)]
                             (w\<lparr>router := xm_invalidate e u (router w)\<rparr>))))) w"

section \<open>Deleting a model\<close>

datatype ws_out = SendText string | SendClose

definition add_id :: "string \<Rightarrow> string list \<Rightarrow> string list" where
  "add_id i ids = (let i = TrimSpace i in if i = [] \<or> List.member ids i then ids else ids @ [i])"

definition mistralVoiceIDs :: "umodel \<Rightarrow> string list" where
  "mistralVoiceIDs d =
     (case Option.bind (um_VAD d) va_Mistral of
        None \<Rightarrow> []
      | Some m \<Rightarrow>
          let ids = (case mv_VoiceID m of None \<Rightarrow> [] | Some i \<Rightarrow> add_id i [])
          in case mv_Clone m of None \<Rightarrow> ids | Some (on, i, rest) \<Rightarrow> add_id i ids)"

definition retry_pause :: int where
  "retry_pause = 250000000"

text \<open>Attempts are numbered down; there is no pause after the last one.\<close>

fun delete_attempts :: "('r, 'e) model_env_scheme \<Rightarrow> nat \<Rightarrow> uid \<Rightarrow> string \<Rightarrow> go_err option \<Rightarrow> ('r, 'a) model_st_scheme
    \<Rightarrow> go_err option \<times> ('r, 'a) model_st_scheme" where
  "delete_attempts e 0 u i seen w = (seen, w)"
| "delete_attempts e (Suc n) u i seen w =
     (case routed (xm_delete_mistral e u i) w of
        (Inr _, w) \<Rightarrow> (None, w)
      | (Inl err, w) \<Rightarrow> delete_attempts e n u i (Some err) (if 0 < n then w\<lparr>now := now w + retry_pause\<rparr> else w))"

definition deleteMistralVoiceWithRetry :: "('r, 'e) model_env_scheme \<Rightarrow> uid \<Rightarrow> string \<Rightarrow> ('r, 'a) model_st_scheme
    \<Rightarrow> go_err option \<times> ('r, 'a) model_st_scheme" where
  "deleteMistralVoiceWithRetry e u i w = delete_attempts e 3 u i None w"

text \<open>The voices of a deleted model; the first that stays ends the operation without a close message.\<close>

fun delete_voices :: "('r, 'e) model_env_scheme \<Rightarrow> uid \<Rightarrow> string list \<Rightarrow> ('r, 'a) model_st_scheme
    \<Rightarrow> ws_out list \<times> ('r, 'a) model_st_scheme" where
  "delete_voices e u [] w = ([SendClose], w)"
| "delete_voices e u (i # ids) w =
     (case deleteMistralVoiceWithRetry e u i w of
        (Some err, w) \<Rightarrow> ([SendText (''model deleted, but voice profile '' @ i @ '' is not: '' @ err_text err)], w)
      | (None, w) \<Rightarrow> delete_voices e u ids w)"

definition DeleteModelWSS :: "('r, 'e) model_env_scheme \<Rightarrow> uid \<Rightarrow> nat \<Rightarrow> ('r, 'a) model_st_scheme
    \<Rightarrow> ws_out list \<times> ('r, 'a) model_st_scheme" where
  "DeleteModelWSS e u p w =
     (let (ids, w) = (if p = xm_mistral e
                      then (case routed (xm_user_model e u p) w of
                              (Inr (Some d), w) \<Rightarrow> (mistralVoiceIDs d, w)
                            | (_, w) \<Rightarrow> ([], w))
                      else ([], w))
      in case routed (\<lambda>r. case xm_delete_model e u p r of (res, said, r) \<Rightarrow> ((res, said), r)) w of
           ((Inl err, said), w) \<Rightarrow> (map SendText said @ [SendText (''deleting the model: '' @ err_text err)], w)
         | ((Inr _, said), w) \<Rightarrow>
             (case delete_voices e u (if p = xm_mistral e then ids else []) w of
                (out, w) \<Rightarrow> (map SendText said @ out, w)))"

definition DeleteModelWSSHandler :: "('r, 'e) model_env_scheme \<Rightarrow> gin \<Rightarrow> ctx_provider \<Rightarrow> ('r, 'a) model_st_scheme
    \<Rightarrow> ws_out list \<times> ('r, 'a) model_st_scheme" where
  "DeleteModelWSSHandler e c pv w =
     (case pv of
        NoProvider \<Rightarrow> ([SendText ''no provider''], w)
      | ProviderText _ \<Rightarrow> ([SendText ''invalid provider format''], w)
      | ProviderOther \<Rightarrow> ([SendText ''invalid provider format''], w)
      | ProviderIs p \<Rightarrow>
          if p \<noteq> xm_openai e \<and> p \<noteq> xm_mistral e \<and> p \<noteq> xm_google e then ([SendText ''invalid provider''], w)
          else (case getUserID c of
                  None \<Rightarrow> ([SendText ''invalid token''], w)
                | Some u \<Rightarrow> DeleteModelWSS e u p w))"

section \<open>Questions\<close>

definition ReadUserModel :: "('r, 'e) model_env_scheme \<Rightarrow> gin \<Rightarrow> ('r, 'a) model_st_scheme \<Rightarrow> ('r, 'a) model_st_scheme handled" where
  "ReadUserModel e c w =
     (case getUserID c of None \<Rightarrow> unauthorized w
      | Some u \<Rightarrow> (case routed (xm_all_models e u) w of
                     (Inl err, w) \<Rightarrow> reply_error 500 (err_text err) w
                   | (Inr j, w) \<Rightarrow> json_reply 200 j w))"

definition CheckDemoUser :: "gin \<Rightarrow> 'a acct_st_scheme \<Rightarrow> 'a acct_st_scheme handled" where
  "CheckDemoUser c w =
     (case getUserID c of None \<Rightarrow> unauthorized w
      | Some u \<Rightarrow> (case CheckDemo u w of
                     (Inl err, w) \<Rightarrow> reply_error 500 ''internal server error'' w
                   | (Inr b, w) \<Rightarrow> reply 200 [(''status'', JBool b)] w))"

definition FastCheckUserModel :: "gin \<Rightarrow> ('r, 'a) model_st_scheme \<Rightarrow> ('r, 'a) model_st_scheme handled" where
  "FastCheckUserModel c w =
     (case getUserID c of None \<Rightarrow> unauthorized w
      | Some u \<Rightarrow> (case FastCheckActiveUserModel u w of
                     (Inl err, w) \<Rightarrow> reply_error 500 ''internal server error'' w
                   | (Inr b, w) \<Rightarrow> reply 200 [(''status'', JBool b)] w))"

end
