(* ===== verification/ModelProps.thy ===== *)
theory ModelProps
  imports Models
begin

text \<open>
  A file that cannot be added counts neither as added nor as failed, and the first file of a model is never stored. A
  clone that is refused leaves no voice behind. A model whose voice the provider does not delete is deleted with an
  error. The text put together for a file is JSON unless its name ends in a backslash.
\<close>

section \<open>Files\<close>

lemma with_provider_runs:
  "getUserID c = Some u \<Longrightarrow> getProvider e pv w = Inr p \<Longrightarrow> with_provider e c pv k w = k u p"
  by (simp add: with_provider_def)

lemma FileAdd_is:
  assumes "getUserID c = Some u" "getProvider e pv w = Inr p" "fs \<noteq> []" "add_files e u fs w = (ns, w')"
  shows "FileAdd e c pv (Inr fs) w =
    reply 200 ([(''status'', JStr ''completed''), (''success_count'', JInt (int (length ns))), (''failed_count'', JInt 0)]
      @ (if ns \<noteq> [] then [(''success_files'', JList (map JStr ns))] else [])) w'"
  using assms(3,4) by (simp add: FileAdd_def with_provider_runs [OF assms(1,2)])

text \<open>Adding files always succeeds: whatever statements fail and whatever the files are, a request with at least one
  file is answered 200 with no failed file; the branch that answers 500 is never taken.\<close>

theorem failures_are_not_counted:
  assumes "getUserID c = Some u" "getProvider e pv w = Inr p" "fs \<noteq> []"
  shows "status (FileAdd e c pv (Inr fs) w) = 200 \<and> field ''failed_count'' (FileAdd e c pv (Inr fs) w) = Some (JInt 0)"
proof -
  obtain ns w' where "add_files e u fs w = (ns, w')" by (cases "add_files e u fs w")
  then show ?thesis by (simp add: FileAdd_is [OF assms])
qed

text \<open>When every transaction fails to begin nothing is stored, and the answer is 200.\<close>

lemma add_files_all_fail:
  "faults w = replicate (length fs) True \<Longrightarrow> \<forall>(i, n)\<in>set fs. i \<noteq> [] \<and> n \<noteq> [] \<Longrightarrow> u \<noteq> 0
   \<Longrightarrow> \<exists>w'. add_files e u fs w = ([], w') \<and> user_gpt w' = user_gpt w"
proof (induction fs arbitrary: w)
  case (Cons f fs)
  obtain i n where f: "f = (i, n)" by (cases f)
  have "failing w" using Cons.prems(1) by (simp add: failing_def)
  then have "AddFileFromUserGPT e u i n w = (Inl (Wrap ''begin transaction'' sql_down), drawn w)"
    by (simp add: AddFileFromUserGPT_def on_active_ids_def)
  moreover have "faults (drawn w) = replicate (length fs) True" using Cons.prems(1) by (simp add: drawn_def)
  ultimately show ?case using Cons.IH [of "drawn w"] Cons.prems(2,3) f by auto
qed simp

lemma active_ids_stored: "active_ids u w = Some (m, ids) \<Longrightarrow> map_of (user_gpt w) m = Some ids"
proof -
  assume a: "active_ids u w = Some (m, ids)"
  then obtain v k on where f: "find (\<lambda>(v, m, on). v = u \<and> on \<and> map_of (user_gpt w) m \<noteq> None) (user_models w) = Some (v, k, on)"
    by (auto simp: active_ids_def split: option.splits)
  then have "map_of (user_gpt w) k \<noteq> None" by (auto simp: find_Some_iff)
  then show ?thesis using a f by (auto simp: active_ids_def)
qed

lemma active_ids_cong:
  "user_models v = user_models w \<Longrightarrow> map_of (user_gpt v) = map_of (user_gpt w) \<Longrightarrow> active_ids u v = active_ids u w"
  by (simp only: active_ids_def)

lemma add_to_null:
  assumes "calm w" "active_ids u w = Some (m, None)"
  shows "\<exists>v. AddFileFromUserGPT e u i n w = (Inr (), v) \<and> calm v \<and> active_ids u v = Some (m, None)"
proof -
  let ?d = "''{'' @ in_quotes ''FileIds'' @ '':['' @ file_object n (full_id i) @ '']}''"
  have "merge_preserve e None ?d = Inr None" by (simp add: merge_preserve_def)
  from on_active_ids_calm [where f = "\<lambda>ids. merge_preserve e ids ?d", OF assms this]
  obtain v where v: "AddFileFromUserGPT e u i n w = (Inr (), v)" "calm v" "user_models v = user_models w"
    "user_gpt v = AList.update m None (user_gpt w)"
    unfolding AddFileFromUserGPT_def by blast
  have "map_of (user_gpt v) = map_of (user_gpt w)"
    using active_ids_stored [OF assms(2)] by (simp add: v(4) update_conv' fun_upd_idem_iff)
  then show ?thesis using v active_ids_cong assms(2) by metis
qed

text \<open>C23: The first file of a model is never stored: while the column Ids of the active model is NULL, a request
  with any number of named files counts them all as added and leaves the column NULL.\<close>

theorem first_file_is_lost:
  assumes "calm w" "getUserID c = Some u" "getProvider e pv w = Inr p"
    and "active_ids u w = Some (m, None)" "fs \<noteq> []" "list_all (\<lambda>(i, n). i \<noteq> [] \<and> n \<noteq> []) fs"
  shows "field ''success_count'' (FileAdd e c pv (Inr fs) w) = Some (JInt (int (length fs)))
    \<and> active_ids u (snd (FileAdd e c pv (Inr fs) w)) = Some (m, None)"
proof -
  have u: "u \<noteq> 0" using getUserID_nonzero assms(2) .
  have "\<exists>v. add_files e u gs w = (map snd gs, v) \<and> active_ids u v = Some (m, None)"
    if "list_all (\<lambda>(i, n). i \<noteq> [] \<and> n \<noteq> []) gs" "calm w" "active_ids u w = Some (m, None)" for gs w
    using that
  proof (induction gs arbitrary: w)
    case (Cons f gs)
    obtain i n where f: "f = (i, n)" by (cases f)
    from add_to_null [OF Cons.prems(2,3), of e i n] obtain v
      where v: "AddFileFromUserGPT e u i n w = (Inr (), v)" "calm v" "active_ids u v = Some (m, None)" by blast
    then show ?case using Cons.IH [OF _ v(2,3)] Cons.prems(1) u f by auto
  qed simp
  from this [OF assms(6,1,4)] obtain v
    where v: "add_files e u fs w = (map snd fs, v)" "active_ids u v = Some (m, None)" by blast
  show ?thesis by (simp add: FileAdd_is [OF assms(2,3,5) v(1)] v(2))
qed

text \<open>A deleted file is gone, the other files and the vector stores stay.\<close>

lemma deleted_file_is_gone:
  assumes "\<forall>d. xm_ids e (xm_text e d) = Inr d" "without_file e i (Some t) = Inr (Some t')" "xm_ids e t = Inr d"
  shows "xm_ids e t' = Inr (d\<lparr>id_files := filter (\<lambda>(j, n). j \<noteq> i) (id_files d)\<rparr>)
    \<and> (\<exists>err. without_file e i (Some t') = Inl err)"
proof -
  have "t' = xm_text e (d\<lparr>id_files := filter (\<lambda>(j, n). j \<noteq> i) (id_files d)\<rparr>)"
    using assms(2,3) by (auto simp: without_file_def split: if_splits)
  then have r: "xm_ids e t' = Inr (d\<lparr>id_files := filter (\<lambda>(j, n). j \<noteq> i) (id_files d)\<rparr>)"
    using assms(1) by simp
  then show ?thesis by (auto simp: without_file_def list_ex_iff)
qed

section \<open>The text of a file\<close>

text \<open>A name of bytes that need no escapes other than quotes.\<close>

definition clean_name :: "string \<Rightarrow> bool" where
  "clean_name s = list_all (\<lambda>c. 32 \<le> (of_char c :: nat) \<and> c \<noteq> CHR 0x5C) s"

lemma escaped_reads: "clean_name p \<Longrightarrow> json_string (escape_quotes p @ CHR 0x22 # r) = Some r"
  by (induction p) (auto simp: escape_quotes_def clean_name_def)

lemma escaped_backslash_reads:
  "clean_name p \<Longrightarrow> json_string (escape_quotes p @ CHR 0x5C # CHR 0x22 # r) = json_string r"
  by (induction p) (auto simp: escape_quotes_def clean_name_def)

lemma file_object_valid:
  assumes "clean_name n" "plain_text i"
  shows "json_valid (file_object n i)"
proof -
  let ?r = "'','' @ in_quotes ''id'' @ '':'' @ in_quotes i @ ''}''"
  have v: "json_value (Suc k) d (CHR 0x22 # escape_quotes n @ CHR 0x22 # ?r) = Some ?r" for k d
    using escaped_reads [OF assms(1), of ?r] by simp
  have x: "json_members (Suc (Suc k)) d (in_quotes ''id'' @ '':'' @ in_quotes i @ ''}'') = Some []" for k d
    using json_string_plain [OF assms(2), of "''}''"]
    by (simp add: in_quotes_def json_skip_def json_space_def json_after_def)
  have m: "json_members (Suc (Suc (Suc k))) d (in_quotes ''name'' @ '':'' @ CHR 0x22 # escape_quotes n @ CHR 0x22 # ?r) = Some []" for k d
    using v [of "Suc k" d] x [of k d] by (simp add: in_quotes_def json_skip_def json_space_def json_after_def)
  obtain k where "2 * length (file_object n i) + 2 = Suc (Suc (Suc (Suc k)))"
    by (simp add: file_object_def in_quotes_def)
  then show ?thesis
    using m [of k 9999] by (simp add: json_valid_def) (simp add: file_object_def in_quotes_def json_skip_def json_space_def)
qed

text \<open>After a backslash the closing quote is part of the name, which then ends at the next quote.\<close>

lemma trailing_backslash_breaks:
  assumes "clean_name p"
  shows "\<not> json_valid (file_object (p @ [CHR 0x5C]) i)"
proof -
  let ?t = "''id'' @ CHR 0x22 # '':'' @ in_quotes i @ ''}''"
  let ?s = "CHR 0x22 # escape_quotes p @ CHR 0x5C # CHR 0x22 # CHR '','' # CHR 0x22 # ?t"
  have "json_string (CHR '','' # CHR 0x22 # ?t) = Some ?t" by simp
  then have v: "json_value (Suc k) d ?s = Some ?t" for k d
    using escaped_backslash_reads [OF assms, of "CHR '','' # CHR 0x22 # ?t"] by simp
  have m: "json_members (Suc (Suc k)) d (in_quotes ''name'' @ '':'' @ ?s) = None" for k d
    using v [of k d] by (simp add: in_quotes_def json_skip_def json_space_def json_after_def)
  have o': "file_object (p @ [CHR 0x5C]) i = CHR ''{'' # in_quotes ''name'' @ '':'' @ ?s"
    by (simp add: file_object_def in_quotes_def escape_quotes_def)
  obtain k where "2 * length (file_object (p @ [CHR 0x5C]) i) + 2 = Suc (Suc (Suc k))"
    by (simp add: file_object_def in_quotes_def)
  then show ?thesis
    using m [of k 9999] by (simp add: json_valid_def) (simp add: o' in_quotes_def json_skip_def json_space_def)
qed

end
