(* ===== verification/VoiceProps.thy ===== *)
theory VoiceProps
  imports ModelProps
begin

text \<open>
  A clone that is refused leaves the voices of the user as they were, unless the provider refuses to delete the new one
  again; one that succeeds replaces the old voice by the new one. A voice of the provider is neither changed nor played. A model whose voice stays is deleted with an error.
\<close>

section \<open>Voices of the provider\<close>

text \<open>The three handlers that ask for an editable voice refuse the voices of Mistral itself, the sample among them.\<close>

lemma preset_is_refused:
  assumes "getUserID c = Some u" "voiceProvider e pv w = Inr (xm_mistral e)" "TrimSpace (Param c ''voiceID'') = i" "i \<noteq> []"
    and "xm_get_voice e u (xm_mistral e) i (router w) = (Inr v, r)" "preset v"
  shows "with_editable e c pv k w = reply_error 403 ''preset voice cannot be modified'' (w\<lparr>router := r\<rparr>)"
  using assms routed_is [of "xm_get_voice e u (xm_mistral e) i", OF assms(5)]
  by (simp add: with_editable_def with_voice_provider_def getEditableVoice_def)

lemma preset_sample_is_refused:
  assumes "getUserID c = Some u" "voiceProvider e pv w = Inr (xm_mistral e)" "TrimSpace (Param c ''voiceID'') = i" "i \<noteq> []"
    and "xm_get_voice e u (xm_mistral e) i (router w) = (Inr v, r)" "preset v"
  shows "status (GetVoiceSample e c pv w) = 403"
  by (simp add: GetVoiceSample_def preset_is_refused [OF assms])

section \<open>Cloning\<close>

text \<open>
  A provider whose account is a set of voices: reading and changing a model leaves them alone, a new voice has an ID of
  its own, a creation that fails makes none, a deletion that succeeds removes the one voice it names, and one that fails
  may have removed it or not.
\<close>

definition keeps_voices :: "('r, 'e) model_env_scheme \<Rightarrow> uid \<Rightarrow> ('r \<Rightarrow> string set) \<Rightarrow> bool" where
  "keeps_voices e u V \<longleftrightarrow>
     (\<forall>p r. V (snd (xm_user_model e u p r)) = V r)
     \<and> (\<forall>d r. V (snd (xm_update_everywhere e u d r)) = V r)
     \<and> (\<forall>p i r. V (snd (xm_delete_voice e u p i r)) = V r - {i}
          \<or> \<not> is_ok (fst (xm_delete_voice e u p i r)) \<and> V (snd (xm_delete_voice e u p i r)) = V r)
     \<and> (\<forall>p q r. case fst (xm_create_voice e u p q r) of
          Inl _ \<Rightarrow> V (snd (xm_create_voice e u p q r)) = V r
        | Inr v \<Rightarrow> vo_ID v \<notin> V r \<and> V (snd (xm_create_voice e u p q r)) = insert (vo_ID v) (V r))"

lemma routed_parts: "fst (routed f w) = fst (f (router w))" "router (snd (routed f w)) = snd (f (router w))"
  by (simp_all add: routed_def split: prod.split)

lemma routed_eq: "routed f w = (x, w') \<Longrightarrow> x = fst (f (router w)) \<and> router w' = snd (f (router w))"
  using routed_parts [of f w] by simp

lemma keeps_steps:
  assumes "keeps_voices e u V"
  shows "routed (xm_user_model e u p) w = (m, w') \<Longrightarrow> V (router w') = V (router w)"
    and "routed (xm_update_everywhere e u d) w = (x, w') \<Longrightarrow> V (router w') = V (router w)"
  using assms by - (drule routed_eq, simp only: keeps_voices_def)+

lemma keeps_deletion:
  assumes "keeps_voices e u V" "routed (xm_delete_voice e u p i) w = (y, w')"
  shows "V (router w') = V (router w) - {i} \<or> \<not> is_ok y \<and> V (router w') = V (router w)"
    and "xm_delete_voice e u p i (router w) = (y, router w')"
proof -
  have r: "y = fst (xm_delete_voice e u p i (router w))" "router w' = snd (xm_delete_voice e u p i (router w))"
    using routed_eq [OF assms(2)] by simp_all
  show "V (router w') = V (router w) - {i} \<or> \<not> is_ok y \<and> V (router w') = V (router w)"
    using assms(1) unfolding keeps_voices_def r by blast
  show "xm_delete_voice e u p i (router w) = (y, router w')" by (simp add: r)
qed

lemma keeps_creation:
  assumes "keeps_voices e u V" "routed (xm_create_voice e u p q) w = (x, w')"
  shows "case x of Inl _ \<Rightarrow> V (router w') = V (router w)
    | Inr v \<Rightarrow> vo_ID v \<notin> V (router w) \<and> V (router w') = insert (vo_ID v) (V (router w))"
proof -
  have r: "x = fst (xm_create_voice e u p q (router w))" "router w' = snd (xm_create_voice e u p q (router w))"
    using routed_eq [OF assms(2)] by simp_all
  show ?thesis using assms(1) by (simp only: keeps_voices_def r)
qed

lemma current_keeps:
  assumes "keeps_voices e u V" "currentMistralVoiceID e u w = (i, w')"
  shows "V (router w') = V (router w)"
proof -
  obtain m w1 where m: "routed (xm_user_model e u (xm_mistral e)) w = (m, w1)" by fastforce
  have "w' = w1" using assms(2) m
    by (auto simp: currentMistralVoiceID_def split: sum.splits option.splits prod.splits if_splits)
  then show ?thesis using keeps_steps(1) [OF assms(1) m] by simp
qed

lemma link_keeps:
  assumes "keeps_voices e u V" "linkMistralVoice e u new old w = (res, w')"
  shows "V (router w') = V (router w) \<or> is_ok res \<and> old \<noteq> new \<and> V (router w') = V (router w) - {old}"
proof -
  obtain m w1 where m: "routed (xm_user_model e u (xm_mistral e)) w = (m, w1)" by fastforce
  note k1 = keeps_steps(1) [OF assms(1) m]
  show ?thesis
  proof (cases "\<exists>d. m = Inr (Some d)")
    case False
    then show ?thesis using assms(2) m k1 by (auto simp: linkMistralVoice_def split: sum.splits option.splits)
  next
    case True
    then obtain d where d: "m = Inr (Some d)" by blast
    obtain x w2 where x: "routed (xm_update_everywhere e u (link_voice new d)) w1 = (x, w2)" by fastforce
    obtain y w3 where y: "routed (xm_delete_voice e u (xm_mistral e) old) w2 = (y, w3)" by fastforce
    note k = k1 keeps_steps(2) [OF assms(1) x] keeps_deletion(1) [OF assms(1) y]
    show ?thesis using assms(2) k by (cases x) (auto simp: linkMistralVoice_def m d x y split: if_splits)
  qed
qed

text \<open>
  What a request may leave. One that is answered 201: a new voice, in place of at most one old voice. Any other: the same
  voices, or the new one too if the provider answered the attempt to delete it with an error, which the last state of the
  account shows.
\<close>

definition clone_leaves :: "('r, 'e) model_env_scheme \<Rightarrow> uid \<Rightarrow> ('r \<Rightarrow> string set) \<Rightarrow> 'r \<Rightarrow> bool \<Rightarrow> 'r \<Rightarrow> bool" where
  "clone_leaves e u V before made after =
     (if made then \<exists>new old. new \<notin> V before \<and> V after = insert new (V before - {old})
      else V after = V before
        \<or> (\<exists>p new r err. new \<notin> V before \<and> V r = insert new (V before) \<and> V after = V r
             \<and> xm_delete_voice e u p new r = (Inl err, after)))"

lemma leaves_same: "V after = V before \<Longrightarrow> clone_leaves e u V before False after"
  by (simp add: clone_leaves_def)

lemma leaves_new:
  assumes "new \<notin> V before" "V after = insert new (V before) \<or> old \<noteq> new \<and> V after = insert new (V before) - {old}"
  shows "clone_leaves e u V before True after"
proof -
  have "V after = insert new (V before - {new}) \<or> V after = insert new (V before - {old})" using assms by auto
  then show ?thesis unfolding clone_leaves_def if_True using assms(1) by blast
qed

lemma create_and_link_leaves:
  assumes "keeps_voices e u V" "create_and_link e u p r w = (h, w')"
  shows "clone_leaves e u V (router w) (rs_status h = 201) (router w')"
proof -
  obtain old w1 where o': "(if p = xm_mistral e then currentMistralVoiceID e u w else ([], w)) = (old, w1)" by fastforce
  have k1: "V (router w1) = V (router w)" using o' current_keeps [OF assms(1)] by (auto split: if_splits)
  obtain x w2 where x: "routed (xm_create_voice e u p r) w1 = (x, w2)" by fastforce
  show ?thesis
  proof (cases x)
    case (Inl err)
    then have "(h, w') = reply_error 502 (err_text err) w2" using assms(2) o' x by (simp add: create_and_link_def)
    moreover have "V (router w2) = V (router w)" using keeps_creation [OF assms(1) x] Inl k1 by simp
    ultimately show ?thesis by (simp add: reply_error_def reply_def leaves_same)
  next
    case (Inr v)
    then have k2: "vo_ID v \<notin> V (router w)" "V (router w2) = insert (vo_ID v) (V (router w))"
      using keeps_creation [OF assms(1) x] Inr k1 by simp_all
    show ?thesis
    proof (cases "p = xm_mistral e")
      case False
      then have "(h, w') = reply 201 [(''voice'', vo_Doc v)] w2"
        using assms(2) o' x Inr by (simp add: create_and_link_def)
      then show ?thesis using k2 by (auto simp: reply_def intro: leaves_new)
    next
      case True
      obtain res w3 where l: "linkMistralVoice e u (vo_ID v) old w2 = (res, w3)" by fastforce
      note k3 = link_keeps [OF assms(1) l]
      show ?thesis
      proof (cases res)
        case (Inl err)
        obtain y w4 where y: "routed (xm_delete_voice e u p (vo_ID v)) w3 = (y, w4)" by fastforce
        note d = keeps_deletion [OF assms(1) y]
        have h: "rs_status h \<noteq> 201" "w' = w4"
          using assms(2) o' x Inr l Inl y True by (auto simp: create_and_link_def reply_error_def reply_def)
        have v3: "V (router w3) = insert (vo_ID v) (V (router w))" using k3 k2 Inl by simp
        have "V (router w4) = V (router w) \<or> (\<exists>err. y = Inl err) \<and> V (router w4) = V (router w3)"
          using d(1) v3 k2(1) by (cases y) auto
        then show ?thesis
        proof
          assume "V (router w4) = V (router w)"
          then show ?thesis using h by (simp add: clone_leaves_def)
        next
          assume "(\<exists>err. y = Inl err) \<and> V (router w4) = V (router w3)"
          then obtain err' where "xm_delete_voice e u p (vo_ID v) (router w3) = (Inl err', router w4)"
            "V (router w4) = V (router w3)" using d(2) by blast
          then show ?thesis using h v3 k2(1) unfolding clone_leaves_def by metis
        qed
      next
        case ok: (Inr z)
        then have "(h, w') = reply 201 [(''voice'', vo_Doc v)] w3"
          using assms(2) o' x Inr l True by (simp add: create_and_link_def)
        then show ?thesis using k3 k2 ok leaves_new [of "vo_ID v" V "router w" "router w3" old e u] by (auto simp: reply_def)
      qed
    qed
  qed
qed

lemma cloneProvider_errs: "cloneProvider e pv q w = Inl h \<Longrightarrow> \<exists>m. h = reply_error 400 m w"
  by (auto simp: cloneProvider_def voiceProvider_def getProvider_def Let_def
      split: option.splits if_splits ctx_provider.splits)

definition turned_down :: "'w handled \<Rightarrow> 'w \<Rightarrow> bool" where
  "turned_down h w = (\<exists>n m. n \<noteq> 201 \<and> h = reply_error n m w)"

lemma refused_400: "turned_down (reply_error 400 m w) w" and refused_413: "turned_down (reply_error 413 m w) w"
proof -
  have "(400 :: nat) \<noteq> 201 \<and> reply_error 400 m w = reply_error 400 m w" "(413 :: nat) \<noteq> 201 \<and> reply_error 413 m w = reply_error 413 m w"
    by simp_all
  then show "turned_down (reply_error 400 m w) w" "turned_down (reply_error 413 m w) w" unfolding turned_down_def by blast+
qed

lemma clone_is:
  assumes "getUserID c = Some u"
  shows "turned_down (CloneVoice e c pv q w) w \<or> (\<exists>p k. CloneVoice e c pv q w = create_and_link e u p k w)"
proof (cases "cl_reads q \<and> cl_length q \<le> 128 * MiB")
  case False
  then show ?thesis by (auto simp: CloneVoice_def assms not_le refused_400 refused_413)
next
  case True
  then have t: "\<not> 128 * MiB < cl_length q" "cl_reads q" by auto
  show ?thesis
  proof (cases "cloneProvider e pv q w")
    case (Inl h)
    then show ?thesis using cloneProvider_errs [OF Inl] t by (auto simp: CloneVoice_def assms refused_400)
  next
    case (Inr p)
    note c = CloneVoice_def assms option.case Let_def Inr sum.case t not_True_eq_False if_False
    show ?thesis
    proof (cases "collectVoiceSamples e (cl_form q)")
      case (Inl err)
      then show ?thesis unfolding c by (auto simp: refused_400 refused_413)
    next
      case i: (Inr sn)
      obtain samples names where "sn = (samples, names)" by (cases sn)
      then show ?thesis unfolding c by (auto simp: i refused_400 refused_413)
    qed
  qed
qed

text \<open>C21: A voice that is cloned is never left over unnoticed, whichever provider is asked and whatever goes wrong. When
  the request is answered 201 the account has one new voice and at most one of the others is gone. When it is not, the
  account has exactly the voices it had before, or besides them the one new voice, and then the last call of the request
  was its deletion, which the provider answered with an error. A creation that fails is taken to make no voice; a
  deletion that fails may have worked or not.\<close>

theorem refused_clone_leaves_no_voice:
  assumes "keeps_voices e u V" "getUserID c = Some u"
  shows "clone_leaves e u V (router w) (status (CloneVoice e c pv q w) = 201) (router (snd (CloneVoice e c pv q w)))"
proof -
  have l: "clone_leaves e u V (router w) (status (create_and_link e u p k w) = 201) (router (snd (create_and_link e u p k w)))"
    for p k
    using create_and_link_leaves [OF assms(1)] by (cases "create_and_link e u p k w") (simp add: status_def)
  from clone_is [OF assms(2), of e pv q w] show ?thesis
  proof
    assume "turned_down (CloneVoice e c pv q w) w"
    then show ?thesis by (auto simp: turned_down_def leaves_same)
  next
    assume "\<exists>p k. CloneVoice e c pv q w = create_and_link e u p k w"
    then show ?thesis using l by force
  qed
qed

section \<open>Deleting\<close>

text \<open>At most two voices, none twice and none empty.\<close>

lemma voice_ids_distinct:
  "distinct (mistralVoiceIDs d) \<and> length (mistralVoiceIDs d) \<le> 2 \<and> [] \<notin> set (mistralVoiceIDs d)"
  by (auto simp: mistralVoiceIDs_def add_id_def Let_def split: option.split)

text \<open>No more attempts than the number given, with a pause between two of them.\<close>

lemma attempts_bounded:
  "now w \<le> now (snd (delete_attempts e n u i err0 w)) \<and> now (snd (delete_attempts e n u i err0 w)) \<le> now w + int (n - 1) * retry_pause"
proof (induction n arbitrary: err0 w)
  case (Suc n)
  obtain x r where x: "xm_delete_mistral e u i (router w) = (x, r)" by fastforce
  let ?w = "w\<lparr>router := r\<rparr>"
  let ?v = "if 0 < n then ?w\<lparr>now := now ?w + retry_pause\<rparr> else ?w"
  have p: "0 \<le> retry_pause" by (simp add: retry_pause_def)
  show ?case
  proof (cases x)
    case (Inl err)
    have v: "now ?v = now w + (if 0 < n then retry_pause else 0)" by simp
    have eq: "delete_attempts e (Suc n) u i err0 w = delete_attempts e n u i (Some err) ?v"
      by (simp add: routed_is [of "xm_delete_mistral e u i", OF x] Inl)
    have "int (Suc n - 1) * retry_pause = (if 0 < n then retry_pause else 0) + int (n - 1) * retry_pause"
      by (cases n) (simp_all add: algebra_simps)
    then show ?thesis using Suc.IH [of ?v "Some err"] p unfolding eq v by (cases "0 < n") auto
  next
    case (Inr y)
    then show ?thesis using p by (simp add: routed_is [of "xm_delete_mistral e u i", OF x])
  qed
qed simp

lemma retry_fails:
  assumes "\<forall>r. xm_delete_mistral e u i r = (Inl err, r)"
  shows "deleteMistralVoiceWithRetry e u i w = (Some err, w\<lparr>now := now w + 2 * retry_pause\<rparr>)"
proof -
  have "routed (xm_delete_mistral e u i) v = (Inl err, v)" for v :: "('a, 'c) model_st_scheme"
    using assms by (simp add: routed_def)
  then show ?thesis by (simp add: deleteMistralVoiceWithRetry_def numeral_3_eq_3)
qed

text \<open>C22: A model that uses a voice which the provider refuses to delete, as it does with its own voices, is deleted with an
  error: the model is gone, but after three attempts and two pauses the client is told that its voice is not deleted,
  the other voices are left where they are, and no close message is sent.\<close>

theorem voice_that_stays_spoils_the_deletion:
  assumes "xm_user_model e u (xm_mistral e) (router w) = (Inr (Some d), r)" "mistralVoiceIDs d = i # ids"
    and "xm_delete_model e u (xm_mistral e) r = (Inr x, said, r')" "\<forall>r. xm_delete_mistral e u i r = (Inl err, r)"
  shows "DeleteModelWSS e u (xm_mistral e) w =
    (map SendText said @ [SendText (''model deleted, but voice profile '' @ i @ '' is not: '' @ err_text err)],
     w\<lparr>router := r', now := now w + 2 * retry_pause\<rparr>)"
proof -
  have a: "routed (xm_user_model e u (xm_mistral e)) w = (Inr (Some d), w\<lparr>router := r\<rparr>)"
    using routed_is [of "xm_user_model e u (xm_mistral e)", OF assms(1)] .
  have b: "routed (\<lambda>r. case xm_delete_model e u (xm_mistral e) r of (res, said, r) \<Rightarrow> ((res, said), r)) (w\<lparr>router := r\<rparr>)
      = ((Inr x, said), w\<lparr>router := r'\<rparr>)"
    by (simp add: routed_def assms(3))
  show ?thesis by (simp add: DeleteModelWSS_def a b assms(2) retry_fails [OF assms(4)])
qed

section \<open>Default models\<close>

text \<open>A provider without a default model: the creation refuses, the change stores the empty name.\<close>

lemma update_takes_empty_default:
  assumes "um_Chosen d = None" "provider_label e p = Some n" "xm_defaults e n = Inr m" "fst (ch_General m) = []"
  shows "with_defaults e False p d w = Inr (d\<lparr>um_Chosen := Some m\<rparr>)"
    "with_defaults e True p d w = Inl (reply_error 500 ''no default model'' w)"
  using assms by (simp_all add: with_defaults_def)

end
