(* ===== verification/ModelDemo.thy ===== *)
theory ModelDemo
  imports VoiceProps AccountDemo
begin

text \<open>
  User 7 with one active Mistral model whose column \<open>Ids\<close> is \<open>NULL\<close> and whose voice the provider does not delete. The
  router keeps the voices of the account and numbers new ones by their length.
\<close>

definition small_model :: umodel where
  "small_model = \<lparr>um_fields = [], um_FileIds = [], um_Chosen = None, um_Provider = 2,
     um_VAD = Some \<lparr>va_Mistral = Some \<lparr>mv_VoiceID = Some ''own'', mv_Clone = None, mv_other = JNull\<rparr>, va_other = JNull\<rparr>\<rparr>"

definition longest :: "string list \<Rightarrow> nat" where
  "longest vs = foldr (\<lambda>v n. max (length v) n) vs 0"

definition new_voice :: "string list \<Rightarrow> voice" where
  "new_voice vs = \<lparr>vo_ID = replicate (Suc (longest vs)) (CHR ''v''), vo_UserID = Some ''7'', vo_Doc = JNull\<rparr>"

definition model_env0 :: "string list model_env" where
  "model_env0 = \<lparr>xm_openai = 1, xm_mistral = 2, xm_google = 3, xm_from_string = (\<lambda>s. None), xm_valid = (\<lambda>p. True), xm_name = (\<lambda>p. []),
     xm_json = (\<lambda>p. JInt (int p)), xm_voice_only = (\<lambda>p. False), xm_clones = (\<lambda>p. True), xm_instant = ''instant'',
     xm_mode_ok = (\<lambda>m. m = ''instant''), xm_type = (\<lambda>s. (False, 1)), xm_realtime = (\<lambda>t. False), xm_general = 1,
     xm_list_voices = (\<lambda>u p l k t vs. (Inr (JList (map JStr vs)), vs)), xm_get_voice = (\<lambda>u p i vs. (Inr (new_voice vs), vs)),
     xm_update_voice = (\<lambda>u p i q vs. (Inr (new_voice vs), vs)), xm_delete_voice = (\<lambda>u p i vs. (Inr (new_voice vs), filter (\<lambda>v. v \<noteq> i) vs)),
     xm_sample = (\<lambda>u p i vs. (Inr JNull, vs)), xm_create_voice = (\<lambda>u p q vs. (Inr (new_voice vs), vo_ID (new_voice vs) # vs)),
     xm_delete_mistral = (\<lambda>u i vs. (Inl (Msg ''preset''), vs)), xm_user_model = (\<lambda>u p vs. (Inr (Some small_model), vs)),
     xm_update_everywhere = (\<lambda>u d vs. (Inl (Msg ''down''), vs)), xm_invalidate = (\<lambda>u vs. vs),
     xm_create_model = (\<lambda>u p d fs vs. (Inr JNull, vs)), xm_save_model = (\<lambda>u j d vs. (Inr (), vs)),
     xm_delete_model = (\<lambda>u p vs. (Inr (), [''done''], vs)), xm_upload = (\<lambda>u p n t vs. (Inr n, vs)),
     xm_delete_file = (\<lambda>u p i vs. (Inr (), vs)), xm_set_active = (\<lambda>u p vs. (Inr (), vs)), xm_all_models = (\<lambda>u vs. (Inr JNull, vs)),
     xm_models_list = (\<lambda>p t k vs. (Inr JNull, vs)), xm_capabilities = (\<lambda>n. JNull), xm_available = (\<lambda>u. []),
     xm_api_key = (\<lambda>u p. Inr ''sk''), xm_voice_models = (\<lambda>p. Inr []), xm_defaults = (\<lambda>n. Inl (Msg ''none'')),
     xm_row = (\<lambda>i n. JStr n), xm_rank = length, xm_merge = (\<lambda>t d. Inr (Some t)), xm_ids = (\<lambda>t. Inl (Msg t)), xm_text = (\<lambda>d. []),
     xm_content_type = (\<lambda>a. ''application/octet-stream'')\<rparr>"

definition model_st0 :: "string list model_st" where
  "model_st0 = data_st.extend small_data
     \<lparr>router = [''own''], user_models = [(7, 3, True)], user_gpt = [(3, None)], gpt_names = [], realtime_names = []\<rparr>"

definition by_seven :: gin where
  "by_seven = \<lparr>g_keys = [(''userId'', CtxU32 7)], g_query = [], g_param = []\<rparr>"

lemma by_seven_user: "getUserID by_seven = Some 7"
  by (simp add: getUserID_def by_seven_def)

lemma model_st0_fields [simp]:
  "router model_st0 = [''own'']" "user_models model_st0 = [(7, 3, True)]" "user_gpt model_st0 = [(3, None)]" "faults model_st0 = []"
  by (simp_all add: model_st0_def data_st.defs small_data_def exam_st.defs toy_exam_st_def exam_of_def app_st.defs toy_app_def)

lemma first_file_is_lost_witness:
  "field ''success_count'' (FileAdd model_env0 by_seven (ProviderIs 2) (Inr [(''f1'', ''a.pdf'')]) model_st0) = Some (JInt (int 1))
   \<and> active_ids 7 (snd (FileAdd model_env0 by_seven (ProviderIs 2) (Inr [(''f1'', ''a.pdf'')]) model_st0)) = Some (3, None)"
  using first_file_is_lost [of model_st0 by_seven 7 model_env0 "ProviderIs 2" 2 3 "[(''f1'', ''a.pdf'')]"]
  by (simp add: by_seven_user calm_def getProvider_def active_ids_def)

lemma longest_ge: "v \<in> set vs \<Longrightarrow> length v \<le> longest vs"
  by (induction vs) (auto simp: longest_def)

text \<open>The same provider, refusing every deletion.\<close>

definition refusing_env :: "string list model_env" where
  "refusing_env = model_env0\<lparr>xm_delete_voice := (\<lambda>u p i vs. (Inl (Msg ''down''), vs))\<rparr>"

lemma refusing_keeps: "keeps_voices refusing_env 7 set"
proof -
  have "replicate (Suc (longest vs)) (CHR ''v'') \<notin> set vs" for vs
    using longest_ge [of "replicate (Suc (longest vs)) (CHR ''v'')" vs] by auto
  then show ?thesis by (auto simp: keeps_voices_def refusing_env_def model_env0_def new_voice_def)
qed

definition clone_of_mine :: clone_req where
  "clone_of_mine = \<lparr>cl_reads = True, cl_length = 9,
     cl_form = Some \<lparr>cf_values = [(''name'', [''mine''])],
       cf_files = [(''file'', [\<lparr>sm_Filename = ''a.mp3'', sm_Content = Some ''sound''\<rparr>])]\<rparr>, cl_post = []\<rparr>"

lemma refused_clone_leaves_no_voice_witness:
  "clone_leaves refusing_env 7 set (router model_st0)
     (status (CloneVoice refusing_env by_seven NoProvider clone_of_mine model_st0) = 201)
     (router (snd (CloneVoice refusing_env by_seven NoProvider clone_of_mine model_st0)))"
  by (rule refused_clone_leaves_no_voice [OF refusing_keeps by_seven_user])

lemma small_model_voice: "mistralVoiceIDs small_model = [''own'']"
  by code_simp

lemma voice_that_stays_spoils_the_deletion_witness:
  "DeleteModelWSS model_env0 7 (xm_mistral model_env0) model_st0 =
    (map SendText [''done''] @ [SendText (''model deleted, but voice profile '' @ ''own'' @ '' is not: '' @ err_text (Msg ''preset''))],
     model_st0\<lparr>router := [''own''], now := now model_st0 + 2 * retry_pause\<rparr>)"
  by (rule voice_that_stays_spoils_the_deletion [OF _ small_model_voice]) (simp_all add: model_env0_def)

end
