(* ===== verification/Spec2Isabelle.thy ===== *)
theory Spec2Isabelle
  imports ReservationTick StorageWebDemo WidgetDemo ChannelsDemo PlannerDemo NoticesProps McpProps TestWebProps RealtimeProps ProxiesDemo ProfileDemo ModelDemo
begin

text \<open>
  A verification development for the orchestrator, a Go server that keeps users' accounts, files, channels and test
  sessions of their models. Package paths below are relative to \<open>src/internal\<close>. The code is translated by hand,
  function by function: a Go function is a HOL function of its arguments and of an explicit state, a struct is a record,
  an error is the left side of a sum, a panic is \<open>None\<close>, an integer has its width where it can overflow.

  \<^bold>\<open>The program.\<close> Requests reach gin handlers (\<open>delivery/http\<close>) through middleware that checks tokens and rates;
  handlers call use cases (\<open>usecase\<close>) and the repository (\<open>repository/mysql\<close>), which runs SQL statements. Files lie in
  an object store (\<open>infrastructure/storage\<close>) next to reservations and flags in Redis (\<open>infrastructure/redis\<close>); the quota
  of a user lies in MySQL. A security service (\<open>infrastructure/security\<close>) keeps session keys and master keys and seals
  what is stored. A scheduler, a gRPC server and an MCP server run beside it, and many handlers only pass a request on to
  another service.

  \<^bold>\<open>State.\<close> One record grows along the components, each theory extending the one before: \<open>env\<close> (time and the faults to
  come), Redis, the quota table, object stores, configurations and migrations, settings, security, user data, accounts,
  the web server, channels, notifications, profiles and dialogs. Operations are polymorphic in what extends their part of
  the state, so that every fact of a component holds in the whole. Every call that can fail draws one boolean from the
  list \<open>faults\<close>; \<open>calm\<close> says that none of them is set. What a property says of all fault lists covers every place at
  which a call can fail.

  \<^bold>\<open>Theories.\<close>
  \<^item> \<open>Prelude\<close>, \<open>Http\<close>, \<open>JsonText\<close>, \<open>Url\<close>: errors, strings, decimal numbers, time; responses and the gin context;
    \<open>json.Valid\<close>; the query strings of \<open>net/url\<close> with the proof that what is written is read back.
  \<^item> \<open>Cache\<close>, \<open>CacheRecords\<close>: \<open>infrastructure/redis/client.go\<close> and the documents of \<open>storage/cache.go\<close> and
    \<open>storage/reservation.go\<close>. The locale \<open>timed_cache\<close> states what a cache promises.
  \<^item> \<open>Quota\<close>, \<open>Objects\<close>: the quota table of \<open>mysql/storage.go\<close> and \<open>minio_client.go\<close>, with the locales \<open>quota_ledger\<close>
    and \<open>object_store\<close>.
  \<^item> \<open>Reservation\<close> to \<open>ReservationTick\<close>: \<open>usecase/storage/reservation.go\<close>. A step relation for its calls, the ledger
    invariant, limits along every run, what a commit, a retry, a refusal and the periodic tick do.
  \<^item> \<open>Endpoint\<close>, \<open>Config\<close>, \<open>Files\<close>, \<open>Sessions\<close>: the check of external addresses, the factory of stores, the files of
    tools, temporary credentials.
  \<^item> \<open>Migration\<close> to \<open>MigrationDemo\<close>: \<open>usecase/storage/migration.go\<close>. Nothing is lost between two stores; what happens
    when source and target are one store; the states of a job.
  \<^item> \<open>StorageWeb\<close>, \<open>StorageWebProps\<close>, \<open>StorageWebDemo\<close>: \<open>delivery/http/storage.go\<close>. The isolation of users and what
    the quota shown means.
  \<^item> \<open>Sealing\<close>, \<open>AppConfig\<close>, \<open>AppConfigProps\<close>: sealed texts and the settings table; rekeying as a refinement of the
    identity.
  \<^item> \<open>Exam\<close>, \<open>ExamProps\<close>, \<open>Widget\<close>, \<open>WidgetProps\<close>, \<open>WidgetDemo\<close>: \<open>security/exam.go\<close> and \<open>widget.go\<close>. Round trips and
    bounds of tokens, codes and keys.
  \<^item> \<open>UserData\<close>, \<open>UserDataProps\<close>, \<open>EncryptionProps\<close>: the nine encryptions of \<open>mysql/security.go\<close> and \<open>api_keys.go\<close>, by
    the locales \<open>sealing_pass\<close> and \<open>table_reader\<close>, each interpreted on every table.
  \<^item> \<open>Accounts\<close>, \<open>UseCases\<close>, \<open>Gate\<close>, \<open>AuthWeb\<close>, \<open>DevWeb\<close>, \<open>AccountProps\<close>, \<open>LoginProps\<close>, \<open>AccountDemo\<close>: accounts, the use
    cases of authentication and master keys, middleware and rate limiter, the handlers of \<open>auth.go\<close>, \<open>totp.go\<close>,
    \<open>master_key.go\<close> and \<open>dev.go\<close>. Two factors along every run (locale \<open>bystander\<close>), and what passes the guards.
  \<^item> \<open>Channels\<close>, \<open>Notices\<close>, \<open>Planner\<close> with their properties: channels, notifications and the scheduler.
  \<^item> \<open>Profiles\<close>, \<open>Dialogs\<close>, \<open>ProfileProps\<close>, \<open>ProfileDemo\<close>: profiles, services, operators, keys of providers, dialogs and
    the log a user is shown. Two stored procedures of \<open>migrations/air.sql\<close> are modelled on their own: nothing says that
    the methods of air-common which the handlers call run them.
  \<^item> \<open>ModelStore\<close>, \<open>Voices\<close>, \<open>Models\<close>, \<open>ModelProps\<close>, \<open>VoiceProps\<close>, \<open>ModelDemo\<close>: \<open>delivery/http/model_crud.go\<close> and
    \<open>mysql/model.go\<close>. The router of models is a type parameter. What a clone of a voice leaves behind, even when deletions fail, what the deletion
    of a model reports, and which files are stored.
  \<^item> \<open>Grpc\<close>, \<open>Mcp\<close>, \<open>McpProps\<close>: the gRPC server with its proxy of calls, the MCP server and its tools.
  \<^item> \<open>TestApi\<close>, \<open>TestWeb\<close>, \<open>Realtime\<close> with their properties: test sessions, their WebSocket, their voice. Operations that
    overlap are tasks of a step relation; the three goroutines of the WebSocket take turns in any order.
  \<^item> \<open>Proxies\<close>, \<open>Bridges\<close>, \<open>Routes\<close>, \<open>ProxiesProps\<close>, \<open>ProxiesDemo\<close>: the handlers that pass requests and WebSockets on to
    other services, and the table of routes with the middleware of each.

  \<^bold>\<open>Bounds and fuel.\<close> The readers of \<open>JsonText\<close> take fuel \<open>2 n + 2\<close> for a text of \<open>n\<close> bytes, one unit per value, member
  or element. Trimming takes the length of the text. The loop of the key derivation and the emptying of a channel are
  \<open>partial_function\<close>s: that the first ends is proved, and of the second when it ends. A migration retries a call three
  times, as the code does, and so does the deletion of a voice. The two buffers of a test session hold 2000 entries each, as in the code.

  \<^bold>\<open>Parameters.\<close> Code that is not in the repository is an argument: AES-GCM, hashes, bcrypt, PBKDF2, JWT and Ed25519 with
  their documented laws as named predicates; DNS; the Redis server by the effect of its commands; the token bucket of
  \<open>x/time/rate\<close>; the packages of air-common (the router of models, the channel of a model, the start of a session, field
  encryption, \<open>ReadDialog\<close> and \<open>DeleteDialog\<close>); the merge of two JSON texts
  by the database server and the detection of content types; S3 credentials; the services behind proxies; Google and ElevenLabs.
  A SQL statement is its effect on the rows, with the keys, checks and ranges of the schema. Random bytes are taken from
  the state.

  \<^bold>\<open>Not modelled.\<close> The handlers of \<open>embedding.go\<close> translate requests into calls of a package that is not in the
  repository, and so does \<open>google_oauth.go\<close>. Mail (\<open>smtp.go\<close>) and the notes to
  administrators are network I/O over templates. The profiler and the metrics measure the running process. The wiring
  (\<open>cmd\<close>, \<open>app\<close>, \<open>db\<close>) builds the components and reads the environment. The documentation of the API and the gRPC stubs
  are generated. Log lines, deadlines of network connections and the texts of progress messages are left out everywhere;
  Russian texts of errors are short English names.
\<close>

end
